(* ===== verification/Prelude.thy ===== *)
theory Prelude
  imports Complex_Main "HOL-Library.Word" "HOL-Library.Char_ord" "HOL-Library.List_Lexorder"
    "HOL-Library.Sublist"
begin

text \<open>
  Shared vocabulary of the development: machine integers, results, the fragment of Rust's
  \<open>str\<close> API the program uses (strings are lists of ASCII characters), \<open>BTreeMap\<close> as a
  strictly sorted association list, and SQL-style row updates on lists of rows.
  The collections \<open>rows\<close>, \<open>btree\<close> and \<open>strs\<close> hold the simplification rules of the three.
\<close>

named_theorems rows "row updates, selections and deletions on tables"
named_theorems btree "lookups and invariants of sorted association lists"
named_theorems strs "the str functions of the Rust standard library"

type_synonym u8 = "8 word"
type_synonym u16 = "16 word"
type_synonym u32 = "32 word"
type_synonym u64 = "64 word"

text \<open>A \<open>Uuid\<close> is its canonical text; a timestamp column is RFC 3339 text.\<close>

type_synonym uuid = string
type_synonym timestamp = string

section \<open>Results\<close>

text \<open>\<open>Result<T, E>\<close> is \<open>'e + 'a\<close>, with \<open>Inl\<close> the error; \<open>res_bind\<close> is the \<open>?\<close> operator.\<close>

definition res_bind :: "'e + 'a \<Rightarrow> ('a \<Rightarrow> 'e + 'b) \<Rightarrow> 'e + 'b" where
  "res_bind r f = (case r of Inl e \<Rightarrow> Inl e | Inr a \<Rightarrow> f a)"

lemma res_bind_simps [simp]:
  "res_bind (Inl e) f = Inl e" "res_bind (Inr a) f = f a"
  by (simp_all add: res_bind_def)

lemma res_bind_Inr_conv:
  "res_bind r f = Inr b \<longleftrightarrow> (\<exists>a. r = Inr a \<and> f a = Inr b)"
  by (cases r) simp_all

definition is_ok :: "'e + 'a \<Rightarrow> bool" where
  "is_ok r = (case r of Inl _ \<Rightarrow> False | Inr _ \<Rightarrow> True)"

lemma is_ok_simps [simp]: "is_ok (Inr a)" "\<not> is_ok (Inl e)"
  by (simp_all add: is_ok_def)

lemma is_ok_conv: "is_ok r \<longleftrightarrow> (\<exists>a. r = Inr a)"
  by (cases r) simp_all

fun all_ok :: "('a \<Rightarrow> 'e + unit) \<Rightarrow> 'a list \<Rightarrow> 'e + unit" where
  "all_ok f [] = Inr ()"
| "all_ok f (x # xs) = res_bind (f x) (\<lambda>_. all_ok f xs)"

lemma all_ok_Inr: "all_ok f xs = Inr () \<longleftrightarrow> (\<forall>x \<in> set xs. f x = Inr ())"
  by (induction xs) (auto simp: res_bind_Inr_conv)

fun map_ok :: "('a \<Rightarrow> 'e + 'b) \<Rightarrow> 'a list \<Rightarrow> 'e + 'b list" where
  "map_ok f [] = Inr []"
| "map_ok f (x # xs) = res_bind (f x) (\<lambda>y. res_bind (map_ok f xs) (\<lambda>ys. Inr (y # ys)))"

lemma map_ok_Inr: "(\<And>x. x \<in> set xs \<Longrightarrow> f x = Inr (g x)) \<Longrightarrow> map_ok f xs = Inr (map g xs)"
  by (induction xs) auto

section \<open>Strings\<close>

definition is_ws :: "char \<Rightarrow> bool" where
  "is_ws c \<longleftrightarrow> (let n = (of_char c :: nat) in n = 32 \<or> 9 \<le> n \<and> n \<le> 13)"

definition is_ascii_alpha :: "char \<Rightarrow> bool" where
  "is_ascii_alpha c \<longleftrightarrow> (let n = (of_char c :: nat) in 65 \<le> n \<and> n \<le> 90 \<or> 97 \<le> n \<and> n \<le> 122)"

definition is_digit :: "char \<Rightarrow> bool" where
  "is_digit c \<longleftrightarrow> (let n = (of_char c :: nat) in 48 \<le> n \<and> n \<le> 57)"

definition digit_val :: "char \<Rightarrow> nat" where
  "digit_val c = of_char c - 48"

definition trim_start :: "string \<Rightarrow> string" where
  "trim_start s = dropWhile is_ws s"

definition trim_end :: "string \<Rightarrow> string" where
  "trim_end s = rev (dropWhile is_ws (rev s))"

definition trim :: "string \<Rightarrow> string" where
  "trim s = trim_end (trim_start s)"

text \<open>\<open>Option::unwrap_or\<close>.\<close>

definition unwrap_or :: "'a \<Rightarrow> 'a option \<Rightarrow> 'a" where
  "unwrap_or d x = (case x of None \<Rightarrow> d | Some y \<Rightarrow> y)"

definition starts_with :: "string \<Rightarrow> string \<Rightarrow> bool" where
  "starts_with s p = prefix p s"

definition contains_str :: "string \<Rightarrow> string \<Rightarrow> bool" where
  "contains_str s p = sublist p s"

definition strip_prefix :: "string \<Rightarrow> string \<Rightarrow> string option" where
  "strip_prefix p s = (if prefix p s then Some (drop (length p) s) else None)"

fun join :: "string \<Rightarrow> string list \<Rightarrow> string" where
  "join sep [] = []"
| "join sep [x] = x"
| "join sep (x # y # xs) = x @ sep @ join sep (y # xs)"

text \<open>\<open>str::split\<close> on a predicate: never empty, the pieces hold no separator.\<close>

fun split_on :: "(char \<Rightarrow> bool) \<Rightarrow> string \<Rightarrow> string list" where
  "split_on p [] = [[]]"
| "split_on p (c # cs) =
     (if p c then [] # split_on p cs
      else case split_on p cs of [] \<Rightarrow> [[c]] | w # ws \<Rightarrow> (c # w) # ws)"

text \<open>\<open>str::split_once(c)\<close>.\<close>

fun split_once :: "char \<Rightarrow> string \<Rightarrow> (string \<times> string) option" where
  "split_once d [] = None"
| "split_once d (c # cs) =
     (if c = d then Some ([], cs) else map_option (\<lambda>(a, b). (c # a, b)) (split_once d cs))"

lemma split_on_nonempty [simp]: "split_on p s \<noteq> []"
  by (induction s) (auto split: list.splits)

lemma split_on_pieces: "\<forall>w \<in> set (split_on p s). \<forall>c \<in> set w. \<not> p c"
  by (induction s) (auto split: list.splits)

lemma split_once_Some:
  "split_once d s = Some (a, b) \<longleftrightarrow> s = a @ d # b \<and> d \<notin> set a"
proof (induction s arbitrary: a)
  case (Cons c s)
  show ?case
  proof (cases a)
    case Nil
    then show ?thesis by auto
  next
    case (Cons x xs)
    have "(split_once d (c # s) = Some (a, b)) \<longleftrightarrow> c \<noteq> d \<and> x = c \<and> split_once d s = Some (xs, b)"
      using Cons by auto
    then show ?thesis using Cons Cons.IH [of xs] by auto
  qed
qed simp

lemma split_once_None: "split_once d s = None \<longleftrightarrow> d \<notin> set s"
  by (induction s) auto

lemma trim_start_id [strs]: "s = [] \<or> \<not> is_ws (hd s) \<Longrightarrow> trim_start s = s"
  by (cases s) (auto simp: trim_start_def)

lemma trim_end_id [strs]: "s = [] \<or> \<not> is_ws (last s) \<Longrightarrow> trim_end s = s"
proof -
  assume "s = [] \<or> \<not> is_ws (last s)"
  then have "dropWhile is_ws (rev s) = rev s"
    by (cases "rev s") (auto simp: hd_rev [symmetric])
  then show ?thesis by (simp add: trim_end_def)
qed

lemma trim_id [strs]: "\<forall>c \<in> set s. \<not> is_ws c \<Longrightarrow> trim s = s"
  by (cases "s = []") (auto simp: trim_def trim_start_id trim_end_id)

section \<open>Unsigned decimal text\<close>

text \<open>
  \<open>str::parse::<u64>()\<close>: an optional plus sign, at least one digit, only digits, and the
  value within the type.
\<close>

fun digits_val :: "nat \<Rightarrow> string \<Rightarrow> nat" where
  "digits_val acc [] = acc"
| "digits_val acc (c # cs) = digits_val (10 * acc + digit_val c) cs"

definition parse_u64 :: "string \<Rightarrow> u64 option" where
  "parse_u64 s =
     (let ds = (case s of c # cs \<Rightarrow> if c = CHR ''+'' then cs else s | [] \<Rightarrow> s)
      in if ds \<noteq> [] \<and> list_all is_digit ds \<and> digits_val 0 ds < 2 ^ 64
         then Some (of_nat (digits_val 0 ds)) else None)"

definition digit_char :: "nat \<Rightarrow> char" where
  "digit_char n = char_of (48 + n)"

fun show_nat :: "nat \<Rightarrow> string" where
  "show_nat n = (if n < 10 then [digit_char n] else show_nat (n div 10) @ [digit_char (n mod 10)])"

declare show_nat.simps [simp del]

lemma digits_val_append: "digits_val acc (xs @ ys) = digits_val (digits_val acc xs) ys"
  by (induction xs arbitrary: acc) auto

lemma of_char_digit: "n < 10 \<Longrightarrow> of_char (digit_char n) = (48 + n :: nat)"
  by (simp add: digit_char_def)

lemma digit_char_props:
  assumes "n < 10"
  shows "is_digit (digit_char n)" "digit_val (digit_char n) = n"
    "\<not> is_ws (digit_char n)" "\<not> is_ascii_alpha (digit_char n)" "digit_char n \<noteq> CHR ''+''"
proof -
  show "is_digit (digit_char n)" "digit_val (digit_char n) = n"
    "\<not> is_ws (digit_char n)" "\<not> is_ascii_alpha (digit_char n)"
    using assms
    by (simp_all add: is_digit_def digit_val_def is_ws_def is_ascii_alpha_def of_char_digit Let_def)
  show "digit_char n \<noteq> CHR ''+''"
  proof
    assume "digit_char n = CHR ''+''"
    then have "of_char (digit_char n) = (of_char (CHR ''+'') :: nat)" by simp
    with assms show False by (simp add: of_char_digit)
  qed
qed

lemma show_nat_digits: "\<forall>c \<in> set (show_nat n). \<exists>d < 10. c = digit_char d"
proof (induction n rule: show_nat.induct)
  case (1 n)
  show ?case
  proof (cases "n < 10")
    case True
    then show ?thesis by (subst show_nat.simps) auto
  next
    case False
    with 1 show ?thesis by (subst show_nat.simps) (auto intro: exI [of _ "n mod 10"])
  qed
qed

lemma show_nat_nonempty [simp]: "show_nat n \<noteq> []"
  by (subst show_nat.simps) simp

lemma digits_val_show_nat: "digits_val 0 (show_nat n) = n"
proof (induction n rule: show_nat.induct)
  case (1 n)
  show ?case
  proof (cases "n < 10")
    case True
    then show ?thesis by (subst show_nat.simps) (simp add: digit_char_props)
  next
    case False
    with 1 show ?thesis
      by (subst show_nat.simps) (simp add: digits_val_append digit_char_props)
  qed
qed

lemma show_nat_char_props:
  assumes "c \<in> set (show_nat n)"
  shows "is_digit c" "\<not> is_ws c" "\<not> is_ascii_alpha c" "c \<noteq> CHR ''+''"
  using assms show_nat_digits [of n] digit_char_props by metis+

lemma parse_u64_show_nat [strs]:
  assumes "n < 2 ^ 64"
  shows "parse_u64 (show_nat n) = Some (of_nat n)"
proof -
  obtain c cs where s: "show_nat n = c # cs" using show_nat_nonempty by (cases "show_nat n") auto
  then have "c \<noteq> CHR ''+''" using show_nat_char_props(4) [of c n] by simp
  moreover have "list_all is_digit (show_nat n)"
    by (simp add: list_all_iff show_nat_char_props(1))
  moreover have "(case show_nat n of c # cs \<Rightarrow> if c = CHR ''+'' then cs else show_nat n | [] \<Rightarrow> show_nat n)
      = show_nat n"
    using \<open>c \<noteq> CHR ''+''\<close> by (simp add: s)
  ultimately show ?thesis
    using assms by (simp add: parse_u64_def Let_def digits_val_show_nat)
qed

section \<open>Sorted association lists (BTreeMap)\<close>

type_synonym ('k, 'v) btree_map = "('k \<times> 'v) list"

fun bt_insert :: "'k::linorder \<Rightarrow> 'v \<Rightarrow> ('k, 'v) btree_map \<Rightarrow> ('k, 'v) btree_map" where
  "bt_insert k v [] = [(k, v)]"
| "bt_insert k v ((k', v') # m) =
     (if k < k' then (k, v) # (k', v') # m
      else if k = k' then (k, v) # m
      else (k', v') # bt_insert k v m)"

definition bt_remove :: "'k \<Rightarrow> ('k, 'v) btree_map \<Rightarrow> ('k, 'v) btree_map" where
  "bt_remove k m = filter (\<lambda>(k', _). k' \<noteq> k) m"

definition bt_extend :: "('k::linorder, 'v) btree_map \<Rightarrow> ('k, 'v) btree_map \<Rightarrow> ('k, 'v) btree_map" where
  "bt_extend m xs = fold (\<lambda>(k, v). bt_insert k v) xs m"

abbreviation bt_sorted :: "('k::linorder, 'v) btree_map \<Rightarrow> bool" where
  "bt_sorted m \<equiv> sorted_wrt (<) (map fst m)"

lemma set_bt_insert: "fst ` set (bt_insert k v m) = insert k (fst ` set m)"
  by (induction k v m rule: bt_insert.induct) auto

lemma bt_sorted_insert [btree]: "bt_sorted m \<Longrightarrow> bt_sorted (bt_insert k v m)"
proof (induction k v m rule: bt_insert.induct)
  case (2 k v k' v' m)
  have "\<forall>x \<in> fst ` set (bt_insert k v m). x = k \<or> x \<in> fst ` set m"
    by (simp add: set_bt_insert)
  with 2 show ?case by (fastforce simp: image_iff)
qed simp

lemma bt_lookup_insert [btree]:
  "bt_sorted m \<Longrightarrow> map_of (bt_insert k v m) = (map_of m)(k \<mapsto> v)"
proof (induction k v m rule: bt_insert.induct)
  case (2 k v k' v' m)
  then show ?case by (auto simp: fun_eq_iff)
qed auto

lemma bt_sorted_remove [btree]: "bt_sorted m \<Longrightarrow> bt_sorted (bt_remove k m)"
  by (induction m) (auto simp: bt_remove_def)

lemma bt_lookup_remove [btree]: "map_of (bt_remove k m) = (map_of m)(k := None)"
  by (induction m) (auto simp: bt_remove_def fun_eq_iff)

lemma bt_sorted_extend [btree]: "bt_sorted m \<Longrightarrow> bt_sorted (bt_extend m xs)"
  by (induction xs arbitrary: m) (auto simp: bt_extend_def bt_sorted_insert)

lemma bt_sorted_distinct: "bt_sorted m \<Longrightarrow> distinct (map fst m)"
  by (simp add: strict_sorted_iff)

lemma bt_lookup_extend [btree]:
  "bt_sorted m \<Longrightarrow> distinct (map fst xs) \<Longrightarrow> map_of (bt_extend m xs) = map_of m ++ map_of xs"
proof (induction xs arbitrary: m)
  case (Cons x xs)
  obtain k v where x: "x = (k, v)" by (cases x)
  have "map_of (bt_extend m (x # xs)) = map_of (bt_extend (bt_insert k v m) xs)"
    by (simp add: bt_extend_def x)
  also have "\<dots> = (map_of m)(k \<mapsto> v) ++ map_of xs"
    using Cons x by (simp add: bt_sorted_insert bt_lookup_insert)
  also have "\<dots> = map_of m ++ map_of (x # xs)"
  proof -
    have "map_of xs k = None" using Cons.prems x by (simp add: map_of_eq_None_iff)
    then show ?thesis by (auto simp: fun_eq_iff map_add_def x split: option.splits)
  qed
  finally show ?case .
qed (simp add: bt_extend_def)

section \<open>Tables as lists of rows\<close>

definition update_rows :: "('r \<Rightarrow> bool) \<Rightarrow> ('r \<Rightarrow> 'r) \<Rightarrow> 'r list \<Rightarrow> 'r list" where
  "update_rows p f t = map (\<lambda>r. if p r then f r else r) t"

definition delete_rows :: "('r \<Rightarrow> bool) \<Rightarrow> 'r list \<Rightarrow> 'r list" where
  "delete_rows p t = filter (\<lambda>r. \<not> p r) t"

lemma update_rows_simps [simp]:
  "update_rows p f [] = []"
  "update_rows p f (r # t) = (if p r then f r else r) # update_rows p f t"
  "length (update_rows p f t) = length t"
  by (simp_all add: update_rows_def)

lemma delete_rows_simps [simp]:
  "delete_rows p [] = []"
  "delete_rows p (r # t) = (if p r then delete_rows p t else r # delete_rows p t)"
  by (simp_all add: delete_rows_def)

lemma set_update_rows [rows]:
  "set (update_rows p f t) = {r \<in> set t. \<not> p r} \<union> f ` {r \<in> set t. p r}"
  by (auto simp: update_rows_def)

lemma set_delete_rows [rows]: "set (delete_rows p t) = {r \<in> set t. \<not> p r}"
  by (simp add: delete_rows_def)

lemma map_update_rows [rows]:
  "(\<And>r. p r \<Longrightarrow> g (f r) = g r) \<Longrightarrow> map g (update_rows p f t) = map g t"
  by (induction t) auto

lemma find_update_rows_same [rows]:
  "(\<And>r. p r \<Longrightarrow> q (f r) = q r) \<Longrightarrow>
     find q (update_rows p f t) = map_option (\<lambda>r. if p r then f r else r) (find q t)"
  by (induction t) auto

lemma filter_update_rows_disjoint [rows]:
  "(\<And>r. p r \<Longrightarrow> \<not> q r) \<Longrightarrow> (\<And>r. p r \<Longrightarrow> \<not> q (f r)) \<Longrightarrow>
     filter q (update_rows p f t) = filter q t"
  by (induction t) auto

lemma find_delete_rows_other [rows]:
  "(\<And>r. q r \<Longrightarrow> \<not> p r) \<Longrightarrow> find q (delete_rows p t) = find q t"
  by (induction t) auto

lemma find_delete_rows_None [rows]:
  "(\<And>r. q r \<Longrightarrow> p r) \<Longrightarrow> find q (delete_rows p t) = None"
  by (auto simp: find_None_iff set_delete_rows)

lemma map_delete_rows_distinct [rows]:
  "distinct (map g t) \<Longrightarrow> distinct (map g (delete_rows p t))"
  by (induction t) (auto simp: set_delete_rows)

lemma find_append: "find p (xs @ ys) = (case find p xs of None \<Rightarrow> find p ys | Some x \<Rightarrow> Some x)"
  by (induction xs) auto

lemma find_distinct_key:
  "distinct (map g t) \<Longrightarrow> r \<in> set t \<Longrightarrow> find (\<lambda>x. g x = g r) t = Some r"
  by (induction t) auto

lemma find_SomeD: "find p t = Some r \<Longrightarrow> r \<in> set t \<and> p r"
  by (induction t) (auto split: if_splits)

end
