(* ===== verification/Proto_Types.thy ===== *)
theory Proto_Types
  imports Prelude
begin

text \<open>
  The data model shared by control plane and daemons (crates/protocol: state.rs, manifest.rs,
  event.rs): lifecycle states and their public names, durations, node facts, the agent manifest
  with its serde defaults, the auto-suspend policy and log events.
  A JSON \<open>Value\<close> is the datatype \<open>json\<close> (a number is kept as its literal).
\<close>

section \<open>JSON values\<close>

datatype json =
    JNull
  | JBool bool
  | JNum string
  | JStr string
  | JArr "json list"
  | JObj "(string \<times> json) list"

section \<open>Lifecycle states (state.rs)\<close>

datatype agent_state =
  Provisioning | Active | Suspended | Restoring | Failed | Decommissioned

definition public_status :: "agent_state \<Rightarrow> bool \<Rightarrow> string" where
  "public_status state busy =
     (case state of
        Active \<Rightarrow> if busy then ''running'' else ''idle''
      | Suspended \<Rightarrow> ''sleeping''
      | Provisioning \<Rightarrow> ''waking''
      | Restoring \<Rightarrow> ''waking''
      | Failed \<Rightarrow> ''failed''
      | Decommissioned \<Rightarrow> ''decommissioned'')"

datatype duration_error = InvalidDuration string | UnknownUnit string string

definition unit_secs :: "string \<Rightarrow> u64 option" where
  "unit_secs u =
     (if u = [] \<or> u = ''s'' \<or> u = ''sec'' \<or> u = ''secs'' then Some 1
      else if u = ''m'' \<or> u = ''min'' \<or> u = ''mins'' then Some 60
      else if u = ''h'' \<or> u = ''hr'' \<or> u = ''hrs'' then Some 3600
      else if u = ''d'' \<or> u = ''day'' \<or> u = ''days'' then Some 86400
      else None)"

text \<open>The product wraps at 64 bits (release profile: no overflow checks).\<close>

definition parse_duration_secs :: "string \<Rightarrow> duration_error + u64" where
  "parse_duration_secs text0 =
     (let text = trim text0;
          num = takeWhile (\<lambda>c. \<not> is_ascii_alpha c) text;
          unit = dropWhile (\<lambda>c. \<not> is_ascii_alpha c) text
      in case parse_u64 (trim num) of
           None \<Rightarrow> Inl (InvalidDuration text)
         | Some n \<Rightarrow>
             (case unit_secs (trim unit) of
                None \<Rightarrow> Inl (UnknownUnit (trim unit) text)
              | Some mult \<Rightarrow> Inr (n * mult)))"

datatype gpu_kind = Nvidia | Apple | OtherGpu

record gpu_info =
  g_index :: u32
  g_kind :: gpu_kind
  g_name :: string
  g_vram_total_mib :: "u64 option"
  g_vram_free_mib :: "u64 option"

record node_capacity =
  c_vcpu_total :: u32
  c_memory_mib_total :: u64
  c_disk_mib_total :: u64
  c_gpus :: "gpu_info list"

definition default_node_capacity :: node_capacity where
  "default_node_capacity =
     \<lparr>c_vcpu_total = 0, c_memory_mib_total = 0, c_disk_mib_total = 0, c_gpus = []\<rparr>"

text \<open>The load average is a float that nothing modelled here reads; it is kept as text.\<close>

record node_usage =
  u_memory_mib_free :: u64
  u_cpu_load1 :: string
  u_disk_mib_free :: u64
  u_gpus :: "gpu_info list"

definition default_node_usage :: node_usage where
  "default_node_usage =
     \<lparr>u_memory_mib_free = 0, u_cpu_load1 = ''0'', u_disk_mib_free = 0, u_gpus = []\<rparr>"

type_synonym labels = "(string, string) btree_map"

record daemon_info =
  i_endpoint_id :: string
  i_hostname :: string
  i_os :: string
  i_arch :: string
  i_labels :: labels
  i_max_agents :: u32
  i_agents :: "uuid list"
  i_capacity :: node_capacity
  i_usage :: node_usage

section \<open>The agent manifest (manifest.rs)\<close>

record gpu_resources =
  gr_count :: u32
  gr_vram_mib :: "u64 option"

record resources =
  r_vcpu :: u32
  r_memory_mib :: u64
  r_disk_mib :: u64
  r_gpu :: "gpu_resources option"

definition default_vcpu :: u32 where "default_vcpu = 2"
definition default_memory_mib :: u64 where "default_memory_mib = 2048"
definition default_disk_mib :: u64 where "default_disk_mib = 5120"

definition default_resources :: resources where
  "default_resources =
     \<lparr>r_vcpu = default_vcpu, r_memory_mib = default_memory_mib,
      r_disk_mib = default_disk_mib, r_gpu = None\<rparr>"

record schedule =
  s_require :: labels
  s_daemon :: "string option"

record harness =
  h_kind :: string
  h_version :: string

record model_spec =
  ms_provider :: string
  ms_id :: string
  ms_thinking :: "string option"

record repo =
  rp_url :: string
  rp_ref :: string

definition default_ref :: string where "default_ref = ''main''"

record extension =
  x_source :: "string option"
  x_url :: "string option"
  x_ref :: "string option"

record secret_scopes =
  ss_providers :: "string list"
  ss_extra :: "string list"

record otel =
  o_endpoint :: string
  o_headers :: labels

datatype run_when = PreStart | PostStart

record mount_spec =
  mt_host :: string
  mt_guest :: string
  mt_read_only :: bool

datatype install_entry =
    Npm (npm_package: string) (npm_version: "string option") (npm_prefix: "string option")
  | Git (git_url: string) (git_ref: string) (git_dest: string)
  | Mise (mise_tools: labels)

record run_entry =
  re_when :: run_when
  re_script :: string
  re_env :: labels

record provision_spec =
  ps_base_image :: "string option"
  ps_packages :: "string list"
  ps_mounts :: "mount_spec list"
  ps_install :: "install_entry list"
  ps_run :: "run_entry list"
  ps_trust_paths :: "string list"
  ps_append_system :: "string option"

record agent_manifest =
  m_name :: string
  m_harness :: harness
  m_model :: model_spec
  m_resources :: resources
  m_schedule :: schedule
  m_tools :: labels
  m_repos :: "repo list"
  m_extensions :: "extension list"
  m_append_system :: "string option"
  m_secrets :: secret_scopes
  m_egress_allow :: "string list"
  m_otel :: "otel option"
  m_auto_suspend :: "string option"
  m_provision :: "provision_spec option"

text \<open>A manifest that sets only the required fields: every other field takes its serde default.\<close>

definition minimal_manifest :: "string \<Rightarrow> string \<Rightarrow> string \<Rightarrow> agent_manifest" where
  "minimal_manifest name provider model =
     \<lparr>m_name = name, m_harness = \<lparr>h_kind = ''pi'', h_version = ''1.0.0''\<rparr>,
      m_model = \<lparr>ms_provider = provider, ms_id = model, ms_thinking = None\<rparr>,
      m_resources = default_resources, m_schedule = \<lparr>s_require = [], s_daemon = None\<rparr>,
      m_tools = [], m_repos = [], m_extensions = [], m_append_system = None,
      m_secrets = \<lparr>ss_providers = [], ss_extra = []\<rparr>, m_egress_allow = [], m_otel = None,
      m_auto_suspend = None, m_provision = None\<rparr>"

datatype auto_suspend_policy = Inherit | Never | After u64

text \<open>\<open>Lifecycle::auto_suspend_policy\<close>, on the optional \<open>auto_suspend\<close> text.\<close>

definition auto_suspend_policy :: "string option \<Rightarrow> duration_error + auto_suspend_policy" where
  "auto_suspend_policy auto_suspend =
     (case map_option trim auto_suspend of
        None \<Rightarrow> Inr Inherit
      | Some d \<Rightarrow>
          if d = [] \<or> d = ''default'' \<or> d = ''inherit'' then Inr Inherit
          else if d = ''never'' then Inr Never
          else (case parse_duration_secs d of Inl e \<Rightarrow> Inl e | Inr s \<Rightarrow> Inr (After s)))"

section \<open>Log events (event.rs)\<close>

record log_event =
  ev_agent_id :: uuid
  ev_seq :: u64
  ev_at :: timestamp
  ev_kind :: string
  ev_payload :: json

record log_batch =
  lb_agent_id :: uuid
  lb_events :: "log_event list"

record log_ack =
  la_agent_id :: uuid
  la_acked_through :: u64

section \<open>Durations: what the parser accepts\<close>

lemma show_nat_no_alpha_ws:
  "takeWhile (\<lambda>c. \<not> is_ascii_alpha c) (show_nat n @ u) =
     show_nat n @ takeWhile (\<lambda>c. \<not> is_ascii_alpha c) u"
  "dropWhile (\<lambda>c. \<not> is_ascii_alpha c) (show_nat n @ u) =
     dropWhile (\<lambda>c. \<not> is_ascii_alpha c) u"
  by (auto simp: takeWhile_append dropWhile_append show_nat_char_props)

lemma trim_show_nat [strs]: "trim (show_nat n) = show_nat n"
  by (rule trim_id) (simp add: show_nat_char_props)

text \<open>A unit name made of letters only: it starts the unit part and survives the trims.\<close>

lemma parse_duration_shown:
  assumes n: "n < 2 ^ 64" and u: "list_all is_ascii_alpha u" "unit_secs u = Some mult"
  shows "parse_duration_secs (show_nat n @ u) = Inr (of_nat n * mult)"
proof -
  have alpha_ws: "\<not> is_ws c" if "is_ascii_alpha c" for c
    using that by (auto simp: is_ascii_alpha_def is_ws_def Let_def)
  have tu: "trim u = u"
    using u(1) alpha_ws by (intro trim_id) (auto simp: list_all_iff)
  have tt: "trim (show_nat n @ u) = show_nat n @ u"
    using u(1) alpha_ws by (intro trim_id) (auto simp: list_all_iff show_nat_char_props)
  have w: "takeWhile (\<lambda>c. \<not> is_ascii_alpha c) u = []" "dropWhile (\<lambda>c. \<not> is_ascii_alpha c) u = u"
    using u(1) by (cases u; simp)+
  show ?thesis
    using n u(2)
    by (simp add: parse_duration_secs_def tt show_nat_no_alpha_ws w tu trim_show_nat
        parse_u64_show_nat Let_def)
qed

lemma unat_of_nat_mult_small:
  fixes m :: u64
  assumes "n * unat m < 2 ^ 64"
  shows "unat (of_nat n * m) = n * unat m"
proof -
  have "of_nat n * m = (of_nat (n * unat m) :: u64)" by simp
  moreover have "unat (of_nat (n * unat m) :: u64) = n * unat m"
    using assms by (subst unat_of_nat) (simp add: take_bit_nat_eq_self)
  ultimately show ?thesis by simp
qed

lemma unit_secs_cases:
  "unit_secs u = Some m \<Longrightarrow> m = 1 \<or> m = 60 \<or> m = 3600 \<or> m = 86400"
  by (auto simp: unit_secs_def split: if_splits)

text \<open>The policy text decides the policy; the two words are never read as a duration.\<close>

lemma auto_suspend_policy_words:
  "auto_suspend_policy None = Inr Inherit"
  "auto_suspend_policy (Some ''never'') = Inr Never"
  "auto_suspend_policy (Some ''default'') = Inr Inherit"
  by (simp_all add: auto_suspend_policy_def trim_def trim_start_def trim_end_def is_ws_def)

end
