(* ===== verification/Store.thy ===== *)
theory Store
  imports Proto_Types
begin

text \<open>
  The control plane's store (crates/suzerain/src/store.rs): one record of tables, one definition
  per operation of \<open>impl Store\<close>, with the SQLite meaning of its statements (the Postgres arms run
  the same SQL). A table is the list of its rows in insertion order. A JSON text column is the
  value \<open>serde_json::from_str\<close> reads from it, \<open>None\<close> when it does not parse. The current time and
  the retention cutoff, read from the clock by the code, are arguments. \<open>st_events\<close> collects what
  \<open>events::emit\<close> broadcasts (events.rs). Failures of the database connection are not modelled.
\<close>

section \<open>Rows\<close>

record daemon_row =
  d_endpoint_id :: string
  d_approved :: bool
  d_online :: bool
  d_hostname :: string
  d_os :: string
  d_arch :: string
  d_labels :: "labels option"
  d_label_overrides :: "labels option"
  d_max_agents :: u32
  d_last_seen :: timestamp
  d_capacity_json :: "node_capacity option"
  d_usage_json :: "node_usage option"

definition effective_labels :: "daemon_row \<Rightarrow> labels" where
  "effective_labels d =
     bt_extend (unwrap_or [] (d_labels d)) (unwrap_or [] (d_label_overrides d))"

definition capacity :: "daemon_row \<Rightarrow> node_capacity" where
  "capacity d = unwrap_or default_node_capacity (d_capacity_json d)"

definition usage :: "daemon_row \<Rightarrow> node_usage" where
  "usage d = unwrap_or default_node_usage (d_usage_json d)"

datatype daemon_lookup_error = DaemonNotFound | DaemonAmbiguous "string list"

definition resolve_daemon :: "daemon_row list \<Rightarrow> string \<Rightarrow> daemon_lookup_error + daemon_row" where
  "resolve_daemon daemons want =
     (case find (\<lambda>d. d_endpoint_id d = want) daemons of
        Some d \<Rightarrow> Inr d
      | None \<Rightarrow>
          (case filter (\<lambda>d. starts_with (d_endpoint_id d) want \<or> d_hostname d = want) daemons of
             [] \<Rightarrow> Inl DaemonNotFound
           | [only] \<Rightarrow> Inr only
           | many \<Rightarrow> Inl (DaemonAmbiguous (map d_endpoint_id many))))"

record pending_daemon =
  p_endpoint_id :: string
  p_hostname :: string
  p_os :: string
  p_arch :: string
  p_capacity_json :: "node_capacity option"
  p_first_seen :: timestamp
  p_last_seen :: timestamp

record agent_row =
  a_id :: uuid
  a_name :: string
  a_daemon_endpoint_id :: string
  a_manifest :: agent_manifest
  a_state :: agent_state
  a_created_at :: timestamp
  a_session_file :: "string option"
  a_idle_secs :: "u64 option"
  a_busy :: "bool option"
  a_activity_reported_at :: "timestamp option"
  a_needs_attention :: bool
  a_auto_suspend_override :: "string option"
  a_woke_at :: "timestamp option"

text \<open>The row of the table \<open>agents\<close>: manifest and state are still text, flags still integers.\<close>

record agent_tuple =
  t_id :: uuid
  t_name :: string
  t_daemon_endpoint_id :: string
  t_manifest :: "agent_manifest option"
  t_state :: string
  t_created_at :: timestamp
  t_session_file :: "string option"
  t_idle_secs :: "u64 option"
  t_busy :: "int option"
  t_activity_reported_at :: "timestamp option"
  t_needs_attention :: int
  t_auto_suspend_override :: "string option"
  t_woke_at :: "timestamp option"

record agent_session_row =
  sn_id :: int
  sn_agent_id :: uuid
  sn_session_file :: string
  sn_started_at :: timestamp
  sn_ended_at :: "timestamp option"

record pending_message =
  pm_id :: int
  pm_agent_id :: uuid
  pm_body :: string
  pm_status :: string
  pm_created_at :: timestamp
  pm_delivered_at :: "timestamp option"
  pm_last_error :: "string option"

record log_index_row =
  li_agent_id :: uuid
  li_acked_through :: u64
  li_updated_at :: timestamp

record chat_row =
  ch_agent_id :: uuid
  ch_seq :: u64
  ch_at :: timestamp
  ch_kind :: string
  ch_payload :: json

datatype fleet_event =
    EvDaemon string bool
  | EvPendingDaemon string string
  | EvAgentCreated uuid string
  | EvAgentRemoved uuid
  | EvAgentState uuid string
  | EvAgentActivity uuid "bool option"
  | EvAudit string

record store =
  st_daemons :: "daemon_row list"
  st_pending_daemons :: "pending_daemon list"
  st_agents :: "agent_tuple list"
  st_sessions :: "agent_session_row list"
  st_messages :: "pending_message list"
  st_log_index :: "log_index_row list"
  st_chat :: "chat_row list"
  st_events :: "fleet_event list"

definition empty_store :: store where
  "empty_store =
     \<lparr>st_daemons = [], st_pending_daemons = [], st_agents = [], st_sessions = [],
      st_messages = [], st_log_index = [], st_chat = [], st_events = []\<rparr>"

datatype store_error = UniqueViolation string | BadManifestJson uuid

definition emit :: "fleet_event \<Rightarrow> store \<Rightarrow> store" where
  "emit e s = s\<lparr>st_events := st_events s @ [e]\<rparr>"

text \<open>\<open>INTEGER PRIMARY KEY\<close>: one more than the largest rowid in the table.\<close>

definition next_rowid :: "int list \<Rightarrow> int" where
  "next_rowid ids = foldr max ids 0 + 1"

text \<open>\<open>INSERT ... ON CONFLICT(key) DO UPDATE\<close>.\<close>

definition upsert_row :: "('r \<Rightarrow> bool) \<Rightarrow> 'r \<Rightarrow> ('r \<Rightarrow> 'r) \<Rightarrow> 'r list \<Rightarrow> 'r list" where
  "upsert_row p new upd t = (if \<exists>r \<in> set t. p r then update_rows p upd t else t @ [new])"

section \<open>Placeholders\<close>

text \<open>\<open>Store::sql\<close>: for Postgres each question mark becomes \<open>$n\<close>, counted from 1.\<close>

fun sql_pg :: "nat \<Rightarrow> string \<Rightarrow> string" where
  "sql_pg n [] = []"
| "sql_pg n (c # cs) =
     (if c = CHR ''?'' then CHR ''$'' # show_nat (Suc n) @ sql_pg (Suc n) cs
      else c # sql_pg n cs)"

datatype backend = Sqlite | Pg

definition sql :: "backend \<Rightarrow> string \<Rightarrow> string" where
  "sql b q = (case b of Pg \<Rightarrow> sql_pg 0 q | Sqlite \<Rightarrow> q)"

section \<open>Lifecycle state as text\<close>

definition state_str :: "agent_state \<Rightarrow> string" where
  "state_str st =
     (case st of
        Provisioning \<Rightarrow> ''provisioning''
      | Active \<Rightarrow> ''active''
      | Suspended \<Rightarrow> ''suspended''
      | Restoring \<Rightarrow> ''restoring''
      | Failed \<Rightarrow> ''failed''
      | Decommissioned \<Rightarrow> ''decommissioned'')"

definition parse_state :: "string \<Rightarrow> agent_state" where
  "parse_state s =
     (if s = ''active'' then Active
      else if s = ''suspended'' then Suspended
      else if s = ''restoring'' then Restoring
      else if s = ''failed'' then Failed
      else if s = ''decommissioned'' then Decommissioned
      else Provisioning)"

definition row_to_agent :: "agent_tuple \<Rightarrow> store_error + agent_row" where
  "row_to_agent r =
     (case t_manifest r of
        None \<Rightarrow> Inl (BadManifestJson (t_id r))
      | Some manifest \<Rightarrow>
          Inr \<lparr>a_id = t_id r, a_name = t_name r, a_daemon_endpoint_id = t_daemon_endpoint_id r,
               a_manifest = manifest, a_state = parse_state (t_state r),
               a_created_at = t_created_at r, a_session_file = t_session_file r,
               a_idle_secs = t_idle_secs r, a_busy = map_option (\<lambda>b. b = 1) (t_busy r),
               a_activity_reported_at = t_activity_reported_at r,
               a_needs_attention = (t_needs_attention r = 1),
               a_auto_suspend_override = t_auto_suspend_override r, a_woke_at = t_woke_at r\<rparr>)"

section \<open>Daemons\<close>

definition blank_daemon :: "string \<Rightarrow> daemon_row" where
  "blank_daemon endpoint_id =
     \<lparr>d_endpoint_id = endpoint_id, d_approved = False, d_online = False, d_hostname = [],
      d_os = [], d_arch = [], d_labels = Some [], d_label_overrides = Some [],
      d_max_agents = 4, d_last_seen = [], d_capacity_json = Some default_node_capacity,
      d_usage_json = Some default_node_usage\<rparr>"

definition delete_pending_daemon :: "string \<Rightarrow> store \<Rightarrow> store" where
  "delete_pending_daemon endpoint_id s =
     s\<lparr>st_pending_daemons :=
         delete_rows (\<lambda>p. p_endpoint_id p = endpoint_id) (st_pending_daemons s)\<rparr>"

definition approve_daemon :: "string \<Rightarrow> store \<Rightarrow> store" where
  "approve_daemon endpoint_id s0 =
     (let s = delete_pending_daemon endpoint_id s0
      in s\<lparr>st_daemons :=
             upsert_row (\<lambda>d. d_endpoint_id d = endpoint_id)
               ((blank_daemon endpoint_id)\<lparr>d_approved := True\<rparr>)
               (\<lambda>d. d\<lparr>d_approved := True\<rparr>) (st_daemons s)\<rparr>)"

definition daemon_approved :: "string \<Rightarrow> store \<Rightarrow> bool" where
  "daemon_approved endpoint_id s =
     (case find (\<lambda>d. d_endpoint_id d = endpoint_id) (st_daemons s) of
        None \<Rightarrow> False | Some d \<Rightarrow> d_approved d)"

definition upsert_daemon :: "daemon_info \<Rightarrow> bool \<Rightarrow> timestamp \<Rightarrow> store \<Rightarrow> store" where
  "upsert_daemon info online now s =
     (let set_cols = (\<lambda>d. d\<lparr>d_hostname := i_hostname info, d_os := i_os info,
                d_arch := i_arch info, d_labels := Some (i_labels info),
                d_max_agents := i_max_agents info, d_online := online, d_last_seen := now,
                d_capacity_json := Some (i_capacity info),
                d_usage_json := Some (i_usage info)\<rparr>)
      in emit (EvDaemon (i_endpoint_id info) online)
           (s\<lparr>st_daemons :=
                upsert_row (\<lambda>d. d_endpoint_id d = i_endpoint_id info)
                  (set_cols (blank_daemon (i_endpoint_id info))) set_cols (st_daemons s)\<rparr>))"

abbreviation update_daemon :: "string \<Rightarrow> (daemon_row \<Rightarrow> daemon_row) \<Rightarrow> store \<Rightarrow> store" where
  "update_daemon endpoint_id f s \<equiv>
     s\<lparr>st_daemons := update_rows (\<lambda>d. d_endpoint_id d = endpoint_id) f (st_daemons s)\<rparr>"

definition set_daemon_usage ::
    "string \<Rightarrow> node_usage option \<Rightarrow> timestamp \<Rightarrow> store \<Rightarrow> store" where
  "set_daemon_usage endpoint_id usage_json now s =
     update_daemon endpoint_id (\<lambda>d. d\<lparr>d_usage_json := usage_json, d_last_seen := now\<rparr>) s"

definition set_label_overrides :: "string \<Rightarrow> labels option \<Rightarrow> store \<Rightarrow> store" where
  "set_label_overrides endpoint_id overrides_json s =
     update_daemon endpoint_id (\<lambda>d. d\<lparr>d_label_overrides := overrides_json\<rparr>) s"

definition set_daemon_online :: "string \<Rightarrow> bool \<Rightarrow> timestamp \<Rightarrow> store \<Rightarrow> store" where
  "set_daemon_online endpoint_id online now s =
     emit (EvDaemon endpoint_id online)
       (update_daemon endpoint_id (\<lambda>d. d\<lparr>d_online := online, d_last_seen := now\<rparr>) s)"

definition set_all_daemons_offline :: "store \<Rightarrow> store" where
  "set_all_daemons_offline s =
     s\<lparr>st_daemons := map (\<lambda>d. d\<lparr>d_online := False\<rparr>) (st_daemons s)\<rparr>"

definition list_daemons :: "store \<Rightarrow> daemon_row list" where
  "list_daemons s = sort_key d_endpoint_id (st_daemons s)"

definition delete_daemon :: "string \<Rightarrow> store \<Rightarrow> store" where
  "delete_daemon endpoint_id s =
     s\<lparr>st_daemons := delete_rows (\<lambda>d. d_endpoint_id d = endpoint_id) (st_daemons s)\<rparr>"

definition upsert_pending_daemon :: "daemon_info \<Rightarrow> timestamp \<Rightarrow> store \<Rightarrow> store" where
  "upsert_pending_daemon info now s =
     (let set_cols = (\<lambda>p. p\<lparr>p_hostname := i_hostname info, p_os := i_os info,
                p_arch := i_arch info, p_capacity_json := Some (i_capacity info),
                p_last_seen := now\<rparr>)
      in emit (EvPendingDaemon (i_endpoint_id info) (i_hostname info))
           (s\<lparr>st_pending_daemons :=
                upsert_row (\<lambda>p. p_endpoint_id p = i_endpoint_id info)
                  \<lparr>p_endpoint_id = i_endpoint_id info, p_hostname = i_hostname info,
                   p_os = i_os info, p_arch = i_arch info,
                   p_capacity_json = Some (i_capacity info),
                   p_first_seen = now, p_last_seen = now\<rparr>
                  set_cols (st_pending_daemons s)\<rparr>))"

definition list_pending_daemons :: "store \<Rightarrow> pending_daemon list" where
  "list_pending_daemons s = sort_key p_first_seen (st_pending_daemons s)"

section \<open>Agents\<close>

text \<open>Only the listed columns are written; the v4 columns keep their defaults.\<close>

definition create_agent :: "agent_row \<Rightarrow> store \<Rightarrow> store_error + store" where
  "create_agent row s =
     (if \<exists>r \<in> set (st_agents s). t_id r = a_id row then Inl (UniqueViolation ''agents.id'')
      else if \<exists>r \<in> set (st_agents s). t_name r = a_name row
      then Inl (UniqueViolation ''agents.name'')
      else Inr (emit (EvAgentCreated (a_id row) (a_name row))
             (s\<lparr>st_agents := st_agents s @
                 [\<lparr>t_id = a_id row, t_name = a_name row,
                   t_daemon_endpoint_id = a_daemon_endpoint_id row,
                   t_manifest = Some (a_manifest row), t_state = state_str (a_state row),
                   t_created_at = a_created_at row, t_session_file = a_session_file row,
                   t_idle_secs = None, t_busy = None, t_activity_reported_at = None,
                   t_needs_attention = 0, t_auto_suspend_override = None,
                   t_woke_at = None\<rparr>]\<rparr>)))"

abbreviation update_agent :: "uuid \<Rightarrow> (agent_tuple \<Rightarrow> agent_tuple) \<Rightarrow> store \<Rightarrow> store" where
  "update_agent aid f s \<equiv> s\<lparr>st_agents := update_rows (\<lambda>r. t_id r = aid) f (st_agents s)\<rparr>"

definition update_agent_state :: "uuid \<Rightarrow> agent_state \<Rightarrow> store \<Rightarrow> store" where
  "update_agent_state aid st s =
     emit (EvAgentState aid (state_str st)) (update_agent aid (\<lambda>r. r\<lparr>t_state := state_str st\<rparr>) s)"

definition set_agent_session_file :: "uuid \<Rightarrow> string \<Rightarrow> store \<Rightarrow> store" where
  "set_agent_session_file aid session_file s =
     update_agent aid (\<lambda>r. r\<lparr>t_session_file := Some session_file\<rparr>) s"

definition set_agent_daemon :: "uuid \<Rightarrow> string \<Rightarrow> store \<Rightarrow> store" where
  "set_agent_daemon aid daemon_endpoint_id s =
     update_agent aid (\<lambda>r. r\<lparr>t_daemon_endpoint_id := daemon_endpoint_id\<rparr>) s"

definition delete_agent :: "uuid \<Rightarrow> store \<Rightarrow> store" where
  "delete_agent aid s =
     emit (EvAgentRemoved aid) (s\<lparr>st_agents := delete_rows (\<lambda>r. t_id r = aid) (st_agents s)\<rparr>)"

definition get_agent_by_name :: "string \<Rightarrow> store \<Rightarrow> store_error + agent_row option" where
  "get_agent_by_name name s =
     (case find (\<lambda>r. t_name r = name) (st_agents s) of
        None \<Rightarrow> Inr None
      | Some r \<Rightarrow> res_bind (row_to_agent r) (\<lambda>a. Inr (Some a)))"

definition get_agent :: "uuid \<Rightarrow> store \<Rightarrow> store_error + agent_row option" where
  "get_agent aid s =
     (case find (\<lambda>r. t_id r = aid) (st_agents s) of
        None \<Rightarrow> Inr None
      | Some r \<Rightarrow> res_bind (row_to_agent r) (\<lambda>a. Inr (Some a)))"

definition list_agents :: "store \<Rightarrow> store_error + agent_row list" where
  "list_agents s = map_ok row_to_agent (sort_key t_name (st_agents s))"

definition set_agent_activity ::
    "uuid \<Rightarrow> u64 option \<Rightarrow> bool option \<Rightarrow> timestamp \<Rightarrow> store \<Rightarrow> store" where
  "set_agent_activity aid idle_secs busy now s =
     emit (EvAgentActivity aid busy)
       (update_agent aid (\<lambda>r. r\<lparr>t_idle_secs := idle_secs,
            t_busy := map_option (\<lambda>b. if b then 1 else 0) busy,
            t_activity_reported_at := Some now\<rparr>) s)"

definition set_needs_attention :: "uuid \<Rightarrow> bool \<Rightarrow> store \<Rightarrow> store" where
  "set_needs_attention aid needs s =
     update_agent aid (\<lambda>r. r\<lparr>t_needs_attention := (if needs then 1 else 0)\<rparr>) s"

definition set_auto_suspend_override :: "uuid \<Rightarrow> string option \<Rightarrow> store \<Rightarrow> store" where
  "set_auto_suspend_override aid v s =
     update_agent aid (\<lambda>r. r\<lparr>t_auto_suspend_override := v\<rparr>) s"

definition set_agent_woke_at :: "uuid \<Rightarrow> timestamp \<Rightarrow> store \<Rightarrow> store" where
  "set_agent_woke_at aid now s = update_agent aid (\<lambda>r. r\<lparr>t_woke_at := Some now\<rparr>) s"

section \<open>Session eras\<close>

abbreviation open_of :: "uuid \<Rightarrow> agent_session_row \<Rightarrow> bool" where
  "open_of agent_id r \<equiv> sn_agent_id r = agent_id \<and> sn_ended_at r = None"

definition insert_session :: "uuid \<Rightarrow> string \<Rightarrow> timestamp \<Rightarrow> store \<Rightarrow> store" where
  "insert_session agent_id session_file started_at s =
     s\<lparr>st_sessions := st_sessions s @
         [\<lparr>sn_id = next_rowid (map sn_id (st_sessions s)), sn_agent_id = agent_id,
           sn_session_file = session_file, sn_started_at = started_at,
           sn_ended_at = None\<rparr>]\<rparr>"

text \<open>
  The check, the close and the insert run in one transaction. \<open>ORDER BY id DESC LIMIT 1\<close> picks
  the newest open row.
\<close>

definition start_agent_session :: "uuid \<Rightarrow> string \<Rightarrow> timestamp \<Rightarrow> store \<Rightarrow> store" where
  "start_agent_session agent_id session_file now s =
     (let open_rows = rev (sort_key sn_id (filter (open_of agent_id) (st_sessions s)));
          open_file = (case open_rows of [] \<Rightarrow> None | r # _ \<Rightarrow> Some (sn_session_file r))
      in if open_file \<noteq> Some session_file
         then insert_session agent_id session_file now
                (s\<lparr>st_sessions :=
                     update_rows (open_of agent_id) (\<lambda>r. r\<lparr>sn_ended_at := Some now\<rparr>)
                       (st_sessions s)\<rparr>)
         else s)"

definition ensure_open_session :: "uuid \<Rightarrow> string \<Rightarrow> timestamp \<Rightarrow> store \<Rightarrow> store" where
  "ensure_open_session agent_id session_file fallback_start s =
     (if length (filter (open_of agent_id) (st_sessions s)) = 0
      then insert_session agent_id session_file fallback_start s else s)"

definition list_agent_sessions :: "uuid \<Rightarrow> store \<Rightarrow> agent_session_row list" where
  "list_agent_sessions agent_id s =
     sort_key sn_id (filter (\<lambda>r. sn_agent_id r = agent_id) (st_sessions s))"

section \<open>The wake queue\<close>

definition enqueue_message :: "uuid \<Rightarrow> string \<Rightarrow> timestamp \<Rightarrow> store \<Rightarrow> store \<times> int" where
  "enqueue_message agent_id body now s =
     (let mid = next_rowid (map pm_id (st_messages s))
      in (s\<lparr>st_messages := st_messages s @
             [\<lparr>pm_id = mid, pm_agent_id = agent_id, pm_body = body, pm_status = ''queued'',
               pm_created_at = now, pm_delivered_at = None, pm_last_error = None\<rparr>]\<rparr>, mid))"

definition undelivered :: "pending_message \<Rightarrow> bool" where
  "undelivered m \<longleftrightarrow> pm_status m = ''queued'' \<or> pm_status m = ''waking''"

definition pending_messages :: "uuid \<Rightarrow> store \<Rightarrow> pending_message list" where
  "pending_messages agent_id s =
     sort_key pm_id (filter (\<lambda>m. pm_agent_id m = agent_id \<and> undelivered m) (st_messages s))"

definition agents_with_pending_messages :: "store \<Rightarrow> uuid list" where
  "agents_with_pending_messages s =
     remdups (map pm_agent_id (filter undelivered (st_messages s)))"

definition coalesce :: "'a option \<Rightarrow> 'a option \<Rightarrow> 'a option" where
  "coalesce a b = (case a of None \<Rightarrow> b | Some x \<Rightarrow> Some x)"

definition set_message_status ::
    "int list \<Rightarrow> string \<Rightarrow> string option \<Rightarrow> timestamp \<Rightarrow> store \<Rightarrow> store" where
  "set_message_status ids status error now s =
     (if ids = [] then s
      else let delivered = (if status = ''delivered'' then Some now else None)
           in fold (\<lambda>i s. s\<lparr>st_messages :=
                  update_rows (\<lambda>m. pm_id m = i)
                    (\<lambda>m. m\<lparr>pm_status := status, pm_last_error := coalesce error (pm_last_error m),
                          pm_delivered_at := coalesce delivered (pm_delivered_at m)\<rparr>)
                    (st_messages s)\<rparr>) ids s)"

definition prune_messages :: "timestamp \<Rightarrow> store \<Rightarrow> store" where
  "prune_messages cutoff s =
     s\<lparr>st_messages := delete_rows
         (\<lambda>m. (pm_status m = ''delivered'' \<or> pm_status m = ''failed'') \<and> pm_created_at m < cutoff)
         (st_messages s)\<rparr>"

section \<open>Log index and chat events\<close>

definition acked_through :: "uuid \<Rightarrow> store \<Rightarrow> u64" where
  "acked_through agent_id s =
     (case find (\<lambda>r. li_agent_id r = agent_id) (st_log_index s) of
        None \<Rightarrow> 0 | Some r \<Rightarrow> li_acked_through r)"

definition set_acked_through :: "uuid \<Rightarrow> u64 \<Rightarrow> timestamp \<Rightarrow> store \<Rightarrow> store" where
  "set_acked_through agent_id seq now s =
     s\<lparr>st_log_index := upsert_row (\<lambda>r. li_agent_id r = agent_id)
         \<lparr>li_agent_id = agent_id, li_acked_through = seq, li_updated_at = now\<rparr>
         (\<lambda>r. r\<lparr>li_acked_through := seq, li_updated_at := now\<rparr>) (st_log_index s)\<rparr>"

definition append_event :: "uuid \<Rightarrow> log_event \<Rightarrow> store \<Rightarrow> store" where
  "append_event agent_id event s =
     (if \<exists>r \<in> set (st_chat s). ch_agent_id r = agent_id \<and> ch_seq r = ev_seq event then s
      else s\<lparr>st_chat := st_chat s @
             [\<lparr>ch_agent_id = agent_id, ch_seq = ev_seq event, ch_at = ev_at event,
               ch_kind = ev_kind event, ch_payload = ev_payload event\<rparr>]\<rparr>)"

definition chat_row_to_event :: "uuid \<Rightarrow> chat_row \<Rightarrow> log_event" where
  "chat_row_to_event agent_id r =
     \<lparr>ev_agent_id = agent_id, ev_seq = ch_seq r, ev_at = ch_at r, ev_kind = ch_kind r,
      ev_payload = ch_payload r\<rparr>"

text \<open>Sequence numbers are compared by SQL as signed 64-bit integers.\<close>

abbreviation sql_seq :: "chat_row \<Rightarrow> int" where
  "sql_seq r \<equiv> sint (ch_seq r)"

definition tail_events :: "uuid \<Rightarrow> nat \<Rightarrow> store \<Rightarrow> log_event list" where
  "tail_events agent_id n s =
     rev (map (chat_row_to_event agent_id)
       (take n (rev (sort_key sql_seq
          (filter (\<lambda>r. ch_agent_id r = agent_id) (st_chat s))))))"

definition history_since :: "uuid \<Rightarrow> u64 \<Rightarrow> store \<Rightarrow> log_event list" where
  "history_since agent_id seq s =
     map (chat_row_to_event agent_id)
       (sort_key sql_seq
          (filter (\<lambda>r. ch_agent_id r = agent_id \<and> sint seq < sql_seq r) (st_chat s)))"

end
