(* ===== verification/Store_Props.thy ===== *)
theory Store_Props
  imports Store "HOL-Library.Multiset"
begin

text \<open>
  What the store promises: daemon lookup is independent of row order, each table keeps its keys
  (primary keys, unique names, at most one open session era per agent) under every operation,
  state text round-trips, and the laws the clients of the store rely on. The locales
  \<open>agent_registry\<close>, \<open>wake_queue\<close> and \<open>chat_log\<close> are the slices of the traits \<open>Registry\<close>
  (registry.rs) and \<open>ChatStore\<close> (chat_store.rs) that clients use; each is interpreted here on
  the operations of the store.
\<close>

section \<open>Generic facts about tables\<close>

lemma sort_key_sorted: "sorted_wrt (<) (map f xs) \<Longrightarrow> sort_key f xs = xs"
  by (metis sort_key_id_if_sorted strict_sorted_iff)

lemma sorted_filter_key: "sorted_wrt (<) (map f xs) \<Longrightarrow> sorted_wrt (<) (map f (filter p xs))"
  by (induction xs) auto

lemma find_mset_cong:
  assumes "distinct (map key xs)" "mset xs = mset ys"
  shows "find (\<lambda>x. key x = k) xs = find (\<lambda>x. key x = k) ys"
proof -
  have d: "distinct (map key ys)"
    using assms by (metis mset_eq_imp_distinct_iff mset_map)
  have s: "set xs = set ys" using assms(2) by (rule mset_eq_setD)
  show ?thesis
  proof (cases "find (\<lambda>x. key x = k) xs")
    case None
    then have "find (\<lambda>x. key x = k) ys = None" using s by (simp add: find_None_iff)
    with None show ?thesis by simp
  next
    case (Some r)
    then have r: "r \<in> set ys" "key r = k" using s by (auto dest: find_SomeD)
    then have "find (\<lambda>x. key x = key r) ys = Some r" using d by (intro find_distinct_key)
    then show ?thesis using Some r by simp
  qed
qed

lemma foldr_max_ge: "x \<in> set ids \<Longrightarrow> x \<le> foldr max ids (0::int)"
  by (induction ids) auto

lemma next_rowid_gt: "x \<in> set ids \<Longrightarrow> x < next_rowid ids"
  unfolding next_rowid_def using foldr_max_ge by fastforce

lemma sorted_snoc_rowid:
  "sorted_wrt (<) ids \<Longrightarrow> sorted_wrt (<) (ids @ [next_rowid ids])"
  by (simp add: sorted_wrt_append next_rowid_gt)

lemma map_upsert_row [rows]:
  assumes "\<And>r. p r \<longleftrightarrow> g r = k" "g new = k" "\<And>r. p r \<Longrightarrow> g (upd r) = g r" "distinct (map g t)"
  shows "distinct (map g (upsert_row p new upd t))"
proof -
  have "map g (update_rows p upd t) = map g t"
    by (rule map_update_rows) (rule assms(3))
  then show ?thesis using assms by (auto simp: upsert_row_def)
qed

lemma find_upsert_row:
  assumes "\<And>r. g (upd r) = g r" "g new = k"
  shows "find (\<lambda>r. g r = j) (upsert_row (\<lambda>r. g r = k) new upd t) =
     (if j = k then Some (case find (\<lambda>r. g r = k) t of None \<Rightarrow> new | Some r \<Rightarrow> upd r)
      else find (\<lambda>r. g r = j) t)"
proof (cases "find (\<lambda>r. g r = k) t")
  case None
  then have none: "\<forall>r \<in> set t. g r \<noteq> k" by (simp add: find_None_iff)
  then have "upsert_row (\<lambda>r. g r = k) new upd t = t @ [new]" by (auto simp: upsert_row_def)
  with None assms(2) show ?thesis by (auto simp: find_append split: option.splits)
next
  case (Some r)
  then have r: "r \<in> set t" "g r = k" by (auto dest: find_SomeD)
  have "find (\<lambda>r. g r = j) (update_rows (\<lambda>r. g r = k) upd t) =
      map_option (\<lambda>r. if g r = k then upd r else r) (find (\<lambda>r. g r = j) t)"
    by (rule find_update_rows_same) (simp add: assms(1))
  moreover have "j \<noteq> k \<Longrightarrow> map_option (\<lambda>r. if g r = k then upd r else r) (find (\<lambda>r. g r = j) t)
      = find (\<lambda>r. g r = j) t"
    using find_SomeD [of "\<lambda>r. g r = j" t] by (cases "find (\<lambda>r. g r = j) t") auto
  ultimately show ?thesis using Some r by (auto simp: upsert_row_def)
qed

section \<open>Daemon lookup\<close>

lemma resolve_daemon_Inr:
  "resolve_daemon ds want = Inr d \<longleftrightarrow>
     find (\<lambda>d. d_endpoint_id d = want) ds = Some d \<or>
     find (\<lambda>d. d_endpoint_id d = want) ds = None \<and>
     filter (\<lambda>d. starts_with (d_endpoint_id d) want \<or> d_hostname d = want) ds = [d]"
  by (auto simp: resolve_daemon_def split: option.splits list.splits)

lemma resolve_daemon_member: "resolve_daemon ds want = Inr d \<Longrightarrow> d \<in> set ds"
proof -
  assume "resolve_daemon ds want = Inr d"
  then have "find (\<lambda>d. d_endpoint_id d = want) ds = Some d \<or>
      filter (\<lambda>d. starts_with (d_endpoint_id d) want \<or> d_hostname d = want) ds = [d]"
    by (auto simp: resolve_daemon_Inr)
  then show ?thesis
  proof
    assume "find (\<lambda>d. d_endpoint_id d = want) ds = Some d"
    then show ?thesis by (auto dest: find_SomeD)
  next
    assume f: "filter (\<lambda>d. starts_with (d_endpoint_id d) want \<or> d_hostname d = want) ds = [d]"
    have "d \<in> set (filter (\<lambda>d. starts_with (d_endpoint_id d) want \<or> d_hostname d = want) ds)"
      unfolding f by simp
    then show ?thesis by simp
  qed
qed

lemma filter_singleton_mset:
  assumes "mset xs = mset ys" "filter p xs = [d]"
  shows "filter p ys = [d]"
proof -
  have "mset (filter p ys) = mset (filter p xs)" using assms(1) by simp
  then have "mset (filter p ys) = {#d#}" using assms(2) by simp
  then show ?thesis by (simp only: mset_single_iff)
qed

section \<open>Placeholders\<close>

lemma sql_pg_no_marks: "CHR ''?'' \<notin> set q \<Longrightarrow> sql_pg n q = q"
  by (induction q arbitrary: n) auto

lemma digit_char_not_mark: "n < 10 \<Longrightarrow> digit_char n \<noteq> CHR ''?''"
proof
  assume "n < 10" "digit_char n = CHR ''?''"
  then have "of_char (digit_char n) = (of_char (CHR ''?'') :: nat)" by simp
  with \<open>n < 10\<close> show False by (simp add: of_char_digit)
qed

lemma show_nat_no_mark: "CHR ''?'' \<notin> set (show_nat n)"
  using show_nat_digits [of n] digit_char_not_mark by metis

lemma sql_pg_removes_marks: "CHR ''?'' \<notin> set (sql_pg n q)"
  by (induction q arbitrary: n) (auto simp: show_nat_no_mark)

section \<open>State text\<close>

lemma parse_state_str [simp]: "parse_state (state_str st) = st"
  by (cases st) (simp_all add: parse_state_def state_str_def)

lemma row_to_agent_simps [simp]:
  "t_manifest r = Some m \<Longrightarrow> \<exists>a. row_to_agent r = Inr a"
  "row_to_agent r = Inr a \<Longrightarrow> a_id a = t_id r"
  "row_to_agent r = Inr a \<Longrightarrow> a_name a = t_name r"
  by (auto simp: row_to_agent_def split: option.splits)

section \<open>Table invariants\<close>

definition daemons_inv :: "store \<Rightarrow> bool" where
  "daemons_inv s \<longleftrightarrow> distinct (map d_endpoint_id (st_daemons s)) \<and>
     distinct (map p_endpoint_id (st_pending_daemons s))"

definition agents_inv :: "store \<Rightarrow> bool" where
  "agents_inv s \<longleftrightarrow> distinct (map t_id (st_agents s)) \<and> distinct (map t_name (st_agents s)) \<and>
     (\<forall>r \<in> set (st_agents s). t_manifest r \<noteq> None)"

definition sessions_inv :: "store \<Rightarrow> bool" where
  "sessions_inv s \<longleftrightarrow> sorted_wrt (<) (map sn_id (st_sessions s)) \<and>
     (\<forall>a. length (filter (open_of a) (st_sessions s)) \<le> 1)"

definition queue_inv :: "store \<Rightarrow> bool" where
  "queue_inv s \<longleftrightarrow> sorted_wrt (<) (map pm_id (st_messages s))"

definition logs_inv :: "store \<Rightarrow> bool" where
  "logs_inv s \<longleftrightarrow> distinct (map li_agent_id (st_log_index s)) \<and>
     distinct (map (\<lambda>r. (ch_agent_id r, ch_seq r)) (st_chat s))"

definition store_inv :: "store \<Rightarrow> bool" where
  "store_inv s \<longleftrightarrow> daemons_inv s \<and> agents_inv s \<and> sessions_inv s \<and> queue_inv s \<and> logs_inv s"

lemmas inv_defs = daemons_inv_def agents_inv_def sessions_inv_def queue_inv_def logs_inv_def

lemmas daemon_op_defs = approve_daemon_def delete_pending_daemon_def upsert_daemon_def
  set_daemon_usage_def set_label_overrides_def set_daemon_online_def set_all_daemons_offline_def
  delete_daemon_def upsert_pending_daemon_def

lemmas agent_op_defs = update_agent_state_def set_agent_session_file_def set_agent_daemon_def
  delete_agent_def set_agent_activity_def set_needs_attention_def set_auto_suspend_override_def
  set_agent_woke_at_def

lemma store_inv_empty: "store_inv empty_store"
  by (simp add: store_inv_def inv_defs empty_store_def)

lemma emit_tables [simp]:
  "st_daemons (emit e s) = st_daemons s" "st_pending_daemons (emit e s) = st_pending_daemons s"
  "st_agents (emit e s) = st_agents s" "st_sessions (emit e s) = st_sessions s"
  "st_messages (emit e s) = st_messages s" "st_log_index (emit e s) = st_log_index s"
  "st_chat (emit e s) = st_chat s"
  by (simp_all add: emit_def)

lemma distinct_upsert_daemon:
  assumes "distinct (map d_endpoint_id t)" "d_endpoint_id new = k" "\<And>d. d_endpoint_id (f d) = d_endpoint_id d"
  shows "distinct (map d_endpoint_id (upsert_row (\<lambda>d. d_endpoint_id d = k) new f t))"
  by (rule map_upsert_row [where k = k]) (use assms in auto)

lemma distinct_upsert_pending:
  assumes "distinct (map p_endpoint_id t)" "p_endpoint_id new = k" "\<And>d. p_endpoint_id (f d) = p_endpoint_id d"
  shows "distinct (map p_endpoint_id (upsert_row (\<lambda>d. p_endpoint_id d = k) new f t))"
  by (rule map_upsert_row [where k = k]) (use assms in auto)

lemma daemon_ops_inv:
  assumes "store_inv s"
  shows "store_inv (approve_daemon e s)" "store_inv (delete_pending_daemon e s)"
    "store_inv (upsert_daemon info b now s)" "store_inv (set_daemon_usage e u now s)"
    "store_inv (set_label_overrides e l s)" "store_inv (set_daemon_online e b now s)"
    "store_inv (set_all_daemons_offline s)" "store_inv (delete_daemon e s)"
    "store_inv (upsert_pending_daemon info now s)"
  using assms
  by (simp_all add: store_inv_def inv_defs daemon_op_defs Let_def rows distinct_upsert_daemon
      distinct_upsert_pending blank_daemon_def comp_def)

lemma update_agent_inv:
  assumes "store_inv s" "\<And>r. t_id (f r) = t_id r" "\<And>r. t_name (f r) = t_name r"
    "\<And>r. t_manifest (f r) = t_manifest r"
  shows "store_inv (update_agent i f s)"
  using assms by (auto simp: store_inv_def inv_defs rows)

lemma emit_inv [simp]: "store_inv (emit e s) = store_inv s"
  by (simp add: store_inv_def inv_defs)

lemma agent_ops_inv:
  assumes "store_inv s"
  shows "store_inv (update_agent_state i st s)" "store_inv (set_agent_session_file i f s)"
    "store_inv (set_agent_daemon i e s)" "store_inv (set_agent_activity i idle busy now s)"
    "store_inv (set_needs_attention i b s)" "store_inv (set_auto_suspend_override i v s)"
    "store_inv (set_agent_woke_at i now s)"
  using assms by (simp_all add: agent_op_defs update_agent_inv)

lemma delete_agent_inv: "store_inv s \<Longrightarrow> store_inv (delete_agent i s)"
  by (auto simp: delete_agent_def store_inv_def inv_defs rows)

lemma create_agent_inv:
  assumes "store_inv s" "create_agent row s = Inr s'"
  shows "store_inv s'"
  using assms by (auto simp: create_agent_def store_inv_def inv_defs split: if_splits) metis+

lemma insert_session_inv:
  assumes "store_inv s" "filter (open_of a) (st_sessions s) = []"
  shows "store_inv (insert_session a f t s)"
proof -
  have "length (filter (open_of b) (st_sessions (insert_session a f t s))) \<le> 1" for b
    using assms by (cases "b = a") (auto simp: insert_session_def store_inv_def inv_defs)
  then show ?thesis
    using assms sorted_snoc_rowid [of "map sn_id (st_sessions s)"]
    by (simp add: store_inv_def inv_defs insert_session_def)
qed

lemma close_sessions_inv:
  assumes "store_inv s"
  shows "store_inv (s\<lparr>st_sessions :=
           update_rows (open_of a) (\<lambda>r. r\<lparr>sn_ended_at := Some now\<rparr>) (st_sessions s)\<rparr>)"
proof -
  have "length (filter (open_of b) (update_rows (open_of a) (\<lambda>r. r\<lparr>sn_ended_at := Some now\<rparr>) t))
      \<le> length (filter (open_of b) t)" for b t
    by (induction t) auto
  then show ?thesis
    using assms by (fastforce simp: store_inv_def inv_defs rows intro: order_trans)
qed

lemma closed_sessions_none:
  "filter (open_of a) (update_rows (open_of a) (\<lambda>r. r\<lparr>sn_ended_at := Some now\<rparr>) t) = []"
  by (induction t) auto

lemma session_ops_inv:
  assumes "store_inv s"
  shows "store_inv (start_agent_session a f now s)" "store_inv (ensure_open_session a f t s)"
  using assms insert_session_inv close_sessions_inv [OF assms] closed_sessions_none
  by (simp_all add: start_agent_session_def ensure_open_session_def Let_def)

lemma enqueue_inv: "store_inv s \<Longrightarrow> store_inv (fst (enqueue_message a b now s))"
  using sorted_snoc_rowid [of "map pm_id (st_messages s)"]
  by (simp add: store_inv_def inv_defs enqueue_message_def Let_def)

lemma prune_inv: "store_inv s \<Longrightarrow> store_inv (prune_messages c s)"
  by (simp add: store_inv_def inv_defs prune_messages_def delete_rows_def sorted_filter_key)

lemma set_acked_inv:
  assumes "store_inv s"
  shows "store_inv (set_acked_through a q now s)"
proof -
  have "distinct (map li_agent_id (st_log_index (set_acked_through a q now s)))"
    unfolding set_acked_through_def
    using assms by (auto simp: store_inv_def inv_defs intro!: map_upsert_row [where k = a])
  then show ?thesis using assms by (simp add: store_inv_def inv_defs set_acked_through_def)
qed

lemma append_event_inv: "store_inv s \<Longrightarrow> store_inv (append_event a e s)"
  by (auto simp: store_inv_def inv_defs append_event_def)

text \<open>\<open>set_message_status\<close> is one row update for the whole batch.\<close>

definition mark_messages ::
    "int list \<Rightarrow> string \<Rightarrow> string option \<Rightarrow> timestamp option \<Rightarrow> pending_message list \<Rightarrow> pending_message list" where
  "mark_messages ids status error delivered t =
     update_rows (\<lambda>m. pm_id m \<in> set ids)
       (\<lambda>m. m\<lparr>pm_status := status, pm_last_error := coalesce error (pm_last_error m),
             pm_delivered_at := coalesce delivered (pm_delivered_at m)\<rparr>) t"

lemma coalesce_idem [simp]: "coalesce a (coalesce a b) = coalesce a b"
  by (cases a) (simp_all add: coalesce_def)

lemma set_message_status_eq:
  "set_message_status ids status error now s =
     s\<lparr>st_messages := mark_messages ids status error
          (if status = ''delivered'' then Some now else None) (st_messages s)\<rparr>"
proof -
  define d where "d = (if status = ''delivered'' then Some now else None)"
  let ?f = "\<lambda>m. m\<lparr>pm_status := status, pm_last_error := coalesce error (pm_last_error m),
      pm_delivered_at := coalesce d (pm_delivered_at m)\<rparr>"
  have "fold (\<lambda>i s. s\<lparr>st_messages := update_rows (\<lambda>m. pm_id m = i) ?f (st_messages s)\<rparr>) is s =
      s\<lparr>st_messages := update_rows (\<lambda>m. pm_id m \<in> set is) ?f (st_messages s)\<rparr>" for "is" s
  proof (induction "is" arbitrary: s)
    case Nil
    then show ?case by (simp add: update_rows_def)
  next
    case (Cons i "is")
    show ?case by (simp add: Cons) (auto simp: update_rows_def)
  qed
  note batch = this
  show ?thesis
  proof (cases "ids = []")
    case True
    then show ?thesis by (simp add: set_message_status_def mark_messages_def update_rows_def)
  next
    case False
    then show ?thesis
      unfolding set_message_status_def mark_messages_def Let_def d_def [symmetric] by (simp only: batch if_False)
  qed
qed

lemma set_message_status_inv: "store_inv s \<Longrightarrow> store_inv (set_message_status ids st e now s)"
  by (simp add: set_message_status_eq mark_messages_def store_inv_def inv_defs rows)

lemmas store_ops_inv = daemon_ops_inv agent_ops_inv delete_agent_inv session_ops_inv enqueue_inv
  set_message_status_inv prune_inv set_acked_inv append_event_inv

end
