(* ===== verification/Store_Iface.thy ===== *)
theory Store_Iface
  imports Store_Props
begin

text \<open>
  The store as its clients see it. \<open>store_step\<close> is one call of any operation and \<open>reachable\<close> the
  states a fresh database can reach; the key and uniqueness invariants hold in all of them.
  The locales \<open>agent_registry\<close>, \<open>wake_queue\<close> and \<open>chat_log\<close> name the slices of the traits
  \<open>Registry\<close> and \<open>ChatStore\<close> that the wake service, the suspend sweep, the create and destroy
  flows and the log receiver rely on, with the laws they use; the interpretations discharge them
  for the SQL store.
\<close>

section \<open>Reachable databases\<close>

inductive store_step :: "store \<Rightarrow> store \<Rightarrow> bool" where
  approve: "store_step s (approve_daemon e s)"
| unpend: "store_step s (delete_pending_daemon e s)"
| upsert: "store_step s (upsert_daemon info b now s)"
| usage: "store_step s (set_daemon_usage e u now s)"
| overrides: "store_step s (set_label_overrides e l s)"
| online: "store_step s (set_daemon_online e b now s)"
| all_offline: "store_step s (set_all_daemons_offline s)"
| remove_daemon: "store_step s (delete_daemon e s)"
| pending: "store_step s (upsert_pending_daemon info now s)"
| create: "create_agent row s = Inr s' \<Longrightarrow> store_step s s'"
| state: "store_step s (update_agent_state i st s)"
| session_file: "store_step s (set_agent_session_file i f s)"
| move: "store_step s (set_agent_daemon i e s)"
| remove_agent: "store_step s (delete_agent i s)"
| activity: "store_step s (set_agent_activity i idle busy now s)"
| attention: "store_step s (set_needs_attention i b s)"
| override: "store_step s (set_auto_suspend_override i v s)"
| woke: "store_step s (set_agent_woke_at i now s)"
| start_session: "store_step s (start_agent_session i f now s)"
| ensure_session: "store_step s (ensure_open_session i f now s)"
| enqueue: "store_step s (fst (enqueue_message i body now s))"
| mark: "store_step s (set_message_status ids st err now s)"
| prune: "store_step s (prune_messages cutoff s)"
| ack: "store_step s (set_acked_through i q now s)"
| chat: "store_step s (append_event i e s)"

inductive reachable_store :: "store \<Rightarrow> bool" where
  init: "reachable_store empty_store"
| step: "reachable_store s \<Longrightarrow> store_step s s' \<Longrightarrow> reachable_store s'"

lemma store_step_inv: "store_step s s' \<Longrightarrow> store_inv s \<Longrightarrow> store_inv s'"
  by (induction rule: store_step.induct) (auto intro: store_ops_inv create_agent_inv)

lemma reachable_store_inv: "reachable_store s \<Longrightarrow> store_inv s"
  by (induction rule: reachable_store.induct) (auto simp: store_inv_empty intro: store_step_inv)

section \<open>The agent registry\<close>

definition lookup_agent :: "uuid \<Rightarrow> store \<Rightarrow> agent_row option" where
  "lookup_agent i s = (case get_agent i s of Inl _ \<Rightarrow> None | Inr a \<Rightarrow> a)"

locale agent_registry =
  fixes agent :: "uuid \<Rightarrow> 's \<Rightarrow> agent_row option"
    and set_state :: "uuid \<Rightarrow> agent_state \<Rightarrow> 's \<Rightarrow> 's"
    and set_attention :: "uuid \<Rightarrow> bool \<Rightarrow> 's \<Rightarrow> 's"
    and set_woke :: "uuid \<Rightarrow> timestamp \<Rightarrow> 's \<Rightarrow> 's"
    and set_daemon :: "uuid \<Rightarrow> string \<Rightarrow> 's \<Rightarrow> 's"
    and set_activity :: "uuid \<Rightarrow> u64 option \<Rightarrow> bool option \<Rightarrow> timestamp \<Rightarrow> 's \<Rightarrow> 's"
    and remove :: "uuid \<Rightarrow> 's \<Rightarrow> 's"
  assumes agent_set_state: "agent j (set_state i st s) =
      (if j = i then map_option (\<lambda>a. a\<lparr>a_state := st\<rparr>) (agent i s) else agent j s)"
    and agent_set_attention: "agent j (set_attention i b s) =
      (if j = i then map_option (\<lambda>a. a\<lparr>a_needs_attention := b\<rparr>) (agent i s) else agent j s)"
    and agent_set_woke: "agent j (set_woke i now s) =
      (if j = i then map_option (\<lambda>a. a\<lparr>a_woke_at := Some now\<rparr>) (agent i s) else agent j s)"
    and agent_set_daemon: "agent j (set_daemon i e s) =
      (if j = i then map_option (\<lambda>a. a\<lparr>a_daemon_endpoint_id := e\<rparr>) (agent i s) else agent j s)"
    and agent_set_activity: "agent j (set_activity i idle busy now s) =
      (if j = i then map_option (\<lambda>a. a\<lparr>a_idle_secs := idle, a_busy := busy,
           a_activity_reported_at := Some now\<rparr>) (agent i s) else agent j s)"
    and agent_remove: "agent j (remove i s) = (if j = i then None else agent j s)"
begin

lemmas agent_laws = agent_set_state agent_set_attention agent_set_woke agent_set_daemon
  agent_set_activity agent_remove

text \<open>The settling sequence of a successful wake, and that of a terminal failure.\<close>

lemma settle_awake:
  "agent j (set_attention i False (set_woke i now (set_state i Active s))) =
     (if j = i then map_option (\<lambda>a. a\<lparr>a_state := Active, a_woke_at := Some now,
          a_needs_attention := False\<rparr>) (agent i s) else agent j s)"
  by (simp add: agent_laws option.map_comp comp_def)

lemma settle_failed:
  "agent j (set_attention i True (set_state i Failed s)) =
     (if j = i then map_option (\<lambda>a. a\<lparr>a_state := Failed, a_needs_attention := True\<rparr>) (agent i s)
      else agent j s)"
  by (simp add: agent_laws option.map_comp comp_def)

lemma states_independent:
  "i \<noteq> j \<Longrightarrow> agent j (set_state i st s) = agent j s"
  "i \<noteq> j \<Longrightarrow> agent j (remove i s) = agent j s"
  by (simp_all add: agent_laws)

end

lemma find_update_agent:
  assumes "\<And>r. t_id (f r) = t_id r"
  shows "find (\<lambda>r. t_id r = j) (update_rows (\<lambda>r. t_id r = i) f t) =
    (if j = i then map_option f (find (\<lambda>r. t_id r = i) t) else find (\<lambda>r. t_id r = j) t)"
  using assms by (induction t) auto

lemma lookup_agent_find:
  "lookup_agent i s = Option.bind (find (\<lambda>r. t_id r = i) (st_agents s))
     (\<lambda>r. case row_to_agent r of Inl _ \<Rightarrow> None | Inr a \<Rightarrow> Some a)"
  by (auto simp: lookup_agent_def get_agent_def res_bind_def split: option.splits sum.splits)

lemma lookup_agent_emit [simp]: "lookup_agent i (emit e s) = lookup_agent i s"
  by (simp add: lookup_agent_find)

lemma lookup_update_agent:
  assumes "\<And>r. t_id (f r) = t_id r"
    and "\<And>r a. row_to_agent r = Inr a \<Longrightarrow> row_to_agent (f r) = Inr (g a)"
    and "\<And>r x. row_to_agent r = Inl x \<Longrightarrow> \<exists>y. row_to_agent (f r) = Inl y"
  shows "lookup_agent j (update_agent i f s) =
    (if j = i then map_option g (lookup_agent i s) else lookup_agent j s)"
proof (cases "find (\<lambda>r. t_id r = i) (st_agents s)")
  case None
  then show ?thesis by (simp add: lookup_agent_find find_update_agent [OF assms(1)])
next
  case (Some r)
  show ?thesis
  proof (cases "row_to_agent r")
    case (Inl x)
    then obtain y where "row_to_agent (f r) = Inl y" using assms(3) by blast
    with Inl Some show ?thesis by (simp add: lookup_agent_find find_update_agent [OF assms(1)])
  next
    case (Inr a)
    then have "row_to_agent (f r) = Inr (g a)" by (rule assms(2))
    with Inr Some show ?thesis by (simp add: lookup_agent_find find_update_agent [OF assms(1)])
  qed
qed

lemma find_delete_agent:
  "find (\<lambda>r. t_id r = j) (delete_rows (\<lambda>r. t_id r = i) t) =
     (if j = i then None else find (\<lambda>r. t_id r = j) t)"
  by (induction t) auto

lemma row_to_agent_updates:
  "row_to_agent (r\<lparr>t_state := state_str st\<rparr>) =
     map_sum (\<lambda>x. x) (\<lambda>a. a\<lparr>a_state := st\<rparr>) (row_to_agent r)"
  "row_to_agent (r\<lparr>t_needs_attention := (if b then 1 else 0)\<rparr>) =
     map_sum (\<lambda>x. x) (\<lambda>a. a\<lparr>a_needs_attention := b\<rparr>) (row_to_agent r)"
  "row_to_agent (r\<lparr>t_woke_at := w\<rparr>) =
     map_sum (\<lambda>x. x) (\<lambda>a. a\<lparr>a_woke_at := w\<rparr>) (row_to_agent r)"
  "row_to_agent (r\<lparr>t_daemon_endpoint_id := e\<rparr>) =
     map_sum (\<lambda>x. x) (\<lambda>a. a\<lparr>a_daemon_endpoint_id := e\<rparr>) (row_to_agent r)"
  "row_to_agent (r\<lparr>t_idle_secs := idle, t_busy := map_option (\<lambda>b. if b then 1 else 0) busy,
       t_activity_reported_at := w\<rparr>) =
     map_sum (\<lambda>x. x) (\<lambda>a. a\<lparr>a_idle_secs := idle, a_busy := busy,
       a_activity_reported_at := w\<rparr>) (row_to_agent r)"
  by (simp_all add: row_to_agent_def split: option.split) (cases busy; simp)

lemma lookup_update_agent_map:
  assumes "\<And>r. t_id (f r) = t_id r"
    and "\<And>r. row_to_agent (f r) = map_sum (\<lambda>x. x) g (row_to_agent r)"
  shows "lookup_agent j (update_agent i f s) =
    (if j = i then map_option g (lookup_agent i s) else lookup_agent j s)"
  by (rule lookup_update_agent) (simp_all add: assms)

interpretation reg: agent_registry lookup_agent update_agent_state set_needs_attention
  set_agent_woke_at set_agent_daemon set_agent_activity delete_agent
proof unfold_locales
  show "lookup_agent j (update_agent_state i st s) =
      (if j = i then map_option (\<lambda>a. a\<lparr>a_state := st\<rparr>) (lookup_agent i s) else lookup_agent j s)"
    for j i st s
    unfolding update_agent_state_def lookup_agent_emit
    by (rule lookup_update_agent_map, simp, rule row_to_agent_updates)
  show "lookup_agent j (set_needs_attention i b s) =
      (if j = i then map_option (\<lambda>a. a\<lparr>a_needs_attention := b\<rparr>) (lookup_agent i s)
       else lookup_agent j s)" for j i b s
    unfolding set_needs_attention_def
    by (rule lookup_update_agent_map, simp, rule row_to_agent_updates)
  show "lookup_agent j (set_agent_woke_at i now s) =
      (if j = i then map_option (\<lambda>a. a\<lparr>a_woke_at := Some now\<rparr>) (lookup_agent i s)
       else lookup_agent j s)" for j i now s
    unfolding set_agent_woke_at_def
    by (rule lookup_update_agent_map, simp, rule row_to_agent_updates)
  show "lookup_agent j (set_agent_daemon i e s) =
      (if j = i then map_option (\<lambda>a. a\<lparr>a_daemon_endpoint_id := e\<rparr>) (lookup_agent i s)
       else lookup_agent j s)" for j i e s
    unfolding set_agent_daemon_def
    by (rule lookup_update_agent_map, simp, rule row_to_agent_updates)
  show "lookup_agent j (set_agent_activity i idle busy now s) =
      (if j = i then map_option (\<lambda>a. a\<lparr>a_idle_secs := idle, a_busy := busy,
          a_activity_reported_at := Some now\<rparr>) (lookup_agent i s) else lookup_agent j s)"
    for j i idle busy now s
    unfolding set_agent_activity_def lookup_agent_emit
    by (rule lookup_update_agent_map, simp, rule row_to_agent_updates)
  show "lookup_agent j (delete_agent i s) = (if j = i then None else lookup_agent j s)" for j i s
    by (simp add: delete_agent_def lookup_agent_find find_delete_agent)
qed

lemma lookup_agent_tables:
  "st_agents s' = st_agents s \<Longrightarrow> lookup_agent i s' = lookup_agent i s"
  by (simp add: lookup_agent_find)

text \<open>A created agent reads back; a refused one clashes with a row.\<close>

lemma lookup_create_agent:
  "(case create_agent row s of
      Inr s' \<Rightarrow> lookup_agent j s' =
        (if j = a_id row
         then Some (row\<lparr>a_idle_secs := None, a_busy := None, a_activity_reported_at := None,
           a_needs_attention := False, a_auto_suspend_override := None, a_woke_at := None\<rparr>)
         else lookup_agent j s)
    | Inl e \<Rightarrow> \<exists>r \<in> set (st_agents s). t_id r = a_id row \<or> t_name r = a_name row)"
proof (cases "\<exists>r \<in> set (st_agents s). t_id r = a_id row \<or> t_name r = a_name row")
  case True
  then show ?thesis by (auto simp: create_agent_def)
next
  case False
  then have "find (\<lambda>r. t_id r = a_id row) (st_agents s) = None" by (auto simp: find_None_iff)
  with False show ?thesis
    by (auto simp: create_agent_def lookup_agent_find find_append row_to_agent_def
        split: option.splits)
qed

section \<open>The wake queue\<close>

definition queued :: "uuid \<Rightarrow> store \<Rightarrow> (int \<times> string) list" where
  "queued a s = map (\<lambda>m. (pm_id m, pm_body m)) (pending_messages a s)"

definition is_undelivered_status :: "string \<Rightarrow> bool" where
  "is_undelivered_status st \<longleftrightarrow> st = ''queued'' \<or> st = ''waking''"

locale wake_queue =
  fixes pending :: "uuid \<Rightarrow> 's \<Rightarrow> (int \<times> string) list"
    and enqueue :: "uuid \<Rightarrow> string \<Rightarrow> timestamp \<Rightarrow> 's \<Rightarrow> 's \<times> int"
    and mark :: "int list \<Rightarrow> string \<Rightarrow> string option \<Rightarrow> timestamp \<Rightarrow> 's \<Rightarrow> 's"
    and inv :: "'s \<Rightarrow> bool"
  assumes pending_enqueue: "inv s \<Longrightarrow> pending j (fst (enqueue i b now s)) =
      (if j = i then pending i s @ [(snd (enqueue i b now s), b)] else pending j s)"
    and pending_settle: "inv s \<Longrightarrow> \<not> is_undelivered_status st \<Longrightarrow>
      pending j (mark ids st e now s) = filter (\<lambda>(i, _). i \<notin> set ids) (pending j s)"
    and pending_claim: "inv s \<Longrightarrow> is_undelivered_status st \<Longrightarrow>
      set ids \<subseteq> fst ` set (pending i s) \<Longrightarrow> pending j (mark ids st e now s) = pending j s"
    and pending_owner: "inv s \<Longrightarrow> j \<noteq> i \<Longrightarrow> fst ` set (pending j s) \<inter> fst ` set (pending i s) = {}"
    and pending_fresh: "inv s \<Longrightarrow> snd (enqueue i b now s) \<notin> fst ` set (pending j s)"
    and inv_enqueue: "inv s \<Longrightarrow> inv (fst (enqueue i b now s))"
    and inv_mark: "inv s \<Longrightarrow> inv (mark ids st e now s)"
begin

text \<open>One delivery round: claim what is pending, then settle exactly those ids.\<close>

lemma round_settles:
  fixes i :: uuid
  assumes "inv s" and "\<not> is_undelivered_status st"
  defines "ids \<equiv> map fst (pending i s)"
  shows "pending i (mark ids st e now' (mark ids ''waking'' None now s)) = []"
    and "j \<noteq> i \<Longrightarrow> pending j (mark ids st e now' (mark ids ''waking'' None now s)) = pending j s"
proof -
  have claim: "pending k (mark ids ''waking'' None now s) = pending k s" for k
    using assms(1) by (intro pending_claim [where i = i]) (auto simp: ids_def is_undelivered_status_def)
  have settle: "pending k (mark ids st e now' (mark ids ''waking'' None now s)) =
      filter (\<lambda>(i, _). i \<notin> set ids) (pending k s)" for k
    using assms(1,2) by (simp add: pending_settle inv_mark claim)
  show "pending i (mark ids st e now' (mark ids ''waking'' None now s)) = []"
  proof -
    have "fst m \<in> set ids" if "m \<in> set (pending i s)" for m using that by (simp add: ids_def)
    then show ?thesis unfolding settle filter_empty_conv by (simp add: case_prod_beta)
  qed
  assume "j \<noteq> i"
  have "fst m \<notin> set ids" if "m \<in> set (pending j s)" for m
  proof -
    have "fst m \<in> fst ` set (pending j s)" using that by simp
    then show ?thesis using pending_owner [OF assms(1) \<open>j \<noteq> i\<close>] unfolding ids_def by auto
  qed
  then show "pending j (mark ids st e now' (mark ids ''waking'' None now s)) = pending j s"
    unfolding settle filter_id_conv by (simp add: case_prod_beta)
qed

text \<open>Messages that arrive one after the other queue up in that order, under new ids.\<close>

lemma arrivals_queue:
  assumes "inv s"
  shows "inv (fold (\<lambda>b s. fst (enqueue i b now s)) bs s) \<and>
    (\<exists>new. pending i (fold (\<lambda>b s. fst (enqueue i b now s)) bs s) = pending i s @ new \<and>
       map snd new = bs \<and> fst ` set new \<inter> fst ` set (pending i s) = {}) \<and>
    (j \<noteq> i \<longrightarrow> pending j (fold (\<lambda>b s. fst (enqueue i b now s)) bs s) = pending j s)"
  using assms
proof (induction bs arbitrary: s)
  case (Cons b bs)
  let ?s = "fst (enqueue i b now s)" and ?m = "(snd (enqueue i b now s), b)"
  have e: "pending i ?s = pending i s @ [?m]" "j \<noteq> i \<Longrightarrow> pending j ?s = pending j s"
    using Cons.prems by (simp_all add: pending_enqueue)
  have f: "fst ?m \<notin> fst ` set (pending i s)" using pending_fresh [OF Cons.prems] by simp
  have inv: "inv ?s" using Cons.prems by (rule inv_enqueue)
  obtain new where new: "pending i (fold (\<lambda>b s. fst (enqueue i b now s)) bs ?s) = pending i ?s @ new"
    "map snd new = bs" "fst ` set new \<inter> fst ` set (pending i ?s) = {}"
    using Cons.IH [OF inv] by blast
  have "fst ` set (?m # new) \<inter> fst ` set (pending i s) = {}"
    using new(3) f e(1) by (simp add: image_Un Int_Un_distrib)
  moreover have "pending i (fold (\<lambda>b s. fst (enqueue i b now s)) (b # bs) s) = pending i s @ (?m # new)"
    using new(1) e(1) by simp
  moreover have "map snd (?m # new) = b # bs" using new(2) by simp
  ultimately have "\<exists>new. pending i (fold (\<lambda>b s. fst (enqueue i b now s)) (b # bs) s) = pending i s @ new \<and>
      map snd new = b # bs \<and> fst ` set new \<inter> fst ` set (pending i s) = {}"
    by (intro exI [of _ "?m # new"] conjI)
  moreover have "inv (fold (\<lambda>b s. fst (enqueue i b now s)) (b # bs) s)"
    using Cons.IH [OF inv] by simp
  moreover have "j \<noteq> i \<longrightarrow> pending j (fold (\<lambda>b s. fst (enqueue i b now s)) (b # bs) s) = pending j s"
    using Cons.IH [OF inv] e(2) by simp
  ultimately show ?case by blast
qed simp

text \<open>One round with arrivals in between: what was pending is settled, what arrived is pending.\<close>

lemma round_keeps_arrivals:
  fixes i :: uuid and now t :: timestamp and bs :: "string list"
  assumes "inv s" and "\<not> is_undelivered_status st"
  defines "ids \<equiv> map fst (pending i s)"
  defines "s' \<equiv> fold (\<lambda>b s. fst (enqueue i b t s)) bs (mark ids ''waking'' None now s)"
  shows "map snd (pending i (mark ids st e later s')) = bs"
    and "j \<noteq> i \<Longrightarrow> pending j (mark ids st e later s') = pending j s"
    and "inv (mark ids st e later s')"
proof -
  let ?c = "mark ids ''waking'' None now s"
  have claim: "pending k ?c = pending k s" for k
    using assms(1) by (intro pending_claim [where i = i]) (auto simp: ids_def is_undelivered_status_def)
  have c: "inv ?c" by (simp add: inv_mark assms(1))
  note arr = arrivals_queue [OF c, of i t bs, folded s'_def]
  obtain new where new: "pending i s' = pending i s @ new" "map snd new = bs"
    "fst ` set new \<inter> fst ` set (pending i s) = {}"
    using arr [of undefined] unfolding claim by blast
  have s': "inv s'" using arr [of undefined] by blast
  then show "inv (mark ids st e later s')" by (rule inv_mark)
  have settle: "pending k (mark ids st e later s') = filter (\<lambda>(i, _). i \<notin> set ids) (pending k s')" for k
    using s' assms(2) by (rule pending_settle)
  have "fst m \<in> set ids" if "m \<in> set (pending i s)" for m using that by (simp add: ids_def)
  then have "filter (\<lambda>(i, _). i \<notin> set ids) (pending i s) = []"
    by (simp add: filter_empty_conv case_prod_beta)
  moreover have "filter (\<lambda>(i, _). i \<notin> set ids) new = new"
    using new(3) unfolding ids_def filter_id_conv by fastforce
  ultimately show "map snd (pending i (mark ids st e later s')) = bs"
    using settle [of i] new by simp
  assume "j \<noteq> i"
  then have "pending j s' = pending j s" using arr claim by auto
  moreover have "fst m \<notin> set ids" if "m \<in> set (pending j s)" for m
    using pending_owner [OF assms(1) \<open>j \<noteq> i\<close>] that unfolding ids_def by auto
  then have "filter (\<lambda>(i, _). i \<notin> set ids) (pending j s) = pending j s"
    unfolding filter_id_conv by (simp add: case_prod_beta)
  ultimately show "pending j (mark ids st e later s') = pending j s" using settle [of j] by simp
qed

end

lemma pending_messages_filter:
  "store_inv s \<Longrightarrow> pending_messages a s =
     filter (\<lambda>m. pm_agent_id m = a \<and> undelivered m) (st_messages s)"
  unfolding pending_messages_def store_inv_def inv_defs
  by (intro sort_key_sorted sorted_filter_key) simp

lemma queue_ids_distinct: "store_inv s \<Longrightarrow> distinct (map pm_id (st_messages s))"
  by (simp add: store_inv_def inv_defs strict_sorted_iff)

lemma queued_filter:
  "store_inv s \<Longrightarrow> queued a s = map (\<lambda>m. (pm_id m, pm_body m))
     (filter (\<lambda>m. pm_agent_id m = a \<and> undelivered m) (st_messages s))"
  by (simp add: queued_def pending_messages_filter)

lemma queued_mark:
  assumes "store_inv s"
  shows "queued j (set_message_status ids st e now s) =
    map (\<lambda>m. (pm_id m, pm_body m))
      (filter (\<lambda>m. pm_agent_id m = j \<and>
          (if pm_id m \<in> set ids then is_undelivered_status st else undelivered m)) (st_messages s))"
proof -
  have marked: "map (\<lambda>m. (pm_id m, pm_body m))
      (filter (\<lambda>m. pm_agent_id m = j \<and> undelivered m) (mark_messages ids st e d t)) =
    map (\<lambda>m. (pm_id m, pm_body m))
      (filter (\<lambda>m. pm_agent_id m = j \<and>
          (if pm_id m \<in> set ids then is_undelivered_status st else undelivered m)) t)" for d t
    by (induction t) (auto simp: mark_messages_def undelivered_def is_undelivered_status_def)
  have "store_inv (set_message_status ids st e now s)"
    using assms by (rule set_message_status_inv)
  moreover have "st_messages (set_message_status ids st e now s) = mark_messages ids st e
      (if st = ''delivered'' then Some now else None) (st_messages s)"
    by (simp add: set_message_status_eq)
  ultimately show ?thesis by (simp only: queued_filter marked)
qed

interpretation wq: wake_queue queued enqueue_message set_message_status store_inv
proof unfold_locales
  fix s :: store and i j :: uuid and b :: string and now :: timestamp and st :: string
    and ids :: "int list" and e :: "string option"
  assume inv: "store_inv s"
  have same_id: "m = m'" if "m \<in> set (st_messages s)" "m' \<in> set (st_messages s)" "pm_id m = pm_id m'"
    for m m' using queue_ids_distinct [OF inv] that by (auto simp: distinct_map dest: inj_onD)
  show "store_inv (fst (enqueue_message i b now s))" using inv by (rule enqueue_inv)
  show "store_inv (set_message_status ids st e now s)" using inv by (rule set_message_status_inv)
  show "snd (enqueue_message i b now s) \<notin> fst ` set (queued j s)"
    using inv next_rowid_gt [of _ "map pm_id (st_messages s)"]
    by (fastforce simp: enqueue_message_def Let_def queued_filter)
  show "queued j (fst (enqueue_message i b now s)) =
      (if j = i then queued i s @ [(snd (enqueue_message i b now s), b)] else queued j s)"
    using inv enqueue_inv [OF inv, of i b now]
    by (simp add: queued_filter) (auto simp: enqueue_message_def Let_def undelivered_def)
  show "queued j (set_message_status ids st e now s) = filter (\<lambda>(i, _). i \<notin> set ids) (queued j s)"
    if "\<not> is_undelivered_status st"
    using inv that by (simp add: queued_mark queued_filter filter_map comp_def)
      (rule arg_cong [where f = "map _"], rule filter_cong, auto)
  show "fst ` set (queued j s) \<inter> fst ` set (queued i s) = {}" if "j \<noteq> i"
    using inv that by (auto simp: queued_filter dest: same_id)
  show "queued j (set_message_status ids st e now s) = queued j s"
    if st: "is_undelivered_status st" and sub: "set ids \<subseteq> fst ` set (queued i s)"
  proof -
    have "undelivered m" if m: "m \<in> set (st_messages s)" "pm_id m \<in> set ids" for m
    proof -
      obtain m' where "m' \<in> set (st_messages s)" "undelivered m'" "pm_id m' = pm_id m"
        using m(2) sub inv by (auto simp: queued_filter)
      then show ?thesis using same_id [of m' m] m(1) by simp
    qed
    then show ?thesis
      using inv st by (simp add: queued_mark queued_filter)
        (rule arg_cong [where f = "map _"], rule filter_cong, auto)
  qed
qed

section \<open>Chat events\<close>

definition has_event :: "uuid \<Rightarrow> u64 \<Rightarrow> store \<Rightarrow> bool" where
  "has_event a q s \<longleftrightarrow> (\<exists>r \<in> set (st_chat s). ch_agent_id r = a \<and> ch_seq r = q)"

locale chat_log =
  fixes append :: "uuid \<Rightarrow> log_event \<Rightarrow> 's \<Rightarrow> 's"
    and has :: "uuid \<Rightarrow> u64 \<Rightarrow> 's \<Rightarrow> bool"
    and history :: "uuid \<Rightarrow> u64 \<Rightarrow> 's \<Rightarrow> log_event list"
  assumes append_dup: "has i (ev_seq e) s \<Longrightarrow> append i e s = s"
    and has_append: "has j q (append i e s) \<longleftrightarrow> has j q s \<or> j = i \<and> q = ev_seq e"
    and history_append: "\<not> has i (ev_seq e) s \<Longrightarrow> set (history j q (append i e s)) =
      (if j = i \<and> sint q < sint (ev_seq e) then insert (e\<lparr>ev_agent_id := i\<rparr>) (set (history j q s))
       else set (history j q s))"
begin

lemma append_idem: "append i e (append i e s) = append i e s"
  by (simp add: append_dup has_append)

text \<open>Shipping is at-least-once: a batch that arrives again changes nothing.\<close>

lemma batch_keeps: "has j q s \<Longrightarrow> has j q (fold (append i) es s)"
  by (induction es arbitrary: s) (simp_all add: has_append)

lemma batch_has: "e \<in> set es \<Longrightarrow> has i (ev_seq e) (fold (append i) es s)"
  by (induction es arbitrary: s) (auto simp: has_append batch_keeps)

lemma batch_dup: "(\<And>e. e \<in> set es \<Longrightarrow> has i (ev_seq e) s) \<Longrightarrow> fold (append i) es s = s"
  by (induction es) (simp_all add: append_dup)

lemma replay: "fold (append i) es (fold (append i) es s) = fold (append i) es s"
  by (rule batch_dup) (rule batch_has)

lemma batch_history:
  "\<lbrakk>distinct (map ev_seq es); \<And>e. e \<in> set es \<Longrightarrow> \<not> has i (ev_seq e) s\<rbrakk> \<Longrightarrow>
     set (history i q (fold (append i) es s)) =
       set (history i q s) \<union> {e\<lparr>ev_agent_id := i\<rparr> | e. e \<in> set es \<and> sint q < sint (ev_seq e)}"
proof (induction es arbitrary: s)
  case (Cons x es)
  have "\<not> has i (ev_seq e) (append i x s)" if "e \<in> set es" for e
  proof -
    have "ev_seq e \<noteq> ev_seq x" using Cons.prems(1) that by (metis distinct.simps(2) image_eqI list.map(2) list.set_map)
    then show ?thesis using Cons.prems(2) that by (simp add: has_append)
  qed
  then have "set (history i q (fold (append i) (x # es) s)) = set (history i q (append i x s)) \<union>
      {e\<lparr>ev_agent_id := i\<rparr> | e. e \<in> set es \<and> sint q < sint (ev_seq e)}"
    using Cons.IH [of "append i x s"] Cons.prems(1) by simp
  then show ?case using Cons.prems(2) by (auto simp: history_append)
qed simp

end

lemma set_history_since:
  "set (history_since a q s) =
     chat_row_to_event a ` {r \<in> set (st_chat s). ch_agent_id r = a \<and> sint q < sql_seq r}"
  by (simp add: history_since_def)

interpretation chat: chat_log append_event has_event history_since
proof unfold_locales
  show "append_event i e s = s" if "has_event i (ev_seq e) s" for i e s
    using that by (simp add: has_event_def append_event_def)
  show "has_event j q (append_event i e s) \<longleftrightarrow> has_event j q s \<or> j = i \<and> q = ev_seq e" for j q i e s
    by (auto simp: has_event_def append_event_def)
  show "set (history_since j q (append_event i e s)) =
      (if j = i \<and> sint q < sint (ev_seq e) then insert (e\<lparr>ev_agent_id := i\<rparr>) (set (history_since j q s))
       else set (history_since j q s))" if "\<not> has_event i (ev_seq e) s" for i j e q s
  proof -
    let ?row = "\<lparr>ch_agent_id = i, ch_seq = ev_seq e, ch_at = ev_at e, ch_kind = ev_kind e,
      ch_payload = ev_payload e\<rparr>"
    let ?sel = "\<lambda>t. {r \<in> t. ch_agent_id r = j \<and> sint q < sql_seq r}"
    have row: "chat_row_to_event i ?row = e\<lparr>ev_agent_id := i\<rparr>"
      by (cases e) (simp add: chat_row_to_event_def)
    have "set (st_chat (append_event i e s)) = insert ?row (set (st_chat s))"
      using that by (auto simp: append_event_def has_event_def)
    then have "?sel (set (st_chat (append_event i e s))) =
        (if j = i \<and> sint q < sint (ev_seq e) then insert ?row (?sel (set (st_chat s)))
         else ?sel (set (st_chat s)))" by auto
    then show ?thesis by (simp add: set_history_since row)
  qed
qed

end
