(* ===== verification/Store_Theorems.thy ===== *)
theory Store_Theorems
  imports Store_Iface
begin

text \<open>
  What the store promises its callers: order-independent daemon lookup, the invariants of every
  reachable database, session eras, the wake queue's delivery rounds, at-least-once log
  shipping, and the placeholder rewriting.
\<close>

section \<open>Durations and daemon lookup\<close>

text \<open>
  A duration written as a decimal number and a known unit parses to exactly the product of the
  two whenever that product fits 64 bits, and always to the product modulo 2^64.\<close>

theorem duration_exact:
  assumes "n < 2 ^ 64" "list_all is_ascii_alpha u" "unit_secs u = Some k"
  shows "\<exists>w. parse_duration_secs (show_nat n @ u) = Inr w \<and>
     unat w = (n * unat k) mod 2 ^ 64 \<and> (n * unat k < 2 ^ 64 \<longrightarrow> unat w = n * unat k)"
proof -
  have "of_nat n * k = (of_nat (n * unat k) :: u64)" by simp
  then have "unat (of_nat n * k :: u64) = (n * unat k) mod 2 ^ 64"
    by (simp only: unat_of_nat take_bit_eq_mod) simp
  then show ?thesis
    using parse_duration_shown [OF assms] by simp
qed

theorem duration_exact_witness:
  "\<exists>w. parse_duration_secs (show_nat 15 @ ''mins'') = Inr w \<and> unat w = 900"
  using duration_exact [of 15 "''mins''" 60]
  by (simp add: unit_secs_def is_ascii_alpha_def)

text \<open>
  Daemon lookup by id, id prefix or hostname never depends on the order of the daemon list:
  with unique endpoint ids, any reordering of the list resolves to the same daemon, the answer
  is a member of the list that matches what was asked, and an exact endpoint id always wins.\<close>

theorem resolve_daemon_order:
  assumes "distinct (map d_endpoint_id ds)" "mset ds = mset ds'"
  shows "(resolve_daemon ds want = Inr d \<longleftrightarrow> resolve_daemon ds' want = Inr d) \<and>
    (resolve_daemon ds want = Inr d \<longrightarrow> d \<in> set ds \<and>
       (starts_with (d_endpoint_id d) want \<or> d_hostname d = want)) \<and>
    (d \<in> set ds \<longrightarrow> resolve_daemon ds (d_endpoint_id d) = Inr d)"
proof (intro conjI impI)
  have f: "find (\<lambda>d. d_endpoint_id d = want) ds = find (\<lambda>d. d_endpoint_id d = want) ds'"
    using assms by (rule find_mset_cong)
  show "resolve_daemon ds want = Inr d \<longleftrightarrow> resolve_daemon ds' want = Inr d"
    unfolding resolve_daemon_Inr f
    using filter_singleton_mset [OF assms(2)] filter_singleton_mset [OF assms(2) [symmetric]]
    by blast
  show "d \<in> set ds" if "resolve_daemon ds want = Inr d"
    using that by (rule resolve_daemon_member)
  show "starts_with (d_endpoint_id d) want \<or> d_hostname d = want" if "resolve_daemon ds want = Inr d"
    using that unfolding resolve_daemon_Inr
    by (auto simp: starts_with_def dest: find_SomeD filter_eq_ConsD)
  show "resolve_daemon ds (d_endpoint_id d) = Inr d" if "d \<in> set ds"
    using find_distinct_key [OF assms(1) that] by (simp add: resolve_daemon_Inr)
qed

definition demo_daemon :: "string \<Rightarrow> string \<Rightarrow> daemon_row" where
  "demo_daemon e h = (blank_daemon e)\<lparr>d_hostname := h\<rparr>"

theorem resolve_daemon_order_witness:
  "resolve_daemon [demo_daemon ''ab'' ''mac'', demo_daemon ''b'' ''x''] ''a'' = Inr (demo_daemon ''ab'' ''mac'')
   \<longleftrightarrow> resolve_daemon [demo_daemon ''b'' ''x'', demo_daemon ''ab'' ''mac''] ''a'' = Inr (demo_daemon ''ab'' ''mac'')"
  by (rule resolve_daemon_order [THEN conjunct1]) (simp_all add: demo_daemon_def blank_daemon_def)

section \<open>Reachable databases\<close>

text \<open>C1
  In every database reachable from an empty one by any sequence of store operations, agent
  ids and names are unique and every stored manifest parses, daemons and pending daemons are
  unique by endpoint id, session and message ids strictly increase, an agent has at most one
  open session era, and no chat event is stored twice.\<close>

theorem reachable_store_ok:
  assumes "reachable_store s"
  shows "distinct (map t_id (st_agents s)) \<and> distinct (map t_name (st_agents s)) \<and>
      is_ok (list_agents s) \<and>
      distinct (map d_endpoint_id (st_daemons s)) \<and>
      distinct (map p_endpoint_id (st_pending_daemons s)) \<and>
      (\<forall>a. length (filter (\<lambda>r. sn_ended_at r = None) (list_agent_sessions a s)) \<le> 1) \<and>
      sorted_wrt (<) (map pm_id (st_messages s)) \<and>
      distinct (map (\<lambda>r. (ch_agent_id r, ch_seq r)) (st_chat s))"
proof -
  note inv = reachable_store_inv [OF assms]
  have "length (filter (\<lambda>r. sn_ended_at r = None) (list_agent_sessions a s)) \<le> 1" for a
  proof -
    have "filter (\<lambda>r. sn_ended_at r = None) (list_agent_sessions a s) = filter (open_of a) (st_sessions s)"
      using inv unfolding list_agent_sessions_def store_inv_def inv_defs
      by (subst sort_key_sorted) (auto intro: sorted_filter_key simp: conj_commute)
    then show ?thesis using inv by (simp add: store_inv_def inv_defs)
  qed
  moreover have "is_ok (list_agents s)"
  proof -
    have "\<exists>a. row_to_agent r = Inr a" if "r \<in> set (st_agents s)" for r
      using inv that by (auto simp: store_inv_def inv_defs)
    then obtain g where "\<And>r. r \<in> set (st_agents s) \<Longrightarrow> row_to_agent r = Inr (g r)" by metis
    then show ?thesis unfolding list_agents_def by (subst map_ok_Inr) auto
  qed
  ultimately show ?thesis using inv by (simp add: store_inv_def inv_defs)
qed

theorem reachable_store_ok_witness:
  "is_ok (list_agents (fst (enqueue_message ''a'' ''hi'' ''t'' empty_store)))"
  using reachable_store_ok [OF reachable_store.step [OF reachable_store.init
      store_step.enqueue [of empty_store "''a''" "''hi''" "''t''"]]] by simp

section \<open>Session eras\<close>

lemma rev_sort_key_singleton: "length xs \<le> 1 \<Longrightarrow> rev (sort_key f xs) = xs"
  by (cases xs) auto

text \<open>
  Starting a session era in a reachable database leaves the agent with exactly one open era and
  that era is for the given session file; eras of other agents are untouched, starting the same
  file again changes nothing, and an era already open is never reopened with a later start.\<close>

theorem start_session_one_open:
  fixes a f :: string and now :: timestamp
  assumes "reachable_store s"
  defines "s' \<equiv> start_agent_session a f now s"
  shows "(\<exists>r. filter (open_of a) (st_sessions s') = [r] \<and> sn_session_file r = f) \<and>
    (b \<noteq> a \<longrightarrow> filter (\<lambda>r. sn_agent_id r = b) (st_sessions s') =
       filter (\<lambda>r. sn_agent_id r = b) (st_sessions s)) \<and>
    start_agent_session a f later s' = s'"
proof -
  let ?open = "filter (open_of a) (st_sessions s)"
  have len: "length ?open \<le> 1"
    using reachable_store_inv [OF assms(1)] by (simp add: store_inv_def inv_defs)
  have ex: "\<exists>r. filter (open_of a) (st_sessions s') = [r] \<and> sn_session_file r = f"
    using len closed_sessions_none [of a now "st_sessions s"]
    by (cases ?open)
      (auto simp: s'_def start_agent_session_def Let_def insert_session_def rev_sort_key_singleton)
  moreover have "b \<noteq> a \<longrightarrow> filter (\<lambda>r. sn_agent_id r = b) (st_sessions s') =
       filter (\<lambda>r. sn_agent_id r = b) (st_sessions s)"
    by (auto simp: s'_def start_agent_session_def Let_def insert_session_def
        intro!: filter_update_rows_disjoint)
  moreover have "start_agent_session a f later s' = s'"
    using ex by (auto simp: start_agent_session_def Let_def)
  ultimately show ?thesis by blast
qed

theorem start_session_one_open_witness:
  "start_agent_session ''a'' ''f'' ''t2'' (start_agent_session ''a'' ''f'' ''t1'' empty_store) =
     start_agent_session ''a'' ''f'' ''t1'' empty_store"
  using start_session_one_open [OF reachable_store.init, of "''a''" "''f''" "''t1''" "''b''" "''t2''"]
  by simp

section \<open>The wake queue\<close>

text \<open>
  One delivery round over the queue of an agent (claim everything pending as waking, then settle
  exactly those ids as delivered or failed) empties that agent's queue and leaves every other
  agent's queue as it was; messages enqueued between the claim and the settling stay pending, in
  their order, and none is lost.\<close>

theorem delivery_round:
  fixes a :: uuid and now t :: timestamp and bodies :: "string list"
  assumes "reachable_store s" and "st \<in> {''delivered'', ''failed''}"
  defines "ids \<equiv> map fst (queued a s)"
  defines "claimed \<equiv> set_message_status ids ''waking'' None now s"
  defines "arrived \<equiv> fold (\<lambda>b s. fst (enqueue_message a b t s)) bodies claimed"
  shows "queued a (set_message_status ids st e later claimed) = [] \<and>
    map snd (queued a (set_message_status ids st e later arrived)) = bodies \<and>
    (b \<noteq> a \<longrightarrow> queued b (set_message_status ids st e later arrived) = queued b s)"
proof -
  have inv: "store_inv s" by (rule reachable_store_inv [OF assms(1)])
  have st: "\<not> is_undelivered_status st" using assms(2) by (auto simp: is_undelivered_status_def)
  show ?thesis
    using wq.round_settles(1) [OF inv st, of a e later now]
      wq.round_keeps_arrivals(1) [OF inv st, of a e later t bodies now]
      wq.round_keeps_arrivals(2) [OF inv st, of b a e later t bodies now]
    unfolding ids_def claimed_def arrived_def by blast
qed

theorem delivery_round_witness:
  "map snd (queued ''a'' (set_message_status [1] ''delivered'' None ''t3''
     (fst (enqueue_message ''a'' ''b'' ''t2''
       (set_message_status [1] ''waking'' None ''t1''
         (fst (enqueue_message ''a'' ''x'' ''t0'' empty_store))))))) = [''b'']"
proof -
  let ?s = "fst (enqueue_message ''a'' ''x'' ''t0'' empty_store)"
  have q: "map fst (queued ''a'' ?s) = [1]"
    by (simp add: queued_def pending_messages_def enqueue_message_def Let_def empty_store_def
        next_rowid_def undelivered_def)
  have r: "reachable_store ?s"
    by (rule reachable_store.step [OF reachable_store.init store_step.enqueue])
  show ?thesis
    using delivery_round [OF r,
        where st = "''delivered''" and a = "''a''" and now = "''t1''" and t = "''t2''"
          and bodies = "[''b'']" and e = None and later = "''t3''"]
    unfolding q by simp
qed

section \<open>Log shipping\<close>

lemma sorted_sort_distinct:
  assumes "distinct (map f xs)"
  shows "sorted_wrt (<) (map f (sort_key f xs))"
proof -
  have "mset (map f (sort_key f xs)) = mset (map f xs)" by simp
  then have "distinct (map f (sort_key f xs))" using assms by (metis mset_eq_imp_distinct_iff)
  then show ?thesis by (simp add: strict_sorted_iff)
qed

text \<open>C2
  Log shipping is at-least-once and storing is idempotent: a batch that arrives again changes
  nothing; a batch of new, distinct sequence numbers adds exactly its events, and the history
  after a sequence number is strictly increasing and complete.\<close>

theorem chat_replay:
  assumes "reachable_store s"
  shows "fold (append_event a) es (fold (append_event a) es s) = fold (append_event a) es s \<and>
    sorted_wrt (<) (map (\<lambda>e. sint (ev_seq e)) (history_since a q s)) \<and>
    (distinct (map ev_seq es) \<and> (\<forall>e \<in> set es. \<not> has_event a (ev_seq e) s) \<longrightarrow>
       set (history_since a q (fold (append_event a) es s)) =
         set (history_since a q s) \<union> {e\<lparr>ev_agent_id := a\<rparr> | e. e \<in> set es \<and> sint q < sint (ev_seq e)})"
proof -
  let ?rows = "filter (\<lambda>r. ch_agent_id r = a \<and> sint q < sql_seq r) (st_chat s)"
  have "distinct (map (\<lambda>r. (ch_agent_id r, ch_seq r)) (st_chat s))"
    using reachable_store_inv [OF assms] by (simp add: store_inv_def inv_defs)
  then have "distinct (map sql_seq ?rows)"
    by (auto simp: distinct_map inj_on_def dest!: signed_word_eqI)
  then have "sorted_wrt (<) (map sql_seq (sort_key sql_seq ?rows))" by (rule sorted_sort_distinct)
  then have "sorted_wrt (<) (map (\<lambda>e. sint (ev_seq e)) (history_since a q s))"
    by (simp add: history_since_def comp_def chat_row_to_event_def)
  then show ?thesis using chat.replay chat.batch_history by blast
qed

theorem chat_replay_witness:
  "let e = \<lparr>ev_agent_id = ''a'', ev_seq = 1, ev_at = ''t'', ev_kind = ''k'', ev_payload = JNull\<rparr>
   in set (history_since ''a'' 0 (fold (append_event ''a'') [e] empty_store)) = {e}"
  using chat_replay [OF reachable_store.init, of "''a''"
      "[\<lparr>ev_agent_id = ''a'', ev_seq = 1, ev_at = ''t'', ev_kind = ''k'', ev_payload = JNull\<rparr>]" 0]
  by (auto simp: has_event_def empty_store_def history_since_def)

section \<open>Placeholders\<close>

text \<open>Rewriting a statement's placeholders for Postgres leaves no question mark, is idempotent (the
  enqueue path rewrites twice), and is the identity for SQLite.\<close>

theorem sql_rewrite_idempotent:
  "sql b (sql b q) = sql b q \<and> sql Sqlite q = q \<and> CHR ''?'' \<notin> set (sql Pg q)"
  by (cases b) (simp_all add: sql_def sql_pg_no_marks sql_pg_removes_marks)

section \<open>Agents\<close>

text \<open>A created agent reads back exactly as written, apart from the liveness columns, which start
  empty; a create with an id or a name in use fails and a create never changes another agent.\<close>

theorem create_agent_reads_back:
  "(case create_agent row s of
      Inr s' \<Rightarrow> lookup_agent j s' =
        (if j = a_id row
         then Some (row\<lparr>a_idle_secs := None, a_busy := None, a_activity_reported_at := None,
           a_needs_attention := False, a_auto_suspend_override := None, a_woke_at := None\<rparr>)
         else lookup_agent j s)
    | Inl e \<Rightarrow> \<exists>r \<in> set (st_agents s). t_id r = a_id row \<or> t_name r = a_name row)"
  by (rule lookup_create_agent)

end
