(* ===== verification/Messages.thy ===== *)
theory Messages
  imports Proto_Types
begin

text \<open>
  The wire vocabulary of control plane and daemons (crates/protocol: secrets.rs, order.rs,
  control.rs) and the JSONL framing every stream uses (framing.rs). Serialisation itself
  (serde) is a parameter: a writer \<open>to_json\<close> and a reader \<open>of_json\<close>.
\<close>

section \<open>Secret bundles (secrets.rs)\<close>

record secret_entry =
  se_value :: string
  se_hosts :: "string list"

record secret_bundle =
  sb_env :: "(string, secret_entry) btree_map"
  sb_git_ssh_key :: "string option"

definition empty_bundle :: secret_bundle where
  "empty_bundle = \<lparr>sb_env = [], sb_git_ssh_key = None\<rparr>"

definition bundle_is_empty :: "secret_bundle \<Rightarrow> bool" where
  "bundle_is_empty b \<longleftrightarrow> sb_env b = [] \<and> sb_git_ssh_key b = None"

definition bundle_values :: "secret_bundle \<Rightarrow> string list" where
  "bundle_values b = map (\<lambda>(_, e). se_value e) (sb_env b) @
     (case sb_git_ssh_key b of None \<Rightarrow> [] | Some k \<Rightarrow> [k])"

definition provider_env_and_host :: "string \<Rightarrow> (string \<times> string) option" where
  "provider_env_and_host = map_of
    [(''anthropic'', (''ANTHROPIC_API_KEY'', ''api.anthropic.com'')),
     (''openai'', (''OPENAI_API_KEY'', ''api.openai.com'')),
     (''google'', (''GEMINI_API_KEY'', ''generativelanguage.googleapis.com'')),
     (''gemini'', (''GEMINI_API_KEY'', ''generativelanguage.googleapis.com'')),
     (''google-vertex'', (''GOOGLE_CLOUD_API_KEY'', ''*-aiplatform.googleapis.com'')),
     (''kimi'', (''KIMI_API_KEY'', ''api.kimi.com'')),
     (''kimi-coding'', (''KIMI_API_KEY'', ''api.kimi.com'')),
     (''openrouter'', (''OPENROUTER_API_KEY'', ''openrouter.ai'')),
     (''groq'', (''GROQ_API_KEY'', ''api.groq.com'')),
     (''mistral'', (''MISTRAL_API_KEY'', ''api.mistral.ai'')),
     (''xai'', (''XAI_API_KEY'', ''api.x.ai'')),
     (''deepseek'', (''DEEPSEEK_API_KEY'', ''api.deepseek.com'')),
     (''cerebras'', (''CEREBRAS_API_KEY'', ''api.cerebras.ai'')),
     (''ant-ling'', (''ANT_LING_API_KEY'', ''api.ant-ling.com'')),
     (''baseten'', (''BASETEN_API_KEY'', ''inference.baseten.co'')),
     (''cloudflare-ai-gateway'', (''CLOUDFLARE_API_KEY'', ''gateway.ai.cloudflare.com'')),
     (''cloudflare-workers-ai'', (''CLOUDFLARE_API_KEY'', ''api.cloudflare.com'')),
     (''fireworks'', (''FIREWORKS_API_KEY'', ''api.fireworks.ai'')),
     (''github-copilot'', (''COPILOT_GITHUB_TOKEN'', ''api.individual.githubcopilot.com'')),
     (''huggingface'', (''HF_TOKEN'', ''router.huggingface.co'')),
     (''minimax'', (''MINIMAX_API_KEY'', ''api.minimax.io'')),
     (''minimax-cn'', (''MINIMAX_CN_API_KEY'', ''api.minimaxi.com'')),
     (''moonshotai'', (''MOONSHOT_API_KEY'', ''api.moonshot.ai'')),
     (''moonshotai-cn'', (''MOONSHOT_API_KEY'', ''api.moonshot.cn'')),
     (''nvidia'', (''NVIDIA_API_KEY'', ''integrate.api.nvidia.com'')),
     (''opencode'', (''OPENCODE_API_KEY'', ''opencode.ai'')),
     (''opencode-go'', (''OPENCODE_API_KEY'', ''opencode.ai'')),
     (''qwen-token-plan'', (''QWEN_TOKEN_PLAN_API_KEY'',
        ''token-plan.ap-southeast-1.maas.aliyuncs.com'')),
     (''qwen-token-plan-cn'', (''QWEN_TOKEN_PLAN_CN_API_KEY'',
        ''token-plan.cn-beijing.maas.aliyuncs.com'')),
     (''qwen-token-plan-individual'', (''QWEN_TOKEN_PLAN_API_KEY'',
        ''token-plan.ap-southeast-1.maas.aliyuncs.com'')),
     (''together'', (''TOGETHER_API_KEY'', ''api.together.ai'')),
     (''vercel-ai-gateway'', (''AI_GATEWAY_API_KEY'', ''ai-gateway.vercel.sh'')),
     (''xiaomi'', (''XIAOMI_API_KEY'', ''api.xiaomimimo.com'')),
     (''xiaomi-token-plan-cn'', (''XIAOMI_TOKEN_PLAN_CN_API_KEY'',
        ''token-plan-cn.xiaomimimo.com'')),
     (''xiaomi-token-plan-ams'', (''XIAOMI_TOKEN_PLAN_AMS_API_KEY'',
        ''token-plan-ams.xiaomimimo.com'')),
     (''xiaomi-token-plan-sgp'', (''XIAOMI_TOKEN_PLAN_SGP_API_KEY'',
        ''token-plan-sgp.xiaomimimo.com'')),
     (''zai'', (''ZAI_API_KEY'', ''api.z.ai'')),
     (''zai-coding-cn'', (''ZAI_CODING_CN_API_KEY'', ''open.bigmodel.cn''))]"

section \<open>Orders (order.rs)\<close>

datatype order =
    CreateAgent uuid agent_manifest secret_bundle
  | StartAgent uuid bool
  | StopAgent uuid u32
  | SuspendAgent uuid bool "timestamp option"
  | RestoreAgent uuid agent_manifest
  | DestroyAgent uuid
  | UpdateManifest uuid agent_manifest
  | Ping u64

record order_ack =
  ack_success :: bool
  ack_message :: "string option"
  ack_data :: "json option"

section \<open>Control messages (control.rs)\<close>

definition protocol_version :: u32 where "protocol_version = 1"

record register_msg =
  rg_info :: daemon_info
  rg_protocol_version :: u32

record register_response =
  rr_accepted :: bool
  rr_message :: "string option"
  rr_protocol_version :: u32

datatype stream_hello =
    HelloLogs uuid
  | HelloAttach uuid
  | HelloStateReport
  | HelloSecrets uuid
  | HelloBundleUpload uuid
  | HelloRestore uuid
  | HelloShell uuid
  | HelloOrder

datatype bundle_message =
    BundleStart agent_manifest "string option" "secret_bundle option"
  | BundleFile string string bool "string option"
  | BundleEnd

record bundle_ack =
  ba_success :: bool
  ba_message :: "string option"

record agent_state_entry =
  as_agent_id :: uuid
  as_name :: string
  as_state :: agent_state
  as_idle_secs :: "u64 option"
  as_busy :: "bool option"
  as_session_file :: "string option"

record state_report =
  sr_agents :: "agent_state_entry list"
  sr_full :: bool

section \<open>JSONL framing (framing.rs)\<close>

datatype framing_error = JsonError string | FramingEof | LineTooLong nat

definition max_line_len :: nat where
  "max_line_len = 16 * 1024 * 1024"

text \<open>\<open>read_line\<close>: through the first newline; the second component is what stays unread.\<close>

fun read_line :: "string \<Rightarrow> string \<times> string" where
  "read_line [] = ([], [])"
| "read_line (c # cs) =
     (if c = CHR 0x0A then ([c], cs) else case read_line cs of (l, rest) \<Rightarrow> (c # l, rest))"

text \<open>
  One record: the line is read from at most \<open>limit\<close> characters. The result comes with the input
  that stays unread.
\<close>

definition read_jsonl_with_limit ::
    "(string \<Rightarrow> 'a option) \<Rightarrow> nat \<Rightarrow> string \<Rightarrow> (framing_error + 'a) \<times> string" where
  "read_jsonl_with_limit of_json limit input =
     (case read_line (take limit input) of (line, unread) \<Rightarrow>
        let rest = unread @ drop limit input in
        if line = [] then (Inl FramingEof, rest)
        else if last line \<noteq> CHR 0x0A then
          (if length line \<ge> limit then (Inl (LineTooLong limit), rest) else (Inl FramingEof, rest))
        else
          let popped = butlast line;
              text = (if popped \<noteq> [] \<and> last popped = CHR 0x0D then butlast popped else popped)
          in (case of_json text of None \<Rightarrow> Inl (JsonError text) | Some v \<Rightarrow> Inr v, rest))"

definition read_jsonl :: "(string \<Rightarrow> 'a option) \<Rightarrow> string \<Rightarrow> (framing_error + 'a) \<times> string" where
  "read_jsonl of_json input = read_jsonl_with_limit of_json max_line_len input"

definition write_jsonl :: "('a \<Rightarrow> string) \<Rightarrow> 'a \<Rightarrow> string" where
  "write_jsonl to_json v = to_json v @ [CHR 0x0A]"

text \<open>The receive loops: records until the stream ends or a record fails.\<close>

fun read_all :: "nat \<Rightarrow> (string \<Rightarrow> 'a option) \<Rightarrow> nat \<Rightarrow> string \<Rightarrow> 'a list \<times> framing_error option" where
  "read_all 0 of_json limit input = ([], None)"
| "read_all (Suc fuel) of_json limit input =
     (case read_jsonl_with_limit of_json limit input of
        (Inl FramingEof, _) \<Rightarrow> ([], None)
      | (Inl e, _) \<Rightarrow> ([], Some e)
      | (Inr v, rest) \<Rightarrow> (case read_all fuel of_json limit rest of (vs, e) \<Rightarrow> (v # vs, e)))"

lemma read_line_append:
  "CHR 0x0A \<notin> set l \<Longrightarrow> read_line (l @ CHR 0x0A # rest) = (l @ [CHR 0x0A], rest)"
  by (induction l) auto

lemma read_line_no_newline: "CHR 0x0A \<notin> set l \<Longrightarrow> read_line l = (l, [])"
  by (induction l) auto

lemma read_line_split: "read_line s = (l, r) \<Longrightarrow> s = l @ r"
  by (induction s arbitrary: l) (auto split: if_splits prod.splits)

lemma read_jsonl_record:
  assumes "CHR 0x0A \<notin> set l" "l = [] \<or> last l \<noteq> CHR 0x0D" "Suc (length l) \<le> limit" "of_json l = Some v"
  shows "read_jsonl_with_limit of_json limit (l @ CHR 0x0A # rest) = (Inr v, rest)"
proof -
  have "take limit (l @ CHR 0x0A # rest) = l @ CHR 0x0A # take (limit - Suc (length l)) rest"
    using assms(3) by (simp add: take_Cons' Suc_diff_le)
  moreover have "drop limit (l @ CHR 0x0A # rest) = drop (limit - Suc (length l)) rest"
    using assms(3) by (simp add: drop_Cons')
  ultimately show ?thesis
    using assms by (auto simp: read_jsonl_with_limit_def read_line_append Let_def)
qed

text \<open>A reader never looks past the limit and never invents or reorders input.\<close>

lemma read_jsonl_consumes:
  assumes "read_jsonl_with_limit of_json limit input = (r, rest)"
  obtains line where "input = line @ rest" "length line \<le> limit"
proof -
  obtain l u where l: "read_line (take limit input) = (l, u)" by (cases "read_line (take limit input)")
  then have "take limit input = l @ u" by (rule read_line_split)
  then have "input = l @ (u @ drop limit input)" "length l \<le> limit"
    by (metis append.assoc append_take_drop_id, metis length_append le_add1 length_take min.cobounded2 order_trans)
  moreover have "rest = u @ drop limit input"
    using assms l by (auto simp: read_jsonl_with_limit_def Let_def split: if_splits option.splits)
  ultimately show thesis using that by blast
qed

text \<open>Each record uses up input, so more fuel than input changes nothing.\<close>

lemma read_jsonl_progress:
  assumes "read_jsonl_with_limit of_json limit input = (Inr v, rest)"
  shows "length rest < length input"
proof -
  obtain l u where l: "read_line (take limit input) = (l, u)" by (cases "read_line (take limit input)")
  then have i: "input = l @ (u @ drop limit input)"
    by (metis append.assoc append_take_drop_id read_line_split)
  have r: "rest = u @ drop limit input" "l \<noteq> []"
    using assms l by (auto simp: read_jsonl_with_limit_def Let_def split: if_splits option.splits)
  have "length input = length l + length rest" unfolding r by (subst i) (simp only: length_append)
  then show ?thesis using r(2) by (cases l) auto
qed

lemma read_all_fuel:
  "length input < n \<Longrightarrow> length input < m \<Longrightarrow>
     read_all n of_json limit input = read_all m of_json limit input"
proof (induction n arbitrary: m input)
  case (Suc n)
  then obtain m' where m: "m = Suc m'" by (cases m) auto
  obtain r rest where e: "read_jsonl_with_limit of_json limit input = (r, rest)"
    by (cases "read_jsonl_with_limit of_json limit input")
  show ?case
  proof (cases r)
    case (Inl x)
    then show ?thesis by (cases x) (simp_all add: m e)
  next
    case (Inr v)
    have "read_all n of_json limit rest = read_all m' of_json limit rest"
      using read_jsonl_progress [OF e [unfolded Inr]] Suc.prems m by (intro Suc.IH) auto
    then show ?thesis by (simp add: m e Inr)
  qed
qed simp

text \<open>What a writer's JSON text must be for the framing: one line, within the limit, read back.\<close>

definition frames :: "('a \<Rightarrow> string) \<Rightarrow> (string \<Rightarrow> 'a option) \<Rightarrow> nat \<Rightarrow> 'a \<Rightarrow> bool" where
  "frames to_json of_json limit v \<longleftrightarrow>
     of_json (to_json v) = Some v \<and> CHR 0x0A \<notin> set (to_json v) \<and>
     (to_json v = [] \<or> last (to_json v) \<noteq> CHR 0x0D) \<and> length (to_json v) < limit"

text \<open>C3
  JSONL framing round trip: a stream of records written one after the other is read back as
  exactly those records, in order, and then ends cleanly; a record cut short anywhere before its
  newline (and shorter than the limit) is reported as end of stream after the complete ones, and
  never as a shortened record.\<close>

theorem jsonl_stream_roundtrip:
  assumes "\<forall>v \<in> set vs. frames to_json of_json limit v"
    and "CHR 0x0A \<notin> set partial" "length partial < limit"
    and "length (concat (map (write_jsonl to_json) vs) @ partial) < fuel"
  shows "read_all fuel of_json limit (concat (map (write_jsonl to_json) vs) @ partial) = (vs, None)"
  using assms
proof (induction vs arbitrary: fuel)
  case Nil
  then obtain f where "fuel = Suc f" by (cases fuel) auto
  with Nil show ?case
    by (auto simp: read_jsonl_with_limit_def read_line_no_newline Let_def dest: last_in_set)
next
  case (Cons v vs)
  then obtain f where f: "fuel = Suc f" by (cases fuel) auto
  have "read_jsonl_with_limit of_json limit
      (to_json v @ CHR 0x0A # (concat (map (write_jsonl to_json) vs) @ partial)) =
      (Inr v, concat (map (write_jsonl to_json) vs) @ partial)"
    using Cons.prems(1) by (intro read_jsonl_record) (auto simp: frames_def)
  moreover have "read_all f of_json limit (concat (map (write_jsonl to_json) vs) @ partial) = (vs, None)"
    using Cons.prems f by (intro Cons.IH) (simp_all add: write_jsonl_def [of to_json v])
  ultimately show ?case using f by (simp add: write_jsonl_def [of to_json v])
qed

theorem jsonl_stream_roundtrip_witness:
  "read_all 20 (\<lambda>t. if t = ''{}'' then Some True else None) 8
     (concat (map (write_jsonl (\<lambda>_. ''{}'')) [True, True]) @ ''{'') = ([True, True], None)"
  by (rule jsonl_stream_roundtrip) (simp_all add: frames_def write_jsonl_def)

text \<open>
  Reading one record consumes at most the limit and returns the rest of the stream untouched,
  and an endless line is refused with the limit instead of being collected.\<close>

theorem jsonl_reader_bounded:
  "\<exists>line. input = line @ snd (read_jsonl_with_limit of_json limit input) \<and> length line \<le> limit \<and>
     (CHR 0x0A \<in> set (take limit input) \<or> input = [] \<or> limit = 0 \<or> length input < limit \<or>
      fst (read_jsonl_with_limit of_json limit input) = Inl (LineTooLong limit))"
proof -
  obtain line where line: "input = line @ snd (read_jsonl_with_limit of_json limit input)"
    "length line \<le> limit"
    using read_jsonl_consumes [of of_json limit input] by (metis prod.collapse)
  have "fst (read_jsonl_with_limit of_json limit input) = Inl (LineTooLong limit)"
    if "CHR 0x0A \<notin> set (take limit input)" "input \<noteq> []" "limit \<noteq> 0" "\<not> length input < limit"
  proof -
    have "take limit input \<noteq> []" using that by simp
    then have "last (take limit input) \<noteq> CHR 0x0A" using that(1) last_in_set by metis
    then show ?thesis
      using that by (simp add: read_jsonl_with_limit_def read_line_no_newline Let_def)
  qed
  then show ?thesis
    by (intro exI [of _ line] conjI; use line in \<open>(assumption | satx)\<close>)
qed

end
