(* ===== verification/Secret_Store.thy ===== *)
theory Secret_Store
  imports Messages
begin

text \<open>
  The control plane's secrets store (crates/suzerain/src/secrets.rs): slicing the bundle an agent
  needs, the pre-create check, and the mutations. Encryption (age) and YAML are parameters:
  \<open>seal\<close> turns a store into file content, \<open>unseal\<close> reads it back; either may fail. The state is
  the loaded store, the content of \<open>secrets.age\<close> and that of its temporary file.
\<close>

section \<open>State\<close>

record store_file =
  sf_providers :: labels
  sf_git :: labels
  sf_extra :: labels

definition empty_store_file :: store_file where
  "empty_store_file = \<lparr>sf_providers = [], sf_git = [], sf_extra = []\<rparr>"

record secrets_state =
  sec_store :: "store_file option"
  sec_file :: "string option"
  sec_tmp :: "string option"

datatype missing_secret =
  NoEnvMapping string | NoProviderKey string | NoExtraSecret string | NoGitSshKey

datatype secrets_error =
    SecretsNotLoaded
  | MissingSecrets "missing_secret list"
  | KeyAbsent missing_secret
  | EncryptFailed
  | DecryptFailed
  | VerifyFailed
  | BlankSecret
  | BadSshKey
  | UnknownKind string
  | SecretNotFound

section \<open>Slicing\<close>

fun slice_providers ::
    "store_file \<Rightarrow> string list \<Rightarrow> (string, secret_entry) btree_map \<Rightarrow>
      secrets_error + (string, secret_entry) btree_map" where
  "slice_providers store [] env = Inr env"
| "slice_providers store (provider # ps) env =
     (case provider_env_and_host provider of
        None \<Rightarrow> slice_providers store ps env
      | Some (env_var, host) \<Rightarrow>
          (case map_of (sf_providers store) provider of
             None \<Rightarrow> Inl (KeyAbsent (NoProviderKey provider))
           | Some value \<Rightarrow>
               slice_providers store ps
                 (bt_insert env_var \<lparr>se_value = value, se_hosts = [host]\<rparr> env)))"

definition extra_env :: "string \<Rightarrow> string \<times> string list" where
  "extra_env name = (case split_once CHR ''@'' name of
     Some (var, host) \<Rightarrow> (var, [host]) | None \<Rightarrow> (name, []))"

fun slice_extra ::
    "store_file \<Rightarrow> string list \<Rightarrow> (string, secret_entry) btree_map \<Rightarrow>
      secrets_error + (string, secret_entry) btree_map" where
  "slice_extra store [] env = Inr env"
| "slice_extra store (name # ns) env =
     (case map_of (sf_extra store) name of
        None \<Rightarrow> Inl (KeyAbsent (NoExtraSecret name))
      | Some value \<Rightarrow>
          slice_extra store ns
            (bt_insert (fst (extra_env name))
               \<lparr>se_value = value, se_hosts = snd (extra_env name)\<rparr> env))"

definition slice_for :: "agent_manifest \<Rightarrow> secrets_state \<Rightarrow> secrets_error + secret_bundle" where
  "slice_for m st =
     (case sec_store st of
        None \<Rightarrow> Inl SecretsNotLoaded
      | Some store \<Rightarrow>
          res_bind (slice_providers store (ss_providers (m_secrets m)) []) (\<lambda>env.
            let git_ssh_key = (if m_repos m \<noteq> [] \<or> m_extensions m \<noteq> []
                               then map_of (sf_git store) ''ssh_key'' else None)
            in res_bind (slice_extra store (ss_extra (m_secrets m)) env) (\<lambda>env'.
                 Inr \<lparr>sb_env = env', sb_git_ssh_key = git_ssh_key\<rparr>)))"

section \<open>The check before a create\<close>

definition is_ssh :: "string \<Rightarrow> bool" where
  "is_ssh url \<longleftrightarrow> starts_with url ''git@'' \<or> starts_with url ''ssh://''"

definition needs_git_ssh_key :: "agent_manifest \<Rightarrow> bool" where
  "needs_git_ssh_key m \<longleftrightarrow>
     (\<exists>r \<in> set (m_repos m). is_ssh (rp_url r)) \<or>
     (\<exists>e \<in> set (m_extensions m).
        (case x_url e of None \<Rightarrow> False | Some u \<Rightarrow> is_ssh u) \<or>
        (case x_source e of None \<Rightarrow> False
         | Some s \<Rightarrow> is_ssh s \<or>
             (case strip_prefix ''git:'' s of None \<Rightarrow> False | Some r \<Rightarrow> is_ssh r)))"

definition missing_in_store :: "agent_manifest \<Rightarrow> store_file \<Rightarrow> missing_secret list" where
  "missing_in_store m store =
     map NoProviderKey (filter (\<lambda>p. provider_env_and_host p \<noteq> None \<and>
         map_of (sf_providers store) p = None) (ss_providers (m_secrets m))) @
     map NoExtraSecret (filter (\<lambda>n. map_of (sf_extra store) n = None) (ss_extra (m_secrets m))) @
     (if needs_git_ssh_key m \<and> map_of (sf_git store) ''ssh_key'' = None then [NoGitSshKey] else [])"

definition preflight :: "agent_manifest \<Rightarrow> secrets_state \<Rightarrow> secrets_error + unit" where
  "preflight m st =
     (let unmapped = map NoEnvMapping
            (filter (\<lambda>p. provider_env_and_host p = None) (ss_providers (m_secrets m)));
          declares_secrets = (ss_providers (m_secrets m) \<noteq> [] \<or> ss_extra (m_secrets m) \<noteq> [] \<or>
            needs_git_ssh_key m)
      in case sec_store st of
           None \<Rightarrow> if declares_secrets then Inl SecretsNotLoaded
                   else if unmapped \<noteq> [] then Inl (MissingSecrets unmapped) else Inr ()
         | Some store \<Rightarrow>
             (let missing = unmapped @ missing_in_store m store
              in if missing \<noteq> [] then Inl (MissingSecrets missing) else Inr ()))"

section \<open>Mutations\<close>

text \<open>
  \<open>persist\<close>: encrypt, write the temporary file, verify that it decrypts, rename, then publish.
\<close>

definition persist ::
    "(store_file \<Rightarrow> string option) \<Rightarrow> (string \<Rightarrow> store_file option) \<Rightarrow> store_file \<Rightarrow>
      secrets_state \<Rightarrow> (secrets_error + unit) \<times> secrets_state" where
  "persist seal unseal candidate st =
     (case seal candidate of
        None \<Rightarrow> (Inl EncryptFailed, st)
      | Some encrypted \<Rightarrow>
          (let st1 = st\<lparr>sec_tmp := Some encrypted\<rparr>
           in case unseal encrypted of
                None \<Rightarrow> (Inl VerifyFailed, st1)
              | Some _ \<Rightarrow> (Inr (), st1\<lparr>sec_file := Some encrypted, sec_tmp := None,
                                      sec_store := Some candidate\<rparr>)))"

definition mutate ::
    "(store_file \<Rightarrow> string option) \<Rightarrow> (string \<Rightarrow> store_file option) \<Rightarrow> (store_file \<Rightarrow> store_file) \<Rightarrow>
      secrets_state \<Rightarrow> (secrets_error + unit) \<times> secrets_state" where
  "mutate seal unseal f st =
     (case sec_store st of
        None \<Rightarrow> (Inl SecretsNotLoaded, st)
      | Some store \<Rightarrow> persist seal unseal (f store) st)"

text \<open>The requests of the admin surface; a key check (ssh-key crate) is the parameter \<open>key_ok\<close>.\<close>

datatype secret_op =
    SetProvider string string
  | DeleteProvider string
  | SetSshKey string
  | DeleteSshKey
  | SetExtra string string
  | DeleteExtra string

fun apply_op :: "secret_op \<Rightarrow> store_file \<Rightarrow> store_file" where
  "apply_op (SetProvider i v) s = s\<lparr>sf_providers := bt_insert i v (sf_providers s)\<rparr>"
| "apply_op (DeleteProvider i) s = s\<lparr>sf_providers := bt_remove i (sf_providers s)\<rparr>"
| "apply_op (SetSshKey v) s = s\<lparr>sf_git := bt_insert ''ssh_key'' v (sf_git s)\<rparr>"
| "apply_op DeleteSshKey s = s\<lparr>sf_git := bt_remove ''ssh_key'' (sf_git s)\<rparr>"
| "apply_op (SetExtra n v) s = s\<lparr>sf_extra := bt_insert n v (sf_extra s)\<rparr>"
| "apply_op (DeleteExtra n) s = s\<lparr>sf_extra := bt_remove n (sf_extra s)\<rparr>"

fun op_guard :: "(string \<Rightarrow> bool) \<Rightarrow> secret_op \<Rightarrow> secrets_error option" where
  "op_guard key_ok (SetProvider i v) = (if trim i = [] \<or> trim v = [] then Some BlankSecret else None)"
| "op_guard key_ok (SetSshKey v) = (if key_ok v then None else Some BadSshKey)"
| "op_guard key_ok (SetExtra n v) = (if trim n = [] \<or> trim v = [] then Some BlankSecret else None)"
| "op_guard key_ok _ = None"

definition run_op ::
    "(string \<Rightarrow> bool) \<Rightarrow> (store_file \<Rightarrow> string option) \<Rightarrow> (string \<Rightarrow> store_file option) \<Rightarrow> secret_op \<Rightarrow>
      secrets_state \<Rightarrow> (secrets_error + unit) \<times> secrets_state" where
  "run_op key_ok seal unseal op st =
     (case op_guard key_ok op of
        Some e \<Rightarrow> (Inl e, st)
      | None \<Rightarrow> mutate seal unseal (apply_op op) st)"

section \<open>Loading\<close>

text \<open>The result is the migrated store (the code updates it in place before it can fail).\<close>

definition migrate_git_key_names ::
    "(store_file \<Rightarrow> string option) \<Rightarrow> (string \<Rightarrow> store_file option) \<Rightarrow> store_file \<Rightarrow>
      secrets_state \<Rightarrow> (secrets_error + store_file) \<times> secrets_state" where
  "migrate_git_key_names seal unseal store st =
     (if map_of (sf_git store) ''ssh_key'' \<noteq> None
      then (Inr (store\<lparr>sf_git := bt_remove ''deploy_key'' (sf_git store)\<rparr>), st)
      else case map_of (sf_git store) ''deploy_key'' of
             None \<Rightarrow> (Inr store, st)
           | Some key \<Rightarrow>
               (let store' = store\<lparr>sf_git :=
                      bt_insert ''ssh_key'' key (bt_remove ''deploy_key'' (sf_git store))\<rparr>
                in case persist seal unseal store' st of
                     (Inl e, st') \<Rightarrow> (Inl e, st')
                   | (Inr _, st') \<Rightarrow> (Inr store', st')))"

definition load ::
    "(store_file \<Rightarrow> string option) \<Rightarrow> (string \<Rightarrow> store_file option) \<Rightarrow> secrets_state \<Rightarrow>
      (secrets_error + unit) \<times> secrets_state" where
  "load seal unseal st =
     (case sec_file st of
        None \<Rightarrow> (Inr (), st\<lparr>sec_store := Some empty_store_file\<rparr>)
      | Some content \<Rightarrow>
          (case unseal content of
             None \<Rightarrow> (Inl DecryptFailed, st)
           | Some store \<Rightarrow>
               (case migrate_git_key_names seal unseal store st of
                  (Inl e, st') \<Rightarrow> (Inl e, st')
                | (Inr store', st') \<Rightarrow> (Inr (), st'\<lparr>sec_store := Some store'\<rparr>))))"

section \<open>Inventory and reveal\<close>

definition inventory :: "secrets_state \<Rightarrow> (string \<times> string) list" where
  "inventory st =
     (case sec_store st of
        None \<Rightarrow> []
      | Some s \<Rightarrow>
          map (\<lambda>(k, _). (''provider'', k)) (sf_providers s) @
          (if map_of (sf_git s) ''ssh_key'' \<noteq> None then [(''git'', ''ssh_key'')] else []) @
          map (\<lambda>(k, _). (''extra'', k)) (sf_extra s))"

definition reveal :: "string \<Rightarrow> string \<Rightarrow> secrets_state \<Rightarrow> secrets_error + string" where
  "reveal kind name st =
     (case sec_store st of
        None \<Rightarrow> Inl SecretsNotLoaded
      | Some s \<Rightarrow>
          (let found = (\<lambda>m. case map_of m name of None \<Rightarrow> Inl SecretNotFound | Some v \<Rightarrow> Inr v)
           in if kind = ''provider'' then found (sf_providers s)
              else if kind = ''extra'' then found (sf_extra s)
              else if kind = ''git'' then found (sf_git s)
              else Inl (UnknownKind kind)))"

section \<open>What slicing yields\<close>

lemma slice_providers_ok:
  "(\<forall>p \<in> set ps. provider_env_and_host p \<noteq> None \<longrightarrow> map_of (sf_providers s) p \<noteq> None) \<Longrightarrow>
     is_ok (slice_providers s ps env)"
  by (induction ps arbitrary: env) (auto split: option.splits prod.splits)

lemma slice_extra_ok:
  "(\<forall>n \<in> set ns. map_of (sf_extra s) n \<noteq> None) \<Longrightarrow> is_ok (slice_extra s ns env)"
  by (induction ns arbitrary: env) (auto split: option.splits)

definition from_provider :: "store_file \<Rightarrow> string list \<Rightarrow> string \<Rightarrow> secret_entry \<Rightarrow> bool" where
  "from_provider s ps k e \<longleftrightarrow> (\<exists>p \<in> set ps. \<exists>host v.
     provider_env_and_host p = Some (k, host) \<and> map_of (sf_providers s) p = Some v \<and>
     e = \<lparr>se_value = v, se_hosts = [host]\<rparr>)"

definition from_extra :: "store_file \<Rightarrow> string list \<Rightarrow> string \<Rightarrow> secret_entry \<Rightarrow> bool" where
  "from_extra s ns k e \<longleftrightarrow> (\<exists>n \<in> set ns. \<exists>v. map_of (sf_extra s) n = Some v \<and>
     k = fst (extra_env n) \<and> e = \<lparr>se_value = v, se_hosts = snd (extra_env n)\<rparr>)"

lemma slice_providers_sound:
  assumes "slice_providers s ps env = Inr env'" "bt_sorted env"
  shows "bt_sorted env' \<and> (map_of env' k = Some e \<longrightarrow> map_of env k = Some e \<or> from_provider s ps k e)"
  using assms
proof (induction ps arbitrary: env)
  case (Cons p ps)
  have step: "from_provider s ps k e \<Longrightarrow> from_provider s (p # ps) k e"
    by (auto simp: from_provider_def)
  show ?case
  proof (cases "provider_env_and_host p")
    case None
    then have "slice_providers s ps env = Inr env'" using Cons.prems(1) by simp
    from Cons.IH [OF this Cons.prems(2)] show ?thesis using step by blast
  next
    case (Some vh)
    obtain var host where vh: "vh = (var, host)" by (cases vh)
    from Some Cons.prems(1) vh obtain v where v: "map_of (sf_providers s) p = Some v"
      by (auto split: option.splits)
    let ?e = "\<lparr>se_value = v, se_hosts = [host]\<rparr>"
    have "slice_providers s ps (bt_insert var ?e env) = Inr env'"
      using Some Cons.prems(1) vh v by simp
    from Cons.IH [OF this bt_sorted_insert [OF Cons.prems(2)]]
    have ih: "bt_sorted env' \<and> (map_of env' k = Some e \<longrightarrow>
        map_of (bt_insert var ?e env) k = Some e \<or> from_provider s ps k e)" .
    moreover have "map_of (bt_insert var ?e env) k = Some e \<Longrightarrow>
        map_of env k = Some e \<or> from_provider s (p # ps) k e"
      using Some vh v Cons.prems(2)
      by (auto simp: bt_lookup_insert from_provider_def split: if_splits)
    ultimately show ?thesis using step by blast
  qed
qed simp

lemma slice_extra_sound:
  assumes "slice_extra s ns env = Inr env'" "bt_sorted env"
  shows "bt_sorted env' \<and> (map_of env' k = Some e \<longrightarrow> map_of env k = Some e \<or> from_extra s ns k e)"
  using assms
proof (induction ns arbitrary: env)
  case (Cons n ns)
  obtain v where v: "map_of (sf_extra s) n = Some v"
    using Cons.prems(1) by (auto split: option.splits)
  let ?e = "\<lparr>se_value = v, se_hosts = snd (extra_env n)\<rparr>"
  have "slice_extra s ns (bt_insert (fst (extra_env n)) ?e env) = Inr env'"
    using Cons.prems(1) v by simp
  from Cons.IH [OF this bt_sorted_insert [OF Cons.prems(2)]]
  have ih: "bt_sorted env' \<and> (map_of env' k = Some e \<longrightarrow>
      map_of (bt_insert (fst (extra_env n)) ?e env) k = Some e \<or> from_extra s ns k e)" .
  moreover have "map_of (bt_insert (fst (extra_env n)) ?e env) k = Some e \<Longrightarrow>
      map_of env k = Some e \<or> from_extra s (n # ns) k e"
    using v Cons.prems(2) by (auto simp: bt_lookup_insert from_extra_def split: if_splits)
  moreover have "from_extra s ns k e \<Longrightarrow> from_extra s (n # ns) k e"
    by (auto simp: from_extra_def)
  ultimately show ?case by blast
qed simp

section \<open>Properties\<close>

lemma slice_providers_keeps:
  "slice_providers s ps env = Inr env' \<Longrightarrow> k \<in> fst ` set env \<Longrightarrow> k \<in> fst ` set env'"
  by (induction ps arbitrary: env) (auto simp: set_bt_insert split: option.splits prod.splits)

lemma slice_extra_keeps:
  "slice_extra s ns env = Inr env' \<Longrightarrow> k \<in> fst ` set env \<Longrightarrow> k \<in> fst ` set env'"
  by (induction ns arbitrary: env) (auto simp: set_bt_insert split: option.splits)

lemma slice_providers_has:
  "\<lbrakk>slice_providers s ps env = Inr env'; p \<in> set ps; provider_env_and_host p = Some (k, h)\<rbrakk> \<Longrightarrow>
     k \<in> fst ` set env'"
  by (induction ps arbitrary: env)
    (auto simp: set_bt_insert split: option.splits prod.splits dest: slice_providers_keeps [where k = k])

lemma slice_extra_has:
  "\<lbrakk>slice_extra s ns env = Inr env'; n \<in> set ns\<rbrakk> \<Longrightarrow> fst (extra_env n) \<in> fst ` set env'"
  by (induction ns arbitrary: env)
    (auto simp: set_bt_insert split: option.splits dest: slice_extra_keeps [where k = "fst (extra_env n)"])

text \<open>
  Fail-fast secrets: whenever the check before a create passes and the store is loaded, slicing
  the agent's bundle cannot fail, and the bundle carries a variable for every provider and extra
  secret the manifest names.\<close>

theorem preflight_slices:
  assumes "preflight m st = Inr ()" "sec_store st = Some s"
  shows "\<exists>b. slice_for m st = Inr b \<and>
    (\<forall>p \<in> set (ss_providers (m_secrets m)). \<exists>k h. provider_env_and_host p = Some (k, h) \<and>
       k \<in> fst ` set (sb_env b)) \<and>
    (\<forall>n \<in> set (ss_extra (m_secrets m)). fst (extra_env n) \<in> fst ` set (sb_env b))"
proof -
  let ?ps = "ss_providers (m_secrets m)" and ?ns = "ss_extra (m_secrets m)"
  have pf: "\<forall>p \<in> set ?ps. provider_env_and_host p \<noteq> None \<and> map_of (sf_providers s) p \<noteq> None"
    "\<forall>n \<in> set ?ns. map_of (sf_extra s) n \<noteq> None"
    using assms by (auto simp: preflight_def missing_in_store_def Let_def filter_empty_conv split: if_splits)
  obtain env where env: "slice_providers s ?ps [] = Inr env"
    using slice_providers_ok [of ?ps s "[]"] pf by (auto simp: is_ok_conv)
  obtain env' where env': "slice_extra s ?ns env = Inr env'"
    using slice_extra_ok [of ?ns s env] pf by (auto simp: is_ok_conv)
  have "\<exists>k h. provider_env_and_host p = Some (k, h) \<and> k \<in> fst ` set env'" if "p \<in> set ?ps" for p
    using pf(1) that slice_providers_has [OF env that] slice_extra_keeps [OF env'] by fastforce
  then show ?thesis
    using assms env env' slice_extra_has [OF env'] by (simp add: slice_for_def Let_def)
qed

definition demo_secrets :: secrets_state where
  "demo_secrets =
     \<lparr>sec_store = Some \<lparr>sf_providers = [(''openai'', ''sk'')], sf_git = [], sf_extra = []\<rparr>,
      sec_file = None, sec_tmp = None\<rparr>"

definition demo_secret_manifest :: agent_manifest where
  "demo_secret_manifest =
     (minimal_manifest ''a'' ''openai'' ''m'')\<lparr>m_secrets := \<lparr>ss_providers = [''openai''], ss_extra = []\<rparr>\<rparr>"

lemma demo_preflight: "preflight demo_secret_manifest demo_secrets = Inr ()"
  by (simp add: preflight_def demo_secret_manifest_def demo_secrets_def minimal_manifest_def
      missing_in_store_def needs_git_ssh_key_def provider_env_and_host_def)

lemma demo_slice:
  "slice_for demo_secret_manifest demo_secrets = Inr \<lparr>sb_env = [(''OPENAI_API_KEY'',
     \<lparr>se_value = ''sk'', se_hosts = [''api.openai.com'']\<rparr>)], sb_git_ssh_key = None\<rparr>"
  by (simp add: slice_for_def demo_secret_manifest_def demo_secrets_def minimal_manifest_def
      provider_env_and_host_def)

theorem preflight_slices_witness:
  "\<exists>b. slice_for demo_secret_manifest demo_secrets = Inr b \<and> ''OPENAI_API_KEY'' \<in> fst ` set (sb_env b)"
  using preflight_slices [OF demo_preflight]
  by (fastforce simp: demo_secrets_def demo_secret_manifest_def provider_env_and_host_def)

text \<open>Least privilege: every variable in an agent's bundle comes from a provider or an extra secret
  its manifest names, carries exactly the stored value and only that provider's (or that
  name's) host; the git SSH key goes only to agents that clone something.\<close>

theorem slice_least_privilege:
  assumes "slice_for m st = Inr b"
  shows "\<exists>s. sec_store st = Some s \<and>
    (\<forall>k e. map_of (sb_env b) k = Some e \<longrightarrow>
       from_provider s (ss_providers (m_secrets m)) k e \<or> from_extra s (ss_extra (m_secrets m)) k e) \<and>
    (m_repos m = [] \<and> m_extensions m = [] \<longrightarrow> sb_git_ssh_key b = None) \<and>
    bt_sorted (sb_env b)"
proof -
  obtain s where s: "sec_store st = Some s"
    using assms by (auto simp: slice_for_def split: option.splits)
  then obtain env env' where env: "slice_providers s (ss_providers (m_secrets m)) [] = Inr env"
    "slice_extra s (ss_extra (m_secrets m)) env = Inr env'" "sb_env b = env'"
    "sb_git_ssh_key b = (if m_repos m \<noteq> [] \<or> m_extensions m \<noteq> []
       then map_of (sf_git s) ''ssh_key'' else None)"
    using assms by (auto simp: slice_for_def Let_def res_bind_Inr_conv)
  note p = slice_providers_sound [OF env(1)]
  have sorted: "bt_sorted env" using p [of undefined undefined] by simp
  note x = slice_extra_sound [OF env(2) sorted]
  have "from_provider s (ss_providers (m_secrets m)) k e \<or> from_extra s (ss_extra (m_secrets m)) k e"
    if "map_of (sb_env b) k = Some e" for k e
    using p [of k e] x [of k e] that env(3) by auto
  then show ?thesis using s env x [of undefined undefined] by auto
qed

theorem slice_least_privilege_witness:
  "bt_sorted [(''OPENAI_API_KEY'', \<lparr>se_value = ''sk'', se_hosts = [''api.openai.com'']\<rparr>)]"
  using slice_least_privilege [OF demo_slice] by simp

section \<open>Disk and memory\<close>

definition drop_deploy_key :: "store_file \<Rightarrow> store_file" where
  "drop_deploy_key s = s\<lparr>sf_git := bt_remove ''deploy_key'' (sf_git s)\<rparr>"

text \<open>A later load of the file on disk would give the store in memory.\<close>

definition coherent :: "(string \<Rightarrow> store_file option) \<Rightarrow> secrets_state \<Rightarrow> bool" where
  "coherent unseal st \<longleftrightarrow> (case sec_store st of None \<Rightarrow> True
     | Some m \<Rightarrow> map_of (sf_git m) ''deploy_key'' = None \<and>
         (case sec_file st of None \<Rightarrow> m = empty_store_file
          | Some c \<Rightarrow> (\<exists>f. unseal c = Some f \<and> m = drop_deploy_key f)))"

definition seals :: "(store_file \<Rightarrow> string option) \<Rightarrow> (string \<Rightarrow> store_file option) \<Rightarrow> bool" where
  "seals seal unseal \<longleftrightarrow> (\<forall>x c. seal x = Some c \<longrightarrow> unseal c = None \<or> unseal c = Some x)"

lemma bt_remove_absent: "map_of m k = None \<Longrightarrow> bt_remove k m = m"
  by (induction m) (auto simp: bt_remove_def split: if_splits)

lemma drop_deploy_absent: "map_of (sf_git m) ''deploy_key'' = None \<Longrightarrow> drop_deploy_key m = m"
  by (simp add: drop_deploy_key_def bt_remove_absent)

lemma bt_insert_other: "k \<noteq> k' \<Longrightarrow> map_of (bt_insert k v m) k' = map_of m k'"
  by (induction k v m rule: bt_insert.induct) auto

lemma apply_op_deploy_key:
  "map_of (sf_git s) ''deploy_key'' = None \<Longrightarrow> map_of (sf_git (apply_op op s)) ''deploy_key'' = None"
  by (cases op) (auto simp: bt_insert_other bt_lookup_remove)

lemma sealsD: "\<lbrakk>seals seal unseal; seal x = Some c; unseal c = Some f\<rbrakk> \<Longrightarrow> f = x"
  by (force simp: seals_def)

lemma persist_coherent:
  assumes "seals seal unseal" "map_of (sf_git c) ''deploy_key'' = None" "coherent unseal st"
  shows "coherent unseal (snd (persist seal unseal c st))"
proof (cases "seal c")
  case (Some e)
  then show ?thesis
  proof (cases "unseal e")
    case (Some f)
    then have "f = c" using sealsD [OF assms(1) \<open>seal c = Some e\<close>] by simp
    then show ?thesis
      using Some \<open>seal c = Some e\<close> assms(2)
      by (simp add: persist_def coherent_def drop_deploy_absent Let_def)
  qed (use assms(3) in \<open>simp add: persist_def coherent_def Let_def split: option.splits\<close>)
qed (use assms(3) in \<open>simp add: persist_def\<close>)

lemma run_op_coherent:
  assumes "seals seal unseal" "coherent unseal st"
  shows "coherent unseal (snd (run_op key_ok seal unseal op st))"
proof (cases "sec_store st")
  case (Some m)
  then have "map_of (sf_git m) ''deploy_key'' = None" using assms(2) by (simp add: coherent_def)
  then have "map_of (sf_git (apply_op op m)) ''deploy_key'' = None" by (rule apply_op_deploy_key)
  from persist_coherent [OF assms(1) this assms(2)] assms(2) Some show ?thesis
    by (auto simp: run_op_def mutate_def split: option.split)
qed (use assms in \<open>auto simp: run_op_def mutate_def split: option.split\<close>)

lemma load_coherent:
  assumes "seals seal unseal" "coherent unseal st"
  shows "coherent unseal (snd (load seal unseal st))"
proof (cases "sec_file st")
  case None
  then show ?thesis by (simp add: load_def coherent_def empty_store_file_def)
next
  case (Some c)
  show ?thesis
  proof (cases "unseal c")
    case None
    then show ?thesis using Some assms(2) by (simp add: load_def)
  next
    case (Some f)
    define g where "g k = f\<lparr>sf_git := bt_insert ''ssh_key'' k (bt_remove ''deploy_key'' (sf_git f))\<rparr>" for k
    have p: "coherent unseal (snd (persist seal unseal (g k) st))" for k
      using assms by (intro persist_coherent) (simp_all add: g_def bt_insert_other bt_lookup_remove)
    have q: "fst (persist seal unseal x st) = Inr u \<Longrightarrow>
        sec_store (snd (persist seal unseal x st)) = Some x" for x u
      by (auto simp: persist_def Let_def split: option.splits)
    show ?thesis
    proof (cases "map_of (sf_git f) ''ssh_key'' = None \<and> map_of (sf_git f) ''deploy_key'' \<noteq> None")
      case True
      then obtain k where k: "map_of (sf_git f) ''deploy_key'' = Some k" by auto
      obtain r st' where r: "persist seal unseal (g k) st = (r, st')" by fastforce
      have "st'\<lparr>sec_store := Some (g k)\<rparr> = st'" if "r = Inr ()"
        using q [of "g k" "()"] r that by (cases st') simp
      then show ?thesis
        using True k p [of k] r g_def [of k] \<open>sec_file st = Some c\<close> \<open>unseal c = Some f\<close>
        by (cases r) (auto simp: load_def migrate_git_key_names_def Let_def)
    next
      case False
      then show ?thesis
        using \<open>sec_file st = Some c\<close> \<open>unseal c = Some f\<close> assms(2)
        by (auto simp: load_def migrate_git_key_names_def coherent_def drop_deploy_key_def
            bt_lookup_remove bt_remove_absent)
    qed
  qed
qed

text \<open>C4
  Atomic mutations: if decryption of a sealed store never yields a different store, then after a
  load and any sequence of admin requests (failed ones included) the store in memory is what a
  restart would load from disk; a failed request leaves both as they were and a successful one
  publishes exactly the requested change.\<close>

theorem secrets_disk_memory_coherent:
  assumes "seals seal unseal" "coherent unseal st"
  shows "coherent unseal (fold (\<lambda>op. snd \<circ> run_op key_ok seal unseal op) ops (snd (load seal unseal st))) \<and>
    (case run_op key_ok seal unseal op st of
       (Inl _, st') \<Rightarrow> sec_store st' = sec_store st \<and> sec_file st' = sec_file st
     | (Inr _, st') \<Rightarrow> sec_store st' = map_option (apply_op op) (sec_store st) \<and> sec_store st' \<noteq> None)"
proof
  have "coherent unseal s \<Longrightarrow> coherent unseal (fold (\<lambda>op. snd \<circ> run_op key_ok seal unseal op) ops s)" for s
    by (induction ops arbitrary: s) (simp_all add: run_op_coherent [OF assms(1)])
  then show "coherent unseal (fold (\<lambda>op. snd \<circ> run_op key_ok seal unseal op) ops (snd (load seal unseal st)))"
    using load_coherent [OF assms] by blast
  show "case run_op key_ok seal unseal op st of
       (Inl _, st') \<Rightarrow> sec_store st' = sec_store st \<and> sec_file st' = sec_file st
     | (Inr _, st') \<Rightarrow> sec_store st' = map_option (apply_op op) (sec_store st) \<and> sec_store st' \<noteq> None"
    by (auto simp: run_op_def mutate_def persist_def Let_def split: option.splits)
qed

theorem secrets_disk_memory_coherent_witness:
  "let seal = (\<lambda>x. if x = empty_store_file then Some ''e'' else None);
       unseal = (\<lambda>c. if c = ''e'' then Some empty_store_file else None)
   in coherent unseal (snd (load seal unseal \<lparr>sec_store = None, sec_file = Some ''e'', sec_tmp = None\<rparr>))"
  using secrets_disk_memory_coherent [of "\<lambda>x. if x = empty_store_file then Some ''e'' else None"
      "\<lambda>c. if c = ''e'' then Some empty_store_file else None"
      "\<lparr>sec_store = None, sec_file = Some ''e'', sec_tmp = None\<rparr>" "\<lambda>_. True" "[]" "DeleteSshKey"]
  by (simp add: seals_def coherent_def)

text \<open>
  The store is cloned before the write lock is taken: of two admin requests that clone the same
  store, the change published first is gone once the second is published.
\<close>

lemma concurrent_mutations_lose_update:
  assumes "sec_store st = Some s" "map_of (sf_providers s) ''p'' = None"
    and "seal (apply_op (DeleteExtra ''n'') s) = Some c" "unseal c = Some (apply_op (DeleteExtra ''n'') s)"
  shows "persist seal unseal (apply_op (DeleteExtra ''n'') s)
      (snd (persist seal unseal (apply_op (SetProvider ''p'' ''v'') s) st)) = (r, st') \<Longrightarrow>
    r = Inr () \<and> sec_store st' = Some (apply_op (DeleteExtra ''n'') s) \<and>
    map_of (sf_providers (apply_op (DeleteExtra ''n'') s)) ''p'' = None"
  using assms by (auto simp: persist_def Let_def)

end
