(* ===== verification/Control_Plane.thy ===== *)
theory Control_Plane
  imports Store_Iface Secret_Store
begin

text \<open>
  The control server (crates/suzerain/src/control.rs): daemon sessions fenced by registration
  epochs, the registration handshake, orders and heartbeats, and the receivers of daemon-opened
  streams (state reports, secrets pulls, log batches).
  What a daemon answers to an order is the parameter \<open>net\<close>, which may depend on every order sent
  before. Where a handler waits and another task can run, that task's effect is an argument.
  The epoch counter is a natural number (64 bits are not exhausted by registrations).
\<close>

section \<open>State\<close>

record daemon_session =
  ds_info :: daemon_info
  ds_epoch :: nat

type_synonym sessions = "string \<Rightarrow> daemon_session option"

record control_plane =
  cp_store :: store
  cp_sessions :: sessions
  cp_next_epoch :: nat
  cp_agent_locks :: "uuid \<Rightarrow> nat option"
  cp_next_lock :: nat
  cp_operator_allow :: "string set"
  cp_orders :: "(string \<times> order) list"
  cp_audit :: "(string \<times> (string \<times> string) list) list"

definition initial_cp :: "store \<Rightarrow> string list \<Rightarrow> control_plane" where
  "initial_cp s operator_allow =
     \<lparr>cp_store = set_all_daemons_offline s, cp_sessions = Map.empty, cp_next_epoch = 1,
      cp_agent_locks = Map.empty, cp_next_lock = 0, cp_operator_allow = set operator_allow,
      cp_orders = [], cp_audit = []\<rparr>"

definition audit :: "string \<Rightarrow> (string \<times> string) list \<Rightarrow> control_plane \<Rightarrow> control_plane" where
  "audit action data cp = cp\<lparr>cp_audit := cp_audit cp @ [(action, data)],
     cp_store := emit (EvAudit action) (cp_store cp)\<rparr>"

definition on_store :: "(store \<Rightarrow> store) \<Rightarrow> control_plane \<Rightarrow> control_plane" where
  "on_store f cp = cp\<lparr>cp_store := f (cp_store cp)\<rparr>"

lemma on_store_simps [simp]:
  "cp_store (on_store f cp) = f (cp_store cp)" "cp_sessions (on_store f cp) = cp_sessions cp"
  "cp_next_epoch (on_store f cp) = cp_next_epoch cp" "cp_orders (on_store f cp) = cp_orders cp"
  "cp_agent_locks (on_store f cp) = cp_agent_locks cp" "cp_audit (on_store f cp) = cp_audit cp"
  by (simp_all add: on_store_def)

definition session :: "string \<Rightarrow> control_plane \<Rightarrow> daemon_session option" where
  "session d cp = cp_sessions cp d"

definition add_operator_allow :: "string \<Rightarrow> control_plane \<Rightarrow> control_plane" where
  "add_operator_allow i cp = cp\<lparr>cp_operator_allow := insert i (cp_operator_allow cp)\<rparr>"

text \<open>The lock registry: a lock is its identity; \<open>get\<close> makes one when there is none.\<close>

definition agent_lock :: "uuid \<Rightarrow> control_plane \<Rightarrow> nat \<times> control_plane" where
  "agent_lock i cp =
     (case cp_agent_locks cp i of
        Some l \<Rightarrow> (l, cp)
      | None \<Rightarrow> (cp_next_lock cp, cp\<lparr>cp_agent_locks := (cp_agent_locks cp)(i \<mapsto> cp_next_lock cp),
                                     cp_next_lock := Suc (cp_next_lock cp)\<rparr>))"

definition remove_agent_lock :: "uuid \<Rightarrow> control_plane \<Rightarrow> control_plane" where
  "remove_agent_lock i cp = cp\<lparr>cp_agent_locks := (cp_agent_locks cp)(i := None)\<rparr>"

section \<open>Orders\<close>

datatype order_reply = Acked order_ack | TransportFailed | NoReplyInTime

datatype order_error = DaemonNotOnline string | OrderTransport | OrderTimedOut

type_synonym daemon_net = "(string \<times> order) list \<Rightarrow> string \<Rightarrow> order \<Rightarrow> order_reply"

definition mark_offline :: "string \<Rightarrow> timestamp \<Rightarrow> store \<Rightarrow> store" where
  "mark_offline d now s = set_daemon_online d False now s"

definition drop_session ::
    "string \<Rightarrow> nat \<Rightarrow> timestamp \<Rightarrow> control_plane \<Rightarrow> control_plane" where
  "drop_session d epoch now cp =
     (let still_current = (case cp_sessions cp d of None \<Rightarrow> False | Some s \<Rightarrow> ds_epoch s = epoch);
          cp1 = (if still_current then cp\<lparr>cp_sessions := (cp_sessions cp)(d := None)\<rparr> else cp)
      in on_store (mark_offline d now) cp1)"

definition order ::
    "daemon_net \<Rightarrow> timestamp \<Rightarrow> string \<Rightarrow> order \<Rightarrow> control_plane \<Rightarrow>
      (order_error + order_ack) \<times> control_plane" where
  "order net now d ord cp =
     (case session d cp of
        None \<Rightarrow> (Inl (DaemonNotOnline d), cp)
      | Some ses \<Rightarrow>
          (let cp1 = cp\<lparr>cp_orders := cp_orders cp @ [(d, ord)]\<rparr>
           in case net (cp_orders cp) d ord of
                Acked ack \<Rightarrow> (Inr ack, cp1)
              | TransportFailed \<Rightarrow> (Inl OrderTransport, drop_session d (ds_epoch ses) now cp1)
              | NoReplyInTime \<Rightarrow> (Inl OrderTimedOut, cp1)))"

section \<open>Registration\<close>

datatype register_outcome =
    VersionMismatch u32
  | NotApproved
  | RevokedDuringRegistration
  | Registered nat

definition register_reply :: "register_outcome \<Rightarrow> register_response" where
  "register_reply r =
     (case r of
        VersionMismatch v \<Rightarrow>
          \<lparr>rr_accepted = False,
           rr_message = Some (''protocol version mismatch: daemon='' @ show_nat (unat v) @
             '', control plane='' @ show_nat (unat protocol_version)),
           rr_protocol_version = protocol_version\<rparr>
      | NotApproved \<Rightarrow>
          \<lparr>rr_accepted = False,
           rr_message = Some ''endpoint not approved; run `suz daemon approve <id>`'',
           rr_protocol_version = protocol_version\<rparr>
      | RevokedDuringRegistration \<Rightarrow>
          \<lparr>rr_accepted = True, rr_message = None, rr_protocol_version = protocol_version\<rparr>
      | Registered _ \<Rightarrow>
          \<lparr>rr_accepted = True, rr_message = None, rr_protocol_version = protocol_version\<rparr>)"

text \<open>
  \<open>remote\<close> is the authenticated id of the connection; it overrides the one in the message. The
  handler writes its reply between the two halves, which is where other tasks can run.
\<close>

definition register_info :: "string \<Rightarrow> register_msg \<Rightarrow> daemon_info" where
  "register_info remote msg = (rg_info msg)\<lparr>i_endpoint_id := remote\<rparr>"

definition register_check ::
    "string \<Rightarrow> register_msg \<Rightarrow> timestamp \<Rightarrow> control_plane \<Rightarrow> register_outcome option \<times> control_plane" where
  "register_check remote msg now cp =
     (if rg_protocol_version msg \<noteq> protocol_version
      then (Some (VersionMismatch (rg_protocol_version msg)), cp)
      else if \<not> daemon_approved remote (cp_store cp)
      then (Some NotApproved, on_store (upsert_pending_daemon (register_info remote msg) now) cp)
      else (None, on_store (upsert_daemon (register_info remote msg) True now) cp))"

definition register_install ::
    "string \<Rightarrow> register_msg \<Rightarrow> timestamp \<Rightarrow> control_plane \<Rightarrow> register_outcome \<times> control_plane" where
  "register_install remote msg now cp =
     (if \<not> daemon_approved remote (cp_store cp)
      then (RevokedDuringRegistration, on_store (set_daemon_online remote False now) cp)
      else
        (let epoch = cp_next_epoch cp
         in (Registered epoch,
             cp\<lparr>cp_next_epoch := Suc epoch,
                cp_sessions := (cp_sessions cp)
                  (remote \<mapsto> \<lparr>ds_info = register_info remote msg, ds_epoch = epoch\<rparr>)\<rparr>)))"

definition register ::
    "string \<Rightarrow> register_msg \<Rightarrow> timestamp \<Rightarrow> (control_plane \<Rightarrow> control_plane) \<Rightarrow> control_plane \<Rightarrow>
      register_outcome \<times> control_plane" where
  "register remote msg now during cp =
     (case register_check remote msg now cp of
        (Some outcome, cp1) \<Rightarrow> (outcome, cp1)
      | (None, cp1) \<Rightarrow> register_install remote msg now (during cp1))"

text \<open>The end of a session's accept loop: the check and the removal take the lock separately.\<close>

definition accept_end_check :: "string \<Rightarrow> nat \<Rightarrow> control_plane \<Rightarrow> bool" where
  "accept_end_check remote epoch cp =
     (case cp_sessions cp remote of None \<Rightarrow> False | Some s \<Rightarrow> ds_epoch s = epoch)"

definition accept_end_remove :: "string \<Rightarrow> timestamp \<Rightarrow> control_plane \<Rightarrow> control_plane" where
  "accept_end_remove remote now cp =
     on_store (mark_offline remote now) (cp\<lparr>cp_sessions := (cp_sessions cp)(remote := None)\<rparr>)"

definition accept_loop_end :: "string \<Rightarrow> nat \<Rightarrow> timestamp \<Rightarrow> control_plane \<Rightarrow> control_plane" where
  "accept_loop_end remote epoch now cp =
     (if accept_end_check remote epoch cp then accept_end_remove remote now cp else cp)"

text \<open>One heartbeat: the result tells whether the loop goes on.\<close>

definition heartbeat ::
    "daemon_net \<Rightarrow> string \<Rightarrow> timestamp \<Rightarrow> control_plane \<Rightarrow> bool \<times> control_plane" where
  "heartbeat net remote now cp =
     (case order net now remote (Ping 0) cp of
        (Inr ack, cp1) \<Rightarrow>
          if ack_success ack then (True, on_store (set_daemon_online remote True now) cp1)
          else (False, cp1)
      | (Inl _, cp1) \<Rightarrow> (False, cp1))"

section \<open>State reports\<close>

datatype report_error = ReportStore store_error

definition fail_missing ::
    "string \<Rightarrow> uuid list \<Rightarrow> agent_row list \<Rightarrow> store \<Rightarrow> store" where
  "fail_missing daemon reported agents s =
     fold (\<lambda>agent s.
         if a_daemon_endpoint_id agent = daemon \<and> a_id agent \<notin> set reported \<and>
            a_state agent \<noteq> Decommissioned \<and> a_state agent \<noteq> Failed
         then update_agent_state (a_id agent) Failed s else s) agents s"

definition reconcile_session ::
    "agent_row \<Rightarrow> string option \<Rightarrow> timestamp \<Rightarrow> store \<Rightarrow> store" where
  "reconcile_session agent reported now s =
     (case reported of
        None \<Rightarrow> s
      | Some f \<Rightarrow>
          if f = [] then s
          else if a_session_file agent = Some f
          then ensure_open_session (a_id agent) f (a_created_at agent) s
          else set_agent_session_file (a_id agent) f (start_agent_session (a_id agent) f now s))"

definition apply_entry ::
    "string \<Rightarrow> timestamp \<Rightarrow> agent_state_entry \<Rightarrow> store \<Rightarrow> (report_error + unit) \<times> store" where
  "apply_entry daemon now entry s =
     (case get_agent_by_name (as_name entry) s of
        Inl e \<Rightarrow> (Inl (ReportStore e), s)
      | Inr None \<Rightarrow> (Inr (), s)
      | Inr (Some agent) \<Rightarrow>
          if a_daemon_endpoint_id agent \<noteq> daemon \<or> a_id agent \<noteq> as_agent_id entry then (Inr (), s)
          else
            (let s1 = (if as_idle_secs entry \<noteq> None \<or> as_busy entry \<noteq> None
                       then set_agent_activity (a_id agent) (as_idle_secs entry) (as_busy entry) now s
                       else s);
                 s2 = reconcile_session agent (as_session_file entry) now s1
             in (Inr (),
                 if as_state entry = Decommissioned then delete_agent (a_id agent) s2
                 else if a_state agent \<noteq> as_state entry
                 then update_agent_state (a_id agent) (as_state entry) s2 else s2)))"

fun apply_entries ::
    "string \<Rightarrow> timestamp \<Rightarrow> agent_state_entry list \<Rightarrow> store \<Rightarrow> (report_error + unit) \<times> store" where
  "apply_entries daemon now [] s = (Inr (), s)"
| "apply_entries daemon now (e # es) s =
     (case apply_entry daemon now e s of
        (Inl x, s') \<Rightarrow> (Inl x, s')
      | (Inr _, s') \<Rightarrow> apply_entries daemon now es s')"

definition handle_state_report ::
    "string \<Rightarrow> timestamp \<Rightarrow> state_report \<Rightarrow> store \<Rightarrow> (report_error + unit) \<times> store" where
  "handle_state_report daemon now report s =
     (if sr_full report
      then (case list_agents s of
              Inl e \<Rightarrow> (Inl (ReportStore e), s)
            | Inr agents \<Rightarrow>
                apply_entries daemon now (sr_agents report)
                  (fail_missing daemon (map as_agent_id (sr_agents report)) agents s))
      else apply_entries daemon now (sr_agents report) s)"

section \<open>Secrets pulls\<close>

datatype pull_error =
  PullStore store_error | UnknownAgent | ForeignAgent | PullSecrets secrets_error

definition handle_secrets_pull ::
    "string \<Rightarrow> uuid \<Rightarrow> store \<Rightarrow> secrets_state \<Rightarrow> pull_error + secret_bundle" where
  "handle_secrets_pull daemon agent_id s secrets =
     (case list_agents s of
        Inl e \<Rightarrow> Inl (PullStore e)
      | Inr agents \<Rightarrow>
          (case find (\<lambda>a. a_id a = agent_id) agents of
             None \<Rightarrow> Inl UnknownAgent
           | Some agent \<Rightarrow>
               if a_daemon_endpoint_id agent \<noteq> daemon then Inl ForeignAgent
               else (case slice_for (a_manifest agent) secrets of
                       Inl e \<Rightarrow> Inl (PullSecrets e) | Inr b \<Rightarrow> Inr b)))"

section \<open>Log batches\<close>

text \<open>The JSONL log file of the agent is the list of events appended to it.\<close>

fun store_events ::
    "uuid \<Rightarrow> log_event list \<Rightarrow> u64 \<Rightarrow> log_event list \<Rightarrow> store \<Rightarrow> u64 \<times> log_event list \<times> store" where
  "store_events agent_id [] acked file s = (acked, file, s)"
| "store_events agent_id (event # events) acked file s =
     (if ev_seq event \<le> acked then store_events agent_id events acked file s
      else store_events agent_id events (max acked (ev_seq event)) (file @ [event])
             (append_event agent_id event s))"

definition handle_log_batch ::
    "uuid \<Rightarrow> timestamp \<Rightarrow> log_batch \<Rightarrow> log_event list \<Rightarrow> store \<Rightarrow> log_ack \<times> log_event list \<times> store" where
  "handle_log_batch agent_id now batch file s =
     (case store_events agent_id (lb_events batch) (acked_through agent_id s) file s of
        (acked, file', s') \<Rightarrow>
          (\<lparr>la_agent_id = agent_id, la_acked_through = acked\<rparr>, file',
           set_acked_through agent_id acked now s'))"

end
