(* ===== verification/Lifecycle.thy ===== *)
theory Lifecycle
  imports Control_Plane
begin

text \<open>
  Auto-suspend (crates/suzerain/src/lifecycle.rs) with the configuration it reads
  (crates/suzerain/src/retention.rs): effective timeouts, idle estimates, preemption eligibility
  and the sweep. Parsing of RFC 3339 text is the parameter \<open>parse_ts\<close>, giving nanoseconds; the
  current time is an argument in the same unit. \<open>wait\<close> is what other tasks do to the store while
  the sweep waits for an agent's lock.
\<close>

section \<open>Configuration\<close>

record auto_suspend_config =
  au_enabled :: bool
  au_idle_timeout :: string
  au_sweep_interval :: string
  au_wake_retry_attempts :: u32

definition default_auto_suspend :: auto_suspend_config where
  "default_auto_suspend =
     \<lparr>au_enabled = True, au_idle_timeout = ''30m'', au_sweep_interval = ''30s'',
      au_wake_retry_attempts = 3\<rparr>"

definition idle_timeout_secs :: "auto_suspend_config \<Rightarrow> u64" where
  "idle_timeout_secs c =
     (case parse_duration_secs (au_idle_timeout c) of Inl _ \<Rightarrow> 30 * 60 | Inr s \<Rightarrow> s)"

definition sweep_interval_secs :: "auto_suspend_config \<Rightarrow> u64" where
  "sweep_interval_secs c =
     (case parse_duration_secs (au_sweep_interval c) of Inl _ \<Rightarrow> 30 | Inr s \<Rightarrow> s)"

section \<open>Policy and idle time\<close>

definition wake_grace_secs :: u64 where "wake_grace_secs = 300"

definition effective_timeout_secs :: "agent_row \<Rightarrow> auto_suspend_config \<Rightarrow> u64 option" where
  "effective_timeout_secs agent cfg =
     (let policy = (if a_auto_suspend_override agent \<noteq> None
                    then auto_suspend_policy (a_auto_suspend_override agent)
                    else auto_suspend_policy (m_auto_suspend (a_manifest agent)));
          inherited = (if au_enabled cfg then Some (idle_timeout_secs cfg) else None)
      in case policy of
           Inr Never \<Rightarrow> None
         | Inr (After secs) \<Rightarrow> Some secs
         | Inr Inherit \<Rightarrow> inherited
         | Inl _ \<Rightarrow> inherited)"

text \<open>\<open>whole_seconds().max(0) as u64\<close> of the age of a timestamp.\<close>

definition age_secs :: "int \<Rightarrow> int \<Rightarrow> u64" where
  "age_secs now t = word_of_int (max 0 ((now - t) div 1000000000))"

definition extrapolated_idle_secs ::
    "(timestamp \<Rightarrow> int option) \<Rightarrow> int \<Rightarrow> agent_row \<Rightarrow> u64" where
  "extrapolated_idle_secs parse_ts now agent =
     (case a_idle_secs agent of
        None \<Rightarrow> 0
      | Some idle \<Rightarrow>
          idle + (case Option.bind (a_activity_reported_at agent) parse_ts of
                    None \<Rightarrow> 0 | Some t \<Rightarrow> age_secs now t))"

definition is_preemptible ::
    "(timestamp \<Rightarrow> int option) \<Rightarrow> int \<Rightarrow> agent_row \<Rightarrow> auto_suspend_config \<Rightarrow> bool" where
  "is_preemptible parse_ts now agent cfg =
     (if a_state agent \<noteq> Active \<or> a_busy agent \<noteq> Some False then False
      else if effective_timeout_secs agent cfg = None then False
      else case Option.bind (a_woke_at agent) parse_ts of
             None \<Rightarrow> True
           | Some t \<Rightarrow> \<not> age_secs now t < wake_grace_secs)"

section \<open>The sweep\<close>

definition suspend_if_idle :: "agent_row \<Rightarrow> order" where
  "suspend_if_idle agent = SuspendAgent (a_id agent) True (a_activity_reported_at agent)"

definition sweep_due ::
    "(timestamp \<Rightarrow> int option) \<Rightarrow> int \<Rightarrow> auto_suspend_config \<Rightarrow> agent_row \<Rightarrow> bool" where
  "sweep_due parse_ts now cfg agent =
     (if a_state agent \<noteq> Active \<or> a_busy agent \<noteq> Some False then False
      else case effective_timeout_secs agent cfg of
             None \<Rightarrow> False
           | Some timeout \<Rightarrow> \<not> extrapolated_idle_secs parse_ts now agent < timeout)"

definition sweep_agent ::
    "daemon_net \<Rightarrow> (string \<Rightarrow> string option) \<Rightarrow> (timestamp \<Rightarrow> int option) \<Rightarrow> int \<Rightarrow> timestamp \<Rightarrow>
      (uuid \<Rightarrow> store \<Rightarrow> store) \<Rightarrow> auto_suspend_config \<Rightarrow> agent_row \<Rightarrow> control_plane \<Rightarrow>
      (store_error + unit) \<times> control_plane" where
  "sweep_agent net parse_eid parse_ts now ts wait cfg agent0 cp =
     (if \<not> sweep_due parse_ts now cfg agent0 then (Inr (), cp)
      else case parse_eid (a_daemon_endpoint_id agent0) of
        None \<Rightarrow> (Inr (), cp)
      | Some daemon \<Rightarrow>
          if session daemon cp = None then (Inr (), cp)
          else
            (let cp1 = on_store (wait (a_id agent0)) (snd (agent_lock (a_id agent0) cp))
             in case get_agent (a_id agent0) (cp_store cp1) of
                  Inl e \<Rightarrow> (Inl e, cp1)
                | Inr None \<Rightarrow> (Inr (), cp1)
                | Inr (Some agent) \<Rightarrow>
                    if a_state agent \<noteq> Active \<or> a_busy agent \<noteq> Some False then (Inr (), cp1)
                    else
                      (case order net ts daemon (suspend_if_idle agent) cp1 of
                         (Inl _, cp2) \<Rightarrow> (Inr (), cp2)
                       | (Inr ack, cp2) \<Rightarrow>
                           if ack_success ack
                           then (Inr (), audit ''agent_auto_suspend''
                                   [(''name'', a_name agent), (''id'', a_id agent)]
                                   (on_store (update_agent_state (a_id agent) Suspended) cp2))
                           else (Inr (), cp2))))"

fun sweep_agents ::
    "daemon_net \<Rightarrow> (string \<Rightarrow> string option) \<Rightarrow> (timestamp \<Rightarrow> int option) \<Rightarrow> int \<Rightarrow> timestamp \<Rightarrow>
      (uuid \<Rightarrow> store \<Rightarrow> store) \<Rightarrow> auto_suspend_config \<Rightarrow> agent_row list \<Rightarrow> control_plane \<Rightarrow>
      (store_error + unit) \<times> control_plane" where
  "sweep_agents net parse_eid parse_ts now ts wait cfg [] cp = (Inr (), cp)"
| "sweep_agents net parse_eid parse_ts now ts wait cfg (a # as) cp =
     (case sweep_agent net parse_eid parse_ts now ts wait cfg a cp of
        (Inl e, cp') \<Rightarrow> (Inl e, cp')
      | (Inr _, cp') \<Rightarrow> sweep_agents net parse_eid parse_ts now ts wait cfg as cp')"

definition sweep ::
    "daemon_net \<Rightarrow> (string \<Rightarrow> string option) \<Rightarrow> (timestamp \<Rightarrow> int option) \<Rightarrow> int \<Rightarrow> timestamp \<Rightarrow>
      (uuid \<Rightarrow> store \<Rightarrow> store) \<Rightarrow> auto_suspend_config \<Rightarrow> control_plane \<Rightarrow>
      (store_error + unit) \<times> control_plane" where
  "sweep net parse_eid parse_ts now ts wait cfg cp =
     (case list_agents (cp_store cp) of
        Inl e \<Rightarrow> (Inl e, cp)
      | Inr agents \<Rightarrow> sweep_agents net parse_eid parse_ts now ts wait cfg agents cp)"

section \<open>What a sweep may do\<close>

lemma audit_simps [simp]:
  "lookup_agent i (cp_store (audit x d cp)) = lookup_agent i (cp_store cp)"
  "cp_orders (audit x d cp) = cp_orders cp" "cp_sessions (audit x d cp) = cp_sessions cp"
  by (simp_all add: audit_def)

lemma agent_lock_simps [simp]:
  "cp_store (snd (agent_lock i cp)) = cp_store cp" "cp_orders (snd (agent_lock i cp)) = cp_orders cp"
  "cp_sessions (snd (agent_lock i cp)) = cp_sessions cp"
  by (auto simp: agent_lock_def split: option.splits)

lemma lookup_daemon_online [simp]: "lookup_agent i (set_daemon_online d b now s) = lookup_agent i s"
  by (rule lookup_agent_tables) (simp add: set_daemon_online_def emit_def)

lemma order_effects:
  assumes "order net ts d ord cp = (r, cp')"
  shows "lookup_agent i (cp_store cp') = lookup_agent i (cp_store cp)"
    "cp_orders cp' = cp_orders cp \<or> cp_orders cp' = cp_orders cp @ [(d, ord)]"
    "r = Inr ack \<Longrightarrow> cp_orders cp' = cp_orders cp @ [(d, ord)] \<and>
       net (cp_orders cp) d ord = Acked ack \<and> cp_store cp' = cp_store cp"
  using assms
  by (auto simp: order_def drop_session_def mark_offline_def Let_def on_store_def
      split: option.splits order_reply.splits if_splits)

text \<open>The order a sweep step sends, if any, and what it does to the registry.\<close>

definition sweep_sends ::
    "(timestamp \<Rightarrow> int option) \<Rightarrow> int \<Rightarrow> auto_suspend_config \<Rightarrow> agent_row \<Rightarrow> (string \<times> order) list \<Rightarrow> bool" where
  "sweep_sends parse_ts now cfg agent os \<longleftrightarrow> os = [] \<or>
     (\<exists>d b. os = [(d, suspend_if_idle b)] \<and> a_id b = a_id agent \<and> sweep_due parse_ts now cfg agent \<and>
        a_state b = Active \<and> a_busy b = Some False)"

lemma get_agent_lookup: "get_agent i s = Inr (Some a) \<Longrightarrow> lookup_agent i s = Some a"
  by (simp add: lookup_agent_def)

lemma get_agent_Some_id: "get_agent i s = Inr (Some a) \<Longrightarrow> a_id a = i"
  by (auto simp: get_agent_def res_bind_Inr_conv split: option.splits dest!: find_SomeD)

lemma sweep_agent_sends:
  assumes "sweep_agent net parse_eid parse_ts now ts wait cfg agent cp = (r, cp')"
  shows "\<exists>os. cp_orders cp' = cp_orders cp @ os \<and> sweep_sends parse_ts now cfg agent os"
proof (cases "cp_orders cp' = cp_orders cp")
  case True
  then show ?thesis by (auto simp: sweep_sends_def)
next
  case False
  define cp1 where "cp1 = on_store (wait (a_id agent)) (snd (agent_lock (a_id agent) cp))"
  have o1: "cp_orders cp1 = cp_orders cp" by (simp add: cp1_def)
  obtain d b where b: "sweep_due parse_ts now cfg agent" "get_agent (a_id agent) (cp_store cp1) = Inr (Some b)"
    "a_state b = Active" "a_busy b = Some False"
    and o: "cp_orders cp' = cp_orders (snd (order net ts d (suspend_if_idle b) cp1))"
  proof -
    have "sweep_due parse_ts now cfg agent"
      using assms False by (auto simp: sweep_agent_def split: if_splits)
    moreover obtain d where "parse_eid (a_daemon_endpoint_id agent) = Some d" "session d cp \<noteq> None"
      using assms False by (auto simp: sweep_agent_def split: if_splits option.splits)
    moreover obtain b where "get_agent (a_id agent) (cp_store cp1) = Inr (Some b)"
      using assms False calculation o1
      by (auto simp: sweep_agent_def Let_def cp1_def split: sum.splits option.splits)
    ultimately have "a_state b = Active \<and> a_busy b = Some False \<and>
        cp_orders cp' = cp_orders (snd (order net ts d (suspend_if_idle b) cp1))"
      using assms False o1
      by (auto simp: sweep_agent_def Let_def cp1_def [symmetric] split: sum.splits if_splits prod.splits)
    with \<open>sweep_due parse_ts now cfg agent\<close> \<open>get_agent (a_id agent) (cp_store cp1) = Inr (Some b)\<close>
    show thesis using that by blast
  qed
  have "cp_orders cp' = cp_orders cp \<or> cp_orders cp' = cp_orders cp @ [(d, suspend_if_idle b)]"
    using order_effects(2) [OF prod.collapse [symmetric], of net ts d "suspend_if_idle b" cp1] o o1 by simp
  then show ?thesis
    using False b get_agent_Some_id [OF b(2)] by (auto simp: sweep_sends_def)
qed

lemma sweep_agents_sends:
  assumes "sweep_agents net parse_eid parse_ts now ts wait cfg agents cp = (r, cp')"
  shows "\<exists>os. cp_orders cp' = cp_orders cp @ os \<and>
    (\<forall>(d, ord) \<in> set os. \<exists>a \<in> set agents. \<exists>b. ord = suspend_if_idle b \<and> a_id b = a_id a \<and>
       sweep_due parse_ts now cfg a \<and> a_state b = Active \<and> a_busy b = Some False)"
  using assms
proof (induction agents arbitrary: cp)
  case (Cons a as)
  obtain r1 cp1 where s: "sweep_agent net parse_eid parse_ts now ts wait cfg a cp = (r1, cp1)" by fastforce
  then obtain os1 where os1: "cp_orders cp1 = cp_orders cp @ os1" "sweep_sends parse_ts now cfg a os1"
    using sweep_agent_sends by blast
  show ?case
  proof (cases r1)
    case (Inl e)
    then show ?thesis using Cons.prems s os1 by (intro exI [of _ os1]) (auto simp: sweep_sends_def)
  next
    case (Inr u)
    then obtain os2 where os2: "cp_orders cp' = cp_orders cp1 @ os2"
      "\<forall>(d, ord) \<in> set os2. \<exists>a \<in> set as. \<exists>b. ord = suspend_if_idle b \<and> a_id b = a_id a \<and>
         sweep_due parse_ts now cfg a \<and> a_state b = Active \<and> a_busy b = Some False"
      using Cons.IH [of cp1] Cons.prems s by auto
    then show ?thesis
      using os1 by (intro exI [of _ "os1 @ os2"]) (fastforce simp: sweep_sends_def)
  qed
qed simp


definition demo_idle_cp :: control_plane where
  "demo_idle_cp = (initial_cp
     (case create_agent \<lparr>a_id = ''i'', a_name = ''n'', a_daemon_endpoint_id = ''d'',
        a_manifest = minimal_manifest ''n'' ''openai'' ''m'', a_state = Active, a_created_at = ''t'',
        a_session_file = None, a_idle_secs = None, a_busy = None, a_activity_reported_at = None,
        a_needs_attention = False, a_auto_suspend_override = None, a_woke_at = None\<rparr> empty_store of
      Inr s \<Rightarrow> set_agent_activity ''i'' (Some 7200) (Some False) ''t0'' s | Inl _ \<Rightarrow> empty_store) [])
     \<lparr>cp_sessions := [''d'' \<mapsto> \<lparr>ds_info = \<lparr>i_endpoint_id = ''d'', i_hostname = [], i_os = [], i_arch = [],
        i_labels = [], i_max_agents = 4, i_agents = [], i_capacity = default_node_capacity,
        i_usage = default_node_usage\<rparr>, ds_epoch = 0\<rparr>]\<rparr>"

definition ack_all :: daemon_net where
  "ack_all os d ord = Acked \<lparr>ack_success = True, ack_message = None, ack_data = None\<rparr>"

definition demo_config :: auto_suspend_config where
  "demo_config = default_auto_suspend\<lparr>au_idle_timeout := []\<rparr>"

definition demo_idle_agent :: agent_row where
  "demo_idle_agent = \<lparr>a_id = ''i'', a_name = ''n'', a_daemon_endpoint_id = ''d'',
     a_manifest = minimal_manifest ''n'' ''openai'' ''m'', a_state = Active, a_created_at = ''t'',
     a_session_file = None, a_idle_secs = Some 7200, a_busy = Some False,
     a_activity_reported_at = Some ''t0'', a_needs_attention = False,
     a_auto_suspend_override = None, a_woke_at = None\<rparr>"

lemma demo_idle_rows: "list_agents (cp_store demo_idle_cp) = Inr [demo_idle_agent]"
  "get_agent ''i'' (cp_store demo_idle_cp) = Inr (Some demo_idle_agent)"
  by (simp_all add: demo_idle_cp_def initial_cp_def create_agent_def empty_store_def list_agents_def
      emit_def set_agent_activity_def row_to_agent_def set_all_daemons_offline_def parse_state_def
      state_str_def get_agent_def demo_idle_agent_def)

lemma demo_idle_due: "sweep_due (\<lambda>_. None) 0 demo_config demo_idle_agent"
proof -
  have "parse_duration_secs [] = Inl (InvalidDuration [])"
    by (simp add: parse_duration_secs_def trim_def trim_start_def trim_end_def parse_u64_def)
  then show ?thesis
    by (simp add: sweep_due_def demo_idle_agent_def effective_timeout_secs_def auto_suspend_policy_def
        minimal_manifest_def idle_timeout_secs_def demo_config_def default_auto_suspend_def
        extrapolated_idle_secs_def)
qed


end
