(* ===== verification/Scheduler.thy ===== *)
theory Scheduler
  imports Lifecycle
begin

text \<open>
  Placement (crates/suzerain/src/scheduler.rs): the fit filter, the spread score, the pluggable
  strategy and its default, and preemption of idle agents. Scores are rational numbers (the code
  uses doubles on values far below 2^53, with the same comparisons). Sums of resource requests
  are kept at the widths of the code, where they wrap.
\<close>

section \<open>Requests and load\<close>

record constraints =
  ct_require :: labels
  ct_pin :: "string option"
  ct_manifest :: agent_manifest
  ct_exclude :: "string list"

record allocated =
  al_vcpu :: u32
  al_memory_mib :: u64
  al_disk_mib :: u64
  al_agents :: u32

definition default_allocated :: allocated where
  "default_allocated = \<lparr>al_vcpu = 0, al_memory_mib = 0, al_disk_mib = 0, al_agents = 0\<rparr>"

record candidate =
  cd_daemon :: daemon_row
  cd_allocated :: allocated

record placement =
  pl_endpoint_id :: string
  pl_daemon_hostname :: string
  pl_score :: rat

record reserve =
  rs_vcpu :: u32
  rs_memory_mib :: u64

definition default_reserve :: reserve where
  "default_reserve = \<lparr>rs_vcpu = 0, rs_memory_mib = 0\<rparr>"

datatype fit_error =
    LabelDiffers string string string
  | MissingLabel string
  | SlotsFull u32 u32
  | InsufficientVcpu u32 u32
  | InsufficientMemory u64 u64
  | InsufficientDisk u64 u64
  | NoGpus u32 u64

definition sat_sub :: "'a::len word \<Rightarrow> 'a word \<Rightarrow> 'a word" where
  "sat_sub a b = (if a < b then 0 else a - b)"

section \<open>The fit filter and the score\<close>

fun labels_match :: "labels \<Rightarrow> labels \<Rightarrow> fit_error + unit" where
  "labels_match have [] = Inr ()"
| "labels_match have ((k, v) # req) =
     (case map_of have k of
        Some h \<Rightarrow> if h = v then labels_match have req else Inl (LabelDiffers k h v)
      | None \<Rightarrow> Inl (MissingLabel k))"

text \<open>One step of the loop over the daemon's GPUs: how many match, and the best free memory.\<close>

definition gpu_step :: "gpu_info list \<Rightarrow> gpu_resources \<Rightarrow> gpu_info \<Rightarrow> u32 \<times> u64 \<Rightarrow> u32 \<times> u64" where
  "gpu_step usage_gpus req cap acc =
     (if g_kind cap = OtherGpu \<and> gr_vram_mib req \<noteq> None then acc
      else
        let free = (if g_kind cap = OtherGpu then - 1
                    else (case Option.bind (find (\<lambda>g. g_index g = g_index cap) usage_gpus) g_vram_free_mib of
                            Some f \<Rightarrow> f
                          | None \<Rightarrow> (case g_vram_free_mib cap of Some f \<Rightarrow> f | None \<Rightarrow> 0)));
            vram_ok = (case gr_vram_mib req of None \<Rightarrow> True | Some need \<Rightarrow> need \<le> free)
        in if vram_ok
           then (fst acc + 1, max (snd acc) (min free (unwrap_or free (g_vram_total_mib cap))))
           else acc)"

definition gpu_scan :: "gpu_info list \<Rightarrow> gpu_info list \<Rightarrow> gpu_resources \<Rightarrow> u32 \<times> u64" where
  "gpu_scan caps usage_gpus req = fold (gpu_step usage_gpus req) caps (0, 0)"

text \<open>The best free memory per GPU when enough of them match.\<close>

definition gpu_fit :: "node_capacity \<Rightarrow> node_usage \<Rightarrow> resources \<Rightarrow> fit_error + u64" where
  "gpu_fit cap use req =
     (case r_gpu req of
        None \<Rightarrow> Inr 0
      | Some g \<Rightarrow>
          (case gpu_scan (c_gpus cap) (u_gpus use) g of (matching, best) \<Rightarrow>
             if matching < gr_count g
             then Inl (NoGpus (gr_count g) (unwrap_or 0 (gr_vram_mib g))) else Inr best))"

definition rat_of_word :: "'a::len word \<Rightarrow> rat" where
  "rat_of_word w = of_nat (unat w)"

definition frac_free :: "u64 \<Rightarrow> u64 \<Rightarrow> rat" where
  "frac_free free tot = (if tot = 0 then 0 else rat_of_word free / rat_of_word tot)"

definition fits ::
    "daemon_row \<Rightarrow> allocated \<Rightarrow> reserve \<Rightarrow> resources \<Rightarrow> labels \<Rightarrow> fit_error + rat" where
  "fits d alloc rsv req require =
     (case labels_match (effective_labels d) require of
        Inl e \<Rightarrow> Inl e
      | Inr _ \<Rightarrow>
          if al_agents alloc \<ge> d_max_agents d then Inl (SlotsFull (al_agents alloc) (d_max_agents d))
          else
            let cap = capacity d;
                vcpu_free = sat_sub (sat_sub (c_vcpu_total cap) (al_vcpu alloc)) (rs_vcpu rsv);
                mem_free = sat_sub (sat_sub (c_memory_mib_total cap) (al_memory_mib alloc)) (rs_memory_mib rsv);
                disk_free = sat_sub (c_disk_mib_total cap) (al_disk_mib alloc)
            in if vcpu_free < r_vcpu req then Inl (InsufficientVcpu (r_vcpu req) vcpu_free)
               else if mem_free < r_memory_mib req then Inl (InsufficientMemory (r_memory_mib req) mem_free)
               else if disk_free < r_disk_mib req then Inl (InsufficientDisk (r_disk_mib req) disk_free)
               else res_bind (gpu_fit cap (usage d) req) (\<lambda>vram_best_free.
                 Inr (frac_free (ucast vcpu_free) (ucast (c_vcpu_total cap)) +
                      frac_free mem_free (c_memory_mib_total cap) +
                      (1 / 2) * frac_free disk_free (c_disk_mib_total cap) +
                      (case Option.bind (r_gpu req) gr_vram_mib of
                         None \<Rightarrow> 0
                       | Some need \<Rightarrow> max 0 (rat_of_word vram_best_free - rat_of_word need) /
                                      rat_of_word (max need 1)))))"

section \<open>The strategy\<close>

datatype place_error =
    NoOnlineDaemons
  | NoDaemonFits string "(string \<times> fit_error) list"
  | PinUnmatched string
  | PinAmbiguous string "string list"
  | BadEndpointId string
  | PlaceStore store_error

type_synonym strategy = "candidate list \<Rightarrow> constraints \<Rightarrow> place_error + placement"

definition candidate_fit :: "constraints \<Rightarrow> candidate \<Rightarrow> fit_error + rat" where
  "candidate_fit k c =
     fits (cd_daemon c) (cd_allocated c) default_reserve (m_resources (ct_manifest k)) (ct_require k)"

definition scored :: "constraints \<Rightarrow> candidate list \<Rightarrow> (daemon_row \<times> rat) list" where
  "scored k cs = concat (map (\<lambda>c. case candidate_fit k c of Inr s \<Rightarrow> [(cd_daemon c, s)] | Inl _ \<Rightarrow> []) cs)"

definition rejections :: "constraints \<Rightarrow> candidate list \<Rightarrow> (string \<times> fit_error) list" where
  "rejections k cs = concat (map (\<lambda>c. case candidate_fit k c of Inr _ \<Rightarrow> []
     | Inl why \<Rightarrow> [(take 8 (d_endpoint_id (cd_daemon c)), why)]) cs)"

text \<open>The stable sort by descending score; its first element wins.\<close>

definition choose_default :: "(string \<Rightarrow> string option) \<Rightarrow> strategy" where
  "choose_default parse_eid cs k =
     (case sort_key (\<lambda>(_, s). - s) (scored k cs) of
        [] \<Rightarrow> Inl (NoDaemonFits (m_name (ct_manifest k)) (rejections k cs))
      | (d, s) # _ \<Rightarrow>
          (case parse_eid (d_endpoint_id d) of
             None \<Rightarrow> Inl (BadEndpointId (d_endpoint_id d))
           | Some e \<Rightarrow> Inr \<lparr>pl_endpoint_id = e, pl_daemon_hostname = d_hostname d, pl_score = s\<rparr>))"

section \<open>Placing\<close>

definition consumes :: "agent_state \<Rightarrow> bool" where
  "consumes st \<longleftrightarrow> st = Provisioning \<or> st = Active \<or> st = Restoring"

definition add_request :: "agent_row \<Rightarrow> allocated \<Rightarrow> allocated" where
  "add_request a acc =
     (let r = m_resources (a_manifest a)
      in \<lparr>al_vcpu = al_vcpu acc + r_vcpu r, al_memory_mib = al_memory_mib acc + r_memory_mib r,
          al_disk_mib = al_disk_mib acc + r_disk_mib r, al_agents = al_agents acc + 1\<rparr>)"

definition live_on :: "string \<Rightarrow> agent_row list \<Rightarrow> agent_row list" where
  "live_on e agents = filter (\<lambda>a. a_daemon_endpoint_id a = e \<and> consumes (a_state a)) agents"

definition allocated_of :: "agent_row list \<Rightarrow> string \<Rightarrow> allocated" where
  "allocated_of agents e = fold add_request (live_on e agents) default_allocated"

definition schedulable :: "constraints \<Rightarrow> daemon_row \<Rightarrow> bool" where
  "schedulable k d \<longleftrightarrow> d_approved d \<and> d_online d \<and> d_endpoint_id d \<notin> set (ct_exclude k)"

definition candidates_of :: "constraints \<Rightarrow> agent_row list \<Rightarrow> daemon_row list \<Rightarrow> candidate list" where
  "candidates_of k agents ds =
     map (\<lambda>d. \<lparr>cd_daemon = d, cd_allocated = allocated_of agents (d_endpoint_id d)\<rparr>) ds"

definition place_with ::
    "(string \<Rightarrow> string option) \<Rightarrow> strategy \<Rightarrow> constraints \<Rightarrow> store \<Rightarrow> place_error + placement" where
  "place_with parse_eid strat k s =
     (let daemons = filter (schedulable k) (list_daemons s)
      in if daemons = [] then Inl NoOnlineDaemons
         else case ct_pin k of
           Some want \<Rightarrow>
             (case resolve_daemon daemons want of
                Inl DaemonNotFound \<Rightarrow> Inl (PinUnmatched want)
              | Inl (DaemonAmbiguous ms) \<Rightarrow> Inl (PinAmbiguous want ms)
              | Inr d \<Rightarrow>
                  (case parse_eid (d_endpoint_id d) of
                     None \<Rightarrow> Inl (BadEndpointId (d_endpoint_id d))
                   | Some e \<Rightarrow> Inr \<lparr>pl_endpoint_id = e, pl_daemon_hostname = d_hostname d, pl_score = 0\<rparr>))
         | None \<Rightarrow>
             (case list_agents s of
                Inl e \<Rightarrow> Inl (PlaceStore e)
              | Inr agents \<Rightarrow> strat (candidates_of k agents daemons) k))"

definition place :: "(string \<Rightarrow> string option) \<Rightarrow> constraints \<Rightarrow> store \<Rightarrow> place_error + placement" where
  "place parse_eid k s = place_with parse_eid (choose_default parse_eid) k s"

section \<open>Preemption\<close>

definition would_fit :: "daemon_row \<Rightarrow> agent_row list \<Rightarrow> constraints \<Rightarrow> allocated \<Rightarrow> bool" where
  "would_fit d agents k freed =
     (let alloc = allocated_of agents (d_endpoint_id d);
          effective = \<lparr>al_vcpu = sat_sub (al_vcpu alloc) (al_vcpu freed),
            al_memory_mib = sat_sub (al_memory_mib alloc) (al_memory_mib freed),
            al_disk_mib = sat_sub (al_disk_mib alloc) (al_disk_mib freed),
            al_agents = sat_sub (al_agents alloc) (al_agents freed)\<rparr>
      in is_ok (fits d effective default_reserve (m_resources (ct_manifest k)) (ct_require k)))"

definition pin_feasible :: "constraints \<Rightarrow> daemon_row list \<Rightarrow> daemon_row \<Rightarrow> bool" where
  "pin_feasible k daemons d =
     (case ct_pin k of
        None \<Rightarrow> True
      | Some want \<Rightarrow> (case resolve_daemon daemons want of
          Inr p \<Rightarrow> d_endpoint_id p = d_endpoint_id d | Inl _ \<Rightarrow> False))"

definition labels_feasible :: "constraints \<Rightarrow> daemon_row \<Rightarrow> bool" where
  "labels_feasible k d \<longleftrightarrow>
     list_all (\<lambda>(key, v). map_of (effective_labels d) key = Some v) (ct_require k)"

text \<open>The loop over a daemon's candidates: the flag says whether any agent was suspended.\<close>

fun preempt_candidates ::
    "daemon_net \<Rightarrow> (string \<Rightarrow> string option) \<Rightarrow> timestamp \<Rightarrow> constraints \<Rightarrow> agent_row list \<Rightarrow> daemon_row \<Rightarrow>
      agent_row list \<Rightarrow> allocated \<Rightarrow> control_plane \<Rightarrow> bool \<times> control_plane" where
  "preempt_candidates net parse_eid ts k agents d [] freed cp = (False, cp)"
| "preempt_candidates net parse_eid ts k agents d (c # cs) freed cp =
     (if would_fit d agents k freed then (False, cp)
      else case parse_eid (d_endpoint_id d) of
        None \<Rightarrow> preempt_candidates net parse_eid ts k agents d cs freed cp
      | Some daemon \<Rightarrow>
          (case order net ts daemon (suspend_if_idle c) cp of
             (Inl _, cp1) \<Rightarrow> preempt_candidates net parse_eid ts k agents d cs freed cp1
           | (Inr ack, cp1) \<Rightarrow>
               if ack_success ack
               then (True, snd (preempt_candidates net parse_eid ts k agents d cs (add_request c freed)
                       (audit ''agent_preempt_suspend''
                          [(''name'', a_name c), (''id'', a_id c), (''for'', m_name (ct_manifest k))]
                          (on_store (update_agent_state (a_id c) Suspended) cp1))))
               else preempt_candidates net parse_eid ts k agents d cs freed cp1))"

definition preempt_order ::
    "(timestamp \<Rightarrow> int option) \<Rightarrow> int \<Rightarrow> auto_suspend_config \<Rightarrow> agent_row list \<Rightarrow> daemon_row \<Rightarrow> agent_row list" where
  "preempt_order parse_ts now cfg agents d =
     sort_key (\<lambda>a. - int (unat (extrapolated_idle_secs parse_ts now a)))
       (filter (\<lambda>a. a_daemon_endpoint_id a = d_endpoint_id d \<and> is_preemptible parse_ts now a cfg) agents)"

fun preempt_daemons ::
    "daemon_net \<Rightarrow> (string \<Rightarrow> string option) \<Rightarrow> (timestamp \<Rightarrow> int option) \<Rightarrow> int \<Rightarrow> timestamp \<Rightarrow>
      auto_suspend_config \<Rightarrow> constraints \<Rightarrow> agent_row list \<Rightarrow> daemon_row list \<Rightarrow> daemon_row list \<Rightarrow>
      control_plane \<Rightarrow> bool \<times> control_plane" where
  "preempt_daemons net parse_eid parse_ts now ts cfg k agents daemons [] cp = (False, cp)"
| "preempt_daemons net parse_eid parse_ts now ts cfg k agents daemons (d # ds) cp =
     (if \<not> pin_feasible k daemons d \<or> \<not> labels_feasible k d
      then preempt_daemons net parse_eid parse_ts now ts cfg k agents daemons ds cp
      else case preempt_candidates net parse_eid ts k agents d
                  (preempt_order parse_ts now cfg agents d) default_allocated cp of
        (b, cp1) \<Rightarrow>
          (case preempt_daemons net parse_eid parse_ts now ts cfg k agents daemons ds cp1 of
             (b', cp2) \<Rightarrow> (b \<or> b', cp2)))"

definition preempt_idle ::
    "daemon_net \<Rightarrow> (string \<Rightarrow> string option) \<Rightarrow> (timestamp \<Rightarrow> int option) \<Rightarrow> int \<Rightarrow> timestamp \<Rightarrow>
      auto_suspend_config \<Rightarrow> constraints \<Rightarrow> control_plane \<Rightarrow> (place_error + bool) \<times> control_plane" where
  "preempt_idle net parse_eid parse_ts now ts cfg k cp =
     (let daemons = filter (schedulable k) (list_daemons (cp_store cp))
      in case list_agents (cp_store cp) of
           Inl e \<Rightarrow> (Inl (PlaceStore e), cp)
         | Inr agents \<Rightarrow>
             (case preempt_daemons net parse_eid parse_ts now ts cfg k agents daemons daemons cp of
                (b, cp') \<Rightarrow> (Inr b, cp')))"

definition place_or_preempt ::
    "daemon_net \<Rightarrow> (string \<Rightarrow> string option) \<Rightarrow> (timestamp \<Rightarrow> int option) \<Rightarrow> int \<Rightarrow> timestamp \<Rightarrow>
      auto_suspend_config \<Rightarrow> constraints \<Rightarrow> control_plane \<Rightarrow> (place_error + placement) \<times> control_plane" where
  "place_or_preempt net parse_eid parse_ts now ts cfg k cp =
     (case place parse_eid k (cp_store cp) of
        Inr p \<Rightarrow> (Inr p, cp)
      | Inl first_err \<Rightarrow>
          (case preempt_idle net parse_eid parse_ts now ts cfg k cp of
             (Inl e, cp1) \<Rightarrow> (Inl e, cp1)
           | (Inr True, cp1) \<Rightarrow> (place parse_eid k (cp_store cp1), cp1)
           | (Inr False, cp1) \<Rightarrow> (Inl first_err, cp1)))"

end
