(* ===== verification/Actions.thy ===== *)
theory Actions
  imports Scheduler
begin

text \<open>
  Creating and destroying agents (crates/suzerain/src/actions.rs) and the provider/model check
  against the catalog (crates/suzerain/src/catalog.rs). The catalog document is a parameter: its
  providers in document order, each with the ids of its models. The fresh id of a new agent is
  an argument.
\<close>

section \<open>The catalog check\<close>

type_synonym model_catalog = "(string \<times> string list) list"

definition ascii_lower :: "char \<Rightarrow> char" where
  "ascii_lower c = (let n = of_char c :: nat in if 65 \<le> n \<and> n \<le> 90 then char_of (n + 32) else c)"

definition to_lowercase :: "string \<Rightarrow> string" where
  "to_lowercase s = map ascii_lower s"

fun suggest_from :: "string \<Rightarrow> string option \<Rightarrow> string list \<Rightarrow> string option" where
  "suggest_from needle best [] = best"
| "suggest_from needle best (c # cs) =
     (let cl = to_lowercase c
      in suggest_from needle
           (if (contains_str cl needle \<or> contains_str needle cl) \<and>
               (case best of None \<Rightarrow> True | Some b \<Rightarrow> length c < length b)
            then Some c else best) cs)"

definition suggest :: "string \<Rightarrow> string list \<Rightarrow> string option" where
  "suggest needle candidates = suggest_from (to_lowercase needle) None candidates"

datatype catalog_error =
    UnknownProvider string "string option" "string list"
  | NoKeyInjection string
  | UnknownModel string string "string option" nat

definition validate_model :: "model_catalog \<Rightarrow> string \<Rightarrow> string \<Rightarrow> catalog_error + unit" where
  "validate_model catalog provider model =
     (case map_of catalog provider of
        None \<Rightarrow> Inl (UnknownProvider provider (suggest provider (map fst catalog)) (map fst catalog))
      | Some models \<Rightarrow>
          if provider_env_and_host provider = None then Inl (NoKeyInjection provider)
          else if provider \<noteq> ''openrouter'' \<and> models \<noteq> [] \<and> model \<notin> set models
          then Inl (UnknownModel model provider (suggest model models) (length models))
          else Inr ())"

section \<open>Creating\<close>

datatype action_error =
    ActStore store_error
  | NameTaken string
  | ActCatalog catalog_error
  | ActPreflight secrets_error
  | ActPlacement place_error
  | ActSlice secrets_error
  | CreateTransport order_error
  | CreateRejected "string option"
  | VanishedAfterCreate
  | NoAgentNamed string
  | ActBadEndpoint string
  | DaemonRefused string
  | UnreachableRetryForce

record action_env =
  ae_net :: daemon_net
  ae_parse_eid :: "string \<Rightarrow> string option"
  ae_parse_ts :: "timestamp \<Rightarrow> int option"
  ae_now :: int
  ae_ts :: timestamp
  ae_cfg :: auto_suspend_config
  ae_catalog :: model_catalog
  ae_secrets :: secrets_state

definition create_constraints :: "agent_manifest \<Rightarrow> labels \<Rightarrow> string option \<Rightarrow> constraints" where
  "create_constraints m require_extra pin =
     \<lparr>ct_require = bt_extend (s_require (m_schedule m)) require_extra,
      ct_pin = (case pin of Some p \<Rightarrow> Some p | None \<Rightarrow> s_daemon (m_schedule m)),
      ct_manifest = m, ct_exclude = []\<rparr>"

definition new_row :: "uuid \<Rightarrow> timestamp \<Rightarrow> agent_manifest \<Rightarrow> placement \<Rightarrow> agent_row" where
  "new_row i ts m p =
     \<lparr>a_id = i, a_name = m_name m, a_daemon_endpoint_id = pl_endpoint_id p, a_manifest = m,
      a_state = Provisioning, a_created_at = ts, a_session_file = None, a_idle_secs = None,
      a_busy = None, a_activity_reported_at = None, a_needs_attention = False,
      a_auto_suspend_override = None, a_woke_at = None\<rparr>"

definition prepare_create ::
    "action_env \<Rightarrow> uuid \<Rightarrow> agent_manifest \<Rightarrow> labels \<Rightarrow> string option \<Rightarrow> control_plane \<Rightarrow>
      (action_error + agent_row \<times> placement) \<times> control_plane" where
  "prepare_create E agent_id m require_extra pin cp =
     (case get_agent_by_name (m_name m) (cp_store cp) of
        Inl e \<Rightarrow> (Inl (ActStore e), cp)
      | Inr (Some _) \<Rightarrow> (Inl (NameTaken (m_name m)), cp)
      | Inr None \<Rightarrow>
          (case validate_model (ae_catalog E) (ms_provider (m_model m)) (ms_id (m_model m)) of
             Inl e \<Rightarrow> (Inl (ActCatalog e), cp)
           | Inr _ \<Rightarrow>
               (case preflight m (ae_secrets E) of
                  Inl e \<Rightarrow> (Inl (ActPreflight e), cp)
                | Inr _ \<Rightarrow>
                    (case place_or_preempt (ae_net E) (ae_parse_eid E) (ae_parse_ts E) (ae_now E) (ae_ts E)
                            (ae_cfg E) (create_constraints m require_extra pin) cp of
                       (Inl e, cp1) \<Rightarrow> (Inl (ActPlacement e), cp1)
                     | (Inr p, cp1) \<Rightarrow>
                         (let row = new_row agent_id (ae_ts E) m p
                          in case create_agent row (cp_store cp1) of
                               Inl e \<Rightarrow> (Inl (ActStore e), cp1)
                             | Inr s \<Rightarrow> (Inr (row, p), cp1\<lparr>cp_store := s\<rparr>))))))"

text \<open>\<open>data["session_file"].as_str()\<close> on the acknowledgement's data.\<close>

definition session_file_of :: "order_ack \<Rightarrow> string option" where
  "session_file_of ack =
     (case ack_data ack of
        Some (JObj obj) \<Rightarrow> (case map_of obj ''session_file'' of Some (JStr sf) \<Rightarrow> Some sf | _ \<Rightarrow> None)
      | _ \<Rightarrow> None)"

definition settle_create :: "uuid \<Rightarrow> timestamp \<Rightarrow> string option \<Rightarrow> store \<Rightarrow> store" where
  "settle_create i ts sf s =
     set_agent_woke_at i ts (update_agent_state i Active
       (case sf of None \<Rightarrow> s
        | Some f \<Rightarrow> start_agent_session i f ts (set_agent_session_file i f s)))"

definition complete_create ::
    "action_env \<Rightarrow> agent_row \<Rightarrow> placement \<Rightarrow> control_plane \<Rightarrow> (action_error + unit) \<times> control_plane" where
  "complete_create E row p cp =
     (case slice_for (a_manifest row) (ae_secrets E) of
        Inl e \<Rightarrow> (Inl (ActSlice e), cp)
      | Inr secrets \<Rightarrow>
          (case order (ae_net E) (ae_ts E) (pl_endpoint_id p) (CreateAgent (a_id row) (a_manifest row) secrets) cp of
             (Inl e, cp1) \<Rightarrow> (Inl (CreateTransport e), cp1)
           | (Inr ack, cp1) \<Rightarrow>
               if \<not> ack_success ack
               then (Inl (CreateRejected (ack_message ack)), on_store (update_agent_state (a_id row) Failed) cp1)
               else (Inr (), audit ''agent_create''
                      [(''name'', a_name row), (''id'', a_id row), (''daemon'', a_daemon_endpoint_id row)]
                      (on_store (settle_create (a_id row) (ae_ts E) (session_file_of ack)) cp1))))"

definition create_agent_action ::
    "action_env \<Rightarrow> uuid \<Rightarrow> agent_manifest \<Rightarrow> labels \<Rightarrow> string option \<Rightarrow> control_plane \<Rightarrow>
      (action_error + agent_row \<times> string) \<times> control_plane" where
  "create_agent_action E agent_id m require_extra pin cp =
     (case prepare_create E agent_id m require_extra pin cp of
        (Inl e, cp1) \<Rightarrow> (Inl e, cp1)
      | (Inr (row, p), cp1) \<Rightarrow>
          (case complete_create E row p cp1 of
             (Inl e, cp2) \<Rightarrow> (Inl e, cp2)
           | (Inr _, cp2) \<Rightarrow>
               (case get_agent_by_name (a_name row) (cp_store cp2) of
                  Inl e \<Rightarrow> (Inl (ActStore e), cp2)
                | Inr None \<Rightarrow> (Inl VanishedAfterCreate, cp2)
                | Inr (Some agent) \<Rightarrow> (Inr (agent, pl_daemon_hostname p), cp2))))"

text \<open>\<open>create_agent_background\<close>: the answer comes first, the second state is when the task ended.\<close>

definition create_agent_background ::
    "action_env \<Rightarrow> uuid \<Rightarrow> agent_manifest \<Rightarrow> labels \<Rightarrow> string option \<Rightarrow> control_plane \<Rightarrow>
      (action_error + agent_row \<times> string) \<times> control_plane \<times> control_plane" where
  "create_agent_background E agent_id m require_extra pin cp =
     (case prepare_create E agent_id m require_extra pin cp of
        (Inl e, cp1) \<Rightarrow> (Inl e, cp1, cp1)
      | (Inr (row, p), cp1) \<Rightarrow>
          (Inr (row, pl_daemon_hostname p), cp1, snd (complete_create E row p cp1)))"

section \<open>Destroying\<close>

definition destroyed :: "action_env \<Rightarrow> string \<Rightarrow> uuid \<Rightarrow> bool \<Rightarrow> control_plane \<Rightarrow> control_plane" where
  "destroyed E name i force cp =
     (let cp1 = remove_agent_lock i (on_store (delete_agent i) cp);
          ids = map pm_id (pending_messages i (cp_store cp1))
      in audit ''destroy'' [(''name'', name), (''id'', i), (''force'', if force then ''true'' else ''false'')]
           (on_store (set_message_status ids ''failed'' (Some ''agent destroyed'') (ae_ts E)) cp1))"

definition destroy_agent ::
    "action_env \<Rightarrow> string \<Rightarrow> bool \<Rightarrow> control_plane \<Rightarrow> (action_error + unit) \<times> control_plane" where
  "destroy_agent E name force cp =
     (case get_agent_by_name name (cp_store cp) of
        Inl e \<Rightarrow> (Inl (ActStore e), cp)
      | Inr None \<Rightarrow> (Inl (NoAgentNamed name), cp)
      | Inr (Some agent) \<Rightarrow>
          (case ae_parse_eid E (a_daemon_endpoint_id agent) of
             None \<Rightarrow> (Inl (ActBadEndpoint (a_daemon_endpoint_id agent)), cp)
           | Some daemon \<Rightarrow>
               (case order (ae_net E) (ae_ts E) daemon (DestroyAgent (a_id agent)) cp of
                  (Inr ack, cp1) \<Rightarrow>
                    if \<not> ack_success ack \<and>
                       \<not> contains_str (unwrap_or [] (ack_message ack)) ''no agent''
                    then (Inl (DaemonRefused (unwrap_or [] (ack_message ack))), cp1)
                    else (Inr (), destroyed E name (a_id agent) force cp1)
                | (Inl _, cp1) \<Rightarrow>
                    if \<not> force then (Inl UnreachableRetryForce, cp1)
                    else (Inr (), destroyed E name (a_id agent) force cp1))))"

end
