(* ===== verification/Lines.thy ===== *)
theory Lines
  imports Prelude
begin

text \<open>
  Text files as lines: what \<open>str::lines\<close> yields and the text that a list of lines is written as.
\<close>

section \<open>Lines\<close>

abbreviation newline :: char where "newline \<equiv> CHR 0x0A"

definition strip_cr :: "string \<Rightarrow> string" where
  "strip_cr l = (if l \<noteq> [] \<and> last l = CHR 0x0D then butlast l else l)"

text \<open>\<open>str::lines\<close>: an unterminated last line is kept as it is.\<close>

fun split_lines :: "string \<Rightarrow> string \<Rightarrow> string list" where
  "split_lines cur [] = (if cur = [] then [] else [rev cur])"
| "split_lines cur (c # cs) =
     (if c = newline then strip_cr (rev cur) # split_lines [] cs else split_lines (c # cur) cs)"

definition str_lines :: "string \<Rightarrow> string list" where
  "str_lines s = split_lines [] s"

definition unlines :: "string list \<Rightarrow> string" where
  "unlines ls = concat (map (\<lambda>l. l @ [newline]) ls)"

section \<open>Lines read back\<close>

lemma split_lines_line:
  "newline \<notin> set l \<Longrightarrow> split_lines cur (l @ newline # s) = strip_cr (rev cur @ l) # split_lines [] s"
  by (induction l arbitrary: cur) auto

lemma strip_cr_id: "CHR 0x0D \<notin> set l \<Longrightarrow> strip_cr l = l"
  by (auto simp: strip_cr_def dest: last_in_set)

lemma str_lines_unlines:
  assumes "\<forall>l \<in> set ls. newline \<notin> set l \<and> CHR 0x0D \<notin> set l"
  shows "str_lines (unlines ls) = ls"
  using assms
  by (induction ls) (simp_all add: str_lines_def unlines_def split_lines_line strip_cr_id)

lemma set_strip_cr: "set (strip_cr l) \<subseteq> set l"
  by (auto simp: strip_cr_def dest: in_set_butlastD)

lemma split_lines_chars:
  "newline \<notin> set cur \<Longrightarrow> l \<in> set (split_lines cur s) \<Longrightarrow> newline \<notin> set l \<and> set l \<subseteq> set cur \<union> set s"
proof (induction cur s rule: split_lines.induct)
  case (2 cur c cs)
  then show ?case using set_strip_cr [of "rev cur"] by (fastforce split: if_splits)
qed (auto split: if_splits)

end
