(* ===== verification/Retention.thy ===== *)
theory Retention
  imports Store_Iface Lines
begin

text \<open>
  The retention sweep (crates/suzerain/src/retention.rs): pruning JSONL files by the time stamp of
  each line, removing old bundles, and the operator allow list of the configuration file.
  Parameters: \<open>parse\<close> decodes a line (\<open>None\<close> when it is not JSON, otherwise its \<open>at\<close> text if it
  has one), \<open>parse_ts\<close> reads an RFC 3339 time stamp. Times are integers on one scale.
\<close>

section \<open>Pruning a file\<close>

text \<open>What the loop does with a line: \<open>None\<close> skips it, otherwise whether it is kept.\<close>

definition keep_line ::
    "(string \<Rightarrow> string option option) \<Rightarrow> (timestamp \<Rightarrow> int option) \<Rightarrow> int \<Rightarrow> string \<Rightarrow> bool option" where
  "keep_line parse parse_ts cutoff line =
     (case parse line of
        None \<Rightarrow> None
      | Some at_field \<Rightarrow>
          Some (case at_field of
            None \<Rightarrow> True
          | Some t \<Rightarrow> (case parse_ts t of None \<Rightarrow> True | Some w \<Rightarrow> cutoff \<le> w)))"

fun prune_lines :: "(string \<Rightarrow> bool option) \<Rightarrow> string \<Rightarrow> nat \<Rightarrow> string list \<Rightarrow> string \<times> nat" where
  "prune_lines keep buf dropped [] = (buf, dropped)"
| "prune_lines keep buf dropped (l # ls) =
     (case keep l of
        None \<Rightarrow> prune_lines keep buf dropped ls
      | Some True \<Rightarrow> prune_lines keep (buf @ l @ [newline]) dropped ls
      | Some False \<Rightarrow> prune_lines keep buf (dropped + 1) ls)"

definition prune_file ::
    "(string \<Rightarrow> string option option) \<Rightarrow> (timestamp \<Rightarrow> int option) \<Rightarrow> int \<Rightarrow> string \<Rightarrow> string" where
  "prune_file parse parse_ts cutoff content =
     (case prune_lines (keep_line parse parse_ts cutoff) [] 0 (str_lines content) of
        (buf, dropped) \<Rightarrow> if dropped > 0 then buf else content)"

section \<open>The sweep\<close>

text \<open>\<open>Path::extension\<close> is \<open>jsonl\<close>: a name with a stem that ends in it.\<close>

definition is_jsonl :: "string \<Rightarrow> bool" where
  "is_jsonl name \<longleftrightarrow> 6 < length name \<and> drop (length name - 6) name = ''.jsonl''"

definition sweep_log_dir ::
    "(string \<Rightarrow> string option option) \<Rightarrow> (timestamp \<Rightarrow> int option) \<Rightarrow> int \<Rightarrow> (string \<times> string) list \<Rightarrow>
      (string \<times> string) list" where
  "sweep_log_dir parse parse_ts cutoff files =
     map (\<lambda>(name, content). (name, if is_jsonl name then prune_file parse parse_ts cutoff content else content)) files"

text \<open>Each bundle directory with the modification time of its meta file, if it has one.\<close>

definition sweep_bundles :: "int \<Rightarrow> (string \<times> int option) list \<Rightarrow> (string \<times> int option) list" where
  "sweep_bundles cutoff dirs =
     filter (\<lambda>(_, mtime). \<not> (case mtime of None \<Rightarrow> False | Some t \<Rightarrow> t < cutoff)) dirs"

record retention_config =
  rt_days :: u32
  rt_bundle_days :: u32
  rt_audit_days :: u32

record retained =
  rd_logs :: "(string \<times> string) list"
  rd_audit :: "string option"
  rd_bundles :: "(string \<times> int option) list"
  rd_store :: store

definition cutoff_of :: "int \<Rightarrow> u32 \<Rightarrow> int" where
  "cutoff_of now days = now - int (unat days) * 86400"

text \<open>\<open>show_ts\<close> renders the cutoff for the message queue's textual comparison.\<close>

definition retention_sweep ::
    "(string \<Rightarrow> string option option) \<Rightarrow> (timestamp \<Rightarrow> int option) \<Rightarrow> (int \<Rightarrow> timestamp) \<Rightarrow> int \<Rightarrow>
      retention_config \<Rightarrow> retained \<Rightarrow> retained" where
  "retention_sweep parse parse_ts show_ts now cfg st =
     (let st1 = (if rt_days cfg > 0
            then st\<lparr>rd_logs := sweep_log_dir parse parse_ts (cutoff_of now (rt_days cfg)) (rd_logs st)\<rparr> else st);
          st2 = (if rt_audit_days cfg > 0
            then st1\<lparr>rd_audit := map_option (prune_file parse parse_ts (cutoff_of now (rt_audit_days cfg))) (rd_audit st1)\<rparr>
            else st1);
          st3 = (if rt_bundle_days cfg > 0
            then st2\<lparr>rd_bundles := sweep_bundles (cutoff_of now (rt_bundle_days cfg)) (rd_bundles st2)\<rparr> else st2)
      in if rt_audit_days cfg > 0
         then st3\<lparr>rd_store := prune_messages (show_ts (cutoff_of now (rt_audit_days cfg))) (rd_store st3)\<rparr> else st3)"

text \<open>The configuration file is its operator allow list here (\<open>None\<close> when there is no file).\<close>

definition add_operator_allow_to :: "string \<Rightarrow> string list option \<Rightarrow> bool \<times> string list option" where
  "add_operator_allow_to endpoint file_allow =
     (let allow = (case file_allow of Some xs \<Rightarrow> xs | None \<Rightarrow> [])
      in if endpoint \<in> set allow then (False, file_allow) else (True, Some (allow @ [endpoint])))"

section \<open>What pruning does\<close>

lemma prune_lines_eq:
  "prune_lines keep buf n ls =
     (buf @ unlines (filter (\<lambda>l. keep l = Some True) ls), n + length (filter (\<lambda>l. keep l = Some False) ls))"
  by (induction ls arbitrary: buf n) (auto simp: unlines_def split: option.splits bool.splits)

lemma prune_file_eq:
  "prune_file parse parse_ts cutoff c =
     (if \<exists>l \<in> set (str_lines c). keep_line parse parse_ts cutoff l = Some False
      then unlines (filter (\<lambda>l. keep_line parse parse_ts cutoff l = Some True) (str_lines c)) else c)"
  by (simp add: prune_file_def prune_lines_eq filter_empty_conv)

text \<open>
  Pruning a log file keeps exactly the events that are not older than the cutoff, in order: when
  no line is stale the file is left byte for byte as it was, otherwise its new lines are the old
  ones that decode and are not stale; a pruned file has no stale line and pruning it again changes
  nothing.\<close>

theorem prune_file_exact:
  fixes content :: string and parse :: "string \<Rightarrow> string option option"
    and parse_ts :: "timestamp \<Rightarrow> int option" and cutoff :: int
  assumes "CHR 0x0D \<notin> set content"
  defines "stale l \<equiv> keep_line parse parse_ts cutoff l = Some False"
    and "kept l \<equiv> keep_line parse parse_ts cutoff l = Some True"
  defines "pruned \<equiv> prune_file parse parse_ts cutoff content"
  shows "(if \<exists>l \<in> set (str_lines content). stale l
          then str_lines pruned = filter kept (str_lines content) else pruned = content) \<and>
    \<not> (\<exists>l \<in> set (str_lines pruned). stale l) \<and>
    prune_file parse parse_ts cutoff pruned = pruned"
proof (cases "\<exists>l \<in> set (str_lines content). stale l")
  case True
  have "newline \<notin> set l \<and> CHR 0x0D \<notin> set l" if "l \<in> set (str_lines content)" for l
    using split_lines_chars [of "[]" l content] that assms(1) by (auto simp: str_lines_def)
  then have l: "str_lines pruned = filter kept (str_lines content)"
    using True unfolding pruned_def prune_file_eq stale_def kept_def
    by (simp add: str_lines_unlines)
  then have "\<not> (\<exists>l \<in> set (str_lines pruned). stale l)" by (auto simp: stale_def kept_def)
  then show ?thesis using True l by (simp add: prune_file_eq stale_def)
next
  case False
  then show ?thesis by (simp add: pruned_def prune_file_eq stale_def)
qed

theorem prune_file_exact_witness:
  "prune_file (\<lambda>l. Some (Some l)) (\<lambda>t. Some (int (length t))) 3
     (prune_file (\<lambda>l. Some (Some l)) (\<lambda>t. Some (int (length t))) 3 (unlines [''abc'', ''d'', ''efgh''])) =
   unlines [''abc'', ''efgh'']"
proof -
  have "CHR 0x0D \<notin> set (unlines [''abc'', ''d'', ''efgh''])" by code_simp
  from prune_file_exact [OF this, of "\<lambda>l. Some (Some l)" "\<lambda>t. Some (int (length t))" 3]
  have "prune_file (\<lambda>l. Some (Some l)) (\<lambda>t. Some (int (length t))) 3
     (prune_file (\<lambda>l. Some (Some l)) (\<lambda>t. Some (int (length t))) 3 (unlines [''abc'', ''d'', ''efgh''])) =
     prune_file (\<lambda>l. Some (Some l)) (\<lambda>t. Some (int (length t))) 3 (unlines [''abc'', ''d'', ''efgh''])"
    by blast
  also have "\<dots> = unlines [''abc'', ''efgh'']" by code_simp
  finally show ?thesis .
qed

end
