(* ===== verification/Json.thy ===== *)
theory Json
  imports Proto_Types
begin

text \<open>
  How the program reads and builds JSON values (serde_json's \<open>Value\<close>): indexing by a key, the
  \<open>as_\<close> conversions, maps collected from pairs, and numbers as their literals.
\<close>

section \<open>Reading JSON values\<close>

definition json_get :: "string \<Rightarrow> json \<Rightarrow> json" where
  "json_get k j = (case j of JObj kvs \<Rightarrow> unwrap_or JNull (map_of kvs k) | _ \<Rightarrow> JNull)"

definition as_str :: "json \<Rightarrow> string option" where
  "as_str j = (case j of JStr s \<Rightarrow> Some s | _ \<Rightarrow> None)"

definition as_bool :: "json \<Rightarrow> bool option" where
  "as_bool j = (case j of JBool b \<Rightarrow> Some b | _ \<Rightarrow> None)"

definition as_u64 :: "json \<Rightarrow> u64 option" where
  "as_u64 j = (case j of JNum n \<Rightarrow> parse_u64 n | _ \<Rightarrow> None)"

type_synonym i32 = "32 word"
type_synonym i64 = "64 word"

text \<open>
  Signed integers are words read with \<open>sint\<close>. A literal with a fraction or an exponent, and
  minus zero, is a float to serde, not an integer.\<close>

definition parse_i64 :: "string \<Rightarrow> i64 option" where
  "parse_i64 s =
     (case s of
        [] \<Rightarrow> None
      | c # cs \<Rightarrow>
          if c = CHR ''-'' then
            (if list_all is_digit cs \<and> 0 < digits_val 0 cs \<and> digits_val 0 cs \<le> 2 ^ 63
             then Some (- of_nat (digits_val 0 cs)) else None)
          else if list_all is_digit s \<and> digits_val 0 s < 2 ^ 63
          then Some (of_nat (digits_val 0 s)) else None)"

definition as_i64 :: "json \<Rightarrow> i64 option" where
  "as_i64 j = (case j of JNum n \<Rightarrow> parse_i64 n | _ \<Rightarrow> None)"

definition show_int :: "int \<Rightarrow> string" where
  "show_int n = (if n < 0 then CHR ''-'' # show_nat (nat (- n)) else show_nat (nat n))"

definition json_num :: "nat \<Rightarrow> json" where
  "json_num n = JNum (show_nat n)"

text \<open>A \<open>serde_json::Map\<close> collected from pairs: the last value of a key stays.\<close>

definition json_map :: "(string \<times> json) list \<Rightarrow> json" where
  "json_map kvs = JObj (bt_extend [] kvs)"

definition json_labels :: "json \<Rightarrow> labels option" where
  "json_labels j =
     (case j of
        JObj kvs \<Rightarrow>
          if list_all (\<lambda>(_, v). as_str v \<noteq> None) kvs
          then Some (map (\<lambda>(k, v). (k, unwrap_or [] (as_str v))) kvs) else None
      | _ \<Rightarrow> None)"

definition as_array :: "json \<Rightarrow> json list option" where
  "as_array j = (case j of JArr vs \<Rightarrow> Some vs | _ \<Rightarrow> None)"

definition json_int :: "int \<Rightarrow> json" where
  "json_int n = JNum (show_int n)"

definition json_opt :: "('a \<Rightarrow> json) \<Rightarrow> 'a option \<Rightarrow> json" where
  "json_opt f x = (case x of None \<Rightarrow> JNull | Some a \<Rightarrow> f a)"

definition labels_json :: "labels \<Rightarrow> json" where
  "labels_json ls = JObj (map (map_prod (\<lambda>k. k) JStr) ls)"

text \<open>\<open>v[k] = x\<close> on an object.\<close>

definition set_field :: "string \<Rightarrow> json \<Rightarrow> json \<Rightarrow> json" where
  "set_field k x j = (case j of JObj kvs \<Rightarrow> JObj (bt_remove k kvs @ [(k, x)]) | _ \<Rightarrow> j)"

section \<open>Reading back\<close>

lemma json_get_set_field:
  "json_get k (set_field k' x (JObj kvs)) = (if k = k' then x else json_get k (JObj kvs))"
  by (simp add: json_get_def set_field_def bt_lookup_remove unwrap_or_def map_add_def split: option.split)

lemma json_labels_labels_json: "json_labels (labels_json ls) = Some ls"
  by (simp add: json_labels_def labels_json_def as_str_def list_all_iff unwrap_or_def comp_def split_beta)

end
