(* ===== verification/Transcript.thy ===== *)
theory Transcript
  imports Lines Json
begin

text \<open>
  What the web API reads from an agent's central event log: the bounded tail of the log file and
  the page of events shown (\<open>agent_logs\<close> in crates/suzerain/src/web.rs), and the reconstructed
  conversation (crates/suzerain/src/web_session.rs). A log file is its bytes (None: no readable
  file); \<open>parse\<close> reads a JSON text, \<open>print\<close> writes one. Texts that are not ASCII are their UTF-8
  bytes.
\<close>

section \<open>The tail of a log file\<close>

definition max_tail_read_bytes :: nat where
  "max_tail_read_bytes = 4 * 1024 * 1024"

text \<open>Seeking lands inside a line: its rest is dropped with its newline.\<close>

definition read_tail_bounded :: "nat \<Rightarrow> string option \<Rightarrow> string" where
  "read_tail_bounded max_bytes file =
     (case file of
        None \<Rightarrow> []
      | Some c \<Rightarrow>
          (let start = length c - max_bytes; buf = drop start c
           in if start > 0 then drop 1 (dropWhile (\<lambda>b. b \<noteq> newline) buf) else buf))"

definition parsed_lines :: "(string \<Rightarrow> 'a option) \<Rightarrow> string \<Rightarrow> 'a list" where
  "parsed_lines parse content = List.map_filter parse (str_lines content)"

definition select_events ::
    "(json \<Rightarrow> string) \<Rightarrow> string option \<Rightarrow> string option \<Rightarrow> json list \<Rightarrow> json list" where
  "select_events print kind needle events =
     (let by_kind = (case kind of None \<Rightarrow> events
            | Some k \<Rightarrow> filter (\<lambda>e. as_str (json_get ''kind'' e) = Some k) events)
      in case needle of None \<Rightarrow> by_kind | Some n \<Rightarrow> filter (\<lambda>e. contains_str (print e) n) by_kind)"

definition last_items :: "nat \<Rightarrow> 'a list \<Rightarrow> 'a list" where
  "last_items n xs = drop (length xs - n) xs"

text \<open>The page of events and the number that matched in what was read.\<close>

definition log_page ::
    "(string \<Rightarrow> json option) \<Rightarrow> (json \<Rightarrow> string) \<Rightarrow> nat option \<Rightarrow> string option \<Rightarrow> string option \<Rightarrow> string \<Rightarrow>
      json list \<times> nat" where
  "log_page parse print tail kind needle content =
     (let events = select_events print kind needle (parsed_lines parse content)
      in (last_items (min (unwrap_or 200 tail) 2000) events, length events))"

definition agent_logs_page ::
    "(string \<Rightarrow> json option) \<Rightarrow> (json \<Rightarrow> string) \<Rightarrow> nat option \<Rightarrow> string option \<Rightarrow> string option \<Rightarrow> string option \<Rightarrow>
      json list \<times> nat" where
  "agent_logs_page parse print tail kind needle file =
     log_page parse print tail kind needle (read_tail_bounded max_tail_read_bytes file)"

section \<open>Transcript items\<close>

definition newline_text :: string where "newline_text = [newline]"

definition text_blocks :: "json list \<Rightarrow> string" where
  "text_blocks arr =
     join newline_text (List.map_filter (\<lambda>c. as_str (json_get ''text'' c))
       (filter (\<lambda>c. json_get ''type'' c = JStr ''text'') arr))"

definition assistant_part :: "json \<Rightarrow> json option" where
  "assistant_part c =
     (case as_str (json_get ''type'' c) of
        None \<Rightarrow> None
      | Some t \<Rightarrow>
          if t = ''text'' then Some (JObj [(''type'', JStr ''text''), (''text'', json_get ''text'' c)])
          else if t = ''thinking'' then
            Some (JObj [(''type'', JStr ''thinking''), (''text'', json_get ''thinking'' c)])
          else if t = ''toolCall'' then
            Some (JObj [(''type'', JStr ''tool_call''), (''id'', json_get ''id'' c),
              (''name'', json_get ''name'' c), (''arguments'', json_get ''arguments'' c)])
          else None)"

definition stop_part :: "json \<Rightarrow> json list" where
  "stop_part message =
     (let stop = as_str (json_get ''stopReason'' message)
      in if stop = Some ''error'' \<or> stop = Some ''aborted'' then
           (let detail = unwrap_or [] (as_str (json_get ''errorMessage'' message))
            in [JObj [(''type'', JStr ''error''),
                 (''text'', JStr (if detail = [] then ''turn ended: '' @ unwrap_or ''error'' stop
                                  else ''LLM request failed: '' @ detail))]])
         else [])"

definition tool_result_part :: "json \<Rightarrow> json" where
  "tool_result_part message =
     JObj [(''type'', JStr ''tool_result''), (''tool_call_id'', json_get ''toolCallId'' message),
       (''name'', json_get ''toolName'' message),
       (''text'', JStr (case as_array (json_get ''content'' message) of None \<Rightarrow> [] | Some arr \<Rightarrow> text_blocks arr)),
       (''is_error'', JBool (unwrap_or False (as_bool (json_get ''isError'' message))))]"

definition plain_text :: "json \<Rightarrow> string" where
  "plain_text message =
     (case json_get ''content'' message of JStr s \<Rightarrow> s | JArr arr \<Rightarrow> text_blocks arr | _ \<Rightarrow> [])"

definition message_parts :: "string \<Rightarrow> json \<Rightarrow> json list option" where
  "message_parts role message =
     (if role = ''assistant'' then
        map_option (\<lambda>arr. List.map_filter assistant_part arr @ stop_part message)
          (as_array (json_get ''content'' message))
      else if role = ''toolResult'' then Some [tool_result_part message]
      else Some (if trim (plain_text message) = [] then []
                 else [JObj [(''type'', JStr ''text''), (''text'', JStr (plain_text message))]]))"

definition transcript_item :: "json \<Rightarrow> json option" where
  "transcript_item message =
     (case as_str (json_get ''role'' message) of
        None \<Rightarrow> None
      | Some role \<Rightarrow>
          (case message_parts role message of
             None \<Rightarrow> None
           | Some parts \<Rightarrow>
               if parts = [] then None else Some (JObj [(''role'', JStr role), (''parts'', JArr parts)])))"

section \<open>The conversation\<close>

definition rule_text :: string where
  "rule_text = [CHR 0xE2, CHR 0x94, CHR 0x80, CHR 0xE2, CHR 0x94, CHR 0x80]"

definition dash_text :: string where
  "dash_text = [CHR 0xE2, CHR 0x80, CHR 0x94]"

definition system_item :: "json list \<Rightarrow> json" where
  "system_item parts = JObj [(''role'', JStr ''system''), (''parts'', JArr parts)]"

definition session_started_item :: "json \<Rightarrow> json" where
  "session_started_item ev =
     (let file = unwrap_or [] (as_str (json_get ''session_file'' (json_get ''payload'' ev)));
          short = last (split_on (\<lambda>c. c = CHR ''/'') file)
      in system_item [JObj [(''type'', JStr ''session_boundary''),
           (''text'', JStr (rule_text @ '' session started ('' @ short @ '') '' @ rule_text)),
           (''session_file'', JStr file), (''at'', json_get ''at'' ev)]])"

definition session_rotated_item :: "json \<Rightarrow> json" where
  "session_rotated_item ev =
     system_item [JObj [(''type'', JStr ''session_boundary''),
       (''text'', JStr (rule_text @ '' session ended (suspended; history archived) '' @ rule_text)),
       (''at'', json_get ''at'' ev)]]"

text \<open>An exit with code -1 is a shutdown, not a crash, and is not shown.\<close>

definition system_text :: "string \<Rightarrow> json \<Rightarrow> string option" where
  "system_text kind ev =
     (let payload = json_get ''payload'' ev
      in if kind = ''pi_stderr'' then Some (''pi: '' @ unwrap_or [] (as_str (json_get ''line'' payload)))
         else if kind = ''pi_exit'' then
           (case as_i64 (json_get ''code'' payload) of
              Some c \<Rightarrow>
                if c = -1 then None
                else Some (''pi exited (code '' @ show_int (sint c) @ '') '' @ dash_text @
                  '' the agent cannot process messages; check its provider/model config or restart it'')
            | None \<Rightarrow>
                Some (''pi exited (code ?) '' @ dash_text @
                  '' the agent cannot process messages; check its provider/model config or restart it''))
         else if kind = ''driver_died'' then
           Some (''agent VM driver died '' @ dash_text @ '' the agent is unavailable'')
         else None)"

definition history_item :: "json \<Rightarrow> json option" where
  "history_item ev =
     (let kind = unwrap_or [] (as_str (json_get ''kind'' ev))
      in if kind = ''message_end'' then transcript_item (json_get ''message'' (json_get ''payload'' ev))
         else if kind = ''session_started'' then Some (session_started_item ev)
         else if kind = ''session_rotated'' then Some (session_rotated_item ev)
         else map_option (\<lambda>t. system_item [JObj [(''type'', JStr ''text''), (''text'', JStr t)]])
                (system_text kind ev))"

definition history_items :: "(string \<Rightarrow> json option) \<Rightarrow> string \<Rightarrow> json list" where
  "history_items parse content = List.map_filter history_item (parsed_lines parse content)"

fun streaming_step :: "json \<Rightarrow> bool \<Rightarrow> bool" where
  "streaming_step ev streaming =
     (case as_str (json_get ''kind'' ev) of
        None \<Rightarrow> streaming
      | Some k \<Rightarrow>
          if k = ''turn_start'' then True
          else if k = ''turn_end'' \<or> k = ''agent_settled'' then False else streaming)"

definition is_streaming :: "(string \<Rightarrow> json option) \<Rightarrow> string \<Rightarrow> bool" where
  "is_streaming parse content = fold streaming_step (parsed_lines parse content) False"

text \<open>The roles of a query: separated by commas, blanks around them ignored.\<close>

definition role_set :: "string \<Rightarrow> string list" where
  "role_set r = filter (\<lambda>x. x \<noteq> []) (map trim (split_on (\<lambda>c. c = CHR '','') r))"

definition history_page ::
    "(string \<Rightarrow> json option) \<Rightarrow> string option \<Rightarrow> nat option \<Rightarrow> string \<Rightarrow> json list \<times> nat" where
  "history_page parse roles tail content =
     (let items = filter (\<lambda>item. case roles of None \<Rightarrow> True
            | Some r \<Rightarrow> unwrap_or [] (as_str (json_get ''role'' item)) \<in> set (role_set r))
            (history_items parse content)
      in (case tail of None \<Rightarrow> items | Some n \<Rightarrow> last_items n items, length items))"

section \<open>Lines of a suffix\<close>

lemma split_lines_suffix:
  "\<exists>ls. split_lines cur (p @ newline # s) = ls @ split_lines [] s"
proof (induction p arbitrary: cur)
  case (Cons c p)
  show ?case
  proof (cases "c = newline")
    case True
    obtain ls where "split_lines [] (p @ newline # s) = ls @ split_lines [] s" using Cons by blast
    then have "split_lines cur ((c # p) @ newline # s) = (strip_cr (rev cur) # ls) @ split_lines [] s"
      using True by simp
    then show ?thesis by blast
  qed (use Cons in simp)
qed simp

lemma parsed_lines_suffix: "suffix (parsed_lines parse s) (parsed_lines parse (p @ newline # s))"
  using split_lines_suffix [of "[]" p s]
  by (auto simp: suffix_def parsed_lines_def str_lines_def map_filter_def)

lemma read_tail_cases:
  obtains "read_tail_bounded n (Some c) = c" "length c \<le> n"
  | "read_tail_bounded n (Some c) = []"
  | p where "c = p @ newline # read_tail_bounded n (Some c)"
proof (cases "length c \<le> n")
  case False
  let ?buf = "drop (length c - n) c"
  have r: "read_tail_bounded n (Some c) = drop 1 (dropWhile (\<lambda>b. b \<noteq> newline) ?buf)"
    using False by (simp add: read_tail_bounded_def Let_def)
  show thesis
  proof (cases "dropWhile (\<lambda>b. b \<noteq> newline) ?buf")
    case (Cons b bs)
    then have "b = newline" using hd_dropWhile [of "\<lambda>b. b \<noteq> newline" ?buf] by auto
    then have "?buf = takeWhile (\<lambda>b. b \<noteq> newline) ?buf @ newline # bs"
      using Cons takeWhile_dropWhile_id [of "\<lambda>b. b \<noteq> newline" ?buf] by simp
    then have c: "c = (take (length c - n) c @ takeWhile (\<lambda>b. b \<noteq> newline) ?buf) @ newline # bs"
      by (metis append.assoc append_take_drop_id)
    have "read_tail_bounded n (Some c) = bs" using r Cons by simp
    with c show thesis by (metis that(3))
  next
    case Nil
    have "read_tail_bounded n (Some c) = []" unfolding r Nil by simp
    then show thesis by (rule that(2))
  qed
qed (use that(1) in \<open>simp add: read_tail_bounded_def\<close>)

lemma parsed_tail_suffix:
  "suffix (parsed_lines parse (read_tail_bounded n (Some c))) (parsed_lines parse c)"
proof (rule read_tail_cases [of n c])
  assume "read_tail_bounded n (Some c) = []"
  then show ?thesis by (simp add: parsed_lines_def str_lines_def map_filter_def)
next
  fix p assume "c = p @ newline # read_tail_bounded n (Some c)"
  then show ?thesis by (metis parsed_lines_suffix)
qed simp

text \<open>Complete lines that fit the window are read.\<close>

lemma tail_keeps_complete_lines:
  assumes "c = p @ newline # t" "length t < n"
  shows "suffix t (read_tail_bounded n (Some c))"
proof (cases "length c \<le> n")
  case False
  let ?k = "length c - n"
  have k: "?k \<le> length p" using assms by simp
  then have buf: "drop ?k c = drop ?k p @ newline # t" using assms(1) by simp
  show ?thesis
  proof (cases "newline \<in> set (drop ?k p)")
    case True
    then obtain q r where "drop ?k p = q @ newline # r" "newline \<notin> set q"
      by (meson split_list_first)
    then have "dropWhile (\<lambda>b. b \<noteq> newline) (drop ?k c) = newline # r @ newline # t"
      using buf by (subst buf, subst \<open>drop ?k p = _\<close>, simp) (subst dropWhile_append2, auto)
    then show ?thesis using False by (simp add: read_tail_bounded_def Let_def suffix_def)
  next
    case no: False
    then have "dropWhile (\<lambda>b. b \<noteq> newline) (drop ?k c) = newline # t"
      using buf by (subst buf, subst dropWhile_append2) auto
    then show ?thesis using False by (simp add: read_tail_bounded_def Let_def)
  qed
qed (use assms in \<open>auto simp: read_tail_bounded_def suffix_def\<close>)

lemma suffix_filter: "suffix xs ys \<Longrightarrow> suffix (filter P xs) (filter P ys)"
  by (auto simp: suffix_def)

lemma suffix_select: "suffix xs ys \<Longrightarrow> suffix (select_events print k q xs) (select_events print k q ys)"
  by (auto simp: select_events_def Let_def intro: suffix_filter split: option.split)

lemma last_items_suffix:
  assumes "suffix xs ys"
  shows "suffix (last_items n xs) (last_items n ys)"
    and "n \<le> length xs \<Longrightarrow> last_items n xs = last_items n ys"
proof -
  obtain zs where ys: "ys = zs @ xs" using assms by (auto simp: suffix_def)
  have "last_items n ys = drop (length ys - n) zs @ last_items n xs"
    using ys by (cases "n \<le> length xs") (simp_all add: last_items_def)
  then show "suffix (last_items n xs) (last_items n ys)" by (simp add: suffix_def)
  show "n \<le> length xs \<Longrightarrow> last_items n xs = last_items n ys" using ys by (simp add: last_items_def)
qed

text \<open>C21
  Reading only the tail of a log changes nothing that a page shows: with the file read from
  the last \<open>max_bytes\<close> bytes, the page holds the newest events of the page of the whole file, in
  order, and is the same page when the file fits or when the bytes read hold as many matching events
  as were asked for. Every complete line within the last \<open>max_bytes\<close> bytes is read.\<close>

theorem log_tail_equals_full_read:
  "let bounded = log_page parse print tail kind needle (read_tail_bounded n (Some c));
       full = log_page parse print tail kind needle c
   in suffix (fst bounded) (fst full) \<and>
      (length c \<le> n \<or> min (unwrap_or 200 tail) 2000 \<le> snd bounded \<longrightarrow> fst bounded = fst full) \<and>
      (\<forall>p t. c = p @ newline # t \<and> length t < n \<longrightarrow> suffix t (read_tail_bounded n (Some c)))"
proof -
  define bounded where "bounded = log_page parse print tail kind needle (read_tail_bounded n (Some c))"
  define full where "full = log_page parse print tail kind needle c"
  note s = suffix_select [OF parsed_tail_suffix [of parse n c], of print kind needle]
  have "suffix (fst bounded) (fst full)"
    using last_items_suffix(1) [OF s] by (simp add: bounded_def full_def log_page_def Let_def)
  moreover have "fst bounded = fst full" if "length c \<le> n \<or> min (unwrap_or 200 tail) 2000 \<le> snd bounded"
    using that
  proof
    assume "length c \<le> n"
    then show ?thesis by (simp add: bounded_def full_def read_tail_bounded_def)
  next
    assume "min (unwrap_or 200 tail) 2000 \<le> snd bounded"
    then show ?thesis
      using last_items_suffix(2) [OF s] by (simp add: bounded_def full_def log_page_def Let_def)
  qed
  ultimately show ?thesis
    unfolding Let_def bounded_def [symmetric] full_def [symmetric] using tail_keeps_complete_lines by blast
qed

theorem log_tail_equals_full_read_witness:
  "log_page (\<lambda>l. Some (JStr l)) (\<lambda>j. []) (Some 1) None None
     (read_tail_bounded 7 (Some (unlines [''abcd'', ''efgh'', ''ij'']))) = ([JStr ''ij''], 1) \<and>
   fst (log_page (\<lambda>l. Some (JStr l)) (\<lambda>j. []) (Some 1) None None (unlines [''abcd'', ''efgh'', ''ij''])) = [JStr ''ij'']"
proof -
  have b: "log_page (\<lambda>l. Some (JStr l)) (\<lambda>j. []) (Some 1) None None
      (read_tail_bounded 7 (Some (unlines [''abcd'', ''efgh'', ''ij'']))) = ([JStr ''ij''], 1)"
    by (simp add: read_tail_bounded_def unlines_def log_page_def parsed_lines_def str_lines_def strip_cr_def
        select_events_def last_items_def unwrap_or_def map_filter_def)
  with log_tail_equals_full_read [of "\<lambda>l. Some (JStr l)" "\<lambda>j. []" "Some 1" None None 7
      "unlines [''abcd'', ''efgh'', ''ij'']"]
  show ?thesis by (simp add: unwrap_or_def Let_def)
qed

section \<open>The conversation shown\<close>

lemma transcript_item_shape:
  assumes "transcript_item message = Some item"
  obtains role parts where "item = JObj [(''role'', JStr role), (''parts'', JArr parts)]" "parts \<noteq> []"
    "as_str (json_get ''role'' message) = Some role"
  using assms by (auto simp: transcript_item_def split: option.splits if_splits)

text \<open>Every item has a role and at least one part: nothing empty is shown.\<close>

lemma history_items_not_empty:
  assumes "item \<in> set (history_items parse content)"
  shows "\<exists>role parts. item = JObj [(''role'', JStr role), (''parts'', JArr parts)] \<and> parts \<noteq> []"
proof -
  obtain ev where "history_item ev = Some item"
    using assms by (auto simp: history_items_def map_filter_def)
  then show ?thesis
    by (auto simp: history_item_def Let_def session_started_item_def session_rotated_item_def system_item_def
        split: if_splits elim!: transcript_item_shape)
qed

text \<open>Appending to the log appends to the conversation, and a failed turn always explains itself.\<close>

lemma history_items_append:
  assumes "newline \<notin> set l" "CHR 0x0D \<notin> set l" "s = [] \<or> last s = newline"
  shows "suffix (case Option.bind (parse l) history_item of None \<Rightarrow> [] | Some x \<Rightarrow> [x])
    (history_items parse (s @ l @ [newline]))"
proof -
  have line: "str_lines (l @ [newline]) = [l]"
    using split_lines_line [of l "[]" "[]"] assms(1,2) by (simp add: str_lines_def strip_cr_id)
  have "suffix (str_lines (l @ [newline])) (str_lines (s @ l @ [newline]))"
  proof (cases "s = []")
    case False
    then obtain p where "s = p @ [newline]" using assms(3) by (metis append_butlast_last_id)
    then show ?thesis
      using split_lines_suffix [of "[]" p "l @ [newline]"] by (auto simp: str_lines_def suffix_def)
  qed simp
  then obtain ls where "str_lines (s @ l @ [newline]) = ls @ [l]"
    using line by (auto simp: suffix_def)
  then show ?thesis
    by (auto simp: history_items_def parsed_lines_def map_filter_def suffix_def split: option.split)
qed

lemma errored_turn_is_shown:
  assumes "as_str (json_get ''role'' m) = Some ''assistant''" "as_array (json_get ''content'' m) = Some cs"
    and "as_str (json_get ''stopReason'' m) = Some ''error''"
  shows "\<exists>ps t. transcript_item m = Some (JObj [(''role'', JStr ''assistant''),
    (''parts'', JArr (ps @ [JObj [(''type'', JStr ''error''), (''text'', JStr t)]]))])"
  using assms by (simp add: transcript_item_def message_parts_def stop_part_def Let_def)

text \<open>The agent is streaming exactly when its last turn marker is a start.\<close>

definition turn_marker :: "json \<Rightarrow> bool" where
  "turn_marker ev \<longleftrightarrow>
     as_str (json_get ''kind'' ev) \<in> {Some ''turn_start'', Some ''turn_end'', Some ''agent_settled''}"

lemma streaming_step_marker:
  "streaming_step ev b = (if turn_marker ev then as_str (json_get ''kind'' ev) = Some ''turn_start'' else b)"
  by (cases "as_str (json_get ''kind'' ev)") (auto simp: turn_marker_def)

lemma streaming_last_marker:
  "is_streaming parse content =
     (let ms = filter turn_marker (parsed_lines parse content)
      in ms \<noteq> [] \<and> as_str (json_get ''kind'' (last ms)) = Some ''turn_start'')"
proof -
  have "fold streaming_step evs False =
      (filter turn_marker evs \<noteq> [] \<and>
        as_str (json_get ''kind'' (last (filter turn_marker evs))) = Some ''turn_start'')" for evs
    by (induction evs rule: rev_induct)
      (simp_all add: streaming_step_marker del: streaming_step.simps)
  then show ?thesis by (simp add: is_streaming_def Let_def)
qed

end
