(* ===== verification/Web_Api.thy ===== *)
theory Web_Api
  imports Actions Retention Transcript
begin

text \<open>
  The operator API (crates/suzerain/src/web.rs, crates/suzerain/src/web_session.rs): one definition
  per handler, over the control plane, the secrets store and the operator list of the configuration
  file. An answer is a JSON value or a status code with one. Requests arrive decoded; the serde
  readers and writers, the texts of errors and the files read while a request is served (logs,
  audit trail) are the environment. Where a handler spawns a task and answers at once, the state at
  the answer and the state when the task has ended are both given.
\<close>

section \<open>Environment and state\<close>

record web_env =
  we_act :: action_env
  we_endpoint :: string
  we_version :: string
  we_parse :: "string \<Rightarrow> json option"
  we_print :: "json \<Rightarrow> string"
  we_toml_manifest :: "string \<Rightarrow> string + agent_manifest"
  we_json_manifest :: "json \<Rightarrow> string + agent_manifest"
  we_manifest_json :: "agent_manifest \<Rightarrow> json"
  we_manifest_toml :: "agent_manifest \<Rightarrow> string"
  we_model_json :: "model_spec \<Rightarrow> json"
  we_capacity_json :: "node_capacity option \<Rightarrow> json"
  we_usage_json :: "node_usage option \<Rightarrow> json"
  we_providers :: json
  we_show_store :: "store_error \<Rightarrow> string"
  we_show_action :: "action_error \<Rightarrow> string"
  we_show_catalog :: "catalog_error \<Rightarrow> string"
  we_show_secrets :: "secrets_error \<Rightarrow> string"
  we_show_duration :: "duration_error \<Rightarrow> string"
  we_key_ok :: "string \<Rightarrow> bool"
  we_seal :: "store_file \<Rightarrow> string option"
  we_unseal :: "string \<Rightarrow> store_file option"
  we_log :: "uuid \<Rightarrow> string option"
  we_audit_file :: "string option"

record web_state =
  ws_cp :: control_plane
  ws_secrets :: secrets_state
  ws_config_allow :: "string list option"

abbreviation ws_store :: "web_state \<Rightarrow> store" where
  "ws_store s \<equiv> cp_store (ws_cp s)"

definition on_ws :: "(control_plane \<Rightarrow> control_plane) \<Rightarrow> web_state \<Rightarrow> web_state" where
  "on_ws f s = s\<lparr>ws_cp := f (ws_cp s)\<rparr>"

type_synonym api = "(nat \<times> json) + json"

definition err :: "nat \<Rightarrow> string \<Rightarrow> api" where
  "err status message = Inl (status, JObj [(''error'', JStr message)])"

definition internal :: "web_env \<Rightarrow> store_error \<Rightarrow> api" where
  "internal E e = err 500 (we_show_store E e)"

definition with_ok :: "web_env \<Rightarrow> (store_error + 'a) \<Rightarrow> ('a \<Rightarrow> api) \<Rightarrow> api" where
  "with_ok E r f = (case r of Inl e \<Rightarrow> internal E e | Inr a \<Rightarrow> f a)"

definition resolve_daemon_err :: "daemon_row list \<Rightarrow> string \<Rightarrow> (nat \<times> json) + daemon_row" where
  "resolve_daemon_err daemons i =
     (case resolve_daemon daemons i of
        Inr d \<Rightarrow> Inr d
      | Inl DaemonNotFound \<Rightarrow> Inl (404, JObj [(''error'', JStr ''daemon not found'')])
      | Inl (DaemonAmbiguous matches) \<Rightarrow>
          Inl (409, JObj [(''error'', JStr (''ambiguous daemon id '' @ [CHR 0x27] @ i @ [CHR 0x27] @
            '', matches: '' @ join '', '' matches))]))"

section \<open>Rows as JSON\<close>

text \<open>A column that holds no label map is read as no JSON at all.\<close>

definition daemon_json :: "web_env \<Rightarrow> daemon_row \<Rightarrow> json" where
  "daemon_json E d =
     JObj [(''endpoint_id'', JStr (d_endpoint_id d)), (''approved'', JBool (d_approved d)),
       (''online'', JBool (d_online d)), (''hostname'', JStr (d_hostname d)), (''os'', JStr (d_os d)),
       (''arch'', JStr (d_arch d)), (''labels'', labels_json (effective_labels d)),
       (''reported_labels'', json_opt labels_json (d_labels d)),
       (''label_overrides'', json_opt labels_json (d_label_overrides d)),
       (''max_agents'', json_num (unat (d_max_agents d))), (''last_seen'', JStr (d_last_seen d)),
       (''capacity'', we_capacity_json E (d_capacity_json d)), (''usage'', we_usage_json E (d_usage_json d))]"

definition agent_json :: "web_env \<Rightarrow> agent_row \<Rightarrow> json" where
  "agent_json E a =
     JObj [(''id'', JStr (a_id a)), (''name'', JStr (a_name a)),
       (''daemon_endpoint_id'', JStr (a_daemon_endpoint_id a)),
       (''manifest'', we_manifest_json E (a_manifest a)), (''state'', JStr (state_str (a_state a))),
       (''status'', JStr (public_status (a_state a) (a_busy a = Some True))),
       (''busy'', json_opt JBool (a_busy a)),
       (''idle_secs'', json_num (unat (extrapolated_idle_secs (ae_parse_ts (we_act E)) (ae_now (we_act E)) a))),
       (''needs_attention'', JBool (a_needs_attention a)),
       (''auto_suspend_override'', json_opt JStr (a_auto_suspend_override a)),
       (''created_at'', JStr (a_created_at a)), (''session_file'', json_opt JStr (a_session_file a))]"

definition agent_session_json :: "agent_session_row \<Rightarrow> json" where
  "agent_session_json r =
     JObj [(''id'', json_int (sn_id r)), (''agent_id'', JStr (sn_agent_id r)),
       (''session_file'', JStr (sn_session_file r)), (''started_at'', JStr (sn_started_at r)),
       (''ended_at'', json_opt JStr (sn_ended_at r))]"

definition pending_json :: "web_env \<Rightarrow> pending_daemon \<Rightarrow> json" where
  "pending_json E p =
     JObj [(''endpoint_id'', JStr (p_endpoint_id p)), (''hostname'', JStr (p_hostname p)),
       (''os'', JStr (p_os p)), (''arch'', JStr (p_arch p)),
       (''capacity'', we_capacity_json E (p_capacity_json p)),
       (''first_seen'', JStr (p_first_seen p)), (''last_seen'', JStr (p_last_seen p))]"

section \<open>Reading the fleet\<close>

definition count_states :: "agent_row list \<Rightarrow> (string \<times> nat) list" where
  "count_states agents =
     fold (\<lambda>a m. bt_insert (state_str (a_state a)) (unwrap_or 0 (map_of m (state_str (a_state a))) + 1) m) agents []"

definition overview :: "web_env \<Rightarrow> web_state \<Rightarrow> api" where
  "overview E s =
     with_ok E (list_agents (ws_store s)) (\<lambda>agents.
       (let daemons = list_daemons (ws_store s)
        in Inr (JObj [(''endpoint_id'', JStr (we_endpoint E)),
             (''daemons_total'', json_num (length daemons)),
             (''daemons_online'', json_num (length (filter (\<lambda>d. d_online d \<and> d_approved d) daemons))),
             (''agents_total'', json_num (length agents)),
             (''agents_by_state'', JObj (map (map_prod (\<lambda>k. k) json_num) (count_states agents)))])))"

definition endpoint_info :: "web_env \<Rightarrow> api" where
  "endpoint_info E = Inr (JObj [(''endpoint_id'', JStr (we_endpoint E)), (''version'', JStr (we_version E))])"

definition daemons_list :: "web_env \<Rightarrow> web_state \<Rightarrow> api" where
  "daemons_list E s = Inr (JObj [(''daemons'', JArr (map (daemon_json E) (list_daemons (ws_store s))))])"

definition audit_read_tail :: "web_env \<Rightarrow> nat \<Rightarrow> json list" where
  "audit_read_tail E n = last_items n (parsed_lines (we_parse E) (unwrap_or [] (we_audit_file E)))"

definition daemon_details :: "web_env \<Rightarrow> string \<Rightarrow> web_state \<Rightarrow> api" where
  "daemon_details E i s =
     (case resolve_daemon_err (list_daemons (ws_store s)) i of
        Inl e \<Rightarrow> Inl e
      | Inr d \<Rightarrow>
          with_ok E (list_agents (ws_store s)) (\<lambda>agents.
            Inr (set_field ''audit'' (JArr (filter (\<lambda>e. contains_str (we_print E e) (d_endpoint_id d))
                (audit_read_tail E 200)))
              (set_field ''agents'' (JArr (map (agent_json E)
                (filter (\<lambda>a. a_daemon_endpoint_id a = d_endpoint_id d) agents))) (daemon_json E d)))))"

definition agents_list :: "web_env \<Rightarrow> web_state \<Rightarrow> api" where
  "agents_list E s =
     with_ok E (list_agents (ws_store s)) (\<lambda>agents.
       (let host = (\<lambda>eid. case find (\<lambda>d. d_endpoint_id d = eid) (list_daemons (ws_store s)) of
              None \<Rightarrow> [] | Some d \<Rightarrow> d_hostname d)
        in Inr (JObj [(''agents'', JArr (map (\<lambda>a.
             set_field ''daemon_hostname'' (JStr (host (a_daemon_endpoint_id a))) (agent_json E a)) agents))])))"

definition agent_details :: "web_env \<Rightarrow> string \<Rightarrow> web_state \<Rightarrow> api" where
  "agent_details E name s =
     with_ok E (get_agent_by_name name (ws_store s)) (\<lambda>found.
       (case found of
          None \<Rightarrow> err 404 ''agent not found''
        | Some agent \<Rightarrow>
            (let out = agent_json E agent;
                 out1 = (case find (\<lambda>d. d_endpoint_id d = a_daemon_endpoint_id agent) (list_daemons (ws_store s)) of
                    None \<Rightarrow> out | Some d \<Rightarrow> set_field ''daemon'' (daemon_json E d) out);
                 events = parsed_lines (we_parse E) (unwrap_or [] (we_log E (a_id agent)))
             in Inr (set_field ''manifest_toml'' (JStr (we_manifest_toml E (a_manifest agent)))
                  (set_field ''sessions'' (JArr (map agent_session_json (list_agent_sessions (a_id agent) (ws_store s))))
                  (set_field ''event_count'' (json_num (length events))
                  (set_field ''last_event_at'' (if events = [] then JNull else json_get ''at'' (last events)) out1)))))))"

definition agent_logs :: "web_env \<Rightarrow> string \<Rightarrow> nat option \<Rightarrow> string option \<Rightarrow> string option \<Rightarrow> web_state \<Rightarrow> api" where
  "agent_logs E name tail kind needle s =
     with_ok E (get_agent_by_name name (ws_store s)) (\<lambda>found.
       (case found of
          None \<Rightarrow> err 404 ''agent not found''
        | Some agent \<Rightarrow>
            (case agent_logs_page (we_parse E) (we_print E) tail kind needle (we_log E (a_id agent)) of
               (events, matching) \<Rightarrow>
                 Inr (JObj [(''events'', JArr events), (''total_matching'', json_num matching)]))))"

definition inventory_row :: "agent_row list \<Rightarrow> string \<Rightarrow> json" where
  "inventory_row agents e =
     (let (kind, name) = unwrap_or (''provider'', e) (split_once CHR '':'' e)
      in JObj [(''kind'', JStr kind), (''name'', JStr name),
           (''used_by'', json_num (if kind = ''provider''
              then length (filter (\<lambda>a. name \<in> set (ss_providers (m_secrets (a_manifest a)))) agents) else 0))])"

definition secrets_inventory :: "web_env \<Rightarrow> web_state \<Rightarrow> api" where
  "secrets_inventory E s =
     with_ok E (list_agents (ws_store s)) (\<lambda>agents.
       Inr (JObj [(''entries'', JArr (map (\<lambda>(k, n). inventory_row agents (k @ '':'' @ n)) (inventory (ws_secrets s)))),
         (''store_present'', JBool (sec_file (ws_secrets s) \<noteq> None))]))"

definition providers_annotated :: "web_env \<Rightarrow> web_state \<Rightarrow> api" where
  "providers_annotated E s =
     (let configured = map snd (filter (\<lambda>(kind, _). kind = ''provider'') (inventory (ws_secrets s)));
          entries = (case json_get ''providers'' (we_providers E) of JObj kvs \<Rightarrow> kvs | _ \<Rightarrow> [])
      in Inr (JObj [(''providers'', json_map (map (\<lambda>(i, entry).
           (i, JObj [(''models'', json_get ''models'' entry),
                (''key_injectable'', JBool (provider_env_and_host i \<noteq> None)),
                (''key_configured'', JBool (i \<in> set configured))])) entries))]))"

definition operators_list :: "web_state \<Rightarrow> api" where
  "operators_list s =
     Inr (JObj [(''allow'', JArr (map JStr (sorted_list_of_set (cp_operator_allow (ws_cp s)))))])"

definition pending_daemons_list :: "web_env \<Rightarrow> web_state \<Rightarrow> api" where
  "pending_daemons_list E s =
     Inr (JObj [(''pending'', JArr (map (pending_json E) (list_pending_daemons (ws_store s))))])"

definition audit_tail :: "web_env \<Rightarrow> nat option \<Rightarrow> string option \<Rightarrow> api" where
  "audit_tail E tail action =
     (let entries = audit_read_tail E (min (unwrap_or 100 tail) 500)
      in Inr (JObj [(''entries'', JArr (case action of None \<Rightarrow> entries
           | Some a \<Rightarrow> filter (\<lambda>e. as_str (json_get ''action'' e) = Some a) entries))]))"

section \<open>Changing the fleet\<close>

definition ok_json :: json where
  "ok_json = JObj [(''ok'', JBool True)]"

text \<open>The environment of an action holds the secrets as they are when the request is served.\<close>

definition act_env :: "web_env \<Rightarrow> web_state \<Rightarrow> action_env" where
  "act_env E s = (we_act E)\<lparr>ae_secrets := ws_secrets s\<rparr>"

definition body_manifest :: "web_env \<Rightarrow> string option \<Rightarrow> json option \<Rightarrow> (nat \<times> json) + agent_manifest" where
  "body_manifest E manifest_toml manifest =
     (let bad = (\<lambda>m. Inl (422, JObj [(''error'', JStr m)]))
      in case (manifest_toml, manifest) of
           (Some t, _) \<Rightarrow> (case we_toml_manifest E t of
              Inl e \<Rightarrow> bad (''invalid manifest TOML: '' @ e) | Inr m \<Rightarrow> Inr m)
         | (None, Some v) \<Rightarrow> (case we_json_manifest E v of
              Inl e \<Rightarrow> bad (''invalid manifest: '' @ e) | Inr m \<Rightarrow> Inr m)
         | (None, None) \<Rightarrow> bad ''manifest_toml or manifest required'')"

definition agent_create ::
    "web_env \<Rightarrow> uuid \<Rightarrow> string option \<Rightarrow> json option \<Rightarrow> labels option \<Rightarrow> string option \<Rightarrow> web_state \<Rightarrow>
      api \<times> web_state \<times> web_state" where
  "agent_create E i manifest_toml manifest require daemon s =
     (case body_manifest E manifest_toml manifest of
        Inl e \<Rightarrow> (Inl e, s, s)
      | Inr m \<Rightarrow>
          (case validate_model (ae_catalog (we_act E)) (ms_provider (m_model m)) (ms_id (m_model m)) of
             Inl e \<Rightarrow> (err 422 (we_show_catalog E e), s, s)
           | Inr _ \<Rightarrow>
               (case create_agent_background (act_env E s) i m (unwrap_or [] require) daemon (ws_cp s) of
                  (r, cp1, cp2) \<Rightarrow>
                    ((case r of
                        Inl e \<Rightarrow> err 409 (we_show_action E e)
                      | Inr (agent, hostname) \<Rightarrow>
                          Inr (set_field ''daemon_hostname'' (JStr hostname) (agent_json E agent))),
                     s\<lparr>ws_cp := cp1\<rparr>, s\<lparr>ws_cp := cp2\<rparr>))))"

definition agent_action :: "web_env \<Rightarrow> string \<Rightarrow> string \<Rightarrow> bool option \<Rightarrow> web_state \<Rightarrow> api \<times> web_state" where
  "agent_action E name action force s =
     (if action \<noteq> ''destroy'' then
        (err 400 (''unknown action '' @ [CHR 0x27] @ action @ [CHR 0x27] @ '' '' @ dash_text @
           '' agents suspend and wake automatically; the only lifecycle action is '' @
           [CHR 0x27] @ ''destroy'' @ [CHR 0x27]), s)
      else
        (case destroy_agent (act_env E s) name (unwrap_or False force) (ws_cp s) of
           (Inl e, cp) \<Rightarrow> (err 409 (we_show_action E e), s\<lparr>ws_cp := cp\<rparr>)
         | (Inr _, cp) \<Rightarrow> (Inr ok_json, s\<lparr>ws_cp := cp\<rparr>)))"

definition agent_update :: "web_env \<Rightarrow> string \<Rightarrow> string option \<Rightarrow> web_state \<Rightarrow> api \<times> web_state" where
  "agent_update E name auto_suspend s =
     (case get_agent_by_name name (ws_store s) of
        Inl e \<Rightarrow> (internal E e, s)
      | Inr None \<Rightarrow> (err 404 ''agent not found'', s)
      | Inr (Some agent) \<Rightarrow>
          (case auto_suspend of
             None \<Rightarrow> (err 422 ''auto_suspend required'', s)
           | Some val \<Rightarrow>
               (case auto_suspend_policy (Some val) of
                  Inl e \<Rightarrow> (err 422 (we_show_duration E e), s)
                | Inr policy \<Rightarrow>
                    (let stored = (case policy of Inherit \<Rightarrow> None | _ \<Rightarrow> Some val)
                     in (Inr (JObj [(''ok'', JBool True), (''auto_suspend'', json_opt JStr stored)]),
                         on_ws (\<lambda>cp. audit ''agent_config''
                            [(''name'', name), (''id'', a_id agent), (''auto_suspend'', val), (''via'', ''web'')]
                            (on_store (set_auto_suspend_override (a_id agent) stored) cp)) s)))))"

text \<open>One agent of a removed daemon: destroyed, or at least its row deleted.\<close>

definition force_remove :: "web_env \<Rightarrow> string \<Rightarrow> web_state \<Rightarrow> web_state" where
  "force_remove E name s =
     (case destroy_agent (act_env E s) name True (ws_cp s) of
        (Inr _, cp) \<Rightarrow> s\<lparr>ws_cp := cp\<rparr>
      | (Inl _, cp) \<Rightarrow>
          (case get_agent_by_name name (cp_store cp) of
             Inr (Some agent) \<Rightarrow> s\<lparr>ws_cp := on_store (delete_agent (a_id agent)) cp\<rparr>
           | _ \<Rightarrow> s\<lparr>ws_cp := cp\<rparr>))"

definition daemon_remove :: "web_env \<Rightarrow> string \<Rightarrow> bool option \<Rightarrow> web_state \<Rightarrow> api \<times> web_state" where
  "daemon_remove E i force s =
     (case resolve_daemon_err (list_daemons (ws_store s)) i of
        Inl e \<Rightarrow> (Inl e, s)
      | Inr d \<Rightarrow>
          (case list_agents (ws_store s) of
             Inl e \<Rightarrow> (internal E e, s)
           | Inr agents \<Rightarrow>
               (let names = map a_name (filter (\<lambda>a. a_daemon_endpoint_id a = d_endpoint_id d) agents);
                    forced = unwrap_or False force
                in if names \<noteq> [] \<and> \<not> forced then
                     (err 409 (''daemon '' @ [CHR 0x27] @ d_hostname d @ [CHR 0x27] @ '' still has agents: '' @
                        join '', '' names @ '' '' @ dash_text @ '' destroy them first or retry with force=true''), s)
                   else
                     (Inr ok_json,
                      on_ws (\<lambda>cp. audit ''daemon_remove''
                         [(''endpoint_id'', d_endpoint_id d), (''hostname'', d_hostname d),
                          (''force'', if forced then ''true'' else ''false''),
                          (''agents_removed'', we_print E (JArr (map JStr names)))]
                         (on_store (delete_daemon (d_endpoint_id d)) cp)) (fold (force_remove E) names s)))))"

definition daemon_labels ::
    "web_env \<Rightarrow> string \<Rightarrow> labels option \<Rightarrow> string list option \<Rightarrow> web_state \<Rightarrow> api \<times> web_state" where
  "daemon_labels E i set_labels remove s =
     (case resolve_daemon_err (list_daemons (ws_store s)) i of
        Inl e \<Rightarrow> (Inl e, s)
      | Inr d \<Rightarrow>
          (let overrides = fold bt_remove (unwrap_or [] remove)
                 (bt_extend (unwrap_or [] (d_label_overrides d)) (unwrap_or [] set_labels))
           in (Inr (JObj [(''effective_labels'', labels_json (bt_extend (effective_labels d) overrides))]),
               on_ws (\<lambda>cp. audit ''daemon_label''
                  [(''endpoint_id'', d_endpoint_id d), (''overrides'', we_print E (labels_json overrides))]
                  (on_store (set_label_overrides (d_endpoint_id d) (Some overrides)) cp)) s)))"

section \<open>Secrets\<close>

definition op_audit :: "secret_op \<Rightarrow> string \<times> (string \<times> string) list" where
  "op_audit op = (case op of
     SetProvider i _ \<Rightarrow> (''secret_set'', [(''kind'', ''provider''), (''name'', i)])
   | DeleteProvider i \<Rightarrow> (''secret_delete'', [(''kind'', ''provider''), (''name'', i)])
   | SetSshKey _ \<Rightarrow> (''secret_set'', [(''kind'', ''git''), (''name'', ''ssh_key'')])
   | DeleteSshKey \<Rightarrow> (''secret_delete'', [(''kind'', ''git''), (''name'', ''ssh_key'')])
   | SetExtra n _ \<Rightarrow> (''secret_set'', [(''kind'', ''extra''), (''name'', n)])
   | DeleteExtra n \<Rightarrow> (''secret_delete'', [(''kind'', ''extra''), (''name'', n)]))"

definition op_failure_status :: "secret_op \<Rightarrow> nat" where
  "op_failure_status op = (case op of
     SetProvider _ _ \<Rightarrow> 422 | SetSshKey _ \<Rightarrow> 422 | SetExtra _ _ \<Rightarrow> 422 | _ \<Rightarrow> 500)"

definition secret_change :: "web_env \<Rightarrow> secret_op \<Rightarrow> web_state \<Rightarrow> api \<times> web_state" where
  "secret_change E op s =
     (case run_op (we_key_ok E) (we_seal E) (we_unseal E) op (ws_secrets s) of
        (Inl e, st) \<Rightarrow> (err (op_failure_status op) (we_show_secrets E e), s\<lparr>ws_secrets := st\<rparr>)
      | (Inr _, st) \<Rightarrow>
          (Inr ok_json, on_ws (audit (fst (op_audit op)) (snd (op_audit op))) (s\<lparr>ws_secrets := st\<rparr>)))"

definition secret_reveal :: "web_env \<Rightarrow> string \<Rightarrow> string \<Rightarrow> web_state \<Rightarrow> api \<times> web_state" where
  "secret_reveal E kind name s =
     (case reveal kind name (ws_secrets s) of
        Inl e \<Rightarrow> (err 404 (we_show_secrets E e), s)
      | Inr v \<Rightarrow>
          (Inr (JObj [(''value'', JStr v)]),
           on_ws (audit ''secret_reveal'' [(''kind'', kind), (''name'', name), (''actor'', ''web'')]) s))"

section \<open>Enrolment\<close>

definition daemon_approve :: "web_env \<Rightarrow> string \<Rightarrow> web_state \<Rightarrow> api \<times> web_state" where
  "daemon_approve E i s =
     (case ae_parse_eid (we_act E) i of
        None \<Rightarrow> (err 422 ''invalid endpoint id'', s)
      | Some eid \<Rightarrow>
          (Inr (JObj [(''approved'', JStr eid)]),
           on_ws (\<lambda>cp. audit ''daemon_approve'' [(''endpoint_id'', eid)] (on_store (approve_daemon eid) cp)) s))"

definition operator_approve :: "web_env \<Rightarrow> string \<Rightarrow> web_state \<Rightarrow> api \<times> web_state" where
  "operator_approve E i s =
     (case ae_parse_eid (we_act E) i of
        None \<Rightarrow> (err 422 ''invalid endpoint id'', s)
      | Some eid \<Rightarrow>
          (Inr (JObj [(''approved'', JStr eid)]),
           on_ws (\<lambda>cp. audit ''operator_approve'' [(''endpoint_id'', eid)] (add_operator_allow eid cp))
             (s\<lparr>ws_config_allow := snd (add_operator_allow_to eid (ws_config_allow s))\<rparr>)))"

definition pending_approve :: "web_env \<Rightarrow> string \<Rightarrow> web_state \<Rightarrow> api \<times> web_state" where
  "pending_approve E i s =
     (let eids = map p_endpoint_id (list_pending_daemons (ws_store s));
          approve = (\<lambda>eid. (Inr (JObj [(''approved'', JStr eid)]),
            on_ws (\<lambda>cp. audit ''daemon_approve'' [(''endpoint_id'', eid)] (on_store (approve_daemon eid) cp)) s))
      in if i \<in> set eids then approve i
         else (case filter (\<lambda>e. starts_with e i) eids of
             [] \<Rightarrow> (err 404 ''pending daemon not found'', s)
           | [only] \<Rightarrow> approve only
           | many \<Rightarrow> (err 409 (''ambiguous daemon id '' @ [CHR 0x27] @ i @ [CHR 0x27] @ '', matches: '' @
               join '', '' many), s)))"

definition pending_dismiss :: "string \<Rightarrow> web_state \<Rightarrow> api \<times> web_state" where
  "pending_dismiss i s = (Inr ok_json, on_ws (on_store (delete_pending_daemon i)) s)"

section \<open>Conversations\<close>

definition lookup_agent_row :: "web_env \<Rightarrow> nat \<Rightarrow> string \<Rightarrow> web_state \<Rightarrow> (nat \<times> json) + agent_row" where
  "lookup_agent_row E status name s =
     (case get_agent_by_name name (ws_store s) of
        Inl e \<Rightarrow> Inl (status, JObj [(''error'', JStr (we_show_store E e))])
      | Inr None \<Rightarrow>
          Inl (status, JObj [(''error'', JStr (''no agent named '' @ [CHR 0x27] @ name @ [CHR 0x27]))])
      | Inr (Some a) \<Rightarrow> Inr a)"

definition session_state :: "web_env \<Rightarrow> string \<Rightarrow> web_state \<Rightarrow> api" where
  "session_state E name s =
     (case lookup_agent_row E 404 name s of
        Inl e \<Rightarrow> Inl e
      | Inr a \<Rightarrow>
          Inr (JObj [(''state'', JStr (state_str (a_state a))),
            (''status'', JStr (public_status (a_state a) (a_busy a = Some True))),
            (''busy'', json_opt JBool (a_busy a)), (''needs_attention'', JBool (a_needs_attention a)),
            (''streaming'', JBool (is_streaming (we_parse E) (unwrap_or [] (we_log E (a_id a))))),
            (''model'', we_model_json E (m_model (a_manifest a)))]))"

definition session_history :: "web_env \<Rightarrow> string \<Rightarrow> string option \<Rightarrow> nat option \<Rightarrow> web_state \<Rightarrow> api" where
  "session_history E name roles tail s =
     (case lookup_agent_row E 404 name s of
        Inl e \<Rightarrow> Inl e
      | Inr a \<Rightarrow>
          (let content = unwrap_or [] (we_log E (a_id a))
           in case history_page (we_parse E) roles tail content of
                (items, matching) \<Rightarrow>
                  Inr (JObj [(''items'', JArr items), (''total_matching'', json_num matching),
                    (''streaming'', JBool (is_streaming (we_parse E) content)),
                    (''state'', JStr (state_str (a_state a)))])))"

section \<open>Serving a request\<close>

datatype web_request =
    RqEndpoint
  | RqOverview
  | RqDaemons
  | RqDaemon string
  | RqDaemonRemove string "bool option"
  | RqDaemonLabels string "labels option" "string list option"
  | RqDaemonApprove string
  | RqPending
  | RqPendingApprove string
  | RqPendingDismiss string
  | RqAgents
  | RqAgent string
  | RqAgentCreate "string option" "json option" "labels option" "string option"
  | RqAgentAction string string "bool option"
  | RqAgentUpdate string "string option"
  | RqAgentLogs string "nat option" "string option" "string option"
  | RqSessionState string
  | RqSessionHistory string "string option" "nat option"
  | RqProviders
  | RqSecrets
  | RqSecretChange secret_op
  | RqSecretReveal string string
  | RqOperators
  | RqOperatorApprove string
  | RqAudit "nat option" "string option"

definition at_once :: "api \<times> web_state \<Rightarrow> api \<times> web_state \<times> web_state" where
  "at_once r = (fst r, snd r, snd r)"

text \<open>The answer, the state when it is sent, and the state when spawned tasks have ended.\<close>

definition serve :: "web_env \<Rightarrow> uuid \<Rightarrow> web_request \<Rightarrow> web_state \<Rightarrow> api \<times> web_state \<times> web_state" where
  "serve E i req s =
     (case req of
        RqEndpoint \<Rightarrow> at_once (endpoint_info E, s)
      | RqOverview \<Rightarrow> at_once (overview E s, s)
      | RqDaemons \<Rightarrow> at_once (daemons_list E s, s)
      | RqDaemon d \<Rightarrow> at_once (daemon_details E d s, s)
      | RqDaemonRemove d force \<Rightarrow> at_once (daemon_remove E d force s)
      | RqDaemonLabels d set_labels remove \<Rightarrow> at_once (daemon_labels E d set_labels remove s)
      | RqDaemonApprove d \<Rightarrow> at_once (daemon_approve E d s)
      | RqPending \<Rightarrow> at_once (pending_daemons_list E s, s)
      | RqPendingApprove d \<Rightarrow> at_once (pending_approve E d s)
      | RqPendingDismiss d \<Rightarrow> at_once (pending_dismiss d s)
      | RqAgents \<Rightarrow> at_once (agents_list E s, s)
      | RqAgent name \<Rightarrow> at_once (agent_details E name s, s)
      | RqAgentCreate t m require daemon \<Rightarrow> agent_create E i t m require daemon s
      | RqAgentAction name action force \<Rightarrow> at_once (agent_action E name action force s)
      | RqAgentUpdate name a \<Rightarrow> at_once (agent_update E name a s)
      | RqAgentLogs name tail kind q \<Rightarrow> at_once (agent_logs E name tail kind q s, s)
      | RqSessionState name \<Rightarrow> at_once (session_state E name s, s)
      | RqSessionHistory name roles tail \<Rightarrow> at_once (session_history E name roles tail s, s)
      | RqProviders \<Rightarrow> at_once (providers_annotated E s, s)
      | RqSecrets \<Rightarrow> at_once (secrets_inventory E s, s)
      | RqSecretChange op \<Rightarrow> at_once (secret_change E op s)
      | RqSecretReveal kind name \<Rightarrow> at_once (secret_reveal E kind name s)
      | RqOperators \<Rightarrow> at_once (operators_list s, s)
      | RqOperatorApprove d \<Rightarrow> at_once (operator_approve E d s)
      | RqAudit tail action \<Rightarrow> at_once (audit_tail E tail action, s))"

end
