(* ===== verification/Scheduler_Theorems.thy ===== *)
theory Scheduler_Theorems
  imports Scheduler
begin

text \<open>
  What placement promises: the strategy interface as a locale, the default strategy as its
  instance, no overcommitment, best score, completeness, pins, and guarded preemption.
\<close>

section \<open>The fit filter\<close>

lemma labels_match_ok:
  "labels_match have req = Inr () \<longleftrightarrow> (\<forall>(k, v) \<in> set req. map_of have k = Some v)"
  by (induction req) (auto split: option.splits if_splits)

lemma labels_feasible_iff: "labels_feasible k d \<longleftrightarrow> labels_match (effective_labels d) (ct_require k) = Inr ()"
  by (simp add: labels_feasible_def labels_match_ok list_all_iff)

lemma sat_sub_room:
  "r \<le> sat_sub t a \<Longrightarrow> unat a + unat r \<le> max (unat t) (unat a)"
  by (auto simp: sat_sub_def word_le_nat_alt word_less_nat_alt unat_sub split: if_splits)

lemma sat_sub_zero [simp]: "sat_sub t 0 = t"
  by (simp add: sat_sub_def)

definition fits_within :: "daemon_row \<Rightarrow> allocated \<Rightarrow> resources \<Rightarrow> bool" where
  "fits_within d al req \<longleftrightarrow>
     al_agents al < d_max_agents d \<and>
     unat (al_vcpu al) + unat (r_vcpu req) \<le> max (unat (c_vcpu_total (capacity d))) (unat (al_vcpu al)) \<and>
     unat (al_memory_mib al) + unat (r_memory_mib req) \<le>
       max (unat (c_memory_mib_total (capacity d))) (unat (al_memory_mib al)) \<and>
     unat (al_disk_mib al) + unat (r_disk_mib req) \<le>
       max (unat (c_disk_mib_total (capacity d))) (unat (al_disk_mib al)) \<and>
     is_ok (gpu_fit (capacity d) (usage d) req)"

lemma fits_Inr:
  assumes "fits d al default_reserve req require = Inr s"
  shows "labels_match (effective_labels d) require = Inr ()" "fits_within d al req"
proof -
  from assms show "labels_match (effective_labels d) require = Inr ()"
    by (auto simp: fits_def split: sum.splits)
  from assms have "\<not> al_agents al \<ge> d_max_agents d"
    "r_vcpu req \<le> sat_sub (c_vcpu_total (capacity d)) (al_vcpu al)"
    "r_memory_mib req \<le> sat_sub (c_memory_mib_total (capacity d)) (al_memory_mib al)"
    "r_disk_mib req \<le> sat_sub (c_disk_mib_total (capacity d)) (al_disk_mib al)"
    "\<exists>v. gpu_fit (capacity d) (usage d) req = Inr v"
    by (auto simp: fits_def default_reserve_def Let_def res_bind_Inr_conv not_less split: sum.splits if_splits)
  then show "fits_within d al req"
    by (auto simp: fits_within_def is_ok_conv not_le intro: sat_sub_room)
qed

section \<open>The strategy interface\<close>

locale placement_strategy =
  fixes parse_eid :: "string \<Rightarrow> string option"
    and strat :: strategy
  assumes sound: "strat cs k = Inr p \<Longrightarrow>
      \<exists>c \<in> set cs. candidate_fit k c = Inr (pl_score p) \<and>
        parse_eid (d_endpoint_id (cd_daemon c)) = Some (pl_endpoint_id p) \<and>
        pl_daemon_hostname p = d_hostname (cd_daemon c)"
    and complete: "strat cs k = Inl e \<Longrightarrow> c \<in> set cs \<Longrightarrow> is_ok (candidate_fit k c) \<Longrightarrow>
      \<exists>c' \<in> set cs. parse_eid (d_endpoint_id (cd_daemon c')) = None"
begin

lemma place_with_sound:
  assumes "place_with parse_eid strat k s = Inr p" "ct_pin k = None"
  shows "\<exists>d agents. d \<in> set (st_daemons s) \<and> schedulable k d \<and> list_agents s = Inr agents \<and>
    parse_eid (d_endpoint_id d) = Some (pl_endpoint_id p) \<and>
    candidate_fit k \<lparr>cd_daemon = d, cd_allocated = allocated_of agents (d_endpoint_id d)\<rparr> = Inr (pl_score p)"
proof -
  let ?ds = "filter (schedulable k) (list_daemons s)"
  obtain agents where ag: "list_agents s = Inr agents" "strat (candidates_of k agents ?ds) k = Inr p"
    using assms by (auto simp: place_with_def Let_def split: if_splits sum.splits)
  from sound [OF ag(2)] show ?thesis
    using ag(1) by (auto simp: candidates_of_def list_daemons_def)
qed

lemma place_with_complete:
  assumes "place_with parse_eid strat k s = Inl e" "ct_pin k = None" "list_agents s = Inr agents"
    "d \<in> set (st_daemons s)" "schedulable k d"
    "is_ok (candidate_fit k \<lparr>cd_daemon = d, cd_allocated = allocated_of agents (d_endpoint_id d)\<rparr>)"
  shows "\<exists>d' \<in> set (st_daemons s). parse_eid (d_endpoint_id d') = None"
proof -
  let ?ds = "filter (schedulable k) (list_daemons s)"
  have d: "d \<in> set ?ds" using assms(4,5) by (simp add: list_daemons_def)
  then have "?ds \<noteq> []" by (metis list.set_cases list.discI)
  then have "strat (candidates_of k agents ?ds) k = Inl e"
    using assms(1-3) by (simp add: place_with_def Let_def)
  moreover have "\<lparr>cd_daemon = d, cd_allocated = allocated_of agents (d_endpoint_id d)\<rparr> \<in>
      set (candidates_of k agents ?ds)"
    using d by (auto simp: candidates_of_def)
  ultimately have "\<exists>c' \<in> set (candidates_of k agents ?ds). parse_eid (d_endpoint_id (cd_daemon c')) = None"
    using assms(6) by (rule complete)
  then show ?thesis by (auto simp: candidates_of_def list_daemons_def)
qed

end

lemma scored_mem: "(d, x) \<in> set (scored k cs) \<longleftrightarrow> (\<exists>c \<in> set cs. cd_daemon c = d \<and> candidate_fit k c = Inr x)"
  by (force simp: scored_def split: sum.splits)

lemma choose_default_Inr:
  assumes "choose_default parse_eid cs k = Inr p"
  shows "\<exists>c \<in> set cs. candidate_fit k c = Inr (pl_score p) \<and>
      parse_eid (d_endpoint_id (cd_daemon c)) = Some (pl_endpoint_id p) \<and>
      pl_daemon_hostname p = d_hostname (cd_daemon c)"
    and "c \<in> set cs \<Longrightarrow> candidate_fit k c = Inr x \<Longrightarrow> x \<le> pl_score p"
proof -
  let ?xs = "sort_key (\<lambda>(_, s). - s) (scored k cs)"
  obtain d s rest where xs: "?xs = (d, s) # rest"
    using assms by (cases ?xs) (auto simp: choose_default_def)
  then have p: "parse_eid (d_endpoint_id d) = Some (pl_endpoint_id p)" "pl_daemon_hostname p = d_hostname d"
    "pl_score p = s"
    using assms by (auto simp: choose_default_def split: option.splits)
  have "(d, s) \<in> set (scored k cs)" by (metis list.set_intros(1) set_sort xs)
  with p show "\<exists>c \<in> set cs. candidate_fit k c = Inr (pl_score p) \<and>
      parse_eid (d_endpoint_id (cd_daemon c)) = Some (pl_endpoint_id p) \<and>
      pl_daemon_hostname p = d_hostname (cd_daemon c)"
    by (auto simp: scored_mem)
  show "x \<le> pl_score p" if "c \<in> set cs" "candidate_fit k c = Inr x"
  proof -
    have "(cd_daemon c, x) \<in> set ?xs" using that by (auto simp: scored_mem)
    moreover have "sorted (map (\<lambda>(_, s). - s) ?xs)" by (rule sorted_sort_key)
    ultimately have "- s \<le> - x" unfolding xs by auto
    then show ?thesis using p by simp
  qed
qed

interpretation default_strategy: placement_strategy parse_eid "choose_default parse_eid" for parse_eid
proof unfold_locales
  show "\<exists>c \<in> set cs. candidate_fit k c = Inr (pl_score p) \<and>
        parse_eid (d_endpoint_id (cd_daemon c)) = Some (pl_endpoint_id p) \<and>
        pl_daemon_hostname p = d_hostname (cd_daemon c)"
    if "choose_default parse_eid cs k = Inr p" for cs k p
    using that by (rule choose_default_Inr)
  show "\<exists>c' \<in> set cs. parse_eid (d_endpoint_id (cd_daemon c')) = None"
    if failed: "choose_default parse_eid cs k = Inl e" "c \<in> set cs" "is_ok (candidate_fit k c)" for cs k e c
  proof -
    let ?xs = "sort_key (\<lambda>(_, s). - s) (scored k cs)"
    obtain x where "(cd_daemon c, x) \<in> set ?xs" using failed(2,3) by (auto simp: scored_mem is_ok_conv)
    then obtain d s rest where xs: "?xs = (d, s) # rest" by (cases ?xs) auto
    then have "parse_eid (d_endpoint_id d) = None"
      using failed(1) by (auto simp: choose_default_def split: option.splits)
    moreover have "(d, s) \<in> set (scored k cs)" by (metis list.set_intros(1) set_sort xs)
    ultimately show ?thesis by (auto simp: scored_mem)
  qed
qed

section \<open>Load in natural numbers\<close>

lemma unat_word_sum:
  "sum_list (map (\<lambda>x. unat (f x)) xs) < 2 ^ LENGTH('a) \<Longrightarrow>
     unat (sum_list (map f xs) :: 'a::len word) = sum_list (map (\<lambda>x. unat (f x)) xs)"
proof (induction xs)
  case (Cons x xs)
  then have "unat (sum_list (map f xs)) = sum_list (map (\<lambda>x. unat (f x)) xs)" by simp
  with Cons.prems show ?case by (simp add: unat_add_lem [THEN iffD1])
qed simp

lemma fold_add_request:
  "al_vcpu (fold add_request as acc) = al_vcpu acc + sum_list (map (r_vcpu \<circ> m_resources \<circ> a_manifest) as)"
  "al_memory_mib (fold add_request as acc) =
     al_memory_mib acc + sum_list (map (r_memory_mib \<circ> m_resources \<circ> a_manifest) as)"
  "al_disk_mib (fold add_request as acc) =
     al_disk_mib acc + sum_list (map (r_disk_mib \<circ> m_resources \<circ> a_manifest) as)"
  "al_agents (fold add_request as acc) = al_agents acc + of_nat (length as)"
  by (induction as arbitrary: acc) (simp_all add: add_request_def Let_def ac_simps)

definition vcpu_load :: "agent_row list \<Rightarrow> nat" where
  "vcpu_load as = sum_list (map (\<lambda>a. unat (r_vcpu (m_resources (a_manifest a)))) as)"

definition memory_load :: "agent_row list \<Rightarrow> nat" where
  "memory_load as = sum_list (map (\<lambda>a. unat (r_memory_mib (m_resources (a_manifest a)))) as)"

definition disk_load :: "agent_row list \<Rightarrow> nat" where
  "disk_load as = sum_list (map (\<lambda>a. unat (r_disk_mib (m_resources (a_manifest a)))) as)"

lemma allocated_loads:
  "vcpu_load (live_on e as) < 2 ^ 32 \<Longrightarrow> unat (al_vcpu (allocated_of as e)) = vcpu_load (live_on e as)"
  "memory_load (live_on e as) < 2 ^ 64 \<Longrightarrow>
     unat (al_memory_mib (allocated_of as e)) = memory_load (live_on e as)"
  "disk_load (live_on e as) < 2 ^ 64 \<Longrightarrow> unat (al_disk_mib (allocated_of as e)) = disk_load (live_on e as)"
  "length (live_on e as) < 2 ^ 32 \<Longrightarrow> unat (al_agents (allocated_of as e)) = length (live_on e as)"
  using unat_word_sum [of "r_vcpu \<circ> m_resources \<circ> a_manifest" "live_on e as"]
    unat_word_sum [of "r_memory_mib \<circ> m_resources \<circ> a_manifest" "live_on e as"]
    unat_word_sum [of "r_disk_mib \<circ> m_resources \<circ> a_manifest" "live_on e as"]
  by (simp_all add: allocated_of_def fold_add_request default_allocated_def vcpu_load_def
      memory_load_def disk_load_def comp_def unat_of_nat take_bit_nat_eq_self)

section \<open>Properties\<close>

text \<open>C8
  Placement never overcommits: an unpinned placement chooses a registered daemon that is
  approved, online, not excluded and carries every required label, and adding the request to the
  agents that consume resources there stays within its slots and, for each dimension, within its
  capacity (or adds nothing to a dimension that was already over it), as long as the sums of
  requests do not exceed the machine integers that hold them.\<close>

theorem place_no_overcommit:
  assumes "place parse_eid k s = Inr p" "ct_pin k = None" "list_agents s = Inr agents"
    and "\<forall>e. vcpu_load (live_on e agents) < 2 ^ 32 \<and> memory_load (live_on e agents) < 2 ^ 64 \<and>
      disk_load (live_on e agents) < 2 ^ 64 \<and> length (live_on e agents) < 2 ^ 32"
  defines "req \<equiv> m_resources (ct_manifest k)"
  shows "\<exists>d \<in> set (st_daemons s). let live = live_on (d_endpoint_id d) agents; cap = capacity d in
    parse_eid (d_endpoint_id d) = Some (pl_endpoint_id p) \<and>
    d_approved d \<and> d_online d \<and> d_endpoint_id d \<notin> set (ct_exclude k) \<and>
    (\<forall>(key, v) \<in> set (ct_require k). map_of (effective_labels d) key = Some v) \<and>
    length live < unat (d_max_agents d) \<and>
    vcpu_load live + unat (r_vcpu req) \<le> max (unat (c_vcpu_total cap)) (vcpu_load live) \<and>
    memory_load live + unat (r_memory_mib req) \<le> max (unat (c_memory_mib_total cap)) (memory_load live) \<and>
    disk_load live + unat (r_disk_mib req) \<le> max (unat (c_disk_mib_total cap)) (disk_load live)"
proof -
  obtain d where d: "d \<in> set (st_daemons s)" "schedulable k d"
    "parse_eid (d_endpoint_id d) = Some (pl_endpoint_id p)"
    "candidate_fit k \<lparr>cd_daemon = d, cd_allocated = allocated_of agents (d_endpoint_id d)\<rparr> = Inr (pl_score p)"
    using default_strategy.place_with_sound [of parse_eid k s p] assms(1-3) by (auto simp: place_def)
  note f = fits_Inr [OF d(4) [unfolded candidate_fit_def, simplified]]
  note loads = allocated_loads [of "d_endpoint_id d" agents]
  have "al_agents (allocated_of agents (d_endpoint_id d)) < d_max_agents d"
    using f(2) by (simp add: fits_within_def)
  then have "length (live_on (d_endpoint_id d) agents) < unat (d_max_agents d)"
    using loads(4) assms(4) by (simp add: word_less_nat_alt)
  then show ?thesis
    using d f assms(4) loads
    by (intro bexI [of _ d]) (auto simp: Let_def schedulable_def labels_match_ok fits_within_def req_def)
qed

definition demo_node :: daemon_row where
  "demo_node = (blank_daemon ''d'')\<lparr>d_approved := True, d_online := True,
     d_capacity_json := Some \<lparr>c_vcpu_total = 8, c_memory_mib_total = 8192, c_disk_mib_total = 10240, c_gpus = []\<rparr>\<rparr>"

definition demo_fleet :: store where
  "demo_fleet = empty_store\<lparr>st_daemons := [demo_node]\<rparr>"

definition demo_constraints :: constraints where
  "demo_constraints = \<lparr>ct_require = [], ct_pin = None, ct_manifest = minimal_manifest ''n'' ''p'' ''m'',
     ct_exclude = []\<rparr>"

lemma demo_place:
  "place Some demo_constraints demo_fleet =
     Inr \<lparr>pl_endpoint_id = ''d'', pl_daemon_hostname = [], pl_score = 1 + 1 + 1 / 2\<rparr>"
  "list_agents demo_fleet = Inr []"
  by (simp_all add: place_def place_with_def demo_constraints_def demo_fleet_def demo_node_def
      list_daemons_def empty_store_def list_agents_def candidates_of_def allocated_of_def live_on_def
      choose_default_def scored_def candidate_fit_def fits_def effective_labels_def unwrap_or_def
      blank_daemon_def bt_extend_def default_allocated_def capacity_def usage_def minimal_manifest_def
      default_resources_def default_vcpu_def default_memory_mib_def default_disk_mib_def
      default_reserve_def gpu_fit_def frac_free_def rat_of_word_def schedulable_def Let_def)

lemma no_load [simp]: "vcpu_load [] = 0" "memory_load [] = 0" "disk_load [] = 0"
  by (simp_all add: vcpu_load_def memory_load_def disk_load_def)

theorem place_no_overcommit_witness:
  "\<exists>d \<in> set (st_daemons demo_fleet). 2 \<le> unat (c_vcpu_total (capacity d))"
proof -
  have "unat (r_vcpu (m_resources (ct_manifest demo_constraints))) = 2" "ct_pin demo_constraints = None"
    by (simp_all add: demo_constraints_def minimal_manifest_def default_resources_def default_vcpu_def)
  then show ?thesis
    using place_no_overcommit [OF demo_place(1) _ demo_place(2)]
    by (fastforce simp: live_on_def Let_def numeral_2_eq_2)
qed

text \<open>
  Spread and completeness: the chosen daemon's score is the largest among all schedulable daemons
  that fit, and when an unpinned placement fails although some schedulable daemon fits, then an
  endpoint id in the registry does not parse.\<close>

theorem place_best:
  assumes "ct_pin k = None" "list_agents s = Inr agents" "d \<in> set (st_daemons s)" "schedulable k d"
    and "candidate_fit k \<lparr>cd_daemon = d, cd_allocated = allocated_of agents (d_endpoint_id d)\<rparr> = Inr x"
  shows "case place parse_eid k s of
      Inr p \<Rightarrow> x \<le> pl_score p
    | Inl _ \<Rightarrow> \<exists>d' \<in> set (st_daemons s). parse_eid (d_endpoint_id d') = None"
proof (cases "place parse_eid k s")
  case (Inl e)
  then show ?thesis
    using default_strategy.place_with_complete [of parse_eid k s e agents d] assms
    by (simp add: place_def is_ok_conv)
next
  case (Inr p)
  let ?ds = "filter (schedulable k) (list_daemons s)"
  have "d \<in> set ?ds" using assms(3,4) by (simp add: list_daemons_def)
  then have mem: "\<lparr>cd_daemon = d, cd_allocated = allocated_of agents (d_endpoint_id d)\<rparr> \<in>
      set (candidates_of k agents ?ds)" by (auto simp: candidates_of_def)
  have "choose_default parse_eid (candidates_of k agents ?ds) k = Inr p"
    using Inr assms(1,2) by (simp add: place_def place_with_def Let_def split: if_splits)
  from choose_default_Inr(2) [OF this mem assms(5)] show ?thesis by (simp add: Inr)
qed

theorem place_best_witness:
  "case place Some demo_constraints demo_fleet of Inr p \<Rightarrow> 5 / 2 \<le> pl_score p
   | Inl _ \<Rightarrow> \<exists>d' \<in> set (st_daemons demo_fleet). Some (d_endpoint_id d') = None"
proof (rule place_best [where agents = "[]" and d = demo_node])
  show "candidate_fit demo_constraints \<lparr>cd_daemon = demo_node,
      cd_allocated = allocated_of [] (d_endpoint_id demo_node)\<rparr> = Inr (5 / 2)"
    by (simp add: demo_constraints_def demo_node_def allocated_of_def live_on_def candidate_fit_def fits_def
        effective_labels_def unwrap_or_def blank_daemon_def bt_extend_def default_allocated_def
        capacity_def usage_def minimal_manifest_def default_resources_def default_vcpu_def
        default_memory_mib_def default_disk_mib_def default_reserve_def gpu_fit_def frac_free_def
        rat_of_word_def Let_def)
  show "ct_pin demo_constraints = None" "schedulable demo_constraints demo_node"
    "demo_node \<in> set (st_daemons demo_fleet)"
    by (simp_all add: demo_constraints_def demo_fleet_def schedulable_def demo_node_def)
qed (rule demo_place)

text \<open>A pin decides alone: a pinned placement never looks at load or labels, it returns the approved,
  online, not excluded daemon the pin resolves to among those, and fails when the pin matches
  none of them or more than one.\<close>

theorem place_pinned:
  assumes "ct_pin k = Some want"
  shows "place parse_eid k s = Inr p \<longleftrightarrow>
    (\<exists>d. resolve_daemon (filter (schedulable k) (list_daemons s)) want = Inr d \<and>
       parse_eid (d_endpoint_id d) = Some (pl_endpoint_id p) \<and>
       p = \<lparr>pl_endpoint_id = pl_endpoint_id p, pl_daemon_hostname = d_hostname d, pl_score = 0\<rparr>)"
proof (cases "filter (schedulable k) (list_daemons s) = []")
  case True
  then show ?thesis by (simp add: place_def place_with_def resolve_daemon_def Let_def)
next
  case False
  then show ?thesis
    using assms
    by (cases p) (auto simp: place_def place_with_def Let_def split: sum.splits option.splits daemon_lookup_error.splits)
qed

theorem place_pinned_witness:
  "place Some (demo_constraints\<lparr>ct_pin := Some ''d''\<rparr>) demo_fleet =
     Inr \<lparr>pl_endpoint_id = ''d'', pl_daemon_hostname = [], pl_score = 0\<rparr>"
proof -
  let ?k = "demo_constraints\<lparr>ct_pin := Some ''d''\<rparr>"
  have "resolve_daemon (filter (schedulable ?k) (list_daemons demo_fleet)) ''d'' = Inr demo_node"
    by (simp add: schedulable_def demo_constraints_def demo_fleet_def demo_node_def list_daemons_def
        resolve_daemon_def blank_daemon_def)
  moreover have "d_endpoint_id demo_node = ''d''" "d_hostname demo_node = []"
    by (simp_all add: demo_node_def blank_daemon_def)
  moreover have "ct_pin ?k = Some ''d''" by simp
  ultimately show ?thesis by (subst place_pinned) auto
qed

section \<open>Preemption\<close>

definition only_suspends :: "uuid set \<Rightarrow> control_plane \<Rightarrow> control_plane \<Rightarrow> bool" where
  "only_suspends ids cp cp' \<longleftrightarrow> (\<forall>i. lookup_agent i (cp_store cp') = lookup_agent i (cp_store cp) \<or>
     i \<in> ids \<and> lookup_agent i (cp_store cp') =
       map_option (\<lambda>a. a\<lparr>a_state := Suspended\<rparr>) (lookup_agent i (cp_store cp)))"

lemma only_suspends_trans:
  assumes "only_suspends A cp cp1" "only_suspends B cp1 cp2"
  shows "only_suspends (A \<union> B) cp cp2"
  unfolding only_suspends_def
proof
  fix i
  have "map_option (\<lambda>a. a\<lparr>a_state := Suspended\<rparr>) (map_option (\<lambda>a. a\<lparr>a_state := Suspended\<rparr>) x) =
      map_option (\<lambda>a. a\<lparr>a_state := Suspended\<rparr>) x" for x :: "agent_row option"
    by (cases x) simp_all
  then show "lookup_agent i (cp_store cp2) = lookup_agent i (cp_store cp) \<or>
     i \<in> A \<union> B \<and> lookup_agent i (cp_store cp2) =
       map_option (\<lambda>a. a\<lparr>a_state := Suspended\<rparr>) (lookup_agent i (cp_store cp))"
    using assms unfolding only_suspends_def by (metis UnI1 UnI2)
qed

lemma only_suspends_same:
  "(\<And>i. lookup_agent i (cp_store cp') = lookup_agent i (cp_store cp)) \<Longrightarrow> only_suspends A cp cp'"
  by (simp add: only_suspends_def)

text \<open>What a stretch of preemption may do: guarded orders for the given agents only.\<close>

definition preempts :: "agent_row set \<Rightarrow> control_plane \<Rightarrow> control_plane \<Rightarrow> bool" where
  "preempts as cp cp' \<longleftrightarrow> only_suspends (a_id ` as) cp cp' \<and>
     (\<exists>os. cp_orders cp' = cp_orders cp @ os \<and> (\<forall>(d, ord) \<in> set os. \<exists>a \<in> as. ord = suspend_if_idle a))"

lemma preempts_refl: "preempts as cp cp"
  by (simp add: preempts_def only_suspends_same)

lemma preempts_trans:
  assumes "preempts as cp cp1" "preempts bs cp1 cp2"
  shows "preempts (as \<union> bs) cp cp2"
proof -
  obtain os1 os2 where "cp_orders cp1 = cp_orders cp @ os1" "cp_orders cp2 = cp_orders cp1 @ os2"
    "\<forall>(d, ord) \<in> set os1. \<exists>a \<in> as. ord = suspend_if_idle a"
    "\<forall>(d, ord) \<in> set os2. \<exists>a \<in> bs. ord = suspend_if_idle a"
    using assms by (auto simp: preempts_def)
  moreover have "only_suspends (a_id ` (as \<union> bs)) cp cp2"
    using assms only_suspends_trans by (auto simp: preempts_def image_Un)
  ultimately show ?thesis
    unfolding preempts_def by (intro conjI exI [of _ "os1 @ os2"]) auto
qed

lemma preempts_mono: "preempts as cp cp' \<Longrightarrow> as \<subseteq> bs \<Longrightarrow> preempts bs cp cp'"
  unfolding preempts_def only_suspends_def by fast

lemma preempts_order:
  assumes "order net ts d (suspend_if_idle c) cp = (r, cp1)"
  shows "preempts {c} cp cp1"
  using order_effects(1,2) [OF assms]
  by (auto simp: preempts_def intro!: only_suspends_same)

lemma preempt_candidates_preempts:
  "preempts (set cs) cp (snd (preempt_candidates net parse_eid ts k agents d cs freed cp))"
proof (induction cs arbitrary: freed cp)
  case (Cons c cs)
  show ?case
  proof (cases "would_fit d agents k freed \<or> parse_eid (d_endpoint_id d) = None")
    case True
    have "preempts (set (c # cs)) cp (snd (preempt_candidates net parse_eid ts k agents d cs freed cp))"
      by (rule preempts_mono [OF Cons.IH]) auto
    then show ?thesis using True preempts_refl by auto
  next
    case False
    then obtain e where e: "\<not> would_fit d agents k freed" "parse_eid (d_endpoint_id d) = Some e" by auto
    obtain r cp1 where o: "order net ts e (suspend_if_idle c) cp = (r, cp1)" by fastforce
    have p1: "preempts {c} cp cp1" using o by (rule preempts_order)
    let ?cp2 = "audit ''agent_preempt_suspend''
      [(''name'', a_name c), (''id'', a_id c), (''for'', m_name (ct_manifest k))]
      (on_store (update_agent_state (a_id c) Suspended) cp1)"
    have "preempts {c} cp1 ?cp2"
      by (auto simp: preempts_def only_suspends_def reg.agent_laws)
    with p1 have p2: "preempts {c} cp ?cp2" using preempts_trans by fastforce
    have u: "set (c # cs) = {c} \<union> set cs" by simp
    show ?thesis
      using e o preempts_trans [OF p1 Cons.IH] preempts_trans [OF p2 Cons.IH] unfolding u
      by (cases r) simp_all
  qed
qed (simp add: preempts_refl)

lemma preempt_order_set:
  "set (preempt_order parse_ts now cfg agents d) =
     {a \<in> set agents. a_daemon_endpoint_id a = d_endpoint_id d \<and> is_preemptible parse_ts now a cfg}"
  by (auto simp: preempt_order_def)

lemma preempt_daemons_preempts:
  "preempts {a \<in> set agents. is_preemptible parse_ts now a cfg \<and>
      (\<exists>d \<in> set ds. a_daemon_endpoint_id a = d_endpoint_id d \<and> pin_feasible k daemons d \<and> labels_feasible k d)}
     cp (snd (preempt_daemons net parse_eid parse_ts now ts cfg k agents daemons ds cp))"
proof (induction ds arbitrary: cp)
  case (Cons d ds)
  let ?A = "\<lambda>ds. {a \<in> set agents. is_preemptible parse_ts now a cfg \<and>
      (\<exists>d \<in> set ds. a_daemon_endpoint_id a = d_endpoint_id d \<and> pin_feasible k daemons d \<and> labels_feasible k d)}"
  show ?case
  proof (cases "pin_feasible k daemons d \<and> labels_feasible k d")
    case False
    have "preempts (?A (d # ds)) cp (snd (preempt_daemons net parse_eid parse_ts now ts cfg k agents daemons ds cp))"
      by (rule preempts_mono [OF Cons.IH]) auto
    moreover have "preempt_daemons net parse_eid parse_ts now ts cfg k agents daemons (d # ds) cp =
        preempt_daemons net parse_eid parse_ts now ts cfg k agents daemons ds cp"
      using False by auto
    ultimately show ?thesis by (simp only:)
  next
    case True
    let ?cs = "preempt_order parse_ts now cfg agents d"
    obtain b cp1 where c: "preempt_candidates net parse_eid ts k agents d ?cs default_allocated cp = (b, cp1)"
      by fastforce
    have "preempts (set ?cs) cp cp1"
      using preempt_candidates_preempts [of ?cs cp net parse_eid ts k agents d default_allocated] c by simp
    then have "preempts (set ?cs \<union> ?A ds) cp (snd (preempt_daemons net parse_eid parse_ts now ts cfg k agents daemons ds cp1))"
      using Cons.IH by (rule preempts_trans)
    then have "preempts (?A (d # ds)) cp (snd (preempt_daemons net parse_eid parse_ts now ts cfg k agents daemons ds cp1))"
      by (rule preempts_mono) (use True in \<open>auto simp: preempt_order_set\<close>)
    moreover have "snd (preempt_daemons net parse_eid parse_ts now ts cfg k agents daemons (d # ds) cp) =
        snd (preempt_daemons net parse_eid parse_ts now ts cfg k agents daemons ds cp1)"
      using True c by (simp split: prod.split)
    ultimately show ?thesis by (simp only:)
  qed
qed (simp add: preempts_refl)

definition preemption_victims ::
    "(timestamp \<Rightarrow> int option) \<Rightarrow> int \<Rightarrow> auto_suspend_config \<Rightarrow> constraints \<Rightarrow> store \<Rightarrow> agent_row set" where
  "preemption_victims parse_ts now cfg k s = {a. \<exists>agents d. list_agents s = Inr agents \<and> a \<in> set agents \<and>
      is_preemptible parse_ts now a cfg \<and> d \<in> set (st_daemons s) \<and> schedulable k d \<and>
      a_daemon_endpoint_id a = d_endpoint_id d \<and> labels_feasible k d \<and>
      pin_feasible k (filter (schedulable k) (list_daemons s)) d}"

lemma preemption_step:
  assumes "place_or_preempt net parse_eid parse_ts now ts cfg k cp = (r, cp')"
  shows "preempts (preemption_victims parse_ts now cfg k (cp_store cp)) cp cp' \<and>
    (is_ok (place parse_eid k (cp_store cp)) \<longrightarrow> cp' = cp)"
proof (cases "place parse_eid k (cp_store cp)")
  case (Inr p)
  then show ?thesis using assms(1) by (simp add: place_or_preempt_def preempts_refl)
next
  case (Inl e)
  let ?ds = "filter (schedulable k) (list_daemons (cp_store cp))"
  show ?thesis
  proof (cases "list_agents (cp_store cp)")
    case (Inl x)
    then show ?thesis
      using assms(1) \<open>place parse_eid k (cp_store cp) = Inl e\<close>
      by (simp add: place_or_preempt_def preempt_idle_def preempts_refl Let_def)
  next
    case (Inr agents)
    have cp': "cp' = snd (preempt_daemons net parse_eid parse_ts now ts cfg k agents ?ds ?ds cp)"
      using assms(1) Inl Inr
      by (auto simp: place_or_preempt_def preempt_idle_def Let_def split: prod.splits bool.splits)
    have "preempts (preemption_victims parse_ts now cfg k (cp_store cp)) cp cp'"
      unfolding cp' by (rule preempts_mono [OF preempt_daemons_preempts])
        (auto simp: preemption_victims_def Inr list_daemons_def)
    then show ?thesis by (simp add: Inl)
  qed
qed



section \<open>The invariant through orders and preemption\<close>

lemma audit_inv [simp]: "store_inv (cp_store (audit x d cp)) = store_inv (cp_store cp)"
  by (simp add: audit_def)

lemma order_inv: "store_inv (cp_store cp) \<Longrightarrow> store_inv (cp_store (snd (order net ts d ord cp)))"
  by (auto simp: order_def drop_session_def mark_offline_def Let_def on_store_def
      intro: store_ops_inv split: option.split order_reply.split)

lemma preempt_candidates_inv:
  "store_inv (cp_store cp) \<Longrightarrow>
     store_inv (cp_store (snd (preempt_candidates net parse_eid ts k agents d cs freed cp)))"
proof (induction cs arbitrary: freed cp)
  case (Cons c cs)
  show ?case
  proof (cases "would_fit d agents k freed \<or> parse_eid (d_endpoint_id d) = None")
    case True
    then show ?thesis using Cons by auto
  next
    case False
    then obtain e where e: "\<not> would_fit d agents k freed" "parse_eid (d_endpoint_id d) = Some e" by auto
    obtain r cp1 where o: "order net ts e (suspend_if_idle c) cp = (r, cp1)" by fastforce
    have "store_inv (cp_store cp1)"
      using order_inv [OF Cons.prems, of net ts e "suspend_if_idle c"] by (simp add: o)
    then show ?thesis using e o Cons.IH by (cases r) (simp_all add: agent_ops_inv)
  qed
qed simp

lemma preempt_daemons_inv:
  "store_inv (cp_store cp) \<Longrightarrow>
     store_inv (cp_store (snd (preempt_daemons net parse_eid parse_ts now ts cfg k agents daemons ds cp)))"
proof (induction ds arbitrary: cp)
  case (Cons d ds)
  obtain b cp1 where c: "preempt_candidates net parse_eid ts k agents d
      (preempt_order parse_ts now cfg agents d) default_allocated cp = (b, cp1)" by fastforce
  have "store_inv (cp_store cp1)"
    using preempt_candidates_inv [OF Cons.prems, of net parse_eid ts k agents d] c by (metis snd_conv)
  then show ?case using Cons c by (auto split: prod.split simp: prod_eq_iff)
qed simp

lemma place_or_preempt_inv:
  "store_inv (cp_store cp) \<Longrightarrow>
     store_inv (cp_store (snd (place_or_preempt net parse_eid parse_ts now ts cfg k cp)))"
  using preempt_daemons_inv [of cp net parse_eid parse_ts now ts cfg k]
  by (auto simp: place_or_preempt_def preempt_idle_def Let_def split: sum.split bool.split prod.split)
    (metis snd_conv)+

end
