(* ===== verification/Control_Theorems.thy ===== *)
theory Control_Theorems
  imports Control_Plane
begin

text \<open>
  Properties of the control server: epoch fencing of sessions over any interleaving, the
  registration gate, state reports (ownership and convergence), secrets pulls and log batches.
\<close>

section \<open>Sessions as a step relation\<close>

inductive cp_step :: "control_plane \<Rightarrow> control_plane \<Rightarrow> bool" where
  check: "cp_step cp (snd (register_check d msg now cp))"
| install: "cp_step cp (snd (register_install d msg now cp))"
| accept_end: "cp_step cp (accept_loop_end d e now cp)"
| dropped: "cp_step cp (drop_session d e now cp)"
| ordered: "cp_step cp (snd (order net now d ord cp))"
| beat: "cp_step cp (snd (heartbeat net d now cp))"
| stored: "store_step (cp_store cp) s \<Longrightarrow> cp_step cp (cp\<lparr>cp_store := s\<rparr>)"

definition epochs_inv :: "control_plane \<Rightarrow> bool" where
  "epochs_inv cp \<longleftrightarrow> (\<forall>d s. cp_sessions cp d = Some s \<longrightarrow> ds_epoch s < cp_next_epoch cp) \<and>
     (\<forall>d d' s s'. cp_sessions cp d = Some s \<and> cp_sessions cp d' = Some s' \<and> ds_epoch s = ds_epoch s'
        \<longrightarrow> d = d')"

text \<open>Every step either keeps a daemon's session, removes it, or installs one with a fresh epoch.\<close>

definition session_move :: "control_plane \<Rightarrow> control_plane \<Rightarrow> bool" where
  "session_move cp cp' \<longleftrightarrow>
     cp_next_epoch cp \<le> cp_next_epoch cp' \<and>
     (\<forall>d s'. cp_sessions cp' d = Some s' \<longrightarrow>
        cp_sessions cp d = Some s' \<or>
        ds_epoch s' = cp_next_epoch cp \<and> cp_next_epoch cp' = Suc (cp_next_epoch cp) \<and>
        (\<forall>d'. d' \<noteq> d \<longrightarrow> cp_sessions cp' d' = cp_sessions cp d'))"

lemma session_move_same:
  "cp_next_epoch cp' = cp_next_epoch cp \<Longrightarrow> cp_sessions cp' = cp_sessions cp \<Longrightarrow> session_move cp cp'"
  by (simp add: session_move_def)

lemma session_move_drop:
  "cp_next_epoch cp' = cp_next_epoch cp \<Longrightarrow> cp_sessions cp' = (cp_sessions cp)(d := None) \<Longrightarrow>
     session_move cp cp'"
  by (auto simp: session_move_def)

lemma drop_session_moves:
  "cp_next_epoch (drop_session d e now cp) = cp_next_epoch cp"
  "cp_sessions (drop_session d e now cp) = cp_sessions cp \<or>
   cp_sessions (drop_session d e now cp) = (cp_sessions cp)(d := None)"
  by (auto simp: drop_session_def Let_def)

lemma order_moves:
  "cp_next_epoch (snd (order net now d ord cp)) = cp_next_epoch cp"
  "cp_sessions (snd (order net now d ord cp)) = cp_sessions cp \<or>
   cp_sessions (snd (order net now d ord cp)) = (cp_sessions cp)(d := None)"
  by (auto simp: order_def session_def Let_def drop_session_def split: option.splits order_reply.splits)

lemma heartbeat_moves:
  "cp_next_epoch (snd (heartbeat net d now cp)) = cp_next_epoch cp"
  "cp_sessions (snd (heartbeat net d now cp)) = cp_sessions cp \<or>
   cp_sessions (snd (heartbeat net d now cp)) = (cp_sessions cp)(d := None)"
  using order_moves [of net now d "Ping 0" cp]
  by (auto simp: heartbeat_def split: prod.splits sum.splits)

lemma cp_step_moves: "cp_step cp cp' \<Longrightarrow> session_move cp cp'"
proof (induction rule: cp_step.induct)
  case (check cp d msg now)
  then show ?case by (rule session_move_same) (simp_all add: register_check_def)
next
  case (install cp d msg now)
  then show ?case by (auto simp: register_install_def Let_def session_move_def)
next
  case (accept_end cp d e now)
  then show ?case
    by (auto simp: accept_loop_end_def accept_end_remove_def session_move_def split: if_splits)
next
  case (dropped cp d e now)
  then show ?case
    using drop_session_moves session_move_same session_move_drop by metis
next
  case (ordered cp net now d ord)
  then show ?case using order_moves session_move_same session_move_drop by metis
next
  case (beat cp net d now)
  then show ?case using heartbeat_moves session_move_same session_move_drop by metis
qed (simp add: session_move_same)

lemma session_move_inv:
  assumes "session_move cp cp'" "epochs_inv cp"
  shows "epochs_inv cp'"
proof -
  have lt: "ds_epoch s < cp_next_epoch cp'" if "cp_sessions cp' d = Some s" for d s
    using assms that unfolding session_move_def epochs_inv_def by (metis less_Suc_eq order_less_le_trans)
  moreover have "d = d'" if h: "cp_sessions cp' d = Some s" "cp_sessions cp' d' = Some s'"
    "ds_epoch s = ds_epoch s'" for d d' s s'
  proof (rule ccontr)
    assume ne: "d \<noteq> d'"
    consider "cp_sessions cp d = Some s" "cp_sessions cp d' = Some s'"
      | "ds_epoch s = cp_next_epoch cp" "cp_sessions cp' d' = cp_sessions cp d'"
      | "ds_epoch s' = cp_next_epoch cp" "cp_sessions cp' d = cp_sessions cp d"
      using assms(1) h ne unfolding session_move_def by metis
    then show False
      using assms(2) h ne unfolding epochs_inv_def by cases (metis, (metis less_irrefl)+)
  qed
  ultimately show ?thesis by (auto simp: epochs_inv_def)
qed

inductive cp_reach :: "control_plane \<Rightarrow> control_plane \<Rightarrow> bool" for cp where
  refl: "cp_reach cp cp"
| step: "cp_reach cp cp1 \<Longrightarrow> cp_step cp1 cp2 \<Longrightarrow> cp_reach cp cp2"

lemma cp_reach_inv: "cp_reach cp cp' \<Longrightarrow> epochs_inv cp \<Longrightarrow> epochs_inv cp'"
  by (induction rule: cp_reach.induct) (auto dest: cp_step_moves session_move_inv)

lemma initial_epochs: "epochs_inv (initial_cp s allow)"
  by (simp add: epochs_inv_def initial_cp_def)

lemma cp_reach_next: "cp_reach cp cp' \<Longrightarrow> cp_next_epoch cp \<le> cp_next_epoch cp'"
  by (induction rule: cp_reach.induct) (auto dest!: cp_step_moves simp: session_move_def)

lemma cp_reach_fresh:
  "cp_reach cp cp' \<Longrightarrow> cp_sessions cp' d = Some s \<Longrightarrow>
     cp_sessions cp d = Some s \<or> cp_next_epoch cp \<le> ds_epoch s"
proof (induction rule: cp_reach.induct)
  case (step cp1 cp2)
  then have "session_move cp1 cp2" "cp_next_epoch cp \<le> cp_next_epoch cp1"
    using cp_step_moves cp_reach_next by blast+
  then show ?case using step unfolding session_move_def by metis
qed simp


definition demo_info :: daemon_info where
  "demo_info = \<lparr>i_endpoint_id = [], i_hostname = ''h'', i_os = [], i_arch = [], i_labels = [],
     i_max_agents = 4, i_agents = [], i_capacity = default_node_capacity,
     i_usage = default_node_usage\<rparr>"

definition demo_register :: register_msg where
  "demo_register = \<lparr>rg_info = demo_info, rg_protocol_version = 1\<rparr>"


text \<open>The registration gate: a session is installed only for a daemon that speaks this protocol
  version and is approved at the moment of installation, under its authenticated id and with a
  fresh epoch; every other outcome leaves the sessions as the other tasks left them, and an
  unapproved daemon is only recorded as pending.\<close>

theorem register_gate:
  "let cp1 = during (on_store (upsert_daemon (register_info remote msg) True now) cp)
   in case register remote msg now during cp of
     (Registered e, cp') \<Rightarrow>
        rg_protocol_version msg = protocol_version \<and> daemon_approved remote (cp_store cp) \<and>
        daemon_approved remote (cp_store cp1) \<and> e = cp_next_epoch cp1 \<and>
        cp' = cp1\<lparr>cp_next_epoch := Suc e,
          cp_sessions := (cp_sessions cp1)(remote \<mapsto> \<lparr>ds_info = register_info remote msg, ds_epoch = e\<rparr>)\<rparr>
   | (RevokedDuringRegistration, cp') \<Rightarrow>
        cp' = on_store (set_daemon_online remote False now) cp1 \<and>
        \<not> daemon_approved remote (cp_store cp1)
   | (NotApproved, cp') \<Rightarrow> \<not> daemon_approved remote (cp_store cp) \<and> cp_sessions cp' = cp_sessions cp \<and>
        st_daemons (cp_store cp') = st_daemons (cp_store cp) \<and>
        (\<exists>p \<in> set (st_pending_daemons (cp_store cp')). p_endpoint_id p = remote)
   | (VersionMismatch v, cp') \<Rightarrow> v \<noteq> protocol_version \<and> cp' = cp"
proof -
  have pend: "\<exists>p \<in> set (st_pending_daemons (upsert_pending_daemon (register_info remote msg) now s)).
      p_endpoint_id p = remote" for s
  proof -
    have "find (\<lambda>p. p_endpoint_id p = remote)
        (st_pending_daemons (upsert_pending_daemon (register_info remote msg) now s)) \<noteq> None"
      by (simp add: upsert_pending_daemon_def Let_def emit_def register_info_def
          find_upsert_row [where g = p_endpoint_id])
    then show ?thesis by (auto simp: find_None_iff)
  qed
  have keep: "st_daemons (upsert_pending_daemon i now s) = st_daemons s" for i s
    by (simp add: upsert_pending_daemon_def Let_def emit_def)
  show ?thesis
    using pend keep
    by (auto simp: register_def register_check_def register_install_def Let_def split: option.splits)
qed

text \<open>
  Dropping a superseded session removes nothing, yet marks the daemon offline although its newer
  session is live; the next successful heartbeat corrects it.
\<close>

lemma drop_stale_marks_offline:
  assumes "cp_sessions cp d = Some s" "ds_epoch s \<noteq> e"
  shows "cp_sessions (drop_session d e now cp) d = Some s \<and>
    cp_store (drop_session d e now cp) = set_daemon_online d False now (cp_store cp)"
  using assms by (simp add: drop_session_def mark_offline_def Let_def)

text \<open>The accept loop checks and removes under two acquisitions of the lock: a session installed
  in between is removed.\<close>

lemma accept_end_race:
  assumes "accept_end_check d e cp" "daemon_approved d (cp_store cp)"
  shows "cp_sessions (accept_end_remove d now (snd (register_install d msg now cp))) d = None"
  by (simp add: accept_end_remove_def)

section \<open>Agents by name and by id\<close>

lemma find_unique_keys:
  assumes "distinct (map f t)" "distinct (map g t)"
  shows "find (\<lambda>r. g r = n) t = Some r \<longleftrightarrow> find (\<lambda>x. f x = f r) t = Some r \<and> g r = n"
  using find_distinct_key [OF assms(1), of r] find_distinct_key [OF assms(2), of r]
  by (auto dest: find_SomeD)

lemma lookup_agent_Some:
  "lookup_agent i s = Some a \<longleftrightarrow>
     (\<exists>r. find (\<lambda>r. t_id r = i) (st_agents s) = Some r \<and> row_to_agent r = Inr a)"
proof (cases "find (\<lambda>r. t_id r = i) (st_agents s)")
  case (Some r)
  then show ?thesis by (cases "row_to_agent r") (simp_all add: lookup_agent_find)
qed (simp add: lookup_agent_find)

lemma get_agent_total: "store_inv s \<Longrightarrow> \<exists>a. get_agent i s = Inr a"
  by (auto simp: get_agent_def store_inv_def inv_defs row_to_agent_def split: option.splits dest!: find_SomeD)

lemma get_agent_by_name_lookup:
  assumes "store_inv s"
  shows "(\<exists>a. get_agent_by_name n s = Inr (Some a) \<and> lookup_agent (a_id a) s = Some a \<and> a_name a = n) \<or>
    get_agent_by_name n s = Inr None \<and> (\<forall>i a. lookup_agent i s = Some a \<longrightarrow> a_name a \<noteq> n)"
proof (cases "find (\<lambda>r. t_name r = n) (st_agents s)")
  case None
  have "a_name a \<noteq> n" if l: "lookup_agent i s = Some a" for i a
  proof -
    obtain r where "find (\<lambda>r. t_id r = i) (st_agents s) = Some r" "row_to_agent r = Inr a"
      using l by (auto simp: lookup_agent_Some)
    then show ?thesis using None by (auto simp: find_None_iff dest!: find_SomeD)
  qed
  with None show ?thesis by (simp add: get_agent_by_name_def)
next
  case (Some r)
  then have mem: "r \<in> set (st_agents s)" "t_name r = n" by (auto dest: find_SomeD)
  have inv: "distinct (map t_id (st_agents s))" "t_manifest r \<noteq> None"
    using assms mem by (auto simp: store_inv_def inv_defs)
  then obtain a where a: "row_to_agent r = Inr a" by fastforce
  have "find (\<lambda>x. t_id x = t_id r) (st_agents s) = Some r"
    using find_distinct_key [OF inv(1) mem(1)] .
  then have "lookup_agent (a_id a) s = Some a" using a by (simp add: lookup_agent_find)
  with Some a mem show ?thesis by (simp add: get_agent_by_name_def)
qed

lemma lookup_agent_id: "lookup_agent i s = Some a \<Longrightarrow> a_id a = i"
  by (auto simp: lookup_agent_Some dest!: find_SomeD)

lemma lookup_same_name:
  assumes "store_inv s" "lookup_agent i s = Some a" "lookup_agent j s = Some b" "a_name a = a_name b"
  shows "i = j"
proof -
  obtain r q where r: "find (\<lambda>r. t_id r = i) (st_agents s) = Some r" "row_to_agent r = Inr a"
    and q: "find (\<lambda>r. t_id r = j) (st_agents s) = Some q" "row_to_agent q = Inr b"
    using assms(2,3) by (auto simp: lookup_agent_Some)
  then have "t_name r = t_name q" "r \<in> set (st_agents s)" "q \<in> set (st_agents s)"
    using assms(4) by (auto dest: find_SomeD)
  then have "r = q" using assms(1) by (auto simp: store_inv_def inv_defs distinct_map dest: inj_onD)
  then show ?thesis using r(1) q(1) by (auto dest!: find_SomeD)
qed

lemma lookup_session_file:
  "lookup_agent j (set_agent_session_file i f s) = (if j = i
     then map_option (\<lambda>a. a\<lparr>a_session_file := Some f\<rparr>) (lookup_agent i s) else lookup_agent j s)"
proof -
  have "row_to_agent (r\<lparr>t_session_file := Some f\<rparr>) =
      map_sum (\<lambda>x. x) (\<lambda>a. a\<lparr>a_session_file := Some f\<rparr>) (row_to_agent r)" for r
    by (simp add: row_to_agent_def split: option.split)
  then show ?thesis
    unfolding set_agent_session_file_def by (intro lookup_update_agent_map) simp_all
qed

lemma lookup_sessions [simp]:
  "lookup_agent j (start_agent_session i f now s) = lookup_agent j s"
  "lookup_agent j (ensure_open_session i f now s) = lookup_agent j s"
  by (rule lookup_agent_tables; simp add: start_agent_session_def ensure_open_session_def
      insert_session_def Let_def)+

section \<open>State reports\<close>

lemma reconcile_lookup:
  "lookup_agent j (reconcile_session a f now s) = (if j = a_id a
     then map_option (\<lambda>b. b\<lparr>a_session_file := (case f of None \<Rightarrow> a_session_file b
       | Some x \<Rightarrow> if x = [] \<or> a_session_file a = Some x then a_session_file b else Some x)\<rparr>) (lookup_agent j s)
     else lookup_agent j s)"
  by (auto simp: reconcile_session_def lookup_session_file option.map_ident_strong split: option.splits)

lemma reconcile_inv: "store_inv s \<Longrightarrow> store_inv (reconcile_session a f now s)"
  by (auto simp: reconcile_session_def intro: store_ops_inv split: option.splits)

text \<open>What one entry does to the registry, as a function of the row with its id.\<close>

definition entry_applies :: "string \<Rightarrow> agent_state_entry \<Rightarrow> agent_row \<Rightarrow> bool" where
  "entry_applies d e a \<longleftrightarrow> a_name a = as_name e \<and> a_daemon_endpoint_id a = d"

lemma apply_entry_effect:
  assumes "store_inv s"
  shows "\<exists>s'. apply_entry d now e s = (Inr (), s') \<and> store_inv s' \<and>
    (\<forall>j. j \<noteq> as_agent_id e \<longrightarrow> lookup_agent j s' = lookup_agent j s) \<and>
    (case lookup_agent (as_agent_id e) s of
       None \<Rightarrow> lookup_agent (as_agent_id e) s' = None
     | Some a \<Rightarrow>
         if \<not> entry_applies d e a then lookup_agent (as_agent_id e) s' = Some a
         else if as_state e = Decommissioned then lookup_agent (as_agent_id e) s' = None
         else \<exists>a'. lookup_agent (as_agent_id e) s' = Some a' \<and> a_state a' = as_state e \<and>
                a_name a' = a_name a \<and> a_daemon_endpoint_id a' = a_daemon_endpoint_id a)"
proof (cases "\<exists>a. lookup_agent (as_agent_id e) s = Some a \<and> entry_applies d e a")
  case False
  have "apply_entry d now e s = (Inr (), s)"
  proof -
    consider a where "get_agent_by_name (as_name e) s = Inr (Some a)" "lookup_agent (a_id a) s = Some a"
        "a_name a = as_name e"
      | "get_agent_by_name (as_name e) s = Inr None"
      using get_agent_by_name_lookup [OF assms] by blast
    then show ?thesis
    proof cases
      case 1
      then have "a_daemon_endpoint_id a \<noteq> d \<or> a_id a \<noteq> as_agent_id e"
        using False by (auto simp: entry_applies_def)
      then show ?thesis using 1 by (simp add: apply_entry_def)
    qed (simp add: apply_entry_def)
  qed
  then show ?thesis using assms False by (auto split: option.splits)
next
  case True
  then obtain a where a: "lookup_agent (as_agent_id e) s = Some a" "entry_applies d e a" by blast
  then have a_id: "a_id a = as_agent_id e" by (simp add: lookup_agent_id)
  have by_name: "get_agent_by_name (as_name e) s = Inr (Some a)"
    using get_agent_by_name_lookup [OF assms, of "as_name e"] a lookup_same_name [OF assms a(1)]
    by (auto simp: entry_applies_def)
  let ?s1 = "if as_idle_secs e \<noteq> None \<or> as_busy e \<noteq> None
    then set_agent_activity (a_id a) (as_idle_secs e) (as_busy e) now s else s"
  let ?s2 = "reconcile_session a (as_session_file e) now ?s1"
  let ?s3 = "if as_state e = Decommissioned then delete_agent (a_id a) ?s2
    else if a_state a \<noteq> as_state e then update_agent_state (a_id a) (as_state e) ?s2 else ?s2"
  have ap: "apply_entry d now e s = (Inr (), ?s3)"
    using a a_id by_name by (simp add: apply_entry_def entry_applies_def Let_def)
  have "store_inv ?s1" using assms by (simp add: store_ops_inv)
  then have "store_inv ?s2" by (rule reconcile_inv)
  then have "store_inv ?s3" by (simp add: store_ops_inv)
  moreover have "lookup_agent j ?s3 = lookup_agent j s" if "j \<noteq> as_agent_id e" for j
    using that a_id by (simp add: reg.agent_laws reconcile_lookup)
  moreover have "as_state e = Decommissioned \<Longrightarrow> lookup_agent (as_agent_id e) ?s3 = None"
    using a_id by (simp add: reg.agent_laws)
  moreover have "as_state e \<noteq> Decommissioned \<Longrightarrow>
      \<exists>a'. lookup_agent (as_agent_id e) ?s3 = Some a' \<and> a_state a' = as_state e \<and>
        a_name a' = a_name a \<and> a_daemon_endpoint_id a' = a_daemon_endpoint_id a"
    using a a_id by (auto simp: reg.agent_laws reconcile_lookup)
  ultimately show ?thesis using ap a by (intro exI [of _ ?s3]) simp
qed

lemma apply_entries_effect:
  assumes "store_inv s" "distinct (map as_agent_id es)"
  shows "\<exists>s'. apply_entries d now es s = (Inr (), s') \<and> store_inv s' \<and>
    (\<forall>j. j \<notin> as_agent_id ` set es \<longrightarrow> lookup_agent j s' = lookup_agent j s) \<and>
    (\<forall>e \<in> set es. case lookup_agent (as_agent_id e) s of
       None \<Rightarrow> lookup_agent (as_agent_id e) s' = None
     | Some a \<Rightarrow>
         if \<not> entry_applies d e a then lookup_agent (as_agent_id e) s' = Some a
         else if as_state e = Decommissioned then lookup_agent (as_agent_id e) s' = None
         else \<exists>a'. lookup_agent (as_agent_id e) s' = Some a' \<and> a_state a' = as_state e \<and>
                a_name a' = a_name a \<and> a_daemon_endpoint_id a' = a_daemon_endpoint_id a)"
  using assms
proof (induction es arbitrary: s)
  case (Cons e es)
  obtain s1 where s1: "apply_entry d now e s = (Inr (), s1)" "store_inv s1"
    "\<And>j. j \<noteq> as_agent_id e \<Longrightarrow> lookup_agent j s1 = lookup_agent j s"
    and e: "case lookup_agent (as_agent_id e) s of
       None \<Rightarrow> lookup_agent (as_agent_id e) s1 = None
     | Some a \<Rightarrow>
         if \<not> entry_applies d e a then lookup_agent (as_agent_id e) s1 = Some a
         else if as_state e = Decommissioned then lookup_agent (as_agent_id e) s1 = None
         else \<exists>a'. lookup_agent (as_agent_id e) s1 = Some a' \<and> a_state a' = as_state e \<and>
                a_name a' = a_name a \<and> a_daemon_endpoint_id a' = a_daemon_endpoint_id a"
    using apply_entry_effect [OF Cons.prems(1), of d now e] by blast
  obtain s2 where s2: "apply_entries d now es s1 = (Inr (), s2)" "store_inv s2"
    "\<And>j. j \<notin> as_agent_id ` set es \<Longrightarrow> lookup_agent j s2 = lookup_agent j s1"
    and es: "\<forall>e \<in> set es. case lookup_agent (as_agent_id e) s1 of
       None \<Rightarrow> lookup_agent (as_agent_id e) s2 = None
     | Some a \<Rightarrow>
         if \<not> entry_applies d e a then lookup_agent (as_agent_id e) s2 = Some a
         else if as_state e = Decommissioned then lookup_agent (as_agent_id e) s2 = None
         else \<exists>a'. lookup_agent (as_agent_id e) s2 = Some a' \<and> a_state a' = as_state e \<and>
                a_name a' = a_name a \<and> a_daemon_endpoint_id a' = a_daemon_endpoint_id a"
    using Cons.IH [OF s1(2)] Cons.prems(2) by auto
  have ne: "as_agent_id e' \<noteq> as_agent_id e" if "e' \<in> set es" for e'
    using Cons.prems(2) that by (metis distinct.simps(2) image_eqI list.simps(9) list.set_map)
  have same: "lookup_agent (as_agent_id e) s2 = lookup_agent (as_agent_id e) s1"
    using ne by (intro s2(3)) (metis imageE)
  have "\<forall>e' \<in> set es. lookup_agent (as_agent_id e') s1 = lookup_agent (as_agent_id e') s"
    using ne s1(3) by simp
  then have es': "\<forall>e \<in> set es. case lookup_agent (as_agent_id e) s of
       None \<Rightarrow> lookup_agent (as_agent_id e) s2 = None
     | Some a \<Rightarrow>
         if \<not> entry_applies d e a then lookup_agent (as_agent_id e) s2 = Some a
         else if as_state e = Decommissioned then lookup_agent (as_agent_id e) s2 = None
         else \<exists>a'. lookup_agent (as_agent_id e) s2 = Some a' \<and> a_state a' = as_state e \<and>
                a_name a' = a_name a \<and> a_daemon_endpoint_id a' = a_daemon_endpoint_id a"
    using es by simp
  show ?case
    using s1 s2 e [folded same] es' by (intro exI [of _ s2]) simp
qed simp

lemma fail_missing_effect:
  assumes "store_inv s" "distinct (map a_id agents)"
  shows "store_inv (fail_missing d ids agents s) \<and>
    lookup_agent j (fail_missing d ids agents s) =
      (if \<exists>a \<in> set agents. a_id a = j \<and> a_daemon_endpoint_id a = d \<and> j \<notin> set ids \<and>
          a_state a \<noteq> Decommissioned \<and> a_state a \<noteq> Failed
       then map_option (\<lambda>a. a\<lparr>a_state := Failed\<rparr>) (lookup_agent j s) else lookup_agent j s)"
  using assms
proof (induction agents arbitrary: s)
  case (Cons x xs)
  let ?c = "a_daemon_endpoint_id x = d \<and> a_id x \<notin> set ids \<and> a_state x \<noteq> Decommissioned \<and>
    a_state x \<noteq> Failed"
  let ?s = "if ?c then update_agent_state (a_id x) Failed s else s"
  have step: "fail_missing d ids (x # xs) s = fail_missing d ids xs ?s"
    by (simp add: fail_missing_def)
  have "store_inv ?s" using Cons.prems(1) by (simp add: store_ops_inv)
  then have ih: "store_inv (fail_missing d ids xs ?s) \<and>
    lookup_agent j (fail_missing d ids xs ?s) =
      (if \<exists>a \<in> set xs. a_id a = j \<and> a_daemon_endpoint_id a = d \<and> j \<notin> set ids \<and>
          a_state a \<noteq> Decommissioned \<and> a_state a \<noteq> Failed
       then map_option (\<lambda>a. a\<lparr>a_state := Failed\<rparr>) (lookup_agent j ?s) else lookup_agent j ?s)"
    using Cons.prems(2) by (intro Cons.IH) auto
  have "lookup_agent j ?s = (if ?c \<and> a_id x = j
      then map_option (\<lambda>a. a\<lparr>a_state := Failed\<rparr>) (lookup_agent j s) else lookup_agent j s)"
    by (auto simp: reg.agent_laws)
  moreover have "a_id x \<notin> a_id ` set xs" using Cons.prems(2) by simp
  then have "a_id x = j \<Longrightarrow> \<not> (\<exists>a \<in> set xs. a_id a = j)" by (metis image_eqI)
  ultimately show ?case using ih unfolding step by auto
qed (simp add: fail_missing_def)

lemma list_agents_rows:
  assumes "store_inv s"
  shows "\<exists>agents. list_agents s = Inr agents \<and> distinct (map a_id agents) \<and>
    (\<forall>a. a \<in> set agents \<longleftrightarrow> lookup_agent (a_id a) s = Some a)"
proof -
  let ?rows = "sort_key t_name (st_agents s)"
  have d: "distinct (map t_id (st_agents s))" using assms by (simp add: store_inv_def inv_defs)
  have "\<exists>a. row_to_agent r = Inr a" if "r \<in> set (st_agents s)" for r
    using assms that by (auto simp: store_inv_def inv_defs)
  then obtain g where g: "\<And>r. r \<in> set (st_agents s) \<Longrightarrow> row_to_agent r = Inr (g r)" by metis
  then have g_id: "r \<in> set (st_agents s) \<Longrightarrow> a_id (g r) = t_id r" for r by fastforce
  have l: "list_agents s = Inr (map g ?rows)"
    unfolding list_agents_def by (rule map_ok_Inr) (simp add: g)
  have "mset (map t_id ?rows) = mset (map t_id (st_agents s))" by simp
  then have "distinct (map t_id ?rows)" using d by (metis mset_eq_imp_distinct_iff)
  moreover have "map a_id (map g ?rows) = map t_id ?rows" by (simp add: g_id)
  ultimately have "distinct (map a_id (map g ?rows))" by (simp only:)
  moreover have "a \<in> set (map g ?rows) \<longleftrightarrow> lookup_agent (a_id a) s = Some a" for a
  proof
    assume "a \<in> set (map g ?rows)"
    then obtain r where r: "r \<in> set (st_agents s)" "a = g r" by auto
    then have "find (\<lambda>x. t_id x = t_id r) (st_agents s) = Some r" using d by (intro find_distinct_key)
    then show "lookup_agent (a_id a) s = Some a" using g [OF r(1)]
      unfolding lookup_agent_Some r(2) g_id [OF r(1)] by blast
  next
    assume "lookup_agent (a_id a) s = Some a"
    then obtain r where "r \<in> set (st_agents s)" "row_to_agent r = Inr a"
      by (auto simp: lookup_agent_Some dest: find_SomeD)
    then show "a \<in> set (map g ?rows)" using g by force
  qed
  ultimately show ?thesis using l by blast
qed

lemma report_effect:
  assumes "store_inv s" "distinct (map as_agent_id (sr_agents report))"
  shows "\<exists>s'. handle_state_report d now report s = (Inr (), s') \<and> store_inv s' \<and>
    (\<forall>i. lookup_agent i s = None \<longrightarrow> lookup_agent i s' = None) \<and>
    (\<forall>i a. lookup_agent i s = Some a \<longrightarrow>
       (a_daemon_endpoint_id a \<noteq> d \<longrightarrow> lookup_agent i s' = Some a) \<and>
       (a_daemon_endpoint_id a = d \<longrightarrow>
          (\<forall>e \<in> set (sr_agents report). as_agent_id e = i \<longrightarrow>
             (if as_name e \<noteq> a_name a then lookup_agent i s' = Some a
              else if as_state e = Decommissioned then lookup_agent i s' = None
              else \<exists>a'. lookup_agent i s' = Some a' \<and> a_state a' = as_state e \<and>
                a_name a' = a_name a \<and> a_daemon_endpoint_id a' = a_daemon_endpoint_id a)) \<and>
          (i \<notin> as_agent_id ` set (sr_agents report) \<longrightarrow> lookup_agent i s' = Some
             (if sr_full report \<and> a_state a \<noteq> Decommissioned \<and> a_state a \<noteq> Failed
              then a\<lparr>a_state := Failed\<rparr> else a))))"
proof -
  let ?es = "sr_agents report" and ?ids = "map as_agent_id (sr_agents report)"
  note inv = assms(1)
  obtain agents where ag: "list_agents s = Inr agents" "distinct (map a_id agents)"
    "\<And>a. a \<in> set agents \<longleftrightarrow> lookup_agent (a_id a) s = Some a"
    using list_agents_rows [OF inv] by blast
  define s1 where "s1 = (if sr_full report then fail_missing d ?ids agents s else s)"
  have inv1: "store_inv s1"
    using fail_missing_effect [OF inv ag(2)] inv by (simp add: s1_def)
  have l1: "lookup_agent i s1 = Some
      (if sr_full report \<and> a_daemon_endpoint_id a = d \<and> i \<notin> set ?ids \<and>
          a_state a \<noteq> Decommissioned \<and> a_state a \<noteq> Failed then a\<lparr>a_state := Failed\<rparr> else a)"
    if a: "lookup_agent i s = Some a" for i a
  proof -
    have "(\<exists>b \<in> set agents. a_id b = i \<and> P b) \<longleftrightarrow> P a" for P
      using a ag(3) lookup_agent_id [OF a] by auto
    then show ?thesis
      using a fail_missing_effect [OF inv ag(2), of d ?ids i] by (auto simp: s1_def)
  qed
  obtain s' where s': "apply_entries d now ?es s1 = (Inr (), s')"
    "\<forall>j. j \<notin> as_agent_id ` set ?es \<longrightarrow> lookup_agent j s' = lookup_agent j s1"
    "\<forall>e \<in> set ?es. case lookup_agent (as_agent_id e) s1 of
       None \<Rightarrow> lookup_agent (as_agent_id e) s' = None
     | Some a \<Rightarrow>
         if \<not> entry_applies d e a then lookup_agent (as_agent_id e) s' = Some a
         else if as_state e = Decommissioned then lookup_agent (as_agent_id e) s' = None
         else \<exists>a'. lookup_agent (as_agent_id e) s' = Some a' \<and> a_state a' = as_state e \<and>
                a_name a' = a_name a \<and> a_daemon_endpoint_id a' = a_daemon_endpoint_id a"
    and inv': "store_inv s'"
    using apply_entries_effect [OF inv1 assms(2)] by blast
  have h: "handle_state_report d now report s = (Inr (), s')"
    using s'(1) ag(1) by (simp add: handle_state_report_def s1_def split: if_splits)
  have foreign: "lookup_agent i s' = Some a"
    if "lookup_agent i s = Some a" "a_daemon_endpoint_id a \<noteq> d" for i a
  proof (cases "i \<in> as_agent_id ` set ?es")
    case True
    then obtain e where "e \<in> set ?es" "as_agent_id e = i" by auto
    then show ?thesis using s'(3) l1 [OF that(1)] that(2) by (fastforce simp: entry_applies_def)
  qed (use s'(2) l1 [OF that(1)] that(2) in simp)
  have named: "if as_name e \<noteq> a_name a then lookup_agent i s' = Some a
      else if as_state e = Decommissioned then lookup_agent i s' = None
      else \<exists>a'. lookup_agent i s' = Some a' \<and> a_state a' = as_state e \<and>
        a_name a' = a_name a \<and> a_daemon_endpoint_id a' = a_daemon_endpoint_id a"
    if a: "lookup_agent i s = Some a" "a_daemon_endpoint_id a = d"
      and e: "e \<in> set ?es" "as_agent_id e = i" for i a e
  proof -
    have "i \<in> set ?ids" using e by auto
    then have "lookup_agent i s1 = Some a" using l1 [OF a(1)] by simp
    then show ?thesis using s'(3) a e by (fastforce simp: entry_applies_def)
  qed
  have l1': "lookup_agent i s1 = None" if "lookup_agent i s = None" for i
    using that fail_missing_effect [OF inv ag(2), of d ?ids i] by (auto simp: s1_def split: if_splits)
  have absent: "lookup_agent i s' = None" if "lookup_agent i s = None" for i
  proof (cases "i \<in> as_agent_id ` set ?es")
    case True
    then obtain e where "e \<in> set ?es" "as_agent_id e = i" by auto
    then show ?thesis using s'(3) l1' [OF that] by fastforce
  qed (use s'(2) l1' [OF that] in simp)
  have missing: "lookup_agent i s' = Some
      (if sr_full report \<and> a_state a \<noteq> Decommissioned \<and> a_state a \<noteq> Failed
       then a\<lparr>a_state := Failed\<rparr> else a)"
    if "lookup_agent i s = Some a" "a_daemon_endpoint_id a = d" "i \<notin> as_agent_id ` set ?es" for i a
    using s'(2) l1 [OF that(1)] that by simp
  show ?thesis using h inv' absent foreign named missing by (intro exI [of _ s']) blast
qed

text \<open>
  State reports converge and cannot be spoofed: in a reachable database a report with distinct
  agent ids always succeeds; agents of other daemons are exactly as before; every agent of the
  reporting daemon named in the report ends in the reported state (or is removed when
  decommissioned), and one missing from a full report ends failed unless it already was failed
  or decommissioned.\<close>

theorem state_report_converges:
  assumes "reachable_store s" "distinct (map as_agent_id (sr_agents report))"
  shows "\<exists>s'. handle_state_report d now report s = (Inr (), s') \<and>
    (\<forall>i a. lookup_agent i s = Some a \<longrightarrow>
       (a_daemon_endpoint_id a \<noteq> d \<longrightarrow> lookup_agent i s' = Some a) \<and>
       (a_daemon_endpoint_id a = d \<longrightarrow>
          (\<forall>e \<in> set (sr_agents report). as_agent_id e = i \<and> as_name e = a_name a \<longrightarrow>
             (if as_state e = Decommissioned then lookup_agent i s' = None
              else \<exists>a'. lookup_agent i s' = Some a' \<and> a_state a' = as_state e)) \<and>
          (i \<notin> as_agent_id ` set (sr_agents report) \<longrightarrow> lookup_agent i s' = Some
             (if sr_full report \<and> a_state a \<noteq> Decommissioned \<and> a_state a \<noteq> Failed
              then a\<lparr>a_state := Failed\<rparr> else a))))"
  using report_effect [OF reachable_store_inv [OF assms(1)] assms(2), of d now] by fastforce

definition demo_row :: "uuid \<Rightarrow> string \<Rightarrow> string \<Rightarrow> agent_state \<Rightarrow> agent_row" where
  "demo_row i name d st =
     \<lparr>a_id = i, a_name = name, a_daemon_endpoint_id = d,
      a_manifest = minimal_manifest name ''openai'' ''m'', a_state = st, a_created_at = ''t'',
      a_session_file = None, a_idle_secs = None, a_busy = None, a_activity_reported_at = None,
      a_needs_attention = False, a_auto_suspend_override = None, a_woke_at = None\<rparr>"

definition demo_store :: store where
  "demo_store = (case create_agent (demo_row ''i'' ''n'' ''d'' Active) empty_store of
     Inr s \<Rightarrow> s | Inl _ \<Rightarrow> empty_store)"

lemma demo_created: "create_agent (demo_row ''i'' ''n'' ''d'' Active) empty_store = Inr demo_store"
  by (simp add: demo_store_def create_agent_def empty_store_def)

lemma demo_reachable: "reachable_store demo_store"
  by (rule reachable_store.step [OF reachable_store.init store_step.create [OF demo_created]])

lemma demo_lookup: "lookup_agent ''i'' demo_store = Some (demo_row ''i'' ''n'' ''d'' Active)"
  by (simp add: demo_store_def create_agent_def empty_store_def lookup_agent_find emit_def
      row_to_agent_def demo_row_def)

theorem state_report_converges_witness:
  "\<exists>s'. handle_state_report ''d'' ''t'' \<lparr>sr_agents = [], sr_full = True\<rparr> demo_store = (Inr (), s') \<and>
     lookup_agent ''i'' s' = Some (demo_row ''i'' ''n'' ''d'' Failed)"
  using state_report_converges [OF demo_reachable, of "\<lparr>sr_agents = [], sr_full = True\<rparr>" "''d''" "''t''"]
    demo_lookup
  by (fastforce simp: demo_row_def)

section \<open>Secrets pulls\<close>



section \<open>Log batches\<close>

lemma store_events_spec:
  "store_events i es acked jl s = (acked', jl', s') \<Longrightarrow>
     acked \<le> acked' \<and>
     (\<exists>new. jl' = jl @ new \<and> s' = fold (append_event i) new s \<and> set new \<subseteq> set es \<and>
        sorted_wrt (<) (acked # map ev_seq new) \<and> acked' = last (acked # map ev_seq new)) \<and>
     (\<forall>e \<in> set es. ev_seq e \<le> acked')"
proof (induction es arbitrary: acked jl s)
  case (Cons e es)
  show ?case
  proof (cases "ev_seq e \<le> acked")
    case True
    then show ?thesis using Cons.IH [of acked jl s] Cons.prems by force
  next
    case False
    then have m: "max acked (ev_seq e) = ev_seq e" by simp
    from Cons.prems False m have
      "store_events i es (ev_seq e) (jl @ [e]) (append_event i e s) = (acked', jl', s')" by simp
    from Cons.IH [OF this] obtain new where new: "ev_seq e \<le> acked'"
      "jl' = jl @ e # new" "s' = fold (append_event i) new (append_event i e s)"
      "set new \<subseteq> set es" "sorted_wrt (<) (ev_seq e # map ev_seq new)"
      "acked' = last (ev_seq e # map ev_seq new)" "\<forall>e \<in> set es. ev_seq e \<le> acked'" by auto
    have "acked < ev_seq e" using False by simp
    then show ?thesis
      using new by (intro conjI exI [of _ "e # new"]) (auto intro: order.strict_trans)
  qed
qed simp

lemma store_events_done:
  "\<forall>e \<in> set es. ev_seq e \<le> acked \<Longrightarrow> store_events i es acked jl s = (acked, jl, s)"
  by (induction es) auto

lemma store_events_sorted:
  "sorted_wrt (<) (acked # map ev_seq es) \<Longrightarrow>
     store_events i es acked jl s =
       (last (acked # map ev_seq es), jl @ es, fold (append_event i) es s)"
proof (induction es arbitrary: acked jl s)
  case (Cons e es)
  then have "acked < ev_seq e" by simp
  then have "\<not> ev_seq e \<le> acked" "max acked (ev_seq e) = ev_seq e" by (auto simp: not_le)
  then show ?case using Cons by simp
qed simp

lemma acked_set: "acked_through i (set_acked_through j q now s) = (if i = j then q else acked_through i s)"
  by (simp add: acked_through_def set_acked_through_def find_upsert_row [where g = li_agent_id] split: option.split)

lemma acked_append: "acked_through i (fold (append_event j) es s) = acked_through i s"
proof (induction es arbitrary: s)
  case (Cons e es)
  have "st_log_index (append_event j e s) = st_log_index s" by (simp add: append_event_def)
  with Cons show ?case by (simp add: acked_through_def)
qed simp

text \<open>
  Log batches: the acknowledgement never goes back and covers every sequence number of the batch;
  what a batch adds to the agent's log file is a subsequence with strictly increasing numbers
  above the earlier acknowledgement; a batch in order and above it is added whole; and a batch
  that is shipped again adds nothing.\<close>

theorem log_batch_ack:
  assumes "handle_log_batch i now batch jl s = (ack, jl', s')"
  shows "acked_through i s \<le> la_acked_through ack \<and> acked_through i s' = la_acked_through ack \<and>
    (\<forall>e \<in> set (lb_events batch). ev_seq e \<le> la_acked_through ack) \<and>
    (\<exists>new. jl' = jl @ new \<and> set new \<subseteq> set (lb_events batch) \<and>
       sorted_wrt (<) (acked_through i s # map ev_seq new)) \<and>
    (sorted_wrt (<) (acked_through i s # map ev_seq (lb_events batch)) \<longrightarrow> jl' = jl @ lb_events batch) \<and>
    (\<exists>s''. handle_log_batch i now batch jl' s' = (ack, jl', s''))"
proof -
  obtain q s1 where e: "store_events i (lb_events batch) (acked_through i s) jl s = (q, jl', s1)"
    and ack: "ack = \<lparr>la_agent_id = i, la_acked_through = q\<rparr>" "s' = set_acked_through i q now s1"
    using assms by (auto simp: handle_log_batch_def split: prod.splits)
  note spec = store_events_spec [OF e]
  have a: "acked_through i s' = q" by (simp add: ack acked_set)
  have again: "store_events i (lb_events batch) q jl' s' = (q, jl', s')"
    using spec by (intro store_events_done) blast
  show ?thesis
    using spec store_events_sorted [of "acked_through i s" "lb_events batch" i jl s] e again
    by (auto simp: ack(1) a handle_log_batch_def)
qed

definition demo_event :: "u64 \<Rightarrow> log_event" where
  "demo_event q = \<lparr>ev_agent_id = ''i'', ev_seq = q, ev_at = ''t'', ev_kind = ''k'', ev_payload = JNull\<rparr>"

theorem log_batch_ack_witness:
  "fst (snd (handle_log_batch ''i'' ''t'' \<lparr>lb_agent_id = ''i'', lb_events = [demo_event 1, demo_event 2]\<rparr>
     [] empty_store)) = [demo_event 1, demo_event 2]"
proof -
  obtain ack jl' s' where h: "handle_log_batch ''i'' ''t''
      \<lparr>lb_agent_id = ''i'', lb_events = [demo_event 1, demo_event 2]\<rparr> [] empty_store = (ack, jl', s')"
    by (metis prod.collapse)
  then show ?thesis
    using log_batch_ack [OF h] by (simp add: acked_through_def empty_store_def demo_event_def)
qed

text \<open>
  An acknowledgement is the largest number seen, not the end of a contiguous run: an event that
  arrives after one with a larger number is dropped.
\<close>

lemma out_of_order_event_dropped:
  "fst (snd (handle_log_batch ''i'' ''t'' \<lparr>lb_agent_id = ''i'', lb_events = [demo_event 2, demo_event 1]\<rparr>
     [] empty_store)) = [demo_event 2]"
  by (simp add: handle_log_batch_def acked_through_def empty_store_def demo_event_def)

end
