(* ===== verification/Actions_Theorems.thy ===== *)
theory Actions_Theorems
  imports Actions Scheduler_Theorems Control_Theorems
begin

text \<open>
  What creating and destroying agents leave in the registry, on every outcome.
\<close>

section \<open>Creating\<close>

definition bystanders :: "uuid \<Rightarrow> control_plane \<Rightarrow> control_plane \<Rightarrow> bool" where
  "bystanders i cp cp' \<longleftrightarrow> (\<forall>j. j \<noteq> i \<longrightarrow>
     lookup_agent j (cp_store cp') = lookup_agent j (cp_store cp) \<or>
     lookup_agent j (cp_store cp') =
       map_option (\<lambda>a. a\<lparr>a_state := Suspended\<rparr>) (lookup_agent j (cp_store cp)))"

lemma bystanders_same:
  "(\<And>j. j \<noteq> i \<Longrightarrow> lookup_agent j (cp_store cp2) = lookup_agent j (cp_store cp1)) \<Longrightarrow>
     bystanders i cp cp1 \<Longrightarrow> bystanders i cp cp2"
  by (simp add: bystanders_def)

lemma bystanders_refl [simp]: "bystanders i cp cp"
  by (simp add: bystanders_def)

lemma place_or_preempt_bystanders:
  assumes "place_or_preempt net parse_eid parse_ts now ts cfg k cp = (r, cp')"
  shows "bystanders i cp cp'" "lookup_agent i (cp_store cp) = None \<Longrightarrow> lookup_agent i (cp_store cp') = None"
proof -
  have s: "lookup_agent j (cp_store cp') = lookup_agent j (cp_store cp) \<or> lookup_agent j (cp_store cp') =
      map_option (\<lambda>a. a\<lparr>a_state := Suspended\<rparr>) (lookup_agent j (cp_store cp))" for j
    using preemption_step [OF assms] unfolding preempts_def only_suspends_def by blast
  then show "bystanders i cp cp'" by (simp add: bystanders_def)
  show "lookup_agent i (cp_store cp) = None \<Longrightarrow> lookup_agent i (cp_store cp') = None"
    using s [of i] by auto
qed

lemma new_row_simps [simp]:
  "a_id (new_row i ts m p) = i" "a_name (new_row i ts m p) = m_name m" "a_manifest (new_row i ts m p) = m"
  "a_state (new_row i ts m p) = Provisioning" "a_daemon_endpoint_id (new_row i ts m p) = pl_endpoint_id p"
  by (simp_all add: new_row_def)

lemma lookup_new_row:
  assumes "create_agent (new_row i ts m p) s = Inr s'"
  shows "lookup_agent j s' = (if j = i then Some (new_row i ts m p) else lookup_agent j s)"
  using lookup_create_agent [where row = "new_row i ts m p" and s = s and j = j] assms by (simp add: new_row_def)

definition prepared :: "action_env \<Rightarrow> uuid \<Rightarrow> agent_manifest \<Rightarrow> action_error + agent_row \<times> placement \<Rightarrow> control_plane \<Rightarrow> bool" where
  "prepared E i m r cp \<longleftrightarrow> store_inv (cp_store cp) \<and>
     (case r of
        Inl e \<Rightarrow> lookup_agent i (cp_store cp) = None \<and>
          (\<forall>x. e \<noteq> CreateRejected x) \<and> (\<forall>x. e \<noteq> CreateTransport x) \<and> (\<forall>x. e \<noteq> ActSlice x)
      | Inr (row, p) \<Rightarrow> row = new_row i (ae_ts E) m p \<and> lookup_agent i (cp_store cp) = Some row \<and>
          is_ok (validate_model (ae_catalog E) (ms_provider (m_model m)) (ms_id (m_model m))) \<and>
          is_ok (preflight m (ae_secrets E)))"

lemma prepare_create_prepared:
  assumes "store_inv (cp_store cp)" "lookup_agent i (cp_store cp) = None"
    and "prepare_create E i m require_extra pin cp = (r, cp')"
  shows "prepared E i m r cp'" "bystanders i cp cp'"
proof -
  obtain p cp1 where pl: "place_or_preempt (ae_net E) (ae_parse_eid E) (ae_parse_ts E) (ae_now E) (ae_ts E)
      (ae_cfg E) (create_constraints m require_extra pin) cp = (p, cp1)" by fastforce
  have 1: "store_inv (cp_store cp1)"
    using place_or_preempt_inv [OF assms(1)] pl by (metis snd_conv)
  note by1 = place_or_preempt_bystanders [OF pl]
  have 2: "store_inv s \<and> lookup_agent i s = Some (new_row i (ae_ts E) m q) \<and> bystanders i cp (cp1\<lparr>cp_store := s\<rparr>)"
    if c: "create_agent (new_row i (ae_ts E) m q) (cp_store cp1) = Inr s" for q s
    using create_agent_inv [OF 1 c] lookup_new_row [OF c] by1(1)
    by (auto intro: bystanders_same [OF _ by1(1)])
  show "prepared E i m r cp'"
    using assms pl 1 2 by1(2) [OF assms(2)]
    by (auto simp: prepare_create_def prepared_def Let_def split: sum.splits option.splits)
  show "bystanders i cp cp'"
    using assms pl 2 by1(1)
    by (auto simp: prepare_create_def Let_def split: sum.splits option.splits)
qed

lemma lookup_settle_create:
  "lookup_agent j (settle_create i ts sf s) =
     (if j = i then map_option (\<lambda>a. a\<lparr>a_session_file := (case sf of None \<Rightarrow> a_session_file a | Some f \<Rightarrow> Some f),
          a_state := Active, a_woke_at := Some ts\<rparr>) (lookup_agent i s)
      else lookup_agent j s)"
  by (cases sf) (simp_all add: settle_create_def reg.agent_laws lookup_session_file option.map_comp comp_def
      split: option.split)

lemma settle_create_inv: "store_inv s \<Longrightarrow> store_inv (settle_create i ts sf s)"
  by (cases sf) (simp_all add: settle_create_def agent_ops_inv session_ops_inv)

text \<open>How the acknowledgement settles the row.\<close>

definition completed ::
    "action_env \<Rightarrow> agent_row \<Rightarrow> placement \<Rightarrow> control_plane \<Rightarrow> action_error + unit \<Rightarrow> control_plane \<Rightarrow> bool" where
  "completed E row p cp r cp' \<longleftrightarrow> store_inv (cp_store cp') \<and>
     (case r of
        Inr _ \<Rightarrow> \<exists>sf b. lookup_agent (a_id row) (cp_store cp') =
            Some (row\<lparr>a_session_file := sf, a_state := Active, a_woke_at := Some (ae_ts E)\<rparr>) \<and>
          slice_for (a_manifest row) (ae_secrets E) = Inr b \<and>
          cp_orders cp' = cp_orders cp @ [(pl_endpoint_id p, CreateAgent (a_id row) (a_manifest row) b)]
      | Inl e \<Rightarrow>
          (\<exists>x. e = CreateRejected x) \<and> lookup_agent (a_id row) (cp_store cp') = Some (row\<lparr>a_state := Failed\<rparr>) \<or>
          (\<exists>x y. e = CreateTransport x \<or> e = ActSlice y) \<and> lookup_agent (a_id row) (cp_store cp') = Some row)"

lemma complete_create_completed:
  assumes "store_inv (cp_store cp)" "lookup_agent (a_id row) (cp_store cp) = Some row"
    and "complete_create E row p cp = (r, cp')"
  shows "completed E row p cp r cp'" "j \<noteq> a_id row \<Longrightarrow> lookup_agent j (cp_store cp') = lookup_agent j (cp_store cp)"
proof -
  consider e where "slice_for (a_manifest row) (ae_secrets E) = Inl e"
    | b q cp1 where "slice_for (a_manifest row) (ae_secrets E) = Inr b"
      "order (ae_net E) (ae_ts E) (pl_endpoint_id p) (CreateAgent (a_id row) (a_manifest row) b) cp = (q, cp1)"
    by (metis sum.exhaust prod.exhaust)
  then have "completed E row p cp r cp' \<and>
    (j \<noteq> a_id row \<longrightarrow> lookup_agent j (cp_store cp') = lookup_agent j (cp_store cp))"
  proof cases
    case 1
    then show ?thesis using assms by (auto simp: complete_create_def completed_def)
  next
    case (2 b q cp1)
    have inv: "store_inv (cp_store cp1)"
      using order_inv [OF assms(1), of "ae_net E" "ae_ts E" "pl_endpoint_id p"
          "CreateAgent (a_id row) (a_manifest row) b"] 2(2) by simp
    note lk = order_effects(1) [OF 2(2)]
    show ?thesis
    proof (cases q)
      case (Inl e)
      then show ?thesis using assms 2 inv lk by (auto simp: complete_create_def completed_def)
    next
      case (Inr ack)
      note os = order_effects(3) [OF 2(2) Inr]
      show ?thesis
        using assms 2 inv lk Inr os
        by (auto simp: complete_create_def completed_def lookup_settle_create reg.agent_laws agent_ops_inv
            settle_create_inv split: if_splits)
    qed
  qed
  then show "completed E row p cp r cp'"
    "j \<noteq> a_id row \<Longrightarrow> lookup_agent j (cp_store cp') = lookup_agent j (cp_store cp)" by blast+
qed

lemma by_name_of_lookup:
  assumes "store_inv s" "lookup_agent i s = Some a"
  shows "get_agent_by_name (a_name a) s = Inr (Some a)"
  using get_agent_by_name_lookup [OF assms(1), of "a_name a"] lookup_same_name [OF assms(1) assms(2)] assms(2)
  by (metis option.inject)


section \<open>Destroying\<close>

lemma queued_tables: "st_messages s' = st_messages s \<Longrightarrow> queued i s' = queued i s"
  by (simp add: queued_def pending_messages_def)

lemma order_queued:
  "queued i (cp_store (snd (order net ts d ord cp))) = queued i (cp_store cp)"
  by (rule queued_tables) (auto simp: order_def drop_session_def mark_offline_def Let_def on_store_def
      set_daemon_online_def emit_def split: option.split order_reply.split)

lemma lookup_set_status [simp]: "lookup_agent j (set_message_status ids st e ts s) = lookup_agent j s"
  by (rule lookup_agent_tables) (simp add: set_message_status_eq)

lemma destroyed_effect:
  assumes "store_inv (cp_store cp)"
  shows "lookup_agent i (cp_store (destroyed E n i force cp)) = None"
    "cp_agent_locks (destroyed E n i force cp) i = None"
    "queued i (cp_store (destroyed E n i force cp)) = []"
    "j \<noteq> i \<Longrightarrow> lookup_agent j (cp_store (destroyed E n i force cp)) = lookup_agent j (cp_store cp)"
    "j \<noteq> i \<Longrightarrow> queued j (cp_store (destroyed E n i force cp)) = queued j (cp_store cp)"
proof -
  let ?s = "delete_agent i (cp_store cp)"
  have inv: "store_inv ?s" using assms by (rule delete_agent_inv)
  have q: "queued k ?s = queued k (cp_store cp)" for k
    by (rule queued_tables) (simp add: delete_agent_def emit_def)
  have ids: "map pm_id (pending_messages i ?s) = map fst (queued i ?s)"
    by (simp add: queued_def comp_def)
  have s: "cp_store (destroyed E n i force cp) = emit (EvAudit ''destroy'')
      (set_message_status (map fst (queued i ?s)) ''failed'' (Some ''agent destroyed'') (ae_ts E) ?s)"
    by (simp add: destroyed_def Let_def remove_agent_lock_def audit_def on_store_def ids)
  have e: "queued k (emit x t) = queued k t" for k x t
    by (rule queued_tables) (simp add: emit_def)
  have ud: "\<not> is_undelivered_status ''failed''" by (simp add: is_undelivered_status_def)
  show "lookup_agent i (cp_store (destroyed E n i force cp)) = None"
    by (simp add: s reg.agent_laws)
  show "j \<noteq> i \<Longrightarrow> lookup_agent j (cp_store (destroyed E n i force cp)) = lookup_agent j (cp_store cp)"
    by (simp add: s reg.agent_laws)
  show "cp_agent_locks (destroyed E n i force cp) i = None"
    by (simp add: destroyed_def Let_def remove_agent_lock_def audit_def on_store_def)
  show "queued i (cp_store (destroyed E n i force cp)) = []"
    by (simp add: s e wq.pending_settle [OF inv ud] filter_empty_conv case_prod_beta)
  show "queued j (cp_store (destroyed E n i force cp)) = queued j (cp_store cp)" if "j \<noteq> i"
  proof -
    have "fst m \<notin> fst ` set (queued i ?s)" if "m \<in> set (queued j ?s)" for m
      using wq.pending_owner [OF inv \<open>j \<noteq> i\<close>] that by blast
    then show ?thesis
      by (simp add: s e wq.pending_settle [OF inv ud] filter_id_conv case_prod_beta q [symmetric])
  qed
qed

text \<open>C13
  Destroying is all or nothing: it succeeds exactly when the agent exists, its endpoint parses
  and the daemon acknowledges or says it has no such agent, or cannot be reached while force is
  set. Then the row, its lock and its queue are gone; otherwise the row stays as it was. Other
  agents and their queues are never touched.\<close>

theorem destroy_all_or_nothing:
  assumes "reachable_store (cp_store cp)" "lookup_agent i (cp_store cp) = Some agent"
    and "destroy_agent E (a_name agent) force cp = (r, cp')" and "j \<noteq> i"
  shows "(case r of
      Inr _ \<Rightarrow> lookup_agent i (cp_store cp') = None \<and> cp_agent_locks cp' i = None \<and>
        queued i (cp_store cp') = []
    | Inl _ \<Rightarrow> lookup_agent i (cp_store cp') = Some agent \<and> queued i (cp_store cp') = queued i (cp_store cp)) \<and>
    lookup_agent j (cp_store cp') = lookup_agent j (cp_store cp) \<and>
    queued j (cp_store cp') = queued j (cp_store cp) \<and>
    (is_ok r \<longleftrightarrow> (\<exists>d. ae_parse_eid E (a_daemon_endpoint_id agent) = Some d \<and>
       (case fst (order (ae_net E) (ae_ts E) d (DestroyAgent i) cp) of
          Inr ack \<Rightarrow> ack_success ack \<or> contains_str (unwrap_or [] (ack_message ack)) ''no agent''
        | Inl _ \<Rightarrow> force)))"
proof -
  have inv: "store_inv (cp_store cp)" using assms(1) by (rule reachable_store_inv)
  have a: "get_agent_by_name (a_name agent) (cp_store cp) = Inr (Some agent)"
    by (rule by_name_of_lookup [OF inv assms(2)])
  have i: "a_id agent = i" using assms(2) by (rule lookup_agent_id)
  show ?thesis
  proof (cases "ae_parse_eid E (a_daemon_endpoint_id agent)")
    case None
    then show ?thesis using assms a by (auto simp: destroy_agent_def)
  next
    case (Some d)
    obtain q cp1 where q: "order (ae_net E) (ae_ts E) d (DestroyAgent i) cp = (q, cp1)" by fastforce
    have cp1: "store_inv (cp_store cp1)" "queued k (cp_store cp1) = queued k (cp_store cp)"
      "lookup_agent k (cp_store cp1) = lookup_agent k (cp_store cp)" for k
      using order_inv [OF inv, of "ae_net E" "ae_ts E" d "DestroyAgent i"] order_effects(1) [OF q]
        order_queued [of k "ae_net E" "ae_ts E" d "DestroyAgent i" cp] q by simp_all
    note de = destroyed_effect [OF cp1(1), where E = E and n = "a_name agent" and force = force and i = i]
    show ?thesis
      using assms(2,3) a i Some q cp1(2,3) de(1-3) de(4,5) [OF assms(4)]
      by (cases q) (auto simp: destroy_agent_def split: if_splits)
  qed
qed

section \<open>Witnesses\<close>

definition demo_action_cp :: control_plane where
  "demo_action_cp = (initial_cp empty_store [])\<lparr>cp_store := demo_store\<rparr>"

definition demo_action_env :: action_env where
  "demo_action_env = \<lparr>ae_net = ack_all, ae_parse_eid = Some, ae_parse_ts = (\<lambda>_. None), ae_now = 0,
     ae_ts = ''t'', ae_cfg = default_auto_suspend, ae_catalog = [(''openai'', [])], ae_secrets = demo_secrets\<rparr>"

lemma demo_action_facts:
  "cp_store demo_action_cp = demo_store"
  "reachable_store (cp_store demo_action_cp)"
  "lookup_agent ''new'' (cp_store demo_action_cp) = None"
  "lookup_agent ''i'' (cp_store demo_action_cp) = Some (demo_row ''i'' ''n'' ''d'' Active)"
proof -
  show s: "cp_store demo_action_cp = demo_store" by (simp add: demo_action_cp_def)
  show "reachable_store (cp_store demo_action_cp)" unfolding s by (rule demo_reachable)
  show "lookup_agent ''i'' (cp_store demo_action_cp) = Some (demo_row ''i'' ''n'' ''d'' Active)"
    unfolding s by (rule demo_lookup)
  show "lookup_agent ''new'' (cp_store demo_action_cp) = None"
    unfolding s by (simp add: demo_store_def create_agent_def empty_store_def lookup_agent_find emit_def demo_row_def)
qed


theorem destroy_all_or_nothing_witness:
  "\<exists>cp'. destroy_agent demo_action_env ''n'' True demo_action_cp = (Inr (), cp') \<and>
     lookup_agent ''i'' (cp_store cp') = None"
proof -
  let ?a = "demo_row ''i'' ''n'' ''d'' Active"
  have a: "a_name ?a = ''n''" "a_daemon_endpoint_id ?a = ''d''" by (simp_all add: demo_row_def)
  have e: "ae_parse_eid demo_action_env = Some" "ae_net demo_action_env = ack_all" "ae_ts demo_action_env = ''t''"
    by (simp_all add: demo_action_env_def)
  obtain r cp' where r: "destroy_agent demo_action_env ''n'' True demo_action_cp = (r, cp')" by fastforce
  have q: "order ack_all ''t'' ''d'' (DestroyAgent ''i'') demo_action_cp =
      (Inl (DaemonNotOnline ''d''), demo_action_cp)"
    by (simp add: order_def session_def demo_action_cp_def initial_cp_def)
  have j: "(''j'' :: uuid) \<noteq> ''i''" by simp
  note d = destroy_all_or_nothing [OF demo_action_facts(2,4) _ j, of demo_action_env True r cp', unfolded a e]
  have "is_ok r" using d r q by simp
  then show ?thesis using d r by (cases r) auto
qed

end
