(* ===== verification/Web_Theorems.thy ===== *)
theory Web_Theorems
  imports Web_Api Actions_Theorems
begin

text \<open>
  What the operator API guarantees: removing a daemon leaves no agent behind, and no answer but the
  audited reveal depends on the value of a secret.
\<close>

section \<open>Removing a daemon\<close>

lemma order_agents [simp]: "st_agents (cp_store (snd (order net ts d ord cp))) = st_agents (cp_store cp)"
  by (auto simp: order_def drop_session_def mark_offline_def Let_def on_store_def set_daemon_online_def
      emit_def split: option.split order_reply.split)

lemma order_daemon_ids [simp]:
  "map d_endpoint_id (st_daemons (cp_store (snd (order net ts d ord cp)))) =
     map d_endpoint_id (st_daemons (cp_store cp))"
  by (auto simp: order_def drop_session_def mark_offline_def Let_def on_store_def set_daemon_online_def
      emit_def update_rows_def comp_def intro!: map_cong split: option.split order_reply.split)

lemma set_status_tables [simp]:
  "st_agents (set_message_status ids st e ts s) = st_agents s"
  "st_daemons (set_message_status ids st e ts s) = st_daemons s"
  by (simp_all add: set_message_status_eq)

lemma destroyed_tables:
  "st_agents (cp_store (destroyed E n i force cp)) = filter (\<lambda>r. t_id r \<noteq> i) (st_agents (cp_store cp))"
  "st_daemons (cp_store (destroyed E n i force cp)) = st_daemons (cp_store cp)"
  by (simp_all add: destroyed_def Let_def remove_agent_lock_def audit_def on_store_def delete_agent_def
      emit_def delete_rows_def)

lemma agent_named:
  assumes "agents_inv s"
  shows "get_agent_by_name n s =
    (case find (\<lambda>r. t_name r = n) (st_agents s) of None \<Rightarrow> Inr None
     | Some r \<Rightarrow> Inr (Some (case row_to_agent r of Inr a \<Rightarrow> a)))"
proof (cases "find (\<lambda>r. t_name r = n) (st_agents s)")
  case (Some r)
  then have "t_manifest r \<noteq> None" using assms by (auto simp: agents_inv_def find_Some_iff)
  then obtain a where "row_to_agent r = Inr a" by (metis not_None_eq row_to_agent_simps(1))
  then show ?thesis using Some by (simp add: get_agent_by_name_def)
qed (simp add: get_agent_by_name_def)

text \<open>Names and ids are unique: deleting by the id of a name deletes that name.\<close>

lemma filter_id_name:
  assumes "agents_inv s" "r \<in> set (st_agents s)"
  shows "filter (\<lambda>x. t_id x \<noteq> t_id r) (st_agents s) = filter (\<lambda>x. t_name x \<noteq> t_name r) (st_agents s)"
proof (rule filter_cong [OF HOL.refl])
  fix x assume "x \<in> set (st_agents s)"
  then show "(t_id x \<noteq> t_id r) = (t_name x \<noteq> t_name r)"
    using assms by (auto simp: agents_inv_def inj_on_def distinct_map)
qed

lemma force_remove_tables:
  assumes "agents_inv (ws_store s)"
  shows "st_agents (ws_store (force_remove E n s)) = filter (\<lambda>r. t_name r \<noteq> n) (st_agents (ws_store s))"
    and "map d_endpoint_id (st_daemons (ws_store (force_remove E n s))) =
      map d_endpoint_id (st_daemons (ws_store s))"
proof -
  let ?cp = "ws_cp s"
  have same: "get_agent_by_name n st = get_agent_by_name n (ws_store s)"
    if "st_agents st = st_agents (ws_store s)" for st
    using that by (simp add: get_agent_by_name_def)
  have none: "filter (\<lambda>r. t_name r \<noteq> n) (st_agents (ws_store s)) = st_agents (ws_store s)"
    if "find (\<lambda>r. t_name r = n) (st_agents (ws_store s)) = None"
    using that by (auto simp: find_None_iff intro!: filter_True)
  have "st_agents (ws_store (force_remove E n s)) = filter (\<lambda>r. t_name r \<noteq> n) (st_agents (ws_store s)) \<and>
      map d_endpoint_id (st_daemons (ws_store (force_remove E n s))) = map d_endpoint_id (st_daemons (ws_store s))"
  proof (cases "find (\<lambda>r. t_name r = n) (st_agents (ws_store s))")
    case None
    then have "get_agent_by_name n (ws_store s) = Inr None" by (simp add: agent_named [OF assms])
    then show ?thesis using none [OF None] by (simp add: force_remove_def destroy_agent_def)
  next
    case (Some r)
    then have r: "r \<in> set (st_agents (ws_store s))" "t_name r = n" by (auto simp: find_Some_iff)
    then obtain m where "t_manifest r = Some m" using assms by (auto simp: agents_inv_def)
    then obtain a where a: "row_to_agent r = Inr a" using row_to_agent_simps(1) by blast
    then have g: "get_agent_by_name n (ws_store s) = Inr (Some a)"
      using Some by (simp add: get_agent_by_name_def)
    have del: "filter (\<lambda>x. t_id x \<noteq> a_id a) (st_agents (ws_store s)) =
        filter (\<lambda>x. t_name x \<noteq> n) (st_agents (ws_store s))"
      using filter_id_name [OF assms r(1)] row_to_agent_simps(2) [OF a] r(2) by simp
    show ?thesis
    proof (cases "ae_parse_eid (act_env E s) (a_daemon_endpoint_id a)")
      case None
      then show ?thesis
        using g del by (simp add: force_remove_def destroy_agent_def on_store_def delete_agent_def emit_def delete_rows_def)
    next
      case (Some d)
      obtain res cp1 where o: "order (ae_net (act_env E s)) (ae_ts (act_env E s)) d (DestroyAgent (a_id a)) ?cp = (res, cp1)"
        by fastforce
      have t: "st_agents (cp_store cp1) = st_agents (ws_store s)"
        "map d_endpoint_id (st_daemons (cp_store cp1)) = map d_endpoint_id (st_daemons (ws_store s))"
        using order_agents order_daemon_ids o by (metis snd_conv)+
      show ?thesis
        using Some g o t same [OF t(1)] del
        by (cases res) (simp_all add: force_remove_def destroy_agent_def destroyed_tables on_store_def
            delete_agent_def emit_def delete_rows_def)
    qed
  qed
  then show "st_agents (ws_store (force_remove E n s)) = filter (\<lambda>r. t_name r \<noteq> n) (st_agents (ws_store s))"
    and "map d_endpoint_id (st_daemons (ws_store (force_remove E n s))) =
      map d_endpoint_id (st_daemons (ws_store s))" by blast+
qed

lemma agents_inv_filter: "agents_inv s \<Longrightarrow> st_agents s' = filter P (st_agents s) \<Longrightarrow> agents_inv s'"
  by (auto simp: agents_inv_def distinct_map_filter)

lemma force_remove_all:
  assumes "agents_inv (ws_store s)"
  shows "st_agents (ws_store (fold (force_remove E) ns s)) =
      filter (\<lambda>r. t_name r \<notin> set ns) (st_agents (ws_store s)) \<and>
    map d_endpoint_id (st_daemons (ws_store (fold (force_remove E) ns s))) =
      map d_endpoint_id (st_daemons (ws_store s))"
  using assms
proof (induction ns arbitrary: s)
  case (Cons n ns)
  note f = force_remove_tables [OF Cons.prems, of E n]
  show ?case
    using Cons.IH [OF agents_inv_filter [OF Cons.prems f(1)]] f
    by (simp add: conj_commute)
qed simp

lemma row_to_agent_daemon: "row_to_agent r = Inr a \<Longrightarrow> a_daemon_endpoint_id a = t_daemon_endpoint_id r"
  by (auto simp: row_to_agent_def split: option.splits)

lemma list_agents_on:
  assumes "agents_inv s"
  obtains agents where "list_agents s = Inr agents"
    "a_name ` {a \<in> set agents. a_daemon_endpoint_id a = d} =
      t_name ` {r \<in> set (st_agents s). t_daemon_endpoint_id r = d}"
proof -
  have "\<exists>a. row_to_agent r = Inr a" if "r \<in> set (st_agents s)" for r
    using assms that by (auto simp: agents_inv_def)
  then obtain g where g: "\<And>r. r \<in> set (st_agents s) \<Longrightarrow> row_to_agent r = Inr (g r)" by metis
  have l: "list_agents s = Inr (map g (sort_key t_name (st_agents s)))"
    unfolding list_agents_def by (rule map_ok_Inr) (simp add: g)
  have e: "a_name (g r) = t_name r \<and> a_daemon_endpoint_id (g r) = t_daemon_endpoint_id r"
    if "r \<in> set (st_agents s)" for r
    using row_to_agent_daemon [OF g [OF that]] row_to_agent_simps(3) [OF g [OF that]] by simp
  show thesis
    by (rule that [OF l]) (use e in \<open>auto simp: image_iff\<close>, metis)
qed

text \<open>C25
  Removing a daemon leaves nothing dangling. The request is refused, with nothing changed, when
  the id names no daemon or several, or when agents are assigned and force is not set. Otherwise,
  whatever the daemons answer, exactly the rows of its agents and its own row are deleted.\<close>

theorem daemon_removal_leaves_no_agent:
  assumes "agents_inv (ws_store s)" "daemon_remove E i force s = (out, s')"
  shows "case out of
      Inl _ \<Rightarrow> s' = s \<and>
        (\<forall>d. resolve_daemon (list_daemons (ws_store s)) i = Inr d \<longrightarrow> force \<noteq> Some True \<and>
          (\<exists>r \<in> set (st_agents (ws_store s)). t_daemon_endpoint_id r = d_endpoint_id d))
    | Inr _ \<Rightarrow> \<exists>d. resolve_daemon (list_daemons (ws_store s)) i = Inr d \<and>
        st_agents (ws_store s') =
          filter (\<lambda>r. t_daemon_endpoint_id r \<noteq> d_endpoint_id d) (st_agents (ws_store s)) \<and>
        map d_endpoint_id (st_daemons (ws_store s')) =
          filter (\<lambda>e. e \<noteq> d_endpoint_id d) (map d_endpoint_id (st_daemons (ws_store s)))"
proof (cases "resolve_daemon (list_daemons (ws_store s)) i")
  case (Inl e)
  then show ?thesis
    using assms(2) by (cases e) (auto simp: daemon_remove_def resolve_daemon_err_def)
next
  case (Inr d)
  obtain agents where l: "list_agents (ws_store s) = Inr agents"
    "a_name ` {a \<in> set agents. a_daemon_endpoint_id a = d_endpoint_id d} =
      t_name ` {r \<in> set (st_agents (ws_store s)). t_daemon_endpoint_id r = d_endpoint_id d}"
    using assms(1) by (rule list_agents_on)
  define names where "names = map a_name (filter (\<lambda>a. a_daemon_endpoint_id a = d_endpoint_id d) agents)"
  have names: "set names = t_name ` {r \<in> set (st_agents (ws_store s)). t_daemon_endpoint_id r = d_endpoint_id d}"
    using l(2) by (simp add: names_def)
  then have kept: "filter (\<lambda>r. t_name r \<notin> set names) (st_agents (ws_store s)) =
      filter (\<lambda>r. t_daemon_endpoint_id r \<noteq> d_endpoint_id d) (st_agents (ws_store s))"
    using assms(1) by (intro filter_cong [OF HOL.refl]) (auto simp: agents_inv_def distinct_map inj_on_def)
  show ?thesis
  proof (cases "names \<noteq> [] \<and> \<not> unwrap_or False force")
    case True
    then have "out = Inl (409, snd (projl out)) \<and> s' = s \<and> force \<noteq> Some True"
      using assms(2) Inr l(1) unfolding daemon_remove_def resolve_daemon_err_def
      by (auto simp: Let_def err_def unwrap_or_def names_def)
    moreover have "\<exists>r \<in> set (st_agents (ws_store s)). t_daemon_endpoint_id r = d_endpoint_id d"
      using True names by (cases names) auto
    ultimately show ?thesis using Inr by (cases out) auto
  next
    case False
    then have "out = Inr ok_json \<and> cp_store (ws_cp s') = emit (EvAudit ''daemon_remove'')
        (delete_daemon (d_endpoint_id d) (ws_store (fold (force_remove E) names s)))"
      using assms(2) Inr l(1) unfolding daemon_remove_def resolve_daemon_err_def
      by (auto simp: Let_def names_def [symmetric] on_ws_def audit_def on_store_def)
    moreover have "map d_endpoint_id (st_daemons (delete_daemon (d_endpoint_id d) st)) =
        filter (\<lambda>e. e \<noteq> d_endpoint_id d) (map d_endpoint_id (st_daemons st))"
      "st_agents (delete_daemon (d_endpoint_id d) st) = st_agents st" for st
      by (simp_all add: delete_daemon_def delete_rows_def filter_map comp_def)
    ultimately show ?thesis
      using force_remove_all [OF assms(1), of E names] kept Inr by simp
  qed
qed

section \<open>Secrets stay inside\<close>

definition same_keys :: "store_file \<Rightarrow> store_file \<Rightarrow> bool" where
  "same_keys f g \<longleftrightarrow> map fst (sf_providers f) = map fst (sf_providers g) \<and>
     map fst (sf_git f) = map fst (sf_git g) \<and> map fst (sf_extra f) = map fst (sf_extra g)"

definition same_names :: "secrets_state \<Rightarrow> secrets_state \<Rightarrow> bool" where
  "same_names st st' \<longleftrightarrow>
     (sec_file st = None) = (sec_file st' = None) \<and> rel_option same_keys (sec_store st) (sec_store st')"

lemma same_names_cases:
  assumes "same_names st st'"
  obtains "sec_store st = None" "sec_store st' = None"
  | f g where "sec_store st = Some f" "sec_store st' = Some g" "same_keys f g"
  using assms by (auto simp: same_names_def elim: option.rel_cases)

lemma same_keys_map_of: "map fst xs = map fst ys \<Longrightarrow> (map_of xs k = None) = (map_of ys k = None)"
  by (metis list.set_map map_of_eq_None_iff)

lemma map_keys: "map (\<lambda>(k, _). f k) xs = map f (map fst xs)"
  by (induction xs) auto

lemma same_keys_insert:
  "map fst xs = map fst ys \<Longrightarrow> map fst (bt_insert k v xs) = map fst (bt_insert k v ys)"
proof (induction xs arbitrary: ys)
  case (Cons x xs)
  then obtain y ys' where ys: "ys = y # ys'" "fst x = fst y" "map fst xs = map fst ys'" by (cases ys) auto
  then show ?case using Cons.IH [OF ys(3)] by (cases x; cases y) auto
qed simp

lemma same_keys_remove: "map fst (bt_remove k xs) = filter (\<lambda>k'. k' \<noteq> k) (map fst xs)"
  by (induction xs) (auto simp: bt_remove_def)

lemma same_keys_apply_op: "same_keys f g \<Longrightarrow> same_keys (apply_op op f) (apply_op op g)"
  unfolding same_keys_def by (cases op) (auto simp: same_keys_remove intro: same_keys_insert)

lemma same_names_inventory:
  assumes "same_names st st'"
  shows "inventory st = inventory st'"
  using assms
proof (cases rule: same_names_cases)
  case (2 f g)
  then show ?thesis
    using same_keys_map_of [of "sf_git f" "sf_git g" "''ssh_key''"]
    by (simp add: inventory_def same_keys_def map_keys)
qed (simp add: inventory_def)

lemma same_names_preflight:
  assumes "same_names st st'"
  shows "preflight m st = preflight m st'"
  using assms
proof (cases rule: same_names_cases)
  case (2 f g)
  then have k: "(map_of (sf_providers f) k = None) = (map_of (sf_providers g) k = None)"
    "(map_of (sf_git f) k = None) = (map_of (sf_git g) k = None)"
    "(map_of (sf_extra f) k = None) = (map_of (sf_extra g) k = None)" for k
    using same_keys_map_of [of "sf_providers f" "sf_providers g" k] same_keys_map_of [of "sf_git f" "sf_git g" k]
      same_keys_map_of [of "sf_extra f" "sf_extra g" k]
    by (simp_all add: same_keys_def)
  then have "missing_in_store m f = missing_in_store m g"
    by (simp only: missing_in_store_def k)
  then show ?thesis using 2(1,2) by (simp add: preflight_def)
qed (simp add: preflight_def)

text \<open>Encryption succeeds, and what it wrote decrypts.\<close>

definition cipher_works :: "(store_file \<Rightarrow> string option) \<Rightarrow> (string \<Rightarrow> store_file option) \<Rightarrow> bool" where
  "cipher_works seal unseal \<longleftrightarrow> (\<forall>f. \<exists>c. seal f = Some c \<and> unseal c \<noteq> None)"

lemma same_names_run_op:
  assumes "same_names st st'" "cipher_works seal unseal"
  shows "fst (run_op key_ok seal unseal op st) = fst (run_op key_ok seal unseal op st') \<and>
    same_names (snd (run_op key_ok seal unseal op st)) (snd (run_op key_ok seal unseal op st'))"
proof (cases "op_guard key_ok op")
  case None
  from assms(1) show ?thesis
  proof (cases rule: same_names_cases)
    case (2 f g)
    obtain c c' x x' where "seal (apply_op op f) = Some c" "unseal c = Some x"
      "seal (apply_op op g) = Some c'" "unseal c' = Some x'"
      using assms(2) unfolding cipher_works_def by (metis not_None_eq)
    then show ?thesis
      using None 2 same_keys_apply_op [OF 2(3), of op]
      by (simp add: run_op_def mutate_def persist_def same_names_def)
  qed (use None assms(1) in \<open>simp add: run_op_def mutate_def\<close>)
qed (use assms(1) in \<open>simp add: run_op_def\<close>)

lemma same_names_prepare:
  assumes "same_names st st'"
  shows "prepare_create (E\<lparr>ae_secrets := st\<rparr>) i m require pin cp =
    prepare_create (E\<lparr>ae_secrets := st'\<rparr>) i m require pin cp"
  by (simp add: prepare_create_def same_names_preflight [OF assms, of m] cong: sum.case_cong option.case_cong)

lemma background_answer:
  assumes "same_names st st'"
  shows "fst (create_agent_background (E\<lparr>ae_secrets := st\<rparr>) i m require pin cp) =
      fst (create_agent_background (E\<lparr>ae_secrets := st'\<rparr>) i m require pin cp)"
    and "fst (snd (create_agent_background (E\<lparr>ae_secrets := st\<rparr>) i m require pin cp)) =
      fst (snd (create_agent_background (E\<lparr>ae_secrets := st'\<rparr>) i m require pin cp))"
  by (simp_all add: create_agent_background_def same_names_prepare [OF assms] split: prod.split sum.split)

lemma destroy_no_secrets:
  "destroy_agent (E\<lparr>ae_secrets := st\<rparr>) name force cp = destroy_agent (E\<lparr>ae_secrets := st'\<rparr>) name force cp"
proof -
  have d: "destroyed (E\<lparr>ae_secrets := x\<rparr>) = destroyed E" for x
    by (intro ext) (simp add: destroyed_def)
  show ?thesis unfolding destroy_agent_def d by (simp cong: sum.case_cong option.case_cong)
qed

text \<open>Two states of the program that differ only in the values of secrets.\<close>

definition same_but_secrets :: "web_state \<Rightarrow> web_state \<Rightarrow> bool" where
  "same_but_secrets s s' \<longleftrightarrow>
     ws_cp s = ws_cp s' \<and> ws_config_allow s = ws_config_allow s' \<and> same_names (ws_secrets s) (ws_secrets s')"

definition same_reply :: "api \<times> web_state \<Rightarrow> api \<times> web_state \<Rightarrow> bool" where
  "same_reply r r' \<longleftrightarrow> fst r = fst r' \<and> same_but_secrets (snd r) (snd r')"

lemma act_env_same:
  "act_env E s = (we_act E)\<lparr>ae_secrets := ws_secrets s\<rparr>" by (simp add: act_env_def)

lemma same_destroy: "destroy_agent (act_env E s) n b cp = destroy_agent (act_env E s') n b cp"
  unfolding act_env_same by (rule destroy_no_secrets)

lemma same_force_remove:
  assumes "same_but_secrets s s'"
  shows "same_but_secrets (force_remove E n s) (force_remove E n s')"
  using assms same_destroy [of E s n True "ws_cp s" s']
  by (auto simp: same_but_secrets_def force_remove_def split: prod.split sum.split option.split)

lemma same_force_removes:
  "same_but_secrets s s' \<Longrightarrow> same_but_secrets (fold (force_remove E) ns s) (fold (force_remove E) ns s')"
  by (induction ns arbitrary: s s') (auto intro: same_force_remove)

lemma same_on_ws: "same_but_secrets s s' \<Longrightarrow> same_but_secrets (on_ws f s) (on_ws f s')"
  by (simp add: same_but_secrets_def on_ws_def)

lemma same_reply_handlers:
  assumes "same_but_secrets s s'"
  shows "same_reply (daemon_remove E i force s) (daemon_remove E i force s')"
    "same_reply (daemon_labels E i sl rm s) (daemon_labels E i sl rm s')"
    "same_reply (agent_action E name action force s) (agent_action E name action force s')"
    "same_reply (agent_update E name a s) (agent_update E name a s')"
    "same_reply (daemon_approve E i s) (daemon_approve E i s')"
    "same_reply (operator_approve E i s) (operator_approve E i s')"
    "same_reply (pending_approve E i s) (pending_approve E i s')"
    "same_reply (pending_dismiss i s) (pending_dismiss i s')"
proof -
  have c: "ws_cp s' = ws_cp s" using assms by (simp add: same_but_secrets_def)
  note rs = same_reply_def same_on_ws [OF assms] c assms
  show "same_reply (daemon_remove E i force s) (daemon_remove E i force s')"
    by (auto simp: daemon_remove_def rs Let_def same_on_ws [OF same_force_removes [OF assms]]
        split: sum.split)
  show "same_reply (daemon_labels E i sl rm s) (daemon_labels E i sl rm s')"
    by (auto simp: daemon_labels_def rs Let_def split: sum.split)
  show "same_reply (agent_action E name action force s) (agent_action E name action force s')"
    using same_destroy [of E s name "unwrap_or False force" "ws_cp s" s'] assms
    by (auto simp: agent_action_def same_reply_def same_but_secrets_def split: prod.split sum.split)
  show "same_reply (agent_update E name a s) (agent_update E name a s')"
    by (auto simp: agent_update_def rs Let_def split: sum.split option.split auto_suspend_policy.split)
  show "same_reply (daemon_approve E i s) (daemon_approve E i s')"
    by (auto simp: daemon_approve_def rs split: option.split)
  show "same_reply (operator_approve E i s) (operator_approve E i s')"
    using assms by (auto simp: operator_approve_def same_reply_def same_but_secrets_def on_ws_def split: option.split)
  show "same_reply (pending_approve E i s) (pending_approve E i s')"
    by (auto simp: pending_approve_def rs Let_def split: list.split)
  show "same_reply (pending_dismiss i s) (pending_dismiss i s')"
    by (simp add: pending_dismiss_def rs)
qed

lemma same_secret_change:
  assumes "same_but_secrets s s'" "cipher_works (we_seal E) (we_unseal E)"
  shows "same_reply (secret_change E op s) (secret_change E op s')"
  using same_names_run_op [of "ws_secrets s" "ws_secrets s'", OF _ assms(2), of "we_key_ok E" op] assms(1)
  by (auto simp: secret_change_def same_reply_def same_but_secrets_def on_ws_def split: prod.split sum.split)

lemma same_create:
  assumes "same_but_secrets s s'"
  shows "fst (agent_create E i t m require daemon s) = fst (agent_create E i t m require daemon s') \<and>
    same_but_secrets (fst (snd (agent_create E i t m require daemon s)))
      (fst (snd (agent_create E i t m require daemon s')))"
proof (cases "body_manifest E t m")
  case (Inr mf)
  define B where "B = (\<lambda>x. create_agent_background (act_env E x) i mf (unwrap_or [] require) daemon (ws_cp s))"
  obtain r cp1 cp2 cp2' where b: "B s = (r, cp1, cp2)" "B s' = (r, cp1, cp2')"
    using background_answer [of "ws_secrets s" "ws_secrets s'" "we_act E" i mf "unwrap_or [] require" daemon "ws_cp s"]
      assms
    by (cases "B s"; cases "B s'") (auto simp: B_def act_env_def same_but_secrets_def)
  have c: "ws_cp s' = ws_cp s" using assms by (simp add: same_but_secrets_def)
  show ?thesis
    using assms b Inr unfolding B_def
    by (auto simp: agent_create_def c same_but_secrets_def split: sum.split)
qed (use assms in \<open>simp add: agent_create_def\<close>)

lemma same_readers:
  assumes "same_but_secrets s s'"
  shows "secrets_inventory E s = secrets_inventory E s'" "providers_annotated E s = providers_annotated E s'"
  using assms same_names_inventory [of "ws_secrets s" "ws_secrets s'"]
  by (simp_all add: secrets_inventory_def providers_annotated_def same_but_secrets_def same_names_def)

lemma cp_readers:
  assumes "ws_cp s' = ws_cp s"
  shows "overview E s' = overview E s" "daemons_list E s' = daemons_list E s"
    "daemon_details E d s' = daemon_details E d s" "pending_daemons_list E s' = pending_daemons_list E s"
    "agents_list E s' = agents_list E s" "agent_details E n s' = agent_details E n s"
    "agent_logs E n tail kind q s' = agent_logs E n tail kind q s" "session_state E n s' = session_state E n s"
    "session_history E n roles tail s' = session_history E n roles tail s" "operators_list s' = operators_list s"
  unfolding overview_def daemons_list_def daemon_details_def pending_daemons_list_def agents_list_def
    agent_details_def agent_logs_def session_state_def session_history_def lookup_agent_row_def
    operators_list_def assms by (rule HOL.refl)+

definition same_serve :: "api \<times> web_state \<times> web_state \<Rightarrow> api \<times> web_state \<times> web_state \<Rightarrow> bool" where
  "same_serve r r' \<longleftrightarrow> fst r = fst r' \<and> same_but_secrets (fst (snd r)) (fst (snd r'))"

lemma same_at_once: "same_reply x x' \<Longrightarrow> same_serve (at_once x) (at_once x')"
  by (simp add: same_serve_def same_reply_def at_once_def)

lemma serve_same:
  assumes "same_but_secrets s s'" "cipher_works (we_seal E) (we_unseal E)" "\<forall>k n. req \<noteq> RqSecretReveal k n"
  shows "same_serve (serve E i req s) (serve E i req s')"
proof -
  have c: "ws_cp s' = ws_cp s" using assms(1) by (simp add: same_but_secrets_def)
  have read: "same_reply (y, s) (y', s')" if "y' = y" for y y'
    using that assms(1) by (simp add: same_reply_def)
  have create: "same_serve (agent_create E i t m require daemon s) (agent_create E i t m require daemon s')"
    for t m require daemon
    using same_create [OF assms(1)] by (simp add: same_serve_def)
  show ?thesis
    using assms(3)
    by (cases req)
      (auto simp: serve_def cp_readers [OF c] same_readers [OF assms(1)]
        intro: create same_at_once read same_reply_handlers [OF assms(1)] same_secret_change [OF assms(1,2)])
qed

text \<open>C26
  The API never gives a secret away. Take two states of the control plane that differ only in the
  values of the stored secrets. Every request but a reveal - listings, details, logs, creations,
  changes of secrets and their failures included - is answered alike in both, and leaves the control
  plane, with its audit trail, its events and its orders, alike. A reveal that succeeds is in the
  audit trail with kind and name, and without the value.\<close>

theorem secrets_never_leave:
  assumes "same_but_secrets s s'" "cipher_works (we_seal E) (we_unseal E)"
    and "serve E i req s = (out, t, u)" "serve E i req s' = (out', t', u')"
  shows "case req of
      RqSecretReveal kind name \<Rightarrow> is_ok out \<longrightarrow> cp_audit (ws_cp t) = cp_audit (ws_cp s) @
        [(''secret_reveal'', [(''kind'', kind), (''name'', name), (''actor'', ''web'')])]
    | _ \<Rightarrow> out = out' \<and> same_but_secrets t t'"
proof (cases req)
  case (RqSecretReveal kind name)
  then show ?thesis
    using assms(3)
    by (auto simp: serve_def at_once_def secret_reveal_def err_def on_ws_def audit_def split: sum.splits)
qed (use serve_same [OF assms(1,2), of req i] assms(3,4) in \<open>simp_all add: same_serve_def\<close>)

section \<open>Concrete states\<close>

definition demo_web :: web_env where
  "demo_web =
     \<lparr>we_act = demo_action_env, we_endpoint = ''e'', we_version = ''1'', we_parse = (\<lambda>_. None),
      we_print = (\<lambda>_. []), we_toml_manifest = (\<lambda>_. Inl []), we_json_manifest = (\<lambda>_. Inl []),
      we_manifest_json = (\<lambda>_. JNull), we_manifest_toml = (\<lambda>_. []), we_model_json = (\<lambda>_. JNull),
      we_capacity_json = (\<lambda>_. JNull), we_usage_json = (\<lambda>_. JNull), we_providers = JNull,
      we_show_store = (\<lambda>_. []), we_show_action = (\<lambda>_. []), we_show_catalog = (\<lambda>_. []),
      we_show_secrets = (\<lambda>_. []), we_show_duration = (\<lambda>_. []), we_key_ok = (\<lambda>_. True),
      we_seal = (\<lambda>_. Some []), we_unseal = (\<lambda>_. Some empty_store_file),
      we_log = (\<lambda>_. None), we_audit_file = None\<rparr>"

definition web_demo :: "string \<Rightarrow> web_state" where
  "web_demo v =
     \<lparr>ws_cp = demo_action_cp\<lparr>cp_store := approve_daemon ''d'' demo_store\<rparr>,
      ws_secrets = \<lparr>sec_store = Some (empty_store_file\<lparr>sf_providers := [(''openai'', v)]\<rparr>),
        sec_file = Some [], sec_tmp = None\<rparr>,
      ws_config_allow = None\<rparr>"

lemma web_demo_agents:
  "st_agents (ws_store (web_demo v)) = st_agents demo_store"
  by (simp add: web_demo_def approve_daemon_def delete_pending_daemon_def)

theorem daemon_removal_leaves_no_agent_witness:
  "\<exists>x s'. daemon_remove demo_web ''d'' (Some True) (web_demo ''key'') = (Inr x, s') \<and>
     (\<forall>r \<in> set (st_agents (ws_store s')). t_daemon_endpoint_id r \<noteq> ''d'')"
proof -
  obtain out s' where o: "daemon_remove demo_web ''d'' (Some True) (web_demo ''key'') = (out, s')" by fastforce
  have inv: "agents_inv (ws_store (web_demo ''key''))"
    using reachable_store_inv [OF demo_reachable]
    by (simp add: agents_inv_def web_demo_agents store_inv_def)
  have d: "\<exists>d. resolve_daemon (list_daemons (ws_store (web_demo ''key''))) ''d'' = Inr d \<and> d_endpoint_id d = ''d''"
    by (simp add: web_demo_def list_daemons_def approve_daemon_def delete_pending_daemon_def demo_store_def
        create_agent_def empty_store_def emit_def resolve_daemon_def blank_daemon_def upsert_row_def)
  show ?thesis
    using daemon_removal_leaves_no_agent [OF inv o] d o by (cases out) auto
qed

theorem secrets_never_leave_witness:
  "fst (serve demo_web ''x'' RqSecrets (web_demo ''key-a'')) = fst (serve demo_web ''x'' RqSecrets (web_demo ''key-b'')) \<and>
   ws_secrets (web_demo ''key-a'') \<noteq> ws_secrets (web_demo ''key-b'')"
proof -
  have s: "same_but_secrets (web_demo ''key-a'') (web_demo ''key-b'')"
    by (simp add: same_but_secrets_def web_demo_def same_names_def same_keys_def empty_store_file_def)
  have c: "cipher_works (we_seal demo_web) (we_unseal demo_web)"
    by (simp add: cipher_works_def demo_web_def)
  have "fst (serve demo_web ''x'' RqSecrets (web_demo ''key-a'')) = fst (serve demo_web ''x'' RqSecrets (web_demo ''key-b''))"
    using secrets_never_leave [OF s c, of "''x''" RqSecrets]
    by (cases "serve demo_web ''x'' RqSecrets (web_demo ''key-a'')";
        cases "serve demo_web ''x'' RqSecrets (web_demo ''key-b'')") simp
  then show ?thesis by (simp add: web_demo_def empty_store_file_def)
qed

end
