(* ===== verification/Base64.thy ===== *)
theory Base64
  imports Prelude
begin

unbundle bit_operations_syntax

text \<open>
  The hand-written base64 codec of bundle transfers (\<open>base64_encode\<close> and \<open>base64_decode\<close> in
  crates/suzerain/src/bundle.rs), on 32-bit groups as the code packs them, and its round trip.
\<close>

definition alphabet :: string where
  "alphabet = ''ABCDEFGHIJKLMNOPQRSTUVWXYZabcdefghijklmnopqrstuvwxyz0123456789+/''"

fun chunks3 :: "'a list \<Rightarrow> 'a list list" where
  "chunks3 (a # b # c # xs) = [a, b, c] # chunks3 xs"
| "chunks3 [] = []"
| "chunks3 xs = [xs]"

fun chunks4 :: "'a list \<Rightarrow> 'a list list" where
  "chunks4 (a # b # c # d # xs) = [a, b, c, d] # chunks4 xs"
| "chunks4 [] = []"
| "chunks4 xs = [xs]"

definition chunk_at :: "u8 list \<Rightarrow> nat \<Rightarrow> u8" where
  "chunk_at chunk i = (if i < length chunk then chunk ! i else 0)"

definition pack3 :: "u8 list \<Rightarrow> u32" where
  "pack3 chunk = push_bit 16 (ucast (chunk_at chunk 0)) OR push_bit 8 (ucast (chunk_at chunk 1)) OR
     ucast (chunk_at chunk 2)"

definition six_bits :: "nat \<Rightarrow> u32 \<Rightarrow> u32" where
  "six_bits k n = drop_bit k n AND 63"

definition sextet :: "nat \<Rightarrow> u32 \<Rightarrow> char" where
  "sextet k n = alphabet ! unat (six_bits k n)"

definition encode_chunk :: "u8 list \<Rightarrow> string" where
  "encode_chunk chunk =
     (let n = pack3 chunk
      in [sextet 18 n, sextet 12 n,
          (if length chunk > 1 then sextet 6 n else CHR ''=''),
          (if length chunk > 2 then sextet 0 n else CHR ''='')])"

definition base64_encode :: "u8 list \<Rightarrow> string" where
  "base64_encode data = concat (map encode_chunk (chunks3 data))"

datatype base64_error = InvalidBase64 char

definition b64_val :: "char \<Rightarrow> base64_error + u32" where
  "b64_val c =
     (let k = (of_char c :: nat)
      in if 65 \<le> k \<and> k \<le> 90 then Inr (of_nat (k - 65))
         else if 97 \<le> k \<and> k \<le> 122 then Inr (of_nat (k - 97 + 26))
         else if 48 \<le> k \<and> k \<le> 57 then Inr (of_nat (k - 48 + 52))
         else if c = CHR ''+'' then Inr 62
         else if c = CHR ''/'' then Inr 63
         else Inl (InvalidBase64 c))"

fun unpack4 :: "nat \<Rightarrow> string \<Rightarrow> u32 \<Rightarrow> base64_error + u32" where
  "unpack4 i [] n = Inr n"
| "unpack4 i (c # cs) n =
     (if c = CHR ''='' then unpack4 (Suc i) cs n
      else res_bind (b64_val c) (\<lambda>v. unpack4 (Suc i) cs (n OR push_bit (18 - 6 * i) v)))"

definition decode_chunk :: "string \<Rightarrow> base64_error + u8 list" where
  "decode_chunk chunk =
     (let pad = length (filter (\<lambda>c. c = CHR ''='') chunk)
      in res_bind (unpack4 0 chunk 0) (\<lambda>n.
           Inr (ucast (drop_bit 16 n) # (if pad < 2 then [ucast (drop_bit 8 n)] else []) @
             (if pad < 1 then [ucast n] else []))))"

text \<open>\<open>u8::is_ascii_whitespace\<close>: space, tab, line feed, form feed, carriage return.\<close>

definition is_ascii_ws :: "char \<Rightarrow> bool" where
  "is_ascii_ws c \<longleftrightarrow> (let n = (of_char c :: nat) in n = 32 \<or> n = 9 \<or> n = 10 \<or> n = 12 \<or> n = 13)"

definition base64_decode :: "string \<Rightarrow> base64_error + u8 list" where
  "base64_decode text =
     res_bind (map_ok decode_chunk (chunks4 (filter (\<lambda>c. \<not> is_ascii_ws c) text)))
       (\<lambda>out. Inr (concat out))"

section \<open>Sextets\<close>

lemma alphabet_vals: "map b64_val alphabet = map (\<lambda>k. Inr (of_nat k)) [0..<64]"
  by (simp add: alphabet_def b64_val_def Let_def upt_conv_Cons)

lemma alphabet_plain: "list_all (\<lambda>c. c \<noteq> CHR ''='' \<and> \<not> is_ascii_ws c) alphabet"
  by (simp add: alphabet_def is_ascii_ws_def Let_def)

lemma alphabet_length: "length alphabet = 64"
  by (simp add: alphabet_def)

lemma alphabet_props:
  assumes "k < 64"
  shows "b64_val (alphabet ! k) = Inr (of_nat k)" "alphabet ! k \<noteq> CHR ''=''"
    "\<not> is_ascii_ws (alphabet ! k)"
  using assms arg_cong [OF alphabet_vals, of "\<lambda>xs. xs ! k"] alphabet_plain
  by (simp_all add: alphabet_length list_all_length)

lemma and_63_less: "unat (w AND 63 :: u32) < 64"
proof -
  have "w AND 63 \<le> 63" by (rule word_and_le1)
  then have "unat (w AND 63) \<le> unat (63 :: u32)" by (simp only: word_le_nat_alt)
  then show ?thesis by simp
qed

lemma sextet_props [simp]:
  "b64_val (sextet k n) = Inr (six_bits k n)" "sextet k n \<noteq> CHR ''=''"
  "\<not> is_ascii_ws (sextet k n)"
  using alphabet_props [OF and_63_less, of "drop_bit k n"] by (simp_all add: sextet_def six_bits_def)

lemma bit_63: "bit (63 :: u32) i \<longleftrightarrow> i < 6"
proof -
  have "(63 :: u32) = mask 6" by (simp add: mask_eq_exp_minus_1)
  then have "bit (63 :: u32) i \<longleftrightarrow> bit (mask 6 :: u32) i" by (simp only:)
  also have "\<dots> \<longleftrightarrow> i < 6" unfolding bit_mask_iff by auto
  finally show ?thesis .
qed

lemma bit_six_bits: "bit (six_bits k n) i \<longleftrightarrow> i < 6 \<and> bit n (k + i)"
  unfolding six_bits_def bit_and_iff bit_63 by (auto simp: bit_drop_bit_eq)

lemma bit_pack3: "bit (pack3 chunk) i \<longleftrightarrow>
    16 \<le> i \<and> i < 24 \<and> bit (chunk_at chunk 0) (i - 16) \<or>
    8 \<le> i \<and> i < 16 \<and> bit (chunk_at chunk 1) (i - 8) \<or> i < 8 \<and> bit (chunk_at chunk 2) i"
  by (auto simp: pack3_def bit_simps dest: bit_imp_le_length)

lemma regroup:
  assumes "\<forall>i \<ge> 24. \<not> bit n i"
  shows "push_bit 18 (six_bits 18 n) OR push_bit 12 (six_bits 12 n) OR
    push_bit 6 (six_bits 6 n) OR six_bits 0 n = n"
proof (rule bit_word_eqI)
  fix i :: nat
  consider "i < 6" | "6 \<le> i" "i < 12" | "12 \<le> i" "i < 18" | "18 \<le> i" "i < 24" | "24 \<le> i"
    by linarith
  then show "bit (push_bit 18 (six_bits 18 n) OR push_bit 12 (six_bits 12 n) OR
      push_bit 6 (six_bits 6 n) OR six_bits 0 n) i = bit n i"
    by cases (use assms in \<open>auto simp: bit_simps bit_six_bits less_diff_conv2 dest: bit_imp_le_length\<close>)
qed

section \<open>Round trip\<close>

lemma pack3_high: "\<forall>i \<ge> 24. \<not> bit (pack3 chunk) i"
  by (auto simp: bit_pack3)

lemma pack3_tail:
  "six_bits 0 (pack3 [a, b]) = 0" "six_bits 0 (pack3 [a]) = 0" "six_bits 6 (pack3 [a]) = 0"
  by (rule bit_word_eqI; auto simp: bit_six_bits bit_pack3 chunk_at_def)+

lemma unpack_bytes:
  "ucast (drop_bit 16 (pack3 chunk)) = chunk_at chunk 0"
  "ucast (drop_bit 8 (pack3 chunk)) = chunk_at chunk 1"
  "ucast (pack3 chunk) = chunk_at chunk 2"
  by (rule bit_word_eqI; auto simp: bit_simps bit_pack3)+

lemma decode_encode_chunk:
  assumes "chunk \<noteq> []" "length chunk \<le> 3"
  shows "decode_chunk (encode_chunk chunk) = Inr chunk"
proof -
  let ?n = "pack3 chunk"
  have r: "push_bit 18 (six_bits 18 ?n) OR push_bit 12 (six_bits 12 ?n) OR
      push_bit 6 (six_bits 6 ?n) OR six_bits 0 ?n = ?n"
    by (rule regroup) (rule pack3_high)
  consider a where "chunk = [a]" | a b where "chunk = [a, b]" | a b c where "chunk = [a, b, c]"
    using assms by (cases chunk rule: chunks3.cases) auto
  then show ?thesis
  proof cases
    case 1
    then show ?thesis
      using r pack3_tail unpack_bytes [of chunk]
      by (simp add: decode_chunk_def encode_chunk_def Let_def numeral_2_eq_2 chunk_at_def ac_simps)
  next
    case 2
    then show ?thesis
      using r pack3_tail unpack_bytes [of chunk]
      by (simp add: decode_chunk_def encode_chunk_def Let_def chunk_at_def ac_simps)
  next
    case 3
    then show ?thesis
      using r unpack_bytes [of chunk]
      by (simp add: decode_chunk_def encode_chunk_def Let_def chunk_at_def ac_simps)
  qed
qed

lemma chunks3_parts: "\<forall>c \<in> set (chunks3 xs). c \<noteq> [] \<and> length c \<le> 3"
  by (induction xs rule: chunks3.induct) auto

lemma concat_chunks3: "concat (chunks3 xs) = xs"
  by (induction xs rule: chunks3.induct) auto

lemma length_encode_chunk [simp]: "length (encode_chunk chunk) = 4"
  by (simp add: encode_chunk_def Let_def)

lemma chunks4_concat: "\<forall>c \<in> set cs. length c = 4 \<Longrightarrow> chunks4 (concat cs) = cs"
proof (induction cs)
  case (Cons c cs)
  then obtain p q r t where "c = [p, q, r, t]"
    by (auto simp: length_Suc_conv numeral_eq_Suc)
  with Cons show ?case by simp
qed simp

lemma encode_no_ws: "list_all (\<lambda>c. \<not> is_ascii_ws c) (base64_encode data)"
proof -
  have "\<not> is_ascii_ws CHR ''=''" by (simp add: is_ascii_ws_def)
  then have "list_all (\<lambda>c. \<not> is_ascii_ws c) (encode_chunk chunk)" for chunk
    by (simp add: encode_chunk_def Let_def)
  then show ?thesis by (simp add: base64_encode_def list_all_iff)
qed

lemma map_ok_all: "(\<And>x. x \<in> set xs \<Longrightarrow> f (g x) = Inr x) \<Longrightarrow> map_ok f (map g xs) = Inr xs"
  by (induction xs) auto

lemma base64_roundtrip_ws:
  assumes "filter (\<lambda>c. \<not> is_ascii_ws c) text = base64_encode data"
  shows "base64_decode text = Inr data"
proof -
  have "chunks4 (base64_encode data) = map encode_chunk (chunks3 data)"
    unfolding base64_encode_def by (rule chunks4_concat) simp
  moreover have "map_ok decode_chunk (map encode_chunk (chunks3 data)) = Inr (chunks3 data)"
    by (rule map_ok_all) (simp add: decode_encode_chunk chunks3_parts)
  ultimately show ?thesis by (simp add: base64_decode_def assms concat_chunks3)
qed

lemma base64_roundtrip: "base64_decode (base64_encode data) = Inr data"
  by (rule base64_roundtrip_ws) (simp add: encode_no_ws list_all_iff [symmetric] filter_id_conv)

text \<open>
  Base64 round trip: decoding what the encoder wrote gives back exactly the bytes, wherever
  white space is inserted into the text, and the encoded text has four characters per started
  group of three bytes.\<close>

theorem base64_decode_encode:
  assumes "filter (\<lambda>c. \<not> is_ascii_ws c) text = base64_encode data"
  shows "base64_decode text = Inr data \<and> base64_decode (base64_encode data) = Inr data \<and>
    length (base64_encode data) = 4 * ((length data + 2) div 3)"
proof -
  have "length (concat (map encode_chunk (chunks3 xs))) = 4 * ((length xs + 2) div 3)" for xs
  proof (induction xs rule: chunks3.induct)
    case (1 a b c xs)
    have "(length (a # b # c # xs) + 2) div 3 = Suc ((length xs + 2) div 3)" by simp
    with 1 show ?case by simp
  qed auto
  then show ?thesis
    using base64_roundtrip_ws [OF assms] base64_roundtrip by (simp add: base64_encode_def)
qed

theorem base64_decode_encode_witness:
  "base64_decode ''TW E='' = Inr [77, 97]"
proof -
  have "filter (\<lambda>c. \<not> is_ascii_ws c) ''TW E='' = base64_encode [77, 97]" by code_simp
  from base64_decode_encode [OF this] show ?thesis by simp
qed

text \<open>Text without its padding decodes to extra zero bytes instead of being refused.\<close>

lemma unpadded_gains_zeros: "base64_decode ''TQ'' = Inr [77, 0, 0]"
  by code_simp

end
