(* ===== verification/Bundle_Store.thy ===== *)
theory Bundle_Store
  imports Base64 Messages
begin

text \<open>
  The central store of restore bundles (crates/suzerain/src/bundle.rs). A path is the list of its
  components, as the file system sees it: empty components and dots vanish; the parent component
  never occurs (the code refuses any text with two dots). The file system is a map from paths to
  bytes; a bundle's \<open>meta.json\<close> is the record \<open>bundle_meta\<close>. The checksum function (sha2 crate)
  is the parameter \<open>sha\<close>. Failures of the file system other than "not found" are not modelled.
\<close>

section \<open>Paths and files\<close>

type_synonym path = "string list"

definition components :: "string \<Rightarrow> path" where
  "components s = filter (\<lambda>c. c \<noteq> [] \<and> c \<noteq> ''.'') (split_on (\<lambda>c. c = CHR ''/'') s)"

text \<open>\<open>Path::join\<close>: an absolute argument replaces the base.\<close>

definition path_join :: "path \<Rightarrow> string \<Rightarrow> path" where
  "path_join base rel = (if starts_with rel ''/'' then components rel else base @ components rel)"

record bundle_meta =
  bm_manifest :: agent_manifest
  bm_session_file :: "string option"
  bm_files :: labels

record bundle_store =
  bs_files :: "(path \<times> u8 list) list"
  bs_meta :: "(uuid \<times> bundle_meta) list"

definition put :: "'k \<Rightarrow> 'v \<Rightarrow> ('k \<times> 'v) list \<Rightarrow> ('k \<times> 'v) list" where
  "put k v m = (k, v) # bt_remove k m"

lemma map_of_put [simp]: "map_of (put k v m) = (map_of m)(k \<mapsto> v)"
  by (auto simp: put_def bt_lookup_remove)

lemma keys_put [simp]: "fst ` set (put k v m) = insert k (fst ` set m)"
  by (auto simp: put_def bt_remove_def image_iff)

datatype bundle_error =
    UnsafePath string
  | BadBase64 base64_error
  | ChecksumMismatch string
  | NoBundle uuid

record stored_bundle =
  bl_manifest :: agent_manifest
  bl_session_file :: "string option"
  bl_files :: "(string \<times> path) list"
  bl_hashes :: labels

section \<open>Operations\<close>

definition bundle_dir_in :: "path \<Rightarrow> uuid \<Rightarrow> path" where
  "bundle_dir_in base agent_id = base @ [agent_id]"

definition files_dir :: "path \<Rightarrow> uuid \<Rightarrow> path" where
  "files_dir base agent_id = bundle_dir_in base agent_id @ [''files'']"

definition write_start_in ::
    "path \<Rightarrow> uuid \<Rightarrow> agent_manifest \<Rightarrow> string option \<Rightarrow> bundle_store \<Rightarrow> bundle_store" where
  "write_start_in base agent_id manifest session_file s =
     s\<lparr>bs_files := filter (\<lambda>(p, _). \<not> prefix (files_dir base agent_id) p) (bs_files s),
       bs_meta := put agent_id \<lparr>bm_manifest = manifest, bm_session_file = session_file,
         bm_files = []\<rparr> (bs_meta s)\<rparr>"

definition record_hash_in ::
    "uuid \<Rightarrow> string \<Rightarrow> string \<Rightarrow> bundle_store \<Rightarrow> bundle_error + bundle_store" where
  "record_hash_in agent_id rel_path sha256 s =
     (case map_of (bs_meta s) agent_id of
        None \<Rightarrow> Inl (NoBundle agent_id)
      | Some meta \<Rightarrow>
          Inr (s\<lparr>bs_meta := put agent_id
             (meta\<lparr>bm_files := bt_insert rel_path sha256 (bm_files meta)\<rparr>) (bs_meta s)\<rparr>))"

definition write_file_in ::
    "(u8 list \<Rightarrow> string) \<Rightarrow> path \<Rightarrow> uuid \<Rightarrow> string \<Rightarrow> string \<Rightarrow> string option \<Rightarrow> bundle_store \<Rightarrow>
      (bundle_error + unit) \<times> bundle_store" where
  "write_file_in sha base agent_id rel_path data_base64 sha256 s =
     (if contains_str rel_path ''..'' then (Inl (UnsafePath rel_path), s)
      else case base64_decode data_base64 of
        Inl e \<Rightarrow> (Inl (BadBase64 e), s)
      | Inr bytes \<Rightarrow>
          if (case sha256 of None \<Rightarrow> False | Some want \<Rightarrow> sha bytes \<noteq> want)
          then (Inl (ChecksumMismatch rel_path), s)
          else
            (let dest = path_join (files_dir base agent_id) rel_path;
                 s1 = s\<lparr>bs_files := put dest bytes (bs_files s)\<rparr>
             in case record_hash_in agent_id rel_path (sha bytes) s1 of
                  Inl e \<Rightarrow> (Inl e, s1) | Inr s2 \<Rightarrow> (Inr (), s2)))"

text \<open>\<open>collect\<close>: every file below the root with its path relative to it.\<close>

definition collect :: "path \<Rightarrow> (path \<times> u8 list) list \<Rightarrow> (string \<times> path) list" where
  "collect base fs = map (\<lambda>(p, _). (join ''/'' (drop (length base) p), p))
     (filter (\<lambda>(p, _). strict_prefix base p) fs)"

definition load_in :: "path \<Rightarrow> uuid \<Rightarrow> bundle_store \<Rightarrow> bundle_error + stored_bundle" where
  "load_in base agent_id s =
     (case map_of (bs_meta s) agent_id of
        None \<Rightarrow> Inl (NoBundle agent_id)
      | Some meta \<Rightarrow>
          Inr \<lparr>bl_manifest = bm_manifest meta, bl_session_file = bm_session_file meta,
               bl_files = collect (files_dir base agent_id) (bs_files s),
               bl_hashes = bm_files meta\<rparr>)"

section \<open>Receiving an upload (control.rs)\<close>

text \<open>
  \<open>handle_bundle_upload\<close>: one \<open>Start\<close>, files, \<open>End\<close>; the first failure ends the stream. A stream
  that stops early fails the read.
\<close>

datatype upload_error =
    ExpectedStart bundle_message
  | UnexpectedMessage bundle_message
  | StreamEnded
  | BundleFailed bundle_error

fun receive_files ::
    "(u8 list \<Rightarrow> string) \<Rightarrow> path \<Rightarrow> uuid \<Rightarrow> bundle_message list \<Rightarrow> bundle_store \<Rightarrow>
      (upload_error + unit) \<times> bundle_store" where
  "receive_files sha base agent_id [] s = (Inl StreamEnded, s)"
| "receive_files sha base agent_id (m # ms) s =
     (case m of
        BundleFile rel data _ sha256 \<Rightarrow>
          (case write_file_in sha base agent_id rel data sha256 s of
             (Inl e, s') \<Rightarrow> (Inl (BundleFailed e), s')
           | (Inr _, s') \<Rightarrow> receive_files sha base agent_id ms s')
      | BundleEnd \<Rightarrow> (Inr (), s)
      | other \<Rightarrow> (Inl (UnexpectedMessage other), s))"

definition handle_bundle_upload ::
    "(u8 list \<Rightarrow> string) \<Rightarrow> path \<Rightarrow> uuid \<Rightarrow> bundle_message list \<Rightarrow> bundle_store \<Rightarrow>
      (upload_error + unit) \<times> bundle_store" where
  "handle_bundle_upload sha base agent_id ms s =
     (case ms of
        [] \<Rightarrow> (Inl StreamEnded, s)
      | m # rest \<Rightarrow>
          (case m of
             BundleStart manifest session_file _ \<Rightarrow>
               receive_files sha base agent_id rest (write_start_in base agent_id manifest session_file s)
           | other \<Rightarrow> (Inl (ExpectedStart other), s)))"

text \<open>The ack the uploader reads: its message is the error's text.\<close>

definition upload_ack :: "(upload_error \<Rightarrow> string) \<Rightarrow> upload_error + unit \<Rightarrow> bundle_ack" where
  "upload_ack text r = (case r of
     Inr _ \<Rightarrow> \<lparr>ba_success = True, ba_message = None\<rparr>
   | Inl e \<Rightarrow> \<lparr>ba_success = False, ba_message = Some (text e)\<rparr>)"

section \<open>The interface\<close>

text \<open>
  The trait \<open>SnapshotStore\<close>: an upload replaces the agent's bundle, a file written under a safe
  relative path reads back with its checksum, and bundles of different agents never meet.
\<close>

definition safe_rel :: "string \<Rightarrow> bool" where
  "safe_rel rel \<longleftrightarrow> \<not> starts_with rel ''/'' \<and> \<not> contains_str rel ''..'' \<and> components rel \<noteq> []"

definition stored_file :: "path \<Rightarrow> uuid \<Rightarrow> path \<Rightarrow> bundle_store \<Rightarrow> u8 list option" where
  "stored_file base agent_id p s = map_of (bs_files s) (files_dir base agent_id @ p)"

locale snapshot_store =
  fixes start :: "uuid \<Rightarrow> agent_manifest \<Rightarrow> string option \<Rightarrow> 's \<Rightarrow> 's"
    and put_file :: "uuid \<Rightarrow> string \<Rightarrow> string \<Rightarrow> string option \<Rightarrow> 's \<Rightarrow> (bundle_error + unit) \<times> 's"
    and stored :: "uuid \<Rightarrow> path \<Rightarrow> 's \<Rightarrow> u8 list option"
    and meta :: "uuid \<Rightarrow> 's \<Rightarrow> (agent_manifest \<times> string option) option"
  assumes start_meta: "meta j (start i m f s) = (if j = i then Some (m, f) else meta j s)"
    and start_stored: "stored j p (start i m f s) = (if j = i then None else stored j p s)"
    and write_meta: "meta j (snd (put_file i rel d h s)) = meta j s"
    and write_stored: "safe_rel rel \<Longrightarrow> fst (put_file i rel d h s) = Inr () \<Longrightarrow>
      stored j p (snd (put_file i rel d h s)) =
        (if j = i \<and> p = components rel then (case base64_decode d of Inr bs \<Rightarrow> Some bs | Inl _ \<Rightarrow> None)
         else stored j p s)"
    and write_ok: "safe_rel rel \<Longrightarrow> meta i s \<noteq> None \<Longrightarrow> base64_decode d = Inr bs \<Longrightarrow>
      fst (put_file i rel d None s) = Inr ()"
begin

text \<open>Writing a list of named files: all of them are stored, the last put_file to a path wins.\<close>

fun write_all :: "uuid \<Rightarrow> (string \<times> u8 list) list \<Rightarrow> 's \<Rightarrow> 's" where
  "write_all i [] s = s"
| "write_all i ((rel, bs) # fs) s = write_all i fs (snd (put_file i rel (base64_encode bs) None s))"

lemma write_all_meta: "meta j (write_all i fs s) = meta j s"
  by (induction fs arbitrary: s) (auto simp: write_meta)

lemma write_all_stored:
  assumes "\<forall>f \<in> set fs. safe_rel (fst f)" "meta i s \<noteq> None"
  shows "stored j p (write_all i fs s) =
    (if j = i then ((\<lambda>p. stored i p s) ++ map_of (rev (map (\<lambda>(rel, bs). (components rel, bs)) fs))) p
     else stored j p s)"
  using assms
proof (induction fs arbitrary: s)
  case (Cons f fs)
  obtain rel bs where f: "f = (rel, bs)" by (cases f)
  let ?s = "snd (put_file i rel (base64_encode bs) None s)"
  have ok: "fst (put_file i rel (base64_encode bs) None s) = Inr ()"
    using Cons.prems f by (intro write_ok [OF _ _ base64_roundtrip]) auto
  have st: "stored k q ?s = (if k = i \<and> q = components rel then Some bs else stored k q s)" for k q
    using Cons.prems f by (subst write_stored [OF _ ok]) (auto simp: base64_roundtrip)
  have "meta i ?s \<noteq> None" using Cons.prems by (simp add: write_meta)
  then have "stored j p (write_all i fs ?s) =
      (if j = i then ((\<lambda>p. stored i p ?s) ++ map_of (rev (map (\<lambda>(rel, bs). (components rel, bs)) fs))) p
       else stored j p ?s)"
    using Cons.prems(1) by (intro Cons.IH) auto
  then show ?case by (auto simp: f st map_add_def split: option.splits)
qed simp

end

definition bundle_head :: "uuid \<Rightarrow> bundle_store \<Rightarrow> (agent_manifest \<times> string option) option" where
  "bundle_head agent_id s =
     map_option (\<lambda>m. (bm_manifest m, bm_session_file m)) (map_of (bs_meta s) agent_id)"

lemma files_dir_inj [simp]: "files_dir base i @ p = files_dir base j @ q \<longleftrightarrow> i = j \<and> p = q"
  by (auto simp: files_dir_def bundle_dir_in_def)

lemma files_dir_prefix [simp]: "prefix (files_dir base i) (files_dir base j @ p) \<longleftrightarrow> i = j"
  by (auto simp: files_dir_def bundle_dir_in_def prefix_def)

lemma map_of_filter_keys: "map_of (filter (\<lambda>(p, _). P p) m) k = (if P k then map_of m k else None)"
  by (induction m) auto

lemma path_join_rel: "\<not> starts_with rel ''/'' \<Longrightarrow> path_join base rel = base @ components rel"
  by (simp add: path_join_def)

text \<open>One case split serves every fact about \<open>write_file_in\<close>: refused, or written.\<close>

lemma write_file_cases:
  obtains (refused) e where "write_file_in sha base i rel d h s = (Inl e, s)"
  | (written) bytes r where "base64_decode d = Inr bytes" "\<not> contains_str rel ''..''"
      "write_file_in sha base i rel d h s = (r,
         s\<lparr>bs_files := put (path_join (files_dir base i) rel) bytes (bs_files s),
           bs_meta := (case map_of (bs_meta s) i of None \<Rightarrow> bs_meta s
             | Some m \<Rightarrow> put i (m\<lparr>bm_files := bt_insert rel (sha bytes) (bm_files m)\<rparr>) (bs_meta s))\<rparr>)"
      "r = Inr () \<longleftrightarrow> map_of (bs_meta s) i \<noteq> None"
      "h = None \<or> h = Some (sha bytes)"
proof (cases "contains_str rel ''..''")
  case True
  then show thesis using refused by (simp add: write_file_in_def)
next
  case safe: False
  show thesis
  proof (cases "base64_decode d")
    case (Inl e)
    then show thesis using safe refused by (simp add: write_file_in_def)
  next
    case (Inr bytes)
    show thesis
    proof (cases "h = None \<or> h = Some (sha bytes)")
      case False
      then obtain want where "h = Some want" "sha bytes \<noteq> want" by auto
      then show thesis using safe Inr refused by (simp add: write_file_in_def)
    next
      case True
      then have g: "\<not> (case h of None \<Rightarrow> False | Some want \<Rightarrow> sha bytes \<noteq> want)" by auto
      show thesis
      proof (cases "map_of (bs_meta s) i")
        case None
        then show thesis
          using safe Inr g True by (intro written [of bytes "Inl (NoBundle i)"])
            (simp_all add: write_file_in_def record_hash_in_def Let_def)
      next
        case (Some m)
        then show thesis
          using safe Inr g True by (intro written [of bytes "Inr ()"])
            (simp_all add: write_file_in_def record_hash_in_def Let_def)
      qed
    qed
  qed
qed

interpretation snap: snapshot_store "write_start_in base" "write_file_in sha base"
  "stored_file base" bundle_head for base sha
proof unfold_locales
  fix i j :: uuid and m f s p rel d h bs
  show "bundle_head j (write_start_in base i m f s) = (if j = i then Some (m, f) else bundle_head j s)"
    by (simp add: bundle_head_def write_start_in_def)
  show "stored_file base j p (write_start_in base i m f s) =
      (if j = i then None else stored_file base j p s)"
    by (simp add: stored_file_def write_start_in_def map_of_filter_keys)
  show "bundle_head j (snd (write_file_in sha base i rel d h s)) = bundle_head j s"
    by (cases rule: write_file_cases [of sha base i rel d h s])
      (auto simp: bundle_head_def split: option.splits)
  show "stored_file base j p (snd (write_file_in sha base i rel d h s)) =
      (if j = i \<and> p = components rel then (case base64_decode d of Inr bs \<Rightarrow> Some bs | Inl _ \<Rightarrow> None)
       else stored_file base j p s)"
    if "safe_rel rel" "fst (write_file_in sha base i rel d h s) = Inr ()"
    by (cases rule: write_file_cases [of sha base i rel d h s])
      (use that in \<open>auto simp: stored_file_def safe_rel_def path_join_rel\<close>)
  show "fst (write_file_in sha base i rel d None s) = Inr ()"
    if "safe_rel rel" "bundle_head i s \<noteq> None" "base64_decode d = Inr bs"
    using that by (auto simp: write_file_in_def safe_rel_def bundle_head_def record_hash_in_def Let_def
        split: option.splits)
qed

section \<open>Properties\<close>

lemma receive_files_write_all:
  assumes "\<forall>f \<in> set fs. safe_rel (fst f)" "bundle_head i s \<noteq> None"
  shows "receive_files sha base i
      (map (\<lambda>(rel, bs). BundleFile rel (base64_encode bs) True None) fs @ [BundleEnd]) s =
    (Inr (), snap.write_all sha base i fs s)"
  using assms
proof (induction fs arbitrary: s)
  case (Cons f fs)
  obtain rel bs where f: "f = (rel, bs)" by (cases f)
  obtain r s' where r: "write_file_in sha base i rel (base64_encode bs) None s = (r, s')"
    by fastforce
  have "r = Inr ()"
    using snap.write_ok [where base = base and sha = sha, OF _ Cons.prems(2) base64_roundtrip, of rel bs]
      Cons.prems(1) f r by simp
  moreover have "bundle_head i s' \<noteq> None"
    using snap.write_meta [of i sha base i rel "base64_encode bs" None s] r Cons.prems(2) by simp
  ultimately show ?case using Cons f r by simp
qed simp

text \<open>
  An upload replaces the agent's bundle: after a start message, files under safe relative paths
  and the end, the bundle loads with exactly that manifest and session file and holds exactly the
  uploaded files (the last write to a path wins, nothing of an earlier upload remains), and the
  bundles of other agents are unchanged.\<close>

theorem bundle_upload_replaces:
  assumes "\<forall>f \<in> set fs. safe_rel (fst f)"
    and "handle_bundle_upload sha base i (BundleStart m sf sec #
      map (\<lambda>(rel, bs). BundleFile rel (base64_encode bs) True None) fs @ [BundleEnd]) s = (r, s')"
  shows "r = Inr () \<and>
    (\<exists>b. load_in base i s' = Inr b \<and> bl_manifest b = m \<and> bl_session_file b = sf) \<and>
    stored_file base i p s' = map_of (rev (map (\<lambda>(rel, bs). (components rel, bs)) fs)) p \<and>
    (j \<noteq> i \<longrightarrow> stored_file base j p s' = stored_file base j p s \<and> bundle_head j s' = bundle_head j s)"
proof -
  let ?s0 = "write_start_in base i m sf s"
  have head: "bundle_head i ?s0 = Some (m, sf)" by (simp add: snap.start_meta)
  have r: "r = Inr ()" "s' = snap.write_all sha base i fs ?s0"
    using assms(2) receive_files_write_all [OF assms(1), of i ?s0 sha base] head
    by (simp_all add: handle_bundle_upload_def)
  have h: "bundle_head k s' = (if k = i then Some (m, sf) else bundle_head k s)" for k
    by (simp add: r(2) snap.write_all_meta snap.start_meta)
  have "\<exists>b. load_in base i s' = Inr b \<and> bl_manifest b = m \<and> bl_session_file b = sf"
    using h [of i] by (auto simp: bundle_head_def load_in_def)
  moreover have "stored_file base k p s' = (if k = i
      then map_of (rev (map (\<lambda>(rel, bs). (components rel, bs)) fs)) p else stored_file base k p s)" for k
    using snap.write_all_stored [OF assms(1), of i ?s0 base k p sha] head
    by (auto simp: r(2) snap.start_stored map_add_def split: option.splits)
  ultimately show ?thesis using r(1) h by simp
qed

theorem bundle_upload_replaces_witness:
  "let s' = snd (handle_bundle_upload (\<lambda>_. ''h'') [''b''] ''i'' (BundleStart (minimal_manifest ''n'' ''p'' ''m'')
        None None # map (\<lambda>(rel, bs). BundleFile rel (base64_encode bs) True None) [(''a/b'', [1])] @ [BundleEnd])
        \<lparr>bs_files = [], bs_meta = []\<rparr>)
   in stored_file [''b''] ''i'' [''a'', ''b''] s' = Some [1]"
  using bundle_upload_replaces [OF _ prod.collapse [symmetric], of "[(''a/b'', [1])]" "\<lambda>_. ''h''" "[''b'']" "''i''"
      "minimal_manifest ''n'' ''p'' ''m''" None None "\<lparr>bs_files = [], bs_meta = []\<rparr>" "[''a'', ''b'']" "''j''"]
  by (simp add: safe_rel_def starts_with_def contains_str_def components_def sublist_code(3))

text \<open>Containment and integrity of one file write: a relative path can only touch the uploading
  agent's own files directory, whatever the message says; a message whose checksum does not
  match its content, whose path holds two dots or whose data does not decode changes nothing.\<close>

theorem bundle_write_contained:
  assumes "write_file_in sha base i rel d h s = (r, s')" "\<not> starts_with rel ''/''"
  shows "(\<not> prefix (files_dir base i) p \<longrightarrow> map_of (bs_files s') p = map_of (bs_files s) p) \<and>
    (j \<noteq> i \<longrightarrow> map_of (bs_meta s') j = map_of (bs_meta s) j) \<and>
    (contains_str rel ''..'' \<or> \<not> is_ok (base64_decode d) \<or>
      (\<exists>bs. base64_decode d = Inr bs \<and> h \<noteq> None \<and> h \<noteq> Some (sha bs)) \<longrightarrow> s' = s \<and> \<not> is_ok r)"
  by (cases rule: write_file_cases [of sha base i rel d h s])
    (use assms in \<open>auto simp: path_join_rel split: option.splits\<close>)

theorem bundle_write_contained_witness:
  "snd (write_file_in (\<lambda>_. ''x'') [''b''] ''i'' ''a'' ''TWE='' (Some ''y'') \<lparr>bs_files = [], bs_meta = []\<rparr>) =
     \<lparr>bs_files = [], bs_meta = []\<rparr>"
proof -
  have "base64_decode ''TWE='' = Inr [77, 97]" by code_simp
  then show ?thesis
    using bundle_write_contained [OF prod.collapse [symmetric], where rel = "''a''" and sha = "\<lambda>_. ''x''"
        and base = "[''b'']" and i = "''i''" and d = "''TWE=''" and h = "Some ''y''"
        and s = "\<lparr>bs_files = [], bs_meta = []\<rparr>"]
    by (simp add: starts_with_def)
qed

text \<open>The check on two dots does not cover an absolute path, which replaces the base.\<close>

lemma absolute_path_escapes:
  "map_of (bs_files (snd (write_file_in sha [''b''] ''i'' ''/etc/cron'' ''TQ=='' None
     \<lparr>bs_files = [], bs_meta = []\<rparr>))) [''etc'', ''cron''] = Some [77]"
proof -
  have "base64_decode ''TQ=='' = Inr [77]" by code_simp
  then show ?thesis
    by (simp add: write_file_in_def contains_str_def path_join_def starts_with_def components_def
        record_hash_in_def Let_def sublist_code(3))
qed

end
