(* ===== verification/Wake.thy ===== *)
theory Wake
  imports Scheduler Bundle_Store
begin

text \<open>
  Transparent wake (crates/suzerain/src/wake.rs): the single-flight registry of wakes, delivery of
  queued messages, restore from a bundle and the wake orchestration.
  Parameters stand for the daemons: \<open>net\<close> (answers to orders), \<open>attach\<close> (what the attach stream
  answers to a prompt) and \<open>restore_net\<close> (the acknowledgement of a restore stream, \<open>None\<close> when the
  stream breaks). \<open>arrivals\<close> are the messages other tasks enqueue for the agent while each prompt
  is in flight, \<open>polls\<close> what other tasks do between two polls of a provisioning agent; the last poll
  is the one at which the deadline has passed.
\<close>

section \<open>State\<close>

record wake_state =
  wk_cp :: control_plane
  wk_bundles :: bundle_store
  wk_secrets :: secrets_state
  wk_prompts :: "(string \<times> uuid \<times> string) list"
  wk_events :: "(uuid \<times> string \<times> string option) list"

definition on_cp :: "(control_plane \<Rightarrow> control_plane) \<Rightarrow> wake_state \<Rightarrow> wake_state" where
  "on_cp f w = w\<lparr>wk_cp := f (wk_cp w)\<rparr>"

abbreviation wk_store :: "wake_state \<Rightarrow> store" where
  "wk_store w \<equiv> cp_store (wk_cp w)"

definition on_wk_store :: "(store \<Rightarrow> store) \<Rightarrow> wake_state \<Rightarrow> wake_state" where
  "on_wk_store f = on_cp (on_store f)"

definition wake_emit :: "uuid \<Rightarrow> string \<Rightarrow> string option \<Rightarrow> wake_state \<Rightarrow> wake_state" where
  "wake_emit i status detail w = w\<lparr>wk_events := wk_events w @ [(i, status, detail)]\<rparr>"

lemma wake_state_simps [simp]:
  "wk_cp (on_cp f w) = f (wk_cp w)" "wk_prompts (on_cp f w) = wk_prompts w"
  "wk_store (on_wk_store g w) = g (wk_store w)" "wk_prompts (on_wk_store g w) = wk_prompts w"
  "wk_bundles (on_cp f w) = wk_bundles w" "wk_bundles (on_wk_store g w) = wk_bundles w"
  "wk_secrets (on_cp f w) = wk_secrets w" "wk_secrets (on_wk_store g w) = wk_secrets w"
  "cp_sessions (wk_cp (on_wk_store g w)) = cp_sessions (wk_cp w)"
  "cp_orders (wk_cp (on_wk_store g w)) = cp_orders (wk_cp w)"
  "wk_cp (wake_emit i s d w) = wk_cp w" "wk_prompts (wake_emit i s d w) = wk_prompts w"
  by (simp_all add: on_cp_def on_wk_store_def wake_emit_def)

datatype wake_error =
    WkStore store_error
  | AgentVanished
  | WkBadEndpoint string
  | AttachFailedErr
  | PromptUnacknowledged
  | PromptRejected string
  | RestoreNoBundle bundle_error
  | RestoreSecrets secrets_error
  | RestoreNotOnline string
  | IntegrityFailed string
  | RestoreTransport
  | RestoreRefused "string option"
  | PlacementFailed place_error
  | FailedToWake "wake_error option"

section \<open>Single flight\<close>

text \<open>\<open>ensure\<close>: the second component says whether a new wake task was spawned.\<close>

definition ensure :: "uuid \<Rightarrow> (uuid \<Rightarrow> nat option) \<Rightarrow> nat \<Rightarrow> nat \<times> bool \<times> (uuid \<Rightarrow> nat option)" where
  "ensure i inflight fresh =
     (case inflight i of
        Some attempt \<Rightarrow> (attempt, False, inflight)
      | None \<Rightarrow> (fresh, True, inflight(i \<mapsto> fresh)))"

definition wake_finished :: "uuid \<Rightarrow> (uuid \<Rightarrow> nat option) \<Rightarrow> (uuid \<Rightarrow> nat option)" where
  "wake_finished i inflight = inflight(i := None)"

section \<open>Delivery\<close>

definition daemon_online :: "(string \<Rightarrow> string option) \<Rightarrow> control_plane \<Rightarrow> string \<Rightarrow> bool" where
  "daemon_online parse_eid cp e =
     (case parse_eid e of Some d \<Rightarrow> session d cp \<noteq> None | None \<Rightarrow> False)"

definition is_awake :: "(string \<Rightarrow> string option) \<Rightarrow> control_plane \<Rightarrow> agent_row \<Rightarrow> bool" where
  "is_awake parse_eid cp agent =
     (if a_state agent \<noteq> Active then False
      else case parse_eid (a_daemon_endpoint_id agent) of
             None \<Rightarrow> False | Some d \<Rightarrow> session d cp \<noteq> None)"

datatype attach_reply = StreamFailed | NoFirstFrame | NoticeFrame string | EventFrame | OtherFrame

type_synonym attach_net = "(string \<times> uuid \<times> string) list \<Rightarrow> string \<Rightarrow> uuid \<Rightarrow> string \<Rightarrow> attach_reply"

definition prompt_agent ::
    "(string \<Rightarrow> string option) \<Rightarrow> attach_net \<Rightarrow> agent_row \<Rightarrow> string \<Rightarrow> wake_state \<Rightarrow>
      (wake_error + unit) \<times> wake_state" where
  "prompt_agent parse_eid attach agent message w =
     (case parse_eid (a_daemon_endpoint_id agent) of
        None \<Rightarrow> (Inl (WkBadEndpoint (a_daemon_endpoint_id agent)), w)
      | Some daemon \<Rightarrow>
          (case attach (wk_prompts w) daemon (a_id agent) message of
             StreamFailed \<Rightarrow> (Inl AttachFailedErr, w)
           | reply \<Rightarrow>
               (let w1 = w\<lparr>wk_prompts := wk_prompts w @ [(daemon, a_id agent, message)]\<rparr>
                in (case reply of
                      NoFirstFrame \<Rightarrow> Inl PromptUnacknowledged
                    | NoticeFrame m \<Rightarrow> if m = ''attached'' then Inr () else Inl (PromptRejected m)
                    | _ \<Rightarrow> Inr (), w1))))"

definition batch_separator :: string where
  "batch_separator = [CHR 0x0A, CHR 0x0A] @ ''---'' @ [CHR 0x0A, CHR 0x0A]"

definition enqueue_all :: "uuid \<Rightarrow> timestamp \<Rightarrow> string list \<Rightarrow> store \<Rightarrow> store" where
  "enqueue_all i ts bodies s = fold (\<lambda>b s. fst (enqueue_message i b ts s)) bodies s"

text \<open>The error text recorded with failed messages is the parameter \<open>text_of\<close>.\<close>

fun flush_pending ::
    "nat \<Rightarrow> (string \<Rightarrow> string option) \<Rightarrow> attach_net \<Rightarrow> (wake_error \<Rightarrow> string) \<Rightarrow> timestamp \<Rightarrow> agent_row \<Rightarrow>
      string list list \<Rightarrow> wake_state \<Rightarrow> ((wake_error + unit) \<times> wake_state) option" where
  "flush_pending 0 parse_eid attach text_of ts agent arrivals w = None"
| "flush_pending (Suc fuel) parse_eid attach text_of ts agent arrivals w =
     (let pending = pending_messages (a_id agent) (wk_store w)
      in if pending = [] then Some (Inr (), w)
         else
           (let ids = map pm_id pending;
                w1 = on_wk_store (set_message_status ids ''waking'' None ts) w;
                body = join batch_separator (map pm_body pending);
                arrived = (case arrivals of [] \<Rightarrow> [] | a # _ \<Rightarrow> a)
            in case prompt_agent parse_eid attach agent body w1 of
                 (r, w2) \<Rightarrow>
                   (let w3 = on_wk_store (enqueue_all (a_id agent) ts arrived) w2
                    in case r of
                         Inr _ \<Rightarrow>
                           flush_pending fuel parse_eid attach text_of ts agent (tl arrivals)
                             (on_wk_store (set_message_status ids ''delivered'' None ts) w3)
                       | Inl e \<Rightarrow>
                           Some (Inl e, on_wk_store (set_message_status ids ''failed'' (Some (text_of e)) ts) w3))))"

section \<open>Restoring from a bundle\<close>

fun restore_files ::
    "(u8 list \<Rightarrow> string) \<Rightarrow> (path \<times> u8 list) list \<Rightarrow> labels \<Rightarrow> (string \<times> path) list \<Rightarrow>
      wake_error + bundle_message list" where
  "restore_files sha files hashes [] = Inr []"
| "restore_files sha files hashes ((rel, p) # rest) =
     (let data = unwrap_or [] (map_of files p)
      in if (case map_of hashes rel of None \<Rightarrow> False | Some want \<Rightarrow> sha data \<noteq> want)
         then Inl (IntegrityFailed rel)
         else res_bind (restore_files sha files hashes rest) (\<lambda>ms.
                Inr (BundleFile rel (base64_encode data) True (Some (sha data)) # ms)))"

definition restore_from_bundle ::
    "(u8 list \<Rightarrow> string) \<Rightarrow> path \<Rightarrow> (string \<Rightarrow> bundle_message list \<Rightarrow> bundle_ack option) \<Rightarrow> agent_row \<Rightarrow>
      placement \<Rightarrow> wake_state \<Rightarrow> (wake_error + string) \<times> wake_state" where
  "restore_from_bundle sha base restore_net agent target w =
     (case load_in base (a_id agent) (wk_bundles w) of
        Inl e \<Rightarrow> (Inl (RestoreNoBundle e), w)
      | Inr b \<Rightarrow>
          (let w1 = on_wk_store (update_agent_state (a_id agent) Restoring) w;
               daemon = pl_endpoint_id target
           in if session daemon (wk_cp w1) = None then (Inl (RestoreNotOnline daemon), w1)
              else case slice_for (bl_manifest b) (wk_secrets w1) of
                Inl e \<Rightarrow> (Inl (RestoreSecrets e), w1)
              | Inr secrets \<Rightarrow>
                  (case restore_files sha (bs_files (wk_bundles w1)) (bl_hashes b) (bl_files b) of
                     Inl e \<Rightarrow> (Inl e, w1)
                   | Inr ms \<Rightarrow>
                       (case restore_net daemon
                               (BundleStart (bl_manifest b) (bl_session_file b) (Some secrets) # ms @ [BundleEnd]) of
                          None \<Rightarrow> (Inl RestoreTransport, w1)
                        | Some ack \<Rightarrow>
                            if ba_success ack
                            then (Inr daemon, on_wk_store (set_agent_daemon (a_id agent) daemon) w1)
                            else (Inl (RestoreRefused (ba_message ack)), w1)))))"

section \<open>Orchestration\<close>

definition wake_settle :: "agent_row \<Rightarrow> timestamp \<Rightarrow> wake_state \<Rightarrow> wake_state" where
  "wake_settle agent ts w = on_wk_store (\<lambda>s. set_needs_attention (a_id agent) False
     (set_agent_woke_at (a_id agent) ts (update_agent_state (a_id agent) Active s))) w"

definition wake_ok ::
    "nat \<Rightarrow> (string \<Rightarrow> string option) \<Rightarrow> attach_net \<Rightarrow> (wake_error \<Rightarrow> string) \<Rightarrow> timestamp \<Rightarrow> agent_row \<Rightarrow>
      string list list \<Rightarrow> wake_state \<Rightarrow> ((wake_error + unit) \<times> wake_state) option" where
  "wake_ok fuel parse_eid attach text_of ts agent arrivals w =
     (let agent' = agent\<lparr>a_state := Active\<rparr>
      in case flush_pending fuel parse_eid attach text_of ts agent' arrivals (wake_settle agent ts w) of
           None \<Rightarrow> None
         | Some (Inl e, w2) \<Rightarrow> Some (Inl e, w2)
         | Some (Inr _, w2) \<Rightarrow>
             Some (Inr (), on_cp (audit ''agent_wake'' [(''name'', a_name agent), (''id'', a_id agent),
                 (''daemon'', a_daemon_endpoint_id agent)]) (wake_emit (a_id agent) ''ready'' None w2)))"

datatype poll_result = PollAwake agent_row | PollGo agent_row | PollFail wake_error

fun poll_provisioning ::
    "(string \<Rightarrow> string option) \<Rightarrow> (control_plane \<Rightarrow> control_plane) list \<Rightarrow> agent_row \<Rightarrow> wake_state \<Rightarrow>
      poll_result \<times> wake_state" where
  "poll_provisioning parse_eid [] agent w = (PollGo agent, w)"
| "poll_provisioning parse_eid (p # ps) agent w =
     (let w1 = on_cp p w
      in case get_agent (a_id agent) (wk_store w1) of
           Inl e \<Rightarrow> (PollFail (WkStore e), w1)
         | Inr None \<Rightarrow> (PollFail AgentVanished, w1)
         | Inr (Some cur) \<Rightarrow>
             if is_awake parse_eid (wk_cp w1) cur then (PollAwake cur, w1)
             else if a_state cur \<noteq> a_state agent \<or> ps = [] then (PollGo cur, w1)
             else poll_provisioning parse_eid ps agent w1)"

definition same_daemon_start ::
    "daemon_net \<Rightarrow> (string \<Rightarrow> string option) \<Rightarrow> timestamp \<Rightarrow> agent_row \<Rightarrow> wake_state \<Rightarrow> bool \<times> wake_state" where
  "same_daemon_start net parse_eid ts agent w =
     (case parse_eid (a_daemon_endpoint_id agent) of
        None \<Rightarrow> (False, w)
      | Some daemon \<Rightarrow>
          (case order net ts daemon (StartAgent (a_id agent) False) (wk_cp w) of
             (Inl _, cp1) \<Rightarrow> (False, w\<lparr>wk_cp := cp1\<rparr>)
           | (Inr ack, cp1) \<Rightarrow> (ack_success ack, w\<lparr>wk_cp := cp1\<rparr>)))"

definition wake_constraints :: "agent_row \<Rightarrow> string list \<Rightarrow> constraints" where
  "wake_constraints agent excluded =
     \<lparr>ct_require = [], ct_pin = None, ct_manifest = a_manifest agent, ct_exclude = excluded\<rparr>"

definition wake_failed ::
    "(wake_error \<Rightarrow> string) \<Rightarrow> timestamp \<Rightarrow> agent_row \<Rightarrow> wake_error option \<Rightarrow> wake_state \<Rightarrow>
      (wake_error + unit) \<times> wake_state" where
  "wake_failed text_of ts agent last_err w =
     (let msg = (case last_err of None \<Rightarrow> ''wake failed'' | Some e \<Rightarrow> text_of e);
          w1 = on_wk_store (\<lambda>s. set_needs_attention (a_id agent) True
                 (update_agent_state (a_id agent) Failed s)) w;
          ids = map pm_id (pending_messages (a_id agent) (wk_store w1));
          w2 = on_wk_store (set_message_status ids ''failed'' (Some msg) ts) w1
      in (Inl (FailedToWake last_err),
          on_cp (audit ''agent_wake_failed'' [(''name'', a_name agent), (''id'', a_id agent), (''error'', msg)])
            (wake_emit (a_id agent) ''failed'' (Some msg) w2)))"

text \<open>The environment of a wake, gathered in one record.\<close>

record wake_env =
  we_net :: daemon_net
  we_attach :: attach_net
  we_restore :: "string \<Rightarrow> bundle_message list \<Rightarrow> bundle_ack option"
  we_parse_eid :: "string \<Rightarrow> string option"
  we_parse_ts :: "timestamp \<Rightarrow> int option"
  we_now :: int
  we_ts :: timestamp
  we_sha :: "u8 list \<Rightarrow> string"
  we_base :: path
  we_cfg :: auto_suspend_config
  we_text_of :: "wake_error \<Rightarrow> string"
  we_arrivals :: "string list list"
  we_polls :: "(control_plane \<Rightarrow> control_plane) list"

abbreviation wake_ok_in :: "wake_env \<Rightarrow> nat \<Rightarrow> agent_row \<Rightarrow> wake_state \<Rightarrow> ((wake_error + unit) \<times> wake_state) option" where
  "wake_ok_in E fuel agent w \<equiv>
     wake_ok fuel (we_parse_eid E) (we_attach E) (we_text_of E) (we_ts E) agent (we_arrivals E) w"

fun wake_attempts ::
    "wake_env \<Rightarrow> nat \<Rightarrow> nat \<Rightarrow> nat \<Rightarrow> agent_row \<Rightarrow> string list \<Rightarrow> wake_error option \<Rightarrow> wake_state \<Rightarrow>
      ((wake_error + unit) \<times> wake_state) option" where
  "wake_attempts E fuel attempt 0 agent excluded last_err w =
     Some (wake_failed (we_text_of E) (we_ts E) agent last_err w)"
| "wake_attempts E fuel attempt (Suc left) agent excluded last_err w =
     (let eid = a_daemon_endpoint_id agent;
          try_same = (eid \<notin> set excluded \<and> daemon_online (we_parse_eid E) (wk_cp w) eid);
          (started, w1) =
            (if try_same
             then same_daemon_start (we_net E) (we_parse_eid E) (we_ts E) agent
                    (wake_emit (a_id agent) ''starting'' (Some (''attempt '' @ show_nat attempt)) w)
             else (False, w));
          excluded1 = (if eid \<in> set excluded then excluded else excluded @ [eid])
      in if started then wake_ok_in E fuel agent w1
         else
           (let w2 = wake_emit (a_id agent) ''restoring'' (Some (''attempt '' @ show_nat attempt)) w1
            in case place_or_preempt (we_net E) (we_parse_eid E) (we_parse_ts E) (we_now E) (we_ts E)
                      (we_cfg E) (wake_constraints agent excluded1) (wk_cp w2) of
                 (Inl e, cp3) \<Rightarrow>
                   wake_attempts E fuel (Suc attempt) left agent excluded1 (Some (PlacementFailed e))
                     (w2\<lparr>wk_cp := cp3\<rparr>)
               | (Inr target, cp3) \<Rightarrow>
                   (case restore_from_bundle (we_sha E) (we_base E) (we_restore E) agent target
                           (w2\<lparr>wk_cp := cp3\<rparr>) of
                      (Inr daemon, w4) \<Rightarrow>
                        wake_ok_in E fuel (agent\<lparr>a_daemon_endpoint_id := daemon\<rparr>) w4
                    | (Inl e, w4) \<Rightarrow>
                        wake_attempts E fuel (Suc attempt) left agent
                          (excluded1 @ [pl_endpoint_id target]) (Some e) w4)))"

definition wake_retries :: "wake_env \<Rightarrow> nat \<Rightarrow> agent_row \<Rightarrow> wake_state \<Rightarrow> ((wake_error + unit) \<times> wake_state) option" where
  "wake_retries E fuel agent w =
     wake_attempts E fuel 1 (unat (max (au_wake_retry_attempts (we_cfg E)) 1)) agent [] None
       (wake_emit (a_id agent) ''queued'' None w)"

definition wake_agent :: "wake_env \<Rightarrow> nat \<Rightarrow> agent_row \<Rightarrow> wake_state \<Rightarrow> ((wake_error + unit) \<times> wake_state) option" where
  "wake_agent E fuel agent0 w0 =
     (let w = on_cp (\<lambda>cp. snd (agent_lock (a_id agent0) cp)) w0
      in case get_agent (a_id agent0) (wk_store w) of
           Inl e \<Rightarrow> Some (Inl (WkStore e), w)
         | Inr None \<Rightarrow> Some (Inl AgentVanished, w)
         | Inr (Some agent) \<Rightarrow>
             if is_awake (we_parse_eid E) (wk_cp w) agent
             then flush_pending fuel (we_parse_eid E) (we_attach E) (we_text_of E) (we_ts E) agent
                    (we_arrivals E) w
             else if a_state agent = Provisioning \<or> a_state agent = Restoring
             then (case poll_provisioning (we_parse_eid E) (we_polls E) agent
                        (wake_emit (a_id agent) ''waking'' (Some ''provisioning in progress'') w) of
                     (PollFail e, w1) \<Rightarrow> Some (Inl e, w1)
                   | (PollAwake cur, w1) \<Rightarrow> wake_ok_in E fuel cur w1
                   | (PollGo cur, w1) \<Rightarrow> wake_retries E fuel cur w1)
             else wake_retries E fuel agent w)"

text \<open>
  \<open>deliver_message\<close>, with the wake it joins run to its end. \<open>True\<close> means the message was queued;
  both later uses of the agent are of the row the caller passed in.
\<close>

definition deliver_message ::
    "wake_env \<Rightarrow> nat \<Rightarrow> agent_row \<Rightarrow> string \<Rightarrow> wake_state \<Rightarrow> ((wake_error + bool) \<times> wake_state) option" where
  "deliver_message E fuel agent message w =
     (if is_awake (we_parse_eid E) (wk_cp w) agent then Some (Inr False, w)
      else
        (let w1 = on_wk_store (\<lambda>s. fst (enqueue_message (a_id agent) message (we_ts E) s)) w;
             flush = (\<lambda>w. map_option (\<lambda>(r, w'). (map_sum (\<lambda>e. e) (\<lambda>_. True) r, w'))
               (flush_pending fuel (we_parse_eid E) (we_attach E) (we_text_of E) (we_ts E) agent [] w))
         in if is_awake (we_parse_eid E) (wk_cp w1) agent then flush w1
            else case wake_agent E fuel agent w1 of
                   None \<Rightarrow> None
                 | Some (Inl e, w2) \<Rightarrow> Some (Inl e, w2)
                 | Some (Inr _, w2) \<Rightarrow> flush w2))"

definition ensure_awake :: "wake_env \<Rightarrow> nat \<Rightarrow> agent_row \<Rightarrow> wake_state \<Rightarrow> ((wake_error + unit) \<times> wake_state) option" where
  "ensure_awake E fuel agent w =
     (if is_awake (we_parse_eid E) (wk_cp w) agent then Some (Inr (), w) else wake_agent E fuel agent w)"

text \<open>Boot recovery: the agents to wake, and the store with the messages of missing agents failed.\<close>

fun resume_pending :: "timestamp \<Rightarrow> uuid list \<Rightarrow> store \<Rightarrow> uuid list \<times> store" where
  "resume_pending ts [] s = ([], s)"
| "resume_pending ts (i # is) s =
     (case get_agent i s of
        Inr (Some agent) \<Rightarrow> (case resume_pending ts is s of (ws, s') \<Rightarrow> (a_id agent # ws, s'))
      | Inr None \<Rightarrow>
          resume_pending ts is
            (set_message_status (map pm_id (pending_messages i s)) ''failed''
               (Some ''agent no longer exists'') ts s)
      | Inl _ \<Rightarrow> resume_pending ts is s)"

end
