(* ===== verification/Wake_Theorems.thy ===== *)
theory Wake_Theorems
  imports Wake Scheduler_Theorems
begin

text \<open>
  Properties of the wake service: the delivery loop ends and delivers every queued message once
  and in order, and a wake settles the agent either as awake with an empty queue or as failed and
  flagged, whatever the daemons answer.
\<close>

section \<open>The delivery loop\<close>

lemma queued_ids:
  "map pm_id (pending_messages i s) = map fst (queued i s)"
  "map pm_body (pending_messages i s) = map snd (queued i s)"
  "pending_messages i s = [] \<longleftrightarrow> queued i s = []"
  by (simp_all add: queued_def comp_def)

lemma prompt_agent_frame [simp]:
  "wk_cp (snd (prompt_agent parse_eid attach agent m w)) = wk_cp w"
  by (auto simp: prompt_agent_def Let_def split: option.splits attach_reply.splits)

lemma lookup_messages [simp]:
  "lookup_agent j (set_message_status ids st e ts s) = lookup_agent j s"
  "lookup_agent j (fst (enqueue_message i b ts s)) = lookup_agent j s"
  by (rule lookup_agent_tables; simp add: set_message_status_eq enqueue_message_def Let_def)+

lemma lookup_enqueue_all [simp]: "lookup_agent j (enqueue_all i ts bs s) = lookup_agent j s"
  by (induction bs arbitrary: s) (simp_all add: enqueue_all_def)

definition round_store :: "uuid \<Rightarrow> timestamp \<Rightarrow> string \<Rightarrow> string option \<Rightarrow> string list \<Rightarrow> store \<Rightarrow> store" where
  "round_store i ts st e arrived s =
     set_message_status (map fst (queued i s)) st e ts
       (enqueue_all i ts arrived (set_message_status (map fst (queued i s)) ''waking'' None ts s))"

lemma round_store_props:
  assumes "store_inv s" "\<not> is_undelivered_status st"
  shows "map snd (queued i (round_store i ts st e arrived s)) = arrived"
    "j \<noteq> i \<Longrightarrow> queued j (round_store i ts st e arrived s) = queued j s"
    "store_inv (round_store i ts st e arrived s)"
    "lookup_agent k (round_store i ts st e arrived s) = lookup_agent k s"
  unfolding round_store_def
  using wq.round_keeps_arrivals(1,3) [OF assms, where i = i and e = e and now = ts and t = ts and later = ts and bs = arrived]
    wq.round_keeps_arrivals(2) [OF assms, where i = i and e = e and now = ts and t = ts and later = ts and bs = arrived]
  by (simp_all add: enqueue_all_def [symmetric])

lemma flush_step:
  "flush_pending (Suc fuel) parse_eid attach text_of ts agent arrivals w =
     (if queued (a_id agent) (wk_store w) = [] then Some (Inr (), w)
      else case prompt_agent parse_eid attach agent
             (join batch_separator (map snd (queued (a_id agent) (wk_store w))))
             (on_wk_store (set_message_status (map fst (queued (a_id agent) (wk_store w))) ''waking'' None ts) w) of
        (Inr _, w2) \<Rightarrow> flush_pending fuel parse_eid attach text_of ts agent (tl arrivals)
          (on_wk_store (set_message_status (map fst (queued (a_id agent) (wk_store w))) ''delivered'' None ts)
            (on_wk_store (enqueue_all (a_id agent) ts (case arrivals of [] \<Rightarrow> [] | a # _ \<Rightarrow> a)) w2))
      | (Inl e, w2) \<Rightarrow> Some (Inl e,
          on_wk_store (set_message_status (map fst (queued (a_id agent) (wk_store w))) ''failed'' (Some (text_of e)) ts)
            (on_wk_store (enqueue_all (a_id agent) ts (case arrivals of [] \<Rightarrow> [] | a # _ \<Rightarrow> a)) w2)))"
  by (simp add: queued_ids Let_def split: prod.split sum.split)

declare flush_pending.simps(2) [simp del]

text \<open>What any run of the loop leaves behind.\<close>

definition flushed :: "uuid \<Rightarrow> string list list \<Rightarrow> wake_error + unit \<Rightarrow> wake_state \<Rightarrow> wake_state \<Rightarrow> bool" where
  "flushed i arrivals r w w' \<longleftrightarrow> store_inv (wk_store w') \<and>
     (\<forall>k. lookup_agent k (wk_store w') = lookup_agent k (wk_store w)) \<and>
     (\<forall>j. j \<noteq> i \<longrightarrow> queued j (wk_store w') = queued j (wk_store w)) \<and>
     (case r of Inr _ \<Rightarrow> queued i (wk_store w') = []
      | Inl _ \<Rightarrow> map snd (queued i (wk_store w')) \<in> set ([] # arrivals))"

abbreviation arrived_first :: "string list list \<Rightarrow> string list" where
  "arrived_first arrivals \<equiv> (case arrivals of [] \<Rightarrow> [] | a # _ \<Rightarrow> a)"

abbreviation merged_body :: "uuid \<Rightarrow> wake_state \<Rightarrow> string" where
  "merged_body i w \<equiv> join batch_separator (map snd (queued i (wk_store w)))"

abbreviation marked_waking :: "uuid \<Rightarrow> timestamp \<Rightarrow> wake_state \<Rightarrow> wake_state" where
  "marked_waking i ts w \<equiv>
     on_wk_store (set_message_status (map fst (queued i (wk_store w))) ''waking'' None ts) w"

text \<open>One round of the loop: where it goes, and the store it leaves.\<close>

lemma flush_round_failed:
  assumes "queued (a_id agent) (wk_store w) \<noteq> []"
    and "prompt_agent parse_eid attach agent (merged_body (a_id agent) w) (marked_waking (a_id agent) ts w) = (Inl e, w2)"
  obtains w3 where "flush_pending (Suc n) parse_eid attach text_of ts agent arrivals w = Some (Inl e, w3)"
    and "wk_store w3 = round_store (a_id agent) ts ''failed'' (Some (text_of e)) (arrived_first arrivals) (wk_store w)"
    and "wk_prompts w3 = wk_prompts w2"
proof
  have "wk_store w2 = wk_store (marked_waking (a_id agent) ts w)"
    using prompt_agent_frame [of parse_eid attach agent "merged_body (a_id agent) w" "marked_waking (a_id agent) ts w"]
    by (simp add: assms(2))
  then show "wk_store (on_wk_store (set_message_status (map fst (queued (a_id agent) (wk_store w))) ''failed'' (Some (text_of e)) ts)
      (on_wk_store (enqueue_all (a_id agent) ts (arrived_first arrivals)) w2)) =
    round_store (a_id agent) ts ''failed'' (Some (text_of e)) (arrived_first arrivals) (wk_store w)"
    by (simp add: round_store_def)
qed (simp_all add: flush_step assms)

lemma flush_round_delivered:
  assumes "queued (a_id agent) (wk_store w) \<noteq> []"
    and "prompt_agent parse_eid attach agent (merged_body (a_id agent) w) (marked_waking (a_id agent) ts w) = (Inr u, w2)"
  obtains w3 where "flush_pending (Suc n) parse_eid attach text_of ts agent arrivals w =
      flush_pending n parse_eid attach text_of ts agent (tl arrivals) w3"
    and "wk_store w3 = round_store (a_id agent) ts ''delivered'' None (arrived_first arrivals) (wk_store w)"
    and "wk_prompts w3 = wk_prompts w2"
proof
  have "wk_store w2 = wk_store (marked_waking (a_id agent) ts w)"
    using prompt_agent_frame [of parse_eid attach agent "merged_body (a_id agent) w" "marked_waking (a_id agent) ts w"]
    by (simp add: assms(2))
  then show "wk_store (on_wk_store (set_message_status (map fst (queued (a_id agent) (wk_store w))) ''delivered'' None ts)
      (on_wk_store (enqueue_all (a_id agent) ts (arrived_first arrivals)) w2)) =
    round_store (a_id agent) ts ''delivered'' None (arrived_first arrivals) (wk_store w)"
    by (simp add: round_store_def)
qed (simp_all add: flush_step assms)

lemma not_undelivered [simp]:
  "\<not> is_undelivered_status ''delivered''" "\<not> is_undelivered_status ''failed''"
  by (simp_all add: is_undelivered_status_def)

text \<open>Rounds the loop still has to make: one for the queue, one for every later arrival.\<close>

definition flush_rounds :: "uuid \<Rightarrow> string list list \<Rightarrow> wake_state \<Rightarrow> nat" where
  "flush_rounds i arrivals w = length arrivals + (if queued i (wk_store w) = [] then 0 else 1)"

lemma flush_rounds_step:
  assumes "flush_rounds i arrivals w < Suc n" "queued i (wk_store w) \<noteq> []"
    "map snd (queued i (wk_store w')) = arrived_first arrivals"
  shows "flush_rounds i (tl arrivals) w' < n"
  using assms by (cases arrivals) (auto simp: flush_rounds_def split: if_splits)

lemma flush_total:
  assumes "store_inv (wk_store w)" "flush_rounds (a_id agent) arrivals w < fuel"
  shows "\<exists>r w'. flush_pending fuel parse_eid attach text_of ts agent arrivals w = Some (r, w') \<and>
    flushed (a_id agent) arrivals r w w'"
  using assms
proof (induction fuel arbitrary: arrivals w)
  case (Suc n)
  let ?i = "a_id agent"
  note rp = round_store_props [OF Suc.prems(1), where i = ?i and ts = ts and arrived = "arrived_first arrivals"]
  obtain r w2 where p: "prompt_agent parse_eid attach agent (merged_body ?i w) (marked_waking ?i ts w) = (r, w2)"
    by fastforce
  show ?case
  proof (cases "queued ?i (wk_store w) = []")
    case True
    then show ?thesis
      using Suc.prems(1) by (intro exI [of _ "Inr ()"] exI [of _ w]) (simp add: flush_step flushed_def)
  next
    case q: False
    show ?thesis
    proof (cases r)
      case (Inl e)
      obtain w3 where w3: "flush_pending (Suc n) parse_eid attach text_of ts agent arrivals w = Some (Inl e, w3)"
        "wk_store w3 = round_store ?i ts ''failed'' (Some (text_of e)) (arrived_first arrivals) (wk_store w)"
        using flush_round_failed [OF q p [unfolded Inl]] .
      have "flushed ?i arrivals (Inl e) w w3"
        using rp [OF not_undelivered(2), where e = "Some (text_of e)"] by (auto simp: flushed_def w3(2) split: list.splits)
      then show ?thesis using w3(1) by blast
    next
      case (Inr u)
      obtain w3 where w3: "flush_pending (Suc n) parse_eid attach text_of ts agent arrivals w =
          flush_pending n parse_eid attach text_of ts agent (tl arrivals) w3"
        "wk_store w3 = round_store ?i ts ''delivered'' None (arrived_first arrivals) (wk_store w)"
        using flush_round_delivered [OF q p [unfolded Inr]] .
      note rd = rp [OF not_undelivered(1), where e = None, folded w3(2)]
      have "flush_rounds ?i (tl arrivals) w3 < n"
        using flush_rounds_step [OF Suc.prems(2) q] rd(1) by simp
      from Suc.IH [OF rd(3) this] obtain r' w' where
        ih: "flush_pending n parse_eid attach text_of ts agent (tl arrivals) w3 = Some (r', w')"
          "flushed ?i (tl arrivals) r' w3 w'" by blast
      then have "flushed ?i arrivals r' w w'"
        using rd(2,4) by (cases arrivals) (auto simp: flushed_def split: sum.splits)
      then show ?thesis using ih(1) w3(1) by metis
    qed
  qed
qed simp

text \<open>C10
  The delivery loop always comes to an end: on a reachable database, whatever the attach streams
  answer and whatever other tasks enqueue meanwhile, a fuel above the number of rounds with new
  messages suffices. When it succeeds the queue is empty; when it fails, exactly the messages that
  arrived during the failed prompt stay queued. Agents and other agents' queues are untouched.\<close>

theorem flush_ends:
  assumes "reachable_store (wk_store w)" "Suc (length arrivals) < fuel"
  shows "\<exists>r w'. flush_pending fuel parse_eid attach text_of ts agent arrivals w = Some (r, w') \<and>
    (case r of Inr _ \<Rightarrow> queued (a_id agent) (wk_store w') = []
     | Inl _ \<Rightarrow> map snd (queued (a_id agent) (wk_store w')) \<in> set ([] # arrivals)) \<and>
    lookup_agent k (wk_store w') = lookup_agent k (wk_store w) \<and>
    (j \<noteq> a_id agent \<longrightarrow> queued j (wk_store w') = queued j (wk_store w))"
proof -
  have "flush_rounds (a_id agent) arrivals w < fuel" using assms(2) by (simp add: flush_rounds_def)
  from flush_total [OF reachable_store_inv [OF assms(1)] this] show ?thesis
    unfolding flushed_def by blast
qed

definition accepted_reply :: "attach_reply \<Rightarrow> bool" where
  "accepted_reply r \<longleftrightarrow> r = NoticeFrame ''attached'' \<or> r = EventFrame \<or> r = OtherFrame"

lemma prompt_accepted:
  assumes "parse_eid (a_daemon_endpoint_id agent) = Some d" "\<And>ps m. accepted_reply (attach ps d (a_id agent) m)"
  shows "prompt_agent parse_eid attach agent m w =
    (Inr (), w\<lparr>wk_prompts := wk_prompts w @ [(d, a_id agent, m)]\<rparr>)"
  using assms(2) [of "wk_prompts w" m] by (auto simp: prompt_agent_def assms(1) accepted_reply_def)

lemma flush_delivers:
  assumes "store_inv (wk_store w)" "flush_rounds (a_id agent) arrivals w < fuel"
    and "parse_eid (a_daemon_endpoint_id agent) = Some d"
    and "\<And>ps m. accepted_reply (attach ps d (a_id agent) m)"
  shows "\<exists>w'. flush_pending fuel parse_eid attach text_of ts agent arrivals w = Some (Inr (), w') \<and>
    wk_prompts w' = wk_prompts w @ map (\<lambda>bs. (d, a_id agent, join batch_separator bs))
      (takeWhile (\<lambda>bs. bs \<noteq> []) (map snd (queued (a_id agent) (wk_store w)) # arrivals))"
  using assms(1,2)
proof (induction fuel arbitrary: arrivals w)
  case (Suc n)
  let ?i = "a_id agent"
  show ?case
  proof (cases "queued ?i (wk_store w) = []")
    case True
    then show ?thesis by (simp add: flush_step)
  next
    case q: False
    obtain w3 where w3: "flush_pending (Suc n) parse_eid attach text_of ts agent arrivals w =
        flush_pending n parse_eid attach text_of ts agent (tl arrivals) w3"
      "wk_store w3 = round_store ?i ts ''delivered'' None (arrived_first arrivals) (wk_store w)"
      "wk_prompts w3 = wk_prompts w @ [(d, ?i, merged_body ?i w)]"
      using flush_round_delivered [OF q prompt_accepted [where parse_eid = parse_eid and attach = attach, OF assms(3,4)],
          where n = n and text_of = text_of and arrivals = arrivals] by auto
    note rd = round_store_props [OF Suc.prems(1) not_undelivered(1), where i = ?i and ts = ts and e = None
        and arrived = "arrived_first arrivals", folded w3(2)]
    have "flush_rounds ?i (tl arrivals) w3 < n"
      using flush_rounds_step [OF Suc.prems(2) q] rd(1) by simp
    from Suc.IH [OF rd(3) this] obtain w' where
      "flush_pending n parse_eid attach text_of ts agent (tl arrivals) w3 = Some (Inr (), w')"
      "wk_prompts w' = wk_prompts w3 @ map (\<lambda>bs. (d, ?i, join batch_separator bs))
        (takeWhile (\<lambda>bs. bs \<noteq> []) (arrived_first arrivals # tl arrivals))"
      by (auto simp: rd(1))
    then show ?thesis using w3 q by (cases arrivals) auto
  qed
qed simp

text \<open>
  Delivery is exactly once and in order: when the daemon acknowledges the prompts, the loop sends
  one prompt per round, the first with every queued message in queue order, each later one with
  what arrived during the one before, until a round with nothing new; and the queue ends empty.\<close>

theorem flush_delivers_in_order:
  assumes "reachable_store (wk_store w)" "Suc (length arrivals) < fuel"
    and "parse_eid (a_daemon_endpoint_id agent) = Some d"
    and "\<And>ps m. accepted_reply (attach ps d (a_id agent) m)"
  shows "\<exists>w'. flush_pending fuel parse_eid attach text_of ts agent arrivals w = Some (Inr (), w') \<and>
    queued (a_id agent) (wk_store w') = [] \<and>
    wk_prompts w' = wk_prompts w @ map (\<lambda>bs. (d, a_id agent, join batch_separator bs))
      (takeWhile (\<lambda>bs. bs \<noteq> []) (map snd (queued (a_id agent) (wk_store w)) # arrivals))"
proof -
  have r: "flush_rounds (a_id agent) arrivals w < fuel" using assms(2) by (simp add: flush_rounds_def)
  note inv = reachable_store_inv [OF assms(1)]
  obtain w' where w': "flush_pending fuel parse_eid attach text_of ts agent arrivals w = Some (Inr (), w')"
    "wk_prompts w' = wk_prompts w @ map (\<lambda>bs. (d, a_id agent, join batch_separator bs))
      (takeWhile (\<lambda>bs. bs \<noteq> []) (map snd (queued (a_id agent) (wk_store w)) # arrivals))"
    using flush_delivers [where parse_eid = parse_eid and attach = attach, OF inv r assms(3,4)] by blast
  moreover have "queued (a_id agent) (wk_store w') = []"
    using flush_total [OF inv r, of parse_eid attach text_of ts] w'(1) by (simp add: flushed_def)
  ultimately show ?thesis by blast
qed

section \<open>Settling a wake\<close>

definition wake_ready :: "uuid \<Rightarrow> wake_state \<Rightarrow> bool" where
  "wake_ready i w \<longleftrightarrow> store_inv (wk_store w) \<and> lookup_agent i (wk_store w) \<noteq> None"

lemma wake_ready_emit [simp]: "wake_ready i (wake_emit j st d w) = wake_ready i w"
  by (simp add: wake_ready_def)

lemma same_daemon_start_ready:
  assumes "wake_ready i w" "same_daemon_start net parse_eid ts agent w = (b, w')"
  shows "wake_ready i w'"
proof (cases "parse_eid (a_daemon_endpoint_id agent)")
  case None
  then show ?thesis using assms by (simp add: same_daemon_start_def)
next
  case (Some d)
  obtain r cp1 where o: "order net ts d (StartAgent (a_id agent) False) (wk_cp w) = (r, cp1)" by fastforce
  then have "wk_cp w' = cp1" using assms(2) Some by (auto simp: same_daemon_start_def split: sum.splits)
  then show ?thesis
    using assms(1) order_inv [of "wk_cp w" net ts d] order_effects(1) [OF o] o
    unfolding wake_ready_def by (metis snd_conv)
qed

lemma place_or_preempt_ready:
  assumes "wake_ready i w"
    and "place_or_preempt net parse_eid parse_ts now ts cfg k (wk_cp w) = (r, cp')"
  shows "wake_ready i (w\<lparr>wk_cp := cp'\<rparr>)"
proof -
  have "lookup_agent i (cp_store cp') \<noteq> None" if p: "preempts A (wk_cp w) cp'" for A
  proof -
    have "lookup_agent i (cp_store cp') = lookup_agent i (wk_store w) \<or> lookup_agent i (cp_store cp') =
        map_option (\<lambda>a. a\<lparr>a_state := Suspended\<rparr>) (lookup_agent i (wk_store w))"
      using p unfolding preempts_def only_suspends_def by blast
    then show ?thesis using assms(1) by (auto simp: wake_ready_def)
  qed
  moreover have "\<exists>A. preempts A (wk_cp w) cp'" using preemption_step [OF assms(2)] by blast
  ultimately show ?thesis
    using assms(1) place_or_preempt_inv [of "wk_cp w" net parse_eid parse_ts now ts cfg k] assms(2)
    by (auto simp: wake_ready_def)
qed

lemma restore_ready:
  assumes "wake_ready i w" "restore_from_bundle sha base restore_net agent target w = (r, w')"
  shows "wake_ready i w'"
  using assms
  by (auto simp: restore_from_bundle_def wake_ready_def Let_def reg.agent_laws agent_ops_inv
      split: sum.splits option.splits if_splits)

definition wake_settled :: "uuid \<Rightarrow> timestamp \<Rightarrow> wake_error + unit \<Rightarrow> wake_state \<Rightarrow> bool" where
  "wake_settled i ts r w \<longleftrightarrow> (\<exists>row :: agent_row. lookup_agent i (wk_store w) = Some row \<and>
     (a_state row = Active \<and> \<not> a_needs_attention row \<and> a_woke_at row = Some ts \<and>
        (r = Inr () \<longrightarrow> queued i (wk_store w) = []) \<or>
      (\<exists>e. r = Inl (FailedToWake e)) \<and> a_state row = Failed \<and> a_needs_attention row \<and>
        queued i (wk_store w) = []))"

lemma queued_audit [simp]: "queued i (cp_store (audit x d cp)) = queued i (cp_store cp)"
  by (simp add: queued_def pending_messages_def audit_def emit_def)

lemma wake_settled_tail [simp]:
  "wake_settled i ts r (on_cp (audit x d) (wake_emit j st de w)) = wake_settled i ts r w"
  by (simp add: wake_settled_def)

lemma wake_failed_settled:
  assumes "wake_ready (a_id agent) w" "wake_failed text_of ts agent last_err w = (r, w')"
  shows "wake_settled (a_id agent) ts r w'"
proof -
  let ?s1 = "set_needs_attention (a_id agent) True (update_agent_state (a_id agent) Failed (wk_store w))"
  obtain row where row: "lookup_agent (a_id agent) (wk_store w) = Some row"
    using assms(1) by (auto simp: wake_ready_def)
  have inv: "store_inv ?s1" using assms(1) by (simp add: wake_ready_def agent_ops_inv)
  have "queued (a_id agent) (set_message_status (map fst (queued (a_id agent) ?s1)) ''failed'' e ts ?s1) = []" for e
    by (simp add: wq.pending_settle [OF inv not_undelivered(2)] filter_empty_conv case_prod_beta)
  then show ?thesis
    using assms(2) row
    by (auto simp: wake_failed_def Let_def wake_settled_def [of _ _ _ "on_wk_store _ _"] queued_ids reg.agent_laws)
qed

lemma wake_ok_settled:
  assumes "wake_ready (a_id agent) w" "Suc (length arrivals) < fuel"
  shows "\<exists>r w'. wake_ok fuel parse_eid attach text_of ts agent arrivals w = Some (r, w') \<and>
    wake_settled (a_id agent) ts r w'"
proof -
  let ?w1 = "wake_settle agent ts w" and ?a = "agent\<lparr>a_state := Active\<rparr>"
  obtain row where row: "lookup_agent (a_id agent) (wk_store ?w1) = Some row"
    "a_state row = Active" "\<not> a_needs_attention row" "a_woke_at row = Some ts"
    using assms(1) by (auto simp: wake_ready_def wake_settle_def reg.settle_awake)
  have inv: "store_inv (wk_store ?w1)"
    using assms(1) by (simp add: wake_ready_def wake_settle_def agent_ops_inv)
  have "flush_rounds (a_id ?a) arrivals ?w1 < fuel" using assms(2) by (simp add: flush_rounds_def)
  from flush_total [OF inv this, of parse_eid attach text_of ts] obtain r w2 where
    f: "flush_pending fuel parse_eid attach text_of ts ?a arrivals ?w1 = Some (r, w2)"
      "flushed (a_id ?a) arrivals r ?w1 w2" by blast
  then have "wake_settled (a_id agent) ts r w2"
    using row by (cases r) (auto simp: flushed_def wake_settled_def)
  then show ?thesis using f(1) by (cases r) (simp_all add: wake_ok_def)
qed

declare wake_attempts.simps(2) [simp del]

lemma wake_attempts_settled:
  assumes "wake_ready (a_id agent) w" "Suc (length (we_arrivals E)) < fuel"
  shows "\<exists>r w'. wake_attempts E fuel attempt left agent excluded last_err w = Some (r, w') \<and>
    wake_settled (a_id agent) (we_ts E) r w'"
  using assms(1)
proof (induction left arbitrary: attempt excluded last_err w)
  case 0
  then show ?case using wake_failed_settled [OF 0] by (metis wake_attempts.simps(1) prod.collapse)
next
  case (Suc left)
  let ?eid = "a_daemon_endpoint_id agent"
  let ?same = "?eid \<notin> set excluded \<and> daemon_online (we_parse_eid E) (wk_cp w) ?eid"
  obtain started w1 where st: "(if ?same then same_daemon_start (we_net E) (we_parse_eid E) (we_ts E) agent
      (wake_emit (a_id agent) ''starting'' (Some (''attempt '' @ show_nat attempt)) w) else (False, w)) = (started, w1)"
    by fastforce
  have r1: "wake_ready (a_id agent) w1"
  proof (cases ?same)
    case True
    show ?thesis
      by (rule same_daemon_start_ready [OF _ st [unfolded if_P [OF True]]]) (simp add: Suc.prems)
  next
    case False
    then show ?thesis using st Suc.prems unfolding if_not_P [OF False] by simp
  qed
  define excluded1 where "excluded1 = (if ?eid \<in> set excluded then excluded else excluded @ [?eid])"
  let ?w2 = "wake_emit (a_id agent) ''restoring'' (Some (''attempt '' @ show_nat attempt)) w1"
  obtain p cp3 where pl: "place_or_preempt (we_net E) (we_parse_eid E) (we_parse_ts E) (we_now E) (we_ts E)
      (we_cfg E) (wake_constraints agent excluded1) (wk_cp ?w2) = (p, cp3)" by fastforce
  have r3: "wake_ready (a_id agent) (?w2\<lparr>wk_cp := cp3\<rparr>)"
    using place_or_preempt_ready [OF _ pl] r1 by simp
  have step: "wake_attempts E fuel attempt (Suc left) agent excluded last_err w =
    (if started then wake_ok_in E fuel agent w1
     else case p of
       Inl e \<Rightarrow> wake_attempts E fuel (Suc attempt) left agent excluded1 (Some (PlacementFailed e)) (?w2\<lparr>wk_cp := cp3\<rparr>)
     | Inr target \<Rightarrow>
         (case restore_from_bundle (we_sha E) (we_base E) (we_restore E) agent target (?w2\<lparr>wk_cp := cp3\<rparr>) of
            (Inr daemon, w4) \<Rightarrow> wake_ok_in E fuel (agent\<lparr>a_daemon_endpoint_id := daemon\<rparr>) w4
          | (Inl e, w4) \<Rightarrow> wake_attempts E fuel (Suc attempt) left agent (excluded1 @ [pl_endpoint_id target]) (Some e) w4))"
    unfolding wake_attempts.simps(2) Let_def st prod.case excluded1_def [symmetric] pl by (rule refl)
  show ?case
  proof (cases started)
    case True
    then show ?thesis using wake_ok_settled [OF r1 assms(2)] by (simp add: step)
  next
    case False
    show ?thesis
    proof (cases p)
      case (Inl e)
      then show ?thesis using False Suc.IH [OF r3] by (simp add: step)
    next
      case (Inr target)
      obtain r w4 where rs: "restore_from_bundle (we_sha E) (we_base E) (we_restore E) agent target
          (?w2\<lparr>wk_cp := cp3\<rparr>) = (r, w4)" by fastforce
      have r4: "wake_ready (a_id agent) w4" by (rule restore_ready [OF r3 rs])
      show ?thesis
      proof (cases r)
        case Inl
        then show ?thesis using False Inr rs Suc.IH [OF r4] by (simp add: step)
      next
        case (Inr d)
        then show ?thesis
          using False \<open>p = Inr target\<close> rs
            wake_ok_settled [of "agent\<lparr>a_daemon_endpoint_id := d\<rparr>", OF _ assms(2)] r4
          by (simp add: step)
      qed
    qed
  qed
qed

text \<open>C11
  A wake always settles the agent: on a reachable database that has the agent, whatever the
  daemons, attach and restore streams answer and whatever arrives meanwhile, the retries end
  with the agent active, unflagged and stamped as woken (and with an empty queue when they
  report success), or failed, flagged for attention and with an empty queue, reporting failure.\<close>

theorem wake_settles:
  assumes "reachable_store (wk_store w)" "lookup_agent (a_id agent) (wk_store w) \<noteq> None"
    and "Suc (length (we_arrivals E)) < fuel"
  shows "\<exists>r w' (row :: agent_row). wake_retries E fuel agent w = Some (r, w') \<and>
    lookup_agent (a_id agent) (wk_store w') = Some row \<and>
    (a_state row = Active \<and> \<not> a_needs_attention row \<and> a_woke_at row = Some (we_ts E) \<and>
        (r = Inr () \<longrightarrow> queued (a_id agent) (wk_store w') = []) \<or>
      (\<exists>e. r = Inl (FailedToWake e)) \<and> a_state row = Failed \<and> a_needs_attention row \<and>
        queued (a_id agent) (wk_store w') = [])"
proof -
  have "wake_ready (a_id agent) (wake_emit (a_id agent) ''queued'' None w)"
    using assms(1,2) by (simp add: wake_ready_def reachable_store_inv)
  from wake_attempts_settled [OF this assms(3)] show ?thesis
    unfolding wake_retries_def wake_settled_def by blast
qed

section \<open>Witnesses\<close>

definition demo_suspended :: agent_row where
  "demo_suspended = demo_idle_agent\<lparr>a_state := Suspended\<rparr>"

definition demo_wake_store :: store where
  "demo_wake_store = (case create_agent demo_suspended empty_store of
     Inr s \<Rightarrow> fst (enqueue_message ''i'' ''hi'' ''t'' s) | Inl _ \<Rightarrow> empty_store)"

definition demo_wake :: wake_state where
  "demo_wake = \<lparr>wk_cp = initial_cp demo_wake_store [], wk_bundles = \<lparr>bs_files = [], bs_meta = []\<rparr>,
     wk_secrets = \<lparr>sec_store = None, sec_file = None, sec_tmp = None\<rparr>, wk_prompts = [], wk_events = []\<rparr>"

lemma demo_wake_created: "\<exists>s. create_agent demo_suspended empty_store = Inr s"
  by (simp add: create_agent_def empty_store_def)

lemma demo_wake_facts:
  "reachable_store (wk_store demo_wake)" "queued ''i'' (wk_store demo_wake) = [(1, ''hi'')]"
  "lookup_agent ''i'' (wk_store demo_wake) \<noteq> None" "wk_prompts demo_wake = []"
  "a_id demo_suspended = ''i''" "a_daemon_endpoint_id demo_suspended = ''d''"
proof -
  obtain s where s: "create_agent demo_suspended empty_store = Inr s" using demo_wake_created by blast
  have "reachable_store s" using reachable_store.step [OF reachable_store.init store_step.create [OF s]] .
  then show "reachable_store (wk_store demo_wake)"
    by (simp add: demo_wake_def initial_cp_def demo_wake_store_def s)
      (intro reachable_store.step [OF _ store_step.all_offline] reachable_store.step [OF _ store_step.enqueue])
qed (simp_all add: demo_wake_def initial_cp_def demo_wake_store_def create_agent_def empty_store_def
      demo_suspended_def demo_idle_agent_def enqueue_message_def queued_def pending_messages_def
      undelivered_def set_all_daemons_offline_def emit_def lookup_agent_def get_agent_def
      row_to_agent_def parse_state_def state_str_def Let_def next_rowid_def)

theorem flush_ends_witness:
  "\<exists>r w'. flush_pending 3 Some (\<lambda>_ _ _ _. StreamFailed) (\<lambda>_. []) ''t'' demo_suspended [[''new'']] demo_wake = Some (r, w')"
  using flush_ends [OF demo_wake_facts(1), of "[[''new'']]" 3 Some "\<lambda>_ _ _ _. StreamFailed" "\<lambda>_. []" "''t''" demo_suspended "[]" "[]"] by auto

theorem flush_delivers_in_order_witness:
  "\<exists>w'. flush_pending 3 Some (\<lambda>_ _ _ _. EventFrame) (\<lambda>_. []) ''t'' demo_suspended [[''new'']] demo_wake = Some (Inr (), w') \<and>
     queued ''i'' (wk_store w') = [] \<and> wk_prompts w' = [(''d'', ''i'', ''hi''), (''d'', ''i'', ''new'')]"
  using flush_delivers_in_order [OF demo_wake_facts(1), of "[[''new'']]" 3 Some demo_suspended "''d''"
      "\<lambda>_ _ _ _. EventFrame" "\<lambda>_. []" "''t''"]
  by (simp add: demo_wake_facts accepted_reply_def)

definition demo_env :: wake_env where
  "demo_env = \<lparr>we_net = ack_all, we_attach = (\<lambda>_ _ _ _. EventFrame), we_restore = (\<lambda>_ _. None),
     we_parse_eid = Some, we_parse_ts = (\<lambda>_. None), we_now = 0, we_ts = ''t'', we_sha = (\<lambda>_. []),
     we_base = [], we_cfg = default_auto_suspend, we_text_of = (\<lambda>_. []), we_arrivals = [], we_polls = []\<rparr>"

theorem wake_settles_witness:
  "\<exists>r w' (row :: agent_row). wake_retries demo_env 2 demo_suspended demo_wake = Some (r, w') \<and>
     lookup_agent ''i'' (wk_store w') = Some row \<and> (a_state row = Active \<or> a_needs_attention row)"
  using wake_settles [of demo_wake demo_suspended demo_env 2]
  by (simp add: demo_wake_facts demo_env_def) blast

end
