(* ===== verification/Journal.thy ===== *)
theory Journal
  imports Messages Lines
begin

text \<open>
  The agent host's append-only journal (crates/castellan/src/journal.rs), the redaction of
  registered secrets, the in-memory secret bundles (crates/castellan/src/secrets.rs) and the
  pruning of acknowledged events (prune_journal in crates/castellan/src/control.rs).
  Parameters: \<open>render\<close> and \<open>parse\<close> are the JSON codec of one event line. The journal's sequence
  counter is a 64-bit word that wraps.
\<close>

section \<open>Redaction\<close>

text \<open>\<open>str::replace\<close> for a non-empty pattern: left to right, without overlaps.\<close>

function replace_all :: "string \<Rightarrow> string \<Rightarrow> string \<Rightarrow> string" where
  "replace_all pat by_text [] = []"
| "replace_all pat by_text (c # cs) =
     (if pat \<noteq> [] \<and> starts_with (c # cs) pat
      then by_text @ replace_all pat by_text (drop (length pat) (c # cs))
      else c # replace_all pat by_text cs)"
  by pat_completeness auto
termination
  by (relation "measure (\<lambda>(p, b, s). length s)") auto

definition redaction_mark :: string where
  "redaction_mark = ''[REDACTED]''"

definition redact_with :: "string list \<Rightarrow> string \<Rightarrow> string" where
  "redact_with secrets text =
     fold (\<lambda>secret out. if contains_str out secret then replace_all secret redaction_mark out else out)
       secrets text"

type_synonym redact_values = "uuid \<Rightarrow> string list option"

definition register_secrets :: "uuid \<Rightarrow> string list \<Rightarrow> redact_values \<Rightarrow> redact_values" where
  "register_secrets i values m =
     (let filtered = filter (\<lambda>v. 12 \<le> length v) values
      in if filtered = [] then m(i := None) else m(i \<mapsto> filtered))"

definition unregister_secrets :: "uuid \<Rightarrow> redact_values \<Rightarrow> redact_values" where
  "unregister_secrets i m = m(i := None)"

definition redact :: "redact_values \<Rightarrow> uuid \<Rightarrow> string \<Rightarrow> string" where
  "redact m i text = (case m i of None \<Rightarrow> text | Some secrets \<Rightarrow> redact_with secrets text)"

text \<open>Object keys are left as they are.\<close>

primrec redact_value :: "redact_values \<Rightarrow> uuid \<Rightarrow> json \<Rightarrow> json" where
  "redact_value m i JNull = JNull"
| "redact_value m i (JBool b) = JBool b"
| "redact_value m i (JNum n) = JNum n"
| "redact_value m i (JStr s) = JStr (redact m i s)"
| "redact_value m i (JArr vs) = JArr (map (redact_value m i) vs)"
| "redact_value m i (JObj kvs) = JObj (map (map_prod (\<lambda>k. k) (redact_value m i)) kvs)"

section \<open>The in-memory bundles\<close>

record host_secrets =
  hs_bundles :: "uuid \<Rightarrow> secret_bundle option"
  hs_redact :: redact_values

definition put_bundle :: "uuid \<Rightarrow> secret_bundle \<Rightarrow> host_secrets \<Rightarrow> host_secrets" where
  "put_bundle i b h =
     \<lparr>hs_bundles = (hs_bundles h)(i \<mapsto> b), hs_redact = register_secrets i (bundle_values b) (hs_redact h)\<rparr>"

definition get_bundle :: "uuid \<Rightarrow> host_secrets \<Rightarrow> secret_bundle option" where
  "get_bundle i h = hs_bundles h i"

definition remove_bundle :: "uuid \<Rightarrow> host_secrets \<Rightarrow> host_secrets" where
  "remove_bundle i h =
     \<lparr>hs_bundles = (hs_bundles h)(i := None), hs_redact = unregister_secrets i (hs_redact h)\<rparr>"

section \<open>The journal\<close>

text \<open>An agent's directory: the journal file and the shipped watermark file.\<close>

record agent_files =
  af_journal :: "string option"
  af_shipped :: "string option"

record journal =
  jn_agent_id :: uuid
  jn_seq :: u64

definition journal_events :: "(string \<Rightarrow> log_event option) \<Rightarrow> string \<Rightarrow> log_event list" where
  "journal_events parse content = List.map_filter parse (str_lines content)"

definition shipped_mark :: "agent_files \<Rightarrow> u64 option" where
  "shipped_mark f = (case af_shipped f of None \<Rightarrow> None | Some t \<Rightarrow> parse_u64 (trim t))"

definition open_journal :: "(string \<Rightarrow> log_event option) \<Rightarrow> uuid \<Rightarrow> agent_files \<Rightarrow> journal \<times> agent_files" where
  "open_journal parse i f =
     (let seq0 = (case af_journal f of
            None \<Rightarrow> 0
          | Some c \<Rightarrow> fold (\<lambda>ev seq. max seq (ev_seq ev)) (journal_events parse c) 0);
          seq = (case shipped_mark f of None \<Rightarrow> seq0 | Some w \<Rightarrow> max seq0 w)
      in (\<lparr>jn_agent_id = i, jn_seq = seq\<rparr>, f\<lparr>af_journal := Some (unwrap_or [] (af_journal f))\<rparr>))"

definition append_journal ::
    "(log_event \<Rightarrow> string) \<Rightarrow> redact_values \<Rightarrow> timestamp \<Rightarrow> string \<Rightarrow> json \<Rightarrow> journal \<Rightarrow> agent_files \<Rightarrow>
      log_event \<times> journal \<times> agent_files" where
  "append_journal render m now kind payload j f =
     (let seq = jn_seq j + 1;
          ev = \<lparr>ev_agent_id = jn_agent_id j, ev_seq = seq, ev_at = now, ev_kind = kind,
                ev_payload = redact_value m (jn_agent_id j) payload\<rparr>
      in (ev, j\<lparr>jn_seq := seq\<rparr>,
          f\<lparr>af_journal := Some (unwrap_or [] (af_journal f) @ render ev @ [newline])\<rparr>))"

definition read_journal :: "(string \<Rightarrow> log_event option) \<Rightarrow> agent_files \<Rightarrow> log_event list option" where
  "read_journal parse f = map_option (journal_events parse) (af_journal f)"

text \<open>Pruning: lines that do not decode stay, the others go when they are acknowledged.\<close>

fun prune_kept :: "(string \<Rightarrow> log_event option) \<Rightarrow> u64 \<Rightarrow> string \<Rightarrow> bool \<Rightarrow> string list \<Rightarrow> string \<times> bool" where
  "prune_kept parse acked kept dropped_any [] = (kept, dropped_any)"
| "prune_kept parse acked kept dropped_any (l # ls) =
     (if (case parse l of None \<Rightarrow> False | Some ev \<Rightarrow> ev_seq ev \<le> acked)
      then prune_kept parse acked kept True ls
      else prune_kept parse acked (kept @ l @ [newline]) dropped_any ls)"

definition prune_journal :: "(string \<Rightarrow> log_event option) \<Rightarrow> u64 \<Rightarrow> agent_files \<Rightarrow> agent_files" where
  "prune_journal parse acked f =
     (case af_journal f of
        None \<Rightarrow> f
      | Some content \<Rightarrow>
          (case prune_kept parse acked [] False (str_lines content) of
             (kept, dropped_any) \<Rightarrow> if dropped_any then f\<lparr>af_journal := Some kept\<rparr> else f))"

section \<open>What redaction guarantees\<close>

lemma starts_with_prefix: "starts_with s p \<longleftrightarrow> prefix p s"
  by (simp add: starts_with_def)

lemma replace_all_prefix:
  assumes "CHR ''['' \<notin> set t"
  shows "prefix t (replace_all pat redaction_mark s) \<Longrightarrow> prefix t s"
  using assms
proof (induction pat redaction_mark s arbitrary: t rule: replace_all.induct)
  case (2 pat c cs)
  show ?case
  proof (cases t)
    case (Cons x xs)
    then show ?thesis using 2 by (auto simp: redaction_mark_def split: if_splits)
  qed simp
qed simp

text \<open>A secret that holds no bracket and is too long for the mark's inside.\<close>

definition plain_secret :: "string \<Rightarrow> bool" where
  "plain_secret t \<longleftrightarrow> 12 \<le> length t \<and> CHR ''['' \<notin> set t \<and> CHR '']'' \<notin> set t"

lemma not_in_mark:
  assumes "plain_secret t"
  shows "\<not> sublist t redaction_mark"
proof
  assume "sublist t redaction_mark"
  then have "length t \<le> length redaction_mark" by (rule sublist_length_le)
  then show False using assms by (simp add: plain_secret_def redaction_mark_def)
qed

lemma suffix_of_mark:
  assumes "suffix u redaction_mark" "CHR '']'' \<notin> set u"
  shows "u = []"
proof (rule ccontr)
  assume "u \<noteq> []"
  then have "last u = last redaction_mark"
    using assms(1) by (auto simp: suffix_def) (metis last_appendR)
  then have "last u = CHR '']''" by (simp add: redaction_mark_def)
  then show False using assms(2) \<open>u \<noteq> []\<close> last_in_set by metis
qed

lemma replace_all_sublist:
  assumes "plain_secret t"
  shows "sublist t (replace_all pat redaction_mark s) \<Longrightarrow> pat \<noteq> [] \<Longrightarrow> sublist t s \<and> t \<noteq> pat"
proof (induction pat redaction_mark s rule: replace_all.induct)
  case (1 pat)
  then show ?case using assms by (auto simp: plain_secret_def)
next
  case (2 pat c cs)
  have b: "CHR ''['' \<notin> set t" "CHR '']'' \<notin> set t" using assms by (simp_all add: plain_secret_def)
  show ?case
  proof (cases "starts_with (c # cs) pat")
    case True
    let ?r = "replace_all pat redaction_mark (drop (length pat) (c # cs))"
    have "sublist t (redaction_mark @ ?r)" using 2(3,4) True by simp
    then have "sublist t ?r"
      unfolding sublist_append
    proof (elim disjE exE conjE)
      assume "sublist t redaction_mark"
      then show ?thesis using not_in_mark [OF assms] by blast
    next
      fix t1 t2
      assume t: "t = t1 @ t2" "suffix t1 redaction_mark" "prefix t2 ?r"
      then have "t1 = []" using suffix_of_mark b(2) by simp
      then show ?thesis using t by simp
    qed
    then have "sublist t (drop (length pat) (c # cs)) \<and> t \<noteq> pat"
      using 2(1) 2(4) True by simp
    then show ?thesis using sublist_order.order_trans [OF _ sublist_drop] by blast
  next
    case False
    let ?r = "replace_all pat redaction_mark cs"
    have r: "replace_all pat redaction_mark (c # cs) = c # ?r" using False by simp
    have "prefix t (c # ?r) \<or> sublist t ?r"
      using 2(3) unfolding r by (simp add: sublist_Cons_right)
    then show ?thesis
    proof
      assume "sublist t ?r"
      then show ?thesis using 2(2) 2(4) False by (simp add: sublist_Cons_right)
    next
      assume p: "prefix t (c # ?r)"
      then have p': "prefix t (replace_all pat redaction_mark (c # cs))" using False by simp
      have "prefix t (c # cs)" by (rule replace_all_prefix [OF b(1) p'])
      then show ?thesis using False by (auto simp: starts_with_prefix)
    qed
  qed
qed

lemma redact_with_Cons:
  "redact_with (x # xs) input =
     redact_with xs (if contains_str input x then replace_all x redaction_mark input else input)"
  by (simp add: redact_with_def)

lemma redact_with_keeps:
  "plain_secret t \<Longrightarrow> \<forall>x \<in> set xs. x \<noteq> [] \<Longrightarrow> sublist t (redact_with xs input) \<Longrightarrow> sublist t input"
proof (induction xs arbitrary: input)
  case (Cons x xs)
  have "sublist t (if contains_str input x then replace_all x redaction_mark input else input)"
    using Cons by (simp add: redact_with_Cons)
  moreover have "x \<noteq> []" using Cons.prems(2) by simp
  ultimately show ?case using replace_all_sublist [OF Cons.prems(1), of x input] by (cases "contains_str input x") simp_all
qed (simp add: redact_with_def)

lemma redact_with_hides:
  "plain_secret t \<Longrightarrow> t \<in> set xs \<Longrightarrow> \<forall>x \<in> set xs. x \<noteq> [] \<Longrightarrow> \<not> sublist t (redact_with xs input)"
proof (induction xs arbitrary: input)
  case (Cons x xs)
  show ?case
  proof (cases "x = t")
    case True
    let ?out = "if contains_str input t then replace_all t redaction_mark input else input"
    have t: "t \<noteq> []" using Cons.prems(3) True by simp
    have "\<not> sublist t ?out"
    proof (cases "contains_str input t")
      case True
      then show ?thesis using replace_all_sublist [OF Cons.prems(1) _ t, of input] by auto
    next
      case False
      then show ?thesis by (simp add: contains_str_def)
    qed
    moreover have "sublist t (redact_with xs ?out) \<Longrightarrow> sublist t ?out"
      by (rule redact_with_keeps [OF Cons.prems(1)]) (use Cons.prems(3) in simp_all)
    ultimately show ?thesis unfolding redact_with_Cons True by blast
  next
    case False
    then show ?thesis using Cons by (simp add: redact_with_Cons)
  qed
qed simp

primrec json_strings :: "json \<Rightarrow> string list" where
  "json_strings JNull = []"
| "json_strings (JBool b) = []"
| "json_strings (JNum n) = []"
| "json_strings (JStr s) = [s]"
| "json_strings (JArr vs) = concat (map json_strings vs)"
| "json_strings (JObj kvs) = concat (map snd (map (map_prod (\<lambda>k. k) json_strings) kvs))"

lemma json_strings_redact: "set (json_strings (redact_value m i v)) = redact m i ` set (json_strings v)"
proof (induction v)
  case (JArr vs)
  then show ?case by (simp add: image_UN)
next
  case (JObj kvs)
  have "set (json_strings (redact_value m i (snd kv))) = redact m i ` set (json_strings (snd kv))"
    if "kv \<in> set kvs" for kv
    using JObj that by (simp add: snds.simps)
  then show ?case by (simp add: image_UN comp_def)
qed simp_all

text \<open>C14
  The journal never carries a secret of its agent: once a bundle is stored, every string value in
  the payload of every event appended for the agent is free of each of the bundle's values that
  is at least twelve characters long and holds no square bracket, whatever other values are
  registered and in whatever order they are replaced.\<close>

theorem journal_hides_secrets:
  assumes "v \<in> set (bundle_values b)" "plain_secret v"
    and "append_journal render (hs_redact (put_bundle i b h)) now kind payload
      \<lparr>jn_agent_id = i, jn_seq = q\<rparr> f = (ev, j', f')"
  shows "\<forall>s \<in> set (json_strings (ev_payload ev)). \<not> contains_str s v"
proof
  let ?xs = "filter (\<lambda>v. 12 \<le> length v) (bundle_values b)"
  fix s assume s: "s \<in> set (json_strings (ev_payload ev))"
  have v: "v \<in> set ?xs" using assms(1,2) by (simp add: plain_secret_def)
  then have m: "hs_redact (put_bundle i b h) i = Some ?xs"
    by (auto simp: put_bundle_def register_secrets_def Let_def filter_empty_conv)
  have "ev_payload ev = redact_value (hs_redact (put_bundle i b h)) i payload"
    using assms(3) by (auto simp: append_journal_def Let_def)
  then obtain t where "s = redact_with ?xs t" using s m by (auto simp: json_strings_redact redact_def)
  moreover have "\<forall>x \<in> set ?xs. x \<noteq> []" by auto
  ultimately show "\<not> contains_str s v"
    using redact_with_hides [OF assms(2) v] by (simp add: contains_str_def)
qed

text \<open>Secrets are replaced one after the other, so a shorter one hides the rest of a longer one from
  the scan: its tail is journaled.\<close>

lemma overlapping_secret_leaks:
  "redact (register_secrets ''i'' [''sk-000000000'', ''sk-000000000-TAIL''] (\<lambda>_. None)) ''i''
     ''sk-000000000-TAIL'' = ''[REDACTED]-TAIL''"
  by code_simp

theorem journal_hides_secrets_witness:
  "\<not> contains_str (redact (hs_redact (put_bundle ''i'' \<lparr>sb_env = [], sb_git_ssh_key = Some ''0123456789ab''\<rparr>
      \<lparr>hs_bundles = (\<lambda>_. None), hs_redact = (\<lambda>_. None)\<rparr>)) ''i'' ''key=0123456789ab;'') ''0123456789ab''"
proof -
  let ?b = "\<lparr>sb_env = [], sb_git_ssh_key = Some ''0123456789ab''\<rparr>"
  let ?h = "\<lparr>hs_bundles = (\<lambda>_. None), hs_redact = (\<lambda>_. None)\<rparr>"
  obtain ev j' f' where a: "append_journal (\<lambda>_. []) (hs_redact (put_bundle ''i'' ?b ?h)) [] []
      (JStr ''key=0123456789ab;'') \<lparr>jn_agent_id = ''i'', jn_seq = 0\<rparr> \<lparr>af_journal = None, af_shipped = None\<rparr> = (ev, j', f')"
    by (metis prod.collapse)
  have "plain_secret ''0123456789ab''" by (simp add: plain_secret_def)
  from journal_hides_secrets [OF _ this a] a show ?thesis
    by (auto simp: append_journal_def Let_def bundle_values_def)
qed

end
