(* ===== verification/Log_Shipping.thy ===== *)
theory Log_Shipping
  imports Journal Control_Theorems
begin

text \<open>
  Shipping journals to the control plane: the daemon's cycle (ship_pending_logs in
  crates/castellan/src/control.rs) against the log receiver (handle_logs in
  crates/suzerain/src/control.rs), as a step relation over one agent in which journals are opened,
  appended to and closed, batches are acknowledged, or stored with the acknowledgement lost.
\<close>

section \<open>The shipping cycle\<close>

definition pending_batch ::
    "(string \<Rightarrow> log_event option) \<Rightarrow> uuid \<Rightarrow> agent_files \<Rightarrow> log_batch option" where
  "pending_batch parse i f =
     (case read_journal parse f of
        None \<Rightarrow> None
      | Some evs \<Rightarrow>
          (let shipped = unwrap_or 0 (shipped_mark f);
               events = filter (\<lambda>e. shipped < ev_seq e) evs
           in if events = [] then None else Some \<lparr>lb_agent_id = i, lb_events = events\<rparr>))"

definition max_seq :: "log_event list \<Rightarrow> u64" where
  "max_seq evs = fold (\<lambda>e m. max m (ev_seq e)) evs 0"

text \<open>After the acknowledgement: the watermark, then the pruning of a closed journal.\<close>

definition after_ack ::
    "(string \<Rightarrow> log_event option) \<Rightarrow> bool \<Rightarrow> log_batch \<Rightarrow> log_ack \<Rightarrow> u64 \<Rightarrow> agent_files \<Rightarrow> u64 \<times> agent_files" where
  "after_ack parse not_running batch ack last_pruned f =
     (if max_seq (lb_events batch) \<le> la_acked_through ack
      then
        (let f1 = f\<lparr>af_shipped := Some (show_nat (unat (la_acked_through ack)))\<rparr>
         in if not_running \<and> last_pruned < la_acked_through ack
            then (la_acked_through ack, prune_journal parse (la_acked_through ack) f1)
            else (last_pruned, f1))
      else (last_pruned, f))"

text \<open>One pass over the local agents; it ends at the first transport error.\<close>

fun ship_pending_logs ::
    "(string \<Rightarrow> log_event option) \<Rightarrow> (uuid \<Rightarrow> log_batch \<Rightarrow> log_ack option) \<Rightarrow> (uuid \<times> bool) list \<Rightarrow>
      (uuid \<Rightarrow> u64) \<Rightarrow> (uuid \<Rightarrow> agent_files) \<Rightarrow> bool \<times> (uuid \<Rightarrow> u64) \<times> (uuid \<Rightarrow> agent_files)" where
  "ship_pending_logs parse net [] pruned files = (True, pruned, files)"
| "ship_pending_logs parse net ((i, not_running) # rest) pruned files =
     (case pending_batch parse i (files i) of
        None \<Rightarrow> ship_pending_logs parse net rest pruned files
      | Some batch \<Rightarrow>
          (case net i batch of
             None \<Rightarrow> (False, pruned, files)
           | Some ack \<Rightarrow>
               (case after_ack parse not_running batch ack (pruned i) (files i) of
                  (lp, f) \<Rightarrow> ship_pending_logs parse net rest (pruned(i := lp)) (files(i := f)))))"

section \<open>One agent, end to end\<close>

text \<open>\<open>sh_all\<close> is every event ever appended, in order: what neither side may lose.\<close>

record shipping =
  sh_all :: "log_event list"
  sh_files :: agent_files
  sh_journal :: "journal option"
  sh_pruned :: u64
  sh_store :: store
  sh_log :: "log_event list"

definition codec_at :: "(log_event \<Rightarrow> string) \<Rightarrow> (string \<Rightarrow> log_event option) \<Rightarrow> log_event \<Rightarrow> bool" where
  "codec_at render parse e \<longleftrightarrow>
     parse (render e) = Some e \<and> newline \<notin> set (render e) \<and> CHR 0x0D \<notin> set (render e)"

inductive ship_step ::
    "(log_event \<Rightarrow> string) \<Rightarrow> (string \<Rightarrow> log_event option) \<Rightarrow> uuid \<Rightarrow> shipping \<Rightarrow> shipping \<Rightarrow> bool"
  for render parse i where
  opened: "open_journal parse i (sh_files s) = (j, f) \<Longrightarrow>
     ship_step render parse i s (s\<lparr>sh_journal := Some j, sh_files := f\<rparr>)"
| closed: "ship_step render parse i s (s\<lparr>sh_journal := None\<rparr>)"
| appended: "\<lbrakk>sh_journal s = Some j; jn_seq j + 1 \<noteq> 0;
     append_journal render m now kind payload j (sh_files s) = (ev, j', f);
     codec_at render parse ev\<rbrakk> \<Longrightarrow>
     ship_step render parse i s
       (s\<lparr>sh_all := sh_all s @ [ev], sh_journal := Some j', sh_files := f\<rparr>)"
| acknowledged: "\<lbrakk>pending_batch parse i (sh_files s) = Some batch;
     handle_log_batch i now batch (sh_log s) (sh_store s) = (ack, log', st');
     not_running \<longrightarrow> sh_journal s = None;
     after_ack parse not_running batch ack (sh_pruned s) (sh_files s) = (lp, f)\<rbrakk> \<Longrightarrow>
     ship_step render parse i s
       (s\<lparr>sh_files := f, sh_pruned := lp, sh_store := st', sh_log := log'\<rparr>)"
| ack_lost: "\<lbrakk>pending_batch parse i (sh_files s) = Some batch;
     handle_log_batch i now batch (sh_log s) (sh_store s) = (ack, log', st')\<rbrakk> \<Longrightarrow>
     ship_step render parse i s (s\<lparr>sh_store := st', sh_log := log'\<rparr>)"

inductive ship_reach ::
    "(log_event \<Rightarrow> string) \<Rightarrow> (string \<Rightarrow> log_event option) \<Rightarrow> uuid \<Rightarrow> shipping \<Rightarrow> bool"
  for render parse i where
  fresh: "acked_through i st = 0 \<Longrightarrow> ship_reach render parse i
     \<lparr>sh_all = [], sh_files = \<lparr>af_journal = None, af_shipped = None\<rparr>, sh_journal = None,
      sh_pruned = 0, sh_store = st, sh_log = []\<rparr>"
| step: "ship_reach render parse i s \<Longrightarrow> ship_step render parse i s s' \<Longrightarrow> ship_reach render parse i s'"

section \<open>Sequence numbers\<close>

definition numbered :: "log_event list \<Rightarrow> bool" where
  "numbered evs \<longleftrightarrow> length evs < 2 ^ 64 \<and> (\<forall>k < length evs. ev_seq (evs ! k) = of_nat (Suc k))"

lemma unat_small: "n < 2 ^ 64 \<Longrightarrow> unat (of_nat n :: u64) = n"
  by (simp add: unat_of_nat take_bit_nat_eq_self)

lemma numbered_less:
  assumes "numbered evs" "k < length evs" "w \<le> length evs"
  shows "(of_nat w :: u64) < ev_seq (evs ! k) \<longleftrightarrow> w \<le> k"
  using assms by (auto simp: numbered_def word_less_nat_alt unat_small simp del: of_nat_Suc)

lemma numbered_snoc:
  "numbered evs \<Longrightarrow> Suc (length evs) < 2 ^ 64 \<Longrightarrow> ev_seq e = of_nat (Suc (length evs)) \<Longrightarrow> numbered (evs @ [e])"
  by (auto simp: numbered_def nth_append less_Suc_eq)

lemma numbered_filter:
  assumes "numbered evs" "p \<le> w" "w \<le> length evs"
  shows "filter (\<lambda>e. of_nat w < ev_seq e) (drop p evs) = drop w evs"
proof -
  have "drop p evs = take (w - p) (drop p evs) @ drop w evs"
    using assms(2) by (metis append_take_drop_id drop_drop le_add_diff_inverse2)
  moreover have "filter (\<lambda>e. of_nat w < ev_seq e) (take (w - p) (drop p evs)) = []"
    using numbered_less [OF assms(1) _ assms(3)] assms(2,3)
    by (auto simp: filter_empty_conv in_set_conv_nth)
  moreover have "filter (\<lambda>e. of_nat w < ev_seq e) (drop w evs) = drop w evs"
    using numbered_less [OF assms(1) _ assms(3)] by (auto simp: filter_id_conv in_set_conv_nth)
  ultimately show ?thesis by (metis append_Nil filter_append)
qed

lemma max_seq_le: "(\<forall>e \<in> set evs. ev_seq e \<le> m) \<Longrightarrow> a \<le> m \<Longrightarrow> fold (\<lambda>e m. max m (ev_seq e)) evs a \<le> m"
  by (induction evs arbitrary: a) auto

lemma max_seq_snoc: "fold (\<lambda>e m. max m (ev_seq e)) (evs @ [e]) a =
   max (fold (\<lambda>e m. max m (ev_seq e)) evs a) (ev_seq e)"
  by simp

lemma max_seq_drop:
  assumes "numbered evs" "p < length evs"
  shows "max_seq (drop p evs) = of_nat (length evs)"
proof -
  obtain es e where d: "drop p evs = es @ [e]" using assms(2) by (metis drop_eq_Nil linorder_not_le rev_exhaust)
  have "e = evs ! (length evs - 1)"
    using arg_cong [OF d, of last] assms(2) by (simp add: last_conv_nth last_drop)
  then have e: "ev_seq e = of_nat (length evs)"
    using assms by (simp add: numbered_def)
  have "ev_seq x \<le> of_nat (length evs)" if x: "x \<in> set (drop p evs)" for x
  proof -
    obtain k where k: "k < length evs" "x = evs ! k"
      using in_set_dropD [OF x] unfolding in_set_conv_nth by blast
    have "\<not> of_nat (length evs) < ev_seq x"
      unfolding k(2) numbered_less [OF assms(1) k(1) order_refl] using k(1) by simp
    then show ?thesis by (rule leI)
  qed
  then have "fold (\<lambda>e m. max m (ev_seq e)) es 0 \<le> of_nat (length evs)"
    by (intro max_seq_le) (auto simp: d)
  then show ?thesis unfolding max_seq_def d max_seq_snoc e by (rule max_absorb2)
qed

section \<open>The journal file as a list of events\<close>

definition codec_all :: "(log_event \<Rightarrow> string) \<Rightarrow> (string \<Rightarrow> log_event option) \<Rightarrow> log_event list \<Rightarrow> bool" where
  "codec_all render parse evs \<longleftrightarrow> list_all (codec_at render parse) evs"

definition journal_text :: "(log_event \<Rightarrow> string) \<Rightarrow> log_event list \<Rightarrow> string" where
  "journal_text render evs = unlines (map render evs)"

lemma journal_lines:
  "codec_all render parse evs \<Longrightarrow> str_lines (journal_text render evs) = map render evs"
  unfolding journal_text_def
  by (rule str_lines_unlines) (auto simp: codec_all_def codec_at_def list_all_iff)

lemma journal_events_text:
  "codec_all render parse evs \<Longrightarrow> journal_events parse (journal_text render evs) = evs"
  by (simp add: journal_events_def journal_lines)
    (induction evs; simp add: codec_all_def codec_at_def List.map_filter_simps)

lemma prune_kept_text:
  "codec_all render parse evs \<Longrightarrow> prune_kept parse a kept d (map render evs) =
     (kept @ journal_text render (filter (\<lambda>e. a < ev_seq e) evs), d \<or> (\<exists>e \<in> set evs. ev_seq e \<le> a))"
  by (induction evs arbitrary: kept d)
    (auto simp: codec_all_def codec_at_def journal_text_def unlines_def not_le)

lemma prune_journal_text:
  assumes "codec_all render parse evs" "af_journal f = Some (journal_text render evs)"
  shows "af_journal (prune_journal parse a f) = Some (journal_text render (filter (\<lambda>e. a < ev_seq e) evs))"
    "af_shipped (prune_journal parse a f) = af_shipped f"
proof -
  have "filter (\<lambda>e. a < ev_seq e) evs = evs" if "\<not> (\<exists>e \<in> set evs. ev_seq e \<le> a)"
    using that by (auto simp: filter_id_conv not_le)
  then show "af_journal (prune_journal parse a f) = Some (journal_text render (filter (\<lambda>e. a < ev_seq e) evs))"
    by (simp add: prune_journal_def assms(2) journal_lines [OF assms(1)] prune_kept_text [OF assms(1)])
  show "af_shipped (prune_journal parse a f) = af_shipped f"
    by (simp add: prune_journal_def split: option.split prod.split)
qed

lemma codec_all_drop: "codec_all render parse evs \<Longrightarrow> codec_all render parse (drop n evs)"
  by (auto simp: codec_all_def list_all_iff dest: in_set_dropD)

lemma store_events_above:
  "sorted_wrt (<) (map ev_seq es) \<Longrightarrow> store_events i es a jl s =
     (last (a # map ev_seq (filter (\<lambda>e. a < ev_seq e) es)), jl @ filter (\<lambda>e. a < ev_seq e) es,
      fold (append_event i) (filter (\<lambda>e. a < ev_seq e) es) s)"
proof (induction es)
  case (Cons e es)
  show ?case
  proof (cases "ev_seq e \<le> a")
    case True
    then show ?thesis using Cons by simp
  next
    case False
    have "filter (\<lambda>e. a < ev_seq e) (e # es) = e # es"
      using Cons.prems False by (auto simp: filter_id_conv not_le intro: less_trans)
    moreover have "sorted_wrt (<) (a # map ev_seq (e # es))"
      using Cons.prems False by (auto simp: not_le intro: less_trans)
    ultimately show ?thesis using store_events_sorted by metis
  qed
qed simp

section \<open>The invariant\<close>

text \<open>
  \<open>p\<close> events are pruned, \<open>w\<close> are under the daemon's watermark, \<open>a\<close> are stored by the control plane.
\<close>

definition marks :: "(log_event \<Rightarrow> string) \<Rightarrow> uuid \<Rightarrow> shipping \<Rightarrow> nat \<Rightarrow> nat \<Rightarrow> nat \<Rightarrow> bool" where
  "marks render i s p w a \<longleftrightarrow> p \<le> w \<and> w \<le> a \<and> a \<le> length (sh_all s) \<and>
     (af_journal (sh_files s) = Some (journal_text render (drop p (sh_all s))) \<or>
      af_journal (sh_files s) = None \<and> sh_all s = []) \<and>
     unwrap_or 0 (shipped_mark (sh_files s)) = of_nat w \<and>
     acked_through i (sh_store s) = of_nat a \<and> sh_log s = take a (sh_all s)"

definition journal_live :: "uuid \<Rightarrow> shipping \<Rightarrow> bool" where
  "journal_live i s \<longleftrightarrow> (case sh_journal s of None \<Rightarrow> True
     | Some j \<Rightarrow> jn_agent_id j = i \<and> jn_seq j = of_nat (length (sh_all s)) \<and> af_journal (sh_files s) \<noteq> None)"

definition ship_inv :: "(log_event \<Rightarrow> string) \<Rightarrow> (string \<Rightarrow> log_event option) \<Rightarrow> uuid \<Rightarrow> shipping \<Rightarrow> bool" where
  "ship_inv render parse i s \<longleftrightarrow> numbered (sh_all s) \<and> codec_all render parse (sh_all s) \<and>
     (\<exists>p w a. marks render i s p w a) \<and> journal_live i s"

lemma numbered_sorted:
  assumes "numbered evs"
  shows "sorted_wrt (<) (map ev_seq (drop w evs))"
proof -
  have "ev_seq (evs ! k) < ev_seq (evs ! l)" if "k < l" "l < length evs" for k l
    using numbered_less [OF assms that(2), of "Suc k"] assms that by (simp add: numbered_def)
  then show ?thesis by (simp add: sorted_wrt_iff_nth_less)
qed

lemma numbered_last:
  assumes "numbered evs" "a \<le> length evs"
  shows "last (of_nat a # map ev_seq (drop a evs)) = of_nat (length evs)"
proof (cases "a < length evs")
  case True
  then have "last (drop a evs) = evs ! (length evs - 1)" by (simp add: last_drop last_conv_nth)
  then show ?thesis using assms(1) True by (simp add: last_map numbered_def)
qed (use assms(2) in simp)

lemma batch_events:
  assumes "marks render i s p w a" "numbered (sh_all s)" "codec_all render parse (sh_all s)"
    and "pending_batch parse i (sh_files s) = Some batch"
  shows "lb_events batch = drop w (sh_all s)" "w < length (sh_all s)"
    "af_journal (sh_files s) = Some (journal_text render (drop p (sh_all s)))"
proof -
  show j: "af_journal (sh_files s) = Some (journal_text render (drop p (sh_all s)))"
    using assms(1,4) by (auto simp: marks_def pending_batch_def read_journal_def)
  have "filter (\<lambda>e. unwrap_or 0 (shipped_mark (sh_files s)) < ev_seq e) (drop p (sh_all s)) = drop w (sh_all s)"
    using assms(1) numbered_filter [OF assms(2)] by (simp add: marks_def)
  then have b: "batch = \<lparr>lb_agent_id = i, lb_events = drop w (sh_all s)\<rparr> \<and> drop w (sh_all s) \<noteq> []"
    using assms(4) j journal_events_text [OF codec_all_drop [OF assms(3)]]
    by (simp add: pending_batch_def read_journal_def Let_def split: if_splits)
  then show "lb_events batch = drop w (sh_all s)" "w < length (sh_all s)" by simp_all
qed

lemma batch_received:
  assumes "marks render i s p w a" "numbered (sh_all s)" "lb_events batch = drop w (sh_all s)"
    and "handle_log_batch i now batch (sh_log s) (sh_store s) = (ack, log', st')"
  shows "la_acked_through ack = of_nat (length (sh_all s))" "log' = sh_all s"
    "acked_through i st' = of_nat (length (sh_all s))"
proof -
  have m: "w \<le> a" "a \<le> length (sh_all s)" "acked_through i (sh_store s) = of_nat a"
    "sh_log s = take a (sh_all s)" using assms(1) by (simp_all add: marks_def)
  have f: "filter (\<lambda>e. of_nat a < ev_seq e) (drop w (sh_all s)) = drop a (sh_all s)"
    using numbered_filter [OF assms(2) m(1,2)] .
  show "la_acked_through ack = of_nat (length (sh_all s))" "log' = sh_all s"
    "acked_through i st' = of_nat (length (sh_all s))"
    using assms(4) numbered_last [OF assms(2) m(2)]
    by (auto simp: handle_log_batch_def assms(3) m(3,4) store_events_above [OF numbered_sorted [OF assms(2)]] f acked_set)
qed

lemma opened_seq:
  assumes "marks render i s p w a" "numbered (sh_all s)" "codec_all render parse (sh_all s)"
    and "open_journal parse i (sh_files s) = (j, f)"
  shows "j = \<lparr>jn_agent_id = i, jn_seq = of_nat (length (sh_all s))\<rparr>"
    "af_journal f = Some (unwrap_or [] (af_journal (sh_files s)))" "af_shipped f = af_shipped (sh_files s)"
proof -
  let ?n = "length (sh_all s)"
  let ?seq0 = "case af_journal (sh_files s) of None \<Rightarrow> 0
    | Some c \<Rightarrow> fold (\<lambda>ev seq. max seq (ev_seq ev)) (journal_events parse c) (0 :: u64)"
  have le: "w \<le> ?n" "p \<le> w" "unwrap_or 0 (shipped_mark (sh_files s)) = of_nat w"
    using assms(1) by (simp_all add: marks_def)
  have n: "(of_nat w :: u64) \<le> of_nat ?n"
    using le(1) assms(2) by (simp add: numbered_def word_le_nat_alt unat_small)
  have seq0: "?seq0 = (if p < ?n then of_nat ?n else 0)"
    using assms(1) max_seq_drop [OF assms(2), of p] journal_events_text [OF codec_all_drop [OF assms(3)]]
      journal_events_text [of render parse "[]"]
    by (auto simp: marks_def max_seq_def codec_all_def)
  have "max ?seq0 (of_nat w) = of_nat ?n"
  proof (cases "p < ?n")
    case False
    then have "w = ?n" using le by simp
    then show ?thesis using seq0 False by simp
  qed (use seq0 n in \<open>simp add: max_def\<close>)
  moreover have "(case shipped_mark (sh_files s) of None \<Rightarrow> ?seq0 | Some w \<Rightarrow> max ?seq0 w) = max ?seq0 (of_nat w)"
    using le(3) by (auto simp: unwrap_or_def split: option.splits)
  ultimately show "j = \<lparr>jn_agent_id = i, jn_seq = of_nat ?n\<rparr>"
    using assms(4) by (auto simp: open_journal_def Let_def)
  show "af_journal f = Some (unwrap_or [] (af_journal (sh_files s)))" "af_shipped f = af_shipped (sh_files s)"
    using assms(4) by (auto simp: open_journal_def Let_def)
qed

lemma ship_inv_acknowledged:
  assumes "ship_inv render parse i s" "pending_batch parse i (sh_files s) = Some batch"
    and "handle_log_batch i now batch (sh_log s) (sh_store s) = (ack, log', st')"
    and "not_running \<longrightarrow> sh_journal s = None"
    and "after_ack parse not_running batch ack (sh_pruned s) (sh_files s) = (lp, f)"
  shows "ship_inv render parse i (s\<lparr>sh_files := f, sh_pruned := lp, sh_store := st', sh_log := log'\<rparr>)"
proof -
  let ?n = "length (sh_all s)"
  obtain p w a where m: "marks render i s p w a" and nu: "numbered (sh_all s)"
    and co: "codec_all render parse (sh_all s)" and jl: "journal_live i s"
    using assms(1) by (auto simp: ship_inv_def)
  note b = batch_events [OF m nu co assms(2)]
  note r = batch_received [OF m nu b(1) assms(3)]
  have p: "p \<le> ?n" using m by (simp add: marks_def)
  let ?f1 = "(sh_files s)\<lparr>af_shipped := Some (show_nat (unat (of_nat ?n :: u64)))\<rparr>"
  have mark: "shipped_mark ?f1 = Some (of_nat ?n)"
    using nu by (simp add: shipped_mark_def strs unat_small numbered_def)
  have pr: "af_journal (prune_journal parse (of_nat ?n) ?f1) = Some (journal_text render (drop ?n (sh_all s)))"
    "shipped_mark (prune_journal parse (of_nat ?n) ?f1) = Some (of_nat ?n)"
    using prune_journal_text [OF codec_all_drop [OF co], of ?f1 p "of_nat ?n"] b(3) mark
      numbered_filter [OF nu p order_refl]
    by (simp_all add: shipped_mark_def)
  have "max_seq (lb_events batch) \<le> la_acked_through ack"
    unfolding b(1) r(1) max_seq_drop [OF nu b(2)] by simp
  then have f: "f = ?f1 \<or> f = prune_journal parse (of_nat ?n) ?f1 \<and> not_running"
    using assms(5) by (auto simp: after_ack_def Let_def r(1) split: if_splits)
  then have "\<exists>q. marks render i (s\<lparr>sh_files := f, sh_pruned := lp, sh_store := st', sh_log := log'\<rparr>) q ?n ?n"
  proof
    assume "f = ?f1"
    then show ?thesis using p b(3) mark r by (intro exI [of _ p]) (simp add: marks_def unwrap_or_def)
  next
    assume "f = prune_journal parse (of_nat ?n) ?f1 \<and> not_running"
    then show ?thesis using pr r by (intro exI [of _ ?n]) (simp add: marks_def unwrap_or_def)
  qed
  moreover have "journal_live i (s\<lparr>sh_files := f, sh_pruned := lp, sh_store := st', sh_log := log'\<rparr>)"
    using f jl assms(4) b(3) pr(1) by (auto simp: journal_live_def split: option.splits)
  ultimately show ?thesis using nu co by (auto simp: ship_inv_def)
qed

lemma ship_inv_appended:
  assumes "ship_inv render parse i s" "sh_journal s = Some j" "jn_seq j + 1 \<noteq> 0"
    and "append_journal render m now kind payload j (sh_files s) = (ev, j', f)" "codec_at render parse ev"
  shows "ship_inv render parse i (s\<lparr>sh_all := sh_all s @ [ev], sh_journal := Some j', sh_files := f\<rparr>)"
proof -
  let ?n = "length (sh_all s)"
  obtain p w a where mk: "marks render i s p w a" and nu: "numbered (sh_all s)"
    and co: "codec_all render parse (sh_all s)" and jl: "journal_live i s"
    using assms(1) by (auto simp: ship_inv_def)
  have j: "jn_agent_id j = i" "jn_seq j = of_nat ?n" "af_journal (sh_files s) \<noteq> None"
    using jl assms(2) by (simp_all add: journal_live_def)
  have n: "Suc ?n < 2 ^ 64"
  proof (rule ccontr)
    assume "\<not> Suc ?n < 2 ^ 64"
    then have "Suc ?n = 2 ^ 64" using nu by (simp add: numbered_def)
    then have "(of_nat (Suc ?n) :: u64) = 0" by (simp add: word_of_nat_eq_0_iff del: of_nat_Suc)
    then show False using assms(3) j(2) by (simp add: add.commute)
  qed
  have e: "ev_seq ev = of_nat (Suc ?n)" "j' = j\<lparr>jn_seq := of_nat (Suc ?n)\<rparr>"
    "af_journal f = Some (unwrap_or [] (af_journal (sh_files s)) @ render ev @ [newline])"
    "af_shipped f = af_shipped (sh_files s)"
    using assms(4) j(2) by (auto simp: append_journal_def Let_def add.commute)
  have "p \<le> ?n" "a \<le> ?n" using mk by (simp_all add: marks_def)
  then have "marks render i (s\<lparr>sh_all := sh_all s @ [ev], sh_journal := Some j', sh_files := f\<rparr>) p w a"
    using mk j(3) e by (auto simp: marks_def shipped_mark_def journal_text_def unlines_def unwrap_or_def)
  moreover have "numbered (sh_all s @ [ev])" using numbered_snoc [OF nu n e(1)] .
  moreover have "codec_all render parse (sh_all s @ [ev])" using co assms(5) by (simp add: codec_all_def)
  moreover have "journal_live i (s\<lparr>sh_all := sh_all s @ [ev], sh_journal := Some j', sh_files := f\<rparr>)"
    using e j(1) by (simp add: journal_live_def)
  ultimately show ?thesis by (auto simp: ship_inv_def)
qed

lemma ship_inv_opened:
  assumes "ship_inv render parse i s" "open_journal parse i (sh_files s) = (j, f)"
  shows "ship_inv render parse i (s\<lparr>sh_journal := Some j, sh_files := f\<rparr>)"
proof -
  obtain p w a where m: "marks render i s p w a" and nu: "numbered (sh_all s)"
    and co: "codec_all render parse (sh_all s)" using assms(1) by (auto simp: ship_inv_def)
  note o = opened_seq [OF m nu co assms(2)]
  have "marks render i (s\<lparr>sh_journal := Some j, sh_files := f\<rparr>) p w a"
    using m o(2,3) by (auto simp: marks_def shipped_mark_def unwrap_or_def journal_text_def unlines_def)
  moreover have "journal_live i (s\<lparr>sh_journal := Some j, sh_files := f\<rparr>)"
    using o by (simp add: journal_live_def)
  ultimately show ?thesis using nu co by (auto simp: ship_inv_def)
qed

lemma ship_inv_ack_lost:
  assumes "ship_inv render parse i s" "pending_batch parse i (sh_files s) = Some batch"
    and "handle_log_batch i now batch (sh_log s) (sh_store s) = (ack, log', st')"
  shows "ship_inv render parse i (s\<lparr>sh_store := st', sh_log := log'\<rparr>)"
proof -
  obtain p w a where m: "marks render i s p w a" and nu: "numbered (sh_all s)"
    and co: "codec_all render parse (sh_all s)" and jl: "journal_live i s"
    using assms(1) by (auto simp: ship_inv_def)
  note r = batch_received [OF m nu batch_events(1) [OF m nu co assms(2)] assms(3)]
  have "marks render i (s\<lparr>sh_store := st', sh_log := log'\<rparr>) p w (length (sh_all s))"
    using m r by (simp add: marks_def)
  moreover have "journal_live i (s\<lparr>sh_store := st', sh_log := log'\<rparr>)"
    using jl by (cases "sh_journal s") (simp_all add: journal_live_def)
  ultimately show ?thesis using nu co by (auto simp: ship_inv_def)
qed

lemma ship_step_inv: "ship_step render parse i s s' \<Longrightarrow> ship_inv render parse i s \<Longrightarrow> ship_inv render parse i s'"
proof (induction rule: ship_step.induct)
  case (closed s)
  then show ?case by (auto simp: ship_inv_def marks_def journal_live_def)
qed (auto intro: ship_inv_opened ship_inv_appended ship_inv_acknowledged ship_inv_ack_lost)

lemma ship_reach_inv: "ship_reach render parse i s \<Longrightarrow> ship_inv render parse i s"
proof (induction rule: ship_reach.induct)
  case (fresh st)
  then show ?case
    by (auto simp: ship_inv_def marks_def numbered_def codec_all_def journal_live_def shipped_mark_def unwrap_or_def)
qed (rule ship_step_inv)

text \<open>C15
  Shipping loses nothing and duplicates nothing: however often the journal of an agent is opened,
  appended to, closed, shipped, acknowledged (with pruning when it is closed) or shipped with the
  acknowledgement lost, the control plane's log followed by the unacknowledged events of the local
  journal is exactly the sequence of all events ever appended, with strictly increasing numbers;
  and once nothing is left to ship the control plane has them all.\<close>

theorem shipping_loses_nothing:
  assumes "ship_reach render parse i s"
  shows "sh_log s @ filter (\<lambda>e. acked_through i (sh_store s) < ev_seq e)
        (unwrap_or [] (read_journal parse (sh_files s))) = sh_all s \<and>
    sorted_wrt (<) (map ev_seq (sh_all s)) \<and>
    (pending_batch parse i (sh_files s) = None \<longrightarrow> sh_log s = sh_all s)"
proof -
  obtain p w a where m: "marks render i s p w a" and nu: "numbered (sh_all s)"
    and co: "codec_all render parse (sh_all s)" using ship_reach_inv [OF assms] by (auto simp: ship_inv_def)
  have le: "p \<le> w" "w \<le> a" "a \<le> length (sh_all s)" using m by (simp_all add: marks_def)
  have l: "unwrap_or [] (read_journal parse (sh_files s)) = drop p (sh_all s)"
    using m journal_events_text [OF codec_all_drop [OF co]]
    by (auto simp: marks_def read_journal_def unwrap_or_def)
  have f: "filter (\<lambda>e. of_nat k < ev_seq e) (drop p (sh_all s)) = drop k (sh_all s)" if "p \<le> k" "k \<le> length (sh_all s)" for k
    using numbered_filter [OF nu that] .
  have "drop w (sh_all s) = []" if "pending_batch parse i (sh_files s) = None"
    using that l f [of w] le m
    by (auto simp: pending_batch_def marks_def unwrap_or_def Let_def split: option.splits if_splits)
  then have "pending_batch parse i (sh_files s) = None \<longrightarrow> sh_log s = sh_all s"
    using m le by (auto simp: marks_def)
  moreover have "sh_log s @ drop a (sh_all s) = sh_all s" using m by (simp add: marks_def)
  ultimately show ?thesis
    using f [of a] le m numbered_sorted [OF nu, of 0] by (simp add: l marks_def)
qed

text \<open>
  The numbers of a journal belong to the host. When an agent is restored on another host its
  journal starts again at one while the control plane still holds the old mark: everything up to
  that mark is acknowledged without being stored.
\<close>

lemma moved_agent_events_dropped:
  assumes "\<forall>e \<in> set (lb_events batch). ev_seq e \<le> acked_through i st"
    and "handle_log_batch i now batch jl st = (ack, log', st')"
  shows "log' = jl \<and> max_seq (lb_events batch) \<le> la_acked_through ack"
proof -
  have e: "store_events i (lb_events batch) (acked_through i st) jl st = (acked_through i st, jl, st)"
    using assms(1) by (rule store_events_done)
  have "max_seq (lb_events batch) \<le> acked_through i st"
    using assms(1) by (simp add: max_seq_def max_seq_le)
  then show ?thesis using assms(2) by (auto simp: handle_log_batch_def e)
qed

theorem shipping_loses_nothing_witness:
  "\<exists>s. ship_reach (\<lambda>_. ''e'') (\<lambda>_. Some \<lparr>ev_agent_id = ''i'', ev_seq = 1, ev_at = ''t'', ev_kind = ''k'', ev_payload = JNull\<rparr>) ''i'' s \<and>
     length (sh_all s) = 1 \<and> sorted_wrt (<) (map ev_seq (sh_all s))"
proof -
  let ?e = "\<lparr>ev_agent_id = ''i'', ev_seq = 1, ev_at = ''t'', ev_kind = ''k'', ev_payload = JNull\<rparr> :: log_event"
  let ?render = "\<lambda>_ :: log_event. ''e''" and ?parse = "\<lambda>_ :: string. Some ?e"
  let ?s0 = "\<lparr>sh_all = [], sh_files = \<lparr>af_journal = None, af_shipped = None\<rparr>, sh_journal = None,
      sh_pruned = 0, sh_store = empty_store, sh_log = []\<rparr>"
  let ?j = "\<lparr>jn_agent_id = ''i'', jn_seq = 0\<rparr>" and ?f = "\<lparr>af_journal = Some [], af_shipped = None\<rparr>"
  have "ship_reach ?render ?parse ''i'' ?s0"
    by (rule ship_reach.fresh) (simp add: acked_through_def empty_store_def)
  moreover have "open_journal ?parse ''i'' (sh_files ?s0) = (?j, ?f)"
    by (simp add: open_journal_def shipped_mark_def unwrap_or_def)
  ultimately have r: "ship_reach ?render ?parse ''i'' (?s0\<lparr>sh_journal := Some ?j, sh_files := ?f\<rparr>)"
    by (rule ship_reach.step [OF _ ship_step.opened])
  let ?s1 = "?s0\<lparr>sh_journal := Some ?j, sh_files := ?f\<rparr>"
  obtain f where a: "append_journal ?render (\<lambda>_. None) ''t'' ''k'' JNull ?j (sh_files ?s1) = (?e, ?j\<lparr>jn_seq := 1\<rparr>, f)"
    by (simp add: append_journal_def)
  have "ship_reach ?render ?parse ''i''
      (?s1\<lparr>sh_all := sh_all ?s1 @ [?e], sh_journal := Some (?j\<lparr>jn_seq := 1\<rparr>), sh_files := f\<rparr>)"
    by (rule ship_reach.step [OF r ship_step.appended [OF _ _ a]]) (simp_all add: codec_at_def)
  then show ?thesis using shipping_loses_nothing by fastforce
qed

end
