(* ===== verification/Shell.thy ===== *)
theory Shell
  imports Journal
begin

text \<open>
  Quoting for the guest's shell (\<open>shell_quote\<close> in crates/castellan/src/provision.rs) against a
  reference reader of POSIX shell words: blanks separate, a backslash takes the next character as
  it is, single quotes take everything up to the next single quote, and every other character the
  shell gives a meaning is a token of its own.
\<close>

section \<open>The quoting\<close>

definition shell_quote :: "string \<Rightarrow> string" where
  "shell_quote s = [CHR 0x27] @ replace_all [CHR 0x27] [CHR 0x27, CHR 0x5C, CHR 0x27, CHR 0x27] s @ [CHR 0x27]"

section \<open>The reference reader\<close>

datatype sh_token = Word string | Special char

text \<open>The characters POSIX (Shell Command Language, section 2.2) requires to be quoted, and newline.\<close>

definition sh_special :: "char \<Rightarrow> bool" where
  "sh_special c \<longleftrightarrow> c \<in> set ''|&;<>()$`*?[#~'' \<or> c = CHR 0x22 \<or> c = newline"

definition sh_blank :: "char \<Rightarrow> bool" where
  "sh_blank c \<longleftrightarrow> c = CHR '' '' \<or> c = CHR 0x09"

definition end_word :: "string option \<Rightarrow> sh_token list" where
  "end_word cur = (case cur of None \<Rightarrow> [] | Some w \<Rightarrow> [Word w])"

text \<open>The first argument says whether single quotes are open, the second is the word being read.\<close>

fun sh_read :: "bool \<Rightarrow> string option \<Rightarrow> string \<Rightarrow> sh_token list option" where
  "sh_read q cur [] = (if q then None else Some (end_word cur))"
| "sh_read True cur (c # cs) =
     (if c = CHR 0x27 then sh_read False cur cs
      else sh_read True (Some (unwrap_or [] cur @ [c])) cs)"
| "sh_read False cur (c # cs) =
     (if c = CHR 0x27 then sh_read True (Some (unwrap_or [] cur)) cs
      else if c = CHR 0x5C then
        (case cs of [] \<Rightarrow> None | d # ds \<Rightarrow>
           if d = newline then sh_read False cur ds
           else sh_read False (Some (unwrap_or [] cur @ [d])) ds)
      else if sh_blank c then map_option ((@) (end_word cur)) (sh_read False None cs)
      else if sh_special c then map_option ((@) (end_word cur @ [Special c])) (sh_read False None cs)
      else sh_read False (Some (unwrap_or [] cur @ [c])) cs)"

definition sh_words :: "string \<Rightarrow> sh_token list option" where
  "sh_words s = sh_read False None s"

section \<open>Reading quoted words\<close>

lemma starts_with_char: "starts_with (c # s) [d] \<longleftrightarrow> c = d"
  by (auto simp: starts_with_def)

lemma sh_blank_space [simp]: "sh_blank CHR '' ''"
  by (simp add: sh_blank_def)

lemma replace_all_char:
  "replace_all [d] b s = concat (map (\<lambda>c. if c = d then b else [c]) s)"
  by (induction s) (auto simp: starts_with_char)

lemma replace_all_char_simps [simp]:
  "replace_all [d] b [] = []"
  "replace_all [d] b (c # s) = (if c = d then b else [c]) @ replace_all [d] b s"
  by (simp_all only: replace_all_char list.map concat.simps)

lemma sh_read_quoted:
  "sh_read True (Some w) (replace_all [CHR 0x27] [CHR 0x27, CHR 0x5C, CHR 0x27, CHR 0x27] s @ CHR 0x27 # r) =
     sh_read False (Some (w @ s)) r"
proof (induction s arbitrary: w)
  case (Cons c s)
  then show ?case
    by (cases "c = CHR 0x27") (simp_all add: unwrap_or_def starts_with_char)
qed simp

lemma sh_read_shell_quote [simp]:
  "sh_read False cur (shell_quote s @ r) = sh_read False (Some (unwrap_or [] cur @ s)) r"
  by (simp add: shell_quote_def sh_read_quoted)

lemma sh_read_blank [simp]:
  "sh_read False cur (CHR '' '' # r) = map_option ((@) (end_word cur)) (sh_read False None r)"
  by simp

lemma append_single [simp]: "(@) [x] = (#) x"
  by (rule ext) simp

lemma map_option_append: "map_option ((@) (xs @ ys)) v = map_option (\<lambda>z. xs @ ys @ z) v"
  by (cases v) simp_all

text \<open>What has been read stays read, whatever follows after a blank.\<close>

lemma sh_read_append:
  "sh_read q cur p = Some ts \<Longrightarrow>
     sh_read q cur (p @ CHR '' '' # r) = map_option ((@) ts) (sh_read False None r)"
proof (induction q cur p arbitrary: ts rule: sh_read.induct)
  case (3 cur c cs)
  then show ?case
    by (auto simp: map_option_append option.map_comp comp_def split: if_splits list.splits)
qed (auto split: if_splits)

lemma sh_words_append:
  assumes "sh_words p = Some ts"
  shows "sh_words (p @ '' '' @ r) = map_option ((@) ts) (sh_words r)"
  using sh_read_append [of False None p ts r] assms by (simp add: sh_words_def)

lemma sh_words_Nil [simp]: "sh_words [] = Some []"
  by (simp add: sh_words_def end_word_def)

lemma sh_words_quoted [simp]: "sh_words (shell_quote s) = Some [Word s]"
  using sh_read_shell_quote [of None s "[]"]
  by (simp add: sh_words_def end_word_def unwrap_or_def)

lemma sh_words_quoted_more [simp]:
  "sh_words (shell_quote s @ CHR '' '' # r) = map_option ((#) (Word s)) (sh_words r)"
  by (simp add: sh_words_def end_word_def unwrap_or_def del: sh_read.simps)

lemma sh_words_join_quoted:
  "sh_words (join '' '' (map shell_quote ws)) = Some (map Word ws)"
proof (induction ws rule: induct_list012)
  case (3 x y zs)
  then show ?case by simp
qed simp_all

text \<open>C16
  Quoting for the guest's shell is exact, for any texts: a line of quoted texts separated by
  blanks is read back as these texts, one word each and nothing else - no quote, expansion,
  redirection, separator or comment inside a text reaches the shell as syntax - and after any
  complete command prefix the line adds just these words to the prefix's own.\<close>

theorem quoted_words_read_back:
  "sh_words (join '' '' (map shell_quote ws)) = Some (map Word ws) \<and>
   (\<forall>p ts. sh_words p = Some ts \<longrightarrow>
      sh_words (p @ '' '' @ join '' '' (map shell_quote ws)) = Some (ts @ map Word ws))"
  by (simp add: sh_words_join_quoted sh_words_append [simplified])

theorem quoted_words_read_back_witness:
  "sh_words (''git checkout'' @ '' '' @ join '' '' (map shell_quote [''a; rm -rf /'', [CHR 0x27]])) =
     Some [Word ''git'', Word ''checkout'', Word ''a; rm -rf /'', Word [CHR 0x27]]"
proof -
  have "sh_words ''git checkout'' = Some [Word ''git'', Word ''checkout'']"
    by (simp add: sh_words_def sh_special_def sh_blank_def end_word_def unwrap_or_def)
  with quoted_words_read_back [of "[''a; rm -rf /'', [CHR 0x27]]"]
  have "sh_words (''git checkout'' @ '' '' @ join '' '' (map shell_quote [''a; rm -rf /'', [CHR 0x27]])) =
      Some ([Word ''git'', Word ''checkout''] @ map Word [''a; rm -rf /'', [CHR 0x27]])"
    by blast
  then show ?thesis by simp
qed

text \<open>Quotes put around a text by hand do not have this property.\<close>

lemma naive_quoting_breaks:
  "sh_words ([CHR 0x27] @ [CHR 0x27, CHR '';''] @ [CHR 0x27]) \<noteq> Some [Word [CHR 0x27, CHR '';'']]"
  by (simp add: sh_words_def sh_special_def sh_blank_def unwrap_or_def)

end
