(* ===== verification/Manifest_Rules.thy ===== *)
theory Manifest_Rules
  imports Shell Bundle_Store
begin

text \<open>
  What an agent host computes from a manifest before it touches a VM (crates/castellan/src/
  provision.rs): the environment of the agent process, the hosts its VM may reach, and the
  validation of the manifest. Sizes are in bytes, one per ASCII character.
\<close>

section \<open>Environments\<close>

type_synonym env = "(string \<times> string) list"

definition guest_path :: string where
  "guest_path =
     ''/agent/toolchain/global/bin:/usr/local/sbin:/usr/local/bin:/usr/sbin:/usr/bin:/sbin:/bin''"

definition pi_spawn_env :: "agent_manifest \<Rightarrow> string \<Rightarrow> labels \<Rightarrow> env" where
  "pi_spawn_env m record_name placeholders =
     placeholders @
     [(''PI_CODING_AGENT_DIR'', ''/agent/pi-home''), (''PI_SKIP_VERSION_CHECK'', ''1''),
      (''PATH'', guest_path)] @
     (case m_otel m of
        None \<Rightarrow> []
      | Some t \<Rightarrow>
          [(''OTEL_EXPORTER_OTLP_ENDPOINT'', o_endpoint t)] @
          (if o_headers t = [] then []
           else [(''OTEL_EXPORTER_OTLP_HEADERS'',
                  join '','' (map (\<lambda>(k, v). k @ ''='' @ v) (o_headers t)))]) @
          [(''OTEL_SERVICE_NAME'', record_name)])"

definition pi_tool_env :: env where
  "pi_tool_env =
     [(''PI_CODING_AGENT_DIR'', ''/agent/pi-home''), (''PI_SKIP_VERSION_CHECK'', ''1''),
      (''PATH'', guest_path)]"

definition clone_env :: env where
  "clone_env = [(''GIT_SSH_COMMAND'', ''ssh -o StrictHostKeyChecking=accept-new'')]"

section \<open>Hosts\<close>

text \<open>\<open>str::split_once\<close> on a text.\<close>

fun split_once_str :: "string \<Rightarrow> string \<Rightarrow> (string \<times> string) option" where
  "split_once_str p [] = (if p = [] then Some ([], []) else None)"
| "split_once_str p (c # cs) =
     (if starts_with (c # cs) p then Some ([], drop (length p) (c # cs))
      else map_option (\<lambda>(a, b). (c # a, b)) (split_once_str p cs))"

text \<open>\<open>url.split("://").nth(1)\<close>, then the text before the first slash or colon.\<close>

definition url_host :: "string \<Rightarrow> string option" where
  "url_host url =
     (case split_once_str ''://'' url of
        None \<Rightarrow> None
      | Some (_, rest) \<Rightarrow>
          (let after_scheme = (case split_once_str ''://'' rest of None \<Rightarrow> rest | Some (a, _) \<Rightarrow> a);
               host = hd (split_on (\<lambda>c. c = CHR ''/'' \<or> c = CHR '':'') after_scheme)
           in if host = [] then None else Some host))"

definition repo_host :: "string \<Rightarrow> string option" where
  "repo_host url =
     (case strip_prefix ''git@'' url of
        Some rest \<Rightarrow> Some (hd (split_on (\<lambda>c. c = CHR '':'') rest))
      | None \<Rightarrow> url_host url)"

definition extension_host :: "extension \<Rightarrow> string option" where
  "extension_host ext =
     (case x_source ext of
        None \<Rightarrow> None
      | Some source \<Rightarrow>
          if starts_with source ''npm:'' then Some ''registry.npmjs.org''
          else
            (let rest = unwrap_or source (strip_prefix ''git:'' source)
             in case strip_prefix ''git@'' rest of
                  Some ssh \<Rightarrow> Some (hd (split_on (\<lambda>c. c = CHR '':'') ssh))
                | None \<Rightarrow>
                    if contains_str rest ''://'' then url_host rest
                    else
                      (let h = hd (split_on (\<lambda>c. c = CHR ''/'') rest)
                       in if contains_str h ''.'' then Some h else None)))"

definition base_hosts :: "string list" where
  "base_hosts =
     [''dl-cdn.alpinelinux.org'', ''registry.npmjs.org'', ''mise.run'', ''github.com'',
      ''objects.githubusercontent.com'', ''nodejs.org'']"

definition egress_hosts :: "agent_manifest \<Rightarrow> secret_bundle \<Rightarrow> string list" where
  "egress_hosts m b =
     remdups_adj (sort (base_hosts @
       concat (map (\<lambda>(_, e). se_hosts e) (sb_env b)) @
       List.map_filter (\<lambda>r. repo_host (rp_url r)) (m_repos m) @
       (case m_otel m of None \<Rightarrow> [] | Some t \<Rightarrow>
          (case url_host (o_endpoint t) of None \<Rightarrow> [] | Some h \<Rightarrow> [h])) @
       List.map_filter extension_host (m_extensions m) @
       m_egress_allow m))"

definition git_hosts :: "agent_manifest \<Rightarrow> string list" where
  "git_hosts m = remdups_adj (sort (List.map_filter (\<lambda>r. repo_host (rp_url r)) (m_repos m)))"

section \<open>Validation\<close>

definition max_field_len :: nat where "max_field_len = 4096"
definition max_text_len :: nat where "max_text_len = 256 * 1024"

datatype manifest_error =
    TooLong string nat nat
  | HasNul string
  | HasControl string
  | HasQuote string
  | NameRequired
  | HarnessUnsupported
  | BadExtensionSource nat string
  | SourceAndUrl nat
  | SourceOrUrlMissing nat
  | RefRequired nat
  | BadMountHost nat string
  | PostStartUnsupported nat

definition is_control :: "char \<Rightarrow> bool" where
  "is_control c \<longleftrightarrow> (let n = (of_char c :: nat) in n < 32 \<or> n = 127)"

definition check_shell_field :: "string \<Rightarrow> string \<Rightarrow> nat \<Rightarrow> manifest_error + unit" where
  "check_shell_field what value max_len =
     (if length value > max_len then Inl (TooLong what (length value) max_len)
      else if list_ex (\<lambda>c. (of_char c :: nat) = 0) value then Inl (HasNul what)
      else if list_ex (\<lambda>c. is_control c \<and> c \<notin> {CHR 0x0A, CHR 0x09, CHR 0x0D}) value
      then Inl (HasControl what)
      else Inr ())"

definition check_toml_scalar :: "string \<Rightarrow> string \<Rightarrow> nat \<Rightarrow> manifest_error + unit" where
  "check_toml_scalar what value max_len =
     res_bind (check_shell_field what value max_len)
       (\<lambda>_. if list_ex (\<lambda>c. c = CHR 0x22) value then Inl (HasQuote what) else Inr ())"

definition item :: "string \<Rightarrow> nat \<Rightarrow> string \<Rightarrow> string" where
  "item what i tail = what @ ''['' @ show_nat i @ '']'' @ tail"

definition check_opt :: "('a \<Rightarrow> manifest_error + unit) \<Rightarrow> 'a option \<Rightarrow> manifest_error + unit" where
  "check_opt f x = (case x of None \<Rightarrow> Inr () | Some a \<Rightarrow> f a)"

definition check_repo :: "nat \<times> repo \<Rightarrow> manifest_error + unit" where
  "check_repo = (\<lambda>(i, r).
     res_bind (check_shell_field (item ''repos'' i ''.url'') (rp_url r) max_field_len)
       (\<lambda>_. check_shell_field (item ''repos'' i ''.ref'') (rp_ref r) max_field_len))"

definition check_extension :: "nat \<times> extension \<Rightarrow> manifest_error + unit" where
  "check_extension = (\<lambda>(i, x).
     res_bind
       (case (x_source x, x_url x) of
          (Some source, None) \<Rightarrow>
            if starts_with source ''npm:'' \<or> starts_with source ''git:'' \<or>
               starts_with source ''https://'' \<or> starts_with source ''ssh://'' \<or>
               starts_with source ''git@''
            then check_shell_field (item ''extensions'' i ''.source'') source max_field_len
            else Inl (BadExtensionSource i source)
        | (None, Some url) \<Rightarrow> check_shell_field (item ''extensions'' i ''.url'') url max_field_len
        | (Some _, Some _) \<Rightarrow> Inl (SourceAndUrl i)
        | (None, None) \<Rightarrow> Inl (SourceOrUrlMissing i))
       (\<lambda>_. if x_url x \<noteq> None \<and> x_ref x = None then Inl (RefRequired i)
            else check_opt
              (\<lambda>r. check_shell_field (item ''extensions'' i ''.ref'') r max_field_len) (x_ref x)))"

definition check_tool :: "string \<Rightarrow> string \<times> string \<Rightarrow> manifest_error + unit" where
  "check_tool what = (\<lambda>(name, version).
     res_bind (check_toml_scalar (what @ ''['' @ name @ ''] name'') name 256)
       (\<lambda>_. check_toml_scalar (what @ ''['' @ name @ ''] version'') version 256))"

definition check_mount :: "nat \<times> mount_spec \<Rightarrow> manifest_error + unit" where
  "check_mount = (\<lambda>(i, mt).
     if starts_with (mt_host mt) ''/'' \<or>
        list_ex (\<lambda>c. c = ''..'' \<or> c = [])
          (split_on (\<lambda>c. c = CHR ''/'' \<or> c = CHR 0x5C) (mt_host mt))
     then Inl (BadMountHost i (mt_host mt))
     else
       res_bind (check_shell_field (item ''provision.mounts'' i ''.host'') (mt_host mt) max_field_len)
         (\<lambda>_. check_shell_field (item ''provision.mounts'' i ''.guest'') (mt_guest mt) max_field_len))"

definition check_install :: "nat \<times> install_entry \<Rightarrow> manifest_error + unit" where
  "check_install = (\<lambda>(i, entry).
     (let what = item ''provision.install'' i in
      case entry of
        Npm package version pre \<Rightarrow>
          res_bind (check_shell_field (what ''.package'') package max_field_len)
          (\<lambda>_. res_bind (check_opt (\<lambda>v. check_shell_field (what ''.version'') v max_field_len) version)
          (\<lambda>_. check_opt (\<lambda>p. check_shell_field (what ''.prefix'') p max_field_len) pre))
      | Git url ref0 dest \<Rightarrow>
          res_bind (check_shell_field (what ''.url'') url max_field_len)
          (\<lambda>_. res_bind (check_shell_field (what ''.ref'') ref0 max_field_len)
          (\<lambda>_. check_shell_field (what ''.dest'') dest max_field_len))
      | Mise tools \<Rightarrow> all_ok (check_tool (what ''.tools'')) tools))"

definition check_run :: "nat \<times> run_entry \<Rightarrow> manifest_error + unit" where
  "check_run = (\<lambda>(i, entry).
     (let what = item ''provision.run'' i in
      if re_when entry \<noteq> PreStart then Inl (PostStartUnsupported i)
      else
        res_bind (check_shell_field (what ''.script'') (re_script entry) max_text_len)
        (\<lambda>_. all_ok (\<lambda>(k, v).
           res_bind (check_shell_field (what (''.env['' @ k @ ''] key'')) k 256)
           (\<lambda>_. check_shell_field (what (''.env['' @ k @ ''] value'')) v max_field_len)) (re_env entry))))"

definition check_provision :: "provision_spec \<Rightarrow> manifest_error + unit" where
  "check_provision spec =
     res_bind (all_ok (\<lambda>(i, pkg). check_shell_field (item ''provision.packages'' i []) pkg max_field_len)
        (enumerate 0 (ps_packages spec)))
     (\<lambda>_. res_bind (all_ok check_mount (enumerate 0 (ps_mounts spec)))
     (\<lambda>_. res_bind (all_ok check_install (enumerate 0 (ps_install spec)))
     (\<lambda>_. res_bind (all_ok check_run (enumerate 0 (ps_run spec)))
     (\<lambda>_. res_bind (all_ok (\<lambda>(i, p). check_shell_field (item ''provision.trust.paths'' i []) p max_field_len)
        (enumerate 0 (ps_trust_paths spec)))
     (\<lambda>_. check_opt (\<lambda>a. check_shell_field ''provision.prompt.append_system'' a max_text_len)
        (ps_append_system spec))))))"

text \<open>The provider not among the secrets only logs a warning; it is not an error.\<close>

definition validate_manifest :: "agent_manifest \<Rightarrow> manifest_error + unit" where
  "validate_manifest m =
     (if trim (m_name m) = [] then Inl NameRequired
      else if h_kind (m_harness m) \<noteq> ''pi'' then Inl HarnessUnsupported
      else
        res_bind (all_ok check_repo (enumerate 0 (m_repos m)))
        (\<lambda>_. res_bind (all_ok check_extension (enumerate 0 (m_extensions m)))
        (\<lambda>_. res_bind (all_ok (check_tool ''toolchain.tools'') (m_tools m))
        (\<lambda>_. res_bind (check_opt (\<lambda>a. check_shell_field ''prompt.append_system'' a max_text_len)
           (m_append_system m))
        (\<lambda>_. check_opt check_provision (m_provision m))))))"

section \<open>What a validated manifest is\<close>

definition field_ok :: "nat \<Rightarrow> string \<Rightarrow> bool" where
  "field_ok n s \<longleftrightarrow> length s \<le> n \<and>
     (\<forall>c \<in> set s. is_control c \<longrightarrow> c \<in> {CHR 0x0A, CHR 0x09, CHR 0x0D})"

definition scalar_ok :: "nat \<Rightarrow> string \<Rightarrow> bool" where
  "scalar_ok n s \<longleftrightarrow> field_ok n s \<and> CHR 0x22 \<notin> set s"

definition tools_ok :: "labels \<Rightarrow> bool" where
  "tools_ok ts \<longleftrightarrow> (\<forall>(n, v) \<in> set ts. scalar_ok 256 n \<and> scalar_ok 256 v)"

definition extension_ok :: "extension \<Rightarrow> bool" where
  "extension_ok x \<longleftrightarrow>
     (case (x_source x, x_url x, x_ref x) of
        (Some s, None, r) \<Rightarrow> field_ok max_field_len s \<and>
          (\<exists>p \<in> {''npm:'', ''git:'', ''https://'', ''ssh://'', ''git@''}. starts_with s p) \<and>
          pred_option (field_ok max_field_len) r
      | (None, Some u, Some r) \<Rightarrow> field_ok max_field_len u \<and> field_ok max_field_len r
      | _ \<Rightarrow> False)"

definition mount_ok :: "mount_spec \<Rightarrow> bool" where
  "mount_ok mt \<longleftrightarrow> \<not> starts_with (mt_host mt) ''/'' \<and>
     (\<forall>c \<in> set (split_on (\<lambda>c. c = CHR ''/'' \<or> c = CHR 0x5C) (mt_host mt)). c \<noteq> ''..'' \<and> c \<noteq> []) \<and>
     field_ok max_field_len (mt_host mt) \<and> field_ok max_field_len (mt_guest mt)"

definition install_ok :: "install_entry \<Rightarrow> bool" where
  "install_ok e \<longleftrightarrow>
     (case e of
        Npm p v pre \<Rightarrow> field_ok max_field_len p \<and> pred_option (field_ok max_field_len) v \<and>
          pred_option (field_ok max_field_len) pre
      | Git u r d \<Rightarrow> field_ok max_field_len u \<and> field_ok max_field_len r \<and> field_ok max_field_len d
      | Mise ts \<Rightarrow> tools_ok ts)"

definition run_ok :: "run_entry \<Rightarrow> bool" where
  "run_ok e \<longleftrightarrow> re_when e = PreStart \<and> field_ok max_text_len (re_script e) \<and>
     (\<forall>(k, v) \<in> set (re_env e). field_ok 256 k \<and> field_ok max_field_len v)"

definition provision_ok :: "provision_spec \<Rightarrow> bool" where
  "provision_ok s \<longleftrightarrow>
     list_all (field_ok max_field_len) (ps_packages s) \<and> list_all mount_ok (ps_mounts s) \<and>
     list_all install_ok (ps_install s) \<and> list_all run_ok (ps_run s) \<and>
     list_all (field_ok max_field_len) (ps_trust_paths s) \<and>
     pred_option (field_ok max_text_len) (ps_append_system s)"

definition wf_manifest :: "agent_manifest \<Rightarrow> bool" where
  "wf_manifest m \<longleftrightarrow>
     (\<exists>c \<in> set (m_name m). \<not> is_ws c) \<and> h_kind (m_harness m) = ''pi'' \<and>
     list_all (\<lambda>r. field_ok max_field_len (rp_url r) \<and> field_ok max_field_len (rp_ref r)) (m_repos m) \<and>
     list_all extension_ok (m_extensions m) \<and> tools_ok (m_tools m) \<and>
     pred_option (field_ok max_text_len) (m_append_system m) \<and>
     pred_option provision_ok (m_provision m)"

section \<open>Validation is exact\<close>

named_theorems checks "when a check of the validation succeeds"

lemma res_bind_unit: "res_bind a (\<lambda>_. b) = Inr () \<longleftrightarrow> a = Inr () \<and> b = Inr ()" for a :: "'e + unit"
  by (cases a) auto

lemma check_shell_field_ok [checks]: "check_shell_field w v n = Inr () \<longleftrightarrow> field_ok n v"
proof -
  have "is_control c" "c \<notin> {CHR 0x0A, CHR 0x09, CHR 0x0D}" if "(of_char c :: nat) = 0" for c
    using that by (auto simp: is_control_def)
  then show ?thesis
    by (auto simp: check_shell_field_def field_ok_def list_ex_iff)
qed

lemma check_toml_scalar_ok [checks]: "check_toml_scalar w v n = Inr () \<longleftrightarrow> scalar_ok n v"
  by (auto simp: check_toml_scalar_def res_bind_unit checks scalar_ok_def list_ex_iff)

lemma check_opt_ok [checks]: "check_opt f x = Inr () \<longleftrightarrow> pred_option (\<lambda>a. f a = Inr ()) x"
  by (cases x) (simp_all add: check_opt_def)

lemma all_ok_enumerate:
  assumes "\<And>i x. f (i, x) = Inr () \<longleftrightarrow> P x"
  shows "all_ok f (enumerate n xs) = Inr () \<longleftrightarrow> list_all P xs"
  by (induction xs arbitrary: n) (simp_all add: res_bind_unit assms)

lemma check_tool_ok [checks]:
  "all_ok (check_tool w) ts = Inr () \<longleftrightarrow> tools_ok ts"
  by (auto simp: all_ok_Inr check_tool_def tools_ok_def res_bind_unit checks)

lemma check_repo_ok [checks]:
  "check_repo (i, r) = Inr () \<longleftrightarrow> field_ok max_field_len (rp_url r) \<and> field_ok max_field_len (rp_ref r)"
  by (simp add: check_repo_def res_bind_unit checks)

lemma check_extension_ok [checks]: "check_extension (i, x) = Inr () \<longleftrightarrow> extension_ok x"
  by (auto simp: check_extension_def extension_ok_def res_bind_unit checks pred_option_def
      split: option.splits)

lemma check_mount_ok [checks]: "check_mount (i, mt) = Inr () \<longleftrightarrow> mount_ok mt"
  by (auto simp: check_mount_def mount_ok_def res_bind_unit checks list_ex_iff)

lemma check_install_ok [checks]: "check_install (i, e) = Inr () \<longleftrightarrow> install_ok e"
  by (cases e) (simp_all add: check_install_def install_ok_def Let_def res_bind_unit checks)

lemma check_run_ok [checks]: "check_run (i, e) = Inr () \<longleftrightarrow> run_ok e"
  by (auto simp: check_run_def run_ok_def Let_def res_bind_unit checks all_ok_Inr)

lemma check_provision_ok [checks]: "check_provision s = Inr () \<longleftrightarrow> provision_ok s"
  by (simp add: check_provision_def provision_ok_def res_bind_unit checks
      all_ok_enumerate [where P = "field_ok max_field_len"] all_ok_enumerate [where P = mount_ok]
      all_ok_enumerate [where P = install_ok] all_ok_enumerate [where P = run_ok])

lemma trim_eq_Nil: "trim s = [] \<longleftrightarrow> (\<forall>c \<in> set s. is_ws c)"
proof
  assume "trim s = []"
  then have "dropWhile is_ws s = []"
    by (metis dropWhile_eq_Nil_conv hd_dropWhile in_set_conv_decomp list.set_sel(1) rev_is_Nil_conv
        set_rev trim_def trim_end_def trim_start_def)
  then show "\<forall>c \<in> set s. is_ws c" by simp
qed (auto simp: trim_def trim_start_def trim_end_def dest: set_dropWhileD)

lemma validate_manifest_wf: "validate_manifest m = Inr () \<longleftrightarrow> wf_manifest m"
  by (auto simp: validate_manifest_def wf_manifest_def res_bind_unit checks trim_eq_Nil
      all_ok_enumerate [where P = "\<lambda>r. field_ok max_field_len (rp_url r) \<and> field_ok max_field_len (rp_ref r)"]
      all_ok_enumerate [where P = extension_ok])

section \<open>Mounts stay inside the agent's directory\<close>

lemma split_on_finer:
  assumes "\<forall>c \<in> set w. \<not> q c"
  shows "(\<forall>us. split_on p s = w # us \<longrightarrow> hd (split_on (\<lambda>c. p c \<or> q c) s) = w) \<and>
     (w \<in> set (tl (split_on p s)) \<longrightarrow> w \<in> set (tl (split_on (\<lambda>c. p c \<or> q c) s)))"
  using assms
proof (induction s arbitrary: w)
  case (Cons c s)
  obtain u us where u: "split_on p s = u # us"
    using split_on_nonempty [of p s] by (cases "split_on p s") auto
  obtain v vs where v: "split_on (\<lambda>c. p c \<or> q c) s = v # vs"
    using split_on_nonempty [of _ s] by (cases "split_on (\<lambda>c. p c \<or> q c) s") auto
  have heads: "v = u" if "\<forall>c \<in> set u. \<not> q c"
    using Cons.IH [OF that] u v by simp
  have tails: "w' \<in> set us \<Longrightarrow> w' \<in> set vs" if "\<forall>c \<in> set w'. \<not> q c" for w'
    using Cons.IH [OF that] u v by simp
  show ?case
    using heads tails [OF Cons.prems] Cons.prems u v by (cases "p c"; cases "q c") auto
qed simp

lemma split_on_finer_mem:
  assumes "w \<in> set (split_on p s)" "\<forall>c \<in> set w. \<not> q c"
  shows "w \<in> set (split_on (\<lambda>c. p c \<or> q c) s)"
proof -
  obtain u us where u: "split_on p s = u # us"
    using split_on_nonempty [of p s] by (cases "split_on p s") auto
  obtain v vs where v: "split_on (\<lambda>c. p c \<or> q c) s = v # vs"
    using split_on_nonempty [of _ s] by (cases "split_on (\<lambda>c. p c \<or> q c) s") auto
  show ?thesis using assms(1) split_on_finer [OF assms(2), of p s] u v by auto
qed

lemma mount_inside:
  assumes "mount_ok mt"
  shows "path_join base (mt_host mt) = base @ components (mt_host mt)"
    and "''..'' \<notin> set (components (mt_host mt))"
proof -
  show "path_join base (mt_host mt) = base @ components (mt_host mt)"
    using assms by (simp add: mount_ok_def path_join_def)
  show "''..'' \<notin> set (components (mt_host mt))"
    using assms split_on_finer_mem [of "''..''" "\<lambda>c. c = CHR ''/''" "mt_host mt" "\<lambda>c. c = CHR 0x5C"]
    by (auto simp: components_def mount_ok_def)
qed

lemma validated_mounts:
  assumes "validate_manifest m = Inr ()" "m_provision m = Some spec" "mt \<in> set (ps_mounts spec)"
  shows "mount_ok mt"
  using assms by (auto simp: validate_manifest_wf wf_manifest_def provision_ok_def list_all_iff)

text \<open>C17
  Validation decides well-formedness: a manifest passes exactly when it has a name, the pi
  harness, exactly one source for every extension (a pinned reference with a url), only pre-start
  scripts, and every text that will reach the guest's shell or a generated file is within its
  size limit and free of control characters (of double quotes too, where it becomes a TOML
  string). Every host directory a validated manifest mounts lies inside the agent's directory.\<close>

theorem validated_manifest_is_well_formed:
  "(validate_manifest m = Inr () \<longleftrightarrow> wf_manifest m) \<and>
   (\<forall>spec mt base. validate_manifest m = Inr () \<longrightarrow> m_provision m = Some spec \<longrightarrow>
      mt \<in> set (ps_mounts spec) \<longrightarrow>
      path_join base (mt_host mt) = base @ components (mt_host mt) \<and>
      ''..'' \<notin> set (components (mt_host mt)))"
  using validate_manifest_wf mount_inside [OF validated_mounts] by blast

definition demo_provision :: provision_spec where
  "demo_provision =
     \<lparr>ps_base_image = None, ps_packages = [''git''],
      ps_mounts = [\<lparr>mt_host = ''shared/data'', mt_guest = ''/mnt'', mt_read_only = True\<rparr>],
      ps_install = [], ps_run = [], ps_trust_paths = [], ps_append_system = None\<rparr>"

lemma field_ok_simps [simp]:
  "field_ok n []" "field_ok n (c # s) \<longleftrightarrow>
     length s < n \<and> (is_control c \<longrightarrow> c \<in> {CHR 0x0A, CHR 0x09, CHR 0x0D}) \<and> field_ok n s"
  by (auto simp: field_ok_def)

lemma wf_minimal_manifest:
  "\<exists>c \<in> set name. \<not> is_ws c \<Longrightarrow> wf_manifest (minimal_manifest name p m)"
  by (simp add: wf_manifest_def minimal_manifest_def tools_ok_def)

lemma demo_validated:
  "validate_manifest (minimal_manifest ''a'' ''anthropic'' ''m''\<lparr>m_provision := Some demo_provision\<rparr>) = Inr ()"
  by (simp add: validate_manifest_wf wf_manifest_def minimal_manifest_def tools_ok_def is_ws_def
      provision_ok_def demo_provision_def is_control_def max_field_len_def mount_ok_def starts_with_def)

theorem validated_manifest_is_well_formed_witness:
  "path_join [''agent''] ''shared/data'' = [''agent'', ''shared'', ''data''] \<and>
   ''..'' \<notin> set (components ''shared/data'')"
proof -
  let ?mt = "\<lparr>mt_host = ''shared/data'', mt_guest = ''/mnt'', mt_read_only = True\<rparr>"
  have "?mt \<in> set (ps_mounts demo_provision)" by (simp add: demo_provision_def)
  then have "path_join [''agent''] (mt_host ?mt) = [''agent''] @ components (mt_host ?mt) \<and>
      ''..'' \<notin> set (components (mt_host ?mt))"
    using validated_manifest_is_well_formed
        [of "minimal_manifest ''a'' ''anthropic'' ''m''\<lparr>m_provision := Some demo_provision\<rparr>"] demo_validated
    by auto
  then show ?thesis by (simp add: components_def)
qed

text \<open>A tool name may hold a newline, and so a line of its own in the generated \<open>mise.toml\<close>.\<close>

lemma tool_name_with_newline:
  "validate_manifest (minimal_manifest ''a'' ''p'' ''m''
     \<lparr>m_tools := [(''node = 1'' @ [newline] @ ''evil'', ''22'')]\<rparr>) = Inr ()"
  by (simp add: validate_manifest_wf wf_manifest_def minimal_manifest_def tools_ok_def is_ws_def
      scalar_ok_def is_control_def)

section \<open>The egress list\<close>

lemma sorted_remdups_adj_distinct: "sorted xs \<Longrightarrow> distinct (remdups_adj xs)"
  by (induction xs rule: remdups_adj.induct) (auto simp: not_le antisym)

lemma egress_hosts_exact:
  "distinct (egress_hosts m b)" "sorted (egress_hosts m b)"
  "h \<in> set (egress_hosts m b) \<longleftrightarrow>
     h \<in> set base_hosts \<or> (\<exists>(k, e) \<in> set (sb_env b). h \<in> set (se_hosts e)) \<or>
     (\<exists>r \<in> set (m_repos m). repo_host (rp_url r) = Some h) \<or>
     (\<exists>t. m_otel m = Some t \<and> url_host (o_endpoint t) = Some h) \<or>
     (\<exists>x \<in> set (m_extensions m). extension_host x = Some h) \<or> h \<in> set (m_egress_allow m)"
proof -
  show "distinct (egress_hosts m b)" "sorted (egress_hosts m b)"
    by (simp_all add: egress_hosts_def sorted_remdups_adj_distinct sorted_remdups_adj)
  show "h \<in> set (egress_hosts m b) \<longleftrightarrow>
     h \<in> set base_hosts \<or> (\<exists>(k, e) \<in> set (sb_env b). h \<in> set (se_hosts e)) \<or>
     (\<exists>r \<in> set (m_repos m). repo_host (rp_url r) = Some h) \<or>
     (\<exists>t. m_otel m = Some t \<and> url_host (o_endpoint t) = Some h) \<or>
     (\<exists>x \<in> set (m_extensions m). extension_host x = Some h) \<or> h \<in> set (m_egress_allow m)"
    unfolding egress_hosts_def remdups_adj_set set_sort set_append Un_iff
    by (intro disj_cong refl)
      (auto simp: map_filter_def image_iff split: option.splits, force+)
qed

lemma git_hosts_in_egress: "set (git_hosts m) \<subseteq> set (egress_hosts m b)"
  by (auto simp: egress_hosts_def git_hosts_def)

end
