(* ===== verification/Host_Records.thy ===== *)
theory Host_Records
  imports Journal Bundle_Store
begin

text \<open>
  The agent host's local registry (crates/castellan/src/state.rs): the data directory and its
  one-time migration, the layout of an agent's directory, and the per-agent records with their
  save, load, list and find. The \<open>agents\<close> directory is an association list in the order
  \<open>read_dir\<close> yields it; an agent's directory holds its record (\<open>state.json\<close>, None when missing or
  unreadable), its journal files and all its other files by path. The parameter \<open>parse_uuid\<close> is the
  uuid crate's parser.
\<close>

section \<open>Records and directories\<close>

record agent_record =
  rec_id :: uuid
  rec_name :: string
  rec_manifest :: agent_manifest
  rec_state :: agent_state
  rec_created_at :: timestamp
  rec_session_file :: "string option"
  rec_checkpoint :: "string option"
  rec_last_activity_at :: "timestamp option"

type_synonym tree = "(path \<times> u8 list) list"

record agent_dir =
  ad_record :: "agent_record option"
  ad_log :: agent_files
  ad_tree :: tree

type_synonym agents_dir = "(uuid \<times> agent_dir) list"

definition empty_agent_dir :: agent_dir where
  "empty_agent_dir =
     \<lparr>ad_record = None, ad_log = \<lparr>af_journal = None, af_shipped = None\<rparr>, ad_tree = []\<rparr>"

definition dirs_home :: "string option \<Rightarrow> string" where
  "dirs_home home = unwrap_or ''/'' home"

text \<open>The result says whether the legacy directory is to be migrated into it.\<close>

definition data_dir :: "string option \<Rightarrow> string option \<Rightarrow> string option \<Rightarrow> path \<times> bool" where
  "data_dir castellan_home suzerain_home home =
     (case castellan_home of
        Some d \<Rightarrow> (components d, False)
      | None \<Rightarrow>
          (case suzerain_home of
             Some d \<Rightarrow> (components d, False)
           | None \<Rightarrow> (path_join (components (dirs_home home)) ''.local/share/suzerain'', True)))"

definition legacy_name :: "string \<Rightarrow> string option" where
  "legacy_name name =
     (if name = ''config.toml'' then Some ''castellan.toml''
      else if name = ''identity.key'' then Some ''castellan.key''
      else if name = ''castellan.sock'' \<or> name = ''castellan.lock'' then None
      else Some name)"

text \<open>The directory entries of the legacy and of the new home, by name.\<close>

fun migrate_entries :: "(string \<times> 'e) list \<Rightarrow> (string \<times> 'e) list \<Rightarrow> (string \<times> 'e) list \<times> (string \<times> 'e) list" where
  "migrate_entries [] new_home = ([], new_home)"
| "migrate_entries ((name, e) # old) new_home =
     (case legacy_name name of
        None \<Rightarrow> map_prod ((#) (name, e)) (\<lambda>n. n) (migrate_entries old new_home)
      | Some mapped \<Rightarrow>
          if map_of new_home mapped \<noteq> None
          then map_prod ((#) (name, e)) (\<lambda>n. n) (migrate_entries old new_home)
          else migrate_entries old (new_home @ [(mapped, e)]))"

definition migrate_legacy_default_dir ::
    "(string \<times> 'e) list option \<Rightarrow> (string \<times> 'e) list \<Rightarrow> (string \<times> 'e) list option \<times> (string \<times> 'e) list" where
  "migrate_legacy_default_dir old new_home =
     (case old of
        None \<Rightarrow> (None, new_home)
      | Some entries \<Rightarrow>
          (case migrate_entries entries new_home of
             (rest, moved) \<Rightarrow>
               (let rest' = filter (\<lambda>(n, _). n \<noteq> ''castellan.sock'' \<and> n \<noteq> ''castellan.lock'') rest
                in (if rest' = [] then None else Some rest', moved))))"

record agent_paths =
  pa_root :: path
  pa_guest :: path
  pa_workspace :: path
  pa_pi_home :: path
  pa_sessions :: path
  pa_extensions :: path

definition agent_root :: "path \<Rightarrow> uuid \<Rightarrow> path" where
  "agent_root home i = home @ [''agents'', i]"

definition paths_for_agent :: "path \<Rightarrow> uuid \<Rightarrow> agent_paths" where
  "paths_for_agent home i =
     (let base = agent_root home i; guest = base @ [''guest'']
      in \<lparr>pa_root = base, pa_guest = guest, pa_workspace = guest @ [''workspace''],
          pa_pi_home = guest @ [''pi-home''], pa_sessions = guest @ [''sessions''],
          pa_extensions = guest @ [''pi-home'', ''extensions'']\<rparr>)"

definition checkpoint_path :: "agent_paths \<Rightarrow> path" where
  "checkpoint_path p = pa_root p @ [''checkpoint'']"

section \<open>Save, load, list and find\<close>

datatype registry_error =
    NoAgentDir uuid
  | NoRecord uuid
  | NoAgentNamed string
  | NoAgentMatching string
  | MatchesMultiple string

definition save_record :: "agent_record \<Rightarrow> agents_dir \<Rightarrow> registry_error + agents_dir" where
  "save_record r ds =
     (if map_of ds (rec_id r) = None then Inl (NoAgentDir (rec_id r))
      else Inr (map (\<lambda>(i, d). if i = rec_id r then (i, d\<lparr>ad_record := Some r\<rparr>) else (i, d)) ds))"

definition load_record :: "uuid \<Rightarrow> agents_dir \<Rightarrow> registry_error + agent_record" where
  "load_record i ds =
     (case map_of ds i of
        None \<Rightarrow> Inl (NoRecord i)
      | Some d \<Rightarrow> (case ad_record d of None \<Rightarrow> Inl (NoRecord i) | Some r \<Rightarrow> Inr r))"

definition list_records :: "agents_dir \<Rightarrow> agent_record list" where
  "list_records ds = sort_key rec_name (List.map_filter (\<lambda>(_, d). ad_record d) ds)"

definition find_record_by_name :: "string \<Rightarrow> agents_dir \<Rightarrow> registry_error + agent_record" where
  "find_record_by_name name ds =
     (case find (\<lambda>r. rec_name r = name) (list_records ds) of
        Some r \<Rightarrow> Inr r | None \<Rightarrow> Inl (NoAgentNamed name))"

definition find_record :: "(string \<Rightarrow> uuid option) \<Rightarrow> string \<Rightarrow> agents_dir \<Rightarrow> registry_error + agent_record" where
  "find_record parse_uuid id_or_name ds =
     (case parse_uuid id_or_name of
        Some i \<Rightarrow> load_record i ds
      | None \<Rightarrow>
          (case find_record_by_name id_or_name ds of
             Inr r \<Rightarrow> Inr r
           | Inl _ \<Rightarrow>
               (case filter (\<lambda>r. starts_with (rec_id r) id_or_name) (list_records ds) of
                  [r] \<Rightarrow> Inr r
                | [] \<Rightarrow> Inl (NoAgentMatching id_or_name)
                | _ \<Rightarrow> Inl (MatchesMultiple id_or_name))))"

definition create_agent_dir :: "uuid \<Rightarrow> agents_dir \<Rightarrow> agents_dir" where
  "create_agent_dir i ds = (if map_of ds i = None then ds @ [(i, empty_agent_dir)] else ds)"

definition remove_agent_dir :: "uuid \<Rightarrow> agents_dir \<Rightarrow> agents_dir" where
  "remove_agent_dir i ds = filter (\<lambda>(j, _). j \<noteq> i) ds"

definition update_agent_dir :: "uuid \<Rightarrow> (agent_dir \<Rightarrow> agent_dir) \<Rightarrow> agents_dir \<Rightarrow> agents_dir" where
  "update_agent_dir i f ds = map (\<lambda>(j, d). if j = i then (j, f d) else (j, d)) ds"

section \<open>The registry's laws\<close>

named_theorems hostdir "lookups in the agents directory"

text \<open>Directory names are the agents' ids: one directory per agent, each record under its own id.\<close>

definition wf_agents_dir :: "agents_dir \<Rightarrow> bool" where
  "wf_agents_dir ds \<longleftrightarrow> distinct (map fst ds) \<and>
     (\<forall>(i, d) \<in> set ds. case ad_record d of None \<Rightarrow> True | Some r \<Rightarrow> rec_id r = i)"

lemma map_of_update_agent_dir [hostdir]:
  "map_of (update_agent_dir i f ds) j = (if j = i then map_option f (map_of ds i) else map_of ds j)"
  by (induction ds) (auto simp: update_agent_dir_def)

lemma map_of_create_agent_dir [hostdir]:
  "map_of (create_agent_dir i ds) =
     (if map_of ds i = None then (map_of ds)(i \<mapsto> empty_agent_dir) else map_of ds)"
  by (auto simp: create_agent_dir_def map_add_def fun_eq_iff split: option.splits)

lemma map_of_remove_agent_dir [hostdir]: "map_of (remove_agent_dir i ds) = (map_of ds)(i := None)"
  by (induction ds) (auto simp: remove_agent_dir_def fun_eq_iff)

lemma keys_update_agent_dir [hostdir]: "map fst (update_agent_dir i f ds) = map fst ds"
  by (auto simp: update_agent_dir_def)

lemma save_record_update:
  "save_record r ds = Inr ds' \<longleftrightarrow>
     map_of ds (rec_id r) \<noteq> None \<and> ds' = update_agent_dir (rec_id r) (ad_record_update (\<lambda>_. Some r)) ds"
  by (auto simp: save_record_def update_agent_dir_def)

lemma load_save [hostdir]:
  assumes "save_record r ds = Inr ds'"
  shows "load_record (rec_id r) ds' = Inr r" "i \<noteq> rec_id r \<Longrightarrow> load_record i ds' = load_record i ds"
  using assms by (auto simp: save_record_update load_record_def hostdir)

lemma find_record_id:
  "parse_uuid i = Some i \<Longrightarrow> find_record parse_uuid i ds = load_record i ds"
  by (simp add: find_record_def)

lemma in_list_records:
  assumes "wf_agents_dir ds"
  shows "r \<in> set (list_records ds) \<longleftrightarrow> load_record (rec_id r) ds = Inr r"
proof -
  have "r \<in> set (list_records ds) \<longleftrightarrow> (\<exists>i d. (i, d) \<in> set ds \<and> ad_record d = Some r)"
    by (auto simp: list_records_def map_filter_def image_iff)
      (metis option.sel, metis option.distinct(1) option.sel)
  also have "\<dots> \<longleftrightarrow> (\<exists>d. (rec_id r, d) \<in> set ds \<and> ad_record d = Some r)"
    using assms by (fastforce simp: wf_agents_dir_def)
  also have "\<dots> \<longleftrightarrow> (\<exists>d. map_of ds (rec_id r) = Some d \<and> ad_record d = Some r)"
    using assms by (simp add: wf_agents_dir_def)
  finally show ?thesis
    by (auto simp: load_record_def split: option.splits)
qed

lemma sorted_list_records: "sorted (map rec_name (list_records ds))"
  by (simp add: list_records_def)

text \<open>What \<open>find\<close> returns is registered; a name that parses as no uuid finds its agent.\<close>

lemma find_record_registered:
  assumes "wf_agents_dir ds" "find_record parse_uuid q ds = Inr r"
  shows "load_record (rec_id r) ds = Inr r"
proof (cases "parse_uuid q")
  case (Some i)
  then have "load_record i ds = Inr r" using assms(2) by (simp add: find_record_def)
  moreover from this have "rec_id r = i"
    using assms(1)
    by (fastforce simp: load_record_def wf_agents_dir_def dest: map_of_SomeD split: option.splits)
  ultimately show ?thesis by simp
next
  case None
  have "r \<in> set (list_records ds)"
    using assms(2) None
    by (auto simp: find_record_def find_record_by_name_def dest: find_SomeD split: option.splits list.splits)
      (metis list.set_intros(1) filter_is_subset subsetD)+
  then show ?thesis using in_list_records [OF assms(1)] by simp
qed

text \<open>Migration never overwrites a file of the new home.\<close>

lemma migrate_entries_keeps: "\<exists>added. snd (migrate_entries old new_home) = new_home @ added"
proof (induction old new_home rule: migrate_entries.induct)
  case (2 name e old new_home)
  then show ?case by (auto split: option.splits)
qed simp

lemma wf_update_agent_dir:
  assumes "wf_agents_dir ds" "\<And>d. ad_record (f d) = ad_record d \<or> (\<exists>r. ad_record (f d) = Some r \<and> rec_id r = i)"
  shows "wf_agents_dir (update_agent_dir i f ds)"
proof -
  have "case ad_record d of None \<Rightarrow> True | Some r \<Rightarrow> rec_id r = j"
    if "(j, d) \<in> set (update_agent_dir i f ds)" for j d
  proof -
    obtain d0 where d0: "(j, d0) \<in> set ds" "d = (if j = i then f d0 else d0)"
      using \<open>(j, d) \<in> _\<close> by (auto simp: update_agent_dir_def split: if_splits)
    then have "case ad_record d0 of None \<Rightarrow> True | Some r \<Rightarrow> rec_id r = j"
      using assms(1) by (auto simp: wf_agents_dir_def)
    then show ?thesis
      using assms(2) [of d0] d0(2) by (cases "j = i") (auto split: option.splits)
  qed
  then show ?thesis using assms(1) by (auto simp: wf_agents_dir_def hostdir)
qed

lemma wf_save_record:
  assumes "wf_agents_dir ds" "save_record r ds = Inr ds'"
  shows "wf_agents_dir ds'"
proof -
  have "ds' = update_agent_dir (rec_id r) (ad_record_update (\<lambda>_. Some r)) ds"
    using assms(2) by (simp add: save_record_update)
  moreover have "wf_agents_dir (update_agent_dir (rec_id r) (ad_record_update (\<lambda>_. Some r)) ds)"
    by (rule wf_update_agent_dir [OF assms(1)]) simp
  ultimately show ?thesis by simp
qed

lemma wf_create_agent_dir: "wf_agents_dir ds \<Longrightarrow> wf_agents_dir (create_agent_dir i ds)"
  by (auto simp: wf_agents_dir_def create_agent_dir_def empty_agent_dir_def map_of_eq_None_iff)

lemma wf_remove_agent_dir: "wf_agents_dir ds \<Longrightarrow> wf_agents_dir (remove_agent_dir i ds)"
  by (auto simp: wf_agents_dir_def remove_agent_dir_def distinct_map_filter)

end
