(* ===== verification/Host_Driver.thy ===== *)
theory Host_Driver
  imports Manifest_Rules Host_Records Json
begin

text \<open>
  The host's clients of a VM: the gondolin-driver client (crates/castellan/src/driver.rs) and the
  pi RPC client (crates/castellan/src/rpc.rs). Their tables of pending calls are state machines
  whose steps are the code's own: a call is issued, a line or an event arrives, a call times out,
  the process ends. The commands the clients send are JSON values; the driver process and the
  guest behind it are the parameter \<open>'g platform\<close>, which also may change the agent's files
  (the guest mounts them). The JSON reader is the parameter \<open>parse\<close>.
\<close>

section \<open>The driver client's table of pending requests (driver.rs)\<close>

datatype driver_event =
    AgentStdout string
  | AgentStderr string
  | AgentExit i32
  | ShellData u32 string
  | ShellExit u32 i32
  | DriverDied

text \<open>
  \<open>dc_outcomes\<close> collects what the receivers of past requests got: a reply, or None when the sender
  was dropped.
\<close>

record driver_client =
  dc_next_id :: u64
  dc_pending :: "u64 list"
  dc_outcomes :: "(u64 \<times> json option) list"
  dc_events :: "driver_event list"

definition new_driver_client :: driver_client where
  "new_driver_client = \<lparr>dc_next_id = 0, dc_pending = [], dc_outcomes = [], dc_events = []\<rparr>"

definition set_id :: "json \<Rightarrow> json \<Rightarrow> json" where
  "set_id i cmd = (case cmd of JObj kvs \<Rightarrow> JObj (kvs @ [(''id'', i)]) | _ \<Rightarrow> cmd)"

definition issue_request :: "json \<Rightarrow> driver_client \<Rightarrow> u64 \<times> json \<times> driver_client" where
  "issue_request cmd c =
     (let i = dc_next_id c + 1
      in (i, set_id (json_num (unat i)) cmd,
          c\<lparr>dc_next_id := i, dc_pending := List.insert i (dc_pending c)\<rparr>))"

definition shell_no :: "json \<Rightarrow> u32" where
  "shell_no msg = ucast (unwrap_or 0 (as_u64 (json_get ''shell'' msg)))"

definition exit_code :: "json \<Rightarrow> i64" where
  "exit_code msg = unwrap_or (-1) (as_i64 (json_get ''exitCode'' msg))"

definition str_field :: "string \<Rightarrow> json \<Rightarrow> string" where
  "str_field k msg = unwrap_or [] (as_str (json_get k msg))"

definition driver_line :: "(string \<Rightarrow> json option) \<Rightarrow> string \<Rightarrow> driver_client \<Rightarrow> driver_client" where
  "driver_line parse line c =
     (case parse (trim_end line) of
        None \<Rightarrow> c
      | Some msg \<Rightarrow>
          (case as_str (json_get ''event'' msg) of
             None \<Rightarrow> c
           | Some ev \<Rightarrow>
               if ev = ''reply'' then
                 (case as_u64 (json_get ''id'' msg) of
                    None \<Rightarrow> c
                  | Some i \<Rightarrow>
                      if i \<in> set (dc_pending c)
                      then c\<lparr>dc_pending := removeAll i (dc_pending c),
                             dc_outcomes := dc_outcomes c @ [(i, Some msg)]\<rparr>
                      else c)
               else if ev = ''agent_stdout'' then
                 c\<lparr>dc_events := dc_events c @ [AgentStdout (str_field ''line'' msg)]\<rparr>
               else if ev = ''agent_stderr'' then
                 c\<lparr>dc_events := dc_events c @ [AgentStderr (str_field ''line'' msg)]\<rparr>
               else if ev = ''agent_exit'' then
                 c\<lparr>dc_events := dc_events c @ [AgentExit (ucast (exit_code msg))]\<rparr>
               else if ev = ''shell_data'' then
                 c\<lparr>dc_events := dc_events c @ [ShellData (shell_no msg) (str_field ''data'' msg)]\<rparr>
               else if ev = ''shell_exit'' then
                 c\<lparr>dc_events := dc_events c @ [ShellExit (shell_no msg) (ucast (exit_code msg))]\<rparr>
               else c))"

text \<open>End of the driver's output: every request in flight fails.\<close>

definition driver_eof :: "driver_client \<Rightarrow> driver_client" where
  "driver_eof c =
     c\<lparr>dc_pending := [], dc_outcomes := dc_outcomes c @ map (\<lambda>i. (i, None)) (dc_pending c),
       dc_events := dc_events c @ [DriverDied]\<rparr>"

definition request_timed_out :: "u64 \<Rightarrow> driver_client \<Rightarrow> driver_client" where
  "request_timed_out i c = c\<lparr>dc_pending := removeAll i (dc_pending c)\<rparr>"

section \<open>The pi client (rpc.rs)\<close>

text \<open>
  Liveness is one number: -1 alive, -2 driver gone, anything else the exit code. \<open>pc_ended\<close> says
  that the task reading the driver's events has ended.\<close>

definition pi_alive :: i64 where "pi_alive = -1"
definition pi_driver_gone :: i64 where "pi_driver_gone = -2"

record pi_client =
  pc_next_id :: u64
  pc_pending :: "string list"
  pc_outcomes :: "(string \<times> json option) list"
  pc_events :: "json list"
  pc_exit :: i64
  pc_ended :: bool

definition new_pi_client :: pi_client where
  "new_pi_client =
     \<lparr>pc_next_id = 0, pc_pending = [], pc_outcomes = [], pc_events = [], pc_exit = pi_alive,
      pc_ended = False\<rparr>"

definition pi_argv :: "string \<Rightarrow> string \<Rightarrow> string option \<Rightarrow> string list" where
  "pi_argv provider model resume_session =
     [''/agent/toolchain/global/bin/pi'', ''--mode'', ''rpc'', ''--session-dir'',
      ''/agent/sessions'', ''--provider'', provider, ''--model'', model] @
     (case resume_session of None \<Rightarrow> [] | Some p \<Rightarrow> [''--session'', p])"

definition drop_pending :: "pi_client \<Rightarrow> pi_client" where
  "drop_pending c =
     c\<lparr>pc_pending := [], pc_outcomes := pc_outcomes c @ map (\<lambda>i. (i, None)) (pc_pending c)\<rparr>"

text \<open>One event of the driver; after an exit the task has ended and nothing arrives any more.\<close>

definition pi_event :: "(string \<Rightarrow> json option) \<Rightarrow> driver_event \<Rightarrow> pi_client \<Rightarrow> pi_client" where
  "pi_event parse ev c =
     (if pc_ended c then c
      else case ev of
        AgentStdout line \<Rightarrow>
          (case parse line of
             None \<Rightarrow> c
           | Some msg \<Rightarrow>
               if json_get ''type'' msg = JStr ''response'' then
                 (case as_str (json_get ''id'' msg) of
                    None \<Rightarrow> c
                  | Some i \<Rightarrow>
                      if i \<in> set (pc_pending c)
                      then c\<lparr>pc_pending := removeAll i (pc_pending c),
                             pc_outcomes := pc_outcomes c @ [(i, Some msg)]\<rparr>
                      else c)
               else c\<lparr>pc_events := pc_events c @ [msg]\<rparr>)
      | AgentStderr line \<Rightarrow>
          c\<lparr>pc_events := pc_events c @ [JObj [(''type'', JStr ''pi_stderr''), (''line'', JStr line)]]\<rparr>
      | AgentExit code \<Rightarrow>
          drop_pending (c\<lparr>pc_exit := scast code, pc_ended := True,
            pc_events := pc_events c @
              [JObj [(''type'', JStr ''pi_exit''), (''code'', JNum (show_int (sint code)))]]\<rparr>)
      | DriverDied \<Rightarrow>
          drop_pending (c\<lparr>pc_exit := pi_driver_gone, pc_ended := True,
            pc_events := pc_events c @ [JObj [(''type'', JStr ''driver_died'')]]\<rparr>)
      | ShellData _ _ \<Rightarrow> c
      | ShellExit _ _ \<Rightarrow> c)"

datatype pi_error = PiDriverGone | PiExited i64 | PiTimedOut | PiDropped | PiFailed string string

text \<open>A command is refused at once when the liveness number says that pi is gone.\<close>

definition issue_command :: "json \<Rightarrow> pi_client \<Rightarrow> pi_error + string \<times> json \<times> pi_client" where
  "issue_command cmd c =
     (if pc_exit c = pi_alive then
        (let n = pc_next_id c + 1; i = ''c'' @ show_nat (unat n)
         in Inr (i, set_id (JStr i) cmd,
                 c\<lparr>pc_next_id := n, pc_pending := List.insert i (pc_pending c)\<rparr>))
      else if pc_exit c = pi_driver_gone then Inl PiDriverGone
      else Inl (PiExited (pc_exit c)))"

definition command_result :: "json \<Rightarrow> json option \<Rightarrow> pi_error + json" where
  "command_result cmd resp =
     (case resp of
        None \<Rightarrow> Inl PiDropped
      | Some r \<Rightarrow>
          if as_bool (json_get ''success'' r) = Some True then Inr r
          else Inl (PiFailed (unwrap_or ''?'' (as_str (json_get ''type'' cmd)))
                     (unwrap_or ''unknown'' (as_str (json_get ''error'' r)))))"

text \<open>Unlike a driver request, a command that times out stays in the table.\<close>

definition command_timed_out :: "string \<Rightarrow> pi_client \<Rightarrow> pi_error \<times> pi_client" where
  "command_timed_out i c = (PiTimedOut, c)"

definition simple_command :: "string \<Rightarrow> json" where
  "simple_command kind = JObj [(''type'', JStr kind)]"

definition message_command :: "string \<Rightarrow> string \<Rightarrow> json" where
  "message_command kind message = JObj [(''type'', JStr kind), (''message'', JStr message)]"

definition last_assistant_text :: "json \<Rightarrow> string option" where
  "last_assistant_text resp = as_str (json_get ''text'' (json_get ''data'' resp))"

section \<open>Calls are answered once, by their own reply\<close>

text \<open>
  The ids in the table and those answered are disjoint and issued; no id is answered twice. The
  64-bit counter is assumed not to wrap within the life of a client.
\<close>

definition driver_inv :: "driver_client \<Rightarrow> bool" where
  "driver_inv c \<longleftrightarrow> distinct (dc_pending c) \<and> distinct (map fst (dc_outcomes c)) \<and>
     set (dc_pending c) \<inter> fst ` set (dc_outcomes c) = {} \<and>
     (\<forall>i \<in> set (dc_pending c) \<union> fst ` set (dc_outcomes c). i \<le> dc_next_id c)"

inductive driver_step :: "(string \<Rightarrow> json option) \<Rightarrow> driver_client \<Rightarrow> driver_client \<Rightarrow> bool"
  for parse where
  issue: "dc_next_id c \<noteq> (-1) \<Longrightarrow> issue_request cmd c = (i, msg, c') \<Longrightarrow> driver_step parse c c'"
| line: "driver_step parse c (driver_line parse l c)"
| timeout: "driver_step parse c (request_timed_out i c)"
| eof: "driver_step parse c (driver_eof c)"

inductive_cases driver_stepE: "driver_step parse c c'"

lemma u64_less_inc:
  assumes "n \<noteq> (-1)"
  shows "n < n + (1 :: u64)"
proof -
  have "unat n \<noteq> 2 ^ 64 - 1"
  proof
    assume "unat n = 2 ^ 64 - 1"
    then have "of_nat (unat n) = (of_nat (2 ^ 64 - 1) :: u64)" by (rule arg_cong)
    then have "n = (-1)" by simp
    then show False using assms by contradiction
  qed
  moreover have "unat n < 2 ^ 64" using unsigned_less [of n] by simp
  ultimately have "unat n + 1 < 2 ^ 64" by simp
  then have "unat (n + 1) = unat n + 1" by (simp add: unat_word_ariths)
  then show ?thesis by (simp add: word_less_nat_alt)
qed

lemma driver_inv_new: "driver_inv new_driver_client"
  by (simp add: driver_inv_def new_driver_client_def)

lemma driver_inv_issue:
  assumes "driver_inv c" "dc_next_id c \<noteq> (-1)" "issue_request cmd c = (i, msg, c')"
  shows "driver_inv c' \<and> i \<in> set (dc_pending c') \<and> i \<notin> set (dc_pending c)"
proof -
  let ?n = "dc_next_id c"
  have lt: "?n < ?n + 1" using assms(2) by (rule u64_less_inc)
  have i: "i = ?n + 1" "c' = c\<lparr>dc_next_id := i, dc_pending := List.insert i (dc_pending c)\<rparr>"
    using assms(3) by (auto simp: issue_request_def Let_def)
  have old: "j \<le> ?n" if "j \<in> set (dc_pending c) \<union> fst ` set (dc_outcomes c)" for j
    using assms(1) that by (auto simp: driver_inv_def)
  then have fresh: "i \<notin> set (dc_pending c)" "i \<notin> fst ` set (dc_outcomes c)"
    using lt i(1) by (meson UnI1 UnI2 leD)+
  have le: "j \<le> i" if "j \<in> set (dc_pending c) \<union> fst ` set (dc_outcomes c)" for j
    using old [OF that] lt i(1) by (simp add: order.strict_implies_order order_trans)
  have sets: "set (dc_pending c') = insert i (set (dc_pending c))" "dc_outcomes c' = dc_outcomes c"
    "dc_next_id c' = i" "distinct (dc_pending c')"
    using i(2) assms(1) by (simp_all add: driver_inv_def)
  have "set (dc_pending c') \<inter> fst ` set (dc_outcomes c') = {}"
    using assms(1) fresh(2) unfolding driver_inv_def sets by blast
  moreover have "\<forall>j \<in> set (dc_pending c') \<union> fst ` set (dc_outcomes c'). j \<le> dc_next_id c'"
    unfolding sets using le by blast
  ultimately have "driver_inv c'"
    using assms(1) sets unfolding driver_inv_def by simp
  then show ?thesis using fresh(1) sets(1) by simp
qed

lemma driver_inv_answer:
  assumes "driver_inv c" "i \<in> set (dc_pending c)"
  shows "driver_inv (c\<lparr>dc_pending := removeAll i (dc_pending c),
           dc_outcomes := dc_outcomes c @ [(i, Some msg)]\<rparr>)"
proof -
  have "i \<notin> fst ` set (dc_outcomes c)" using assms by (auto simp: driver_inv_def)
  then show ?thesis
    using assms unfolding driver_inv_def
    by (simp add: distinct_removeAll ball_Un) blast
qed

lemma driver_inv_events: "driver_inv (c\<lparr>dc_events := es\<rparr>) \<longleftrightarrow> driver_inv c"
  by (simp add: driver_inv_def)

lemma driver_inv_line: "driver_inv c \<Longrightarrow> driver_inv (driver_line parse l c)"
  by (simp add: driver_line_def driver_inv_answer driver_inv_events split: option.split)

lemma driver_inv_timeout: "driver_inv c \<Longrightarrow> driver_inv (request_timed_out i c)"
  by (auto simp: driver_inv_def request_timed_out_def distinct_removeAll)

lemma driver_inv_eof: "driver_inv c \<Longrightarrow> driver_inv (driver_eof c)"
  by (auto simp: driver_inv_def driver_eof_def comp_def)

lemma driver_step_inv: "driver_step parse c c' \<Longrightarrow> driver_inv c \<Longrightarrow> driver_inv c'"
  by (erule driver_stepE)
    (use driver_inv_issue driver_inv_line driver_inv_timeout driver_inv_eof in blast)+

lemma driver_outcomes_grow:
  assumes "driver_step parse c c'"
  shows "\<exists>more. dc_outcomes c' = dc_outcomes c @ more"
  using assms
  by (cases rule: driver_step.cases)
    (auto simp: issue_request_def driver_line_def request_timed_out_def driver_eof_def Let_def
      split: option.splits)

text \<open>After the driver ended no request is left waiting; with the pi client a timed-out one is.\<close>

lemma driver_eof_answers_all:
  "i \<in> set (dc_pending c) \<Longrightarrow> (i, None) \<in> set (dc_outcomes (driver_eof c)) \<and> dc_pending (driver_eof c) = []"
  by (simp add: driver_eof_def)

lemma timed_out_command_leaks:
  assumes "issue_command cmd c = Inr (i, msg, c')"
  shows "i \<in> set (pc_pending (snd (command_timed_out i c')))"
  using assms by (auto simp: issue_command_def command_timed_out_def Let_def split: if_splits)

text \<open>
  When pi or the driver ends, every command in flight fails, and later ones are refused -
  provided that the exit code is not the one that means alive.\<close>

lemma pi_exit_answers_all:
  assumes "\<not> pc_ended c" "ev = DriverDied \<or> ev = AgentExit code"
  shows "pc_pending (pi_event parse ev c) = []"
    and "\<forall>i \<in> set (pc_pending c). (i, None) \<in> set (pc_outcomes (pi_event parse ev c))"
    and "ev = DriverDied \<or> (scast code :: i64) \<noteq> pi_alive \<Longrightarrow>
      \<exists>e. issue_command cmd (pi_event parse ev c) = Inl e"
  using assms
  by (auto simp: pi_event_def drop_pending_def issue_command_def pi_alive_def pi_driver_gone_def)

text \<open>
  A pi that was killed reports no exit code. The reader records -1, which is the mark of a live
  pi: commands are accepted, wait in the table, and nothing will ever answer them.\<close>

lemma ucast_minus_one [simp]: "(ucast (- 1 :: i64) :: i32) = - 1"
  by (rule bit_word_eqI) (simp add: bit_ucast_iff)

lemma exit_without_code_looks_alive:
  assumes "parse (trim_end line) = Some (JObj [(''event'', JStr ''agent_exit''), (''exitCode'', JNull)])"
    and "\<not> pc_ended c"
  shows "dc_events (driver_line parse line d) = dc_events d @ [AgentExit (-1)]"
    and "\<exists>i msg c'. issue_command cmd (pi_event parse (AgentExit (-1)) c) = Inr (i, msg, c') \<and>
      i \<in> set (pc_pending c') \<and> (\<forall>ev. pi_event parse ev c' = c')"
  using assms
  by (auto simp: driver_line_def json_get_def as_str_def exit_code_def as_i64_def unwrap_or_def
      pi_event_def drop_pending_def issue_command_def pi_alive_def Let_def)

end
