(* ===== verification/Provision.thy ===== *)
theory Provision
  imports Host_Driver
begin

text \<open>
  The calls the host makes to a VM (boot, exec, sh, checkpoint, close, spawn_agent in
  crates/castellan/src/driver.rs) and the two provisioners (crates/castellan/src/provision.rs) as
  state-passing actions that can fail. The state is the agent's files on the host, the world
  behind the driver, and the commands sent so far. The parameter \<open>'g platform\<close> answers commands;
  an answer may be \<open>CutOff\<close>: the timeout around the whole provisioning struck while this command
  was out, and nothing of the sequence runs any more. The platform also tells the time (a monotonic
  and a wall clock, in nanoseconds) and sleeps (in seconds). A directory is not an entry of the tree.
\<close>

section \<open>Actions\<close>

datatype host_error =
    DriverExited
  | DriverTimedOut nat
  | CommandFailed string string
  | GuestShFailed i64 string string
  | CutOffError
  | Context string host_error
  | NpmPrefix string
  | PostStartScript
  | NoProvisionSection
  | BadManifest manifest_error
  | Registry registry_error
  | NameTaken string
  | AlreadyRunning string
  | NotRunning string
  | TurnInFlight string
  | ActivitySince string timestamp
  | NoSecretBundle string
  | SpawnFailed
  | PiError pi_error
  | ProvisionTimedOut nat
  | SecretsRejected string
  | SecretsUndecodable
  | UploadRejected string
  | BadBundleStart
  | BadBundleMessage
  | UnsafeBundlePath string
  | BundleBase64 base64_error
  | BundleChecksum string
  | StreamFailed
  | UnsupportedOrder
  | UnexpectedHello

datatype reply_outcome = Reply json | Dropped | TimedOut | CutOff

record 'g platform =
  pl_spawn :: "'g \<Rightarrow> nat option \<times> 'g"
  pl_request :: "nat \<Rightarrow> json \<Rightarrow> nat \<Rightarrow> tree \<times> 'g \<Rightarrow> reply_outcome \<times> tree \<times> 'g"
  pl_command :: "nat \<Rightarrow> json \<Rightarrow> tree \<times> 'g \<Rightarrow> reply_outcome \<times> tree \<times> 'g"
  pl_mono :: "'g \<Rightarrow> nat"
  pl_wall :: "'g \<Rightarrow> int"
  pl_sleep :: "nat \<Rightarrow> 'g \<Rightarrow> 'g"
  pl_toml :: "agent_manifest \<Rightarrow> string"
  pl_json :: "json \<Rightarrow> string"

record 'g vm =
  vm_tree :: tree
  vm_world :: 'g
  vm_sent :: "(nat \<times> json) list"

type_synonym ('a, 's) st = "'s \<Rightarrow> (host_error + 'a) \<times> 's"
type_synonym ('a, 'g) act = "('a, 'g vm) st"

definition act_ok :: "'a \<Rightarrow> ('a, 's) st" where
  "act_ok a s = (Inr a, s)"

definition act_fail :: "host_error \<Rightarrow> ('a, 's) st" where
  "act_fail e s = (Inl e, s)"

definition act_bind :: "('a, 's) st \<Rightarrow> ('a \<Rightarrow> ('b, 's) st) \<Rightarrow> ('b, 's) st" where
  "act_bind m f s = (case m s of (Inl e, s') \<Rightarrow> (Inl e, s') | (Inr a, s') \<Rightarrow> f a s')"

definition act_then :: "(unit, 's) st \<Rightarrow> ('b, 's) st \<Rightarrow> ('b, 's) st" where
  "act_then m k = act_bind m (\<lambda>_. k)"

fun act_each :: "('x \<Rightarrow> (unit, 's) st) \<Rightarrow> 'x list \<Rightarrow> (unit, 's) st" where
  "act_each f [] = act_ok ()"
| "act_each f (x # xs) = act_then (f x) (act_each f xs)"

text \<open>\<open>anyhow\<close>'s context; a cut-off is not an error the code sees.\<close>

definition with_context :: "string \<Rightarrow> ('a, 's) st \<Rightarrow> ('a, 's) st" where
  "with_context what m s =
     (case m s of (Inl e, s') \<Rightarrow> (Inl (if e = CutOffError then e else Context what e), s') | r \<Rightarrow> r)"

text \<open>\<open>if m.is_err() { handler }\<close>.\<close>

definition act_or_else :: "(unit, 's) st \<Rightarrow> (unit, 's) st \<Rightarrow> (unit, 's) st" where
  "act_or_else m k s =
     (case m s of
        (Inl e, s') \<Rightarrow> if e = CutOffError then (Inl e, s') else k s'
      | (Inr _, s') \<Rightarrow> (Inr (), s'))"

definition act_when :: "bool \<Rightarrow> (unit, 's) st \<Rightarrow> (unit, 's) st" where
  "act_when b m = (if b then m else act_ok ())"

section \<open>Host files\<close>

definition bytes_of :: "string \<Rightarrow> u8 list" where
  "bytes_of s = map of_char s"

definition text_of :: "u8 list \<Rightarrow> string" where
  "text_of bs = map (\<lambda>b. char_of (unat b)) bs"

definition read_file :: "path \<Rightarrow> tree \<Rightarrow> string option" where
  "read_file p t = map_option text_of (map_of t p)"

definition write_file :: "path \<Rightarrow> string \<Rightarrow> (unit, 'g) act" where
  "write_file p content s = (Inr (), s\<lparr>vm_tree := put p (bytes_of content) (vm_tree s)\<rparr>)"

definition get_file :: "path \<Rightarrow> (string option, 'g) act" where
  "get_file p s = (Inr (read_file p (vm_tree s)), s)"

section \<open>Commands to the driver (driver.rs)\<close>

definition default_timeout :: nat where "default_timeout = 360"
definition quick_timeout :: nat where "quick_timeout = 30"

definition reply_result :: "json \<Rightarrow> json \<Rightarrow> host_error + json" where
  "reply_result cmd reply =
     (if as_bool (json_get ''ok'' reply) = Some True then Inr (json_get ''result'' reply)
      else Inl (CommandFailed (unwrap_or ''?'' (as_str (json_get ''cmd'' cmd)))
                 (unwrap_or ''unknown'' (as_str (json_get ''error'' reply)))))"

definition request_timeout :: "'g platform \<Rightarrow> nat \<Rightarrow> json \<Rightarrow> nat \<Rightarrow> (json, 'g) act" where
  "request_timeout P d cmd secs s =
     (case pl_request P d cmd secs (vm_tree s, vm_world s) of
        (out, t, w) \<Rightarrow>
          ((case out of
              Reply r \<Rightarrow> reply_result cmd r
            | Dropped \<Rightarrow> Inl DriverExited
            | TimedOut \<Rightarrow> Inl (DriverTimedOut secs)
            | CutOff \<Rightarrow> Inl CutOffError),
           \<lparr>vm_tree = t, vm_world = w, vm_sent = vm_sent s @ [(d, cmd)]\<rparr>))"

definition env_obj :: "env \<Rightarrow> json" where
  "env_obj env = json_map (map (map_prod (\<lambda>k. k) JStr) env)"

definition boot_options ::
    "(string \<times> string) list \<Rightarrow> env \<Rightarrow> string \<Rightarrow> string option \<Rightarrow> secret_bundle \<Rightarrow> string list \<Rightarrow>
      string list \<Rightarrow> resources \<Rightarrow> json" where
  "boot_options mounts env label resume_from secrets allowed ghosts res =
     JObj ([(''mounts'', json_map (map (\<lambda>(g, h). (g, JObj [(''hostPath'', JStr h)])) mounts)),
       (''env'', env_obj env),
       (''sessionLabel'', JStr label),
       (''memory'', JStr (show_nat (unat (r_memory_mib res)) @ ''M'')),
       (''cpus'', json_num (unat (r_vcpu res))),
       (''secrets'', json_map (map (\<lambda>(k, e). (k, JObj [(''value'', JStr (se_value e)),
          (''hosts'', JArr (map JStr (se_hosts e)))])) (sb_env secrets))),
       (''allowedHosts'', JArr (map JStr allowed))] @
       (case resume_from of None \<Rightarrow> [] | Some p \<Rightarrow> [(''resumeFrom'', JStr p)]) @
       (case sb_git_ssh_key secrets of
          None \<Rightarrow> []
        | Some key \<Rightarrow> [(''ssh'', JObj [(''allowedHosts'', JArr (map JStr ghosts)),
            (''credentials'', json_map (map (\<lambda>h. (h, JObj [(''privateKey'', JStr key)])) ghosts))])]))"

definition boot ::
    "'g platform \<Rightarrow> nat \<Rightarrow> (string \<times> string) list \<Rightarrow> env \<Rightarrow> string \<Rightarrow> string option \<Rightarrow> secret_bundle \<Rightarrow>
      string list \<Rightarrow> string list \<Rightarrow> resources \<Rightarrow> (labels, 'g) act" where
  "boot P d mounts env label resume_from secrets allowed ghosts res =
     act_bind (request_timeout P d (JObj [(''cmd'', JStr ''boot''),
        (''options'', boot_options mounts env label resume_from secrets allowed ghosts res)]) default_timeout)
       (\<lambda>result. act_ok (unwrap_or [] (json_labels (json_get ''placeholders'' result))))"

definition checkpoint_vm :: "'g platform \<Rightarrow> nat \<Rightarrow> string \<Rightarrow> (string, 'g) act" where
  "checkpoint_vm P d p =
     act_bind (request_timeout P d (JObj [(''cmd'', JStr ''checkpoint''), (''path'', JStr p)]) default_timeout)
       (\<lambda>r. act_ok (unwrap_or p (as_str (json_get ''path'' r))))"

definition exec_cmd :: "string list \<Rightarrow> env \<Rightarrow> json" where
  "exec_cmd argv env =
     JObj [(''cmd'', JStr ''exec''), (''argv'', JArr (map JStr argv)), (''cwd'', JNull), (''env'', env_obj env)]"

definition exec_vm :: "'g platform \<Rightarrow> nat \<Rightarrow> string list \<Rightarrow> env \<Rightarrow> (i64 \<times> string \<times> string, 'g) act" where
  "exec_vm P d argv env =
     act_bind (request_timeout P d (exec_cmd argv env) default_timeout)
       (\<lambda>r. act_ok (exit_code r, str_field ''stdout'' r, str_field ''stderr'' r))"

definition sh_cmd :: "string \<Rightarrow> env \<Rightarrow> json" where
  "sh_cmd script env = exec_cmd [''sh'', ''-lc'', script] env"

definition sh :: "'g platform \<Rightarrow> nat \<Rightarrow> string \<Rightarrow> env \<Rightarrow> (unit, 'g) act" where
  "sh P d script env =
     act_bind (exec_vm P d [''sh'', ''-lc'', script] env)
       (\<lambda>(code, out, err). if code \<noteq> 0 then act_fail (GuestShFailed code script err) else act_ok ())"

definition spawn_agent :: "'g platform \<Rightarrow> nat \<Rightarrow> string list \<Rightarrow> string \<Rightarrow> env \<Rightarrow> (unit, 'g) act" where
  "spawn_agent P d argv cwd env =
     act_bind (request_timeout P d (JObj [(''cmd'', JStr ''spawn_agent''), (''argv'', JArr (map JStr argv)),
        (''cwd'', JStr cwd), (''env'', env_obj env)]) quick_timeout)
       (\<lambda>_. act_ok ())"

text \<open>Closing never fails: the reply is ignored and the process killed.\<close>

definition close_vm :: "'g platform \<Rightarrow> nat \<Rightarrow> (unit, 'g) act" where
  "close_vm P d s = (Inr (), snd (request_timeout P d (JObj [(''cmd'', JStr ''close'')]) quick_timeout s))"

section \<open>Steps the provisioners share (provision.rs)\<close>

abbreviation backslash :: char where "backslash \<equiv> CHR 0x5C"

definition ssh_config_script :: string where
  "ssh_config_script =
     ''mkdir -p /root/.ssh && chmod 700 /root/.ssh && printf 'Host *'' @ [backslash] @
     ''n  StrictHostKeyChecking accept-new'' @ [backslash] @
     ''n' > /root/.ssh/config && chmod 600 /root/.ssh/config && if command -v git >/dev/null 2>&1; then '' @
     ''git config --global core.sshCommand 'ssh -o StrictHostKeyChecking=accept-new'; fi''"

definition configure_git_ssh :: "'g platform \<Rightarrow> nat \<Rightarrow> secret_bundle \<Rightarrow> (unit, 'g) act" where
  "configure_git_ssh P d b =
     (if sb_git_ssh_key b = None then act_ok ()
      else with_context ''configuring git ssh in guest'' (sh P d ssh_config_script []))"

definition npm_script :: string where
  "npm_script =
     ''mkdir -p /agent/toolchain && cd /tmp && wget -q https://registry.npmjs.org/npm/-/npm-11.11.0.tgz'' @
     '' && tar xzf npm-11.11.0.tgz && mv package /agent/toolchain/npm && rm npm-11.11.0.tgz''"

definition ensure_npm_toolchain :: "'g platform \<Rightarrow> nat \<Rightarrow> agent_paths \<Rightarrow> (unit, 'g) act" where
  "ensure_npm_toolchain P d paths =
     act_bind (get_file (path_join (pa_guest paths) ''toolchain/npm/bin/npm-cli.js''))
       (\<lambda>f. if f \<noteq> None then act_ok () else with_context ''installing npm'' (sh P d npm_script []))"

definition npm_shim :: string where
  "npm_shim =
     ''#!/bin/sh'' @ [newline] @ ''exec node /agent/toolchain/npm/bin/npm-cli.js '' @
     [CHR 0x22] @ ''$@'' @ [CHR 0x22, newline]"

definition chmod_script :: "string \<Rightarrow> string" where
  "chmod_script pre = ''chmod +x '' @ shell_quote pre @ ''/bin/npm''"

definition write_npm_shim :: "'g platform \<Rightarrow> nat \<Rightarrow> agent_paths \<Rightarrow> string \<Rightarrow> (unit, 'g) act" where
  "write_npm_shim P d paths pre =
     (case strip_prefix ''/agent/'' pre of
        None \<Rightarrow> act_fail (NpmPrefix pre)
      | Some rel \<Rightarrow>
          act_then (write_file (path_join (path_join (path_join (pa_guest paths) rel) ''bin'') ''npm'') npm_shim)
            (sh P d (chmod_script pre) []))"

text \<open>\<open>str::trim_end_matches\<close> for a non-empty text.\<close>

function trim_end_matches :: "string \<Rightarrow> string \<Rightarrow> string" where
  "trim_end_matches p s =
     (if p \<noteq> [] \<and> suffix p s then trim_end_matches p (take (length s - length p) s) else s)"
  by pat_completeness auto
termination
  by (relation "measure (\<lambda>(p, s). length s)") (auto simp: suffix_def)

definition repo_name :: "string \<Rightarrow> string" where
  "repo_name url = trim_end_matches ''.git'' (last (split_on (\<lambda>c. c = CHR ''/'') url))"

definition shallow_clone_script :: "string \<Rightarrow> string \<Rightarrow> string \<Rightarrow> string" where
  "shallow_clone_script ref0 url dest =
     ''git clone --quiet --depth 1 --branch '' @ join '' '' [shell_quote ref0, shell_quote url, shell_quote dest]"

definition full_clone_script :: "string \<Rightarrow> string \<Rightarrow> string" where
  "full_clone_script url dest = ''git clone --quiet '' @ join '' '' [shell_quote url, shell_quote dest]"

definition checkout_script :: "string \<Rightarrow> string \<Rightarrow> string" where
  "checkout_script dest ref0 =
     ''git -C '' @ shell_quote dest @ '' checkout --quiet '' @ shell_quote ref0"

definition clone_repo ::
    "'g platform \<Rightarrow> nat \<Rightarrow> string \<Rightarrow> string \<Rightarrow> string \<Rightarrow> string \<Rightarrow> (unit, 'g) act" where
  "clone_repo P d what url ref0 dest =
     act_or_else (sh P d (shallow_clone_script ref0 url dest) clone_env)
       (act_then (with_context what (sh P d (full_clone_script url dest) clone_env))
         (sh P d (checkout_script dest ref0) []))"

definition mise_toml :: "labels \<Rightarrow> string" where
  "mise_toml tools =
     ''[tools]'' @ [newline] @
     join [newline] (map (\<lambda>(k, v). k @ '' = '' @ [CHR 0x22] @ v @ [CHR 0x22]) tools) @ [newline]"

definition print_script :: "string \<Rightarrow> string \<Rightarrow> string" where
  "print_script content dest = ''printf '%s' '' @ shell_quote content @ '' > '' @ dest"

definition mise_fetch_script :: string where
  "mise_fetch_script =
     ''curl -fsSL https://mise.run | MISE_INSTALL_PATH=/agent/toolchain/mise sh >/dev/null 2>&1''"

definition mise_install_script :: string where
  "mise_install_script =
     ''cd /agent/workspace && MISE_DATA_DIR=/agent/toolchain/mise-data /agent/toolchain/mise install --yes''"

definition install_tools :: "'g platform \<Rightarrow> nat \<Rightarrow> labels \<Rightarrow> (unit, 'g) act" where
  "install_tools P d tools =
     act_then (sh P d (print_script (mise_toml tools) ''/agent/workspace/mise.toml'') [])
     (act_then (with_context ''installing mise in guest'' (sh P d mise_fetch_script []))
       (with_context ''mise install'' (sh P d mise_install_script [])))"

definition safe_directory_script :: string where
  "safe_directory_script = ''git config --global --add safe.directory '*'' @ [CHR 0x27]"

definition npm_install_script :: "string \<Rightarrow> string \<Rightarrow> string" where
  "npm_install_script pre pkg =
     ''node /agent/toolchain/npm/bin/npm-cli.js install -g --prefix '' @ shell_quote pre @ '' '' @ shell_quote pkg"

definition write_append_system :: "agent_paths \<Rightarrow> string option \<Rightarrow> (unit, 'g) act" where
  "write_append_system paths a =
     (case a of
        None \<Rightarrow> act_ok ()
      | Some t \<Rightarrow> act_when (trim t \<noteq> []) (write_file (path_join (pa_pi_home paths) ''APPEND_SYSTEM.md'') t))"

definition path_text :: "path \<Rightarrow> string" where
  "path_text p = CHR ''/'' # join ''/'' p"

end
