(* ===== verification/Provisioners.thy ===== *)
theory Provisioners
  imports Provision
begin

text \<open>
  The two provisioners (crates/castellan/src/provision.rs): the fixed sequence for pi agents and
  the declarative one that runs the manifest's \<open>[provision]\<close> section, and what reaches the
  guest's shell from either.
\<close>

section \<open>The fixed sequence (provision_with_paths)\<close>

definition base_packages_script :: string where
  "base_packages_script = ''apk add --no-cache git curl bash ca-certificates''"

definition install_pi :: "'g platform \<Rightarrow> nat \<Rightarrow> agent_manifest \<Rightarrow> agent_paths \<Rightarrow> (unit, 'g) act" where
  "install_pi P d m paths =
     (let marker = path_join (pa_guest paths) ''toolchain/pi-version'';
          want = h_version (m_harness m)
      in act_bind (get_file marker) (\<lambda>have_version.
           act_when (trim (unwrap_or [] have_version) \<noteq> want)
             (act_then (with_context ''installing pi''
                 (sh P d (npm_install_script ''/agent/toolchain/global''
                    (''@earendil-works/pi-coding-agent@'' @ want)) []))
               (write_file marker want))))"

definition pi_install_script :: "string \<Rightarrow> string" where
  "pi_install_script source = ''/agent/toolchain/global/bin/pi install '' @ shell_quote source"

definition clone_extension_script :: "string \<Rightarrow> string \<Rightarrow> string \<Rightarrow> string" where
  "clone_extension_script url dest ref0 =
     ''git clone --quiet '' @ shell_quote url @ '' '' @ shell_quote dest @ '' && git -C '' @
     shell_quote dest @ '' checkout --quiet '' @ shell_quote ref0"

definition install_extension :: "'g platform \<Rightarrow> nat \<Rightarrow> extension \<Rightarrow> (unit, 'g) act" where
  "install_extension P d ext =
     (case x_source ext of
        Some source \<Rightarrow>
          with_context (''installing pi package '' @ source) (sh P d (pi_install_script source) pi_tool_env)
      | None \<Rightarrow>
          (let url = unwrap_or [] (x_url ext);
               ref0 = unwrap_or ''main'' (x_ref ext);
               dest = ''/agent/pi-home/extensions/'' @ repo_name url
           in with_context (''cloning extension '' @ url)
                (sh P d (clone_extension_script url dest ref0) clone_env)))"

definition workspace_trust :: string where
  "workspace_trust = [CHR ''{'', CHR 0x22] @ ''/agent/workspace'' @ [CHR 0x22] @ '': true}''"

definition fixed_trust_script :: string where
  "fixed_trust_script =
     ''mkdir -p /agent/pi-home && printf '%s' '' @ [CHR 0x27] @ workspace_trust @ [CHR 0x27] @
     '' > /agent/pi-home/trust.json''"

definition clone_manifest_repo :: "'g platform \<Rightarrow> nat \<Rightarrow> repo \<Rightarrow> (unit, 'g) act" where
  "clone_manifest_repo P d r =
     clone_repo P d (''cloning '' @ rp_url r) (rp_url r) (rp_ref r) (''/agent/workspace/'' @ repo_name (rp_url r))"

definition pi_steps ::
    "'g platform \<Rightarrow> nat \<Rightarrow> agent_manifest \<Rightarrow> agent_paths \<Rightarrow> secret_bundle \<Rightarrow> (unit, 'g) act" where
  "pi_steps P d m paths b =
     act_then (with_context ''installing base packages'' (sh P d base_packages_script []))
     (act_then (act_when (sb_git_ssh_key b \<noteq> None) (configure_git_ssh P d b))
     (act_then (ensure_npm_toolchain P d paths)
     (act_then (install_pi P d m paths)
     (act_then (write_npm_shim P d paths ''/agent/toolchain/global'')
     (act_then (act_each (clone_manifest_repo P d) (m_repos m))
     (act_then (sh P d safe_directory_script [])
     (act_then (act_each (install_extension P d) (m_extensions m))
     (act_then (act_when (m_tools m \<noteq> []) (install_tools P d (m_tools m)))
     (act_then (sh P d fixed_trust_script [])
       (write_append_system paths (m_append_system m)))))))))))"

definition provision_pi ::
    "'g platform \<Rightarrow> nat \<Rightarrow> agent_manifest \<Rightarrow> string \<Rightarrow> agent_paths \<Rightarrow> secret_bundle \<Rightarrow> (labels, 'g) act" where
  "provision_pi P d m record_name paths b =
     act_then (write_file (path_join (pa_root paths) ''manifest.toml'') (pl_toml P m))
       (act_bind (boot P d [(''/agent'', path_text (pa_guest paths))] [] (''castellan-'' @ record_name) None b
            (egress_hosts m b) (git_hosts m) (m_resources m))
         (\<lambda>placeholders. act_then (pi_steps P d m paths b) (act_ok placeholders)))"

section \<open>The declarative sequence (DeclarativeProvisioner)\<close>

definition apk_add_script :: "string list \<Rightarrow> string" where
  "apk_add_script pkgs = ''apk add --no-cache '' @ join '' '' (map shell_quote pkgs)"

definition npm_package_spec :: "string \<Rightarrow> string option \<Rightarrow> string" where
  "npm_package_spec package version =
     (case version of Some v \<Rightarrow> package @ ''@'' @ v | None \<Rightarrow> package)"

definition run_install :: "'g platform \<Rightarrow> nat \<Rightarrow> agent_paths \<Rightarrow> install_entry \<Rightarrow> (unit, 'g) act" where
  "run_install P d paths entry =
     (case entry of
        Npm package version pre \<Rightarrow>
          (let p = unwrap_or ''/agent/toolchain/global'' pre;
               pkg = npm_package_spec package version
           in act_then (ensure_npm_toolchain P d paths)
              (act_then (write_npm_shim P d paths p)
                (with_context (''installing npm package '' @ pkg) (sh P d (npm_install_script p pkg) []))))
      | Git url ref0 dest \<Rightarrow> clone_repo P d (''cloning '' @ url) url ref0 dest
      | Mise tools \<Rightarrow> install_tools P d tools)"

definition run_script :: "'g platform \<Rightarrow> nat \<Rightarrow> run_entry \<Rightarrow> (unit, 'g) act" where
  "run_script P d entry =
     (if re_when entry \<noteq> PreStart then act_fail PostStartScript
      else with_context ''running provision.run script'' (sh P d (re_script entry) (re_env entry)))"

definition trust_script :: "string \<Rightarrow> string" where
  "trust_script trust_json =
     ''mkdir -p /agent/pi-home && '' @ print_script trust_json ''/agent/pi-home/trust.json''"

definition trust_object :: "provision_spec \<Rightarrow> json" where
  "trust_object spec =
     json_map (map (\<lambda>p. (p, JBool True))
       (if ps_trust_paths spec = [] then [''/agent/workspace''] else ps_trust_paths spec))"

definition declarative_mounts :: "agent_paths \<Rightarrow> provision_spec \<Rightarrow> (string \<times> string) list" where
  "declarative_mounts paths spec =
     (''/agent'', path_text (pa_guest paths)) #
     map (\<lambda>mt. (mt_guest mt, path_text (path_join (pa_root paths) (mt_host mt)))) (ps_mounts spec)"

definition declarative_steps ::
    "'g platform \<Rightarrow> nat \<Rightarrow> agent_paths \<Rightarrow> provision_spec \<Rightarrow> secret_bundle \<Rightarrow> (unit, 'g) act" where
  "declarative_steps P d paths spec b =
     act_then (act_when (ps_packages spec \<noteq> [])
        (with_context ''installing packages'' (sh P d (apk_add_script (ps_packages spec)) [])))
     (act_then (act_when (sb_git_ssh_key b \<noteq> None) (configure_git_ssh P d b))
     (act_then (act_each (run_install P d paths) (ps_install spec))
     (act_then (sh P d safe_directory_script [])
     (act_then (act_each (run_script P d) (ps_run spec))
     (act_then (sh P d (trust_script (pl_json P (trust_object spec))) [])
       (write_append_system paths (ps_append_system spec)))))))"

definition provision_declarative ::
    "'g platform \<Rightarrow> nat \<Rightarrow> agent_manifest \<Rightarrow> string \<Rightarrow> agent_paths \<Rightarrow> secret_bundle \<Rightarrow> (labels, 'g) act" where
  "provision_declarative P d m record_name paths b =
     (case m_provision m of
        None \<Rightarrow> act_fail NoProvisionSection
      | Some spec \<Rightarrow>
          act_then (write_file (path_join (pa_root paths) ''manifest.toml'') (pl_toml P m))
            (act_bind (boot P d (declarative_mounts paths spec) [] (''castellan-'' @ record_name) None b
                 (egress_hosts m b) (git_hosts m) (m_resources m))
              (\<lambda>placeholders. act_then (declarative_steps P d paths spec b) (act_ok placeholders))))"

definition provision_agent ::
    "'g platform \<Rightarrow> nat \<Rightarrow> agent_manifest \<Rightarrow> string \<Rightarrow> agent_paths \<Rightarrow> secret_bundle \<Rightarrow> (labels, 'g) act" where
  "provision_agent P d m record_name paths b =
     (if m_provision m \<noteq> None then provision_declarative P d m record_name paths b
      else provision_pi P d m record_name paths b)"

section \<open>What an action sends\<close>

named_theorems sending "actions and the commands they send"

definition sends_only :: "((nat \<times> json) \<Rightarrow> bool) \<Rightarrow> ('a, 'g) act \<Rightarrow> bool" where
  "sends_only Q m \<longleftrightarrow>
     (\<forall>s. \<exists>cs. vm_sent (snd (m s)) = vm_sent s @ cs \<and> list_all Q cs)"

lemma sends_onlyI:
  "(\<And>s. \<exists>cs. vm_sent (snd (m s)) = vm_sent s @ cs \<and> list_all Q cs) \<Longrightarrow> sends_only Q m"
  by (simp add: sends_only_def)

lemma sends_onlyE:
  assumes "sends_only Q m" "m s = (r, s')"
  obtains cs where "vm_sent s' = vm_sent s @ cs" "list_all Q cs"
  using assms by (metis sends_only_def snd_conv)

lemma sends_only_request [sending]:
  "Q (d, cmd) \<Longrightarrow> sends_only Q (request_timeout P d cmd n)"
  by (rule sends_onlyI) (simp add: request_timeout_def split: prod.split)

lemma sends_only_ok [sending]: "sends_only Q (act_ok a)"
  by (simp add: sends_only_def act_ok_def)

lemma sends_only_fail [sending]: "sends_only Q (act_fail e)"
  by (simp add: sends_only_def act_fail_def)

lemma sends_only_write [sending]: "sends_only Q (write_file p c)"
  by (simp add: sends_only_def write_file_def)

lemma sends_only_get [sending]: "sends_only Q (get_file p)"
  by (simp add: sends_only_def get_file_def)

lemma sends_only_bind [sending]:
  assumes "sends_only Q m" "\<And>a. sends_only Q (f a)"
  shows "sends_only Q (act_bind m f)"
proof (rule sends_onlyI)
  fix s
  obtain r s1 where m: "m s = (r, s1)" by (cases "m s")
  obtain cs where cs: "vm_sent s1 = vm_sent s @ cs" "list_all Q cs"
    using sends_onlyE [OF assms(1) m] .
  show "\<exists>cs. vm_sent (snd (act_bind m f s)) = vm_sent s @ cs \<and> list_all Q cs"
  proof (cases r)
    case (Inr a)
    obtain ds where "vm_sent (snd (f a s1)) = vm_sent s1 @ ds" "list_all Q ds"
      using sends_onlyE [OF assms(2), of a s1] by (metis prod.collapse)
    then show ?thesis using cs m Inr by (simp add: act_bind_def)
  qed (use cs m in \<open>simp add: act_bind_def\<close>)
qed

lemma sends_only_then [sending]:
  "sends_only Q m \<Longrightarrow> sends_only Q k \<Longrightarrow> sends_only Q (act_then m k)"
  by (simp add: act_then_def sends_only_bind)

lemma sends_only_when [sending]: "(b \<Longrightarrow> sends_only Q m) \<Longrightarrow> sends_only Q (act_when b m)"
  by (simp add: act_when_def sends_only_ok)

lemma sends_only_context [sending]: "sends_only Q m \<Longrightarrow> sends_only Q (with_context w m)"
  by (auto simp: sends_only_def with_context_def split: prod.split sum.split) (metis snd_conv)+

lemma sends_only_or_else [sending]:
  assumes "sends_only Q m" "sends_only Q k"
  shows "sends_only Q (act_or_else m k)"
proof (rule sends_onlyI)
  fix s
  obtain r s1 where m: "m s = (r, s1)" by (cases "m s")
  obtain cs where cs: "vm_sent s1 = vm_sent s @ cs" "list_all Q cs"
    using sends_onlyE [OF assms(1) m] .
  obtain ds where ds: "vm_sent (snd (k s1)) = vm_sent s1 @ ds" "list_all Q ds"
    using sends_onlyE [OF assms(2), of s1] by (metis prod.collapse)
  show "\<exists>cs. vm_sent (snd (act_or_else m k s)) = vm_sent s @ cs \<and> list_all Q cs"
    using cs ds m by (cases r) (auto simp: act_or_else_def)
qed

lemma sends_only_each [sending]:
  "(\<And>x. x \<in> set xs \<Longrightarrow> sends_only Q (f x)) \<Longrightarrow> sends_only Q (act_each f xs)"
  by (induction xs) (simp_all add: sending)

lemma sends_only_sh [sending]: "Q (d, sh_cmd script env) \<Longrightarrow> sends_only Q (sh P d script env)"
  by (auto simp: sh_def exec_vm_def sh_cmd_def intro!: sending split: prod.split)

lemma sends_only_boot [sending]:
  "(\<And>opts. Q (d, JObj [(''cmd'', JStr ''boot''), (''options'', opts)])) \<Longrightarrow>
     sends_only Q (boot P d mounts env label resume b allowed ghosts res)"
  by (auto simp: boot_def intro!: sending)

end
