(* ===== verification/Provision_Theorems.thy ===== *)
theory Provision_Theorems
  imports Provisioners
begin

text \<open>
  No text of a manifest is shell syntax in the guest: whatever the driver answers, the commands a
  provisioner sends are the boot, the fixed scripts, the manifest's own run scripts, and lines
  that the reference reader splits into words laid down here, with the manifest's texts in them
  as single words.
\<close>

section \<open>The words each command is meant to have\<close>

definition fixed_scripts :: "string list" where
  "fixed_scripts =
     [ssh_config_script, npm_script, base_packages_script, mise_fetch_script, mise_install_script,
      safe_directory_script, fixed_trust_script]"

definition clone_words :: "string \<Rightarrow> string \<Rightarrow> string \<Rightarrow> sh_token list list" where
  "clone_words url ref0 dest =
     [map Word [''git'', ''clone'', ''--quiet'', ''--depth'', ''1'', ''--branch'', ref0, url, dest],
      map Word [''git'', ''clone'', ''--quiet'', url, dest],
      map Word [''git'', ''-C'', dest, ''checkout'', ''--quiet'', ref0]]"

definition extension_words :: "extension \<Rightarrow> sh_token list" where
  "extension_words x =
     (case x_source x of
        Some source \<Rightarrow> map Word [''/agent/toolchain/global/bin/pi'', ''install'', source]
      | None \<Rightarrow>
          (let url = unwrap_or [] (x_url x); dest = ''/agent/pi-home/extensions/'' @ repo_name url
           in map Word [''git'', ''clone'', ''--quiet'', url, dest] @ [Special CHR ''&'', Special CHR ''&''] @
              map Word [''git'', ''-C'', dest, ''checkout'', ''--quiet'', unwrap_or ''main'' (x_ref x)]))"

definition npm_words :: "string \<Rightarrow> string \<Rightarrow> sh_token list" where
  "npm_words pre pkg =
     map Word [''node'', ''/agent/toolchain/npm/bin/npm-cli.js'', ''install'', ''-g'', ''--prefix'', pre, pkg]"

definition print_words :: "string \<Rightarrow> string \<Rightarrow> sh_token list" where
  "print_words content dest = map Word [''printf'', ''%s'', content] @ [Special CHR ''>'', Word dest]"

definition tools_words :: "labels \<Rightarrow> sh_token list" where
  "tools_words tools = print_words (mise_toml tools) ''/agent/workspace/mise.toml''"

definition shim_words :: "string \<Rightarrow> sh_token list" where
  "shim_words pre = map Word [''chmod'', ''+x'', pre @ ''/bin/npm'']"

definition install_words :: "install_entry \<Rightarrow> sh_token list list" where
  "install_words e =
     (case e of
        Npm package version pre \<Rightarrow>
          (let p = unwrap_or ''/agent/toolchain/global'' pre
           in [shim_words p, npm_words p (npm_package_spec package version)])
      | Git url ref0 dest \<Rightarrow> clone_words url ref0 dest
      | Mise tools \<Rightarrow> [tools_words tools])"

definition trust_words :: "string \<Rightarrow> sh_token list" where
  "trust_words content =
     map Word [''mkdir'', ''-p'', ''/agent/pi-home''] @ [Special CHR ''&'', Special CHR ''&''] @
     print_words content ''/agent/pi-home/trust.json''"

definition command_words :: "'g platform \<Rightarrow> agent_manifest \<Rightarrow> sh_token list list" where
  "command_words P m =
     (case m_provision m of
        None \<Rightarrow>
          [npm_words ''/agent/toolchain/global'' (''@earendil-works/pi-coding-agent@'' @ h_version (m_harness m)),
           shim_words ''/agent/toolchain/global'', tools_words (m_tools m)] @
          concat (map (\<lambda>r. clone_words (rp_url r) (rp_ref r) (''/agent/workspace/'' @ repo_name (rp_url r))) (m_repos m)) @
          map extension_words (m_extensions m)
      | Some spec \<Rightarrow>
          [map Word ([''apk'', ''add'', ''--no-cache''] @ ps_packages spec),
           trust_words (pl_json P (trust_object spec))] @
          concat (map install_words (ps_install spec)))"

definition own_scripts :: "agent_manifest \<Rightarrow> string list" where
  "own_scripts m = (case m_provision m of None \<Rightarrow> [] | Some spec \<Rightarrow> map re_script (ps_run spec))"

definition expected :: "sh_token list list \<Rightarrow> string list \<Rightarrow> nat \<Rightarrow> nat \<times> json \<Rightarrow> bool" where
  "expected ws own d call \<longleftrightarrow> fst call = d \<and>
     ((\<exists>opts. snd call = JObj [(''cmd'', JStr ''boot''), (''options'', opts)]) \<or>
      (\<exists>script env. snd call = sh_cmd script env \<and>
         (script \<in> set fixed_scripts \<or> script \<in> set own \<or> (\<exists>ts \<in> set ws. sh_words script = Some ts))))"

section \<open>The scripts read as these words\<close>

lemma sh_words_prefix:
  assumes "sh_words p = Some ts" "s = p @ CHR '' '' # r" "sh_words r = Some us"
  shows "sh_words s = Some (ts @ us)"
  using sh_words_append [OF assms(1), of r] assms(2,3) by simp

lemmas sh_eval = sh_words_def sh_special_def sh_blank_def end_word_def unwrap_or_def

lemma words_shallow_clone:
  "sh_words (shallow_clone_script r u t) =
     Some (map Word [''git'', ''clone'', ''--quiet'', ''--depth'', ''1'', ''--branch'', r, u, t])"
proof -
  have p: "sh_words ''git clone --quiet --depth 1 --branch'' =
      Some (map Word [''git'', ''clone'', ''--quiet'', ''--depth'', ''1'', ''--branch''])"
    by (simp add: sh_eval)
  show ?thesis
    using sh_words_prefix [OF p _ sh_words_join_quoted [of "[r, u, t]"]]
    by (simp add: shallow_clone_script_def)
qed

lemma words_full_clone:
  "sh_words (full_clone_script u t) = Some (map Word [''git'', ''clone'', ''--quiet'', u, t])"
proof -
  have p: "sh_words ''git clone --quiet'' = Some (map Word [''git'', ''clone'', ''--quiet''])"
    by (simp add: sh_eval)
  show ?thesis
    using sh_words_prefix [OF p _ sh_words_join_quoted [of "[u, t]"]] by (simp add: full_clone_script_def)
qed

lemma words_checkout_rest:
  "sh_words (''git -C '' @ shell_quote t @ '' checkout --quiet '' @ shell_quote r) =
     Some (map Word [''git'', ''-C'', t, ''checkout'', ''--quiet'', r])"
proof -
  have p: "sh_words ''git -C'' = Some (map Word [''git'', ''-C''])"
    "sh_words ''checkout --quiet'' = Some (map Word [''checkout'', ''--quiet''])"
    by (simp_all add: sh_eval)
  have "sh_words (''checkout --quiet '' @ shell_quote r) = Some (map Word [''checkout'', ''--quiet'', r])"
    using sh_words_prefix [OF p(2) _ sh_words_quoted [of r]] by simp
  then have "sh_words (shell_quote t @ '' checkout --quiet '' @ shell_quote r) =
      Some (map Word [t, ''checkout'', ''--quiet'', r])"
    by simp
  from sh_words_prefix [OF p(1) _ this] show ?thesis by simp
qed

lemma words_checkout:
  "sh_words (checkout_script t r) = Some (map Word [''git'', ''-C'', t, ''checkout'', ''--quiet'', r])"
  unfolding checkout_script_def by (rule words_checkout_rest)

lemma words_clone_extension:
  "sh_words (clone_extension_script u t r) =
     Some (map Word [''git'', ''clone'', ''--quiet'', u, t] @ [Special CHR ''&'', Special CHR ''&''] @
       map Word [''git'', ''-C'', t, ''checkout'', ''--quiet'', r])"
proof -
  have p: "sh_words ''git clone --quiet'' = Some (map Word [''git'', ''clone'', ''--quiet''])"
    "sh_words ''&&'' = Some [Special CHR ''&'', Special CHR ''&'']"
    by (simp_all add: sh_eval)
  have "sh_words (''&& git -C '' @ shell_quote t @ '' checkout --quiet '' @ shell_quote r) =
      Some ([Special CHR ''&'', Special CHR ''&''] @ map Word [''git'', ''-C'', t, ''checkout'', ''--quiet'', r])"
    by (rule sh_words_prefix [OF p(2) _ words_checkout_rest]) simp
  then have "sh_words (shell_quote u @ '' '' @ shell_quote t @ '' && git -C '' @ shell_quote t @
        '' checkout --quiet '' @ shell_quote r) =
      Some (map Word [u, t] @ [Special CHR ''&'', Special CHR ''&''] @
        map Word [''git'', ''-C'', t, ''checkout'', ''--quiet'', r])"
    by simp
  from sh_words_prefix [OF p(1) _ this] show ?thesis by (simp add: clone_extension_script_def)
qed

lemma words_npm_install: "sh_words (npm_install_script p k) = Some (npm_words p k)"
proof -
  have q: "sh_words ''node /agent/toolchain/npm/bin/npm-cli.js install -g --prefix'' =
      Some (map Word [''node'', ''/agent/toolchain/npm/bin/npm-cli.js'', ''install'', ''-g'', ''--prefix''])"
    by (simp add: sh_eval)
  show ?thesis
    using sh_words_prefix [OF q _ sh_words_join_quoted [of "[p, k]"]]
    by (simp add: npm_install_script_def npm_words_def)
qed

lemma words_chmod: "sh_words (chmod_script p) = Some (shim_words p)"
proof -
  have q: "sh_words ''chmod +x'' = Some (map Word [''chmod'', ''+x''])" by (simp add: sh_eval)
  have "sh_words (shell_quote p @ ''/bin/npm'') = Some [Word (p @ ''/bin/npm'')]"
    by (simp add: sh_eval)
  from sh_words_prefix [OF q _ this] show ?thesis by (simp add: chmod_script_def shim_words_def)
qed

lemma words_pi_install:
  "sh_words (pi_install_script x) = Some (map Word [''/agent/toolchain/global/bin/pi'', ''install'', x])"
proof -
  have q: "sh_words ''/agent/toolchain/global/bin/pi install'' =
      Some (map Word [''/agent/toolchain/global/bin/pi'', ''install''])"
    by (simp add: sh_eval)
  show ?thesis
    using sh_words_prefix [OF q _ sh_words_quoted [of x]] by (simp add: pi_install_script_def)
qed

lemma words_apk:
  "sh_words (apk_add_script ps) = Some (map Word ([''apk'', ''add'', ''--no-cache''] @ ps))"
proof -
  have q: "sh_words ''apk add --no-cache'' = Some (map Word [''apk'', ''add'', ''--no-cache''])"
    by (simp add: sh_eval)
  show ?thesis
    using sh_words_prefix [OF q _ sh_words_join_quoted [of ps]] by (simp add: apk_add_script_def)
qed

lemma words_print:
  assumes "sh_words dest = Some [Word dest]"
  shows "sh_words (print_script x dest) = Some (print_words x dest)"
proof -
  have q: "sh_words ([CHR ''p'', CHR ''r'', CHR ''i'', CHR ''n'', CHR ''t'', CHR ''f'', CHR '' '', CHR 0x27] @
      ''%s'' @ [CHR 0x27]) = Some (map Word [''printf'', ''%s''])"
    "sh_words ''>'' = Some [Special CHR ''>'']"
    by (simp_all add: sh_eval)
  have "sh_words (''> '' @ dest) = Some [Special CHR ''>'', Word dest]"
    using sh_words_prefix [OF q(2) _ assms] by simp
  then have "sh_words (shell_quote x @ '' > '' @ dest) = Some [Word x, Special CHR ''>'', Word dest]"
    by simp
  from sh_words_prefix [OF q(1) _ this] show ?thesis by (simp add: print_script_def print_words_def)
qed

lemma words_tools: "sh_words (print_script (mise_toml ts) ''/agent/workspace/mise.toml'') = Some (tools_words ts)"
  unfolding tools_words_def by (rule words_print) (simp add: sh_eval)

lemma words_trust: "sh_words (trust_script x) = Some (trust_words x)"
proof -
  have q: "sh_words ''mkdir -p /agent/pi-home &&'' =
      Some (map Word [''mkdir'', ''-p'', ''/agent/pi-home''] @ [Special CHR ''&'', Special CHR ''&''])"
    by (simp add: sh_eval)
  have "sh_words (print_script x ''/agent/pi-home/trust.json'') = Some (print_words x ''/agent/pi-home/trust.json'')"
    by (rule words_print) (simp add: sh_eval)
  from sh_words_prefix [OF q _ this] show ?thesis by (simp add: trust_script_def trust_words_def)
qed

lemmas script_words = words_shallow_clone words_full_clone words_checkout words_clone_extension
  words_npm_install words_chmod words_pi_install words_apk words_tools words_trust

section \<open>What the steps send\<close>

lemma expected_script:
  "script \<in> set fixed_scripts \<or> script \<in> set own \<or> (\<exists>ts \<in> set ws. sh_words script = Some ts) \<Longrightarrow>
     expected ws own d (d, sh_cmd script env)"
  by (auto simp: expected_def)

lemma expected_boot: "expected ws own d (d, JObj [(''cmd'', JStr ''boot''), (''options'', opts)])"
  by (simp add: expected_def)

lemma sends_clone:
  assumes "set (clone_words u r t) \<subseteq> set ws"
  shows "sends_only (expected ws own d) (clone_repo P d what u r t)"
  unfolding clone_repo_def using assms
  by (intro sending expected_script) (auto simp: clone_words_def script_words)

lemma sends_fixed:
  "script \<in> set fixed_scripts \<Longrightarrow> sends_only (expected ws own d) (sh P d script env)"
  by (intro sending expected_script) simp

lemma sends_words:
  "sh_words script = Some ts \<Longrightarrow> ts \<in> set ws \<Longrightarrow> sends_only (expected ws own d) (sh P d script env)"
  by (intro sending expected_script) auto

lemma sends_git_ssh: "sends_only (expected ws own d) (configure_git_ssh P d b)"
  by (simp add: configure_git_ssh_def sending sends_fixed fixed_scripts_def)

lemma sends_npm_toolchain: "sends_only (expected ws own d) (ensure_npm_toolchain P d paths)"
  by (auto simp: ensure_npm_toolchain_def fixed_scripts_def intro!: sends_only_bind sending sends_fixed)

lemma sends_shim:
  "shim_words p \<in> set ws \<Longrightarrow> sends_only (expected ws own d) (write_npm_shim P d paths p)"
  by (auto simp: write_npm_shim_def intro!: sends_only_then sending sends_words [OF words_chmod]
      split: option.split)

lemma sends_tools:
  "tools_words ts \<in> set ws \<Longrightarrow> sends_only (expected ws own d) (install_tools P d ts)"
  unfolding install_tools_def
  by (intro sends_only_then sends_only_context sends_words [OF words_tools] sends_fixed)
    (simp_all add: fixed_scripts_def)

lemma sends_append: "sends_only Q (write_append_system paths a)"
  by (cases a) (simp_all add: write_append_system_def sending)

lemma sends_install:
  assumes "set (install_words e) \<subseteq> set ws"
  shows "sends_only (expected ws own d) (run_install P d paths e)"
  using assms
  by (cases e)
    (auto simp: run_install_def install_words_def Let_def
      intro!: sends_only_then sends_only_context sends_npm_toolchain sends_shim
        sends_words [OF words_npm_install] sends_clone sends_tools)

lemma sends_extension:
  "extension_words x \<in> set ws \<Longrightarrow> sends_only (expected ws own d) (install_extension P d x)"
  by (auto simp: install_extension_def extension_words_def Let_def split: option.splits
      intro!: sends_only_context sends_words [OF words_pi_install] sends_words [OF words_clone_extension])

lemma sends_run:
  "re_script e \<in> set own \<Longrightarrow> sends_only (expected ws own d) (run_script P d e)"
  by (auto simp: run_script_def intro!: sending expected_script)

lemma sends_pi_steps:
  assumes "m_provision m = None"
  shows "sends_only (expected (command_words P m) own d) (pi_steps P d m paths b)"
proof -
  let ?ws = "command_words P m"
  have ws: "npm_words ''/agent/toolchain/global''
      (''@earendil-works/pi-coding-agent@'' @ h_version (m_harness m)) \<in> set ?ws"
    "shim_words ''/agent/toolchain/global'' \<in> set ?ws" "tools_words (m_tools m) \<in> set ?ws"
    "\<And>r. r \<in> set (m_repos m) \<Longrightarrow> set (clone_words (rp_url r) (rp_ref r)
      (''/agent/workspace/'' @ repo_name (rp_url r))) \<subseteq> set ?ws"
    "\<And>x. x \<in> set (m_extensions m) \<Longrightarrow> extension_words x \<in> set ?ws"
    using assms by (auto simp: command_words_def)
  have pi: "sends_only (expected ?ws own d) (install_pi P d m paths)"
    unfolding install_pi_def Let_def
    by (intro sends_only_bind sends_only_get sends_only_when sends_only_then sends_only_context
        sends_only_write sends_words [OF words_npm_install] ws)
  have fixed: "base_packages_script \<in> set fixed_scripts" "safe_directory_script \<in> set fixed_scripts"
    "fixed_trust_script \<in> set fixed_scripts"
    by (simp_all add: fixed_scripts_def)
  show ?thesis
    unfolding pi_steps_def clone_manifest_repo_def
    by (intro sends_only_then sends_only_context sends_only_when sends_only_each sends_fixed fixed
        sends_git_ssh sends_npm_toolchain pi sends_shim sends_clone sends_extension sends_tools
        sends_append ws)
qed

lemma sends_declarative_steps:
  assumes "m_provision m = Some spec"
  shows "sends_only (expected (command_words P m) (own_scripts m) d) (declarative_steps P d paths spec b)"
proof -
  let ?ws = "command_words P m"
  have ws: "map Word ([''apk'', ''add'', ''--no-cache''] @ ps_packages spec) \<in> set ?ws"
    "trust_words (pl_json P (trust_object spec)) \<in> set ?ws"
    "\<And>e. e \<in> set (ps_install spec) \<Longrightarrow> set (install_words e) \<subseteq> set ?ws"
    "\<And>e. e \<in> set (ps_run spec) \<Longrightarrow> re_script e \<in> set (own_scripts m)"
    using assms by (auto simp: command_words_def own_scripts_def)
  have fixed: "safe_directory_script \<in> set fixed_scripts" by (simp add: fixed_scripts_def)
  show ?thesis
    unfolding declarative_steps_def
    by (intro sends_only_then sends_only_context sends_only_when sends_only_each sends_fixed fixed
        sends_git_ssh sends_install sends_run sends_append ws
        sends_words [OF words_apk] sends_words [OF words_trust])
qed

lemma sends_provision:
  "sends_only (expected (command_words P m) (own_scripts m) d) (provision_agent P d m name paths b)"
proof (cases "m_provision m")
  case None
  then show ?thesis
    by (auto simp: provision_agent_def provision_pi_def
        intro!: sends_only_then sends_only_bind sends_only_write sends_only_boot sends_only_ok
          sends_pi_steps expected_boot)
next
  case (Some spec)
  then show ?thesis
    by (auto simp: provision_agent_def provision_declarative_def
        intro!: sends_only_then sends_only_bind sends_only_write sends_only_boot sends_only_ok
          sends_declarative_steps expected_boot)
qed

text \<open>C18
  Provisioning keeps manifest data out of the shell's syntax: for any manifest, any driver
  and any outcome (failures and the provisioning timeout included), every command sent to the VM
  is the boot, one of the fixed scripts, one of the manifest's own run scripts, or a line that a
  POSIX shell splits into exactly the intended command's words, with every url, reference,
  version, package, path and file content as one word.\<close>

theorem provisioning_is_injection_free:
  assumes "provision_agent P d m name paths b s = (r, s')"
  shows "\<exists>calls. vm_sent s' = vm_sent s @ calls \<and>
    list_all (expected (command_words P m) (own_scripts m) d) calls"
  using sends_onlyE [OF sends_provision assms] by blast

text \<open>A driver that answers every request at once.\<close>

definition ok_platform :: "unit platform" where
  "ok_platform =
     \<lparr>pl_spawn = (\<lambda>g. (Some 0, g)),
      pl_request = (\<lambda>d cmd secs tw. (Reply (JObj [(''ok'', JBool True),
        (''result'', JObj [(''exitCode'', JNum ''0'')])]), tw)),
      pl_command = (\<lambda>d cmd tw. (Dropped, tw)),
      pl_mono = (\<lambda>g. 0), pl_wall = (\<lambda>g. 0), pl_sleep = (\<lambda>n g. g), pl_toml = (\<lambda>m. []), pl_json = (\<lambda>j. [])\<rparr>"

definition demo_vm :: "unit vm" where
  "demo_vm = \<lparr>vm_tree = [], vm_world = (), vm_sent = []\<rparr>"

theorem provisioning_is_injection_free_witness:
  "\<exists>r s' calls.
     provision_agent ok_platform 0 (minimal_manifest ''a'' ''p'' ''m'') ''a''
       (paths_for_agent [] ''i'') empty_bundle demo_vm = (r, s') \<and>
     vm_sent s' = calls \<and>
     list_all (expected (command_words ok_platform (minimal_manifest ''a'' ''p'' ''m'')) [] 0) calls"
proof -
  obtain r s' where run: "provision_agent ok_platform 0 (minimal_manifest ''a'' ''p'' ''m'') ''a''
       (paths_for_agent [] ''i'') empty_bundle demo_vm = (r, s')"
    by fastforce
  from provisioning_is_injection_free [OF run] show ?thesis
    using run by (auto simp: demo_vm_def own_scripts_def minimal_manifest_def)
qed

end
