(* ===== verification/Supervisor.thy ===== *)
theory Supervisor
  imports Provisioners
begin

text \<open>
  The agent host's supervisor (crates/castellan/src/supervisor.rs): the running agents, their
  provisioning and start, the event monitor with crash respawn and crash-loop detection, suspend,
  stop and destroy. The host's state is one record; every operation runs to its end on it, and an
  error leaves the changes made so far, as in the code. Parameters: the platform (VMs, clocks)
  and \<open>host_env\<close> (JSON codec of the journal, RFC 3339 texts, the uuid parser, error texts).
  A pi process is identified with the driver it runs in.
\<close>

section \<open>State\<close>

record running_agent =
  ra_record :: agent_record
  ra_driver :: nat
  ra_placeholders :: labels
  ra_last :: nat
  ra_last_wall :: int
  ra_busy :: bool
  ra_stopping :: bool
  ra_monitored :: bool
  ra_restarts :: "nat list"

record 'g host =
  ho_agents :: agents_dir
  ho_running :: "(uuid \<times> running_agent) list"
  ho_in_flight :: "uuid list"
  ho_journals :: "(uuid \<times> journal) list"
  ho_reports :: "agent_state_entry list"
  ho_secrets :: host_secrets
  ho_driver_cell :: "nat option"
  ho_world :: 'g
  ho_sent :: "(nat \<times> json) list"

record host_env =
  he_render :: "log_event \<Rightarrow> string"
  he_parse :: "string \<Rightarrow> log_event option"
  he_uuid :: "string \<Rightarrow> uuid option"
  he_rfc3339 :: "int \<Rightarrow> timestamp"
  he_parse_time :: "timestamp \<Rightarrow> int option"
  he_show :: "host_error \<Rightarrow> string"
  he_home :: path

definition max_restarts :: nat where "max_restarts = 5"
definition restart_window :: nat where "restart_window = 600 * 10 ^ 9"
definition initial_backoff :: nat where "initial_backoff = 2"
definition max_backoff :: nat where "max_backoff = 60"
definition provision_timeout :: nat where "provision_timeout = 15 * 60"

section \<open>Small actions\<close>

text \<open>\<open>.ok()\<close> and \<open>if let Ok\<close>.\<close>

definition act_ignore :: "('a, 's) st \<Rightarrow> (unit, 's) st" where
  "act_ignore m s = (Inr (), snd (m s))"

definition act_optional :: "('a, 's) st \<Rightarrow> ('a option, 's) st" where
  "act_optional m s =
     (case m s of
        (Inl e, s') \<Rightarrow> if e = CutOffError then (Inl e, s') else (Inr None, s')
      | (Inr a, s') \<Rightarrow> (Inr (Some a), s'))"

definition act_get :: "('s \<Rightarrow> 'a) \<Rightarrow> ('a, 's) st" where
  "act_get f s = (Inr (f s), s)"

definition act_put :: "('s \<Rightarrow> 's) \<Rightarrow> (unit, 's) st" where
  "act_put f s = (Inr (), f s)"

definition act_result :: "(host_error + 'a) \<Rightarrow> ('a, 's) st" where
  "act_result r s = (r, s)"

definition lift_registry :: "registry_error + 'a \<Rightarrow> host_error + 'a" where
  "lift_registry r = (case r of Inl e \<Rightarrow> Inl (Registry e) | Inr a \<Rightarrow> Inr a)"

text \<open>An action on an agent's VM: it works on that agent's files.\<close>

definition on_vm :: "uuid \<Rightarrow> ('a, 'g) act \<Rightarrow> ('a, 'g host) st" where
  "on_vm i m h =
     (let t = (case map_of (ho_agents h) i of None \<Rightarrow> [] | Some d \<Rightarrow> ad_tree d)
      in case m \<lparr>vm_tree = t, vm_world = ho_world h, vm_sent = ho_sent h\<rparr> of
           (r, s) \<Rightarrow> (r, h\<lparr>ho_agents := update_agent_dir i (ad_tree_update (\<lambda>_. vm_tree s)) (ho_agents h),
                           ho_world := vm_world s, ho_sent := vm_sent s\<rparr>))"

definition agent_tree :: "uuid \<Rightarrow> 'g host \<Rightarrow> tree" where
  "agent_tree i h = (case map_of (ho_agents h) i of None \<Rightarrow> [] | Some d \<Rightarrow> ad_tree d)"

definition save_state :: "agent_record \<Rightarrow> (unit, 'g host) st" where
  "save_state r h =
     (case save_record r (ho_agents h) of
        Inl e \<Rightarrow> (Inl (Registry e), h)
      | Inr ds \<Rightarrow> (Inr (), h\<lparr>ho_agents := ds\<rparr>))"

definition load_state :: "uuid \<Rightarrow> (agent_record, 'g host) st" where
  "load_state i h = (lift_registry (load_record i (ho_agents h)), h)"

definition find_state :: "host_env \<Rightarrow> string \<Rightarrow> (agent_record, 'g host) st" where
  "find_state E q h = (lift_registry (find_record (he_uuid E) q (ho_agents h)), h)"

definition report_state :: "agent_record \<Rightarrow> 'g host \<Rightarrow> 'g host" where
  "report_state r h = h\<lparr>ho_reports := ho_reports h @
     [\<lparr>as_agent_id = rec_id r, as_name = rec_name r, as_state = rec_state r, as_idle_secs = None,
       as_busy = None, as_session_file = rec_session_file r\<rparr>]\<rparr>"

definition running_of :: "uuid \<Rightarrow> 'g host \<Rightarrow> running_agent option" where
  "running_of i h = map_of (ho_running h) i"

definition lifecycle_busy :: "uuid \<Rightarrow> 'g host \<Rightarrow> bool" where
  "lifecycle_busy i h \<longleftrightarrow> running_of i h \<noteq> None \<or> i \<in> set (ho_in_flight h)"

definition update_running :: "uuid \<Rightarrow> (running_agent \<Rightarrow> running_agent) \<Rightarrow> 'g host \<Rightarrow> 'g host" where
  "update_running i f h =
     h\<lparr>ho_running := map (\<lambda>(j, a). if j = i then (j, f a) else (j, a)) (ho_running h)\<rparr>"

definition remove_running :: "uuid \<Rightarrow> 'g host \<Rightarrow> 'g host" where
  "remove_running i h = h\<lparr>ho_running := bt_remove i (ho_running h)\<rparr>"

section \<open>The activity clock\<close>

definition note_activity :: "'g platform \<Rightarrow> uuid \<Rightarrow> 'g host \<Rightarrow> 'g host" where
  "note_activity P i h =
     update_running i (\<lambda>a. a\<lparr>ra_last := pl_mono P (ho_world h), ra_last_wall := pl_wall P (ho_world h)\<rparr>) h"

definition set_busy :: "'g platform \<Rightarrow> uuid \<Rightarrow> bool \<Rightarrow> 'g host \<Rightarrow> 'g host" where
  "set_busy P i b h =
     (let h1 = update_running i (ra_busy_update (\<lambda>_. b)) h in if b then note_activity P i h1 else h1)"

definition idle_secs :: "'g platform \<Rightarrow> running_agent \<Rightarrow> 'g host \<Rightarrow> u64" where
  "idle_secs P a h = of_nat ((pl_mono P (ho_world h) - ra_last a) div 10 ^ 9)"

definition touch_agent :: "'g platform \<Rightarrow> uuid \<Rightarrow> 'g host \<Rightarrow> 'g host" where
  "touch_agent P i h = (case running_of i h of None \<Rightarrow> h | Some _ \<Rightarrow> note_activity P i h)"

definition agent_activity :: "'g platform \<Rightarrow> uuid \<Rightarrow> 'g host \<Rightarrow> (u64 \<times> bool) option" where
  "agent_activity P i h = map_option (\<lambda>a. (idle_secs P a h, ra_busy a)) (running_of i h)"

text \<open>One round of the flusher.\<close>

definition flush_one :: "host_env \<Rightarrow> uuid \<Rightarrow> 'g host \<Rightarrow> 'g host" where
  "flush_one E i h =
     (case running_of i h of
        None \<Rightarrow> h
      | Some a \<Rightarrow>
          (case load_record i (ho_agents h) of
             Inl _ \<Rightarrow> h
           | Inr r \<Rightarrow> snd (save_state (r\<lparr>rec_last_activity_at := Some (he_rfc3339 E (ra_last_wall a))\<rparr>) h)))"

definition flush_activity :: "host_env \<Rightarrow> 'g host \<Rightarrow> 'g host" where
  "flush_activity E h = fold (flush_one E) (map fst (ho_running h)) h"

section \<open>The journal of the running lifecycle\<close>

definition journal_event ::
    "'g platform \<Rightarrow> host_env \<Rightarrow> uuid \<Rightarrow> string \<Rightarrow> json \<Rightarrow> 'g host \<Rightarrow> 'g host" where
  "journal_event P E i kind payload h =
     (case (map_of (ho_journals h) i, map_of (ho_agents h) i) of
        (Some j, Some d) \<Rightarrow>
          (case append_journal (he_render E) (hs_redact (ho_secrets h))
                  (he_rfc3339 E (pl_wall P (ho_world h))) kind payload j (ad_log d) of
             (_, j', f') \<Rightarrow>
               h\<lparr>ho_journals := put i j' (ho_journals h),
                 ho_agents := update_agent_dir i (ad_log_update (\<lambda>_. f')) (ho_agents h)\<rparr>)
      | _ \<Rightarrow> h)"

definition start_journal :: "host_env \<Rightarrow> uuid \<Rightarrow> (unit, 'g host) st" where
  "start_journal E i h =
     (case map_of (ho_agents h) i of
        None \<Rightarrow> (Inl (Registry (NoAgentDir i)), h)
      | Some d \<Rightarrow>
          (case open_journal (he_parse E) i (ad_log d) of
             (j, f) \<Rightarrow>
               (Inr (), h\<lparr>ho_journals := put i j (ho_journals h),
                          ho_agents := update_agent_dir i (ad_log_update (\<lambda>_. f)) (ho_agents h)\<rparr>)))"

section \<open>Talking to pi\<close>

definition pi_call :: "'g platform \<Rightarrow> nat \<Rightarrow> json \<Rightarrow> (json, 'g) act" where
  "pi_call P d cmd s =
     (case pl_command P d cmd (vm_tree s, vm_world s) of
        (out, t, w) \<Rightarrow>
          ((case out of
              Reply r \<Rightarrow> (case command_result cmd (Some r) of Inl e \<Rightarrow> Inl (PiError e) | Inr j \<Rightarrow> Inr j)
            | Dropped \<Rightarrow> Inl (PiError PiDropped)
            | TimedOut \<Rightarrow> Inl (PiError PiTimedOut)
            | CutOff \<Rightarrow> Inl CutOffError),
           s\<lparr>vm_tree := t, vm_world := w\<rparr>))"

definition pi_session :: "'g platform \<Rightarrow> nat \<Rightarrow> (string option, 'g) act" where
  "pi_session P d =
     act_bind (act_optional (pi_call P d (simple_command ''get_state'')))
       (\<lambda>resp. act_ok (case resp of None \<Rightarrow> None
          | Some r \<Rightarrow> as_str (json_get ''sessionFile'' (json_get ''data'' r))))"

definition prompt_running :: "'g platform \<Rightarrow> uuid \<Rightarrow> running_agent \<Rightarrow> string \<Rightarrow> (unit, 'g host) st" where
  "prompt_running P i a message =
     act_then (act_put (note_activity P i))
       (act_bind (on_vm i (pi_call P (ra_driver a) (message_command ''prompt'' message))) (\<lambda>_. act_ok ()))"

definition abort_running :: "'g platform \<Rightarrow> uuid \<Rightarrow> running_agent \<Rightarrow> (unit, 'g host) st" where
  "abort_running P i a =
     act_then (act_put (note_activity P i))
       (act_bind (on_vm i (pi_call P (ra_driver a) (simple_command ''abort''))) (\<lambda>_. act_ok ()))"

section \<open>Provision and start\<close>

definition spawn_driver :: "'g platform \<Rightarrow> (nat, 'g host) st" where
  "spawn_driver P h =
     (case pl_spawn P (ho_world h) of
        (None, w) \<Rightarrow> (Inl SpawnFailed, h\<lparr>ho_world := w\<rparr>)
      | (Some d, w) \<Rightarrow> (Inr d, h\<lparr>ho_world := w\<rparr>))"

definition boot_vm ::
    "'g platform \<Rightarrow> nat \<Rightarrow> agent_paths \<Rightarrow> string \<Rightarrow> string option \<Rightarrow> secret_bundle \<Rightarrow> agent_manifest \<Rightarrow>
      (labels, 'g) act" where
  "boot_vm P d paths name checkpoint b m =
     boot P d [(''/agent'', path_text (pa_guest paths))] [] (''castellan-'' @ name) checkpoint b
       (egress_hosts m b) (git_hosts m) (m_resources m)"

definition usable_checkpoint :: "agent_record \<Rightarrow> tree \<Rightarrow> string option" where
  "usable_checkpoint r t =
     (case rec_checkpoint r of
        Some p \<Rightarrow> if map_of t (components p) \<noteq> None then Some p else None
      | None \<Rightarrow> None)"

definition prepare_vm ::
    "'g platform \<Rightarrow> host_env \<Rightarrow> agent_record \<Rightarrow> nat \<Rightarrow> secret_bundle \<Rightarrow> (labels, 'g host) st" where
  "prepare_vm P E r d b =
     (let i = rec_id r; paths = paths_for_agent (he_home E) i; m = rec_manifest r;
          marker = path_join (pa_root paths) ''.provisioned''
      in act_bind (act_get (agent_tree i)) (\<lambda>t.
           (case usable_checkpoint r t of
              Some c \<Rightarrow>
                on_vm i (act_bind (boot_vm P d paths (rec_name r) (Some c) b m)
                  (\<lambda>p. act_then (configure_git_ssh P d b) (act_ok p)))
            | None \<Rightarrow>
                if map_of t marker = None then
                  act_bind (on_vm i (provision_agent P d m (rec_name r) paths b)) (\<lambda>p.
                  act_bind (act_get (\<lambda>h. he_rfc3339 E (pl_wall P (ho_world h)))) (\<lambda>stamp.
                  act_then (on_vm i (write_file marker stamp)) (act_ok p)))
                else
                  on_vm i (act_bind (boot_vm P d paths (rec_name r) None b m)
                    (\<lambda>p. act_then (configure_git_ssh P d b) (act_ok p))))))"

definition launch_pi :: "'g platform \<Rightarrow> agent_record \<Rightarrow> nat \<Rightarrow> labels \<Rightarrow> (unit, 'g host) st" where
  "launch_pi P r d placeholders =
     (let m = rec_manifest r
      in on_vm (rec_id r) (spawn_agent P d
           (pi_argv (ms_provider (m_model m)) (ms_id (m_model m)) (rec_session_file r))
           ''/agent/workspace'' (pi_spawn_env m (rec_name r) placeholders)))"

definition session_payload :: "string \<Rightarrow> json" where
  "session_payload f = JObj [(''session_file'', JStr f)]"

definition journal_session ::
    "'g platform \<Rightarrow> host_env \<Rightarrow> agent_record \<Rightarrow> string \<Rightarrow> 'g host \<Rightarrow> 'g host" where
  "journal_session P E r f h =
     (if rec_session_file r \<noteq> Some f
      then journal_event P E (rec_id r) ''session_started'' (session_payload f) h else h)"

definition new_running :: "'g platform \<Rightarrow> agent_record \<Rightarrow> nat \<Rightarrow> labels \<Rightarrow> 'g host \<Rightarrow> 'g host" where
  "new_running P r d placeholders h =
     h\<lparr>ho_running := put (rec_id r)
        \<lparr>ra_record = r, ra_driver = d, ra_placeholders = placeholders,
         ra_last = pl_mono P (ho_world h), ra_last_wall = pl_wall P (ho_world h),
         ra_busy = False, ra_stopping = False, ra_monitored = False, ra_restarts = []\<rparr> (ho_running h)\<rparr>"

definition provision_and_start_inner ::
    "'g platform \<Rightarrow> host_env \<Rightarrow> agent_record \<Rightarrow> (unit, 'g host) st" where
  "provision_and_start_inner P E r =
     (let i = rec_id r
      in act_then (act_put (journal_event P E i ''state'' (JObj [(''state'', JStr ''provisioning'')])))
        (act_bind (spawn_driver P) (\<lambda>d.
         act_then (act_put (\<lambda>h. h\<lparr>ho_driver_cell := Some d\<rparr>))
        (act_bind (act_get (\<lambda>h. get_bundle i (ho_secrets h))) (\<lambda>bundle.
         case bundle of None \<Rightarrow> act_fail (NoSecretBundle (rec_name r)) | Some b \<Rightarrow>
         act_bind (prepare_vm P E r d b) (\<lambda>placeholders.
         act_then (act_put (journal_event P E i ''provisioned'' (JObj [])))
        (act_then (launch_pi P r d placeholders)
        (act_then (act_put (journal_event P E i ''spawned'' (JObj [])))
        (act_then (act_put (new_running P r d placeholders))
        (act_bind (on_vm i (pi_session P d)) (\<lambda>session.
         act_then
           (case session of
              None \<Rightarrow> act_ok ()
            | Some f \<Rightarrow>
                act_then (act_put (journal_session P E r f))
                  (let r' = r\<lparr>rec_session_file := Some f, rec_state := Active\<rparr>
                   in act_then (save_state r') (act_put (report_state r'))))
           (act_put (update_running i (ra_monitored_update (\<lambda>_. True)))))))))))))))"

definition close_cell :: "'g platform \<Rightarrow> uuid \<Rightarrow> 'g host \<Rightarrow> 'g host" where
  "close_cell P i h =
     (case ho_driver_cell h of None \<Rightarrow> h | Some d \<Rightarrow> snd (on_vm i (close_vm P d) h))"

definition reason_payload :: "string \<Rightarrow> json" where
  "reason_payload t = JObj [(''reason'', JStr t)]"

definition provisioning_failed ::
    "'g platform \<Rightarrow> host_env \<Rightarrow> agent_record \<Rightarrow> host_error \<Rightarrow> 'g host \<Rightarrow> 'g host" where
  "provisioning_failed P E r e h =
     (let r' = r\<lparr>rec_state := Failed\<rparr>;
          h1 = journal_event P E (rec_id r) ''failed'' (reason_payload (he_show E e)) h
      in report_state r' (snd (save_state r' h1)))"

definition provision_and_start :: "'g platform \<Rightarrow> host_env \<Rightarrow> agent_record \<Rightarrow> (unit, 'g host) st" where
  "provision_and_start P E r h =
     (let i = rec_id r;
          h1 = h\<lparr>ho_in_flight := List.insert i (ho_in_flight h), ho_driver_cell := None\<rparr>
      in case start_journal E i h1 of
           (Inl e, h2) \<Rightarrow> (Inl e, h2)
         | (Inr _, h2) \<Rightarrow>
             (case provision_and_start_inner P E r h2 of
                (res, h3) \<Rightarrow>
                  (let (res', h4) = (if res = Inl CutOffError
                         then (Inl (ProvisionTimedOut provision_timeout), close_cell P i h3) else (res, h3));
                       h5 = h4\<lparr>ho_in_flight := removeAll i (ho_in_flight h4)\<rparr>
                   in case res' of
                        Inr _ \<Rightarrow> (Inr (), h5)
                      | Inl e \<Rightarrow>
                          (Inl (Context ''provisioning failed'' e), provisioning_failed P E r e h5))))"

section \<open>Create, start and restore\<close>

definition fresh_record ::
    "uuid \<Rightarrow> agent_manifest \<Rightarrow> agent_state \<Rightarrow> timestamp \<Rightarrow> string option \<Rightarrow> agent_record" where
  "fresh_record i m st now session_file =
     \<lparr>rec_id = i, rec_name = m_name m, rec_manifest = m, rec_state = st, rec_created_at = now,
      rec_session_file = session_file, rec_checkpoint = None, rec_last_activity_at = None\<rparr>"

definition host_create_agent ::
    "'g platform \<Rightarrow> host_env \<Rightarrow> uuid \<Rightarrow> agent_manifest \<Rightarrow> (agent_record, 'g host) st" where
  "host_create_agent P E i m h =
     (case validate_manifest m of
        Inl e \<Rightarrow> (Inl (BadManifest e), h)
      | Inr _ \<Rightarrow>
          if is_ok (find_record_by_name (m_name m) (ho_agents h)) then (Inl (NameTaken (m_name m)), h)
          else
            (let r = fresh_record i m Provisioning (he_rfc3339 E (pl_wall P (ho_world h))) None;
                 h1 = h\<lparr>ho_agents := create_agent_dir i (ho_agents h)\<rparr>
             in case save_state r h1 of
                  (Inl e, h2) \<Rightarrow> (Inl e, h2)
                | (Inr _, h2) \<Rightarrow>
                    (case provision_and_start P E r h2 of
                       (Inr _, h3) \<Rightarrow>
                         (let r' = (case load_record i (ho_agents h3) of
                                Inr k \<Rightarrow> r\<lparr>rec_state := Active, rec_session_file := rec_session_file k\<rparr>
                              | Inl _ \<Rightarrow> r\<lparr>rec_state := Active\<rparr>)
                          in case save_state r' h3 of
                               (Inl e, h4) \<Rightarrow> (Inl e, h4)
                             | (Inr _, h4) \<Rightarrow> (Inr r', report_state r' h4))
                     | (Inl e, h3) \<Rightarrow>
                         (let r' = r\<lparr>rec_state := Failed\<rparr>
                          in (Inl (Context ''provisioning failed'' e), report_state r' (snd (save_state r' h3)))))))"

definition tear_down :: "'g platform \<Rightarrow> host_env \<Rightarrow> uuid \<Rightarrow> running_agent \<Rightarrow> 'g host \<Rightarrow> 'g host" where
  "tear_down P E i a h =
     (let h1 = update_running i (ra_stopping_update (\<lambda>_. True)) h;
          h2 = snd (abort_running P i a h1);
          h3 = journal_event P E i ''force_restart'' (JObj []) h2;
          h4 = snd (on_vm i (close_vm P (ra_driver a)) h3)
      in remove_running i h4)"

definition loaded_or :: "agent_record \<Rightarrow> 'g host \<Rightarrow> agent_record" where
  "loaded_or r h = (case load_record (rec_id r) (ho_agents h) of Inr r' \<Rightarrow> r' | Inl _ \<Rightarrow> r)"

definition host_start_agent ::
    "'g platform \<Rightarrow> host_env \<Rightarrow> string \<Rightarrow> bool \<Rightarrow> (agent_record, 'g host) st" where
  "host_start_agent P E q force =
     act_bind (find_state E q) (\<lambda>r.
     act_bind (act_get (running_of (rec_id r))) (\<lambda>running.
     act_then
       (case running of
          None \<Rightarrow> act_ok ()
        | Some a \<Rightarrow>
            if \<not> force then act_fail (AlreadyRunning (rec_name r))
            else act_put (tear_down P E (rec_id r) a))
      (act_then (provision_and_start P E r) (act_get (loaded_or r)))))"

definition host_restore_agent ::
    "'g platform \<Rightarrow> host_env \<Rightarrow> uuid \<Rightarrow> agent_manifest \<Rightarrow> string option \<Rightarrow> (agent_record, 'g host) st" where
  "host_restore_agent P E i m session_file =
     act_bind (act_get (\<lambda>h. fresh_record i m Restoring (he_rfc3339 E (pl_wall P (ho_world h))) session_file))
       (\<lambda>r. act_then (save_state r) (act_then (provision_and_start P E r) (act_get (loaded_or r))))"

section \<open>Stop, suspend and destroy\<close>

definition with_running :: "host_env \<Rightarrow> string \<Rightarrow> (agent_record \<Rightarrow> running_agent \<Rightarrow> ('a, 'g host) st) \<Rightarrow> ('a, 'g host) st" where
  "with_running E q f =
     act_bind (find_state E q) (\<lambda>r.
     act_bind (act_get (running_of (rec_id r))) (\<lambda>running.
     case running of None \<Rightarrow> act_fail (NotRunning (rec_name r)) | Some a \<Rightarrow> f r a))"

definition check_suspendable :: "host_env \<Rightarrow> string \<Rightarrow> timestamp option \<Rightarrow> (unit, 'g host) st" where
  "check_suspendable E q not_since =
     act_bind (find_state E q) (\<lambda>r.
     act_bind (act_get (running_of (rec_id r))) (\<lambda>running.
     case running of
       None \<Rightarrow> act_ok ()
     | Some a \<Rightarrow>
         if ra_busy a then act_fail (TurnInFlight (rec_name r))
         else (case not_since of
                 None \<Rightarrow> act_ok ()
               | Some ns \<Rightarrow>
                   (case he_parse_time E ns of
                      None \<Rightarrow> act_ok ()
                    | Some t \<Rightarrow> if ra_last_wall a > t then act_fail (ActivitySince (rec_name r) ns) else act_ok ()))))"

definition prepare_suspend :: "'g platform \<Rightarrow> host_env \<Rightarrow> string \<Rightarrow> (unit, 'g host) st" where
  "prepare_suspend P E q =
     with_running E q (\<lambda>r a.
       act_then (act_put (update_running (rec_id r) (ra_stopping_update (\<lambda>_. True))))
      (act_then (act_put (journal_event P E (rec_id r) ''stopping'' (JObj [])))
      (act_then (act_ignore (abort_running P (rec_id r) a))
        (act_put (\<lambda>h. h\<lparr>ho_world := pl_sleep P 1 (ho_world h)\<rparr>)))))"

definition is_session_file :: "agent_paths \<Rightarrow> path \<Rightarrow> bool" where
  "is_session_file paths p \<longleftrightarrow> length p = Suc (length (pa_sessions paths)) \<and> prefix (pa_sessions paths) p"

definition rotate_sessions :: "host_env \<Rightarrow> uuid \<Rightarrow> 'g host \<Rightarrow> 'g host" where
  "rotate_sessions E i h =
     (let paths = paths_for_agent (he_home E) i
      in h\<lparr>ho_agents := update_agent_dir i
             (ad_tree_update (filter (\<lambda>(p, _). \<not> is_session_file paths p))) (ho_agents h)\<rparr>)"

definition rotate :: "'g platform \<Rightarrow> host_env \<Rightarrow> agent_record \<Rightarrow> (agent_record, 'g host) st" where
  "rotate P E r =
     (let r' = r\<lparr>rec_session_file := None\<rparr>
      in act_then (act_put (rotate_sessions E (rec_id r)))
        (act_then (save_state r')
        (act_then (act_put (journal_event P E (rec_id r) ''session_rotated'' (JObj [])))
          (act_ok r'))))"

definition finish_suspend :: "'g platform \<Rightarrow> host_env \<Rightarrow> string \<Rightarrow> bool \<Rightarrow> bool \<Rightarrow> (unit, 'g host) st" where
  "finish_suspend P E q checkpoint rotate_session =
     with_running E q (\<lambda>r0 a.
       (let i = rec_id r0; paths = paths_for_agent (he_home E) i
        in act_bind (if rotate_session then rotate P E r0 else act_ok r0) (\<lambda>r.
           act_bind (if checkpoint
               then act_optional (on_vm i (checkpoint_vm P (ra_driver a) (path_text (checkpoint_path paths))))
               else act_ok None) (\<lambda>cp.
           act_then (on_vm i (close_vm P (ra_driver a)))
          (act_then (act_put (journal_event P E i (if checkpoint then ''suspended'' else ''stopped'') (JObj [])))
          (act_then (act_put (remove_running i))
            (let r' = r\<lparr>rec_state := Suspended, rec_last_activity_at := Some (he_rfc3339 E (ra_last_wall a)),
                        rec_checkpoint := (case cp of Some p \<Rightarrow> Some p | None \<Rightarrow> rec_checkpoint r)\<rparr>
             in act_then (save_state r') (act_put (report_state r')))))))))"

definition host_stop_agent :: "'g platform \<Rightarrow> host_env \<Rightarrow> string \<Rightarrow> (unit, 'g host) st" where
  "host_stop_agent P E q = act_then (prepare_suspend P E q) (finish_suspend P E q False False)"

definition host_destroy_agent :: "'g platform \<Rightarrow> host_env \<Rightarrow> string \<Rightarrow> (unit, 'g host) st" where
  "host_destroy_agent P E q h =
     (case find_record (he_uuid E) q (ho_agents h) of
        Inl _ \<Rightarrow> (Inr (), h)
      | Inr r \<Rightarrow>
          (case (if running_of (rec_id r) h \<noteq> None then host_stop_agent P E (rec_name r) h else (Inr (), h)) of
             (Inl e, h1) \<Rightarrow> (Inl e, h1)
           | (Inr _, h1) \<Rightarrow>
               (let h2 = h1\<lparr>ho_agents := remove_agent_dir (rec_id r) (ho_agents h1),
                            ho_secrets := remove_bundle (rec_id r) (ho_secrets h1)\<rparr>
                in (Inr (), report_state (r\<lparr>rec_state := Decommissioned\<rparr>) h2))))"

definition host_prompt_agent :: "'g platform \<Rightarrow> host_env \<Rightarrow> string \<Rightarrow> string \<Rightarrow> (unit, 'g host) st" where
  "host_prompt_agent P E q message = with_running E q (\<lambda>r a. prompt_running P (rec_id r) a message)"

section \<open>Crashes\<close>

text \<open>
  The restart budget: restarts older than the window leave the queue, and another one is allowed
  while fewer than \<open>max_restarts\<close> are left.
\<close>

definition recent_restarts :: "nat \<Rightarrow> nat list \<Rightarrow> nat list" where
  "recent_restarts now ts = dropWhile (\<lambda>t. now - t > restart_window) ts"

definition admit_restart :: "nat \<Rightarrow> nat list \<Rightarrow> nat list option" where
  "admit_restart now ts =
     (let recent = recent_restarts now ts
      in if length recent \<ge> max_restarts then None else Some (recent @ [now]))"

definition crash_loop_failed :: "'g platform \<Rightarrow> host_env \<Rightarrow> uuid \<Rightarrow> 'g host \<Rightarrow> 'g host" where
  "crash_loop_failed P E i h =
     (let h1 = journal_event P E i ''failed'' (reason_payload ''crash_loop'') h
      in case load_record i (ho_agents h1) of
           Inl _ \<Rightarrow> h1
         | Inr r \<Rightarrow> report_state (r\<lparr>rec_state := Failed\<rparr>) (snd (save_state (r\<lparr>rec_state := Failed\<rparr>) h1)))"

definition replace_vm :: "'g platform \<Rightarrow> host_env \<Rightarrow> agent_record \<Rightarrow> running_agent \<Rightarrow> (nat, 'g host) st" where
  "replace_vm P E r a =
     (let i = rec_id r
      in act_bind (spawn_driver P) (\<lambda>d.
         act_bind (act_get (\<lambda>h. unwrap_or empty_bundle (get_bundle i (ho_secrets h)))) (\<lambda>b.
         act_bind (act_get (\<lambda>h. usable_checkpoint r (agent_tree i h))) (\<lambda>cp.
         act_bind (on_vm i (boot_vm P d (paths_for_agent (he_home E) i) (rec_name r) cp b (rec_manifest r)))
           (\<lambda>placeholders.
         act_then (act_put (update_running i (\<lambda>k. k\<lparr>ra_placeholders := placeholders, ra_driver := d\<rparr>)))
        (act_then (act_ignore (on_vm i (close_vm P (ra_driver a))))
          (act_ok d)))))))"

definition respawn :: "'g platform \<Rightarrow> host_env \<Rightarrow> uuid \<Rightarrow> running_agent \<Rightarrow> bool \<Rightarrow> (unit, 'g host) st" where
  "respawn P E i a full_reboot =
     act_bind (act_get (loaded_or (ra_record a))) (\<lambda>r.
     act_bind (if full_reboot then replace_vm P E r a else act_ok (ra_driver a)) (\<lambda>d.
     act_bind (act_get (\<lambda>h. case running_of i h of Some k \<Rightarrow> ra_placeholders k | None \<Rightarrow> ra_placeholders a))
       (\<lambda>placeholders.
     act_then (launch_pi P r d placeholders)
     (act_bind (on_vm i (pi_session P d)) (\<lambda>session.
       (case session of
          None \<Rightarrow> act_ok ()
        | Some f \<Rightarrow>
            act_bind (act_get (\<lambda>h. load_record i (ho_agents h))) (\<lambda>loaded.
              (case loaded of
                 Inl _ \<Rightarrow> act_ok ()
               | Inr k \<Rightarrow>
                   act_then (act_put (journal_session P E k f))
                     (save_state (k\<lparr>rec_session_file := Some f, rec_state := Active\<rparr>))))))))))"

definition respawning_payload :: "nat \<Rightarrow> nat \<Rightarrow> json" where
  "respawning_payload attempt backoff =
     JObj [(''attempt'', json_num (attempt + 1)), (''backoff_secs'', json_num backoff)]"

text \<open>
  The respawn loop, with fuel. It yields None when out of fuel, whether the agent runs again
  otherwise; the restart queue is part of the agent's running entry.
\<close>

fun restart_with_backoff ::
    "nat \<Rightarrow> 'g platform \<Rightarrow> host_env \<Rightarrow> uuid \<Rightarrow> nat \<Rightarrow> nat \<Rightarrow> running_agent \<Rightarrow> 'g host \<Rightarrow> bool option \<times> 'g host" where
  "restart_with_backoff 0 P E i attempt backoff a h = (None, h)"
| "restart_with_backoff (Suc fuel) P E i attempt backoff a h =
     (let now = pl_mono P (ho_world h)
      in case admit_restart now (ra_restarts a) of
           None \<Rightarrow> (Some False, crash_loop_failed P E i h)
         | Some ts \<Rightarrow>
             (let h1 = update_running i (ra_restarts_update (\<lambda>_. ts)) h;
                  h2 = journal_event P E i ''respawning'' (respawning_payload attempt backoff) h1;
                  h3 = h2\<lparr>ho_world := pl_sleep P backoff (ho_world h2)\<rparr>;
                  a1 = (unwrap_or a (running_of i h3))\<lparr>ra_restarts := ts\<rparr>
              in case respawn P E i a1 (attempt > 0) h3 of
                   (Inr _, h4) \<Rightarrow> (Some True, journal_event P E i ''respawned'' (JObj []) h4)
                 | (Inl _, h4) \<Rightarrow>
                     restart_with_backoff fuel P E i (attempt + 1) (min (backoff * 2) max_backoff)
                       ((unwrap_or a1 (running_of i h4))\<lparr>ra_restarts := ts\<rparr>) h4))"

section \<open>The event monitor\<close>

definition is_crash :: "string \<Rightarrow> bool" where
  "is_crash kind \<longleftrightarrow> kind = ''pi_exit'' \<or> kind = ''driver_died''"

definition event_kind :: "json \<Rightarrow> string" where
  "event_kind ev = unwrap_or ''unknown'' (as_str (json_get ''type'' ev))"

definition monitor_note :: "'g platform \<Rightarrow> host_env \<Rightarrow> uuid \<Rightarrow> json \<Rightarrow> 'g host \<Rightarrow> 'g host" where
  "monitor_note P E i ev h =
     (let kind = event_kind ev;
          h1 = note_activity P i h;
          h2 = (if kind = ''turn_start'' then set_busy P i True h1
                else if kind = ''agent_end'' \<or> kind = ''agent_settled'' \<or> is_crash kind
                then set_busy P i False h1 else h1)
      in journal_event P E i kind ev h2)"

text \<open>One event; the fuel is that of the respawn loop.\<close>

definition monitor_event ::
    "nat \<Rightarrow> 'g platform \<Rightarrow> host_env \<Rightarrow> uuid \<Rightarrow> json \<Rightarrow> 'g host \<Rightarrow> 'g host" where
  "monitor_event fuel P E i ev h =
     (let h1 = monitor_note P E i ev h
      in if \<not> is_crash (event_kind ev) then h1
         else case running_of i h1 of
           None \<Rightarrow> h1
         | Some a \<Rightarrow>
             if ra_stopping a then update_running i (ra_monitored_update (\<lambda>_. False)) h1
             else (case restart_with_backoff fuel P E i 0 initial_backoff a h1 of
                     (Some False, h2) \<Rightarrow> remove_running i h2
                   | (_, h2) \<Rightarrow> h2))"

end
