(* ===== verification/Supervisor_Theorems.thy ===== *)
theory Supervisor_Theorems
  imports Supervisor
begin

text \<open>
  What the supervisor guarantees: every operation keeps the registry well formed, a provisioning
  that fails is recorded and reported as failed, and crash respawns stay within their budget.
\<close>

section \<open>What actions keep\<close>

named_theorems keeping "actions and the facts they keep"

definition keeps :: "('s \<Rightarrow> bool) \<Rightarrow> ('a, 's) st \<Rightarrow> bool" where
  "keeps I m \<longleftrightarrow> (\<forall>s. I s \<longrightarrow> I (snd (m s)))"

lemma keepsI: "(\<And>s. I s \<Longrightarrow> I (snd (m s))) \<Longrightarrow> keeps I m"
  by (simp add: keeps_def)

lemma keepsD: "keeps I m \<Longrightarrow> I s \<Longrightarrow> I (snd (m s))"
  by (simp add: keeps_def)

lemma keeps_run: "keeps I m \<Longrightarrow> m s = (r, s') \<Longrightarrow> I s \<Longrightarrow> I s'"
  by (metis keepsD snd_conv)

lemma keeps_ok [keeping]: "keeps I (act_ok a)"
  and keeps_fail [keeping]: "keeps I (act_fail e)"
  and keeps_get [keeping]: "keeps I (act_get f)"
  by (simp_all add: keeps_def act_ok_def act_fail_def act_get_def)

lemma keeps_put [keeping]: "(\<And>s. I s \<Longrightarrow> I (f s)) \<Longrightarrow> keeps I (act_put f)"
  by (simp add: keeps_def act_put_def)

lemma keeps_bind [keeping]:
  "keeps I m \<Longrightarrow> (\<And>a. keeps I (f a)) \<Longrightarrow> keeps I (act_bind m f)"
  by (auto simp: keeps_def act_bind_def split: prod.split sum.split)

lemma keeps_then [keeping]: "keeps I m \<Longrightarrow> keeps I k \<Longrightarrow> keeps I (act_then m k)"
  by (simp add: act_then_def keeps_bind)

lemma keeps_ignore [keeping]: "keeps I m \<Longrightarrow> keeps I (act_ignore m)"
  by (simp add: keeps_def act_ignore_def)

lemma keeps_optional [keeping]: "keeps I m \<Longrightarrow> keeps I (act_optional m)"
  by (auto simp: keeps_def act_optional_def split: prod.split sum.split)

text \<open>The registry: its directories and that each record lies in its own.\<close>

definition dirs_ok :: "uuid list \<Rightarrow> 'g host \<Rightarrow> bool" where
  "dirs_ok ks h \<longleftrightarrow> map fst (ho_agents h) = ks \<and> wf_agents_dir (ho_agents h)"

lemma dirs_ok_update:
  assumes "dirs_ok ks h" "ho_agents h' = update_agent_dir i f (ho_agents h)"
    "\<And>d. ad_record (f d) = ad_record d"
  shows "dirs_ok ks h'"
proof -
  have "wf_agents_dir (update_agent_dir i f (ho_agents h))"
    using assms(1) by (intro wf_update_agent_dir) (simp_all add: dirs_ok_def assms(3))
  then show ?thesis using assms(1,2) by (simp add: dirs_ok_def hostdir)
qed

lemma dirs_ok_same: "ho_agents h' = ho_agents h \<Longrightarrow> dirs_ok ks h' \<longleftrightarrow> dirs_ok ks h"
  by (simp add: dirs_ok_def)

lemma keeps_on_vm [keeping]:
  fixes m :: "('a, 'g) act"
  shows "keeps (dirs_ok ks) (on_vm i m)"
proof (rule keepsI)
  fix h :: "'g host"
  assume "dirs_ok ks h"
  then show "dirs_ok ks (snd (on_vm i m h))"
    by (auto simp: on_vm_def Let_def split: prod.split elim: dirs_ok_update)
qed

lemma keeps_save [keeping]: "keeps (dirs_ok ks) (save_state r :: (unit, 'g host) st)"
proof (rule keepsI)
  fix h :: "'g host"
  assume a: "dirs_ok ks h"
  show "dirs_ok ks (snd (save_state r h))"
  proof (cases "save_record r (ho_agents h)")
    case (Inr ds)
    then have "wf_agents_dir ds" "map fst ds = ks"
      using a wf_save_record [OF _ Inr] by (auto simp: dirs_ok_def save_record_update hostdir)
    then show ?thesis using Inr by (simp add: save_state_def dirs_ok_def)
  qed (use a in \<open>simp add: save_state_def\<close>)
qed

lemma dirs_ok_simps [simp]:
  "dirs_ok ks (report_state r h) \<longleftrightarrow> dirs_ok ks h"
  "dirs_ok ks (update_running i f h) \<longleftrightarrow> dirs_ok ks h"
  "dirs_ok ks (remove_running i h) \<longleftrightarrow> dirs_ok ks h"
  "dirs_ok ks (note_activity P i h) \<longleftrightarrow> dirs_ok ks h"
  "dirs_ok ks (new_running P r d pl h) \<longleftrightarrow> dirs_ok ks h"
  "dirs_ok ks (h\<lparr>ho_driver_cell := c\<rparr>) \<longleftrightarrow> dirs_ok ks h"
  "dirs_ok ks (h\<lparr>ho_in_flight := fl\<rparr>) \<longleftrightarrow> dirs_ok ks h"
  "dirs_ok ks (h\<lparr>ho_world := w\<rparr>) \<longleftrightarrow> dirs_ok ks h"
  by (simp_all add: dirs_ok_def report_state_def update_running_def remove_running_def
      note_activity_def new_running_def)

lemma dirs_ok_journal [simp]: "dirs_ok ks h \<Longrightarrow> dirs_ok ks (journal_event P E i k p h)"
  by (auto simp: journal_event_def split: option.split prod.split elim!: dirs_ok_update)

lemma dirs_ok_journal_session [simp]: "dirs_ok ks h \<Longrightarrow> dirs_ok ks (journal_session P E r f h)"
  by (simp add: journal_session_def)

lemma keeps_start_journal [keeping]: "keeps (dirs_ok ks) (start_journal E i)"
  by (auto simp: keeps_def start_journal_def split: option.split prod.split elim!: dirs_ok_update)

lemma keeps_spawn_driver [keeping]: "keeps (dirs_ok ks) (spawn_driver P)"
  by (auto simp: keeps_def spawn_driver_def split: prod.split option.split)

lemma keeps_prepare_vm [keeping]: "keeps (dirs_ok ks) (prepare_vm P E r d b)"
  by (auto simp: prepare_vm_def Let_def intro!: keeping split: option.split)

lemma keeps_launch [keeping]: "keeps (dirs_ok ks) (launch_pi P r d pl)"
  by (simp add: launch_pi_def Let_def keeping)

lemma keeps_inner [keeping]: "keeps (dirs_ok ks) (provision_and_start_inner P E r)"
  by (auto simp: provision_and_start_inner_def Let_def intro!: keeping split: option.split)

lemma dirs_ok_close_cell [simp]: "dirs_ok ks h \<Longrightarrow> dirs_ok ks (close_cell P i h)"
  by (auto simp: close_cell_def intro: keepsD [OF keeps_on_vm] split: option.split)

lemma dirs_ok_failed [simp]: "dirs_ok ks h \<Longrightarrow> dirs_ok ks (provisioning_failed P E r e h)"
  by (simp add: provisioning_failed_def Let_def keepsD [OF keeps_save])

lemma keeps_provision_and_start [keeping]:
  fixes P :: "'g platform"
  shows "keeps (dirs_ok ks) (provision_and_start P E r)"
proof (rule keepsI)
  fix h :: "'g host"
  assume a: "dirs_ok ks h"
  let ?h1 = "h\<lparr>ho_in_flight := List.insert (rec_id r) (ho_in_flight h), ho_driver_cell := None\<rparr>"
  obtain r1 h2 where s: "start_journal E (rec_id r) ?h1 = (r1, h2)" by fastforce
  then have h2: "dirs_ok ks h2" using a by (intro keeps_run [OF keeps_start_journal s]) simp
  obtain r2 h3 where i: "provision_and_start_inner P E r h2 = (r2, h3)" by fastforce
  then have "dirs_ok ks h3" using h2 by (rule keeps_run [OF keeps_inner])
  then show "dirs_ok ks (snd (provision_and_start P E r h))"
    using s i h2 by (auto simp: provision_and_start_def Let_def split: sum.split)
qed

section \<open>A failed provisioning is a failed agent\<close>

lemma save_state_known:
  assumes "rec_id r \<in> set ks" "dirs_ok ks h"
  shows "fst (save_state r h) = Inr ()" "load_record (rec_id r) (ho_agents (snd (save_state r h))) = Inr r"
proof -
  have "map_of (ho_agents h) (rec_id r) \<noteq> None"
    using assms by (auto simp: dirs_ok_def map_of_eq_None_iff)
  then obtain ds where "save_record r (ho_agents h) = Inr ds"
    by (simp add: save_record_def)
  then show "fst (save_state r h) = Inr ()"
    "load_record (rec_id r) (ho_agents (snd (save_state r h))) = Inr r"
    using load_save(1) [of r "ho_agents h" ds] by (simp_all add: save_state_def)
qed

lemma provisioning_failed_effects:
  assumes "rec_id r \<in> set ks" "dirs_ok ks h"
  shows "load_record (rec_id r) (ho_agents (provisioning_failed P E r e h)) = Inr (r\<lparr>rec_state := Failed\<rparr>)"
    and "ho_in_flight (provisioning_failed P E r e h) = ho_in_flight h"
    and "\<exists>entry. last (ho_reports (provisioning_failed P E r e h)) = entry \<and>
      as_agent_id entry = rec_id r \<and> as_state entry = Failed"
proof -
  let ?r = "r\<lparr>rec_state := Failed\<rparr>"
  let ?h = "journal_event P E (rec_id r) ''failed'' (reason_payload (he_show E e)) h"
  have "dirs_ok ks ?h" "rec_id ?r \<in> set ks" using assms by simp_all
  note s = save_state_known(2) [OF this(2,1)]
  show "load_record (rec_id r) (ho_agents (provisioning_failed P E r e h)) = Inr ?r"
    using s by (simp add: provisioning_failed_def Let_def report_state_def)
  have "ho_in_flight (snd (save_state q g)) = ho_in_flight g" for q and g :: "'a host"
    by (simp add: save_state_def split: sum.split)
  moreover have "ho_in_flight (journal_event P E i k p g) = ho_in_flight g" for i k p and g :: "'a host"
    by (simp add: journal_event_def split: option.split prod.split)
  ultimately show "ho_in_flight (provisioning_failed P E r e h) = ho_in_flight h"
    by (simp add: provisioning_failed_def Let_def report_state_def)
  show "\<exists>entry. last (ho_reports (provisioning_failed P E r e h)) = entry \<and>
      as_agent_id entry = rec_id r \<and> as_state entry = Failed"
    by (simp add: provisioning_failed_def Let_def report_state_def)
qed

lemma provision_and_start_outcome:
  assumes known: "rec_id r \<in> set ks" "dirs_ok ks h"
    and run: "provision_and_start P E r h = (res, h')"
  shows "rec_id r \<notin> set (ho_in_flight h') \<and>
    (\<forall>e. res = Inl e \<longrightarrow>
       load_record (rec_id r) (ho_agents h') = Inr (r\<lparr>rec_state := Failed\<rparr>) \<and>
       as_agent_id (last (ho_reports h')) = rec_id r \<and> as_state (last (ho_reports h')) = Failed)"
proof -
  let ?i = "rec_id r"
  let ?h1 = "h\<lparr>ho_in_flight := List.insert ?i (ho_in_flight h), ho_driver_cell := None\<rparr>"
  have "map_of (ho_agents h) ?i \<noteq> None"
    using known by (auto simp: dirs_ok_def map_of_eq_None_iff)
  then have "fst (start_journal E ?i ?h1) = Inr ()"
    by (auto simp: start_journal_def split: prod.split)
  then obtain h2 where s: "start_journal E ?i ?h1 = (Inr (), h2)"
    by (metis prod.collapse)
  obtain r2 h3 where i: "provision_and_start_inner P E r h2 = (r2, h3)" by fastforce
  have "dirs_ok ks h3"
    using known(2) by (intro keeps_run [OF keeps_inner i] keeps_run [OF keeps_start_journal s]) simp
  then have d: "dirs_ok ks (h3\<lparr>ho_in_flight := fl\<rparr>)" "dirs_ok ks ((close_cell P ?i h3)\<lparr>ho_in_flight := fl\<rparr>)" for fl
    by simp_all
  show ?thesis
  proof (cases r2)
    case (Inr u)
    then show ?thesis using run s i by (auto simp: provision_and_start_def Let_def)
  next
    case (Inl e)
    then obtain e' g where g: "g = h3 \<or> g = close_cell P ?i h3"
      "h' = provisioning_failed P E r e' (g\<lparr>ho_in_flight := removeAll ?i (ho_in_flight g)\<rparr>)"
      "res = Inl (Context ''provisioning failed'' e')"
      using run s i by (cases "e = CutOffError") (auto simp: provision_and_start_def Let_def)
    then have ok: "dirs_ok ks (g\<lparr>ho_in_flight := removeAll ?i (ho_in_flight g)\<rparr>)" using d by auto
    show ?thesis
      using provisioning_failed_effects [OF known(1) ok, of P E e'] g by simp
  qed
qed


text \<open>A platform on which nothing works, and a host with one suspended agent on it.\<close>

definition broken_platform :: "unit platform" where
  "broken_platform =
     \<lparr>pl_spawn = (\<lambda>g. (None, g)), pl_request = (\<lambda>d cmd secs tw. (Dropped, tw)),
      pl_command = (\<lambda>d cmd tw. (Dropped, tw)), pl_mono = (\<lambda>g. 0), pl_wall = (\<lambda>g. 0),
      pl_sleep = (\<lambda>n g. g), pl_toml = (\<lambda>m. []), pl_json = (\<lambda>j. [])\<rparr>"

definition broken_env :: host_env where
  "broken_env =
     \<lparr>he_render = (\<lambda>ev. []), he_parse = (\<lambda>s. None), he_uuid = (\<lambda>s. Some s), he_rfc3339 = (\<lambda>t. []),
      he_parse_time = (\<lambda>t. None), he_show = (\<lambda>e. ''error''), he_home = []\<rparr>"

definition demo_record :: agent_record where
  "demo_record = fresh_record ''i'' (minimal_manifest ''a'' ''p'' ''m'') Suspended [] None"

definition demo_host :: "unit host" where
  "demo_host =
     \<lparr>ho_agents = [(''i'', empty_agent_dir\<lparr>ad_record := Some demo_record\<rparr>)], ho_running = [],
      ho_in_flight = [], ho_journals = [], ho_reports = [],
      ho_secrets = \<lparr>hs_bundles = (\<lambda>_. None), hs_redact = (\<lambda>_. None)\<rparr>, ho_driver_cell = None,
      ho_world = (), ho_sent = []\<rparr>"

lemma demo_provisioning_fails:
  "fst (provision_and_start broken_platform broken_env demo_record demo_host) =
     Inl (Context ''provisioning failed'' SpawnFailed)"
  by (simp add: provision_and_start_def provision_and_start_inner_def start_journal_def
      demo_host_def demo_record_def fresh_record_def broken_env_def broken_platform_def act_then_def
      act_bind_def act_put_def spawn_driver_def journal_event_def open_journal_def append_journal_def
      empty_agent_dir_def Let_def update_agent_dir_def put_def shipped_mark_def)


section \<open>The restart budget\<close>

text \<open>Restarts admitted one after the other from a queue.\<close>

fun admitted :: "nat list \<Rightarrow> nat list \<Rightarrow> bool" where
  "admitted queue [] = True"
| "admitted queue (t # ts) =
     (case admit_restart t queue of None \<Rightarrow> False | Some queue' \<Rightarrow> admitted queue' ts)"

lemma recent_restarts_suffix: "\<exists>old. q = old @ recent_restarts t q \<and> (\<forall>u \<in> set old. t - u > restart_window)"
  unfolding recent_restarts_def by (metis set_takeWhileD takeWhile_dropWhile_id)

text \<open>The queue holds the last restarts; whatever left it is older than the window.\<close>

lemma admitted_gap:
  assumes "admitted q ts" "sorted (hist @ ts)" "\<exists>old. hist = old @ q \<and> (\<forall>u \<in> set old. \<forall>t \<in> set ts. t - u > restart_window)"
    and "length hist \<le> j" "j < length (hist @ ts)" "k + max_restarts \<le> j"
  shows "(hist @ ts) ! j - (hist @ ts) ! k > restart_window"
  using assms
proof (induction ts arbitrary: q hist)
  case (Cons t ts)
  obtain old where old: "hist = old @ q" "\<forall>u \<in> set old. \<forall>v \<in> set (t # ts). v - u > restart_window"
    using Cons.prems(3) by blast
  obtain gone where gone: "q = gone @ recent_restarts t q" "\<forall>u \<in> set gone. t - u > restart_window"
    using recent_restarts_suffix by blast
  have adm: "length (recent_restarts t q) < max_restarts" "admitted (recent_restarts t q @ [t]) ts"
    using Cons.prems(1) by (auto simp: admit_restart_def Let_def split: if_splits)
  have later: "t \<le> v" if "v \<in> set ts" for v
    using Cons.prems(2) that by (simp add: sorted_append)
  show ?case
  proof (cases "j = length hist")
    case True
    have "length hist = length old + length gone + length (recent_restarts t q)"
      using old(1) gone(1) by (metis add.assoc length_append)
    then have "k < length (old @ gone)"
      using Cons.prems(6) adm(1) True by simp
    then have "(hist @ t # ts) ! k \<in> set (old @ gone)"
      using old(1) gone(1) by (metis append.assoc nth_append nth_mem)
    moreover have "(hist @ t # ts) ! j = t" using True by simp
    ultimately show ?thesis using old(2) gone(2) by auto
  next
    case False
    have "((hist @ [t]) @ ts) ! j - ((hist @ [t]) @ ts) ! k > restart_window"
    proof (rule Cons.IH [OF adm(2)])
      show "\<exists>old'. hist @ [t] = old' @ recent_restarts t q @ [t] \<and>
          (\<forall>u \<in> set old'. \<forall>v \<in> set ts. v - u > restart_window)"
      proof (intro exI conjI ballI)
        show "hist @ [t] = (old @ gone) @ recent_restarts t q @ [t]"
          using old(1) gone(1) by simp
        fix u v assume "u \<in> set (old @ gone)" "v \<in> set ts"
        then show "v - u > restart_window" using old(2) gone(2) later [of v] by auto
      qed
    qed (use Cons.prems False in auto)
    then show ?thesis by simp
  qed
qed simp

lemma ho_world_simps [simp]:
  "ho_world (journal_event P E i k p h) = ho_world h" "ho_world (update_running i f h) = ho_world h"
  by (simp_all add: journal_event_def update_running_def split: option.split prod.split)

lemma recent_restarts_own:
  assumes "\<forall>t \<in> set own. now - t \<le> restart_window"
  shows "recent_restarts now (pre @ own) = recent_restarts now pre @ own"
proof -
  have own: "dropWhile (\<lambda>t. now - t > restart_window) own = own"
    using assms by (cases own) auto
  show ?thesis
    by (simp add: recent_restarts_def dropWhile_append own)
qed

lemma crash_loop_failed_record:
  "load_record i (ho_agents (crash_loop_failed P E i h)) = Inr r \<Longrightarrow> rec_id r = i \<Longrightarrow> rec_state r = Failed"
proof -
  assume a: "load_record i (ho_agents (crash_loop_failed P E i h)) = Inr r" "rec_id r = i"
  let ?h = "journal_event P E i ''failed'' (reason_payload ''crash_loop'') h"
  show "rec_state r = Failed"
  proof (cases "load_record i (ho_agents ?h)")
    case (Inl e)
    then show ?thesis using a by (simp add: crash_loop_failed_def)
  next
    case (Inr k)
    let ?k = "k\<lparr>rec_state := Failed\<rparr>"
    have eq: "ho_agents (crash_loop_failed P E i h) = ho_agents (snd (save_state ?k ?h))"
      using Inr by (simp add: crash_loop_failed_def report_state_def Let_def)
    show ?thesis
    proof (cases "save_record ?k (ho_agents ?h)")
      case (Inl e)
      then have "load_record (rec_id ?k) (ho_agents ?h) \<noteq> Inr k"
        by (auto simp: save_record_def load_record_def split: if_splits)
      moreover have "load_record i (ho_agents ?h) = Inr r"
        using a Inl eq by (simp add: save_state_def)
      ultimately show ?thesis using a(2) Inr by simp
    next
      case (Inr ds)
      then have "load_record (rec_id ?k) ds = Inr ?k" "i \<noteq> rec_id ?k \<Longrightarrow> load_record i ds = load_record i (ho_agents ?h)"
        using load_save [OF Inr] by simp_all
      moreover have "load_record i ds = Inr r" using a eq Inr by (simp add: save_state_def)
      ultimately show ?thesis
        using \<open>load_record i (ho_agents ?h) = Inr k\<close> a(2) by (cases "i = rec_id k") auto
    qed
  qed
qed

definition attempts_fail_fast :: "'g platform \<Rightarrow> host_env \<Rightarrow> uuid \<Rightarrow> bool" where
  "attempts_fail_fast P E i \<longleftrightarrow>
     (\<forall>a full h. \<exists>e h'. respawn P E i a full h = (Inl e, h') \<and>
        pl_mono P (ho_world h) \<le> pl_mono P (ho_world h') \<and>
        pl_mono P (ho_world h') \<le> pl_mono P (ho_world h) + 50 * 10 ^ 9) \<and>
     (\<forall>n w. pl_mono P w \<le> pl_mono P (pl_sleep P n w) \<and>
        pl_mono P (pl_sleep P n w) \<le> pl_mono P w + (n + 1) * 10 ^ 9)"

lemma restart_gives_up:
  assumes fast: "attempts_fail_fast P E i"
    and "6 \<le> fuel + length own" "length own \<le> max_restarts" "backoff \<le> max_backoff"
    and "ra_restarts a = pre @ own" "\<forall>t \<in> set own. t0 \<le> t"
    and "pl_mono P (ho_world h) \<le> t0 + length own * (111 * 10 ^ 9)" "t0 \<le> pl_mono P (ho_world h)"
  shows "\<exists>g. restart_with_backoff fuel P E i attempt backoff a h = (Some False, crash_loop_failed P E i g)"
  using assms(2-)
proof (induction fuel arbitrary: own pre attempt backoff a h)
  case 0
  then show ?case by (simp add: max_restarts_def)
next
  case (Suc fuel)
  let ?now = "pl_mono P (ho_world h)"
  have "?now \<le> t0 + 5 * (111 * 10 ^ 9)"
    using Suc.prems(2,6) by (simp add: max_restarts_def)
  then have "\<forall>t \<in> set own. ?now - t \<le> restart_window"
    using Suc.prems(5) by (fastforce simp: restart_window_def)
  then have recent: "recent_restarts ?now (ra_restarts a) = recent_restarts ?now pre @ own"
    using recent_restarts_own Suc.prems(4) by simp
  show ?case
  proof (cases "admit_restart ?now (ra_restarts a)")
    case None
    then show ?thesis by auto
  next
    case (Some ts)
    then have ts: "ts = recent_restarts ?now pre @ (own @ [?now])" "length own < max_restarts"
      using recent by (auto simp: admit_restart_def Let_def split: if_splits)
    define h3 where "h3 = (let h1 = update_running i (ra_restarts_update (\<lambda>_. ts)) h;
        h2 = journal_event P E i ''respawning'' (respawning_payload attempt backoff) h1
      in h2\<lparr>ho_world := pl_sleep P backoff (ho_world h2)\<rparr>)"
    define a1 where "a1 = (unwrap_or a (running_of i h3))\<lparr>ra_restarts := ts\<rparr>"
    obtain e h4 where r: "respawn P E i a1 (attempt > 0) h3 = (Inl e, h4)"
      "pl_mono P (ho_world h3) \<le> pl_mono P (ho_world h4)"
      "pl_mono P (ho_world h4) \<le> pl_mono P (ho_world h3) + 50 * 10 ^ 9"
      using fast unfolding attempts_fail_fast_def by blast
    have w3: "ho_world h3 = pl_sleep P backoff (ho_world h)" by (simp add: h3_def Let_def)
    have slept: "?now \<le> pl_mono P (ho_world h3)"
      "pl_mono P (ho_world h3) \<le> ?now + (backoff + 1) * 10 ^ 9"
      using fast w3 unfolding attempts_fail_fast_def by auto
    have step: "restart_with_backoff (Suc fuel) P E i attempt backoff a h =
        restart_with_backoff fuel P E i (attempt + 1) (min (backoff * 2) max_backoff)
          ((unwrap_or a1 (running_of i h4))\<lparr>ra_restarts := ts\<rparr>) h4"
      using Some r(1) by (simp add: h3_def a1_def Let_def)
    have "(backoff + 1) * 10 ^ 9 \<le> (61 :: nat) * 10 ^ 9"
      using Suc.prems(3) by (simp add: max_backoff_def)
    then have bound: "pl_mono P (ho_world h4) \<le> t0 + length (own @ [?now]) * (111 * 10 ^ 9)"
      using r(3) slept(2) Suc.prems(6) by simp
    show ?thesis
      unfolding step
    proof (rule Suc.IH)
      show "6 \<le> fuel + length (own @ [?now])" using Suc.prems(1) by simp
      show "length (own @ [?now]) \<le> max_restarts" using ts(2) by simp
      show "min (backoff * 2) max_backoff \<le> max_backoff" by simp
      show "ra_restarts ((unwrap_or a1 (running_of i h4))\<lparr>ra_restarts := ts\<rparr>) =
          recent_restarts ?now pre @ own @ [?now]"
        using ts(1) by simp
      show "\<forall>t \<in> set (own @ [?now]). t0 \<le> t" using Suc.prems(5,7) by simp
      show "pl_mono P (ho_world h4) \<le> t0 + length (own @ [?now]) * (111 * 10 ^ 9)" by (rule bound)
      show "t0 \<le> pl_mono P (ho_world h4)" using Suc.prems(7) slept(1) r(2) by simp
    qed
  qed
qed

text \<open>C20
  Crash respawns have a budget. Whatever happens, among any six consecutive restarts of an
  agent the last comes more than ten minutes after the first (at most five in a window). And the
  loop ends: when every attempt fails, each within 50 seconds, then after at most five attempts the
  agent's record is in state failed, whatever was in the queue before.\<close>

theorem crash_restarts_bounded:
  "(\<forall>ts k. sorted ts \<longrightarrow> admitted [] ts \<longrightarrow> k + max_restarts < length ts \<longrightarrow>
      ts ! (k + max_restarts) - ts ! k > restart_window) \<and>
   (attempts_fail_fast P E i \<longrightarrow>
      (\<exists>h'. restart_with_backoff 6 P E i 0 initial_backoff a h = (Some False, h') \<and>
        (\<forall>r. load_record i (ho_agents h') = Inr r \<longrightarrow> rec_id r = i \<longrightarrow> rec_state r = Failed)))"
proof (intro conjI allI impI)
  fix ts k assume "sorted ts" "admitted [] ts" "k + max_restarts < length ts"
  then show "ts ! (k + max_restarts) - ts ! k > restart_window"
    using admitted_gap [of "[]" ts "[]" "k + max_restarts" k] by simp
next
  assume fast: "attempts_fail_fast P E i"
  have "\<exists>g. restart_with_backoff 6 P E i 0 initial_backoff a h = (Some False, crash_loop_failed P E i g)"
    by (rule restart_gives_up [OF fast, of 6 "[]" _ _ "ra_restarts a" "pl_mono P (ho_world h)"])
      (simp_all add: max_restarts_def initial_backoff_def max_backoff_def)
  then show "\<exists>h'. restart_with_backoff 6 P E i 0 initial_backoff a h = (Some False, h') \<and>
      (\<forall>r. load_record i (ho_agents h') = Inr r \<longrightarrow> rec_id r = i \<longrightarrow> rec_state r = Failed)"
    using crash_loop_failed_record by fastforce
qed

lemma broken_fails_fast: "attempts_fail_fast broken_platform broken_env i"
proof -
  have "fst (respawn broken_platform broken_env i a full h) = Inl (if full then SpawnFailed else DriverExited)"
    for a full h
    by (simp add: respawn_def replace_vm_def Let_def act_bind_def act_get_def act_ok_def act_then_def
        spawn_driver_def broken_platform_def launch_pi_def on_vm_def spawn_agent_def request_timeout_def)
  then show ?thesis
    unfolding attempts_fail_fast_def
    by (intro conjI allI) (simp_all add: prod_eq_iff broken_platform_def)
qed

definition demo_running :: running_agent where
  "demo_running =
     \<lparr>ra_record = demo_record, ra_driver = 0, ra_placeholders = [], ra_last = 0, ra_last_wall = 0,
      ra_busy = False, ra_stopping = False, ra_monitored = True, ra_restarts = []\<rparr>"

theorem crash_restarts_bounded_witness:
  "[0, 2 * 10 ^ 9, 4 * 10 ^ 9, 6 * 10 ^ 9, 8 * 10 ^ 9, 700 * 10 ^ 9] ! (0 + max_restarts) -
     [0, 2 * 10 ^ 9, 4 * 10 ^ 9, 6 * 10 ^ 9, 8 * 10 ^ 9, 700 * 10 ^ 9] ! 0 > restart_window \<and>
   fst (restart_with_backoff 6 broken_platform broken_env ''i'' 0 initial_backoff
      demo_running demo_host) = Some False"
proof -
  let ?ts = "[0, 2 * 10 ^ 9, 4 * 10 ^ 9, 6 * 10 ^ 9, 8 * 10 ^ 9, 700 * 10 ^ 9] :: nat list"
  have "admitted [] ?ts"
    by (simp add: admit_restart_def recent_restarts_def max_restarts_def restart_window_def)
  then have "?ts ! (0 + max_restarts) - ?ts ! 0 > restart_window"
    using crash_restarts_bounded [of broken_platform broken_env "''i''" demo_running demo_host,
        THEN conjunct1, rule_format, of ?ts 0]
    by (simp only: max_restarts_def) (simp del: admitted.simps)
  moreover have "fst (restart_with_backoff 6 broken_platform broken_env ''i'' 0 initial_backoff
      demo_running demo_host) = Some False"
    using crash_restarts_bounded [of broken_platform broken_env "''i''" demo_running demo_host]
      broken_fails_fast by auto
  ultimately show ?thesis by blast
qed

section \<open>Where the budget does not help\<close>

text \<open>
  Attempts that fail slowly - more than five minutes each, as a boot that hangs until the driver
  request times out - are never five in a window: the loop goes on for ever.\<close>

definition attempts_fail_slowly :: "'g platform \<Rightarrow> host_env \<Rightarrow> uuid \<Rightarrow> bool" where
  "attempts_fail_slowly P E i \<longleftrightarrow>
     (\<forall>a full h. \<exists>e h'. respawn P E i a full h = (Inl e, h') \<and>
        pl_mono P (ho_world h) + 300 * 10 ^ 9 < pl_mono P (ho_world h')) \<and>
     (\<forall>n w. pl_mono P w \<le> pl_mono P (pl_sleep P n w))"

abbreviation spaced :: "nat list \<Rightarrow> bool" where
  "spaced \<equiv> successively (\<lambda>x y. x + 300 * 10 ^ 9 < y)"

lemma spaced_span: "spaced (x # xs @ [y]) \<Longrightarrow> x + Suc (length xs) * (300 * 10 ^ 9) < y"
  by (induction xs arbitrary: x) fastforce+

lemma spaced_recent:
  assumes "spaced (q @ [now])"
  shows "length (recent_restarts now q) \<le> 1" "spaced (recent_restarts now q @ [now])"
proof -
  obtain old where old: "q = old @ recent_restarts now q" using recent_restarts_suffix by blast
  show sp: "spaced (recent_restarts now q @ [now])"
    using assms by (subst (asm) old) (simp add: successively_append_iff)
  show "length (recent_restarts now q) \<le> 1"
  proof (cases "recent_restarts now q")
    case (Cons t ts)
    then have close: "now - t \<le> restart_window"
      unfolding recent_restarts_def by (metis hd_dropWhile list.discI list.sel(1) not_le)
    have "t + Suc n * (300 * 10 ^ 9) < now \<Longrightarrow> now - t \<le> 600 * 10 ^ 9 \<Longrightarrow> n = 0" for n
      by (cases n) simp_all
    moreover have "t + Suc (length ts) * (300 * 10 ^ 9) < now"
      by (rule spaced_span) (use sp Cons in simp)
    moreover have "now - t \<le> 600 * 10 ^ 9" using close by (simp only: restart_window_def)
    ultimately have "length ts = 0" by blast
    then show ?thesis using Cons by simp
  qed simp
qed

lemma slow_crash_loop_never_ends:
  assumes slow: "attempts_fail_slowly P E i"
    and "spaced (ra_restarts a @ [pl_mono P (ho_world h)])"
  shows "fst (restart_with_backoff fuel P E i attempt backoff a h) = None"
  using assms(2)
proof (induction fuel arbitrary: attempt backoff a h)
  case (Suc fuel)
  let ?now = "pl_mono P (ho_world h)"
  let ?ts = "recent_restarts ?now (ra_restarts a) @ [?now]"
  have adm: "admit_restart ?now (ra_restarts a) = Some ?ts"
    using spaced_recent(1) [OF Suc.prems] by (simp add: admit_restart_def Let_def max_restarts_def)
  define h3 where "h3 = (let h1 = update_running i (ra_restarts_update (\<lambda>_. ?ts)) h;
      h2 = journal_event P E i ''respawning'' (respawning_payload attempt backoff) h1
    in h2\<lparr>ho_world := pl_sleep P backoff (ho_world h2)\<rparr>)"
  define a1 where "a1 = (unwrap_or a (running_of i h3))\<lparr>ra_restarts := ?ts\<rparr>"
  obtain e h4 where r: "respawn P E i a1 (attempt > 0) h3 = (Inl e, h4)"
    "pl_mono P (ho_world h3) + 300 * 10 ^ 9 < pl_mono P (ho_world h4)"
    using slow unfolding attempts_fail_slowly_def by blast
  have "?now \<le> pl_mono P (ho_world h3)"
    using slow by (simp add: attempts_fail_slowly_def h3_def Let_def)
  then have "spaced (?ts @ [pl_mono P (ho_world h4)])"
    using spaced_recent(2) [OF Suc.prems] r(2) by (simp add: successively_append_iff)
  then have "fst (restart_with_backoff fuel P E i (attempt + 1) (min (backoff * 2) max_backoff)
      ((unwrap_or a1 (running_of i h4))\<lparr>ra_restarts := ?ts\<rparr>) h4) = None"
    by (intro Suc.IH) simp
  then show ?case using adm r(1) by (simp add: h3_def a1_def Let_def)
qed simp

end
