(* ===== verification/Host_Control.thy ===== *)
theory Host_Control
  imports Supervisor
begin

text \<open>
  The agent host's side of the control connection (crates/castellan/src/control.rs) and its
  start-up (crates/castellan/src/lib.rs): configuration, orders, state reports, attach and shell
  streams, restore, bundle uploads and their refresh. The parameter \<open>'g uplink\<close> is what the host
  gets from the control plane and the codecs it uses: the payload of a secrets pull, the
  acknowledgement of an upload, serde's readers and writers, the checksum and the host's probes.
  Streams are lists of messages; a list that ends is a stream that broke off.
\<close>

section \<open>Configuration\<close>

record host_reserve =
  rv_vcpu :: u32
  rv_memory_mib :: u64

record castellan_config =
  cf_suzerain_endpoint_id :: "string option"
  cf_labels :: labels
  cf_max_agents :: u32
  cf_bundle_quiet_secs :: u64
  cf_bundle_refresh_secs :: u64
  cf_reserve :: host_reserve

definition default_bundle_quiet_secs :: u64 where "default_bundle_quiet_secs = 30"
definition default_bundle_refresh_secs :: u64 where "default_bundle_refresh_secs = 900"
definition default_max_agents :: u32 where "default_max_agents = 4"

definition default_castellan_config :: castellan_config where
  "default_castellan_config =
     \<lparr>cf_suzerain_endpoint_id = None, cf_labels = [], cf_max_agents = default_max_agents,
      cf_bundle_quiet_secs = default_bundle_quiet_secs,
      cf_bundle_refresh_secs = default_bundle_refresh_secs,
      cf_reserve = \<lparr>rv_vcpu = 0, rv_memory_mib = 0\<rparr>\<rparr>"

text \<open>
  Both files with a legacy name are found the same way: the legacy one is renamed unless the new
  one exists; \<open>renames\<close> says whether the file system lets it.\<close>

definition migrated_path_in :: "string \<Rightarrow> string \<Rightarrow> bool \<Rightarrow> (string \<times> 'e) list \<Rightarrow> string \<times> (string \<times> 'e) list" where
  "migrated_path_in new_name legacy_file renames entries =
     (case (map_of entries new_name, map_of entries legacy_file) of
        (None, Some e) \<Rightarrow>
          if renames then (new_name, (new_name, e) # bt_remove legacy_file entries)
          else (legacy_file, entries)
      | _ \<Rightarrow> (new_name, entries))"

definition config_path_in :: "bool \<Rightarrow> (string \<times> 'e) list \<Rightarrow> string \<times> (string \<times> 'e) list" where
  "config_path_in = migrated_path_in ''castellan.toml'' ''config.toml''"

definition identity_path_in :: "bool \<Rightarrow> (string \<times> 'e) list \<Rightarrow> string \<times> (string \<times> 'e) list" where
  "identity_path_in = migrated_path_in ''castellan.key'' ''identity.key''"

text \<open>The pause before the n-th reconnection (in seconds).\<close>

fun reconnect_backoff :: "nat \<Rightarrow> nat" where
  "reconnect_backoff 0 = 1"
| "reconnect_backoff (Suc n) = min (reconnect_backoff n * 2) 60"

section \<open>Start-up\<close>

definition reconcile_record :: "agent_record \<Rightarrow> agent_record" where
  "reconcile_record r =
     (if rec_state r = Active \<or> rec_state r = Restoring then r\<lparr>rec_state := Suspended\<rparr> else r)"

definition reconcile_on_start :: "(unit, 'g host) st" where
  "reconcile_on_start h =
     act_each (\<lambda>r. if reconcile_record r \<noteq> r then save_state (reconcile_record r) else act_ok ())
       (list_records (ho_agents h)) h"

section \<open>Base64 as the host writes it\<close>

unbundle bit_operations_syntax

definition host_sextets :: "u8 \<Rightarrow> u8 \<Rightarrow> u8 \<Rightarrow> string" where
  "host_sextets b0 b1 b2 =
     (let n = push_bit 16 (ucast b0) OR push_bit 8 (ucast b1) OR (ucast b2 :: u32)
      in [alphabet ! unat (drop_bit 18 n AND 63), alphabet ! unat (drop_bit 12 n AND 63),
          alphabet ! unat (drop_bit 6 n AND 63), alphabet ! unat (n AND 63)])"

fun host_base64_encode :: "u8 list \<Rightarrow> string" where
  "host_base64_encode [] = []"
| "host_base64_encode [b0] = take 2 (host_sextets b0 0 0) @ ''==''"
| "host_base64_encode [b0, b1] = take 3 (host_sextets b0 b1 0) @ ''=''"
| "host_base64_encode (b0 # b1 # b2 # bs) = host_sextets b0 b1 b2 @ host_base64_encode bs"

section \<open>The uplink\<close>

record 'g uplink =
  ul_pull :: "uuid \<Rightarrow> 'g \<Rightarrow> json option \<times> 'g"
  ul_upload :: "uuid \<Rightarrow> bundle_message list \<Rightarrow> 'g \<Rightarrow> bundle_ack option \<times> 'g"
  ul_bundle :: "json \<Rightarrow> secret_bundle option"
  ul_record :: "agent_record \<Rightarrow> json"
  ul_capacity :: json
  ul_usage :: json
  ul_sha :: "u8 list \<Rightarrow> string"

definition pull_secrets :: "'g uplink \<Rightarrow> uuid \<Rightarrow> (secret_bundle, 'g host) st" where
  "pull_secrets U i h =
     (case ul_pull U i (ho_world h) of
        (out, w) \<Rightarrow>
          ((case out of
              None \<Rightarrow> Inl StreamFailed
            | Some payload \<Rightarrow>
                (case as_str (json_get ''error'' payload) of
                   Some err \<Rightarrow> Inl (SecretsRejected err)
                 | None \<Rightarrow> (case ul_bundle U payload of None \<Rightarrow> Inl SecretsUndecodable | Some b \<Rightarrow> Inr b))),
           h\<lparr>ho_world := w\<rparr>))"

definition put_secrets :: "uuid \<Rightarrow> secret_bundle \<Rightarrow> (unit, 'g host) st" where
  "put_secrets i b = act_put (\<lambda>h. h\<lparr>ho_secrets := put_bundle i b (ho_secrets h)\<rparr>)"

definition ensure_secrets :: "'g uplink \<Rightarrow> uuid \<Rightarrow> (unit, 'g host) st" where
  "ensure_secrets U i =
     act_bind (act_get (\<lambda>h. get_bundle i (ho_secrets h))) (\<lambda>have_bundle.
       if have_bundle = None then act_bind (pull_secrets U i) (put_secrets i) else act_ok ())"

text \<open>The files of a bundle: sessions and pi-home, as paths relative to the guest directory.\<close>

definition collect_files :: "path \<Rightarrow> string \<Rightarrow> tree \<Rightarrow> (string \<times> u8 list) list" where
  "collect_files guest sub t =
     map (\<lambda>(p, bs). (join ''/'' (drop (length guest) p), bs))
       (filter (\<lambda>(p, _). strict_prefix (guest @ [sub]) p) t)"

definition bundle_files :: "agent_paths \<Rightarrow> tree \<Rightarrow> (string \<times> u8 list) list" where
  "bundle_files paths t =
     collect_files (pa_guest paths) ''sessions'' t @ collect_files (pa_guest paths) ''pi-home'' t"

definition bundle_upload_messages ::
    "(u8 list \<Rightarrow> string) \<Rightarrow> agent_paths \<Rightarrow> agent_record \<Rightarrow> tree \<Rightarrow> bundle_message list" where
  "bundle_upload_messages sha paths r t =
     BundleStart (rec_manifest r) (rec_session_file r) None #
     map (\<lambda>(rel, bs). BundleFile rel (host_base64_encode bs) True (Some (sha bs))) (bundle_files paths t) @
     [BundleEnd]"

definition upload_bundle :: "'g uplink \<Rightarrow> host_env \<Rightarrow> agent_record \<Rightarrow> (unit, 'g host) st" where
  "upload_bundle U E r h =
     (let i = rec_id r;
          msgs = bundle_upload_messages (ul_sha U) (paths_for_agent (he_home E) i) r (agent_tree i h)
      in case ul_upload U i msgs (ho_world h) of
           (out, w) \<Rightarrow>
             ((case out of
                 None \<Rightarrow> Inl StreamFailed
               | Some ack \<Rightarrow>
                   if ba_success ack then Inr ()
                   else Inl (UploadRejected (unwrap_or [] (ba_message ack)))),
              h\<lparr>ho_world := w\<rparr>))"

section \<open>Orders\<close>

definition run_order :: "'g platform \<Rightarrow> 'g uplink \<Rightarrow> host_env \<Rightarrow> order \<Rightarrow> (json, 'g host) st" where
  "run_order P U E order =
     (case order of
        CreateAgent i m secrets \<Rightarrow>
          act_bind (act_get (\<lambda>h. load_record i (ho_agents h))) (\<lambda>existing.
            (case existing of
               Inr r \<Rightarrow> act_ok (ul_record U r)
             | Inl _ \<Rightarrow>
                 act_then (if \<not> bundle_is_empty secrets then put_secrets i secrets else ensure_secrets U i)
                   (act_bind (host_create_agent P E i m) (\<lambda>r. act_ok (ul_record U r)))))
      | StartAgent i force \<Rightarrow>
          act_then (ensure_secrets U i)
            (act_bind (host_start_agent P E i force) (\<lambda>r. act_ok (ul_record U r)))
      | StopAgent i _ \<Rightarrow> act_then (host_stop_agent P E i) (act_ok (JObj []))
      | SuspendAgent i only_if_idle not_since \<Rightarrow>
          act_then (act_when only_if_idle (check_suspendable E i not_since))
         (act_then (prepare_suspend P E i)
         (act_bind (load_state i) (\<lambda>r.
          act_then (upload_bundle U E r)
         (act_then (finish_suspend P E i True True)
           (act_ok (JObj []))))))
      | DestroyAgent i \<Rightarrow> act_then (host_destroy_agent P E i) (act_ok (JObj []))
      | Ping _ \<Rightarrow>
          act_ok (JObj [(''pong'', JBool True), (''capacity'', ul_capacity U), (''usage'', ul_usage U)])
      | _ \<Rightarrow> act_fail UnsupportedOrder)"

definition order_ack_of :: "host_env \<Rightarrow> host_error + json \<Rightarrow> order_ack" where
  "order_ack_of E r = (case r of
     Inr data \<Rightarrow> \<lparr>ack_success = True, ack_message = None, ack_data = Some data\<rparr>
   | Inl e \<Rightarrow> \<lparr>ack_success = False, ack_message = Some (he_show E e), ack_data = None\<rparr>)"

definition dispatch_order ::
    "'g platform \<Rightarrow> 'g uplink \<Rightarrow> host_env \<Rightarrow> order \<Rightarrow> 'g host \<Rightarrow> order_ack \<times> 'g host" where
  "dispatch_order P U E order h =
     (case run_order P U E order h of (r, h') \<Rightarrow> (order_ack_of E r, h'))"

section \<open>State reports\<close>

text \<open>Idle time of an agent that does not run comes from its record; the clock counts whole seconds.\<close>

definition enrich_activity ::
    "'g platform \<Rightarrow> host_env \<Rightarrow> 'g host \<Rightarrow> agent_state_entry \<Rightarrow> agent_state_entry" where
  "enrich_activity P E h entry =
     (let i = as_agent_id entry
      in case load_record i (ho_agents h) of
           Inr r \<Rightarrow>
             (let e1 = entry\<lparr>as_session_file := rec_session_file r\<rparr>
              in case agent_activity P i h of
                   Some (idle, busy) \<Rightarrow> e1\<lparr>as_idle_secs := Some idle, as_busy := Some busy\<rparr>
                 | None \<Rightarrow>
                     (let e2 = e1\<lparr>as_busy := Some False\<rparr>
                      in case rec_last_activity_at r of
                           None \<Rightarrow> e2
                         | Some at0 \<Rightarrow>
                             (case he_parse_time E at0 of
                                None \<Rightarrow> e2
                              | Some t \<Rightarrow> e2\<lparr>as_idle_secs :=
                                  Some (of_int (max 0 ((pl_wall P (ho_world h) - t) div 10 ^ 9)))\<rparr>)))
         | Inl _ \<Rightarrow> entry\<lparr>as_busy := map_option snd (agent_activity P i h)\<rparr>)"

definition full_snapshot :: "'g platform \<Rightarrow> host_env \<Rightarrow> 'g host \<Rightarrow> state_report" where
  "full_snapshot P E h =
     \<lparr>sr_agents = map (\<lambda>r. enrich_activity P E h
        \<lparr>as_agent_id = rec_id r, as_name = rec_name r, as_state = rec_state r, as_idle_secs = None,
         as_busy = None, as_session_file = rec_session_file r\<rparr>) (list_records (ho_agents h)),
      sr_full = True\<rparr>"

definition transition_report :: "'g platform \<Rightarrow> host_env \<Rightarrow> 'g host \<Rightarrow> agent_state_entry \<Rightarrow> state_report" where
  "transition_report P E h entry = \<lparr>sr_agents = [enrich_activity P E h entry], sr_full = False\<rparr>"

section \<open>Attach streams\<close>

datatype attach_message =
    AttPrompt string
  | AttSteer string
  | AttFollowUp string
  | AttAbort
  | AttEvent json
  | AttNotice string

definition start_attach :: "'g platform \<Rightarrow> host_env \<Rightarrow> uuid \<Rightarrow> 'g host \<Rightarrow> (host_error + unit) \<times> attach_message list \<times> 'g host" where
  "start_attach P E i h =
     (case with_running E i (\<lambda>r a. act_ok ()) h of
        (Inl e, h1) \<Rightarrow> (Inl e, [AttNotice (he_show E e)], h1)
      | (Inr _, h1) \<Rightarrow> (Inr (), [AttNotice ''attached''], touch_agent P i h1))"

definition relay_to_pi :: "'g platform \<Rightarrow> uuid \<Rightarrow> json \<Rightarrow> (unit, 'g host) st" where
  "relay_to_pi P i cmd =
     act_bind (act_get (running_of i)) (\<lambda>running.
       (case running of
          None \<Rightarrow> act_ok ()
        | Some a \<Rightarrow> act_bind (on_vm i (pi_call P (ra_driver a) cmd)) (\<lambda>_. act_ok ())))"

text \<open>One message of the operator: what is sent back, and whether the stream goes on.\<close>

definition attach_input ::
    "'g platform \<Rightarrow> host_env \<Rightarrow> uuid \<Rightarrow> attach_message \<Rightarrow> 'g host \<Rightarrow> (host_error + attach_message list) \<times> 'g host" where
  "attach_input P E i msg h =
     (case msg of
        AttPrompt m \<Rightarrow>
          (case host_prompt_agent P E i m h of
             (Inl e, h1) \<Rightarrow> (Inr [AttNotice (''prompt rejected: '' @ he_show E e)], h1)
           | (Inr _, h1) \<Rightarrow> (Inr [], h1))
      | AttSteer m \<Rightarrow>
          act_then (act_put (touch_agent P i))
            (act_then (relay_to_pi P i (message_command ''steer'' m)) (act_ok [])) h
      | AttFollowUp m \<Rightarrow>
          act_then (act_put (touch_agent P i))
            (act_then (relay_to_pi P i (message_command ''follow_up'' m)) (act_ok [])) h
      | AttAbort \<Rightarrow>
          (case running_of i h of
             None \<Rightarrow> (Inr [], h)
           | Some a \<Rightarrow> act_then (abort_running P i a) (act_ok []) h)
      | _ \<Rightarrow> (Inr [], h))"

section \<open>Shell streams\<close>

datatype shell_message =
    ShData string
  | ShResize u16 u16
  | ShExit i64
  | ShNotice string

text \<open>A command nobody replies to.\<close>

definition send_cmd :: "nat \<Rightarrow> json \<Rightarrow> (unit, 'g) act" where
  "send_cmd d cmd s = (Inr (), s\<lparr>vm_sent := vm_sent s @ [(d, cmd)]\<rparr>)"

definition shell_spawn_cmd :: "u32 \<Rightarrow> json" where
  "shell_spawn_cmd sid =
     JObj [(''cmd'', JStr ''shell_spawn''), (''shell'', json_num (unat sid)),
       (''argv'', JArr [JStr ''/bin/sh'', JStr ''-l'']), (''cwd'', JStr ''/agent/workspace''),
       (''cols'', json_num 80), (''rows'', json_num 24), (''pty'', JBool True)]"

definition start_shell ::
    "'g platform \<Rightarrow> host_env \<Rightarrow> uuid \<Rightarrow> u32 \<Rightarrow> 'g host \<Rightarrow> (host_error + nat) \<times> shell_message list \<times> 'g host" where
  "start_shell P E i sid h =
     (case running_of i h of
        None \<Rightarrow> (Inl (NotRunning i), [ShNotice (''agent '' @ i @ '' is not running'')], h)
      | Some a \<Rightarrow>
          (case on_vm i (request_timeout P (ra_driver a) (shell_spawn_cmd sid) quick_timeout) h of
             (Inl e, h1) \<Rightarrow> (Inl e, [ShNotice (''shell spawn failed: '' @ he_show E e)], h1)
           | (Inr _, h1) \<Rightarrow> (Inr (ra_driver a), [ShNotice ''shell''], touch_agent P i h1)))"

definition shell_input ::
    "'g platform \<Rightarrow> uuid \<Rightarrow> nat \<Rightarrow> u32 \<Rightarrow> shell_message \<Rightarrow> (unit, 'g host) st" where
  "shell_input P i d sid msg =
     (case msg of
        ShData data \<Rightarrow>
          act_then (act_put (touch_agent P i))
            (on_vm i (send_cmd d (JObj [(''cmd'', JStr ''shell_stdin''), (''shell'', json_num (unat sid)),
               (''data'', JStr data)])))
      | ShResize cols rows \<Rightarrow>
          on_vm i (send_cmd d (JObj [(''cmd'', JStr ''shell_resize''), (''shell'', json_num (unat sid)),
            (''cols'', json_num (unat cols)), (''rows'', json_num (unat rows))]))
      | _ \<Rightarrow> act_ok ())"

text \<open>An event of the driver: what is relayed, and whether the stream goes on.\<close>

definition shell_event :: "u32 \<Rightarrow> driver_event \<Rightarrow> shell_message list \<times> bool" where
  "shell_event sid ev =
     (case ev of
        ShellData s data \<Rightarrow> if s = sid then ([ShData data], True) else ([], True)
      | ShellExit s code \<Rightarrow> if s = sid then ([ShExit (scast code)], False) else ([], True)
      | DriverDied \<Rightarrow> ([], False)
      | _ \<Rightarrow> ([], True))"

definition close_shell :: "uuid \<Rightarrow> nat \<Rightarrow> u32 \<Rightarrow> (unit, 'g host) st" where
  "close_shell i d sid =
     on_vm i (send_cmd d (JObj [(''cmd'', JStr ''shell_close''), (''shell'', json_num (unat sid))]))"

section \<open>Restore\<close>

definition has_parent_dir :: "string \<Rightarrow> bool" where
  "has_parent_dir rel \<longleftrightarrow> ''..'' \<in> set (split_on (\<lambda>c. c = CHR ''/'') rel)"

definition write_restored :: "uuid \<Rightarrow> path \<Rightarrow> u8 list \<Rightarrow> 'g host \<Rightarrow> 'g host" where
  "write_restored i dest bytes h =
     h\<lparr>ho_agents := update_agent_dir i (ad_tree_update (put dest bytes)) (create_agent_dir i (ho_agents h))\<rparr>"

fun write_bundle_files :: "(u8 list \<Rightarrow> string) \<Rightarrow> host_env \<Rightarrow> uuid \<Rightarrow> bundle_message list \<Rightarrow> (unit, 'g host) st" where
  "write_bundle_files sha E i [] h = (Inl StreamFailed, h)"
| "write_bundle_files sha E i (m # ms) h =
     (case m of
        BundleFile rel data _ sha256 \<Rightarrow>
          if starts_with rel ''/'' \<or> has_parent_dir rel then (Inl (UnsafeBundlePath rel), h)
          else if starts_with rel ''sessions/'' then write_bundle_files sha E i ms h
          else (case base64_decode data of
            Inl e \<Rightarrow> (Inl (BundleBase64 e), h)
          | Inr bytes \<Rightarrow>
              if (case sha256 of None \<Rightarrow> False | Some want \<Rightarrow> sha bytes \<noteq> want)
              then (Inl (BundleChecksum rel), h)
              else write_bundle_files sha E i ms
                (write_restored i (path_join (pa_guest (paths_for_agent (he_home E) i)) rel) bytes h))
      | BundleEnd \<Rightarrow> (Inr (), h)
      | _ \<Rightarrow> (Inl BadBundleMessage, h))"

definition receive_restore ::
    "'g platform \<Rightarrow> 'g uplink \<Rightarrow> host_env \<Rightarrow> uuid \<Rightarrow> bundle_message list \<Rightarrow> (agent_record, 'g host) st" where
  "receive_restore P U E i msgs =
     (case msgs of
        [] \<Rightarrow> act_fail StreamFailed
      | m # rest \<Rightarrow>
          (case m of
             BundleStart manifest _ secrets \<Rightarrow>
               act_then (case secrets of None \<Rightarrow> act_ok () | Some b \<Rightarrow> put_secrets i b)
                 (act_then (write_bundle_files (ul_sha U) E i rest) (host_restore_agent P E i manifest None))
           | _ \<Rightarrow> act_fail BadBundleStart))"

definition handle_restore ::
    "'g platform \<Rightarrow> 'g uplink \<Rightarrow> host_env \<Rightarrow> uuid \<Rightarrow> bundle_message list \<Rightarrow> 'g host \<Rightarrow> bundle_ack \<times> 'g host" where
  "handle_restore P U E i msgs h =
     (case receive_restore P U E i msgs h of
        (Inr _, h') \<Rightarrow> (\<lparr>ba_success = True, ba_message = None\<rparr>, h')
      | (Inl e, h') \<Rightarrow> (\<lparr>ba_success = False, ba_message = Some (he_show E e)\<rparr>, h'))"

section \<open>Bundle freshness\<close>

record ship_state =
  sp_last_activity :: "nat option"
  sp_last_upload :: "nat option"

definition secs_since :: "nat \<Rightarrow> nat option \<Rightarrow> nat option" where
  "secs_since now t = map_option (\<lambda>t. (now - t) div 10 ^ 9) t"

definition bundle_due :: "u64 \<Rightarrow> u64 \<Rightarrow> nat \<Rightarrow> ship_state \<Rightarrow> bool" where
  "bundle_due quiet_secs max_stale_secs now st =
     (let dirty = (case (sp_last_activity st, sp_last_upload st) of
            (Some a, Some u) \<Rightarrow> a > u
          | (a, _) \<Rightarrow> a \<noteq> None);
          quiet_enough = (case secs_since now (sp_last_activity st) of None \<Rightarrow> False | Some s \<Rightarrow> s \<ge> unat quiet_secs);
          too_stale = (case secs_since now (sp_last_upload st) of None \<Rightarrow> False | Some s \<Rightarrow> s \<ge> unat max_stale_secs)
      in dirty \<and> quiet_enough \<or> too_stale)"

definition refresh_enabled :: "u64 \<Rightarrow> u64 \<Rightarrow> bool" where
  "refresh_enabled quiet_secs max_stale_secs \<longleftrightarrow> quiet_secs > 0 \<or> max_stale_secs > 0"

fun refresh_list ::
    "'g platform \<Rightarrow> 'g uplink \<Rightarrow> host_env \<Rightarrow> u64 \<Rightarrow> u64 \<Rightarrow> agent_record list \<Rightarrow> (uuid \<Rightarrow> ship_state) \<Rightarrow> 'g host \<Rightarrow>
      (host_error + unit) \<times> (uuid \<Rightarrow> ship_state) \<times> 'g host" where
  "refresh_list P U E quiet_secs max_stale_secs [] ships h = (Inr (), ships, h)"
| "refresh_list P U E quiet_secs max_stale_secs (r # rs) ships h =
     (let i = rec_id r
      in if running_of i h = None \<or> \<not> bundle_due quiet_secs max_stale_secs (pl_mono P (ho_world h)) (ships i)
         then refresh_list P U E quiet_secs max_stale_secs rs ships h
         else (case upload_bundle U E (loaded_or r h) h of
           (Inl e, h1) \<Rightarrow> (Inl e, ships, h1)
         | (Inr _, h1) \<Rightarrow>
             (let ships' = ships(i := (ships i)\<lparr>sp_last_upload := Some (pl_mono P (ho_world h1))\<rparr>);
                  marker = path_join (pa_root (paths_for_agent (he_home E) i)) ''.bundle_uploaded'';
                  h2 = h1\<lparr>ho_agents := update_agent_dir i (ad_tree_update (put marker [])) (ho_agents h1)\<rparr>
              in refresh_list P U E quiet_secs max_stale_secs rs ships' h2)))"

definition refresh_bundles ::
    "'g platform \<Rightarrow> 'g uplink \<Rightarrow> host_env \<Rightarrow> u64 \<Rightarrow> u64 \<Rightarrow> (uuid \<Rightarrow> ship_state) \<Rightarrow> 'g host \<Rightarrow>
      (host_error + unit) \<times> (uuid \<Rightarrow> ship_state) \<times> 'g host" where
  "refresh_bundles P U E quiet_secs max_stale_secs ships h =
     refresh_list P U E quiet_secs max_stale_secs (list_records (ho_agents h)) ships h"

end
