(* ===== verification/Host_Control_Theorems.thy ===== *)
theory Host_Control_Theorems
  imports Host_Control Supervisor_Theorems
begin

text \<open>
  Orders end to end: a suspend hands every session file to the control plane's bundle store before
  it is removed from the host, a guarded suspend leaves a busy agent alone, a restore stays inside
  the agent's guest directory, and the host's base64 is the control plane's.
\<close>

section \<open>One base64\<close>

lemma host_base64_is_base64: "host_base64_encode bs = base64_encode bs"
proof (induction bs rule: host_base64_encode.induct)
  case (4 b0 b1 b2 bs)
  have "encode_chunk [b0, b1, b2] = host_sextets b0 b1 b2"
    by (simp add: encode_chunk_def host_sextets_def sextet_def six_bits_def pack3_def chunk_at_def Let_def)
  then show ?case using 4 by (simp add: base64_encode_def)
qed (simp_all add: base64_encode_def encode_chunk_def host_sextets_def sextet_def six_bits_def
      pack3_def chunk_at_def Let_def numeral_2_eq_2 numeral_3_eq_3)

section \<open>Paths and their texts\<close>

definition name_ok :: "string \<Rightarrow> bool" where
  "name_ok c \<longleftrightarrow> c \<noteq> [] \<and> c \<noteq> ''.'' \<and> CHR ''/'' \<notin> set c"

lemma split_on_word:
  "\<forall>c \<in> set w. \<not> p c \<Longrightarrow> split_on p w = [w]"
  "\<forall>c \<in> set w. \<not> p c \<Longrightarrow> p d \<Longrightarrow> split_on p (w @ d # s) = w # split_on p s"
  by (induction w) auto

lemma components_join:
  assumes "\<forall>c \<in> set cs. name_ok c"
  shows "components (join ''/'' cs) = cs"
  using assms
proof (induction cs rule: induct_list012)
  case (2 c)
  then have "split_on (\<lambda>c. c = CHR ''/'') c = [c]"
    by (intro split_on_word(1)) (auto simp: name_ok_def)
  then show ?case using 2 by (simp add: components_def name_ok_def)
next
  case (3 c d cs)
  have "split_on (\<lambda>c. c = CHR ''/'') (c @ CHR ''/'' # join ''/'' (d # cs)) =
      c # split_on (\<lambda>c. c = CHR ''/'') (join ''/'' (d # cs))"
    using "3.prems" by (intro split_on_word(2)) (auto simp: name_ok_def)
  then show ?case using 3 by (simp add: components_def name_ok_def)
qed (simp add: components_def)

definition wf_tree :: "tree \<Rightarrow> bool" where
  "wf_tree t \<longleftrightarrow> distinct (map fst t) \<and> (\<forall>p \<in> fst ` set t. \<forall>c \<in> set p. name_ok c)"

section \<open>What an accepted upload has stored\<close>

lemma stored_after_write:
  assumes "write_file_in sha base i rel d h s = (Inr u, s')" "base64_decode d = Inr bs"
    "\<not> starts_with rel ''/''"
  shows "stored_file base i p s' = (if p = components rel then Some bs else stored_file base i p s)"
  using assms
  by (cases rule: write_file_cases [of sha base i rel d h s])
    (auto simp: path_join_rel stored_file_def)

definition file_messages :: "(u8 list \<Rightarrow> string) \<Rightarrow> (string \<times> u8 list) list \<Rightarrow> bundle_message list" where
  "file_messages sha fs = map (\<lambda>(rel, bs). BundleFile rel (host_base64_encode bs) True (Some (sha bs))) fs"

lemma receive_files_stores:
  assumes "receive_files sha base i (file_messages sha fs @ [BundleEnd]) s = (Inr u, s')"
    "\<forall>f \<in> set fs. \<not> starts_with (fst f) ''/''"
  shows "stored_file base i p s' =
    ((\<lambda>p. stored_file base i p s) ++ map_of (rev (map (\<lambda>(rel, bs). (components rel, bs)) fs))) p"
  using assms
proof (induction fs arbitrary: s)
  case (Cons f fs)
  obtain rel bs where f: "f = (rel, bs)" by (cases f)
  obtain r s1 where w: "write_file_in sha base i rel (base64_encode bs) (Some (sha bs)) s = (r, s1)"
    by fastforce
  then obtain v where ok: "r = Inr v"
    "receive_files sha base i (file_messages sha fs @ [BundleEnd]) s1 = (Inr u, s')"
    using Cons.prems(1) f by (cases r) (auto simp: file_messages_def host_base64_is_base64)
  have "stored_file base i q s1 = (if q = components rel then Some bs else stored_file base i q s)" for q
    using stored_after_write [OF w [unfolded ok(1)] base64_roundtrip] Cons.prems(2) f by simp
  then show ?case
    using Cons.IH [OF ok(2)] Cons.prems(2) f by (auto simp: map_add_def split: option.splits)
qed (simp add: file_messages_def)

lemma collect_rel:
  assumes "(rel, bs) \<in> set (collect_files guest sub t)" "wf_tree t"
  obtains p where "(guest @ p, bs) \<in> set t" "rel = join ''/'' p" "components rel = p"
    "strict_prefix [sub] p"
proof -
  obtain q where q: "(q, bs) \<in> set t" "strict_prefix (guest @ [sub]) q" "rel = join ''/'' (drop (length guest) q)"
    using assms(1) by (auto simp: collect_files_def)
  then obtain z zs where z: "q = guest @ sub # z # zs"
    by (auto elim: strict_prefixE')
  have "\<forall>c \<in> set (sub # z # zs). name_ok c"
    using assms(2) q(1) z by (force simp: wf_tree_def)
  then show thesis
    using that [of "sub # z # zs"] q z components_join [of "sub # z # zs"] by simp
qed

lemma sub_rel_relative:
  assumes "(rel, bs) \<in> set (bundle_files paths t)" "wf_tree t"
  shows "\<not> starts_with rel ''/''"
  using assms
  by (auto simp: bundle_files_def elim!: collect_rel strict_prefixE')
    (auto simp: starts_with_def)

lemma session_in_bundle:
  assumes "map_of t p = Some bs" "is_session_file paths p" "pa_sessions paths = pa_guest paths @ [''sessions'']"
  shows "(join ''/'' [''sessions'', last p], bs) \<in> set (bundle_files paths t)"
    and "p = pa_guest paths @ [''sessions'', last p]"
proof -
  obtain zs where zs: "p = pa_sessions paths @ zs" "length zs = Suc 0"
    using assms(2) by (auto simp: is_session_file_def prefix_def)
  then obtain z where p: "p = pa_sessions paths @ [z]" by (cases zs) auto
  then show "p = pa_guest paths @ [''sessions'', last p]" using assms(3) by simp
  have "(p, bs) \<in> set t" using assms(1) by (rule map_of_SomeD)
  moreover have "strict_prefix (pa_guest paths @ [''sessions'']) p"
    using p assms(3) by (auto simp: strict_prefix_def)
  ultimately show "(join ''/'' [''sessions'', last p], bs) \<in> set (bundle_files paths t)"
    using p assms(3) by (force simp: bundle_files_def collect_files_def)
qed

lemma upload_stores_sessions:
  assumes up: "handle_bundle_upload sha base i (bundle_upload_messages sha paths r t) s = (Inr u, s')"
    and t: "wf_tree t" "map_of t p = Some bs" "is_session_file paths p"
    and paths: "pa_sessions paths = pa_guest paths @ [''sessions'']"
  shows "stored_file base i [''sessions'', last p] s' = Some bs"
proof -
  let ?fs = "bundle_files paths t"
  let ?kv = "map (\<lambda>(rel, bs). (components rel, bs)) ?fs"
  have rel: "\<forall>f \<in> set ?fs. \<not> starts_with (fst f) ''/''"
    using sub_rel_relative [OF _ t(1)] by fastforce
  have "receive_files sha base i (file_messages sha ?fs @ [BundleEnd])
      (write_start_in base i (rec_manifest r) (rec_session_file r) s) = (Inr u, s')"
    using up by (simp add: handle_bundle_upload_def bundle_upload_messages_def file_messages_def)
  note stored = receive_files_stores [OF this rel]
  have unique: "cs = bs" if mem: "([''sessions'', last p], cs) \<in> set ?kv" for cs
  proof -
    obtain rel where r': "(rel, cs) \<in> set ?fs" "[''sessions'', last p] = components rel"
      using mem by auto
    note r = r'(1) r'(2) [symmetric]
    then obtain sub where "(rel, cs) \<in> set (collect_files (pa_guest paths) sub t)"
      by (auto simp: bundle_files_def)
    then have "(pa_guest paths @ [''sessions'', last p], cs) \<in> set t"
      using r(2) t(1) by (auto elim: collect_rel)
    then show "cs = bs"
      using session_in_bundle(2) [OF t(2,3) paths] t(1,2) by (auto simp: wf_tree_def)
  qed
  have "(join ''/'' [''sessions'', last p], bs) \<in> set ?fs" by (rule session_in_bundle(1) [OF t(2,3) paths])
  moreover have "components (join ''/'' [''sessions'', last p]) = [''sessions'', last p]"
  proof (rule components_join)
    have "p \<in> fst ` set t" using map_of_SomeD [OF t(2)] by force
    then have "\<forall>c \<in> set p. name_ok c" using t(1) unfolding wf_tree_def by blast
    moreover have "set [''sessions'', last p] \<subseteq> set p"
      by (subst session_in_bundle(2) [OF t(2,3) paths]) auto
    ultimately show "\<forall>c \<in> set [''sessions'', last p]. name_ok c" by blast
  qed
  ultimately have "([''sessions'', last p], bs) \<in> set ?kv" by force
  then have "[''sessions'', last p] \<in> fst ` set (rev ?kv)" by (metis fst_conv imageI set_rev)
  then have "map_of (rev ?kv) [''sessions'', last p] \<noteq> None" by (simp only: map_of_eq_None_iff not_not simp_thms)
  then obtain cs where "map_of (rev ?kv) [''sessions'', last p] = Some cs" by blast
  moreover from this have "cs = bs" using unique map_of_SomeD by fastforce
  ultimately show ?thesis using stored by (simp add: map_add_Some_iff)
qed

section \<open>A quiet guest, a control plane behind the uplink\<close>

text \<open>
  The named hypotheses of the suspend property: the VM's calls do not change the agent's files any
  more (the guest writes nothing while it is being suspended) nor the control plane's store, and
  the uplink's uploads are handled by the control plane, whose acknowledgement may be lost.\<close>

definition quiet_platform :: "'g platform \<Rightarrow> ('g \<Rightarrow> bundle_store) \<Rightarrow> bool" where
  "quiet_platform P cp \<longleftrightarrow>
     (\<forall>d cmd n t w. fst (snd (pl_request P d cmd n (t, w))) = t \<and>
        cp (snd (snd (pl_request P d cmd n (t, w)))) = cp w) \<and>
     (\<forall>d cmd t w. fst (snd (pl_command P d cmd (t, w))) = t \<and>
        cp (snd (snd (pl_command P d cmd (t, w)))) = cp w) \<and>
     (\<forall>n w. cp (pl_sleep P n w) = cp w)"

definition central_uplink :: "'g uplink \<Rightarrow> path \<Rightarrow> ('g \<Rightarrow> bundle_store) \<Rightarrow> bool" where
  "central_uplink U base cp \<longleftrightarrow>
     (\<forall>i msgs w. \<exists>show_error r. handle_bundle_upload (ul_sha U) base i msgs (cp w) = (r, cp (snd (ul_upload U i msgs w))) \<and>
        (fst (ul_upload U i msgs w) = None \<or> fst (ul_upload U i msgs w) = Some (upload_ack show_error r)))"

definition files_and_store ::
    "('g \<Rightarrow> bundle_store) \<Rightarrow> uuid \<Rightarrow> (tree \<Rightarrow> bool) \<Rightarrow> bundle_store \<Rightarrow> 'g host \<Rightarrow> bool" where
  "files_and_store cp i T c h \<longleftrightarrow> T (agent_tree i h) \<and> cp (ho_world h) = c"

definition quiet_act :: "('g \<Rightarrow> bundle_store) \<Rightarrow> ('a, 'g) act \<Rightarrow> bool" where
  "quiet_act cp m \<longleftrightarrow> (\<forall>s. vm_tree (snd (m s)) = vm_tree s \<and> cp (vm_world (snd (m s))) = cp (vm_world s))"

lemma quiet_request: "quiet_platform P cp \<Longrightarrow> quiet_act cp (request_timeout P d cmd n)"
  unfolding quiet_act_def
proof
  fix s :: "'a vm"
  assume q: "quiet_platform P cp"
  obtain out t w where c: "pl_request P d cmd n (vm_tree s, vm_world s) = (out, t, w)"
    by (metis prod.exhaust)
  have "fst (snd (pl_request P d cmd n (vm_tree s, vm_world s))) = vm_tree s"
    "cp (snd (snd (pl_request P d cmd n (vm_tree s, vm_world s)))) = cp (vm_world s)"
    using q by (simp_all add: quiet_platform_def)
  then show "vm_tree (snd (request_timeout P d cmd n s)) = vm_tree s \<and>
      cp (vm_world (snd (request_timeout P d cmd n s))) = cp (vm_world s)"
    by (simp add: request_timeout_def c)
qed

lemma quiet_pi_call: "quiet_platform P cp \<Longrightarrow> quiet_act cp (pi_call P d cmd)"
  unfolding quiet_act_def
proof
  fix s :: "'a vm"
  assume q: "quiet_platform P cp"
  obtain out t w where c: "pl_command P d cmd (vm_tree s, vm_world s) = (out, t, w)"
    by (metis prod.exhaust)
  have "fst (snd (pl_command P d cmd (vm_tree s, vm_world s))) = vm_tree s"
    "cp (snd (snd (pl_command P d cmd (vm_tree s, vm_world s)))) = cp (vm_world s)"
    using q by (simp_all add: quiet_platform_def)
  then show "vm_tree (snd (pi_call P d cmd s)) = vm_tree s \<and>
      cp (vm_world (snd (pi_call P d cmd s))) = cp (vm_world s)"
    by (simp add: pi_call_def c)
qed

lemma quiet_close: "quiet_platform P cp \<Longrightarrow> quiet_act cp (close_vm P d)"
  using quiet_request [of P cp d] by (simp add: quiet_act_def close_vm_def)

lemma quiet_checkpoint: "quiet_platform P cp \<Longrightarrow> quiet_act cp (checkpoint_vm P d p)"
  using quiet_request [of P cp d]
  by (auto simp: quiet_act_def checkpoint_vm_def act_bind_def act_ok_def split: prod.split sum.split)
    (metis snd_conv)+

lemma agent_tree_update:
  "agent_tree i (h\<lparr>ho_agents := update_agent_dir j f (ho_agents h)\<rparr>) =
     (if i = j then (case map_of (ho_agents h) i of None \<Rightarrow> [] | Some d \<Rightarrow> ad_tree (f d)) else agent_tree i h)"
  by (auto simp: agent_tree_def hostdir split: option.splits)

lemma keeps_quiet_vm:
  assumes "quiet_act cp m"
  shows "keeps (files_and_store cp i T c) (on_vm j m)"
proof (rule keepsI)
  fix h
  assume I: "files_and_store cp i T c h"
  let ?s = "\<lparr>vm_tree = agent_tree j h, vm_world = ho_world h, vm_sent = ho_sent h\<rparr>"
  obtain r s' where m: "m ?s = (r, s')" by fastforce
  have "vm_tree s' = agent_tree j h" "cp (vm_world s') = cp (ho_world h)"
    using assms m unfolding quiet_act_def by (metis snd_conv vm.select_convs)+
  moreover have "snd (on_vm j m h) =
      h\<lparr>ho_agents := update_agent_dir j (ad_tree_update (\<lambda>_. vm_tree s')) (ho_agents h),
        ho_world := vm_world s', ho_sent := vm_sent s'\<rparr>"
    using m by (simp add: on_vm_def agent_tree_def)
  ultimately show "files_and_store cp i T c (snd (on_vm j m h))"
    using I by (auto simp: files_and_store_def agent_tree_def hostdir split: option.splits)
qed

lemma agent_tree_simps [simp]:
  "agent_tree i (update_running j f h) = agent_tree i h"
  "agent_tree i (remove_running j h) = agent_tree i h"
  "agent_tree i (report_state r h) = agent_tree i h"
  "agent_tree i (note_activity P j h) = agent_tree i h"
  "agent_tree i (h\<lparr>ho_world := w\<rparr>) = agent_tree i h"
  by (simp_all add: agent_tree_def update_running_def remove_running_def report_state_def note_activity_def)

lemma agent_tree_journal [simp]: "agent_tree i (journal_event P E j k p h) = agent_tree i h"
  by (auto simp: journal_event_def agent_tree_def hostdir split: option.split prod.split)

lemma ho_world_more [simp]:
  "ho_world (remove_running i h) = ho_world h" "ho_world (report_state r h) = ho_world h"
  "ho_world (note_activity P i h) = ho_world h"
  by (simp_all add: remove_running_def report_state_def note_activity_def)

lemma files_and_store_put [keeping]:
  "(\<And>h. agent_tree i (f h) = agent_tree i h) \<Longrightarrow> (\<And>h. cp (ho_world (f h)) = cp (ho_world h)) \<Longrightarrow>
     keeps (files_and_store cp i T c) (act_put f)"
  by (rule keeps_put) (simp add: files_and_store_def)

lemma save_state_effect:
  "snd (save_state r h) = h \<or>
   snd (save_state r h) =
     h\<lparr>ho_agents := update_agent_dir (rec_id r) (ad_record_update (\<lambda>_. Some r)) (ho_agents h)\<rparr>"
proof (cases "save_record r (ho_agents h)")
  case (Inr ds)
  then show ?thesis using save_record_update [of r "ho_agents h" ds] by (simp add: save_state_def)
qed (simp add: save_state_def)

lemma agent_tree_save [simp]: "agent_tree i (snd (save_state r h)) = agent_tree i h"
  using save_state_effect [of r h]
  by (auto simp: agent_tree_def hostdir split: option.splits if_splits)

lemma ho_world_save [simp]: "ho_world (snd (save_state r h)) = ho_world h"
  using save_state_effect [of r h] by auto

lemma files_and_store_save: "keeps (files_and_store cp i T c) (save_state r)"
proof (rule keepsI)
  fix h
  assume "files_and_store cp i T c h"
  then show "files_and_store cp i T c (snd (save_state r h))" by (simp add: files_and_store_def)
qed

lemma keeps_abort:
  "quiet_platform P cp \<Longrightarrow> keeps (files_and_store cp i T c) (abort_running P j a)"
  unfolding abort_running_def
  by (intro keeps_then keeps_bind keeps_ok files_and_store_put keeps_quiet_vm quiet_pi_call) simp_all

lemma keeps_find [keeping]: "keeps I (find_state E q)" and keeps_load [keeping]: "keeps I (load_state i)"
  by (simp_all add: keeps_def find_state_def load_state_def)

lemma keeps_with_running:
  "(\<And>r a. keeps I (f r a)) \<Longrightarrow> keeps I (with_running E q f)"
  unfolding with_running_def by (intro keeps_bind keeps_find keeps_get) (auto intro: keeping split: option.split)

lemma keeps_prepare:
  assumes "quiet_platform P cp"
  shows "keeps (files_and_store cp i T c) (prepare_suspend P E q)"
  unfolding prepare_suspend_def
  using assms
  by (intro keeps_with_running keeps_then keeps_ignore keeps_abort files_and_store_put)
    (simp_all add: quiet_platform_def)

lemma keeps_dirs_prepare: "keeps (dirs_ok ks) (prepare_suspend P E q)"
  unfolding prepare_suspend_def abort_running_def
  by (intro keeps_with_running keeps_then keeps_bind keeps_ok keeps_ignore keeps_put keeps_on_vm) simp_all

text \<open>Rotation: session files go, nothing else does.\<close>

definition unsession :: "host_env \<Rightarrow> uuid \<Rightarrow> tree \<Rightarrow> tree" where
  "unsession E i = filter (\<lambda>(p, _). \<not> is_session_file (paths_for_agent (he_home E) i) p)"

lemma agent_tree_rotate:
  "agent_tree i (rotate_sessions E j h) = (if i = j then unsession E i (agent_tree i h) else agent_tree i h)"
  by (cases "i = j"; cases "map_of (ho_agents h) i")
    (simp_all add: rotate_sessions_def Let_def unsession_def agent_tree_def hostdir)

lemma ho_world_rotate [simp]: "ho_world (rotate_sessions E i h) = ho_world h"
  by (simp add: rotate_sessions_def Let_def)

lemma keeps_rotate:
  assumes "\<And>t. T t \<Longrightarrow> T (unsession E i t)"
  shows "keeps (files_and_store cp i T c) (rotate P E r)"
proof -
  have "keeps (files_and_store cp i T c) (act_put (rotate_sessions E (rec_id r)))"
    using assms by (intro keeps_put) (auto simp: files_and_store_def agent_tree_rotate)
  then show ?thesis
    unfolding rotate_def Let_def
    by (rule keeps_then) (intro keeps_then files_and_store_save files_and_store_put keeps_ok; simp)
qed

lemma keeps_finish_rest:
  assumes "quiet_platform P cp"
  shows "keeps (files_and_store cp i T c)
    (act_bind (if checkpoint then act_optional (on_vm j (checkpoint_vm P d p)) else act_ok None) (\<lambda>cpt.
       act_then (on_vm j (close_vm P d))
      (act_then (act_put (journal_event P E j k (JObj [])))
      (act_then (act_put (remove_running j))
        (act_then (save_state (f cpt)) (act_put (report_state (f cpt))))))))"
  using quiet_close [OF assms] quiet_checkpoint [OF assms]
  by (intro keeps_bind keeps_then files_and_store_save files_and_store_put)
    (auto intro!: keeps_optional keeps_quiet_vm simp: keeps_ok)

lemma keeps_finish:
  assumes "quiet_platform P cp" "\<And>t. T t \<Longrightarrow> T (unsession E i t)"
  shows "keeps (files_and_store cp i T c) (finish_suspend P E q checkpoint rotate_session)"
  unfolding finish_suspend_def Let_def
proof (intro keeps_with_running)
  fix r0 :: agent_record and a :: running_agent
  have rot: "keeps (files_and_store cp i T c) (if rotate_session then rotate P E r0 else act_ok r0)"
    by (auto intro: keeps_rotate assms(2) keeps_ok)
  show "keeps (files_and_store cp i T c)
    (act_bind (if rotate_session then rotate P E r0 else act_ok r0) (\<lambda>r.
     act_bind (if checkpoint
         then act_optional (on_vm (rec_id r0) (checkpoint_vm P (ra_driver a)
            (path_text (checkpoint_path (paths_for_agent (he_home E) (rec_id r0))))))
         else act_ok None) (\<lambda>cpt.
     act_then (on_vm (rec_id r0) (close_vm P (ra_driver a)))
    (act_then (act_put (journal_event P E (rec_id r0) (if checkpoint then ''suspended'' else ''stopped'') (JObj [])))
    (act_then (act_put (remove_running (rec_id r0)))
      (act_then (save_state (r\<lparr>rec_state := Suspended,
            rec_last_activity_at := Some (he_rfc3339 E (ra_last_wall a)),
            rec_checkpoint := case cpt of None \<Rightarrow> rec_checkpoint r | Some p \<Rightarrow> Some p\<rparr>))
        (act_put (report_state (r\<lparr>rec_state := Suspended,
            rec_last_activity_at := Some (he_rfc3339 E (ra_last_wall a)),
            rec_checkpoint := case cpt of None \<Rightarrow> rec_checkpoint r | Some p \<Rightarrow> Some p\<rparr>)))))))))"
    by (rule keeps_bind [OF rot keeps_finish_rest [OF assms(1)]])
qed

section \<open>A suspend, step by step\<close>

lemma act_bind_cases:
  assumes "act_bind m f s = (res, s')"
  obtains (failed) e where "m s = (Inl e, s')" "res = Inl e"
  | (went_on) a s1 where "m s = (Inr a, s1)" "f a s1 = (res, s')"
proof -
  obtain r s1 where m: "m s = (r, s1)" by fastforce
  show thesis using assms m failed went_on by (cases r) (auto simp: act_bind_def)
qed

lemma act_then_cases:
  assumes "act_then m k s = (res, s')"
  obtains (failed) e where "m s = (Inl e, s')" "res = Inl e"
  | (went_on) s1 where "m s = (Inr (), s1)" "k s1 = (res, s')"
  using assms unfolding act_then_def by (cases rule: act_bind_cases) auto

lemma check_suspendable_pure: "snd (check_suspendable E q ns h) = h"
  by (auto simp: check_suspendable_def act_bind_def act_get_def act_ok_def act_fail_def find_state_def
      split: prod.split sum.split option.split)

lemma guard_pure: "snd (act_when b (check_suspendable E q ns) h) = h"
  by (simp add: act_when_def check_suspendable_pure act_ok_def)

lemma run_suspend_cases:
  assumes "run_order P U E (SuspendAgent i only ns) h = (res, h')"
  obtains (refused) e where "res = Inl e" "h' = h"
  | (stopped) e where "prepare_suspend P E i h = (Inl e, h')" "res = Inl e"
  | (unloaded) e where "prepare_suspend P E i h = (Inr (), h')" "res = Inl e"
  | (rejected) e h1 r where "prepare_suspend P E i h = (Inr (), h1)" "load_record i (ho_agents h1) = Inr r"
      "upload_bundle U E r h1 = (Inl e, h')" "res = Inl e"
  | (unfinished) e h1 r h2 where "prepare_suspend P E i h = (Inr (), h1)" "load_record i (ho_agents h1) = Inr r"
      "upload_bundle U E r h1 = (Inr (), h2)" "finish_suspend P E i True True h2 = (Inl e, h')" "res = Inl e"
  | (complete) h1 r h2 where "prepare_suspend P E i h = (Inr (), h1)" "load_record i (ho_agents h1) = Inr r"
      "upload_bundle U E r h1 = (Inr (), h2)" "finish_suspend P E i True True h2 = (Inr (), h')" "res = Inr (JObj [])"
proof -
  note run = assms [unfolded run_order_def order.case]
  show thesis
  proof (cases rule: act_then_cases [OF run])
    case 1
    then show ?thesis using refused guard_pure [of only E i ns h] by simp
  next
    case (2 h0)
    have h0: "h0 = h" using 2(1) guard_pure [of only E i ns h] by simp
    show ?thesis
    proof (cases rule: act_then_cases [OF 2(2) [unfolded h0]])
      case 1
      then show ?thesis by (rule stopped)
    next
      case (2 h1)
      note prep = 2(1)
      show ?thesis
      proof (cases rule: act_bind_cases [OF 2(2)])
        case (1 e)
        then show ?thesis using prep unloaded by (simp add: load_state_def)
      next
        case (2 r h1')
        then have r: "load_record i (ho_agents h1) = Inr r" "h1' = h1"
          by (auto simp: load_state_def lift_registry_def split: sum.splits)
        show ?thesis
        proof (cases rule: act_then_cases [OF 2(2) [unfolded r(2)]])
          case (1 e)
          then show ?thesis by (intro rejected [OF prep r(1)])
        next
          case (2 h2)
          note up = 2(1)
          show ?thesis
          proof (cases rule: act_then_cases [OF 2(2)])
            case 1
            then show ?thesis by (intro unfinished [OF prep r(1) up])
          next
            case (2 h3)
            then show ?thesis by (intro complete [OF prep r(1) up]) (auto simp: act_ok_def)
          qed
        qed
      qed
    qed
  qed
qed

section \<open>What a suspend leaves behind\<close>

lemma upload_cases:
  assumes "upload_bundle U E r h = (res, h')" "central_uplink U base cp"
  shows "ho_agents h' = ho_agents h \<and> ho_running h' = ho_running h \<and>
    (res = Inr () \<longrightarrow> (\<exists>u. handle_bundle_upload (ul_sha U) base (rec_id r)
       (bundle_upload_messages (ul_sha U) (paths_for_agent (he_home E) (rec_id r)) r (agent_tree (rec_id r) h))
       (cp (ho_world h)) = (Inr u, cp (ho_world h'))))"
proof -
  let ?msgs = "bundle_upload_messages (ul_sha U) (paths_for_agent (he_home E) (rec_id r)) r (agent_tree (rec_id r) h)"
  obtain out w where u: "ul_upload U (rec_id r) ?msgs (ho_world h) = (out, w)" by fastforce
  obtain show_error q where q: "handle_bundle_upload (ul_sha U) base (rec_id r) ?msgs (cp (ho_world h)) = (q, cp w)"
    "out = None \<or> out = Some (upload_ack show_error q)"
    using assms(2) [unfolded central_uplink_def] u by (metis fst_conv snd_conv)
  have "ba_success (upload_ack show_error q) \<Longrightarrow> \<exists>u. q = Inr u"
    by (cases q) (simp_all add: upload_ack_def)
  then show ?thesis
    using assms(1) u q by (auto simp: upload_bundle_def split: if_splits)
qed

lemma running_of_simps [simp]:
  "running_of i (journal_event P E j k p h) = running_of i h"
  "running_of i (report_state r h) = running_of i h"
  "running_of i (snd (save_state r h)) = running_of i h"
  "running_of i (remove_running j h) = (if i = j then None else running_of i h)"
  using save_state_effect [of r h]
  by (auto simp: running_of_def journal_event_def report_state_def remove_running_def bt_lookup_remove
      split: option.split prod.split)

lemma finish_suspend_done:
  assumes fin: "finish_suspend P E i True True h = (Inr (), h')"
    and quiet: "quiet_platform P cp" and i: "he_uuid E i = Some i" and h: "dirs_ok ks h"
  shows "(\<exists>r. load_record i (ho_agents h') = Inr r \<and> rec_state r = Suspended \<and> rec_session_file r = None) \<and>
    running_of i h' = None \<and>
    (\<forall>p. is_session_file (paths_for_agent (he_home E) i) p \<longrightarrow> map_of (agent_tree i h') p = None)"
proof -
  obtain r0 where r0: "load_record i (ho_agents h) = Inr r0"
    using fin i by (cases "load_record i (ho_agents h)")
      (auto simp: finish_suspend_def with_running_def act_bind_def find_state_def find_record_id lift_registry_def)
  have id: "rec_id r0 = i"
    using find_record_id [of "he_uuid E" i "ho_agents h"] i r0 h
    by (auto simp: load_record_def dirs_ok_def wf_agents_dir_def dest!: map_of_SomeD split: option.splits)
  obtain a where a: "running_of i h = Some a"
    using fin i r0 id by (cases "running_of i h")
      (auto simp: finish_suspend_def with_running_def act_bind_def act_get_def act_fail_def find_state_def
        find_record_id lift_registry_def)
  let ?r = "r0\<lparr>rec_session_file := None\<rparr>"
  let ?rest = "\<lambda>f. act_bind (act_optional (on_vm i (checkpoint_vm P (ra_driver a)
            (path_text (checkpoint_path (paths_for_agent (he_home E) i)))))) (\<lambda>cpt.
       act_then (on_vm i (close_vm P (ra_driver a)))
      (act_then (act_put (journal_event P E i ''suspended'' (JObj [])))
      (act_then (act_put (remove_running i))
        (act_then (save_state (f cpt)) (act_put (report_state (f cpt)))))))"
  let ?f = "\<lambda>cpt. ?r\<lparr>rec_state := Suspended, rec_last_activity_at := Some (he_rfc3339 E (ra_last_wall a)),
        rec_checkpoint := case cpt of None \<Rightarrow> rec_checkpoint ?r | Some p \<Rightarrow> Some p\<rparr>"
  have "act_bind (rotate P E r0) (\<lambda>r. ?rest (\<lambda>cpt. r\<lparr>rec_state := Suspended,
        rec_last_activity_at := Some (he_rfc3339 E (ra_last_wall a)),
        rec_checkpoint := case cpt of None \<Rightarrow> rec_checkpoint r | Some p \<Rightarrow> Some p\<rparr>)) h = (Inr (), h')"
    using fin i r0 id a
    by (simp add: finish_suspend_def with_running_def act_bind_def act_get_def find_state_def
        find_record_id lift_registry_def Let_def)
  then obtain h1 where h1: "rotate P E r0 h = (Inr ?r, h1)" "?rest ?f h1 = (Inr (), h')"
    by (cases rule: act_bind_cases)
      (auto simp: rotate_def Let_def act_then_def act_bind_def act_put_def act_ok_def split: prod.splits sum.splits)
  let ?T = "\<lambda>t. \<forall>p. is_session_file (paths_for_agent (he_home E) i) p \<longrightarrow> map_of t p = None"
  have T1: "files_and_store cp i ?T (cp (ho_world h1)) h1"
  proof -
    have "agent_tree i h1 = unsession E i (agent_tree i h)"
      using h1(1) id by (auto simp: rotate_def Let_def act_then_def act_bind_def act_put_def act_ok_def
          agent_tree_rotate split: prod.splits sum.splits dest!: arg_cong [of _ _ "agent_tree i \<circ> snd"])
    then show ?thesis
      by (auto simp: files_and_store_def unsession_def map_of_filter_keys)
  qed
  have "keeps (files_and_store cp i ?T (cp (ho_world h1))) (?rest ?f)"
    using keeps_finish_rest [OF quiet, where checkpoint = True] by simp
  from keeps_run [OF this h1(2) T1] have T': "?T (agent_tree i h')"
    by (simp add: files_and_store_def)
  have keep1: "dirs_ok ks h1"
  proof -
    have "keeps (dirs_ok ks) (rotate P E r0)"
      unfolding rotate_def Let_def
      by (intro keeps_then keeps_save keeps_put keeps_ok)
        (auto simp: rotate_sessions_def Let_def elim!: dirs_ok_update)
    from keeps_run [OF this h1(1) h] show ?thesis .
  qed
  obtain cpt h2 where h2: "act_optional (on_vm i (checkpoint_vm P (ra_driver a)
            (path_text (checkpoint_path (paths_for_agent (he_home E) i))))) h1 = (Inr cpt, h2)"
    "act_then (on_vm i (close_vm P (ra_driver a)))
      (act_then (act_put (journal_event P E i ''suspended'' (JObj [])))
      (act_then (act_put (remove_running i))
        (act_then (save_state (?f cpt)) (act_put (report_state (?f cpt)))))) h2 = (Inr (), h')"
    using h1(2) by (cases rule: act_bind_cases) auto
  have keep2: "dirs_ok ks h2" by (rule keeps_run [OF keeps_optional [OF keeps_on_vm] h2(1) keep1])
  obtain h3 where h3: "on_vm i (close_vm P (ra_driver a)) h2 = (Inr (), h3)"
    using h2(2) by (cases rule: act_then_cases) auto
  let ?h4 = "remove_running i (journal_event P E i ''suspended'' (JObj []) h3)"
  have keep4: "dirs_ok ks ?h4" using keeps_run [OF keeps_on_vm h3 keep2] by simp
  have h': "h' = report_state (?f cpt) (snd (save_state (?f cpt) ?h4))"
    using h2(2) h3 by (auto simp: act_then_def act_bind_def act_put_def split: prod.splits sum.splits)
  have "i \<in> set ks"
    using r0 h by (force simp: load_record_def dirs_ok_def dest: map_of_SomeD split: option.splits)
  then have "load_record i (ho_agents (snd (save_state (?f cpt) ?h4))) = Inr (?f cpt)"
    using save_state_known(2) [of "?f cpt" ks ?h4] keep4 id by simp
  then have "load_record i (ho_agents h') = Inr (?f cpt)" by (simp add: h' report_state_def)
  moreover have "running_of i h' = None" by (simp add: h')
  ultimately show ?thesis using T' by auto
qed

lemma suspend_keeps_or_stores:
  assumes run: "run_order P U E (SuspendAgent i only ns) h = (res, h')"
    and quiet: "quiet_platform P cp" and uplink: "central_uplink U base cp"
    and i: "he_uuid E i = Some i" and wf: "wf_agents_dir (ho_agents h)" and t: "wf_tree (agent_tree i h)"
    and p: "map_of (agent_tree i h) p = Some bs" "is_session_file (paths_for_agent (he_home E) i) p"
  shows "(map_of (agent_tree i h') p = Some bs \<or> stored_file base i [''sessions'', last p] (cp (ho_world h')) = Some bs) \<and>
    (is_ok res \<longrightarrow> stored_file base i [''sessions'', last p] (cp (ho_world h')) = Some bs \<and>
       map_of (agent_tree i h') p = None \<and> running_of i h' = None \<and>
       (\<exists>r. load_record i (ho_agents h') = Inr r \<and> rec_state r = Suspended \<and> rec_session_file r = None))"
proof -
  let ?t = "agent_tree i h"
  let ?ks = "map fst (ho_agents h)"
  have after_prepare: "agent_tree i h1 = ?t \<and> dirs_ok ?ks h1" if "prepare_suspend P E i h = (r, h1)" for r h1
  proof -
    have "files_and_store cp i (\<lambda>t. t = ?t) (cp (ho_world h)) h" "dirs_ok ?ks h"
      using wf by (simp_all add: files_and_store_def dirs_ok_def)
    then have "files_and_store cp i (\<lambda>t. t = ?t) (cp (ho_world h)) h1" "dirs_ok ?ks h1"
      using keeps_run [OF keeps_prepare [OF quiet] that] keeps_run [OF keeps_dirs_prepare that] by blast+
    then show ?thesis by (simp add: files_and_store_def)
  qed
  have uploaded: "agent_tree i h2 = ?t \<and> dirs_ok ?ks h2 \<and>
      (q = Inr () \<longrightarrow> stored_file base i [''sessions'', last p] (cp (ho_world h2)) = Some bs)"
    if prep: "prepare_suspend P E i h = (Inr (), h1)" and ld: "load_record i (ho_agents h1) = Inr r"
      and up: "upload_bundle U E r h1 = (q, h2)" for h1 h2 r q
  proof -
    have "rec_id r = i"
      using after_prepare [OF prep] ld
      by (auto simp: load_record_def dirs_ok_def wf_agents_dir_def dest!: map_of_SomeD split: option.splits)
    moreover note upload_cases [OF up uplink]
    moreover have "pa_sessions (paths_for_agent (he_home E) i) = pa_guest (paths_for_agent (he_home E) i) @ [''sessions'']"
      by (simp add: paths_for_agent_def Let_def)
    ultimately show ?thesis
      using after_prepare [OF prep] upload_stores_sessions [OF _ t p]
      by (auto simp: agent_tree_def dirs_ok_def)
  qed
  have finished: "(agent_tree i h3 = ?t \<or> agent_tree i h3 = unsession E i ?t) \<and> cp (ho_world h3) = cp (ho_world h2)"
    if "agent_tree i h2 = ?t" "finish_suspend P E i True True h2 = (q, h3)" for q h2 h3
  proof -
    let ?T = "\<lambda>t. t = ?t \<or> t = unsession E i ?t"
    have "keeps (files_and_store cp i ?T (cp (ho_world h2))) (finish_suspend P E i True True)"
      by (rule keeps_finish [OF quiet]) (auto simp: unsession_def)
    from keeps_run [OF this that(2)] that(1)
    show ?thesis by (simp add: files_and_store_def)
  qed
  show ?thesis
  proof (cases rule: run_suspend_cases [OF run])
    case (4 e h1 r)
    then show ?thesis using uploaded [OF 4(1,2,3)] p(1) by simp
  next
    case (5 e h1 r h2)
    then show ?thesis using uploaded [OF 5(1,2,3)] finished [OF _ 5(4)] by simp
  next
    case (6 h1 r h2)
    note u = uploaded [OF 6(1,2,3)]
    then have "stored_file base i [''sessions'', last p] (cp (ho_world h')) = Some bs"
      using finished [OF _ 6(4)] by simp
    moreover note finish_suspend_done [OF 6(4) quiet i conjunct1 [OF conjunct2 [OF u]]]
    ultimately show ?thesis using p(2) by auto
  qed (use after_prepare p(1) in auto)
qed

lemma guarded_suspend_refuses:
  assumes "he_uuid E i = Some i" "load_record i (ho_agents h) = Inr r" "rec_id r = i" "running_of i h = Some a"
    and "ra_busy a \<or> (\<exists>t. ns \<noteq> None \<and> he_parse_time E (the ns) = Some t \<and> ra_last_wall a > t)"
  shows "\<exists>e. run_order P U E (SuspendAgent i True ns) h = (Inl e, h)"
  using assms
  by (auto simp: run_order_def act_then_def act_bind_def act_when_def check_suspendable_def find_state_def
      find_record_id lift_registry_def act_get_def act_fail_def)

text \<open>C27
  A suspend loses no conversation. While the guest writes nothing more, with the control plane
  behind the uplink: after a suspend order, however it ends, every session file the agent had is
  still on the host with its content or is in the control plane's bundle store with that content;
  when the order is acknowledged as successful all of them are in the store and off the host, and
  the agent is not running and recorded as suspended without a session. An order guarded by
  idleness is refused, changing nothing, when the agent is in a turn or was active since the given
  time.\<close>

theorem suspend_preserves_sessions:
  assumes "dispatch_order P U E (SuspendAgent i only ns) h = (ack, h')"
    and "quiet_platform P cp" "central_uplink U base cp"
    and "he_uuid E i = Some i" "wf_agents_dir (ho_agents h)" "wf_tree (agent_tree i h)"
  shows "(\<forall>p bs. map_of (agent_tree i h) p = Some bs \<longrightarrow>
      is_session_file (paths_for_agent (he_home E) i) p \<longrightarrow>
      (map_of (agent_tree i h') p = Some bs \<or>
         stored_file base i [''sessions'', last p] (cp (ho_world h')) = Some bs) \<and>
      (ack_success ack \<longrightarrow>
         stored_file base i [''sessions'', last p] (cp (ho_world h')) = Some bs \<and>
         map_of (agent_tree i h') p = None \<and> running_of i h' = None \<and>
         (\<exists>r. load_record i (ho_agents h') = Inr r \<and> rec_state r = Suspended \<and> rec_session_file r = None))) \<and>
    (\<forall>r a. only \<longrightarrow> load_record i (ho_agents h) = Inr r \<longrightarrow> running_of i h = Some a \<longrightarrow>
      ra_busy a \<or> (\<exists>t. ns \<noteq> None \<and> he_parse_time E (the ns) = Some t \<and> ra_last_wall a > t) \<longrightarrow>
      \<not> ack_success ack \<and> h' = h)"
proof -
  obtain res where run: "run_order P U E (SuspendAgent i only ns) h = (res, h')" "ack = order_ack_of E res"
    using assms(1) by (auto simp: dispatch_order_def split: prod.splits)
  have ok: "ack_success ack \<longleftrightarrow> is_ok res"
    using run(2) by (cases res) (simp_all add: order_ack_of_def)
  have "\<not> ack_success ack \<and> h' = h"
    if g: "only" "load_record i (ho_agents h) = Inr r" "running_of i h = Some a"
      "ra_busy a \<or> (\<exists>t. ns \<noteq> None \<and> he_parse_time E (the ns) = Some t \<and> ra_last_wall a > t)" for r a
  proof -
    have "rec_id r = i"
      using g(2) assms(5)
      by (auto simp: load_record_def wf_agents_dir_def dest!: map_of_SomeD split: option.splits)
    from guarded_suspend_refuses [OF assms(4) g(2) this g(3,4), of P U] g(1) run(1) ok
    show ?thesis by auto
  qed
  then show ?thesis
    unfolding ok using suspend_keeps_or_stores [OF run(1) assms(2-6)] by blast
qed

text \<open>
  Freshness of the stored bundle: once uploaded, an agent is not uploaded again before it has been
  active and then quiet, or the backstop has passed - but the backstop does not ask for activity, so
  an idle agent is uploaded over and over (at every cycle when the backstop is zero).\<close>

lemma bundle_not_due:
  assumes "sp_last_upload st = Some u" "(now - u) div 10 ^ 9 < unat max_stale_secs"
    and "case sp_last_activity st of None \<Rightarrow> True
         | Some t \<Rightarrow> t \<le> u \<or> (now - t) div 10 ^ 9 < unat quiet_secs"
  shows "\<not> bundle_due quiet_secs max_stale_secs now st"
  using assms by (auto simp: bundle_due_def secs_since_def Let_def split: option.splits)

lemma idle_agent_still_uploads:
  assumes "sp_last_upload st = Some u" "unat max_stale_secs \<le> (now - u) div 10 ^ 9"
  shows "bundle_due quiet_secs max_stale_secs now st"
  using assms by (simp add: bundle_due_def secs_since_def Let_def)

text \<open>A host with one running agent and one session file, and a control plane with an empty store.\<close>

definition calm_platform :: "bundle_store platform" where
  "calm_platform =
     \<lparr>pl_spawn = (\<lambda>g. (None, g)),
      pl_request = (\<lambda>d cmd secs (t, w). (Reply (JObj [(''ok'', JBool True), (''result'', JNull)]), t, w)),
      pl_command = (\<lambda>d cmd (t, w). (Reply (JObj [(''success'', JBool True)]), t, w)),
      pl_mono = (\<lambda>g. 0), pl_wall = (\<lambda>g. 0), pl_sleep = (\<lambda>n g. g),
      pl_toml = (\<lambda>m. []), pl_json = (\<lambda>j. [])\<rparr>"

definition demo_uplink :: "bundle_store uplink" where
  "demo_uplink =
     \<lparr>ul_pull = (\<lambda>i w. (None, w)),
      ul_upload = (\<lambda>i msgs w. case handle_bundle_upload (\<lambda>_. ''h'') [''b''] i msgs w of
         (r, w') \<Rightarrow> (Some (upload_ack (\<lambda>_. []) r), w')),
      ul_bundle = (\<lambda>j. None), ul_record = (\<lambda>r. JNull), ul_capacity = JNull, ul_usage = JNull,
      ul_sha = (\<lambda>_. ''h'')\<rparr>"

definition session_path :: path where
  "session_path = [''agents'', ''i'', ''guest'', ''sessions'', ''s.jsonl'']"

definition suspend_host :: "bool \<Rightarrow> bundle_store host" where
  "suspend_host busy =
     \<lparr>ho_agents = [(''i'', empty_agent_dir\<lparr>ad_record := Some demo_record, ad_tree := [(session_path, [1, 2])]\<rparr>)],
      ho_running = [(''i'', demo_running\<lparr>ra_busy := busy\<rparr>)],
      ho_in_flight = [], ho_journals = [], ho_reports = [],
      ho_secrets = \<lparr>hs_bundles = (\<lambda>_. None), hs_redact = (\<lambda>_. None)\<rparr>, ho_driver_cell = None,
      ho_world = \<lparr>bs_files = [], bs_meta = []\<rparr>, ho_sent = []\<rparr>"

lemma demo_hypotheses:
  "quiet_platform calm_platform (\<lambda>w. w)" "central_uplink demo_uplink [''b''] (\<lambda>w. w)"
  "he_uuid broken_env ''i'' = Some ''i''" "wf_agents_dir (ho_agents (suspend_host busy))"
  "wf_tree (agent_tree ''i'' (suspend_host busy))"
  "load_record ''i'' (ho_agents (suspend_host busy)) = Inr demo_record"
  "map_of (agent_tree ''i'' (suspend_host busy)) session_path = Some [1, 2]"
  "is_session_file (paths_for_agent (he_home broken_env) ''i'') session_path"
proof -
  show "central_uplink demo_uplink [''b''] (\<lambda>w. w)"
    unfolding central_uplink_def demo_uplink_def by (auto split: prod.split)
qed (auto simp: quiet_platform_def calm_platform_def broken_env_def suspend_host_def wf_agents_dir_def
    empty_agent_dir_def demo_record_def fresh_record_def agent_tree_def wf_tree_def session_path_def
    name_ok_def load_record_def is_session_file_def paths_for_agent_def agent_root_def)

theorem suspend_preserves_sessions_witness:
  "(let (ack, h') = dispatch_order calm_platform demo_uplink broken_env (SuspendAgent ''i'' True None) (suspend_host False)
    in map_of (agent_tree ''i'' h') session_path = Some [1, 2] \<or>
       stored_file [''b''] ''i'' [''sessions'', ''s.jsonl''] (ho_world h') = Some [1, 2]) \<and>
   (let (ack, h') = dispatch_order calm_platform demo_uplink broken_env (SuspendAgent ''i'' True None) (suspend_host True)
    in \<not> ack_success ack \<and> h' = suspend_host True)"
proof -
  note t = suspend_preserves_sessions [where only = True and ns = None,
      OF prod.collapse [symmetric] demo_hypotheses(1-5)]
  have l: "last session_path = ''s.jsonl''" by (simp add: session_path_def)
  have busy: "running_of ''i'' (suspend_host True) = Some (demo_running\<lparr>ra_busy := True\<rparr>)"
    "ra_busy (demo_running\<lparr>ra_busy := True\<rparr>)"
    by (simp_all add: running_of_def suspend_host_def)
  show ?thesis
    unfolding split_beta Let_def
    using t [THEN conjunct1, rule_format, OF demo_hypotheses(7,8)] l
      t [THEN conjunct2, rule_format, OF TrueI demo_hypotheses(6) busy(1) disjI1 [OF busy(2)]]
    by auto
qed

section \<open>A restore stays inside the guest directory\<close>

lemma split_on_no_slash: "w \<in> set (split_on p s) \<Longrightarrow> \<forall>c \<in> set w. \<not> p c"
  using split_on_pieces by fast

lemma write_bundle_files_contained:
  assumes "write_bundle_files sha E i ms h = (r, h')"
  shows "(j \<noteq> i \<longrightarrow> map_of (ho_agents h') j = map_of (ho_agents h) j) \<and>
    ho_running h' = ho_running h \<and> ho_world h' = ho_world h \<and>
    (map_of (agent_tree i h') p \<noteq> map_of (agent_tree i h) p \<longrightarrow>
       (\<exists>cs. p = pa_guest (paths_for_agent (he_home E) i) @ cs \<and> ''..'' \<notin> set cs))"
  using assms
proof (induction ms arbitrary: h)
  case (Cons m ms)
  show ?case
  proof (cases "\<exists>rel data l want bytes. m = BundleFile rel data l want \<and> \<not> starts_with rel ''/'' \<and>
      \<not> has_parent_dir rel \<and> \<not> starts_with rel ''sessions/'' \<and> base64_decode data = Inr bytes \<and>
      write_bundle_files sha E i ms (write_restored i
        (path_join (pa_guest (paths_for_agent (he_home E) i)) rel) bytes h) = (r, h')")
    case True
    then obtain rel bytes where rel: "\<not> starts_with rel ''/''" "\<not> has_parent_dir rel"
      and rec: "write_bundle_files sha E i ms (write_restored i
        (path_join (pa_guest (paths_for_agent (he_home E) i)) rel) bytes h) = (r, h')"
      by blast
    let ?dest = "path_join (pa_guest (paths_for_agent (he_home E) i)) rel"
    let ?h = "write_restored i ?dest bytes h"
    have dest: "?dest = pa_guest (paths_for_agent (he_home E) i) @ components rel" "''..'' \<notin> set (components rel)"
      using rel by (auto simp: path_join_rel has_parent_dir_def components_def)
    have "map_of (agent_tree i ?h) p = (if p = ?dest then Some bytes else map_of (agent_tree i h) p)"
      by (cases "map_of (ho_agents h) i")
        (simp_all add: write_restored_def agent_tree_def hostdir empty_agent_dir_def)
    moreover have "j \<noteq> i \<Longrightarrow> map_of (ho_agents ?h) j = map_of (ho_agents h) j"
      by (simp add: write_restored_def hostdir)
    moreover have "ho_running ?h = ho_running h" "ho_world ?h = ho_world h"
      by (simp_all add: write_restored_def)
    ultimately show ?thesis using Cons.IH [OF rec] dest by (auto split: if_splits)
  next
    case False
    then have "h' = h \<or> write_bundle_files sha E i ms h = (r, h')"
      using Cons.prems by (cases m) (auto split: if_splits sum.splits option.splits)
    then show ?thesis using Cons.IH by auto
  qed
qed simp

end
