(* ===== verification/Client_Codec.thy ===== *)
theory Client_Codec
  imports Base64 Proto_Types
begin

unbundle bit_operations_syntax

text \<open>
  The text encodings of the client library (crates/suzerain-client/src/lib.rs): its own base64
  codec, whose decoder never fails, and the percent encoding of query values, which
  crates/suzerain-mcp/src/client.rs has too. A text that is percent encoded is its list of code
  points, since the encoder looks at characters and not at bytes.
\<close>

section \<open>Base64\<close>

definition client_chunk :: "u8 list \<Rightarrow> string" where
  "client_chunk chunk =
     (let b = (\<lambda>i. if i < length chunk then chunk ! i else 0);
          n = push_bit 16 (ucast (b 0)) OR push_bit 8 (ucast (b 1)) OR (ucast (b 2) :: u32);
          t = (\<lambda>k. alphabet ! unat (drop_bit k n AND 63))
      in [t 18, t 12, (if length chunk > 1 then t 6 else CHR ''=''),
          (if length chunk > 2 then t 0 else CHR ''='')])"

definition b64_encode :: "u8 list \<Rightarrow> string" where
  "b64_encode data = concat (map client_chunk (chunks3 data))"

definition client_val :: "char \<Rightarrow> u32 option" where
  "client_val c =
     (let k = (of_char c :: nat)
      in if 65 \<le> k \<and> k \<le> 90 then Some (of_nat (k - 65))
         else if 97 \<le> k \<and> k \<le> 122 then Some (of_nat (k - 97 + 26))
         else if 48 \<le> k \<and> k \<le> 57 then Some (of_nat (k - 48 + 52))
         else if c = CHR ''+'' then Some 62
         else if c = CHR ''/'' then Some 63
         else None)"

text \<open>A character outside of the alphabet counts as zero.\<close>

definition client_unchunk :: "string \<Rightarrow> u8 list" where
  "client_unchunk chunk =
     (let n = fold (\<lambda>c acc. push_bit 6 acc OR unwrap_or 0 (client_val c)) chunk 0;
          len = length (filter (\<lambda>c. c \<noteq> CHR ''='') chunk)
      in (if 2 \<le> len then [ucast (drop_bit 16 n)] else []) @
         (if 3 \<le> len then [ucast (drop_bit 8 n)] else []) @
         (if 4 \<le> len then [ucast n] else []))"

definition b64_decode :: "string \<Rightarrow> u8 list" where
  "b64_decode text = concat (map client_unchunk (chunks4 (filter (\<lambda>c. \<not> is_ascii_ws c) text)))"

section \<open>Percent encoding\<close>

definition url_unreserved :: "nat \<Rightarrow> bool" where
  "url_unreserved n \<longleftrightarrow> 65 \<le> n \<and> n \<le> 90 \<or> 97 \<le> n \<and> n \<le> 122 \<or> 48 \<le> n \<and> n \<le> 57 \<or>
     n = 45 \<or> n = 95 \<or> n = 46 \<or> n = 126"

definition hex_digit :: "nat \<Rightarrow> char" where
  "hex_digit n = (if n < 10 then char_of (48 + n) else char_of (55 + n))"

fun hex_digits :: "nat \<Rightarrow> string" where
  "hex_digits n = (if n < 16 then [hex_digit n] else hex_digits (n div 16) @ [hex_digit (n mod 16)])"

declare hex_digits.simps [simp del]

text \<open>\<open>{:02X}\<close>: at least two digits.\<close>

definition hex_02 :: "nat \<Rightarrow> string" where
  "hex_02 n = (if n < 16 then ''0'' else []) @ hex_digits n"

definition urlencoding_simple :: "nat list \<Rightarrow> string" where
  "urlencoding_simple s =
     concat (map (\<lambda>c. if url_unreserved c then [char_of c] else CHR ''%'' # hex_02 c) s)"

text \<open>The query of the MCP client: pairs with an empty value are left out.\<close>

definition with_query :: "string \<Rightarrow> (string \<times> nat list) list \<Rightarrow> string" where
  "with_query path query =
     (let pairs = map (\<lambda>(k, v). k @ ''='' @ urlencoding_simple v) (filter (\<lambda>(_, v). v \<noteq> []) query)
      in if pairs = [] then path else path @ ''?'' @ join ''&'' pairs)"

section \<open>Base64 agrees with the server\<close>

lemma client_chunk_eq: "client_chunk chunk = encode_chunk chunk"
  by (simp add: client_chunk_def encode_chunk_def sextet_def six_bits_def pack3_def chunk_at_def Let_def)

lemma b64_encode_eq: "b64_encode data = base64_encode data"
  by (simp add: b64_encode_def base64_encode_def client_chunk_eq [abs_def])

lemma client_val_b64: "b64_val c = Inr v \<Longrightarrow> client_val c = Some v"
  by (auto simp: b64_val_def client_val_def Let_def split: if_splits)

lemma client_val_pad: "client_val (CHR ''='') = None"
  by (simp add: client_val_def)

definition pad_val :: "char \<Rightarrow> u32" where
  "pad_val c = unwrap_or 0 (client_val c)"

lemma unpack4_vals:
  assumes "unpack4 i cs n = Inr m"
  shows "m = fold (\<lambda>(k, c) acc. acc OR push_bit (18 - 6 * k) (pad_val c)) (enumerate i cs) n"
  using assms
proof (induction i cs n rule: unpack4.induct)
  case (2 i c cs n)
  show ?case
  proof (cases "c = CHR ''=''")
    case True
    then show ?thesis using 2 by (simp add: pad_val_def client_val_pad unwrap_or_def)
  next
    case False
    then obtain v where v: "b64_val c = Inr v" using "2.prems" by (auto simp: res_bind_def split: sum.splits)
    then have "pad_val c = v" using client_val_b64 by (simp add: pad_val_def unwrap_or_def)
    with "2.IH"(2) [OF False, of v] "2.prems" False v show ?thesis by (simp add: res_bind_def)
  qed
qed simp

text \<open>On a group of four characters with at most two padding characters both decoders agree.\<close>

lemma client_unchunk_eq:
  assumes "decode_chunk chunk = Inr bs" "length chunk = 4"
    and "length (filter (\<lambda>c. c = CHR ''='') chunk) \<le> 2"
  shows "client_unchunk chunk = bs"
proof -
  obtain a b c d where ch: "chunk = [a, b, c, d]"
    using assms(2) by (auto simp: numeral_eq_Suc length_Suc_conv)
  let ?n = "push_bit 18 (pad_val a) OR push_bit 12 (pad_val b) OR push_bit 6 (pad_val c) OR pad_val d"
  have len: "length (filter (\<lambda>c. c \<noteq> CHR ''='') chunk) = 4 - length (filter (\<lambda>c. c = CHR ''='') chunk)"
    using sum_length_filter_compl [of "\<lambda>c. c = CHR ''=''" chunk] assms(2) by simp
  obtain n where n: "unpack4 0 chunk 0 = Inr n" using assms(1)
    by (auto simp: decode_chunk_def res_bind_def Let_def split: sum.splits)
  have "n = ?n" using unpack4_vals [OF n] by (simp add: ch or.assoc)
  moreover have "fold (\<lambda>c acc. push_bit 6 acc OR unwrap_or 0 (client_val c)) chunk 0 = ?n"
    by (simp add: ch pad_val_def [symmetric] push_bit_or or.assoc)
  moreover have "bs = ucast (drop_bit 16 n) #
      (if length (filter (\<lambda>c. c = CHR ''='') chunk) < 2 then [ucast (drop_bit 8 n)] else []) @
      (if length (filter (\<lambda>c. c = CHR ''='') chunk) < 1 then [ucast n] else [])"
    using assms(1) n by (simp add: decode_chunk_def res_bind_def Let_def split: if_splits)
  moreover have "length (filter (\<lambda>c. c = CHR ''='') chunk) \<in> {0, 1, 2}"
    unfolding insert_iff empty_iff using assms(3) by linarith
  ultimately show ?thesis unfolding client_unchunk_def Let_def len by (elim insertE emptyE) simp_all
qed

text \<open>Every group the encoder writes is of this kind.\<close>

lemma encode_chunk_padding:
  assumes "chunk \<noteq> []" "length chunk \<le> 3"
  shows "length (filter (\<lambda>c. c = CHR ''='') (encode_chunk chunk)) \<le> 2"
proof -
  have "sextet k n \<noteq> CHR ''=''" for k n using sextet_props by force
  then show ?thesis by (simp add: encode_chunk_def Let_def)
qed

text \<open>The client reads back what either side wrote, white space or not.\<close>

lemma client_base64_roundtrip:
  assumes "filter (\<lambda>c. \<not> is_ascii_ws c) text = b64_encode data"
  shows "b64_decode text = data"
proof -
  have "client_unchunk (encode_chunk ch) = ch" if "ch \<in> set (chunks3 data)" for ch
    using that chunks3_parts [of data] decode_encode_chunk [of ch]
    by (intro client_unchunk_eq) (auto intro: encode_chunk_padding)
  then have "map client_unchunk (map encode_chunk (chunks3 data)) = chunks3 data"
    by (simp add: map_idI)
  moreover have "chunks4 (base64_encode data) = map encode_chunk (chunks3 data)"
    unfolding base64_encode_def by (rule chunks4_concat) simp
  ultimately show ?thesis
    using assms by (simp add: b64_decode_def b64_encode_eq concat_chunks3)
qed

text \<open>What the server's decoder refuses the client reads as zeros.\<close>

lemma client_accepts_garbage:
  "b64_decode ''!!!!'' = [0, 0, 0]" "\<not> is_ok (base64_decode ''!!!!'')"
  by (simp_all add: b64_decode_def client_unchunk_def client_val_def is_ascii_ws_def unwrap_or_def
      base64_decode_def decode_chunk_def b64_val_def res_bind_def)

section \<open>Percent decoding\<close>

definition hex_val :: "char \<Rightarrow> nat option" where
  "hex_val c =
     (let k = of_char c
      in if 48 \<le> k \<and> k \<le> 57 then Some (k - 48) else if 65 \<le> k \<and> k \<le> 70 then Some (k - 55) else None)"

text \<open>What a server makes of it (RFC 3986): two digits, one byte.\<close>

fun percent_decode :: "string \<Rightarrow> nat list option" where
  "percent_decode [] = Some []"
| "percent_decode (c # cs) =
     (if c \<noteq> CHR ''%'' then map_option ((#) (of_char c)) (percent_decode cs)
      else (case cs of
              a # b # ds \<Rightarrow>
                (case (hex_val a, hex_val b) of
                   (Some x, Some y) \<Rightarrow> map_option ((#) (16 * x + y)) (percent_decode ds)
                 | _ \<Rightarrow> None)
            | _ \<Rightarrow> None))"

lemma char_of_digits:
  "char_of (48 :: nat) = CHR ''0''" "char_of (53 :: nat) = CHR ''5''" "char_of (54 :: nat) = CHR ''6''"
  "char_of (69 :: nat) = CHR ''E''"
  by (simp_all add: char_of_def bit_Suc_0_iff)

lemma hex_val_digit: "n < 16 \<Longrightarrow> hex_val (hex_digit n) = Some n"
  by (simp add: hex_val_def hex_digit_def)

lemma hex_02_byte: "n < 256 \<Longrightarrow> hex_02 n = [hex_digit (n div 16), hex_digit (n mod 16)]"
  by (auto simp: hex_02_def hex_digits.simps [of n] hex_digits.simps [of "n div 16"] hex_digit_def char_of_digits)

lemma percent_roundtrip:
  assumes "\<forall>c \<in> set s. c < 256"
  shows "percent_decode (urlencoding_simple s) = Some s"
  using assms
proof (induction s)
  case (Cons c s)
  have e: "urlencoding_simple (c # s) = (if url_unreserved c then [char_of c] else CHR ''%'' # hex_02 c) @
      urlencoding_simple s"
    by (simp add: urlencoding_simple_def)
  show ?case
  proof (cases "url_unreserved c")
    case True
    then have "c < 256" "c \<noteq> 37" using Cons.prems by (auto simp: url_unreserved_def)
    then have "char_of c \<noteq> CHR ''%''"
      by (auto dest!: arg_cong [of "char_of c" _ "of_char :: char \<Rightarrow> nat"])
    then show ?thesis using Cons True by (simp add: e)
  next
    case False
    have "hex_val (hex_digit (c div 16)) = Some (c div 16)" "hex_val (hex_digit (c mod 16)) = Some (c mod 16)"
      using Cons.prems by (auto intro!: hex_val_digit)
    then show ?thesis using Cons False by (simp add: e hex_02_byte)
  qed
qed (simp add: urlencoding_simple_def)

text \<open>A character beyond U+00FF is not percent encoding at all, and one between U+0080 and U+00FF is
  its Latin-1 byte and not UTF-8.\<close>

lemma wide_character_garbled:
  "urlencoding_simple [0x65E5] = ''%65E5''" "percent_decode ''%65E5'' = Some (map of_char ''eE5'')"
  by (simp_all add: urlencoding_simple_def url_unreserved_def hex_02_def hex_digits.simps hex_digit_def hex_val_def
      char_of_digits)

end
