(* ===== verification/Client_Stream.thy ===== *)
theory Client_Stream
  imports Lines
begin

text \<open>
  The server-sent-event reader of the client library (\<open>find_block_end\<close>, \<open>parse_block\<close> and
  \<open>chunks_to_sse\<close> in crates/suzerain-client/src/lib.rs), which both transports feed with chunks of
  bytes: one poll of the stream as a function of its state, the messages a stream yields until it
  ends, and the proof that where the bytes are cut into chunks does not matter. A chunk stream is the
  list of what it yields before it ends; a byte is a character.
\<close>

section \<open>Blocks\<close>

abbreviation carriage_return :: char where "carriage_return \<equiv> CHR 0x0D"

text \<open>The first blank line: where the block ends and where the next one begins.\<close>

fun find_block_end :: "string \<Rightarrow> (nat \<times> nat) option" where
  "find_block_end (a # b # cs) =
     (if a = newline \<and> b = newline then Some (0, 2)
      else if a = carriage_return \<and> b = newline \<and> take 2 cs = [carriage_return, newline] then Some (0, 4)
      else map_option (\<lambda>(i, e). (Suc i, Suc e)) (find_block_end (b # cs)))"
| "find_block_end cs = None"

record sse_message =
  sse_event :: string
  sse_data :: string

text \<open>One line of a block: the event name and the data lines so far.\<close>

definition sse_line :: "string \<Rightarrow> string \<times> string list \<Rightarrow> string \<times> string list" where
  "sse_line l = (\<lambda>(event, data).
     if starts_with l '':'' then (event, data)
     else (case strip_prefix ''event:'' l of
             Some v \<Rightarrow> (trim v, data)
           | None \<Rightarrow>
               (case strip_prefix ''data:'' l of
                  Some v \<Rightarrow> (event, data @ [unwrap_or v (strip_prefix '' '' v)])
                | None \<Rightarrow> (event, data))))"

definition parse_block :: "string \<Rightarrow> sse_message option" where
  "parse_block block =
     (case fold sse_line (str_lines block) ([], []) of
        (event, data) \<Rightarrow>
          if data = [] then None else Some \<lparr>sse_event = event, sse_data = join [newline] data\<rparr>)"

section \<open>Polling the stream\<close>

lemma find_block_end_bounds:
  "find_block_end buf = Some (len, e) \<Longrightarrow> len + 2 \<le> e \<and> e \<le> length buf"
proof (induction buf arbitrary: len e rule: find_block_end.induct)
  case (1 a b cs)
  have "2 \<le> length cs" if "take 2 cs = [carriage_return, newline]"
    using arg_cong [OF that, of length] by simp
  with 1 show ?case by (fastforce split: if_splits)
qed simp_all

text \<open>The complete blocks of the buffer are taken out of it; those without data are dropped.\<close>

function drain_blocks :: "string \<Rightarrow> sse_message list \<times> string" where
  "drain_blocks buf =
     (case find_block_end buf of
        None \<Rightarrow> ([], buf)
      | Some (len, e) \<Rightarrow>
          (case drain_blocks (drop e buf) of
             (ms, rest) \<Rightarrow> (case_option [] (\<lambda>m. [m]) (parse_block (take len buf)) @ ms, rest)))"
  by pat_completeness auto
termination
  by (relation "measure length") (auto dest!: find_block_end_bounds)

declare drain_blocks.simps [simp del]

record 'e sse_state =
  ss_chunks :: "('e + string) list"
  ss_buf :: string
  ss_ready :: "sse_message list"
  ss_eof :: bool

function sse_poll :: "'e sse_state \<Rightarrow> (('e + sse_message) \<times> 'e sse_state) option" where
  "sse_poll s =
     (case ss_ready s of
        m # ms \<Rightarrow> Some (Inr m, s\<lparr>ss_ready := ms\<rparr>)
      | [] \<Rightarrow>
          (case drain_blocks (ss_buf s) of
             (m # ms, rest) \<Rightarrow> Some (Inr m, s\<lparr>ss_buf := rest, ss_ready := ms\<rparr>)
           | ([], rest) \<Rightarrow>
               if ss_eof s then
                 map_option (\<lambda>m. (Inr m, s\<lparr>ss_buf := [], ss_eof := True\<rparr>)) (parse_block rest)
               else
                 (case ss_chunks s of
                    [] \<Rightarrow> sse_poll (s\<lparr>ss_buf := rest, ss_eof := True\<rparr>)
                  | Inl e # cs \<Rightarrow> Some (Inl e, s\<lparr>ss_chunks := cs, ss_buf := rest, ss_eof := True\<rparr>)
                  | Inr c # cs \<Rightarrow>
                      if c = [] then sse_poll (s\<lparr>ss_chunks := cs, ss_buf := rest, ss_eof := True\<rparr>)
                      else sse_poll (s\<lparr>ss_chunks := cs, ss_buf := rest @ c\<rparr>))))"
  by pat_completeness auto
termination
  by (relation "measure (\<lambda>s. 2 * length (ss_chunks s) + (if ss_eof s then 0 else 1))") auto

declare sse_poll.simps [simp del]

definition chunks_to_sse :: "('e + string) list \<Rightarrow> 'e sse_state" where
  "chunks_to_sse cs = \<lparr>ss_chunks = cs, ss_buf = [], ss_ready = [], ss_eof = False\<rparr>"

section \<open>What a stream yields until it ends\<close>

lemma drain_blocks_shorter:
  "drain_blocks buf = (ms, rest) \<Longrightarrow> 2 * length ms + length rest \<le> length buf"
proof (induction buf arbitrary: ms rest rule: drain_blocks.induct)
  case (1 buf)
  show ?case
  proof (cases "find_block_end buf")
    case None
    then show ?thesis using "1.prems" by (simp add: drain_blocks.simps [of buf])
  next
    case (Some le)
    obtain len e where le: "le = (len, e)" by fastforce
    obtain ms1 rest1 where d: "drain_blocks (drop e buf) = (ms1, rest1)" by fastforce
    have "2 * length ms1 + length rest1 \<le> length buf - e"
      using "1.IH" [OF Some le [symmetric] d] by simp
    then show ?thesis
      using "1.prems" find_block_end_bounds [of buf len e] Some d le
      by (auto simp: drain_blocks.simps [of buf] split: option.splits)
  qed
qed

lemma parse_empty [simp]: "parse_block [] = None"
  by (simp add: parse_block_def str_lines_def)

definition sse_size :: "'e sse_state \<Rightarrow> nat" where
  "sse_size s = length (ss_ready s) + length (ss_buf s) +
     sum_list (map (case_sum (\<lambda>_. 1) length) (ss_chunks s))"

lemma poll_smaller:
  "sse_poll s = Some (x, t) \<Longrightarrow> sse_size t < sse_size s"
proof (induction s arbitrary: x t rule: sse_poll.induct)
  case (1 s)
  obtain ms rest where d: "drain_blocks (ss_buf s) = (ms, rest)" by fastforce
  note sh = drain_blocks_shorter [OF d]
  show ?case
  proof (cases "ss_ready s")
    case (Cons m ms')
    then show ?thesis using "1.prems" by (auto simp: sse_poll.simps [of s] sse_size_def)
  next
    case Nil
    show ?thesis
    proof (cases ms)
      case (Cons m ms')
      then show ?thesis using "1.prems" Nil d sh by (auto simp: sse_poll.simps [of s] sse_size_def)
    next
      case empty: Nil
      show ?thesis
      proof (cases "ss_eof s")
        case True
        then have "rest \<noteq> []" using "1.prems" Nil d empty by (auto simp: sse_poll.simps [of s])
        then show ?thesis using "1.prems" Nil d sh empty True
          by (cases rest) (auto simp: sse_poll.simps [of s] sse_size_def)
      next
        case eof: False
        show ?thesis
        proof (cases "ss_chunks s")
          case Nil': Nil
          have "sse_size t < sse_size (s\<lparr>ss_buf := rest, ss_eof := True\<rparr>)"
            using "1.IH"(1) [OF Nil d [symmetric] empty eof Nil'] "1.prems" Nil d empty eof Nil'
            by (simp add: sse_poll.simps [of s])
          then show ?thesis using sh empty by (simp add: sse_size_def)
        next
          case (Cons c cs)
          show ?thesis
          proof (cases c)
            case (Inl e)
            then show ?thesis using "1.prems" Nil d sh empty eof Cons
              by (auto simp: sse_poll.simps [of s] sse_size_def)
          next
            case (Inr bs)
            show ?thesis
            proof (cases "bs = []")
              case True
              have "sse_size t < sse_size (s\<lparr>ss_chunks := cs, ss_buf := rest, ss_eof := True\<rparr>)"
                using "1.IH"(2) [OF Nil d [symmetric] empty eof Cons Inr True] "1.prems" Nil d empty eof Cons Inr True
                by (simp add: sse_poll.simps [of s])
              then show ?thesis using sh empty Cons Inr True by (simp add: sse_size_def)
            next
              case False
              have "sse_size t < sse_size (s\<lparr>ss_chunks := cs, ss_buf := rest @ bs\<rparr>)"
                using "1.IH"(3) [OF Nil d [symmetric] empty eof Cons Inr False] "1.prems" Nil d empty eof Cons Inr False
                by (simp add: sse_poll.simps [of s])
              then show ?thesis using sh empty Cons Inr by (simp add: sse_size_def)
            qed
          qed
        qed
      qed
    qed
  qed
qed

function sse_items :: "'e sse_state \<Rightarrow> ('e + sse_message) list" where
  "sse_items s = (case sse_poll s of None \<Rightarrow> [] | Some (x, t) \<Rightarrow> x # sse_items t)"
  by pat_completeness auto
termination
  by (relation "measure sse_size") (auto dest: poll_smaller)

declare sse_items.simps [simp del]

section \<open>Chunks do not matter\<close>

lemma no_half_separator:
  assumes "find_block_end (newline # cs) = Some y" "take 2 (cs @ b) = [carriage_return, newline]"
  shows "take 2 cs = [carriage_return, newline]"
  using assms by (cases cs rule: find_block_end.cases) auto

lemma find_block_end_append:
  "find_block_end a = Some x \<Longrightarrow> find_block_end (a @ b) = Some x"
proof (induction a arbitrary: x rule: find_block_end.induct)
  case (1 c d cs)
  have "take 2 (cs @ b) = [carriage_return, newline]" if "take 2 cs = [carriage_return, newline]"
  proof -
    have "2 \<le> length cs" using arg_cong [OF that, of length] by simp
    then show ?thesis using that by simp
  qed
  with 1 no_half_separator [of cs _ b] show ?case by (auto split: if_splits)
qed simp_all

lemma drain_blocks_append:
  "drain_blocks a = (ms, rest) \<Longrightarrow>
     drain_blocks (a @ b) = (ms @ fst (drain_blocks (rest @ b)), snd (drain_blocks (rest @ b)))"
proof (induction a arbitrary: ms rest rule: drain_blocks.induct)
  case (1 a)
  show ?case
  proof (cases "find_block_end a")
    case None
    then show ?thesis using "1.prems" by (simp add: drain_blocks.simps [of a])
  next
    case (Some le)
    obtain len e where le: "le = (len, e)" by fastforce
    obtain ms1 rest1 where d: "drain_blocks (drop e a) = (ms1, rest1)" by fastforce
    have f: "find_block_end (a @ b) = Some (len, e)" using Some le by (simp add: find_block_end_append)
    have l: "len \<le> length a" "e \<le> length a" using find_block_end_bounds [of a len e] Some le by simp_all
    show ?thesis
      using "1.IH" [OF Some le [symmetric] d] "1.prems" Some le d f l
      by (auto simp: drain_blocks.simps [of a] drain_blocks.simps [of "a @ b"] split: prod.splits)
  qed
qed

lemma drained: "drain_blocks buf = (ms, rest) \<Longrightarrow> drain_blocks rest = ([], rest)"
proof (induction buf arbitrary: ms rest rule: drain_blocks.induct)
  case (1 buf)
  show ?case
  proof (cases "find_block_end buf")
    case None
    then show ?thesis using "1.prems" by (auto simp: drain_blocks.simps)
  next
    case (Some le)
    obtain len e where le: "le = (len, e)" by fastforce
    obtain ms1 rest1 where d: "drain_blocks (drop e buf) = (ms1, rest1)" by fastforce
    show ?thesis
      using "1.IH" [OF Some le [symmetric] d] "1.prems" Some le d
      by (simp add: drain_blocks.simps [of buf])
  qed
qed

text \<open>What the bytes of a stream mean: the messages of its complete blocks and of the rest.\<close>

definition sse_meaning :: "string \<Rightarrow> sse_message list" where
  "sse_meaning bytes =
     (case drain_blocks bytes of (ms, rest) \<Rightarrow> ms @ case_option [] (\<lambda>m. [m]) (parse_block rest))"

text \<open>The same with an error: the complete blocks, the error, then what was left in the buffer.\<close>

fun sse_yields :: "('e + string) list \<Rightarrow> string \<Rightarrow> ('e + sse_message) list" where
  "sse_yields [] buf = map Inr (sse_meaning buf)"
| "sse_yields (Inl e # cs) buf =
     map Inr (fst (drain_blocks buf)) @ Inl e # map Inr (sse_meaning (snd (drain_blocks buf)))"
| "sse_yields (Inr c # cs) buf = (if c = [] then map Inr (sse_meaning buf) else sse_yields cs (buf @ c))"

lemma sse_meaning_drained:
  "drain_blocks buf = (ms, rest) \<Longrightarrow> sse_meaning buf = ms @ sse_meaning rest"
  using drained [of buf ms rest] by (simp add: sse_meaning_def)

lemma sse_yields_drained:
  "drain_blocks buf = (ms, rest) \<Longrightarrow> sse_yields cs buf = map Inr ms @ sse_yields cs rest"
proof (induction cs arbitrary: buf ms rest)
  case (Cons x cs)
  show ?case
  proof (cases x)
    case (Inr c)
    obtain ms1 rest1 where r: "drain_blocks (rest @ c) = (ms1, rest1)" by fastforce
    have "drain_blocks (buf @ c) = (ms @ ms1, rest1)"
      using drain_blocks_append [OF Cons.prems, of c] r by simp
    then show ?thesis
      using Cons.IH [of "buf @ c"] Cons.IH [OF r] Inr sse_meaning_drained [OF Cons.prems] by simp
  qed (use Cons.prems drained [OF Cons.prems] in simp)
qed (simp add: sse_meaning_drained)

definition sse_future :: "'e sse_state \<Rightarrow> ('e + sse_message) list" where
  "sse_future s = map Inr (ss_ready s) @
     (if ss_eof s then map Inr (sse_meaning (ss_buf s)) else sse_yields (ss_chunks s) (ss_buf s))"

lemma sse_future_drained:
  assumes "drain_blocks (ss_buf s) = (ms, rest)" "ss_ready s = []"
  shows "sse_future s = map Inr ms @ sse_future (s\<lparr>ss_buf := rest\<rparr>)"
  using assms sse_meaning_drained [OF assms(1)] sse_yields_drained [OF assms(1), of "ss_chunks s"]
  by (simp add: sse_future_def)

text \<open>A poll yields the head of the future and leaves its tail.\<close>

lemma sse_poll_future:
  "sse_future s = (case sse_poll s of None \<Rightarrow> [] | Some (x, t) \<Rightarrow> x # sse_future t)"
proof (induction s rule: sse_poll.induct)
  case (1 s)
  obtain ms rest where d: "drain_blocks (ss_buf s) = (ms, rest)" by fastforce
  note rest = drained [OF d]
  show ?case
  proof (cases "ss_ready s")
    case Nil
    note future = sse_future_drained [OF d Nil]
    show ?thesis
    proof (cases ms)
      case (Cons m ms')
      then show ?thesis using future Nil d
        by (simp add: sse_poll.simps [of s] sse_future_def)
    next
      case empty: Nil
      show ?thesis
      proof (cases "ss_eof s")
        case True
        then show ?thesis using future Nil d empty rest
          by (auto simp: sse_poll.simps [of s] sse_future_def sse_meaning_def drain_blocks.simps [of "[]"]
              split: option.splits)
      next
        case eof: False
        show ?thesis
        proof (cases "ss_chunks s")
          case none: Nil
          then show ?thesis
            using "1.IH"(1) [OF Nil d [symmetric] empty eof none] future Nil d empty eof
            by (simp add: sse_poll.simps [of s] sse_future_def)
        next
          case (Cons c cs)
          show ?thesis
          proof (cases c)
            case (Inl e)
            then show ?thesis using future Nil d empty eof Cons rest
              by (simp add: sse_poll.simps [of s] sse_future_def)
          next
            case (Inr bs)
            show ?thesis
            proof (cases "bs = []")
              case True
              then show ?thesis
                using "1.IH"(2) [OF Nil d [symmetric] empty eof Cons Inr True] future Nil d empty eof Cons Inr
                by (simp add: sse_poll.simps [of s] sse_future_def)
            next
              case False
              then show ?thesis
                using "1.IH"(3) [OF Nil d [symmetric] empty eof Cons Inr False] future Nil d empty eof Cons Inr
                by (simp add: sse_poll.simps [of s] sse_future_def)
            qed
          qed
        qed
      qed
    qed
  qed (simp add: sse_poll.simps [of s] sse_future_def)
qed

lemma sse_items_future: "sse_items s = sse_future s"
proof (induction s rule: sse_items.induct)
  case (1 s)
  then show ?case
    using sse_poll_future [of s] by (simp add: sse_items.simps [of s] split: option.splits)
qed

lemma sse_yields_chunks:
  "[] \<notin> set bs \<Longrightarrow> sse_yields (map Inr bs @ cs) buf = sse_yields cs (buf @ concat bs)"
  by (induction bs arbitrary: buf) auto

section \<open>The format\<close>

text \<open>A message as it is written: its event line, its data lines and a blank line.\<close>

definition sse_lines :: "string \<times> string list \<Rightarrow> string list" where
  "sse_lines m = (''event: '' @ fst m) # map ((@) ''data: '') (snd m)"

definition sse_text :: "string \<times> string list \<Rightarrow> string" where
  "sse_text m = unlines (sse_lines m) @ [newline]"

definition one_line :: "string \<Rightarrow> bool" where
  "one_line l \<longleftrightarrow> newline \<notin> set l \<and> carriage_return \<notin> set l"

definition sse_plain :: "string \<times> string list \<Rightarrow> bool" where
  "sse_plain m \<longleftrightarrow> one_line (fst m) \<and> trim (fst m) = fst m \<and> snd m \<noteq> [] \<and> list_all one_line (snd m)"

lemma find_block_end_line:
  assumes "one_line l" "l \<noteq> []" "c \<noteq> newline"
  shows "find_block_end (l @ newline # c # s) =
    map_option (\<lambda>(i, e). (i + Suc (length l), e + Suc (length l))) (find_block_end (c # s))"
  using assms
proof (induction l)
  case (Cons a l)
  show ?case
  proof (cases l)
    case Nil
    then show ?thesis using Cons.prems
      by (cases "find_block_end (c # s)") (auto simp: one_line_def)
  next
    case (Cons b l')
    then show ?thesis using Cons.prems Cons.IH
      by (cases "find_block_end (c # s)") (auto simp: one_line_def)
  qed
qed simp

lemma find_block_end_lines:
  assumes "\<forall>l \<in> set ls. one_line l \<and> l \<noteq> []" "ls \<noteq> []"
  shows "find_block_end (unlines ls @ newline # s) = Some (length (unlines ls) - 1, length (unlines ls) + 1)"
  using assms
proof (induction ls)
  case (Cons l ls)
  show ?case
  proof (cases ls)
    case Nil
    have "find_block_end (k @ newline # newline # s) = Some (length k, length k + 2)" if "one_line k" for k
      using that by (induction k rule: induct_list012) (auto simp: one_line_def)
    then show ?thesis using Nil Cons.prems by (simp add: unlines_def)
  next
    case (Cons k ks)
    then obtain c k' where k: "k = c # k'" "c \<noteq> newline"
      using \<open>\<forall>l \<in> set (l # ls). one_line l \<and> l \<noteq> []\<close> by (cases k) (auto simp: one_line_def)
    have u: "unlines ls = c # k' @ newline # unlines ks" using Cons k by (simp add: unlines_def)
    then have "find_block_end (l @ newline # c # (k' @ newline # unlines ks) @ newline # s) =
        Some (length (unlines ls) - 1 + Suc (length l), length (unlines ls) + 1 + Suc (length l))"
      using Cons.IH Cons.prems \<open>ls = k # ks\<close> by (subst find_block_end_line) (auto simp: k)
    then show ?thesis using u by (simp add: unlines_def)
  qed
qed simp


lemma str_lines_lines:
  assumes "\<forall>l \<in> set ls. one_line l \<and> l \<noteq> []"
  shows "str_lines (butlast (unlines ls)) = ls"
  using assms
proof (induction ls)
  case (Cons l ls)
  have "split_lines cur l = [rev cur @ l]" if "newline \<notin> set l" "rev cur @ l \<noteq> []" for cur
    using that by (induction l arbitrary: cur) auto
  then have last: "str_lines l = [l]"
    using Cons.prems by (simp add: str_lines_def one_line_def)
  show ?case
  proof (cases ls)
    case more: (Cons k ks)
    then have "butlast (unlines (l # ls)) = l @ newline # butlast (unlines ls)"
      by (simp add: unlines_def butlast_append)
    then show ?thesis
      using Cons.IH Cons.prems by (simp add: str_lines_def split_lines_line one_line_def strip_cr_id)
  qed (use last in \<open>simp add: unlines_def\<close>)
qed (simp add: str_lines_def unlines_def)

lemma fold_data_lines:
  "\<forall>l \<in> set ds. one_line l \<Longrightarrow> fold sse_line (map ((@) ''data: '') ds) (e, acc) = (e, acc @ ds)"
  by (induction ds arbitrary: acc) (simp_all add: sse_line_def starts_with_def strip_prefix_def unwrap_or_def)

lemma parse_sse_text:
  assumes "sse_plain m"
  shows "parse_block (butlast (unlines (sse_lines m))) =
    Some \<lparr>sse_event = fst m, sse_data = join [newline] (snd m)\<rparr>"
proof -
  have "str_lines (butlast (unlines (sse_lines m))) = sse_lines m"
    using assms by (intro str_lines_lines) (auto simp: sse_lines_def sse_plain_def one_line_def list_all_iff)
  then show ?thesis
    using assms fold_data_lines [of "snd m"]
    by (cases m) (simp add: parse_block_def sse_lines_def sse_plain_def list_all_iff sse_line_def starts_with_def
        strip_prefix_def trim_def trim_start_def is_ws_def)
qed

lemma sse_meaning_text:
  assumes "list_all sse_plain ms"
  shows "sse_meaning (concat (map sse_text ms)) =
    map (\<lambda>m. \<lparr>sse_event = fst m, sse_data = join [newline] (snd m)\<rparr>) ms"
  using assms
proof (induction ms)
  case (Cons m ms)
  have f: "find_block_end (sse_text m @ s) =
      Some (length (unlines (sse_lines m)) - 1, length (unlines (sse_lines m)) + 1)" for s
    using Cons.prems unfolding sse_text_def append_assoc append_Cons append_Nil
    by (intro find_block_end_lines) (auto simp: sse_lines_def sse_plain_def one_line_def list_all_iff)
  have "drain_blocks (sse_text m @ s) =
      (case drain_blocks s of (ns, r) \<Rightarrow> (\<lparr>sse_event = fst m, sse_data = join [newline] (snd m)\<rparr> # ns, r))" for s
    using Cons.prems parse_sse_text [of m]
    by (simp add: drain_blocks.simps [of "sse_text m @ s"] f) (simp add: sse_text_def butlast_conv_take)
  then show ?case
    using Cons by (simp add: sse_meaning_def split: prod.splits)
qed (simp add: sse_meaning_def drain_blocks.simps)


section \<open>The property\<close>

text \<open>C22
  What a stream of server-sent events yields is determined by its bytes and not by how the transport
  cut them into chunks: as long as no chunk is empty and none fails, the messages are those of the
  whole byte string, for any cut, and a failure comes after the messages of the blocks complete by
  then. Messages written in the event-stream format are read back exactly, in order.\<close>

theorem sse_chunking_irrelevant:
  fixes e :: 'e
  assumes "[] \<notin> set bs"
  shows "sse_items (chunks_to_sse (map Inr bs :: ('e + string) list)) = map Inr (sse_meaning (concat bs)) \<and>
    (\<exists>rest. sse_items (chunks_to_sse (map Inr bs @ Inl e # cs)) =
       map Inr (fst (drain_blocks (concat bs))) @ Inl e # map Inr rest) \<and>
    (\<forall>ms. list_all sse_plain ms \<and> concat bs = concat (map sse_text ms) \<longrightarrow>
       sse_items (chunks_to_sse (map Inr bs :: ('e + string) list)) =
         map (\<lambda>m. Inr \<lparr>sse_event = fst m, sse_data = join [newline] (snd m)\<rparr>) ms)"
proof -
  have "sse_items (chunks_to_sse (map Inr bs @ ds)) = sse_yields ds (concat bs)" for ds :: "('e + string) list"
    using sse_yields_chunks [OF assms, of ds "[]"]
    by (simp add: sse_items_future sse_future_def chunks_to_sse_def)
  note this [of "[]"] this [of "Inl e # cs"]
  then show ?thesis using sse_meaning_text by (auto simp: comp_def)
qed

theorem sse_chunking_irrelevant_witness:
  "sse_items (chunks_to_sse (map Inr [''event: a'', [newline], ''data: x'' @ [newline], [newline]] :: (unit + string) list)) =
     [Inr \<lparr>sse_event = ''a'', sse_data = ''x''\<rparr>]"
proof -
  let ?bs = "[''event: a'', [newline], ''data: x'' @ [newline], [newline]]"
  have "[] \<notin> set ?bs" by simp
  from sse_chunking_irrelevant [OF this, of "()" "[]"]
  have "list_all sse_plain [(''a'', [''x''])] \<and> concat ?bs = concat (map sse_text [(''a'', [''x''])]) \<longrightarrow>
      sse_items (chunks_to_sse (map Inr ?bs :: (unit + string) list)) = [Inr \<lparr>sse_event = ''a'', sse_data = ''x''\<rparr>]"
    by (elim conjE allE [of _ "[(''a'', [''x''])]"]) simp
  moreover have "list_all sse_plain [(''a'', [''x''])]"
    by (simp add: sse_plain_def one_line_def trim_def trim_start_def trim_end_def is_ws_def)
  moreover have "concat ?bs = concat (map sse_text [(''a'', [''x''])])"
    by (simp add: sse_text_def sse_lines_def unlines_def)
  ultimately show ?thesis by blast
qed

text \<open>An empty chunk ends the stream whatever follows it, and what a failure or an end leaves in the
  buffer is passed on as a message although its block never ended.\<close>

lemma empty_chunk_ends_stream:
  "sse_items (chunks_to_sse (Inr [] # cs)) = []"
  by (simp add: sse_items_future sse_future_def chunks_to_sse_def sse_meaning_def drain_blocks.simps)

lemma truncated_block_is_yielded:
  "sse_items (chunks_to_sse [Inr ''data: {\"a\"'', Inl e]) =
     [Inl e, Inr \<lparr>sse_event = [], sse_data = ''{\"a\"''\<rparr>]"
  by (simp add: sse_items_future sse_future_def chunks_to_sse_def sse_meaning_def drain_blocks.simps
      parse_block_def str_lines_def strip_cr_def sse_line_def starts_with_def strip_prefix_def unwrap_or_def)

end
