(* ===== verification/Client_Rest.thy ===== *)
theory Client_Rest
  imports Json Messages
begin

text \<open>
  One request of the client library (crates/suzerain-client/src/transport.rs) over either transport:
  the cached connection of the operator channel, one attempt with its report of whether the request
  may have reached the server, and the retry rule; \<open>ask\<close> of crates/suzerain-client/src/lib.rs, which
  polls until a turn has settled. The QUIC and HTTP libraries are parameters, with the state they act
  on threaded through.
\<close>

section \<open>Messages of the operator channel\<close>

datatype operator_hello =
  HelloRest string string "json option"
| HelloStream string
| HelloShell string

datatype operator_frame =
  FrameReply nat json
| FrameChunk string
| FrameEnd
| FrameError string

datatype client_error =
  HttpStatus nat string
| JsonError
| ChannelError string
| OpError string
| TimedOut string

section \<open>The retry rule\<close>

definition ascii_lower :: "char \<Rightarrow> char" where
  "ascii_lower c =
     (let n = (of_char c :: nat) in if 65 \<le> n \<and> n \<le> 90 then char_of (n + 32) else c)"

text \<open>\<open>eq_ignore_ascii_case\<close> against GET.\<close>

definition is_get :: "string \<Rightarrow> bool" where
  "is_get method \<longleftrightarrow> map ascii_lower method = ''get''"

definition safe_to_retry :: "string \<Rightarrow> bool \<Rightarrow> bool" where
  "safe_to_retry method sent \<longleftrightarrow> \<not> sent \<or> is_get method"

section \<open>The operator channel\<close>

record 'w iroh_net =
  in_bind :: "'w \<Rightarrow> (string + unit) \<times> 'w"
  in_resolve :: "string + unit"
  in_dial :: "'w \<Rightarrow> (string + unit) \<times> 'w"
  in_closed :: "'w \<Rightarrow> bool"
  in_open :: "'w \<Rightarrow> (string + unit) \<times> 'w"
  in_write :: "operator_hello \<Rightarrow> 'w \<Rightarrow> (string + unit) \<times> 'w"
  in_read :: "'w \<Rightarrow> (string + operator_frame) \<times> 'w"
  in_show :: "operator_frame \<Rightarrow> string"

text \<open>The client: whether its endpoint is bound, whether a connection is cached, and the network.\<close>

record 'w iroh_client =
  ic_bound :: bool
  ic_conn :: bool
  ic_world :: 'w

definition iroh_endpoint :: "'w iroh_net \<Rightarrow> 'w iroh_client \<Rightarrow> (client_error + unit) \<times> 'w iroh_client" where
  "iroh_endpoint N c =
     (if ic_bound c then (Inr (), c)
      else (case in_bind N (ic_world c) of
              (Inl e, w) \<Rightarrow> (Inl (ChannelError e), c\<lparr>ic_world := w\<rparr>)
            | (Inr _, w) \<Rightarrow> (Inr (), c\<lparr>ic_bound := True, ic_world := w\<rparr>)))"

definition connection :: "'w iroh_net \<Rightarrow> 'w iroh_client \<Rightarrow> (client_error + unit) \<times> 'w iroh_client" where
  "connection N c =
     (if ic_conn c \<and> \<not> in_closed N (ic_world c) then (Inr (), c)
      else (case iroh_endpoint N c of
              (Inl e, c1) \<Rightarrow> (Inl e, c1)
            | (Inr _, c1) \<Rightarrow>
                (case in_resolve N of
                   Inl e \<Rightarrow> (Inl (ChannelError e), c1)
                 | Inr _ \<Rightarrow>
                     (case in_dial N (ic_world c1) of
                        (Inl e, w) \<Rightarrow> (Inl (ChannelError e), c1\<lparr>ic_world := w\<rparr>)
                      | (Inr _, w) \<Rightarrow> (Inr (), c1\<lparr>ic_conn := True, ic_world := w\<rparr>)))))"

definition disconnect :: "'w iroh_client \<Rightarrow> 'w iroh_client" where
  "disconnect c = c\<lparr>ic_conn := False\<rparr>"

definition frame_result :: "'w iroh_net \<Rightarrow> operator_frame \<Rightarrow> (client_error \<times> bool) + json" where
  "frame_result N frame =
     (case frame of
        FrameReply status body \<Rightarrow>
          if 200 \<le> status \<and> status < 300 then Inr body
          else Inl (HttpStatus status (unwrap_or ''request failed'' (as_str (json_get ''error'' body))), True)
      | FrameError message \<Rightarrow> Inl (OpError message, True)
      | other \<Rightarrow> Inl (ChannelError (''unexpected frame: '' @ in_show N other), True))"

text \<open>One attempt; the flag says whether the request may have been received.\<close>

definition iroh_rest_once ::
    "'w iroh_net \<Rightarrow> string \<Rightarrow> string \<Rightarrow> json option \<Rightarrow> 'w iroh_client \<Rightarrow>
      ((client_error \<times> bool) + json) \<times> 'w iroh_client" where
  "iroh_rest_once N method path body c =
     (case connection N c of
        (Inl e, c1) \<Rightarrow> (Inl (e, False), c1)
      | (Inr _, c1) \<Rightarrow>
          (case in_open N (ic_world c1) of
             (Inl e, w) \<Rightarrow> (Inl (ChannelError e, False), c1\<lparr>ic_world := w\<rparr>)
           | (Inr _, w) \<Rightarrow>
               (case in_write N (HelloRest method path body) w of
                  (Inl e, w) \<Rightarrow> (Inl (ChannelError e, False), c1\<lparr>ic_world := w\<rparr>)
                | (Inr _, w) \<Rightarrow>
                    (case in_read N w of
                       (Inl e, w) \<Rightarrow> (Inl (ChannelError e, True), c1\<lparr>ic_world := w\<rparr>)
                     | (Inr frame, w) \<Rightarrow> (frame_result N frame, c1\<lparr>ic_world := w\<rparr>)))))"

definition iroh_rest ::
    "'w iroh_net \<Rightarrow> string \<Rightarrow> string \<Rightarrow> json option \<Rightarrow> 'w iroh_client \<Rightarrow>
      (client_error + json) \<times> 'w iroh_client" where
  "iroh_rest N method path body c =
     (case iroh_rest_once N method path body c of
        (Inr v, c1) \<Rightarrow> (Inr v, c1)
      | (Inl (e, sent), c1) \<Rightarrow>
          (if \<not> safe_to_retry method sent then (Inl e, disconnect c1)
           else (case iroh_rest_once N method path body (disconnect c1) of
                   (Inr v, c2) \<Rightarrow> (Inr v, c2)
                 | (Inl (e, _), c2) \<Rightarrow> (Inl e, c2))))"

section \<open>Plain HTTP\<close>

text \<open>A failed send: its text and whether it was a timeout and whether no connection was made.\<close>

record http_failure =
  hf_text :: string
  hf_timeout :: bool
  hf_connect :: bool

record 'w http_net =
  hn_method :: "string \<Rightarrow> string option"
  hn_send :: "string \<Rightarrow> string \<Rightarrow> json option \<Rightarrow> 'w \<Rightarrow> (http_failure + nat) \<times> 'w"
  hn_text :: "'w \<Rightarrow> (http_failure + string) \<times> 'w"
  hn_parse :: "string \<Rightarrow> json option"
  hn_status :: "nat \<Rightarrow> string"

definition map_reqwest_err :: "http_failure \<Rightarrow> client_error" where
  "map_reqwest_err f = (if hf_timeout f then TimedOut (hf_text f) else ChannelError (hf_text f))"

definition http_result :: "'w http_net \<Rightarrow> nat \<Rightarrow> string \<Rightarrow> (client_error \<times> bool) + json" where
  "http_result N status text =
     (if 200 \<le> status \<and> status < 300 then Inr (unwrap_or JNull (hn_parse N text))
      else Inl (HttpStatus status
             (unwrap_or (hn_status N status @ '': '' @ text)
               (Option.bind (hn_parse N text) (\<lambda>v. as_str (json_get ''error'' v)))), True))"

definition http_rest_once ::
    "'w http_net \<Rightarrow> string \<Rightarrow> string \<Rightarrow> string \<Rightarrow> json option \<Rightarrow> 'w \<Rightarrow>
      ((client_error \<times> bool) + json) \<times> 'w" where
  "http_rest_once N base method path body w =
     (case hn_send N method (base @ path) body w of
        (Inl f, w) \<Rightarrow> (Inl (map_reqwest_err f, \<not> hf_connect f), w)
      | (Inr status, w) \<Rightarrow>
          (case hn_text N w of
             (Inl f, w) \<Rightarrow> (Inl (map_reqwest_err f, True), w)
           | (Inr text, w) \<Rightarrow> (http_result N status text, w)))"

definition http_rest ::
    "'w http_net \<Rightarrow> string \<Rightarrow> string \<Rightarrow> string \<Rightarrow> json option \<Rightarrow> 'w \<Rightarrow> (client_error + json) \<times> 'w" where
  "http_rest N base method path body w =
     (case hn_method N method of
        None \<Rightarrow> (Inl (ChannelError (''invalid HTTP method '' @ [CHR 0x27] @ method @ [CHR 0x27])), w)
      | Some m \<Rightarrow>
          (case http_rest_once N base m path body w of
             (Inr v, w) \<Rightarrow> (Inr v, w)
           | (Inl (e, sent), w) \<Rightarrow>
               if \<not> safe_to_retry m sent then (Inl e, w)
               else (case http_rest_once N base m path body w of
                       (Inr v, w) \<Rightarrow> (Inr v, w)
                     | (Inl (e, _), w) \<Rightarrow> (Inl e, w))))"

text \<open>The trailing slashes of a base address are dropped.\<close>

definition http_base :: "string \<Rightarrow> string" where
  "http_base url = rev (dropWhile (\<lambda>c. c = CHR ''/'') (rev url))"

section \<open>Asking\<close>

text \<open>
  What \<open>ask\<close> uses: the prompt, the session state, the history, a pause of a second and the clock
  in milliseconds.\<close>

record 'w asker =
  ak_prompt :: "'w \<Rightarrow> (client_error + json) \<times> 'w"
  ak_state :: "'w \<Rightarrow> (client_error + json) \<times> 'w"
  ak_history :: "'w \<Rightarrow> (client_error + json) \<times> 'w"
  ak_pause :: "'w \<Rightarrow> 'w"
  ak_now :: "'w \<Rightarrow> nat"

fun ask_poll :: "nat \<Rightarrow> 'w asker \<Rightarrow> nat \<Rightarrow> bool \<Rightarrow> 'w \<Rightarrow> ((client_error + unit) \<times> 'w) option" where
  "ask_poll 0 A deadline seen w = None"
| "ask_poll (Suc n) A deadline seen w =
     (if deadline \<le> ak_now A w then Some (Inr (), w)
      else (case ak_state A w of
              (Inl e, w) \<Rightarrow> Some (Inl e, w)
            | (Inr st, w) \<Rightarrow>
                if unwrap_or False (as_bool (json_get ''streaming'' st)) then
                  ask_poll n A deadline True (ak_pause A w)
                else if seen then Some (Inr (), w)
                else ask_poll n A deadline seen (ak_pause A w)))"

text \<open>The text of the last assistant item of a history.\<close>

definition ask_text :: "json \<Rightarrow> string" where
  "ask_text history =
     (case find (\<lambda>item. json_get ''role'' item = JStr ''assistant'')
         (rev (unwrap_or [] (as_array (json_get ''items'' history)))) of
        None \<Rightarrow> []
      | Some item \<Rightarrow>
          concat (List.map_filter (\<lambda>p. as_str (json_get ''text'' p))
            (filter (\<lambda>p. json_get ''type'' p = JStr ''text'')
              (unwrap_or [] (as_array (json_get ''parts'' item))))))"

definition ask :: "nat \<Rightarrow> 'w asker \<Rightarrow> nat \<Rightarrow> 'w \<Rightarrow> ((client_error + string) \<times> 'w) option" where
  "ask n A timeout w =
     (case ak_prompt A w of
        (Inl e, w) \<Rightarrow> Some (Inl e, w)
      | (Inr _, w) \<Rightarrow>
          (case ask_poll n A (ak_now A w + timeout) False w of
             None \<Rightarrow> None
           | Some (Inl e, w) \<Rightarrow> Some (Inl e, w)
           | Some (Inr _, w) \<Rightarrow>
               (case ak_history A w of
                  (Inl _, w) \<Rightarrow> Some (Inr (ask_text (JObj [(''items'', JArr [])])), w)
                | (Inr history, w) \<Rightarrow> Some (Inr (ask_text history), w))))"

text \<open>A pause takes a second and no request turns the clock back.\<close>

definition clock_runs :: "'w asker \<Rightarrow> bool" where
  "clock_runs A \<longleftrightarrow>
     (\<forall>w. ak_now A w + 1000 \<le> ak_now A (ak_pause A w)) \<and>
     (\<forall>w out w'. ak_state A w = (out, w') \<longrightarrow> ak_now A w \<le> ak_now A w')"

lemma ask_poll_ends:
  assumes "clock_runs A" "deadline \<le> ak_now A w + 1000 * n"
  shows "\<exists>r. ask_poll (Suc n) A deadline seen w = Some r"
  using assms(2)
proof (induction n arbitrary: seen w)
  case (Suc n)
  obtain out w1 where w1: "ak_state A w = (out, w1)" by fastforce
  then have "ak_now A w + 1000 \<le> ak_now A (ak_pause A w1)"
    using assms(1) unfolding clock_runs_def by (meson add_le_mono1 order_trans)
  then have "deadline \<le> ak_now A (ak_pause A w1) + 1000 * n" using Suc.prems by simp
  then have "\<exists>r. ask_poll (Suc n) A deadline seen (ak_pause A w1) = Some r" for seen
    by (rule Suc.IH)
  then show ?case
    by (subst ask_poll.simps(2)) (simp add: w1 del: ask_poll.simps split: sum.split)
qed simp

text \<open>With a second of timeout for each unit of fuel, asking always answers.\<close>

lemma ask_answers:
  assumes "clock_runs A" "timeout \<le> 1000 * n"
  shows "\<exists>r. ask (Suc n) A timeout w = Some r"
proof (cases "ak_prompt A w")
  case (Pair out w')
  then obtain r where "ask_poll (Suc n) A (ak_now A w' + timeout) False w' = Some r"
    using ask_poll_ends [OF assms(1), of "ak_now A w' + timeout" w' n False] assms(2) by auto
  then show ?thesis
    using Pair by (cases r) (auto simp: ask_def simp del: ask_poll.simps split: sum.splits prod.splits)
qed

section \<open>At most once\<close>

text \<open>
  \<open>handed\<close> lists the requests whose bytes went out whole, the only ones the server can act on.
  Binding, dialling, opening a stream and reading hand nothing over; a write that fails has not
  written its line.\<close>

definition iroh_wire_ok :: "'w iroh_net \<Rightarrow> ('w \<Rightarrow> operator_hello list) \<Rightarrow> bool" where
  "iroh_wire_ok N handed \<longleftrightarrow>
     (\<forall>w out w'. in_bind N w = (out, w') \<longrightarrow> handed w' = handed w) \<and>
     (\<forall>w out w'. in_dial N w = (out, w') \<longrightarrow> handed w' = handed w) \<and>
     (\<forall>w out w'. in_open N w = (out, w') \<longrightarrow> handed w' = handed w) \<and>
     (\<forall>h w e w'. in_write N h w = (Inl e, w') \<longrightarrow> handed w' = handed w) \<and>
     (\<forall>h w w'. in_write N h w = (Inr (), w') \<longrightarrow> handed w' = handed w @ [h]) \<and>
     (\<forall>w out w'. in_read N w = (out, w') \<longrightarrow> handed w' = handed w)"

lemma connection_handed:
  assumes "iroh_wire_ok N handed" "connection N c = (out, c')"
  shows "handed (ic_world c') = handed (ic_world c)"
proof (cases "ic_conn c \<and> \<not> in_closed N (ic_world c)")
  case False
  obtain o1 c1 where c1: "iroh_endpoint N c = (o1, c1)" by fastforce
  have "handed (snd (in_bind N (ic_world c))) = handed (ic_world c)"
    using assms(1) unfolding iroh_wire_ok_def by (metis surjective_pairing)
  then have h1: "handed (ic_world c1) = handed (ic_world c)"
    using c1 by (cases "in_bind N (ic_world c)") (auto simp: iroh_endpoint_def split: sum.splits if_splits)
  obtain o2 w2 where w2: "in_dial N (ic_world c1) = (o2, w2)" by fastforce
  then have "handed w2 = handed (ic_world c)"
    using assms(1) h1 unfolding iroh_wire_ok_def by metis
  then show ?thesis
    using assms(2) False c1 h1 w2
    by (cases o1; cases "in_resolve N"; cases o2) (simp_all add: connection_def, auto)
qed (use assms(2) in \<open>simp add: connection_def\<close>)

lemma frame_result_sent: "frame_result N frame = Inl (e, sent) \<Longrightarrow> sent"
  by (auto simp: frame_result_def split: operator_frame.splits if_splits)

lemma iroh_once_handed:
  assumes "iroh_wire_ok N handed" "iroh_rest_once N m p b c = (out, c')"
  shows "handed (ic_world c') = handed (ic_world c) @
    (case out of Inl (_, False) \<Rightarrow> [] | _ \<Rightarrow> [HelloRest m p b])"
proof -
  obtain o1 c1 where c1: "connection N c = (o1, c1)" by fastforce
  note h = connection_handed [OF assms(1) c1]
  note once = assms(2) [unfolded iroh_rest_once_def c1 prod.case]
  show ?thesis
  proof (cases o1)
    case (Inr u)
    obtain o2 w2 where w2: "in_open N (ic_world c1) = (o2, w2)" by fastforce
    have h2: "handed w2 = handed (ic_world c)" using assms(1) w2 h unfolding iroh_wire_ok_def by metis
    show ?thesis
    proof (cases o2)
      case (Inr u2)
      obtain o3 w3 where w3: "in_write N (HelloRest m p b) w2 = (o3, w3)" by fastforce
      show ?thesis
      proof (cases o3)
        case (Inl e)
        then have "handed w3 = handed (ic_world c)"
          using assms(1) w3 h2 unfolding iroh_wire_ok_def by metis
        then show ?thesis using once \<open>o1 = Inr u\<close> w2 \<open>o2 = Inr u2\<close> w3 Inl by auto
      next
        case (Inr u3)
        obtain o4 w4 where w4: "in_read N w3 = (o4, w4)" by fastforce
        have "handed w4 = handed (ic_world c) @ [HelloRest m p b]"
          using assms(1) w3 w4 h2 Inr unfolding iroh_wire_ok_def by (metis old.unit.exhaust)
        then show ?thesis
          using once \<open>o1 = Inr u\<close> w2 \<open>o2 = Inr u2\<close> w3 Inr w4 frame_result_sent [of N]
          by (cases o4) (auto split: sum.splits bool.splits)
      qed
    qed (use once \<open>o1 = Inr u\<close> w2 h2 in auto)
  qed (use once h in auto)
qed

definition http_wire_ok ::
    "'w http_net \<Rightarrow> ('w \<Rightarrow> (string \<times> string \<times> json option) list) \<Rightarrow> bool" where
  "http_wire_ok N handed \<longleftrightarrow>
     (\<forall>m u b w f w'. hn_send N m u b w = (Inl f, w') \<longrightarrow>
        handed w' = handed w \<or> \<not> hf_connect f \<and> handed w' = handed w @ [(m, u, b)]) \<and>
     (\<forall>m u b w st w'. hn_send N m u b w = (Inr st, w') \<longrightarrow> handed w' = handed w @ [(m, u, b)]) \<and>
     (\<forall>w out w'. hn_text N w = (out, w') \<longrightarrow> handed w' = handed w)"

lemma http_once_handed:
  assumes "http_wire_ok N handed" "http_rest_once N base m p b w = (out, w')"
  shows "handed w' = handed w @ [(m, base @ p, b)] \<or>
    (\<exists>e sent. out = Inl (e, sent)) \<and> handed w' = handed w"
    and "out = Inl (e, False) \<Longrightarrow> handed w' = handed w"
proof -
  obtain o1 w1 where w1: "hn_send N m (base @ p) b w = (o1, w1)" by fastforce
  note once = assms(2) [unfolded http_rest_once_def w1 prod.case]
  have "(handed w' = handed w @ [(m, base @ p, b)] \<or>
    (\<exists>e sent. out = Inl (e, sent)) \<and> handed w' = handed w) \<and>
    (out = Inl (e, False) \<longrightarrow> handed w' = handed w)"
  proof (cases o1)
    case (Inl f)
    then have "handed w1 = handed w \<or> \<not> hf_connect f \<and> handed w1 = handed w @ [(m, base @ p, b)]"
      using assms(1) w1 unfolding http_wire_ok_def by metis
    then show ?thesis using once Inl by auto
  next
    case (Inr st)
    obtain o2 w2 where w2: "hn_text N w1 = (o2, w2)" by fastforce
    have "handed w2 = handed w @ [(m, base @ p, b)]"
      using assms(1) w1 w2 Inr unfolding http_wire_ok_def by metis
    then show ?thesis using once Inr w2 by (cases o2) (auto simp: http_result_def split: if_splits)
  qed
  then show "handed w' = handed w @ [(m, base @ p, b)] \<or>
    (\<exists>e sent. out = Inl (e, sent)) \<and> handed w' = handed w"
    "out = Inl (e, False) \<Longrightarrow> handed w' = handed w"
    by blast+
qed

lemma iroh_rest_handed:
  assumes "iroh_wire_ok N handed" "iroh_rest N m p b c = (out, c')"
  obtains i where "handed (ic_world c') = handed (ic_world c) @ replicate i (HelloRest m p b)"
    "i \<le> (if is_get m then 2 else 1)" "is_ok out \<Longrightarrow> 0 < i" 
proof -
  let ?h = "HelloRest m p b"
  have once: "\<exists>i \<le> 1. handed (ic_world c2) = handed (ic_world c1) @ replicate i ?h \<and>
      (i = 0 \<longleftrightarrow> (\<exists>e. o2 = Inl (e, False)))"
    if "iroh_rest_once N m p b c1 = (o2, c2)" for c1 c2 o2
  proof (cases "\<exists>e. o2 = Inl (e, False)")
    case True
    then show ?thesis using iroh_once_handed [OF assms(1) that] by (intro exI [of _ 0]) auto
  next
    case False
    then have "handed (ic_world c2) = handed (ic_world c1) @ [?h]"
      using iroh_once_handed [OF assms(1) that] by (auto split: sum.splits bool.splits prod.splits)
    then show ?thesis using False by (intro exI [of _ 1]) auto
  qed
  obtain o1 c1 where c1: "iroh_rest_once N m p b c = (o1, c1)" by fastforce
  obtain i where i: "i \<le> 1" "handed (ic_world c1) = handed (ic_world c) @ replicate i ?h"
    "i = 0 \<longleftrightarrow> (\<exists>e. o1 = Inl (e, False))"
    using once [OF c1] by blast
  show thesis
  proof (cases "\<exists>e sent. o1 = Inl (e, sent) \<and> safe_to_retry m sent")
    case True
    then obtain e sent where e: "o1 = Inl (e, sent)" "safe_to_retry m sent" by blast
    obtain o2 c2 where c2: "iroh_rest_once N m p b (disconnect c1) = (o2, c2)" by fastforce
    obtain j where j: "j \<le> 1" "handed (ic_world c2) = handed (ic_world c1) @ replicate j ?h"
      "j = 0 \<longleftrightarrow> (\<exists>e. o2 = Inl (e, False))"
      using once [OF c2] by (auto simp: disconnect_def)
    have "c' = c2 \<and> (is_ok out \<longrightarrow> is_ok o2)"
      using assms(2) c1 e c2 by (auto simp: iroh_rest_def split: sum.splits)
    then show thesis
      using that [of "i + j"] i j e by (auto simp: replicate_add safe_to_retry_def split: if_splits)
  next
    case False
    then have "handed (ic_world c') = handed (ic_world c1) \<and> (is_ok out \<longrightarrow> is_ok o1)"
      using assms(2) c1 by (auto simp: iroh_rest_def disconnect_def split: sum.splits if_splits)
    then show thesis using that [of i] i by (auto split: if_splits)
  qed
qed

text \<open>C23
  A request of the client takes effect at most once over the operator channel, whatever fails on the
  way: a method other than GET is handed to the server at most once and a GET at most twice, and an
  answer is only reported for a request that was handed over.\<close>

theorem request_at_most_once:
  assumes "iroh_wire_ok N handed" "iroh_rest N m p b c = (out, c')"
  shows "\<exists>i. handed (ic_world c') = handed (ic_world c) @ replicate i (HelloRest m p b) \<and>
    i \<le> (if is_get m then 2 else 1) \<and> (is_ok out \<longrightarrow> 0 < i)"
  using iroh_rest_handed [OF assms] by metis

text \<open>The same over plain HTTP.\<close>

lemma http_request_at_most_once:
  assumes "http_wire_ok N handed" "hn_method N m = Some k" "http_rest N base m p b w = (out, w')"
  shows "\<exists>i. handed w' = handed w @ replicate i (k, base @ p, b) \<and>
    i \<le> (if is_get k then 2 else 1) \<and> (is_ok out \<longrightarrow> 0 < i)"
proof -
  let ?h = "(k, base @ p, b)"
  have once: "\<exists>i \<le> 1. handed w2 = handed w1 @ replicate i ?h \<and> (is_ok o2 \<longrightarrow> i = 1) \<and>
      (\<forall>e. o2 = Inl (e, False) \<longrightarrow> i = 0)"
    if "http_rest_once N base k p b w1 = (o2, w2)" for w1 w2 o2
    using http_once_handed [OF assms(1) that]
    by (cases "handed w2 = handed w1") (auto intro: exI [of _ 0] exI [of _ 1])
  obtain o1 w1 where w1: "http_rest_once N base k p b w = (o1, w1)" by fastforce
  obtain i where i: "i \<le> 1" "handed w1 = handed w @ replicate i ?h" "is_ok o1 \<longrightarrow> i = 1"
    "\<forall>e. o1 = Inl (e, False) \<longrightarrow> i = 0"
    using once [OF w1] by blast
  show ?thesis
  proof (cases "\<exists>e sent. o1 = Inl (e, sent) \<and> safe_to_retry k sent")
    case True
    then obtain e sent where e: "o1 = Inl (e, sent)" "safe_to_retry k sent" by blast
    obtain o2 w2 where w2: "http_rest_once N base k p b w1 = (o2, w2)" by fastforce
    obtain j where j: "j \<le> 1" "handed w2 = handed w1 @ replicate j ?h" "is_ok o2 \<longrightarrow> j = 1"
      using once [OF w2] by blast
    have "w' = w2 \<and> (is_ok out \<longrightarrow> is_ok o2)"
      using assms(2,3) w1 e w2 by (auto simp: http_rest_def split: sum.splits)
    moreover have "i + j \<le> (if is_get k then 2 else 1)"
      using i j e by (cases sent) (auto simp: safe_to_retry_def)
    ultimately show ?thesis using i j by (intro exI [of _ "i + j"]) (auto simp: replicate_add)
  next
    case False
    then have "w' = w1 \<and> (is_ok out \<longrightarrow> is_ok o1)"
      using assms(2,3) w1 by (auto simp: http_rest_def split: sum.splits if_splits)
    then show ?thesis using i by (intro exI [of _ i]) auto
  qed
qed

text \<open>A network whose reads fail: the line went out, its answer never came.\<close>

definition deaf_net :: "operator_hello list iroh_net" where
  "deaf_net =
     \<lparr>in_bind = (\<lambda>w. (Inr (), w)), in_resolve = Inr (), in_dial = (\<lambda>w. (Inr (), w)), in_closed = (\<lambda>_. False),
      in_open = (\<lambda>w. (Inr (), w)), in_write = (\<lambda>h w. (Inr (), w @ [h])),
      in_read = (\<lambda>w. (Inl ''connection lost'', w)), in_show = (\<lambda>_. [])\<rparr>"

theorem request_at_most_once_witness:
  "\<exists>i. ic_world (snd (iroh_rest deaf_net ''POST'' ''/api/v1/agents'' None \<lparr>ic_bound = False, ic_conn = False, ic_world = []\<rparr>)) =
     replicate i (HelloRest ''POST'' ''/api/v1/agents'' None) \<and> i \<le> 1"
proof -
  let ?c = "\<lparr>ic_bound = False, ic_conn = False, ic_world = []\<rparr>"
  have w: "iroh_wire_ok deaf_net (\<lambda>w. w)" by (auto simp: iroh_wire_ok_def deaf_net_def)
  obtain out c' where r: "iroh_rest deaf_net ''POST'' ''/api/v1/agents'' None ?c = (out, c')" by fastforce
  have "\<not> is_get ''POST''" by (simp add: is_get_def ascii_lower_def)
  then show ?thesis using request_at_most_once [OF w r] r by auto
qed

end
