(* ===== verification/Chat_View.thy ===== *)
theory Chat_View
  imports Transcript
begin

text \<open>
  The chat model of the desktop client (crates/suzy/src/chat.rs): what one conversation shows, how a
  replayed history item and how a live event change it. It reads the items that \<open>Transcript\<close> builds
  from the log, and the raw events themselves; both views of one session are compared here. Rendering
  is left out. \<open>print\<close> writes a JSON value as compact text.
\<close>

section \<open>Chat items\<close>

datatype chat_part =
  PartText string
| PartThinking string
| PartToolCall string string

datatype chat_item =
  ItemUser string
| ItemAssistant "chat_part list"
| ItemToolResult string string bool
| ItemSystem string
| ItemError string

definition max_chat_items :: nat where
  "max_chat_items = 2000"

record chat =
  ch_agent :: string
  ch_items :: "chat_item list"
  ch_input :: string
  ch_streaming :: bool
  ch_history_done :: bool
  ch_status_line :: string
  ch_closed :: "string option option"

definition new_chat :: "string \<Rightarrow> chat" where
  "new_chat agent =
     \<lparr>ch_agent = agent, ch_items = [], ch_input = [], ch_streaming = False, ch_history_done = False,
      ch_status_line = [], ch_closed = None\<rparr>"

definition push_item :: "chat_item \<Rightarrow> chat \<Rightarrow> chat" where
  "push_item item c =
     (let items = ch_items c @ [item]
      in c\<lparr>ch_items := if length items > max_chat_items then drop (length items - max_chat_items) items else items\<rparr>)"

section \<open>Parts\<close>

text \<open>The bytes of a character after its first.\<close>

definition utf8_more :: "char \<Rightarrow> bool" where
  "utf8_more b \<longleftrightarrow> (let n = (of_char b :: nat) in 128 \<le> n \<and> n < 192)"

definition chars_count :: "string \<Rightarrow> nat" where
  "chars_count s = length (filter (\<lambda>b. \<not> utf8_more b) s)"

fun take_chars :: "nat \<Rightarrow> string \<Rightarrow> string" where
  "take_chars n [] = []"
| "take_chars n (b # s) =
     (if utf8_more b then b # take_chars n s
      else (case n of 0 \<Rightarrow> [] | Suc k \<Rightarrow> b # take_chars k s))"

definition ellipsis_text :: string where
  "ellipsis_text = [CHR 0xE2, CHR 0x80, CHR 0xA6]"

definition warning_text :: string where
  "warning_text = [CHR 0xE2, CHR 0x9A, CHR 0xA0, CHR '' '']"

definition summarize_args :: "(json \<Rightarrow> string) \<Rightarrow> json \<Rightarrow> string" where
  "summarize_args print args =
     (let s = (case args of JStr s \<Rightarrow> s | other \<Rightarrow> print other);
          line = map (\<lambda>b. if b = newline then CHR '' '' else b) s
      in if chars_count line > 200 then take_chars 200 line @ ellipsis_text else line)"

definition text_or :: "string \<Rightarrow> json \<Rightarrow> string" where
  "text_or d j = unwrap_or d (as_str j)"

definition parts_text :: "json list option \<Rightarrow> string" where
  "parts_text parts =
     (case parts of
        None \<Rightarrow> []
      | Some ps \<Rightarrow> join newline_text (List.map_filter (\<lambda>p. as_str (json_get ''text'' p))
          (filter (\<lambda>p. json_get ''type'' p = JStr ''text'' \<or> json_get ''type'' p = JStr ''session_boundary'') ps)))"

definition assistant_parts :: "(json \<Rightarrow> string) \<Rightarrow> json list option \<Rightarrow> chat_part list" where
  "assistant_parts print parts =
     List.map_filter (\<lambda>p.
       (case as_str (json_get ''type'' p) of
          None \<Rightarrow> None
        | Some t \<Rightarrow>
            if t = ''text'' then Some (PartText (text_or [] (json_get ''text'' p)))
            else if t = ''thinking'' then Some (PartThinking (text_or [] (json_get ''text'' p)))
            else if t = ''tool_call'' then
              Some (PartToolCall (text_or ''tool'' (json_get ''name'' p)) (summarize_args print (json_get ''arguments'' p)))
            else if t = ''error'' then
              Some (PartText (warning_text @ text_or ''turn failed'' (json_get ''text'' p)))
            else None)) (unwrap_or [] parts)"

definition chat_tool_result :: "json list option \<Rightarrow> chat_item option" where
  "chat_tool_result parts =
     (case parts of
        Some (p # _) \<Rightarrow>
          Some (ItemToolResult (text_or ''tool'' (json_get ''name'' p)) (text_or [] (json_get ''text'' p))
            (unwrap_or False (as_bool (json_get ''is_error'' p))))
      | _ \<Rightarrow> None)"

section \<open>A replayed item\<close>

definition push_history :: "(json \<Rightarrow> string) \<Rightarrow> json \<Rightarrow> chat \<Rightarrow> chat" where
  "push_history print item c =
     (let role = text_or [] (json_get ''role'' item); parts = as_array (json_get ''parts'' item)
      in if role = ''user'' then
           (if trim (parts_text parts) = [] then c else push_item (ItemUser (parts_text parts)) c)
         else if role = ''assistant'' then push_item (ItemAssistant (assistant_parts print parts)) c
         else if role = ''toolResult'' then
           (case chat_tool_result parts of None \<Rightarrow> c | Some tr \<Rightarrow> push_item tr c)
         else if role = ''system'' then push_item (ItemSystem (parts_text parts)) c
         else c)"

section \<open>A live event\<close>

definition live_part :: "(json \<Rightarrow> string) \<Rightarrow> json \<Rightarrow> chat_part option" where
  "live_part print c =
     (case as_str (json_get ''type'' c) of
        None \<Rightarrow> None
      | Some t \<Rightarrow>
          if t = ''text'' then Some (PartText (text_or [] (json_get ''text'' c)))
          else if t = ''thinking'' then Some (PartThinking (text_or [] (json_get ''thinking'' c)))
          else if t = ''toolCall'' then
            Some (PartToolCall (text_or ''tool'' (json_get ''name'' c)) (summarize_args print (json_get ''arguments'' c)))
          else None)"

definition stopped_badly :: "json \<Rightarrow> bool" where
  "stopped_badly message \<longleftrightarrow>
     (let stop = as_str (json_get ''stopReason'' message) in stop = Some ''error'' \<or> stop = Some ''aborted'')"

definition error_item :: "json \<Rightarrow> chat_item" where
  "error_item message =
     (let detail = text_or [] (json_get ''errorMessage'' message)
      in ItemError (if detail = [] then ''turn ended: '' @ text_or ''error'' (json_get ''stopReason'' message)
           else ''LLM request failed: '' @ detail))"

definition message_to_item :: "(json \<Rightarrow> string) \<Rightarrow> json \<Rightarrow> chat_item option" where
  "message_to_item print message =
     (case as_str (json_get ''role'' message) of
        None \<Rightarrow> None
      | Some role \<Rightarrow>
          if role = ''assistant'' then
            (case as_array (json_get ''content'' message) of
               None \<Rightarrow> None
             | Some content \<Rightarrow>
                 let parts = List.map_filter (live_part print) content
                 in if stopped_badly message then Some (error_item message)
                    else if parts = [] then None else Some (ItemAssistant parts))
          else if role = ''toolResult'' then
            Some (ItemToolResult (text_or ''tool'' (json_get ''toolName'' message))
              (case as_array (json_get ''content'' message) of None \<Rightarrow> [] | Some arr \<Rightarrow> text_blocks arr)
              (unwrap_or False (as_bool (json_get ''isError'' message))))
          else
            (let text = (case json_get ''content'' message of JStr s \<Rightarrow> s | JArr arr \<Rightarrow> text_blocks arr | _ \<Rightarrow> [])
             in if trim text = [] then None else Some (ItemUser text)))"

definition push_live :: "(json \<Rightarrow> string) \<Rightarrow> json \<Rightarrow> chat \<Rightarrow> chat" where
  "push_live print event c =
     (let t = text_or [] (json_get ''type'' event)
      in if t = ''turn_start'' then c\<lparr>ch_streaming := True\<rparr>
         else if t = ''turn_end'' \<or> t = ''agent_end'' \<or> t = ''agent_settled'' then c\<lparr>ch_streaming := False\<rparr>
         else if t = ''status'' \<or> t = ''notice'' then
           (let msg = text_or [] (json_get ''message'' event);
                c1 = (case as_str (json_get ''status'' event) of
                        None \<Rightarrow> c
                      | Some status \<Rightarrow> c\<lparr>ch_status_line := status @ '' '' @ dash_text @ '' '' @ msg\<rparr>)
            in if msg = [] then c1 else push_item (ItemSystem msg) c1)
         else if t = ''message_end'' then
           (case message_to_item print (json_get ''message'' event) of None \<Rightarrow> c | Some item \<Rightarrow> push_item item c)
         else if t = ''tool_execution_start'' then
           c\<lparr>ch_status_line := ''running '' @ text_or ''tool'' (json_get ''toolName'' event) @ ellipsis_text\<rparr>
         else if t = ''tool_execution_end'' then c\<lparr>ch_status_line := []\<rparr>
         else c)"

section \<open>The item cap\<close>

lemma push_item_simps [simp]:
  "ch_streaming (push_item i c) = ch_streaming c" "ch_status_line (push_item i c) = ch_status_line c"
  by (simp_all add: push_item_def Let_def)

lemma push_item_items: "ch_items (push_item i c) = last_items max_chat_items (ch_items c @ [i])"
  by (simp add: push_item_def last_items_def Let_def)

lemma push_item_bounded: "length (ch_items (push_item i c)) \<le> max_chat_items"
  by (simp add: push_item_items last_items_def)

lemma pushes_bounded:
  assumes "length (ch_items c) \<le> max_chat_items"
  shows "length (ch_items (push_live print e c)) \<le> max_chat_items"
    "length (ch_items (push_history print e c)) \<le> max_chat_items"
  using assms push_item_bounded
  by (auto simp: push_live_def push_history_def Let_def split: option.split)

section \<open>Live and replayed\<close>

text \<open>Roles that both views know, with a turn that did not fail.\<close>

definition shown_alike :: "json \<Rightarrow> bool" where
  "shown_alike message \<longleftrightarrow>
     as_str (json_get ''role'' message) \<in> {Some ''user'', Some ''assistant'', Some ''toolResult''} \<and>
     (as_str (json_get ''role'' message) = Some ''assistant'' \<longrightarrow> \<not> stopped_badly message)"

lemma json_get_simps:
  "json_get k (JObj []) = JNull"
  "json_get k (JObj ((k', v) # kvs)) = (if k = k' then v else json_get k (JObj kvs))"
  by (simp_all add: json_get_def unwrap_or_def)

lemma as_str_simps: "as_str (JStr s) = Some s" "as_array (JArr vs) = Some vs" "as_bool (JBool b) = Some b"
  by (simp_all add: as_str_def as_array_def as_bool_def)

lemma map_filter_compose:
  "List.map_filter f (List.map_filter g xs) = List.map_filter (\<lambda>x. Option.bind (g x) f) xs"
  by (induction xs) (auto simp: map_filter_simps split: option.split)

lemma replayed_parts:
  "assistant_parts print (Some (List.map_filter assistant_part content)) = List.map_filter (live_part print) content"
proof -
  let ?f = "\<lambda>p. case as_str (json_get ''type'' p) of
          None \<Rightarrow> None
        | Some t \<Rightarrow>
            if t = ''text'' then Some (PartText (text_or [] (json_get ''text'' p)))
            else if t = ''thinking'' then Some (PartThinking (text_or [] (json_get ''text'' p)))
            else if t = ''tool_call'' then
              Some (PartToolCall (text_or ''tool'' (json_get ''name'' p)) (summarize_args print (json_get ''arguments'' p)))
            else if t = ''error'' then
              Some (PartText (warning_text @ text_or ''turn failed'' (json_get ''text'' p)))
            else None"
  have "Option.bind (assistant_part c) ?f = live_part print c" for c
    by (simp add: assistant_part_def live_part_def json_get_simps as_str_simps split: option.split)
  then show ?thesis
    by (simp add: assistant_parts_def unwrap_or_def map_filter_compose)
qed

lemma replayed_message:
  assumes "shown_alike m"
  shows "(case transcript_item m of None \<Rightarrow> c | Some item \<Rightarrow> push_history print item c) =
    (case message_to_item print m of None \<Rightarrow> c | Some item \<Rightarrow> push_item item c)"
proof -
  obtain role where role: "as_str (json_get ''role'' m) = Some role" "role \<in> {''user'', ''assistant'', ''toolResult''}"
    using assms by (auto simp: shown_alike_def)
  then consider "role = ''user''" | "role = ''assistant''" | "role = ''toolResult''" by blast
  then show ?thesis
  proof cases
    case 1
    have "plain_text m = (case json_get ''content'' m of JStr s \<Rightarrow> s | JArr arr \<Rightarrow> text_blocks arr | _ \<Rightarrow> [])"
      by (simp add: plain_text_def)
    then show ?thesis using role 1
      by (simp add: transcript_item_def message_parts_def message_to_item_def push_history_def json_get_simps
          as_str_simps text_or_def unwrap_or_def parts_text_def map_filter_simps Let_def)
  next
    case 2
    have "stop_part m = []" using assms role 2
      by (auto simp: shown_alike_def stopped_badly_def stop_part_def Let_def)
    show ?thesis
    proof (cases "as_array (json_get ''content'' m)")
      case (Some content)
      have "List.map_filter assistant_part content = [] \<longleftrightarrow> List.map_filter (live_part print) content = []"
        by (auto simp: map_filter_def filter_empty_conv assistant_part_def live_part_def split: option.splits)
      then show ?thesis using role 2 Some \<open>stop_part m = []\<close> assms replayed_parts [of print content]
        by (simp add: transcript_item_def message_parts_def message_to_item_def push_history_def json_get_simps
            as_str_simps text_or_def unwrap_or_def shown_alike_def Let_def)
    qed (use role 2 in \<open>simp add: transcript_item_def message_parts_def message_to_item_def\<close>)
  next
    case 3
    then show ?thesis using role
      by (simp add: transcript_item_def message_parts_def message_to_item_def push_history_def json_get_simps
          as_str_simps text_or_def unwrap_or_def chat_tool_result_def tool_result_part_def Let_def)
  qed
qed

text \<open>A log entry of an event: the kind is the event's type, the payload the event.\<close>

definition logged :: "json \<Rightarrow> json \<Rightarrow> bool" where
  "logged event entry \<longleftrightarrow>
     as_str (json_get ''kind'' entry) = Some (unwrap_or ''unknown'' (as_str (json_get ''type'' event))) \<and>
     json_get ''payload'' entry = event"

text \<open>Events of the agent itself: no narration, no death of a process, messages both views know.\<close>

definition plain_event :: "json \<Rightarrow> bool" where
  "plain_event event \<longleftrightarrow>
     (let t = as_str (json_get ''type'' event)
      in t \<notin> Some ` {''status'', ''notice'', ''pi_stderr'', ''pi_exit'', ''driver_died'', ''session_started'',
           ''session_rotated'', ''agent_end''} \<and>
         (t = Some ''message_end'' \<longrightarrow> shown_alike (json_get ''message'' event)))"

lemma push_item_cong: "ch_items c = ch_items d \<Longrightarrow> ch_items (push_item i c) = ch_items (push_item i d)"
  by (simp add: push_item_items)

lemma replayed_event:
  assumes "plain_event event" "logged event entry" "ch_items c = ch_items d"
  shows "ch_items (push_live print event c) =
      ch_items (case history_item entry of None \<Rightarrow> d | Some item \<Rightarrow> push_history print item d)"
    and "ch_streaming (push_live print event c) = streaming_step entry (ch_streaming c)"
proof -
  have kind: "unwrap_or [] (as_str (json_get ''kind'' entry)) = unwrap_or ''unknown'' (as_str (json_get ''type'' event))"
    using assms(2) by (simp add: logged_def unwrap_or_def)
  show "ch_items (push_live print event c) =
      ch_items (case history_item entry of None \<Rightarrow> d | Some item \<Rightarrow> push_history print item d)"
  proof (cases "as_str (json_get ''type'' event) = Some ''message_end''")
    case True
    let ?m = "json_get ''message'' event"
    have "history_item entry = transcript_item ?m"
      using True kind assms(2) by (simp add: history_item_def logged_def unwrap_or_def Let_def)
    moreover have "push_live print event c =
        (case message_to_item print ?m of None \<Rightarrow> c | Some item \<Rightarrow> push_item item c)"
      using True by (simp add: push_live_def text_or_def unwrap_or_def)
    moreover have "shown_alike ?m" using True assms(1) by (simp add: plain_event_def Let_def)
    ultimately show ?thesis
      using replayed_message [of ?m d print] assms(3)
      by (auto simp: push_item_cong [OF assms(3)] split: option.split)
  next
    case False
    then have "history_item entry = None"
      using assms(1) kind
      by (cases "as_str (json_get ''type'' event)")
        (auto simp: history_item_def system_text_def plain_event_def unwrap_or_def Let_def)
    moreover have "ch_items (push_live print event c) = ch_items c"
      using False assms(1)
      by (cases "as_str (json_get ''type'' event)")
        (auto simp: push_live_def text_or_def plain_event_def unwrap_or_def Let_def)
    ultimately show ?thesis using assms(3) by simp
  qed
  show "ch_streaming (push_live print event c) = streaming_step entry (ch_streaming c)"
    using assms(1,2)
    by (cases "as_str (json_get ''type'' event)")
      (auto simp: push_live_def logged_def text_or_def plain_event_def unwrap_or_def Let_def split: option.split)
qed

section \<open>The property\<close>


definition demo_event :: json where
  "demo_event = JObj [(''type'', JStr ''message_end''),
     (''message'', JObj [(''role'', JStr ''user''), (''content'', JStr ''hi'')])]"


text \<open>
  Where the views differ: a turn that failed after it wrote something shows only the failure live
  and both in the replay, and a message of another role is the user's live and not replayed at all.\<close>

lemma failed_turn_differs:
  assumes "m = JObj [(''role'', JStr ''assistant''), (''stopReason'', JStr ''aborted''),
      (''content'', JArr [JObj [(''type'', JStr ''text''), (''text'', JStr ''half'')]])]"
  shows "message_to_item print m = Some (ItemError ''turn ended: aborted'')"
    "\<exists>item. transcript_item m = Some item \<and>
       assistant_parts print (as_array (json_get ''parts'' item)) =
         [PartText ''half'', PartText (warning_text @ ''turn ended: aborted'')]"
  by (simp_all add: assms message_to_item_def transcript_item_def message_parts_def assistant_part_def stop_part_def
      assistant_parts_def json_get_simps as_str_simps unwrap_or_def text_or_def stopped_badly_def error_item_def
      map_filter_simps Let_def as_str_def [of JNull])

end
