(* ===== verification/Suzy_State.thy ===== *)
theory Suzy_State
  imports Chat_View
begin

text \<open>
  The desktop client's state and everything that changes it (crates/suzy/src/lib.rs, with the state
  structs of crates/suzy/src/views.rs): the workspaces, the per-workspace and per-agent caches, what
  a message of the network does and what the operator's inputs do. Tasks that the client starts are
  listed in the order they were started. A \<open>WsId\<close> is an index into the workspaces; indexing beyond
  them, or cutting a text inside a character, is a panic. Layout and drawing are left out; the
  terminal emulator is the bytes it was fed.
\<close>

section \<open>State\<close>

record workspace_cfg =
  wc_name :: string
  wc_endpoint_id :: string

record fleet_agent =
  fa_name :: string
  fa_status :: string
  fa_needs_attention :: bool

record workspace =
  wk_cfg :: workspace_cfg
  wk_endpoint :: "json option"
  wk_error :: "string option"
  wk_overview :: "json option"
  wk_agents :: "fleet_agent list"
  wk_daemons :: "json list"
  wk_pending :: "json list"
  wk_providers :: "json option"
  wk_harnesses :: "json option"

datatype agent_tab = ChatTab | ShellTab | LogsTab | DetailsTab

datatype view = Dashboard | Castellans | Activity | Secrets | AgentView nat string agent_tab

record logs_state =
  lo_kind :: string
  lo_q :: string
  lo_tail :: nat
  lo_events :: "json list"
  lo_total :: u64
  lo_error :: "string option"
  lo_loaded :: bool

record details_state =
  de_value :: "json option"
  de_error :: "string option"
  de_auto_suspend_input :: string
  de_loaded :: bool

record activity_state =
  ac_entries :: "json list"
  ac_action :: string
  ac_q :: string
  ac_tail :: nat
  ac_loaded :: bool
  ac_error :: "string option"

text \<open>The last two: the secret shown, and the reveal whose answer is awaited.\<close>

record secrets_state =
  se_value :: "json option"
  se_loaded :: bool
  se_error :: "string option"
  se_revealed :: "(string \<times> string \<times> string) option"
  se_pending_reveal :: "(string \<times> string) option"

record shell_state =
  sh_fed :: string
  sh_exited :: "i64 option"
  sh_error :: "string option"

definition new_logs :: logs_state where
  "new_logs = \<lparr>lo_kind = [], lo_q = [], lo_tail = 0, lo_events = [], lo_total = 0, lo_error = None, lo_loaded = False\<rparr>"

definition new_details :: details_state where
  "new_details = \<lparr>de_value = None, de_error = None, de_auto_suspend_input = [], de_loaded = False\<rparr>"

definition new_activity :: activity_state where
  "new_activity =
     \<lparr>ac_entries = [], ac_action = [], ac_q = [], ac_tail = 0, ac_loaded = False, ac_error = None\<rparr>"

definition new_secrets :: secrets_state where
  "new_secrets =
     \<lparr>se_value = None, se_loaded = False, se_error = None, se_revealed = None, se_pending_reveal = None\<rparr>"

datatype prompt_mode = ModePrompt | ModeSteer | ModeFollowUp | ModeAbort

text \<open>Changes that the client asks a control plane for.\<close>

datatype suzy_action =
  ApprovePending string
| DismissPending string
| RemoveDaemon string
| SetLabels string labels "string list"
| SetAutoSuspend string string
| SetSecretProvider string string
| DeleteSecretProvider string
| SetSecretExtra string string
| DeleteSecretExtra string
| SetDeployKey string
| DeleteDeployKey

text \<open>Tasks started: the index they report under, and what they do. The last aborts running ones.\<close>

datatype net_task =
  WorkspaceLoop nat workspace_cfg
| SessionStream nat string
| ShellTask nat string
| LogsTask nat string "string option" "string option" nat
| DetailsTask nat string
| ActivityTask nat nat
| SecretsTask nat
| RevealTask nat string string
| PromptTask nat string string prompt_mode
| ActionTask nat string suzy_action
| CreateTask nat string
| DestroyTask nat string
| AbortTasks nat "(nat \<times> string) set" "(nat \<times> string) set"

record suzy =
  sz_cfg :: "workspace_cfg list"
  sz_workspaces :: "workspace list"
  sz_active :: "nat option"
  sz_view :: view
  sz_chats :: "nat \<times> string \<Rightarrow> chat option"
  sz_logs :: "nat \<times> string \<Rightarrow> logs_state option"
  sz_details :: "nat \<times> string \<Rightarrow> details_state option"
  sz_activity :: "nat \<Rightarrow> activity_state option"
  sz_secrets :: "nat \<Rightarrow> secrets_state option"
  sz_sessions :: "(nat \<times> string) set"
  sz_shells :: "nat \<times> string \<Rightarrow> shell_state option"
  sz_shell_tasks :: "(nat \<times> string) set"
  sz_create_open :: bool
  sz_destroy_confirm :: "(nat \<times> string) option"
  sz_remove_confirm :: "nat option"
  sz_labels_editing :: "(nat \<times> string) option"
  sz_status_msg :: "string option"
  sz_tasks :: "net_task list"
  sz_notices :: "(string \<times> string) list"
  sz_panicked :: bool

definition start :: "net_task \<Rightarrow> suzy \<Rightarrow> suzy" where
  "start t s = s\<lparr>sz_tasks := sz_tasks s @ [t]\<rparr>"

text \<open>\<open>self.workspaces[ws]\<close>\<close>

definition indexed :: "nat \<Rightarrow> (suzy \<Rightarrow> suzy) \<Rightarrow> suzy \<Rightarrow> suzy" where
  "indexed ws f s = (if ws < length (sz_workspaces s) then f s else s\<lparr>sz_panicked := True\<rparr>)"

text \<open>\<open>self.workspaces.get_mut(ws)\<close>\<close>

definition on_workspace :: "nat \<Rightarrow> (workspace \<Rightarrow> workspace) \<Rightarrow> suzy \<Rightarrow> suzy" where
  "on_workspace ws f s =
     (if ws < length (sz_workspaces s)
      then s\<lparr>sz_workspaces := (sz_workspaces s)[ws := f (sz_workspaces s ! ws)]\<rparr> else s)"

definition on_chat :: "nat \<times> string \<Rightarrow> (chat \<Rightarrow> chat) \<Rightarrow> suzy \<Rightarrow> suzy" where
  "on_chat key f s =
     (case sz_chats s key of None \<Rightarrow> s | Some c \<Rightarrow> s\<lparr>sz_chats := (sz_chats s)(key \<mapsto> f c)\<rparr>)"

definition on_shell :: "nat \<times> string \<Rightarrow> (shell_state \<Rightarrow> shell_state) \<Rightarrow> suzy \<Rightarrow> suzy" where
  "on_shell key f s =
     (case sz_shells s key of None \<Rightarrow> s | Some t \<Rightarrow> s\<lparr>sz_shells := (sz_shells s)(key \<mapsto> f t)\<rparr>)"

text \<open>\<open>entry(\<dots>).or_default()\<close>\<close>

definition on_logs :: "nat \<times> string \<Rightarrow> (logs_state \<Rightarrow> logs_state) \<Rightarrow> suzy \<Rightarrow> suzy" where
  "on_logs key f s = s\<lparr>sz_logs := (sz_logs s)(key \<mapsto> f (unwrap_or new_logs (sz_logs s key)))\<rparr>"

definition on_details :: "nat \<times> string \<Rightarrow> (details_state \<Rightarrow> details_state) \<Rightarrow> suzy \<Rightarrow> suzy" where
  "on_details key f s = s\<lparr>sz_details := (sz_details s)(key \<mapsto> f (unwrap_or new_details (sz_details s key)))\<rparr>"

definition on_activity :: "nat \<Rightarrow> (activity_state \<Rightarrow> activity_state) \<Rightarrow> suzy \<Rightarrow> suzy" where
  "on_activity ws f s = s\<lparr>sz_activity := (sz_activity s)(ws \<mapsto> f (unwrap_or new_activity (sz_activity s ws)))\<rparr>"

definition on_secrets :: "nat \<Rightarrow> (secrets_state \<Rightarrow> secrets_state) \<Rightarrow> suzy \<Rightarrow> suzy" where
  "on_secrets ws f s = s\<lparr>sz_secrets := (sz_secrets s)(ws \<mapsto> f (unwrap_or new_secrets (sz_secrets s ws)))\<rparr>"

section \<open>Connecting\<close>

definition new_workspace :: "workspace_cfg \<Rightarrow> workspace" where
  "new_workspace cfg =
     \<lparr>wk_cfg = cfg, wk_endpoint = None, wk_error = None, wk_overview = None, wk_agents = [], wk_daemons = [],
      wk_pending = [], wk_providers = None, wk_harnesses = None\<rparr>"

definition connect_workspace :: "workspace_cfg \<Rightarrow> suzy \<Rightarrow> suzy" where
  "connect_workspace cfg s =
     (let s1 = start (WorkspaceLoop (length (sz_workspaces s)) cfg) s
      in s1\<lparr>sz_workspaces := sz_workspaces s1 @ [new_workspace cfg]\<rparr>)"

definition reconnect_workspace :: "nat \<Rightarrow> suzy \<Rightarrow> suzy" where
  "reconnect_workspace ws s =
     (if ws < length (sz_workspaces s)
      then on_workspace ws (\<lambda>w. w\<lparr>wk_error := None\<rparr>) (start (WorkspaceLoop ws (wk_cfg (sz_workspaces s ! ws))) s)
      else s)"

definition initial_suzy :: "workspace_cfg list \<Rightarrow> suzy" where
  "initial_suzy cfgs =
     (let s = fold connect_workspace cfgs
        \<lparr>sz_cfg = cfgs, sz_workspaces = [], sz_active = None, sz_view = Dashboard, sz_chats = (\<lambda>_. None),
         sz_logs = (\<lambda>_. None), sz_details = (\<lambda>_. None), sz_activity = (\<lambda>_. None), sz_secrets = (\<lambda>_. None),
         sz_sessions = {}, sz_shells = (\<lambda>_. None), sz_shell_tasks = {}, sz_create_open = False,
         sz_destroy_confirm = None, sz_remove_confirm = None, sz_labels_editing = None, sz_status_msg = None,
         sz_tasks = [], sz_notices = [], sz_panicked = False\<rparr>
      in if sz_workspaces s = [] then s else s\<lparr>sz_active := Some 0\<rparr>)"

section \<open>Fetching\<close>

definition none_if_empty :: "string \<Rightarrow> string option" where
  "none_if_empty t = (if t = [] then None else Some t)"

definition tail_or_default :: "logs_state \<Rightarrow> nat" where
  "tail_or_default l = (if lo_tail l = 0 then 200 else lo_tail l)"

definition fetch_logs :: "nat \<Rightarrow> string \<Rightarrow> suzy \<Rightarrow> suzy" where
  "fetch_logs ws agent s =
     (let s1 = on_logs (ws, agent) (\<lambda>l. l) s; l = unwrap_or new_logs (sz_logs s (ws, agent))
      in indexed ws (start (LogsTask ws agent (none_if_empty (lo_kind l)) (none_if_empty (lo_q l)) (tail_or_default l))) s1)"

definition fetch_details :: "nat \<Rightarrow> string \<Rightarrow> suzy \<Rightarrow> suzy" where
  "fetch_details ws agent = indexed ws (start (DetailsTask ws agent))"

definition fetch_activity :: "nat \<Rightarrow> suzy \<Rightarrow> suzy" where
  "fetch_activity ws s =
     (let tail = (case sz_activity s ws of None \<Rightarrow> 300 | Some a \<Rightarrow> if ac_tail a = 0 then 300 else ac_tail a)
      in indexed ws (start (ActivityTask ws tail)) s)"

definition fetch_secrets :: "nat \<Rightarrow> suzy \<Rightarrow> suzy" where
  "fetch_secrets ws = indexed ws (start (SecretsTask ws))"

section \<open>Agents\<close>

text \<open>Dimmed system lines of the terminal.\<close>

definition system_bytes :: "string \<Rightarrow> string" where
  "system_bytes text =
     concat (map (\<lambda>line. [CHR 0x1B] @ ''[2m'' @ line @ [CHR 0x1B] @ ''[0m'' @ [CHR 0x0D, newline])
       (split_on (\<lambda>c. c = newline) text))"

definition feed :: "string \<Rightarrow> shell_state \<Rightarrow> shell_state" where
  "feed bytes t = t\<lparr>sh_fed := sh_fed t @ bytes\<rparr>"

definition write_system :: "string \<Rightarrow> shell_state \<Rightarrow> shell_state" where
  "write_system text = feed (system_bytes text)"

definition connecting_text :: string where
  "connecting_text = ''connecting '' @ dash_text @ '' the agent wakes automatically if sleeping'' @ ellipsis_text"

definition ensure_shell :: "nat \<Rightarrow> string \<Rightarrow> suzy \<Rightarrow> suzy" where
  "ensure_shell ws agent s =
     (if (ws, agent) \<in> sz_shell_tasks s then s
      else (let t = write_system connecting_text \<lparr>sh_fed = [], sh_exited = None, sh_error = None\<rparr>;
                s1 = s\<lparr>sz_shells := (sz_shells s)((ws, agent) \<mapsto> t)\<rparr>
            in indexed ws (\<lambda>s. (start (ShellTask ws agent) s)\<lparr>sz_shell_tasks := insert (ws, agent) (sz_shell_tasks s)\<rparr>) s1))"

definition ensure_chat_stream :: "nat \<Rightarrow> string \<Rightarrow> suzy \<Rightarrow> suzy" where
  "ensure_chat_stream ws agent s =
     (if (ws, agent) \<in> sz_sessions s then s
      else (let s1 = (case sz_chats s (ws, agent) of
              None \<Rightarrow> s\<lparr>sz_chats := (sz_chats s)((ws, agent) \<mapsto> new_chat agent)\<rparr> | Some _ \<Rightarrow> s)
            in indexed ws (\<lambda>s. (start (SessionStream ws agent) s)\<lparr>sz_sessions := insert (ws, agent) (sz_sessions s)\<rparr>) s1))"

definition open_agent :: "nat \<Rightarrow> string \<Rightarrow> agent_tab \<Rightarrow> suzy \<Rightarrow> suzy" where
  "open_agent ws agent tab s =
     (let s1 = s\<lparr>sz_view := AgentView ws agent tab\<rparr>
      in case tab of
           ChatTab \<Rightarrow> ensure_chat_stream ws agent s1
         | ShellTab \<Rightarrow> ensure_shell ws agent s1
         | LogsTab \<Rightarrow> fetch_logs ws agent s1
         | DetailsTab \<Rightarrow> fetch_details ws agent s1)"

text \<open>The message typed is taken, trimmed; only a prompt is shown at once.\<close>

definition send_prompt :: "nat \<Rightarrow> string \<Rightarrow> prompt_mode \<Rightarrow> suzy \<Rightarrow> suzy" where
  "send_prompt ws agent mode s =
     (case sz_chats s (ws, agent) of
        None \<Rightarrow> s
      | Some c \<Rightarrow>
          (let message = trim (ch_input c)
           in if message = [] \<and> mode \<noteq> ModeAbort then s
              else (let s1 = (if mode = ModePrompt then
                          on_chat (ws, agent) (\<lambda>c. c\<lparr>ch_items := ch_items c @ [ItemUser message],
                            ch_input := [], ch_streaming := True\<rparr>) s
                        else s)
                    in indexed ws (start (PromptTask ws agent message mode)) s1)))"

section \<open>Removing a workspace\<close>

text \<open>Entries of the removed index go, those above it move down by one.\<close>

definition reindex_after_removal_flat :: "nat \<Rightarrow> (nat \<Rightarrow> 'v option) \<Rightarrow> nat \<Rightarrow> 'v option" where
  "reindex_after_removal_flat removed m = (\<lambda>k. if k < removed then m k else m (Suc k))"

definition reindex_after_removal :: "nat \<Rightarrow> (nat \<times> 't \<Rightarrow> 'v option) \<Rightarrow> nat \<times> 't \<Rightarrow> 'v option" where
  "reindex_after_removal removed m = (\<lambda>(k, t). if k < removed then m (k, t) else m (Suc k, t))"

definition remove_workspace :: "nat \<Rightarrow> suzy \<Rightarrow> suzy" where
  "remove_workspace ws s =
     (if length (sz_workspaces s) \<le> ws then s
      else if length (sz_cfg s) \<le> ws then s\<lparr>sz_panicked := True\<rparr>
      else
        (let cfgs = take ws (sz_cfg s) @ drop (Suc ws) (sz_cfg s);
             s1 = start (AbortTasks (length (sz_workspaces s)) (sz_sessions s) (sz_shell_tasks s)) s;
             s2 = s1\<lparr>sz_cfg := cfgs, sz_workspaces := [], sz_sessions := {}, sz_shell_tasks := {},
               sz_chats := reindex_after_removal ws (sz_chats s), sz_logs := reindex_after_removal ws (sz_logs s),
               sz_details := reindex_after_removal ws (sz_details s), sz_shells := reindex_after_removal ws (sz_shells s),
               sz_activity := reindex_after_removal_flat ws (sz_activity s),
               sz_secrets := reindex_after_removal_flat ws (sz_secrets s),
               sz_destroy_confirm := None, sz_remove_confirm := None, sz_labels_editing := None\<rparr>;
             s3 = fold connect_workspace cfgs s2
         in s3\<lparr>sz_active := (if sz_workspaces s3 = [] then None else Some 0), sz_view := Dashboard\<rparr>))"

end
