(* ===== verification/Suzy_App.thy ===== *)
theory Suzy_App
  imports Suzy_State
begin

text \<open>
  What the desktop client does with a message of the network (\<open>handle_net\<close>), the messages that a
  session stream sends it (crates/suzy/src/net.rs), and the operator's inputs: each is what one click
  does, guarded by what the screen offers at that moment. One step of the program is one of these.
\<close>

section \<open>Messages of the network\<close>

datatype net_msg =
  Connected nat json
| ConnectFailed nat string
| Snapshot nat json "fleet_agent list" "json list" "json list"
| Catalogs nat json json
| SessionHistory nat string json
| SessionHistoryEnd nat string
| SessionLive nat string json
| SessionClosed nat string "string option"
| PromptDone nat string "string + json"
| CreateDone nat "string + json"
| DestroyDone nat "string + unit"
| Details nat string "string + json"
| Logs nat string "string + json"
| ActivityDone nat "string + json list"
| SecretsDone nat "string + json"
| RevealDone nat string string "string + json"
| ShellData nat string string
| ShellNotice nat string string
| ShellClosed nat string "i64 option" "string option"
| ActionDone nat string "string + unit"

text \<open>A reveal's answer counts only while it is the one awaited.\<close>

definition apply_reveal_done :: "string \<Rightarrow> string \<Rightarrow> string + json \<Rightarrow> secrets_state \<Rightarrow> secrets_state" where
  "apply_reveal_done kind name result st =
     (if se_pending_reveal st \<noteq> Some (kind, name) then st
      else (let st1 = st\<lparr>se_pending_reveal := None\<rparr>
            in case result of
                 Inr v \<Rightarrow> st1\<lparr>se_revealed := Some (kind, name, text_or [] (json_get ''value'' v))\<rparr>
               | Inl e \<Rightarrow> st1\<lparr>se_error := Some e\<rparr>))"

definition quoted :: "string \<Rightarrow> string" where
  "quoted t = CHR 0x27 # t @ [CHR 0x27]"

text \<open>Shown only while the window is not focused.\<close>

definition notify :: "bool \<Rightarrow> string \<Rightarrow> string \<Rightarrow> suzy \<Rightarrow> suzy" where
  "notify focused summary body s = (if focused then s else s\<lparr>sz_notices := sz_notices s @ [(summary, body)]\<rparr>)"

definition notify_agent :: "bool \<Rightarrow> string \<Rightarrow> fleet_agent \<Rightarrow> fleet_agent \<Rightarrow> suzy \<Rightarrow> suzy" where
  "notify_agent focused ws_name old a s =
     (let s1 = (if fa_status a = ''failed'' \<and> fa_status old \<noteq> ''failed'' then
                  notify focused (warning_text @ ''suzerain agent failed'')
                    (ws_name @ '': '' @ quoted (fa_name a) @ '' is now failed '' @ dash_text @ '' check its logs'') s
                else s);
          s2 = (if fa_status old = ''waking'' \<and> (fa_status a = ''idle'' \<or> fa_status a = ''running'') then
                  notify focused ''suzerain agent awake'' (ws_name @ '': '' @ quoted (fa_name a) @ '' finished waking'') s1
                else s1)
      in if fa_needs_attention a \<and> \<not> fa_needs_attention old then
           notify focused (warning_text @ ''suzerain agent needs attention'')
             (ws_name @ '': '' @ quoted (fa_name a) @ '' needs human intervention'') s2
         else s2)"

definition notify_transitions :: "bool \<Rightarrow> nat \<Rightarrow> fleet_agent list \<Rightarrow> suzy \<Rightarrow> suzy" where
  "notify_transitions focused ws agents s =
     (if ws < length (sz_workspaces s) then
        (let w = sz_workspaces s ! ws
         in if wk_agents w = [] then s
            else fold (\<lambda>a s. case find (\<lambda>o'. fa_name o' = fa_name a) (rev (wk_agents w)) of
                          None \<Rightarrow> s
                        | Some old \<Rightarrow> notify_agent focused (wc_name (wk_cfg w)) old a s) agents s)
      else s)"

definition refresh_view :: "nat \<Rightarrow> suzy \<Rightarrow> suzy" where
  "refresh_view ws s =
     (let s1 = (case sz_view s of
                  AgentView vw agent LogsTab \<Rightarrow> if vw = ws then fetch_logs ws agent s else s
                | _ \<Rightarrow> s)
      in if sz_view s1 = Activity \<and> sz_active s1 = Some ws then fetch_activity ws s1 else s1)"

definition shell_closed_text :: "i64 option \<Rightarrow> string option \<Rightarrow> string" where
  "shell_closed_text exit error =
     (case exit of
        Some code \<Rightarrow> ''[shell exited, code '' @ show_int (sint code) @ '']''
      | None \<Rightarrow> (case error of Some e \<Rightarrow> ''[connection closed: '' @ e @ '']'' | None \<Rightarrow> ''[connection closed]''))"

definition logs_answer :: "json \<Rightarrow> logs_state \<Rightarrow> logs_state" where
  "logs_answer v l = l\<lparr>lo_error := None, lo_total := unwrap_or 0 (as_u64 (json_get ''total_matching'' v)),
     lo_events := unwrap_or [] (as_array (json_get ''events'' v))\<rparr>"

fun handle_net :: "(json \<Rightarrow> string) \<Rightarrow> bool \<Rightarrow> net_msg \<Rightarrow> suzy \<Rightarrow> suzy" where
  "handle_net print focused (Connected ws info) s =
     on_workspace ws (\<lambda>w. w\<lparr>wk_endpoint := Some info, wk_error := None\<rparr>) s"
| "handle_net print focused (ConnectFailed ws e) s = on_workspace ws (\<lambda>w. w\<lparr>wk_error := Some e\<rparr>) s"
| "handle_net print focused (Catalogs ws p h) s =
     on_workspace ws (\<lambda>w. w\<lparr>wk_providers := Some p, wk_harnesses := Some h\<rparr>) s"
| "handle_net print focused (Snapshot ws overview agents daemons pending) s =
     refresh_view ws
       (on_workspace ws (\<lambda>w. w\<lparr>wk_overview := Some overview, wk_agents := agents, wk_daemons := daemons,
          wk_pending := pending, wk_error := None\<rparr>)
         (notify_transitions focused ws agents s))"
| "handle_net print focused (SessionHistory ws agent item) s = on_chat (ws, agent) (push_history print item) s"
| "handle_net print focused (SessionHistoryEnd ws agent) s =
     on_chat (ws, agent) (\<lambda>c. c\<lparr>ch_history_done := True\<rparr>) s"
| "handle_net print focused (SessionLive ws agent event) s = on_chat (ws, agent) (push_live print event) s"
| "handle_net print focused (SessionClosed ws agent e) s =
     on_chat (ws, agent) (\<lambda>c. c\<lparr>ch_closed := Some e, ch_streaming := False\<rparr>)
       (s\<lparr>sz_sessions := sz_sessions s - {(ws, agent)}\<rparr>)"
| "handle_net print focused (PromptDone ws agent result) s =
     (case result of
        Inr _ \<Rightarrow> s
      | Inl e \<Rightarrow> on_chat (ws, agent) (\<lambda>c. c\<lparr>ch_items := ch_items c @ [ItemError (''send failed: '' @ e)],
          ch_streaming := False\<rparr>) s)"
| "handle_net print focused (ShellData ws agent bytes) s = on_shell (ws, agent) (feed bytes) s"
| "handle_net print focused (ShellNotice ws agent message) s = on_shell (ws, agent) (write_system message) s"
| "handle_net print focused (ShellClosed ws agent exit e) s =
     on_shell (ws, agent) (\<lambda>t. write_system (shell_closed_text exit e) (t\<lparr>sh_exited := exit, sh_error := e\<rparr>))
       (s\<lparr>sz_shell_tasks := sz_shell_tasks s - {(ws, agent)}\<rparr>)"
| "handle_net print focused (CreateDone ws result) s =
     (case result of
        Inr v \<Rightarrow> s\<lparr>sz_status_msg := Some (''agent '' @ quoted (text_or ''?'' (json_get ''name'' v)) @ '' provisioning''),
          sz_create_open := False\<rparr>
      | Inl e \<Rightarrow> s\<lparr>sz_status_msg := Some (''create failed: '' @ e)\<rparr>)"
| "handle_net print focused (DestroyDone ws result) s =
     s\<lparr>sz_status_msg := Some (case result of Inr _ \<Rightarrow> ''agent destroyed'' | Inl e \<Rightarrow> ''destroy failed: '' @ e)\<rparr>"
| "handle_net print focused (Details ws agent result) s =
     on_details (ws, agent) (\<lambda>d. case result of
         Inr v \<Rightarrow> d\<lparr>de_loaded := True, de_error := None, de_value := Some v\<rparr>
       | Inl e \<Rightarrow> d\<lparr>de_loaded := True, de_error := Some e\<rparr>) s"
| "handle_net print focused (Logs ws agent result) s =
     on_logs (ws, agent) (\<lambda>l. case result of
         Inr v \<Rightarrow> logs_answer v (l\<lparr>lo_loaded := True\<rparr>)
       | Inl e \<Rightarrow> l\<lparr>lo_loaded := True, lo_error := Some e\<rparr>) s"
| "handle_net print focused (ActivityDone ws result) s =
     on_activity ws (\<lambda>a. case result of
         Inr entries \<Rightarrow> a\<lparr>ac_loaded := True, ac_error := None, ac_entries := entries\<rparr>
       | Inl e \<Rightarrow> a\<lparr>ac_loaded := True, ac_error := Some e\<rparr>) s"
| "handle_net print focused (SecretsDone ws result) s =
     on_secrets ws (\<lambda>st. case result of
         Inr v \<Rightarrow> st\<lparr>se_loaded := True, se_error := None, se_value := Some v\<rparr>
       | Inl e \<Rightarrow> st\<lparr>se_loaded := True, se_error := Some e\<rparr>) s"
| "handle_net print focused (RevealDone ws kind name result) s =
     on_secrets ws (apply_reveal_done kind name result) s"
| "handle_net print focused (ActionDone ws what result) s =
     s\<lparr>sz_status_msg := Some (case result of Inr _ \<Rightarrow> what @ '': ok'' | Inl e \<Rightarrow> what @ '' failed: '' @ e)\<rparr>"

section \<open>The messages of a session stream\<close>

datatype session_event = History json | HistoryEnd | Live json | ServerError string

definition session_msg :: "nat \<Rightarrow> string \<Rightarrow> string + session_event \<Rightarrow> net_msg" where
  "session_msg ws agent item =
     (case item of
        Inr (History v) \<Rightarrow> SessionHistory ws agent v
      | Inr HistoryEnd \<Rightarrow> SessionHistoryEnd ws agent
      | Inr (Live v) \<Rightarrow> SessionLive ws agent v
      | Inr (ServerError e) \<Rightarrow> SessionClosed ws agent (Some e)
      | Inl e \<Rightarrow> SessionClosed ws agent (Some e))"

text \<open>What is sent for what the stream yields until it ends; the first failure is the last message.\<close>

fun session_stream_msgs :: "nat \<Rightarrow> string \<Rightarrow> (string + session_event) list \<Rightarrow> net_msg list" where
  "session_stream_msgs ws agent [] = [SessionClosed ws agent None]"
| "session_stream_msgs ws agent (item # items) =
     (case session_msg ws agent item of
        SessionClosed w a e \<Rightarrow> [SessionClosed w a e]
      | msg \<Rightarrow> msg # session_stream_msgs ws agent items)"

section \<open>Secrets\<close>

datatype secrets_intent =
  SetProviderKey string string
| DeleteProviderKey string
| SetExtraSecret string string
| DeleteExtraSecret string
| UploadKey string
| DeleteKey
| Reveal string string
| Refetch

definition clear_revealed_secret :: "nat \<Rightarrow> suzy \<Rightarrow> suzy" where
  "clear_revealed_secret ws s =
     (case sz_secrets s ws of
        None \<Rightarrow> s
      | Some st \<Rightarrow> s\<lparr>sz_secrets := (sz_secrets s)(ws \<mapsto> st\<lparr>se_revealed := None, se_pending_reveal := None\<rparr>)\<rparr>)"

definition action_then_refresh_secrets :: "nat \<Rightarrow> string \<Rightarrow> suzy_action \<Rightarrow> suzy \<Rightarrow> suzy" where
  "action_then_refresh_secrets ws what action s =
     fetch_secrets ws (indexed ws (start (ActionTask ws what action)) s)"

definition dispatch_secret_intent :: "nat \<Rightarrow> secrets_intent \<Rightarrow> suzy \<Rightarrow> suzy" where
  "dispatch_secret_intent ws intent =
     indexed ws (case intent of
         Refetch \<Rightarrow> fetch_secrets ws
       | Reveal kind name \<Rightarrow>
           (\<lambda>s. start (RevealTask ws kind name)
             (on_secrets ws (\<lambda>st. st\<lparr>se_pending_reveal := Some (kind, name)\<rparr>) (clear_revealed_secret ws s)))
       | SetProviderKey i v \<Rightarrow> action_then_refresh_secrets ws ''set provider'' (SetSecretProvider i v)
       | DeleteProviderKey i \<Rightarrow> action_then_refresh_secrets ws ''delete provider'' (DeleteSecretProvider i)
       | SetExtraSecret n v \<Rightarrow> action_then_refresh_secrets ws ''set secret'' (SetSecretExtra n v)
       | DeleteExtraSecret n \<Rightarrow> action_then_refresh_secrets ws ''delete secret'' (DeleteSecretExtra n)
       | UploadKey v \<Rightarrow> action_then_refresh_secrets ws ''upload ssh key'' (SetDeployKey v)
       | DeleteKey \<Rightarrow> action_then_refresh_secrets ws ''delete ssh key'' DeleteDeployKey)"

section \<open>Inputs\<close>

text \<open>The first eight bytes, at a character boundary or not at all.\<close>

definition short_prefix :: "string \<Rightarrow> string option" where
  "short_prefix eid =
     (if length eid \<le> 8 \<or> \<not> utf8_more (eid ! 8) then Some (take 8 eid) else None)"

definition add_workspace :: "string \<Rightarrow> string \<Rightarrow> suzy \<Rightarrow> suzy" where
  "add_workspace name_input eid_input s =
     (let eid = trim eid_input; name = trim name_input
      in if eid = [] then s
         else (case (if name = [] then map_option (\<lambda>p. p @ ellipsis_text) (short_prefix eid) else Some name) of
                 None \<Rightarrow> s\<lparr>sz_panicked := True\<rparr>
               | Some n \<Rightarrow>
                   (let cfg = \<lparr>wc_name = n, wc_endpoint_id = eid\<rparr>;
                        s1 = connect_workspace cfg (s\<lparr>sz_cfg := sz_cfg s @ [cfg]\<rparr>)
                    in s1\<lparr>sz_active := Some (length (sz_workspaces s1) - 1)\<rparr>)))"

definition select_workspace :: "nat \<Rightarrow> suzy \<Rightarrow> suzy" where
  "select_workspace i s =
     (if i < length (sz_workspaces s) then
        (case sz_active s of None \<Rightarrow> s | Some old \<Rightarrow> clear_revealed_secret old s)
          \<lparr>sz_active := Some i, sz_view := Dashboard\<rparr>
      else s)"

definition go_view :: "view \<Rightarrow> suzy \<Rightarrow> suzy" where
  "go_view v s =
     (case sz_active s of
        None \<Rightarrow> s
      | Some ws \<Rightarrow>
          (case v of
             Dashboard \<Rightarrow> (clear_revealed_secret ws s)\<lparr>sz_view := Dashboard\<rparr>
           | Castellans \<Rightarrow> (clear_revealed_secret ws s)\<lparr>sz_view := Castellans\<rparr>
           | Activity \<Rightarrow> fetch_activity ws ((clear_revealed_secret ws s)\<lparr>sz_view := Activity\<rparr>)
           | Secrets \<Rightarrow> fetch_secrets ws (s\<lparr>sz_view := Secrets\<rparr>)
           | AgentView _ _ _ \<Rightarrow> s))"

datatype castellan_intent = CiApprove string | CiDismiss string | CiEditLabels string | CiRemove string

definition castellan_action :: "nat \<Rightarrow> castellan_intent \<Rightarrow> suzy \<Rightarrow> suzy" where
  "castellan_action ws intent s =
     (if length (sz_workspaces s) \<le> ws then s
      else (case intent of
              CiApprove i \<Rightarrow> indexed ws (start (ActionTask ws ''approve daemon'' (ApprovePending i))) s
            | CiDismiss i \<Rightarrow> indexed ws (start (ActionTask ws ''dismiss enrollment'' (DismissPending i))) s
            | CiRemove i \<Rightarrow> indexed ws (start (ActionTask ws ''remove daemon'' (RemoveDaemon i))) s
            | CiEditLabels i \<Rightarrow> s\<lparr>sz_labels_editing := Some (ws, i)\<rparr>))"

definition confirm_destroy :: "suzy \<Rightarrow> suzy" where
  "confirm_destroy s =
     (case sz_destroy_confirm s of
        None \<Rightarrow> s
      | Some (ws, agent) \<Rightarrow>
          (let s1 = indexed ws (start (DestroyTask ws agent)) s;
               s2 = (case sz_view s1 of
                       AgentView vw va _ \<Rightarrow> if vw = ws \<and> va = agent then s1\<lparr>sz_view := Dashboard\<rparr> else s1
                     | _ \<Rightarrow> s1)
           in s2\<lparr>sz_destroy_confirm := None\<rparr>))"

definition apply_labels :: "labels \<Rightarrow> string list \<Rightarrow> suzy \<Rightarrow> suzy" where
  "apply_labels set_labels remove s =
     (case sz_labels_editing s of
        None \<Rightarrow> s
      | Some (ws, daemon) \<Rightarrow>
          (if set_labels \<noteq> [] \<or> remove \<noteq> [] then
             indexed ws (start (ActionTask ws ''labels'' (SetLabels daemon set_labels remove))) s
           else s)\<lparr>sz_labels_editing := None\<rparr>)"

definition close_reveal :: "suzy \<Rightarrow> suzy" where
  "close_reveal s =
     (case sz_active s of
        None \<Rightarrow> s
      | Some ws \<Rightarrow>
          (case sz_secrets s ws of
             None \<Rightarrow> s
           | Some st \<Rightarrow> s\<lparr>sz_secrets := (sz_secrets s)(ws \<mapsto> st\<lparr>se_revealed := None\<rparr>)\<rparr>))"

definition reconnect_chat :: "nat \<Rightarrow> string \<Rightarrow> suzy \<Rightarrow> suzy" where
  "reconnect_chat ws agent s =
     (case sz_chats s (ws, agent) of
        None \<Rightarrow> s
      | Some c \<Rightarrow>
          if ch_closed c = None \<or> (ws, agent) \<in> sz_sessions s then s
          else indexed ws (\<lambda>s. (start (SessionStream ws agent) s)\<lparr>sz_sessions := insert (ws, agent) (sz_sessions s)\<rparr>)
                 (on_chat (ws, agent) (\<lambda>c. c\<lparr>ch_closed := None\<rparr>) s))"

definition reconnect_shell :: "nat \<Rightarrow> string \<Rightarrow> suzy \<Rightarrow> suzy" where
  "reconnect_shell ws agent s =
     (if (ws, agent) \<in> sz_shell_tasks s then s
      else ensure_shell ws agent (s\<lparr>sz_shells := (sz_shells s)((ws, agent) := None)\<rparr>))"

definition create_submitted :: "string \<Rightarrow> suzy \<Rightarrow> suzy" where
  "create_submitted toml s =
     (if \<not> sz_create_open s then s
      else (case sz_active s of None \<Rightarrow> s | Some ws \<Rightarrow> indexed ws (start (CreateTask ws toml)) s))"

text \<open>What a view fetches when it is drawn and has nothing yet.\<close>

definition draw :: "suzy \<Rightarrow> suzy" where
  "draw s =
     (case sz_view s of
        Activity \<Rightarrow>
          (case sz_active s of
             None \<Rightarrow> s
           | Some ws \<Rightarrow> on_activity ws (\<lambda>a. a) (if sz_activity s ws = None then fetch_activity ws s else s))
      | Secrets \<Rightarrow>
          (case sz_active s of
             None \<Rightarrow> s
           | Some ws \<Rightarrow> on_secrets ws (\<lambda>a. a) (if sz_secrets s ws = None then fetch_secrets ws s else s))
      | AgentView ws agent ShellTab \<Rightarrow> if sz_shells s (ws, agent) = None then ensure_shell ws agent s else s
      | AgentView ws agent LogsTab \<Rightarrow>
          on_logs (ws, agent) (\<lambda>a. a) (if sz_logs s (ws, agent) = None then fetch_logs ws agent s else s)
      | AgentView ws agent DetailsTab \<Rightarrow>
          on_details (ws, agent) (\<lambda>a. a) (if sz_details s (ws, agent) = None then fetch_details ws agent s else s)
      | _ \<Rightarrow> s)"

datatype suzy_event =
  Net bool net_msg
| Draw
| SelectWorkspace nat
| AddWorkspace string string
| GoView view
| PickAgent string
| PickTab agent_tab
| Type string
| Send prompt_mode
| ReconnectWorkspace
| ReconnectChat
| ReconnectShell
| SecretIntent secrets_intent
| CloseReveal
| CastellanIntent castellan_intent
| ApplyLabels labels "string list"
| CancelLabels
| SetSuspend string
| RefetchDetails
| RefetchLogs
| RefetchActivity
| AskDestroy
| ConfirmDestroy
| CancelDestroy
| AskRemove
| ConfirmRemove
| CancelRemove
| OpenCreate bool
| SubmitCreate string

definition in_agent_view :: "(nat \<Rightarrow> string \<Rightarrow> agent_tab \<Rightarrow> suzy \<Rightarrow> suzy) \<Rightarrow> suzy \<Rightarrow> suzy" where
  "in_agent_view f s = (case sz_view s of AgentView ws agent tab \<Rightarrow> f ws agent tab s | _ \<Rightarrow> s)"

definition in_view :: "view \<Rightarrow> (nat \<Rightarrow> suzy \<Rightarrow> suzy) \<Rightarrow> suzy \<Rightarrow> suzy" where
  "in_view v f s = (case sz_active s of Some ws \<Rightarrow> if sz_view s = v then f ws s else s | None \<Rightarrow> s)"

text \<open>One step; a program that panicked does nothing more.\<close>

definition suzy_step :: "(json \<Rightarrow> string) \<Rightarrow> suzy_event \<Rightarrow> suzy \<Rightarrow> suzy" where
  "suzy_step print e s =
     (if sz_panicked s then s
      else (case e of
        Net focused msg \<Rightarrow> handle_net print focused msg s
      | Draw \<Rightarrow> draw s
      | SelectWorkspace i \<Rightarrow> select_workspace i s
      | AddWorkspace n eid \<Rightarrow> add_workspace n eid s
      | GoView v \<Rightarrow> go_view v s
      | PickAgent name \<Rightarrow>
          (case sz_active s of
             None \<Rightarrow> s
           | Some ws \<Rightarrow>
               if ws < length (sz_workspaces s) \<and> wk_error (sz_workspaces s ! ws) = None \<and>
                 name \<in> fa_name ` set (wk_agents (sz_workspaces s ! ws))
               then open_agent ws name ChatTab s else s)
      | PickTab tab \<Rightarrow> in_agent_view (\<lambda>ws agent old s. if tab \<noteq> old then open_agent ws agent tab s else s) s
      | Type text \<Rightarrow> in_agent_view (\<lambda>ws agent tab s.
          if tab = ChatTab then on_chat (ws, agent) (\<lambda>c. c\<lparr>ch_input := text\<rparr>) s else s) s
      | Send mode \<Rightarrow> in_agent_view (\<lambda>ws agent tab s. if tab = ChatTab then send_prompt ws agent mode s else s) s
      | ReconnectWorkspace \<Rightarrow> (case sz_active s of None \<Rightarrow> s | Some ws \<Rightarrow> reconnect_workspace ws s)
      | ReconnectChat \<Rightarrow> in_agent_view (\<lambda>ws agent tab s. if tab = ChatTab then reconnect_chat ws agent s else s) s
      | ReconnectShell \<Rightarrow> in_agent_view (\<lambda>ws agent tab s. if tab = ShellTab then reconnect_shell ws agent s else s) s
      | SecretIntent i \<Rightarrow> in_view Secrets (\<lambda>ws. dispatch_secret_intent ws i) s
      | CloseReveal \<Rightarrow> close_reveal s
      | CastellanIntent i \<Rightarrow> in_view Castellans (\<lambda>ws. castellan_action ws i) s
      | ApplyLabels l r \<Rightarrow> apply_labels l r s
      | CancelLabels \<Rightarrow> s\<lparr>sz_labels_editing := None\<rparr>
      | SetSuspend v \<Rightarrow> in_agent_view (\<lambda>ws agent tab s.
          if tab = DetailsTab then indexed ws (start (ActionTask ws ''auto-suspend'' (SetAutoSuspend agent v))) s else s) s
      | RefetchDetails \<Rightarrow> in_agent_view (\<lambda>ws agent tab s. if tab = DetailsTab then fetch_details ws agent s else s) s
      | RefetchLogs \<Rightarrow> in_agent_view (\<lambda>ws agent tab s. if tab = LogsTab then fetch_logs ws agent s else s) s
      | RefetchActivity \<Rightarrow> in_view Activity fetch_activity s
      | AskDestroy \<Rightarrow> in_agent_view (\<lambda>ws agent tab s.
          if tab = DetailsTab then s\<lparr>sz_destroy_confirm := Some (ws, agent)\<rparr> else s) s
      | ConfirmDestroy \<Rightarrow> confirm_destroy s
      | CancelDestroy \<Rightarrow> s\<lparr>sz_destroy_confirm := None\<rparr>
      | AskRemove \<Rightarrow> s\<lparr>sz_remove_confirm := sz_active s\<rparr>
      | ConfirmRemove \<Rightarrow>
          (case sz_remove_confirm s of
             None \<Rightarrow> s
           | Some ws \<Rightarrow> (remove_workspace ws s)\<lparr>sz_remove_confirm := None\<rparr>)
      | CancelRemove \<Rightarrow> s\<lparr>sz_remove_confirm := None\<rparr>
      | OpenCreate b \<Rightarrow> s\<lparr>sz_create_open := b\<rparr>
      | SubmitCreate toml \<Rightarrow> create_submitted toml s))"

definition suzy_run :: "(json \<Rightarrow> string) \<Rightarrow> suzy_event list \<Rightarrow> suzy \<Rightarrow> suzy" where
  "suzy_run print = fold (suzy_step print)"

end
