(* ===== verification/Suzy_Theorems.thy ===== *)
theory Suzy_Theorems
  imports Suzy_App
begin

text \<open>
  The desktop client's invariant and its consequences: whatever messages arrive, late ones of removed
  workspaces included, and whatever the operator does, no index goes out of range; removing a
  workspace keeps every other workspace's caches; and a secret that is shown is the answer to the
  last reveal asked for.
\<close>

named_theorems frame \<open>what an operation of the client leaves as it was\<close>

section \<open>The shape of the state\<close>

definition shape :: "suzy \<Rightarrow> workspace_cfg list \<times> workspace_cfg list \<times> nat option \<times> view \<times>
    (nat \<times> string) option \<times> (nat \<times> string) option \<times> bool" where
  "shape s = (sz_cfg s, map wk_cfg (sz_workspaces s), sz_active s, sz_view s, sz_destroy_confirm s,
     sz_labels_editing s, sz_panicked s)"

definition view_below :: "nat \<Rightarrow> view \<Rightarrow> bool" where
  "view_below n v \<longleftrightarrow> (case v of AgentView ws _ _ \<Rightarrow> ws < n | _ \<Rightarrow> True)"

text \<open>Every index held anywhere is one of a workspace, and the configuration is the workspaces'.\<close>

definition wf_suzy :: "suzy \<Rightarrow> bool" where
  "wf_suzy s \<longleftrightarrow>
     (let n = length (sz_workspaces s)
      in \<not> sz_panicked s \<and> map wk_cfg (sz_workspaces s) = sz_cfg s \<and>
         pred_option (\<lambda>a. a < n) (sz_active s) \<and> view_below n (sz_view s) \<and>
         pred_option (\<lambda>(ws, _). ws < n) (sz_destroy_confirm s) \<and>
         pred_option (\<lambda>(ws, _). ws < n) (sz_labels_editing s))"

lemma shape_length: "shape s = shape t \<Longrightarrow> length (sz_workspaces s) = length (sz_workspaces t)"
  unfolding shape_def by (metis Pair_inject length_map)

lemma wf_shape: "shape s = shape t \<Longrightarrow> wf_suzy s = wf_suzy t"
  using shape_length [of s t] by (auto simp: wf_suzy_def shape_def Let_def)

lemma shape_updates [frame]:
  "shape (s\<lparr>sz_chats := a\<rparr>) = shape s" "shape (s\<lparr>sz_logs := b\<rparr>) = shape s"
  "shape (s\<lparr>sz_details := c\<rparr>) = shape s" "shape (s\<lparr>sz_activity := d\<rparr>) = shape s"
  "shape (s\<lparr>sz_secrets := e\<rparr>) = shape s" "shape (s\<lparr>sz_sessions := f\<rparr>) = shape s"
  "shape (s\<lparr>sz_shells := g\<rparr>) = shape s" "shape (s\<lparr>sz_shell_tasks := h\<rparr>) = shape s"
  "shape (s\<lparr>sz_create_open := i\<rparr>) = shape s" "shape (s\<lparr>sz_remove_confirm := j\<rparr>) = shape s"
  "shape (s\<lparr>sz_status_msg := k\<rparr>) = shape s" "shape (s\<lparr>sz_tasks := l\<rparr>) = shape s"
  "shape (s\<lparr>sz_notices := m\<rparr>) = shape s"
  by (simp_all add: shape_def)

lemma shape_ops [frame]:
  "shape (start t s) = shape s" "shape (on_chat key f s) = shape s" "shape (on_shell key g s) = shape s"
  "shape (on_logs key h s) = shape s" "shape (on_details key i s) = shape s"
  "shape (on_activity ws j s) = shape s" "shape (on_secrets ws k s) = shape s"
  "shape (clear_revealed_secret ws s) = shape s"
  by (simp_all add: start_def on_chat_def on_shell_def on_logs_def on_details_def on_activity_def on_secrets_def
      clear_revealed_secret_def frame split: option.split)

lemma shape_on_workspace [frame]:
  assumes "\<And>w. wk_cfg (f w) = wk_cfg w"
  shows "shape (on_workspace ws f s) = shape s"
proof -
  have "map wk_cfg ((sz_workspaces s)[ws := f (sz_workspaces s ! ws)]) = map wk_cfg (sz_workspaces s)"
    if "ws < length (sz_workspaces s)"
    using that assms by (metis list_update_id map_update nth_map)
  then show ?thesis by (simp add: on_workspace_def shape_def)
qed

lemma shape_indexed [frame]:
  assumes "\<And>s. shape (f s) = shape s" "ws < length (sz_workspaces s)"
  shows "shape (indexed ws f s) = shape s"
  using assms by (simp add: indexed_def)

lemma length_frame:
  "shape t = shape s \<Longrightarrow> ws < length (sz_workspaces s) \<Longrightarrow> ws < length (sz_workspaces t)"
  by (metis shape_length)

lemma shape_fetch [frame]:
  assumes "ws < length (sz_workspaces s)"
  shows "shape (fetch_logs ws agent s) = shape s" "shape (fetch_details ws agent s) = shape s"
    "shape (fetch_activity ws s) = shape s" "shape (fetch_secrets ws s) = shape s"
  using assms
  by (simp_all add: fetch_logs_def fetch_details_def fetch_activity_def fetch_secrets_def Let_def frame
      length_frame [OF shape_ops(4)])

lemma shape_notify [frame]: "shape (notify focused summary body s) = shape s"
  by (simp add: notify_def frame)

lemma shape_notify_agent [frame]: "shape (notify_agent focused n old a s) = shape s"
  by (simp add: notify_agent_def frame Let_def)

lemma shape_fold: "(\<And>a s. shape (f a s) = shape s) \<Longrightarrow> shape (fold f xs s) = shape s"
  by (induction xs arbitrary: s) simp_all

lemma shape_notify_transitions [frame]: "shape (notify_transitions focused ws agents s) = shape s"
  by (auto simp: notify_transitions_def Let_def frame intro!: shape_fold split: option.split)

lemma wf_active: "wf_suzy s \<Longrightarrow> sz_active s = Some ws \<Longrightarrow> ws < length (sz_workspaces s)"
  by (simp add: wf_suzy_def Let_def)

lemma wf_view: "wf_suzy s \<Longrightarrow> sz_view s = AgentView ws agent tab \<Longrightarrow> ws < length (sz_workspaces s)"
  by (simp add: wf_suzy_def view_below_def Let_def)

lemma shape_refresh_view [frame]:
  assumes "wf_suzy s"
  shows "shape (refresh_view ws s) = shape s"
proof -
  define s1 where "s1 = (case sz_view s of
      AgentView vw agent LogsTab \<Rightarrow> if vw = ws then fetch_logs ws agent s else s | _ \<Rightarrow> s)"
  have s1: "shape s1 = shape s"
    using wf_view [OF assms] shape_fetch(1) by (auto simp: s1_def split: view.split agent_tab.split)
  then have "sz_active s1 = Some ws \<Longrightarrow> ws < length (sz_workspaces s1)"
    using wf_active assms wf_shape by blast
  then show ?thesis
    using s1 shape_fetch(3) [of ws s1] by (simp add: refresh_view_def s1_def [symmetric] Let_def)
qed

text \<open>A message never changes the shape: late and foreign indices are ignored or cached.\<close>

lemma shape_handle_net:
  assumes "wf_suzy s"
  shows "shape (handle_net print focused msg s) = shape s"
proof (cases msg)
  case (Snapshot ws overview agents daemons pending)
  let ?t = "on_workspace ws (\<lambda>w. w\<lparr>wk_overview := Some overview, wk_agents := agents, wk_daemons := daemons,
      wk_pending := pending, wk_error := None\<rparr>) (notify_transitions focused ws agents s)"
  have t: "shape ?t = shape s" by (simp add: shape_on_workspace shape_notify_transitions)
  then have "wf_suzy ?t" using assms wf_shape by blast
  then show ?thesis using t Snapshot by (simp add: shape_refresh_view)
qed (simp_all add: frame split: sum.split)

section \<open>Inputs keep the invariant\<close>

lemma wf_handle_net: "wf_suzy s \<Longrightarrow> wf_suzy (handle_net print focused msg s)"
  using shape_handle_net wf_shape by blast

lemma wf_indexed:
  assumes "wf_suzy s" "ws < length (sz_workspaces s)" "wf_suzy (f s)"
  shows "wf_suzy (indexed ws f s)"
  using assms by (simp add: indexed_def)

lemma connect_all_frame:
  "map wk_cfg (sz_workspaces (fold connect_workspace cfgs s)) = map wk_cfg (sz_workspaces s) @ cfgs"
  "sz_active (fold connect_workspace cfgs s) = sz_active s"
  "sz_view (fold connect_workspace cfgs s) = sz_view s"
  "sz_destroy_confirm (fold connect_workspace cfgs s) = sz_destroy_confirm s"
  "sz_labels_editing (fold connect_workspace cfgs s) = sz_labels_editing s"
  "sz_panicked (fold connect_workspace cfgs s) = sz_panicked s"
  "sz_chats (fold connect_workspace cfgs s) = sz_chats s" "sz_logs (fold connect_workspace cfgs s) = sz_logs s"
  "sz_details (fold connect_workspace cfgs s) = sz_details s"
  "sz_shells (fold connect_workspace cfgs s) = sz_shells s"
  "sz_activity (fold connect_workspace cfgs s) = sz_activity s"
  "sz_secrets (fold connect_workspace cfgs s) = sz_secrets s" "sz_cfg (fold connect_workspace cfgs s) = sz_cfg s"
  by (induction cfgs arbitrary: s) (simp_all add: connect_workspace_def start_def new_workspace_def Let_def)

text \<open>Connecting to what is configured, from no workspaces: the common end of start and removal.\<close>

lemma wf_connect_all:
  assumes "\<not> sz_panicked s" "sz_workspaces s = []" "sz_cfg s = cfgs" "sz_destroy_confirm s = None"
    "sz_labels_editing s = None"
  shows "wf_suzy ((fold connect_workspace cfgs s)\<lparr>sz_active :=
    (if sz_workspaces (fold connect_workspace cfgs s) = [] then None else Some 0), sz_view := Dashboard\<rparr>)"
  using assms connect_all_frame [of cfgs s] by (auto simp: wf_suzy_def view_below_def Let_def)

lemma wf_initial: "wf_suzy (initial_suzy cfgs)"
proof -
  let ?s0 = "\<lparr>sz_cfg = cfgs, sz_workspaces = [], sz_active = None, sz_view = Dashboard, sz_chats = (\<lambda>_. None),
         sz_logs = (\<lambda>_. None), sz_details = (\<lambda>_. None), sz_activity = (\<lambda>_. None), sz_secrets = (\<lambda>_. None),
         sz_sessions = {}, sz_shells = (\<lambda>_. None), sz_shell_tasks = {}, sz_create_open = False,
         sz_destroy_confirm = None, sz_remove_confirm = None, sz_labels_editing = None, sz_status_msg = None,
         sz_tasks = [], sz_notices = [], sz_panicked = False\<rparr>"
  have "initial_suzy cfgs = (fold connect_workspace cfgs ?s0)\<lparr>sz_active :=
      (if sz_workspaces (fold connect_workspace cfgs ?s0) = [] then None else Some 0), sz_view := Dashboard\<rparr>"
    using connect_all_frame(2,3) [of cfgs ?s0] by (simp add: initial_suzy_def Let_def)
  then show ?thesis using wf_connect_all [of ?s0] by simp
qed

lemma wf_remove_workspace:
  assumes "wf_suzy s"
  shows "wf_suzy (remove_workspace ws s)"
proof (cases "ws < length (sz_workspaces s)")
  case True
  then have len: "ws < length (sz_cfg s)"
    using assms by (metis (mono_tags, lifting) length_map wf_suzy_def)
  define cfgs where "cfgs = take ws (sz_cfg s) @ drop (Suc ws) (sz_cfg s)"
  obtain s2 where s2: "remove_workspace ws s =
      (fold connect_workspace cfgs s2)\<lparr>sz_active :=
         (if sz_workspaces (fold connect_workspace cfgs s2) = [] then None else Some 0), sz_view := Dashboard\<rparr>"
    and frame: "\<not> sz_panicked s2" "sz_workspaces s2 = []" "sz_cfg s2 = cfgs"
      "sz_destroy_confirm s2 = None" "sz_labels_editing s2 = None"
    using True len assms
    by (simp add: remove_workspace_def Let_def cfgs_def [symmetric] start_def wf_suzy_def)
  show ?thesis unfolding s2 by (rule wf_connect_all [OF frame])
qed (use assms in \<open>simp add: remove_workspace_def\<close>)

lemma shape_ensure_shell [frame]:
  assumes "ws < length (sz_workspaces s)"
  shows "shape (ensure_shell ws agent s) = shape s"
  using assms by (simp add: ensure_shell_def indexed_def start_def shape_def Let_def)

lemma shape_ensure_chat_stream [frame]:
  assumes "ws < length (sz_workspaces s)"
  shows "shape (ensure_chat_stream ws agent s) = shape s"
  using assms by (simp add: ensure_chat_stream_def indexed_def start_def shape_def Let_def split: option.split)

lemma wf_open_agent:
  assumes "wf_suzy s" "ws < length (sz_workspaces s)"
  shows "wf_suzy (open_agent ws agent tab s)"
proof -
  let ?s = "s\<lparr>sz_view := AgentView ws agent tab\<rparr>"
  have s: "wf_suzy ?s" using assms by (simp add: wf_suzy_def view_below_def Let_def)
  have "shape (open_agent ws agent tab s) = shape ?s"
    using assms(2) by (simp add: open_agent_def Let_def frame split: agent_tab.split)
  then show ?thesis using s wf_shape by blast
qed

lemma shape_indexed_start [frame]:
  "ws < length (sz_workspaces s) \<Longrightarrow> shape (indexed ws (start t) s) = shape s"
  by (simp add: indexed_def frame)

lemma on_chat_workspaces [simp]: "sz_workspaces (on_chat key f s) = sz_workspaces s"
  by (simp add: on_chat_def split: option.split)

lemma shape_send_prompt [frame]:
  "ws < length (sz_workspaces s) \<Longrightarrow> shape (send_prompt ws agent mode s) = shape s"
  by (simp add: send_prompt_def Let_def frame split: option.split)

lemma shape_reconnects [frame]:
  "shape (reconnect_workspace ws s) = shape s"
  "ws < length (sz_workspaces s) \<Longrightarrow> shape (reconnect_chat ws agent s) = shape s"
  "ws < length (sz_workspaces s) \<Longrightarrow> shape (reconnect_shell ws agent s) = shape s"
proof -
  show "shape (reconnect_workspace ws s) = shape s"
    by (simp add: reconnect_workspace_def shape_on_workspace frame)
  show "shape (reconnect_chat ws agent s) = shape s" if "ws < length (sz_workspaces s)"
    using that by (simp add: reconnect_chat_def indexed_def frame split: option.split)
  show "shape (reconnect_shell ws agent s) = shape s" if "ws < length (sz_workspaces s)"
    using that shape_ensure_shell [of ws "s\<lparr>sz_shells := (sz_shells s)((ws, agent) := None)\<rparr>"]
    by (simp add: reconnect_shell_def frame)
qed

lemma shape_action_then_refresh [frame]:
  assumes "ws < length (sz_workspaces s)"
  shows "shape (action_then_refresh_secrets ws what action s) = shape s"
  using assms by (simp add: action_then_refresh_secrets_def fetch_secrets_def indexed_def start_def shape_def)

lemma shape_dispatch_secret [frame]:
  assumes "ws < length (sz_workspaces s)"
  shows "shape (dispatch_secret_intent ws i s) = shape s"
  using assms by (cases i) (simp_all add: dispatch_secret_intent_def indexed_def frame)

lemma wf_add_workspace:
  assumes "wf_suzy s" "trim name \<noteq> [] \<or> short_prefix (trim eid) \<noteq> None"
  shows "wf_suzy (add_workspace name eid s)"
proof (cases "trim eid = []")
  case False
  have "\<exists>n. (if trim name = [] then map_option (\<lambda>p. p @ ellipsis_text) (short_prefix (trim eid))
      else Some (trim name)) = Some n"
    using assms(2) by auto
  then obtain n where n: "(if trim name = [] then map_option (\<lambda>p. p @ ellipsis_text) (short_prefix (trim eid))
      else Some (trim name)) = Some n"
    by blast
  then show ?thesis
    using assms(1) False
    by (auto simp: add_workspace_def connect_workspace_def start_def new_workspace_def wf_suzy_def view_below_def
        pred_option_def Let_def split: view.splits)
qed (use assms in \<open>simp add: add_workspace_def\<close>)

lemma wf_select_workspace: "wf_suzy s \<Longrightarrow> wf_suzy (select_workspace i s)"
  by (auto simp: select_workspace_def clear_revealed_secret_def wf_suzy_def view_below_def Let_def
      split: option.split)

lemma wf_go_view:
  assumes "wf_suzy s"
  shows "wf_suzy (go_view v s)"
proof (cases "sz_active s")
  case (Some ws)
  have ws: "ws < length (sz_workspaces s)" using assms Some by (rule wf_active)
  have set_view: "wf_suzy (t\<lparr>sz_view := v\<rparr>)" if "wf_suzy t" "view_below 0 v" for t v
    using that by (auto simp: wf_suzy_def view_below_def Let_def split: view.splits)
  have clear: "wf_suzy (clear_revealed_secret ws s)"
    using assms wf_shape [OF shape_ops(8)] by blast
  have "sz_workspaces (clear_revealed_secret ws s) = sz_workspaces s"
    by (simp add: clear_revealed_secret_def split: option.split)
  then have act: "shape (fetch_activity ws ((clear_revealed_secret ws s)\<lparr>sz_view := Activity\<rparr>)) =
      shape ((clear_revealed_secret ws s)\<lparr>sz_view := Activity\<rparr>)"
    using ws by (simp add: shape_fetch)
  have sec: "shape (fetch_secrets ws (s\<lparr>sz_view := Secrets\<rparr>)) = shape (s\<lparr>sz_view := Secrets\<rparr>)"
    using ws by (simp add: shape_fetch)
  show ?thesis
    using Some assms clear wf_shape [OF act] wf_shape [OF sec]
    by (cases v) (simp_all add: go_view_def set_view view_below_def)
qed (use assms in \<open>simp add: go_view_def\<close>)

lemma wf_castellan_action:
  assumes "wf_suzy s" shows "wf_suzy (castellan_action ws i s)"
proof (cases "ws < length (sz_workspaces s)")
  case True
  then have "wf_suzy (s\<lparr>sz_labels_editing := Some (ws, d)\<rparr>)" for d
    using assms by (simp add: wf_suzy_def Let_def)
  moreover have "wf_suzy (indexed ws (start t) s)" for t
    using True assms wf_shape shape_indexed_start by blast
  ultimately show ?thesis using assms by (simp add: castellan_action_def split: castellan_intent.split)
qed (use assms in \<open>simp add: castellan_action_def\<close>)

lemma wf_confirm_destroy:
  assumes "wf_suzy s" shows "wf_suzy (confirm_destroy s)"
  using assms
  by (auto simp: confirm_destroy_def indexed_def start_def wf_suzy_def view_below_def Let_def
      split: option.split view.split)

lemma wf_apply_labels:
  assumes "wf_suzy s" shows "wf_suzy (apply_labels l r s)"
  using assms by (auto simp: apply_labels_def indexed_def start_def wf_suzy_def Let_def split: option.split)

lemma wf_draw:
  assumes "wf_suzy s" shows "wf_suzy (draw s)"
proof -
  have "shape (draw s) = shape s"
    using wf_active [OF assms] wf_view [OF assms]
    by (auto simp: draw_def frame split: view.split option.split agent_tab.split)
  then show ?thesis using assms wf_shape by blast
qed

section \<open>Steps and runs\<close>

text \<open>A new workspace has a name, or an endpoint id whose eighth byte ends a character.\<close>

definition sound_input :: "suzy_event \<Rightarrow> bool" where
  "sound_input e \<longleftrightarrow>
     (case e of AddWorkspace name eid \<Rightarrow> trim name \<noteq> [] \<or> short_prefix (trim eid) \<noteq> None | _ \<Rightarrow> True)"

lemma wf_in_agent_view:
  assumes "wf_suzy s" "\<And>ws agent tab. ws < length (sz_workspaces s) \<Longrightarrow> wf_suzy (f ws agent tab s)"
  shows "wf_suzy (in_agent_view f s)"
  using assms wf_view [OF assms(1)] by (auto simp: in_agent_view_def split: view.split)

lemma wf_in_view:
  assumes "wf_suzy s" "\<And>ws. ws < length (sz_workspaces s) \<Longrightarrow> wf_suzy (f ws s)"
  shows "wf_suzy (in_view v f s)"
  using assms wf_active [OF assms(1)] by (auto simp: in_view_def split: option.split)

lemma shape_in_views [frame]:
  assumes "wf_suzy s"
  shows "(\<And>ws agent tab. ws < length (sz_workspaces s) \<Longrightarrow> shape (f ws agent tab s) = shape s) \<Longrightarrow>
      shape (in_agent_view f s) = shape s"
    and "(\<And>ws. ws < length (sz_workspaces s) \<Longrightarrow> shape (g ws s) = shape s) \<Longrightarrow> shape (in_view v g s) = shape s"
  using wf_view [OF assms] wf_active [OF assms]
  by (auto simp: in_agent_view_def in_view_def split: view.split option.split)

lemma wf_suzy_step:
  assumes "wf_suzy s" "sound_input e"
  shows "wf_suzy (suzy_step print e s)"
proof (cases "sz_panicked s")
  case False
  note step = suzy_step_def
  have same: "wf_suzy t" if "shape t = shape s" for t using that assms(1) wf_shape by blast
  show ?thesis
  proof (cases e)
    case (PickAgent name)
    then show ?thesis using assms(1) False
      by (auto simp: step intro: wf_open_agent split: option.split)
  next
    case AskDestroy
    have "wf_suzy (s\<lparr>sz_destroy_confirm := Some (ws, agent)\<rparr>)" if "ws < length (sz_workspaces s)" for ws agent
      using assms(1) that by (simp add: wf_suzy_def Let_def)
    then show ?thesis using assms(1) False AskDestroy by (auto simp: step intro: wf_in_agent_view)
  next
    case ConfirmRemove
    then show ?thesis using assms(1) False wf_remove_workspace wf_shape [OF shape_updates(10)]
      by (auto simp: step split: option.split)
  next
    case (SubmitCreate toml)
    then show ?thesis using assms(1) False wf_active [OF assms(1)]
      by (auto simp: step create_submitted_def frame intro: same split: option.split)
  next
    case CancelLabels
    then show ?thesis using assms(1) False by (simp add: step wf_suzy_def Let_def)
  next
    case CancelDestroy
    then show ?thesis using assms(1) False by (simp add: step wf_suzy_def Let_def)
  next
    case (AddWorkspace n i)
    then show ?thesis using assms False by (simp add: step sound_input_def wf_add_workspace)
  next
    case CloseReveal
    then show ?thesis using assms(1) False
      by (auto simp: step close_reveal_def frame intro: same split: option.split)
  next
    case (PickTab tab)
    then show ?thesis using assms(1) False
      by (simp add: step) (auto intro!: wf_in_agent_view wf_open_agent)
  next
    case (CastellanIntent i)
    then show ?thesis using assms(1) False
      by (simp add: step) (auto intro!: wf_in_view wf_castellan_action)
  next
    case (SecretIntent i)
    then show ?thesis using assms(1) False by (auto simp: step frame intro!: same)
  next
    case RefetchActivity
    then show ?thesis using assms(1) False by (auto simp: step frame intro!: same)
  next
    case ReconnectWorkspace
    then show ?thesis using assms(1) False by (auto simp: step frame intro!: same split: option.split)
  qed (use assms(1) False in \<open>simp_all add: step same frame wf_handle_net wf_draw wf_select_workspace wf_go_view
      wf_confirm_destroy wf_apply_labels\<close>)
qed (use assms(1) in \<open>simp add: wf_suzy_def Let_def\<close>)

text \<open>C28
  The client never indexes a workspace that is not there and never panics: from any configuration,
  whatever messages arrive in whatever order - answers of tasks whose workspace has been removed
  included - and whatever the operator does, every index it holds is one of a workspace and its
  workspaces are those of its configuration, provided that a workspace is added with a name or with
  an endpoint id whose first eight bytes end at a character.\<close>

theorem suzy_never_panics:
  assumes "list_all sound_input es"
  shows "wf_suzy (suzy_run print es (initial_suzy cfgs))"
proof -
  have "wf_suzy s \<Longrightarrow> wf_suzy (suzy_run print es s)" for s
    using assms by (induction es arbitrary: s) (simp_all add: suzy_run_def wf_suzy_step)
  then show ?thesis by (simp add: wf_initial)
qed

section \<open>Removing a workspace\<close>

lemma connect_all_adds:
  "sz_workspaces (fold connect_workspace cfgs s) = sz_workspaces s @ map new_workspace cfgs"
  "sz_tasks (fold connect_workspace cfgs s) =
     sz_tasks s @ map (\<lambda>(i, c). WorkspaceLoop i c) (enumerate (length (sz_workspaces s)) cfgs)"
  by (induction cfgs arbitrary: s) (simp_all add: connect_workspace_def start_def Let_def)

lemma reindexed:
  assumes "k \<noteq> ws" "k' = (if k < ws then k else k - 1)"
  shows "reindex_after_removal ws m (k', a) = m (k, a)" "reindex_after_removal_flat ws m' k' = m' k"
  using assms by (auto simp: reindex_after_removal_def reindex_after_removal_flat_def)

text \<open>
  Removing a workspace takes away its own connection and caches and nobody else's: every other
  workspace keeps its configuration, chats, logs, details, shells, activity and secrets under its
  new index, and each is connected again.\<close>

theorem removal_keeps_the_others:
  assumes "wf_suzy s" "ws < length (sz_workspaces s)" "k < length (sz_workspaces s)" "k \<noteq> ws"
    and "s' = remove_workspace ws s" "k' = (if k < ws then k else k - 1)"
  shows "k' < length (sz_workspaces s') \<and> Suc (length (sz_workspaces s')) = length (sz_workspaces s) \<and>
    sz_cfg s' ! k' = sz_cfg s ! k \<and> sz_workspaces s' ! k' = new_workspace (sz_cfg s ! k) \<and>
    WorkspaceLoop k' (sz_cfg s ! k) \<in> set (sz_tasks s') \<and>
    sz_chats s' (k', a) = sz_chats s (k, a) \<and> sz_logs s' (k', a) = sz_logs s (k, a) \<and>
    sz_details s' (k', a) = sz_details s (k, a) \<and> sz_shells s' (k', a) = sz_shells s (k, a) \<and>
    sz_activity s' k' = sz_activity s k \<and> sz_secrets s' k' = sz_secrets s k"
proof -
  define cfgs where "cfgs = take ws (sz_cfg s) @ drop (Suc ws) (sz_cfg s)"
  have n: "length (sz_cfg s) = length (sz_workspaces s)"
    using assms(1) by (metis (mono_tags, lifting) length_map wf_suzy_def)
  have ck: "length cfgs = length (sz_workspaces s) - 1" "cfgs ! k' = sz_cfg s ! k" "k' < length cfgs"
    using assms n by (auto simp: cfgs_def nth_append min_def)
  have "(k', cfgs ! k') \<in> set (enumerate 0 cfgs)" using ck(3) by (simp add: in_set_enumerate_eq)
  then have loop: "WorkspaceLoop k' (sz_cfg s ! k) \<in> (\<lambda>(i, c). WorkspaceLoop i c) ` set (enumerate 0 cfgs)"
    using ck(2) by force
  have "\<not> length (sz_cfg s) \<le> ws" "Suc (length (sz_workspaces s) - Suc 0) = length (sz_workspaces s)"
    using n assms(2) by simp_all
  then show ?thesis
    using assms(2) ck loop
    by (simp add: reindexed [OF assms(4,6)] assms(5) remove_workspace_def cfgs_def [symmetric] connect_all_frame connect_all_adds start_def Let_def)
qed

section \<open>Secrets shown once\<close>

named_theorems secrets_same \<open>operations that leave the secrets of every workspace alone\<close>

lemma secrets_same_ops [secrets_same]:
  "sz_secrets (start t s) = sz_secrets s" "sz_secrets (on_workspace ws f s) = sz_secrets s"
  "sz_secrets (on_chat key g s) = sz_secrets s" "sz_secrets (on_shell key h s) = sz_secrets s"
  "sz_secrets (on_logs key i s) = sz_secrets s" "sz_secrets (on_details key j s) = sz_secrets s"
  "sz_secrets (on_activity ws k s) = sz_secrets s"
  by (simp_all add: start_def on_workspace_def on_chat_def on_shell_def on_logs_def on_details_def on_activity_def
      split: option.split)

lemma secrets_same_indexed [secrets_same]:
  "(\<And>s. sz_secrets (f s) = sz_secrets s) \<Longrightarrow> sz_secrets (indexed ws f s) = sz_secrets s"
  by (simp add: indexed_def)

lemma secrets_same_more [secrets_same]:
  "sz_secrets (fetch_logs ws agent s) = sz_secrets s" "sz_secrets (fetch_details ws agent s) = sz_secrets s"
  "sz_secrets (fetch_activity ws s) = sz_secrets s" "sz_secrets (fetch_secrets ws s) = sz_secrets s"
  "sz_secrets (ensure_shell ws agent s) = sz_secrets s" "sz_secrets (ensure_chat_stream ws agent s) = sz_secrets s"
  "sz_secrets (send_prompt ws agent mode s) = sz_secrets s" "sz_secrets (reconnect_workspace ws s) = sz_secrets s"
  "sz_secrets (reconnect_chat ws agent s) = sz_secrets s" "sz_secrets (reconnect_shell ws agent s) = sz_secrets s"
  "sz_secrets (connect_workspace cfg s) = sz_secrets s" "sz_secrets (add_workspace n eid s) = sz_secrets s"
  "sz_secrets (confirm_destroy s) = sz_secrets s" "sz_secrets (apply_labels l r s) = sz_secrets s"
  "sz_secrets (castellan_action ws ci s) = sz_secrets s" "sz_secrets (create_submitted toml s) = sz_secrets s"
  by (simp_all add: fetch_logs_def fetch_details_def fetch_activity_def fetch_secrets_def ensure_shell_def
      ensure_chat_stream_def send_prompt_def reconnect_workspace_def reconnect_chat_def reconnect_shell_def
      connect_workspace_def add_workspace_def confirm_destroy_def apply_labels_def castellan_action_def
      create_submitted_def start_def indexed_def on_workspace_def on_chat_def on_logs_def Let_def
      split: option.split view.split castellan_intent.split)

lemma secrets_same_agent [secrets_same]: "sz_secrets (open_agent ws agent tab s) = sz_secrets s"
  by (simp add: open_agent_def secrets_same Let_def split: agent_tab.split)

lemma secrets_same_notify [secrets_same]:
  "sz_secrets (notify_transitions focused ws agents s) = sz_secrets s"
proof -
  have "sz_secrets (notify_agent focused n old a s) = sz_secrets s" for n old a s
    by (simp add: notify_agent_def notify_def Let_def)
  then have "sz_secrets (fold (\<lambda>a s. case find (p a) old of None \<Rightarrow> s | Some o' \<Rightarrow> notify_agent focused n o' a s) agents s) =
      sz_secrets s" for p old n
    by (induction agents arbitrary: s) (simp_all split: option.split)
  then show ?thesis by (simp add: notify_transitions_def Let_def)
qed

lemma secrets_same_refresh [secrets_same]: "sz_secrets (refresh_view ws s) = sz_secrets s"
  by (simp add: refresh_view_def Let_def secrets_same split: view.split agent_tab.split)

text \<open>The reveal awaited and the secret shown in a workspace, and the reveal that a step asks for.\<close>

definition reveal_of :: "suzy \<Rightarrow> nat \<Rightarrow> (string \<times> string) option \<times> (string \<times> string \<times> string) option" where
  "reveal_of s ws =
     (case sz_secrets s ws of None \<Rightarrow> (None, None) | Some st \<Rightarrow> (se_pending_reveal st, se_revealed st))"

definition asked_by :: "nat \<Rightarrow> suzy_event \<Rightarrow> suzy \<Rightarrow> (string \<times> string) option" where
  "asked_by ws e s =
     (case e of
        SecretIntent (Reveal kind name) \<Rightarrow>
          if \<not> sz_panicked s \<and> sz_active s = Some ws \<and> sz_view s = Secrets \<and> ws < length (sz_workspaces s)
          then Some (kind, name) else None
      | _ \<Rightarrow> None)"

definition reveal_step :: "nat \<Rightarrow> suzy_event \<Rightarrow> suzy \<Rightarrow> suzy \<Rightarrow> bool" where
  "reveal_step ws e s t \<longleftrightarrow>
     (case asked_by ws e s of
        Some x \<Rightarrow> reveal_of t ws = (Some x, None)
      | None \<Rightarrow>
          (fst (reveal_of t ws) = fst (reveal_of s ws) \<or> fst (reveal_of t ws) = None) \<and>
          (snd (reveal_of t ws) = snd (reveal_of s ws) \<or> snd (reveal_of t ws) = None \<or>
           (\<exists>f k n j. e = Net f (RevealDone ws k n (Inr j)) \<and> fst (reveal_of s ws) = Some (k, n) \<and>
              snd (reveal_of t ws) = Some (k, n, text_or [] (json_get ''value'' j)))))"

lemma reveal_step_same:
  "sz_secrets t = sz_secrets s \<Longrightarrow> asked_by ws e s = None \<Longrightarrow> reveal_step ws e s t"
  by (simp add: reveal_step_def reveal_of_def)

lemma secrets_same_views [secrets_same]:
  "(\<And>ws agent tab s. sz_secrets (f ws agent tab s) = sz_secrets s) \<Longrightarrow> sz_secrets (in_agent_view f s) = sz_secrets s"
  "(\<And>ws s. sz_secrets (g ws s) = sz_secrets s) \<Longrightarrow> sz_secrets (in_view v g s) = sz_secrets s"
  by (simp_all add: in_agent_view_def in_view_def split: view.split option.split)

lemma reveal_clear:
  "reveal_of (clear_revealed_secret w s) ws = (if w = ws then (None, None) else reveal_of s ws)"
  by (simp add: reveal_of_def clear_revealed_secret_def split: option.split)

lemma reveal_on_secrets:
  "reveal_of (on_secrets w f s) ws =
     (if w = ws then (let st = f (unwrap_or new_secrets (sz_secrets s w)) in (se_pending_reveal st, se_revealed st))
      else reveal_of s ws)"
  by (simp add: reveal_of_def on_secrets_def Let_def)

lemma reveal_entry:
  "reveal_of s ws = (se_pending_reveal (unwrap_or new_secrets (sz_secrets s ws)),
     se_revealed (unwrap_or new_secrets (sz_secrets s ws)))"
  by (simp add: reveal_of_def unwrap_or_def new_secrets_def split: option.split)

lemma reveal_cong: "sz_secrets t = sz_secrets s \<Longrightarrow> reveal_of t ws = reveal_of s ws"
  by (simp add: reveal_of_def)

lemma reveal_updates:
  "reveal_of (t\<lparr>sz_active := a\<rparr>) ws = reveal_of t ws" "reveal_of (t\<lparr>sz_view := v\<rparr>) ws = reveal_of t ws"
  "reveal_of (fetch_activity w t) ws = reveal_of t ws" "reveal_of (fetch_secrets w t) ws = reveal_of t ws"
  by (simp_all add: reveal_of_def secrets_same)

lemma reveal_step_net:
  "reveal_step ws (Net f msg) s (handle_net print f msg s)"
proof (cases msg)
  case (SecretsDone w r)
  have "reveal_of (handle_net print f msg s) ws = reveal_of s ws"
    using SecretsDone reveal_entry [of s ws] by (simp add: reveal_on_secrets Let_def split: sum.split)
  then show ?thesis by (simp add: reveal_step_def asked_by_def)
next
  case (RevealDone w k n r)
  then show ?thesis
    using reveal_entry [of s ws]
    by (auto simp: reveal_step_def asked_by_def reveal_on_secrets apply_reveal_done_def Let_def split: sum.split)
qed (auto simp: secrets_same asked_by_def intro!: reveal_step_same split: sum.split)

lemma reveal_step_intent:
  assumes "ws' < length (sz_workspaces s)"
  shows "reveal_of (dispatch_secret_intent ws' i s) ws =
    (case i of Reveal k n \<Rightarrow> if ws = ws' then (Some (k, n), None) else reveal_of s ws | _ \<Rightarrow> reveal_of s ws)"
proof (cases i)
  case (Reveal k n)
  then show ?thesis using assms
    by (auto simp: dispatch_secret_intent_def indexed_def start_def reveal_of_def on_secrets_def
        clear_revealed_secret_def unwrap_or_def new_secrets_def split: option.split)
qed (use assms in \<open>simp_all add: dispatch_secret_intent_def indexed_def action_then_refresh_secrets_def
    start_def fetch_secrets_def reveal_of_def\<close>)

lemma reveal_suzy_step:
  assumes "wf_suzy s" "e \<noteq> ConfirmRemove"
  shows "reveal_step ws e s (suzy_step print e s)"
proof -
  have p: "\<not> sz_panicked s" using assms(1) by (simp add: wf_suzy_def Let_def)
  note same = reveal_step_same
  show ?thesis
  proof (cases e)
    case (Net f msg)
    then show ?thesis using p reveal_step_net by (simp add: suzy_step_def)
  next
    case (SelectWorkspace i)
    have "reveal_of (select_workspace i s) ws \<in> {reveal_of s ws, (None, None)}"
      by (simp add: select_workspace_def reveal_updates reveal_clear split: option.split)
    then show ?thesis using p SelectWorkspace
      by (auto simp: suzy_step_def reveal_step_def asked_by_def)
  next
    case (GoView v)
    have "reveal_of (go_view v s) ws \<in> {reveal_of s ws, (None, None)}"
    proof (cases "sz_active s")
      case (Some w)
      have c: "reveal_of (clear_revealed_secret w s) ws \<in> {reveal_of s ws, (None, None)}"
        by (simp add: reveal_clear)
      then show ?thesis
        using Some by (cases v) (simp_all add: go_view_def reveal_updates)
    qed (simp add: go_view_def)
    then show ?thesis using p GoView
      by (auto simp: suzy_step_def reveal_step_def asked_by_def)
  next
    case (SecretIntent i)
    show ?thesis
    proof (cases "sz_active s")
      case (Some w)
      then have "w < length (sz_workspaces s)" using assms(1) by (simp add: wf_active)
      then show ?thesis
        using p SecretIntent Some reveal_step_intent [of w s i ws]
        by (cases i) (auto simp: suzy_step_def in_view_def reveal_step_def asked_by_def)
    qed (use p SecretIntent in \<open>simp add: suzy_step_def in_view_def reveal_step_def asked_by_def
        split: secrets_intent.split\<close>)
  next
    case CloseReveal
    then show ?thesis using p
      by (auto simp: suzy_step_def close_reveal_def reveal_step_def reveal_of_def asked_by_def split: option.split)
  next
    case Draw
    have keep: "reveal_of (on_secrets w (\<lambda>a. a) t) ws = reveal_of t ws" for w t
      using reveal_entry [of t ws] by (simp add: reveal_on_secrets Let_def)
    have "reveal_of (draw s) ws = reveal_of s ws"
    proof (cases "sz_view s")
      case (AgentView w agent tab)
      then have "sz_secrets (draw s) = sz_secrets s" by (cases tab) (simp_all add: draw_def secrets_same)
      then show ?thesis by (rule reveal_cong)
    next
      case Activity
      then show ?thesis
        by (cases "sz_active s")
          (auto simp: draw_def secrets_same_ops(7) secrets_same_more(3) intro: reveal_cong)
    next
      case Secrets
      then show ?thesis by (cases "sz_active s") (auto simp: draw_def keep reveal_updates)
    qed (simp_all add: draw_def)
    then show ?thesis using p Draw by (simp add: suzy_step_def reveal_step_def asked_by_def)
  qed (use p assms(2) in \<open>auto simp: suzy_step_def secrets_same asked_by_def intro!: same split: option.split\<close>)
qed

text \<open>The reveals asked for in a workspace during a run, in order.\<close>

fun reveals :: "(json \<Rightarrow> string) \<Rightarrow> nat \<Rightarrow> suzy_event list \<Rightarrow> suzy \<Rightarrow> (string \<times> string) list" where
  "reveals print ws [] s = []"
| "reveals print ws (e # es) s =
     (case asked_by ws e s of None \<Rightarrow> [] | Some x \<Rightarrow> [x]) @ reveals print ws es (suzy_step print e s)"

lemma suzy_run_append: "suzy_run print (es @ fs) s = suzy_run print fs (suzy_run print es s)"
  by (simp add: suzy_run_def)

lemma reveals_append:
  "reveals print ws (es @ fs) s = reveals print ws es s @ reveals print ws fs (suzy_run print es s)"
  by (induction es arbitrary: s) (simp_all add: suzy_run_def)

text \<open>The answer of the last reveal asked for arrived, and nothing was asked for since.\<close>

definition answered :: "(json \<Rightarrow> string) \<Rightarrow> nat \<Rightarrow> suzy_event list \<Rightarrow> suzy \<Rightarrow> string \<times> string \<times> string \<Rightarrow> bool" where
  "answered print ws es s = (\<lambda>(kind, name, value).
     \<exists>before f v after. es = before @ Net f (RevealDone ws kind name (Inr v)) # after \<and>
       value = text_or [] (json_get ''value'' v) \<and>
       reveals print ws before s \<noteq> [] \<and> last (reveals print ws before s) = (kind, name) \<and>
       reveals print ws es s = reveals print ws before s)"

lemma answered_snoc:
  assumes "answered print ws es s x" "asked_by ws e (suzy_run print es s) = None"
  shows "answered print ws (es @ [e]) s x"
  using assms by (cases x) (fastforce simp: answered_def reveals_append)

lemma reveals_explain:
  assumes "list_all sound_input es" "ConfirmRemove \<notin> set es" "wf_suzy s" "reveal_of s ws = (None, None)"
  shows "(\<forall>x. fst (reveal_of (suzy_run print es s) ws) = Some x \<longrightarrow>
      reveals print ws es s \<noteq> [] \<and> last (reveals print ws es s) = x) \<and>
    (\<forall>x. snd (reveal_of (suzy_run print es s) ws) = Some x \<longrightarrow> answered print ws es s x)"
  using assms(1,2)
proof (induction es rule: rev_induct)
  case (snoc e es)
  let ?t = "suzy_run print es s" and ?u = "suzy_step print e (suzy_run print es s)"
  have u: "suzy_run print (es @ [e]) s = ?u" by (simp add: suzy_run_def)
  have "wf_suzy t \<Longrightarrow> list_all sound_input fs \<Longrightarrow> wf_suzy (suzy_run print fs t)" for t fs
    by (induction fs arbitrary: t) (simp_all add: suzy_run_def wf_suzy_step)
  then have "wf_suzy ?t" using assms(3) snoc.prems by simp
  then have step: "reveal_step ws e ?t ?u" using snoc.prems by (intro reveal_suzy_step) auto
  have IH: "\<forall>x. fst (reveal_of ?t ws) = Some x \<longrightarrow> reveals print ws es s \<noteq> [] \<and> last (reveals print ws es s) = x"
    "\<forall>x. snd (reveal_of ?t ws) = Some x \<longrightarrow> answered print ws es s x"
    using snoc.IH snoc.prems by simp_all
  show ?case
  proof (cases "asked_by ws e ?t")
    case (Some x)
    then show ?thesis using step by (simp add: u reveal_step_def reveals_append)
  next
    case None
    then have r: "reveals print ws (es @ [e]) s = reveals print ws es s" by (simp add: reveals_append)
    have new: "answered print ws (es @ [e]) s (k, n, text_or [] (json_get ''value'' j))"
      if "e = Net f (RevealDone ws k n (Inr j))" "fst (reveal_of ?t ws) = Some (k, n)" for f k n j
      using IH(1) that r by (auto simp: answered_def)
    have pending: "fst (reveal_of ?u ws) = fst (reveal_of ?t ws) \<or> fst (reveal_of ?u ws) = None"
      using step None by (auto simp: reveal_step_def)
    have shown: "answered print ws (es @ [e]) s x" if x: "snd (reveal_of ?u ws) = Some x" for x
    proof (cases "snd (reveal_of ?u ws) = snd (reveal_of ?t ws)")
      case True
      then have "answered print ws es s x" using IH(2) x by metis
      then show ?thesis using None by (rule answered_snoc)
    next
      case False
      then show ?thesis using step None x new by (auto simp: reveal_step_def)
    qed
    show ?thesis using pending IH(1) shown unfolding u r by force
  qed
qed (simp add: suzy_run_def assms(4))


section \<open>Concrete runs\<close>

definition demo_cfgs :: "workspace_cfg list" where
  "demo_cfgs = [\<lparr>wc_name = ''home'', wc_endpoint_id = ''aa''\<rparr>, \<lparr>wc_name = ''work'', wc_endpoint_id = ''bb''\<rparr>]"

definition secret_answer :: "string \<Rightarrow> json" where
  "secret_answer v = JObj [(''value'', JStr v)]"

definition demo_reveal :: "suzy_event list" where
  "demo_reveal = [GoView Secrets, Draw, SecretIntent (Reveal ''provider'' ''openai''),
     Net True (RevealDone 0 ''provider'' ''openai'' (Inr (secret_answer ''s3cr3t'')))]"

lemmas suzy_eval = suzy_run_def suzy_step_def initial_suzy_def connect_workspace_def new_workspace_def start_def
  demo_cfgs_def go_view_def fetch_secrets_def indexed_def in_view_def draw_def on_secrets_def new_secrets_def
  dispatch_secret_intent_def clear_revealed_secret_def apply_reveal_done_def secret_answer_def unwrap_or_def
  text_or_def json_get_simps as_str_simps


theorem suzy_never_panics_witness:
  "wf_suzy (suzy_run (\<lambda>_. []) [AddWorkspace ''lab'' ''cc'', Net True (ConnectFailed 7 ''late''), AskRemove, ConfirmRemove]
     (initial_suzy demo_cfgs))"
  by (rule suzy_never_panics)
    (simp add: sound_input_def trim_def trim_start_def trim_end_def is_ws_def)

theorem removal_keeps_the_others_witness:
  "sz_cfg (remove_workspace 0 (initial_suzy demo_cfgs)) ! 0 = \<lparr>wc_name = ''work'', wc_endpoint_id = ''bb''\<rparr>"
proof -
  have "length (sz_workspaces (initial_suzy demo_cfgs)) = 2"
    by (simp add: suzy_eval)
  moreover have "sz_cfg (initial_suzy demo_cfgs) ! 1 = \<lparr>wc_name = ''work'', wc_endpoint_id = ''bb''\<rparr>"
    by (simp add: suzy_eval)
  ultimately show ?thesis
    using removal_keeps_the_others [OF wf_initial [of demo_cfgs], of 0 1 "remove_workspace 0 (initial_suzy demo_cfgs)" 0 "[]"]
    by simp
qed

section \<open>What goes wrong\<close>

text \<open>Opening an agent leaves the secrets view without retiring the secret on display.\<close>

lemma secret_outlives_its_view:
  "reveal_of (open_agent ws agent tab s) w = reveal_of s w" "sz_view (open_agent ws agent tab s) \<noteq> Secrets"
proof -
  show "reveal_of (open_agent ws agent tab s) w = reveal_of s w" by (rule reveal_cong) (rule secrets_same)
  show "sz_view (open_agent ws agent tab s) \<noteq> Secrets"
    by (simp add: open_agent_def ensure_chat_stream_def ensure_shell_def fetch_logs_def fetch_details_def
        indexed_def start_def on_logs_def Let_def split: agent_tab.split option.split)
qed

text \<open>
  A workspace index is not an identity: the answer of a reveal in a removed workspace is taken for
  the answer of the same reveal in the workspace that moved to its index.\<close>

lemma late_answer_of_removed_workspace:
  "map_option se_revealed (sz_secrets (suzy_run (\<lambda>_. [])
     [SelectWorkspace 0, GoView Secrets, SecretIntent (Reveal ''provider'' ''openai''), GoView Dashboard,
      AskRemove, ConfirmRemove, GoView Secrets, SecretIntent (Reveal ''provider'' ''openai''),
      Net True (RevealDone 0 ''provider'' ''openai'' (Inr (secret_answer ''key of home'')))]
     (initial_suzy demo_cfgs)) 0) = Some (Some (''provider'', ''openai'', ''key of home''))"
  by (simp add: suzy_eval select_workspace_def remove_workspace_def reindex_after_removal_flat_def)

text \<open>A new stream of a chat that has items replays its history below them.\<close>

lemma reconnect_keeps_items:
  assumes "sz_chats s (ws, agent) = Some c" "ch_closed c \<noteq> None" "(ws, agent) \<notin> sz_sessions s"
    "ws < length (sz_workspaces s)"
  shows "map_option ch_items (sz_chats (reconnect_chat ws agent s) (ws, agent)) = Some (ch_items c)"
    "SessionStream ws agent \<in> set (sz_tasks (reconnect_chat ws agent s))"
  using assms by (auto simp: reconnect_chat_def indexed_def start_def on_chat_def)

text \<open>An endpoint id that is not ASCII can stop the client when it is added without a name.\<close>

lemma unnamed_workspace_panics:
  "sz_panicked (add_workspace [] (concat (replicate 3 [CHR 0xE6, CHR 0x97, CHR 0xA5])) (initial_suzy demo_cfgs))"
proof -
  let ?eid = "concat (replicate 3 [CHR 0xE6, CHR 0x97, CHR 0xA5])"
  have "trim ?eid = ?eid"
    by (simp add: trim_def trim_start_def trim_end_def is_ws_def numeral_3_eq_3)
  moreover have "short_prefix ?eid = None"
    by (simp add: short_prefix_def utf8_more_def numeral_3_eq_3)
  ultimately show ?thesis by (simp add: add_workspace_def trim_def trim_start_def trim_end_def numeral_3_eq_3)
qed

end
