(* ===== verification/Web_Routes.thy ===== *)
theory Web_Routes
  imports Web_Api Client_Codec
begin

text \<open>
  The router of the operator API (\<open>build_router\<close> in crates/suzerain/src/web.rs), with what the
  extractors of its handlers make of a path, a query and a body. A request is a method, a target
  (path and query) and, when it has one, a JSON body. What is no handler of \<open>Web_Api\<close> is named as a
  target of its own. Statuses: 404 no route, 405 no handler for the method, 400 a query, 415 no
  body, 422 a body that does not decode. The operator channel (operator.rs) serves the same router
  to the peers on its allow list.
\<close>

section \<open>Targets\<close>

datatype target =
  Api web_request
| SessionSse string
| SessionPrompt string json
| ShellSocket string
| FleetEvents
| HarnessCatalog
| PiPackages "string option" "string option" nat nat
| Asset string

type_synonym handler = "string list \<Rightarrow> (string \<times> string) list \<Rightarrow> json option \<Rightarrow> nat + target"

section \<open>Reading a target\<close>

definition any_hex_val :: "char \<Rightarrow> nat option" where
  "any_hex_val c =
     (let k = of_char c
      in if 48 \<le> k \<and> k \<le> 57 then Some (k - 48)
         else if 65 \<le> k \<and> k \<le> 70 then Some (k - 55)
         else if 97 \<le> k \<and> k \<le> 102 then Some (k - 87) else None)"

text \<open>Percent decoding leaves what is not an escape as it is.\<close>

fun url_decode :: "string \<Rightarrow> string" where
  "url_decode (CHR 0x25 # a # b # s) =
     (case (any_hex_val a, any_hex_val b) of
        (Some x, Some y) \<Rightarrow> char_of (16 * x + y) # url_decode s
      | _ \<Rightarrow> CHR 0x25 # url_decode (a # b # s))"
| "url_decode (c # s) = c # url_decode s"
| "url_decode [] = []"

definition form_decode :: "string \<Rightarrow> string" where
  "form_decode s = url_decode (map (\<lambda>c. if c = CHR ''+'' then CHR '' '' else c) s)"

definition split_target :: "string \<Rightarrow> string \<times> string" where
  "split_target t =
     (let u = takeWhile (\<lambda>c. c \<noteq> CHR ''#'') t
      in case split_once CHR ''?'' u of None \<Rightarrow> (u, []) | Some pq \<Rightarrow> pq)"

definition query_pairs :: "string \<Rightarrow> (string \<times> string) list" where
  "query_pairs q =
     map (\<lambda>p. case split_once CHR ''='' p of
            None \<Rightarrow> (form_decode p, []) | Some (k, v) \<Rightarrow> (form_decode k, form_decode v))
       (filter (\<lambda>p. p \<noteq> []) (split_on (\<lambda>c. c = CHR ''&'') q))"

section \<open>Fields of queries and bodies\<close>

text \<open>An optional field of a query; a field given twice is an error.\<close>

definition query_field :: "(string \<Rightarrow> 'a option) \<Rightarrow> string \<Rightarrow> (string \<times> string) list \<Rightarrow> nat + 'a option" where
  "query_field read k q =
     (case filter (\<lambda>(k', _). k' = k) q of
        [] \<Rightarrow> Inr None
      | [(_, v)] \<Rightarrow> (case read v of None \<Rightarrow> Inl 400 | Some x \<Rightarrow> Inr (Some x))
      | _ \<Rightarrow> Inl 400)"

definition read_usize :: "string \<Rightarrow> nat option" where
  "read_usize v = map_option unat (parse_u64 v)"

definition read_bool :: "string \<Rightarrow> bool option" where
  "read_bool v = (if v = ''true'' then Some True else if v = ''false'' then Some False else None)"

text \<open>The fields of a derived struct: an object, or an array with one element for each field.\<close>

definition body_fields :: "string list \<Rightarrow> json option \<Rightarrow> nat + (string \<Rightarrow> json)" where
  "body_fields names body =
     (case body of
        None \<Rightarrow> Inl 415
      | Some (JObj kvs) \<Rightarrow> Inr (\<lambda>k. unwrap_or JNull (map_of kvs k))
      | Some (JArr vs) \<Rightarrow>
          if length vs = length names then Inr (\<lambda>k. unwrap_or JNull (map_of (zip names vs) k)) else Inl 422
      | _ \<Rightarrow> Inl 422)"

definition opt_field :: "(json \<Rightarrow> 'a option) \<Rightarrow> json \<Rightarrow> nat + 'a option" where
  "opt_field read j =
     (if j = JNull then Inr None else case read j of None \<Rightarrow> Inl 422 | Some x \<Rightarrow> Inr (Some x))"

definition req_field :: "(json \<Rightarrow> 'a option) \<Rightarrow> json \<Rightarrow> nat + 'a" where
  "req_field read j = (case read j of None \<Rightarrow> Inl 422 | Some x \<Rightarrow> Inr x)"

definition read_labels :: "json \<Rightarrow> labels option" where
  "read_labels j = map_option (bt_extend []) (json_labels j)"

definition read_strings :: "json \<Rightarrow> string list option" where
  "read_strings j =
     (case j of
        JArr vs \<Rightarrow> if list_all (\<lambda>v. as_str v \<noteq> None) vs then Some (map (\<lambda>v. unwrap_or [] (as_str v)) vs) else None
      | _ \<Rightarrow> None)"

section \<open>Handlers\<close>

definition fixed :: "target \<Rightarrow> handler" where
  "fixed t = (\<lambda>ps q b. Inr t)"

definition on_param :: "(string \<Rightarrow> target) \<Rightarrow> handler" where
  "on_param f = (\<lambda>ps q b. Inr (f (hd ps)))"

definition h_logs :: handler where
  "h_logs ps q b =
     res_bind (query_field read_usize ''tail'' q) (\<lambda>tail.
     res_bind (query_field Some ''kind'' q) (\<lambda>kind.
     res_bind (query_field Some ''q'' q) (\<lambda>text.
     Inr (Api (RqAgentLogs (hd ps) tail kind text)))))"

definition h_history :: handler where
  "h_history ps q b =
     res_bind (query_field read_usize ''tail'' q) (\<lambda>tail.
     res_bind (query_field Some ''roles'' q) (\<lambda>roles.
     Inr (Api (RqSessionHistory (hd ps) roles tail))))"

definition h_audit :: handler where
  "h_audit ps q b =
     res_bind (query_field read_usize ''tail'' q) (\<lambda>tail.
     res_bind (query_field Some ''action'' q) (\<lambda>action. Inr (Api (RqAudit tail action))))"

definition h_pi_packages :: handler where
  "h_pi_packages ps q b =
     res_bind (query_field Some ''q'' q) (\<lambda>text.
     res_bind (query_field Some ''type'' q) (\<lambda>kind.
     res_bind (query_field read_usize ''page'' q) (\<lambda>page.
     res_bind (query_field read_usize ''per_page'' q) (\<lambda>per_page.
     Inr (PiPackages text kind (unwrap_or 1 page) (unwrap_or 50 per_page))))))"

definition h_daemon_remove :: handler where
  "h_daemon_remove ps q b =
     res_bind (query_field read_bool ''force'' q) (\<lambda>force. Inr (Api (RqDaemonRemove (hd ps) force)))"

definition h_labels :: handler where
  "h_labels ps q b =
     res_bind (body_fields [''set'', ''remove''] b) (\<lambda>field.
     res_bind (opt_field read_labels (field ''set'')) (\<lambda>set_labels.
     res_bind (opt_field read_strings (field ''remove'')) (\<lambda>remove.
     Inr (Api (RqDaemonLabels (hd ps) set_labels remove)))))"

definition h_create :: handler where
  "h_create ps q b =
     res_bind (body_fields [''manifest_toml'', ''manifest'', ''require'', ''daemon''] b) (\<lambda>field.
     res_bind (opt_field as_str (field ''manifest_toml'')) (\<lambda>toml.
     res_bind (opt_field Some (field ''manifest'')) (\<lambda>m.
     res_bind (opt_field read_labels (field ''require'')) (\<lambda>require.
     res_bind (opt_field as_str (field ''daemon'')) (\<lambda>daemon.
     Inr (Api (RqAgentCreate toml m require daemon)))))))"

text \<open>The body of an action may be missing.\<close>

definition h_action :: handler where
  "h_action ps q b =
     (case b of
        None \<Rightarrow> Inr (Api (RqAgentAction (ps ! 0) (ps ! 1) None))
      | Some _ \<Rightarrow>
          res_bind (body_fields [''force''] b) (\<lambda>field.
          res_bind (opt_field as_bool (field ''force'')) (\<lambda>force.
          Inr (Api (RqAgentAction (ps ! 0) (ps ! 1) force)))))"

definition h_update :: handler where
  "h_update ps q b =
     res_bind (body_fields [''auto_suspend''] b) (\<lambda>field.
     res_bind (opt_field as_str (field ''auto_suspend'')) (\<lambda>v. Inr (Api (RqAgentUpdate (hd ps) v))))"

definition h_prompt :: handler where
  "h_prompt ps q b = (case b of None \<Rightarrow> Inl 415 | Some v \<Rightarrow> Inr (SessionPrompt (hd ps) v))"

definition h_reveal :: handler where
  "h_reveal ps q b =
     res_bind (body_fields [''kind'', ''name''] b) (\<lambda>field.
     res_bind (req_field as_str (field ''kind'')) (\<lambda>kind.
     res_bind (req_field as_str (field ''name'')) (\<lambda>name. Inr (Api (RqSecretReveal kind name)))))"

text \<open>A secret's value; a missing one is the empty text.\<close>

definition h_value :: "(string list \<Rightarrow> string \<Rightarrow> secret_op) \<Rightarrow> handler" where
  "h_value op ps q b =
     res_bind (body_fields [''value''] b) (\<lambda>field.
     res_bind (opt_field as_str (field ''value'')) (\<lambda>v. Inr (Api (RqSecretChange (op ps (unwrap_or [] v))))))"

definition h_approve :: "(string \<Rightarrow> web_request) \<Rightarrow> handler" where
  "h_approve f ps q b =
     res_bind (body_fields [''endpoint_id''] b) (\<lambda>field.
     res_bind (req_field as_str (field ''endpoint_id'')) (\<lambda>i. Inr (Api (f i))))"

section \<open>The table\<close>

datatype seg = Lit string | Par

type_synonym methods = "(string \<times> handler) list"

definition v1 :: "seg list \<Rightarrow> seg list" where
  "v1 ps = Lit ''api'' # Lit ''v1'' # ps"

definition on_get :: "handler \<Rightarrow> methods" where "on_get h = [(''GET'', h)]"
definition on_post :: "handler \<Rightarrow> methods" where "on_post h = [(''POST'', h)]"
definition on_put :: "handler \<Rightarrow> methods" where "on_put h = [(''PUT'', h)]"
definition on_delete :: "handler \<Rightarrow> methods" where "on_delete h = [(''DELETE'', h)]"
definition on_patch :: "handler \<Rightarrow> methods" where "on_patch h = [(''PATCH'', h)]"

definition router :: "(seg list \<times> methods) list" where
  "router =
     [([Lit []], on_get (fixed (Asset ''index.html''))),
      ([Lit ''favicon.ico''], on_get (fixed (Asset ''favicon''))),
      ([Lit ''app.js''], on_get (fixed (Asset ''app.js''))),
      ([Lit ''style.css''], on_get (fixed (Asset ''style.css''))),
      ([Lit ''providers.json''], on_get (fixed (Asset ''providers.json''))),
      ([Lit ''harnesses.json''], on_get (fixed HarnessCatalog)),
      ([Lit ''vendor'', Lit ''marked.js''], on_get (fixed (Asset ''vendor/marked.js''))),
      ([Lit ''vendor'', Lit ''dompurify.js''], on_get (fixed (Asset ''vendor/dompurify.js''))),
      (v1 [Lit ''endpoint''], on_get (fixed (Api RqEndpoint))),
      (v1 [Lit ''overview''], on_get (fixed (Api RqOverview))),
      (v1 [Lit ''daemons''], on_get (fixed (Api RqDaemons))),
      (v1 [Lit ''daemons'', Par], on_get (on_param (\<lambda>d. Api (RqDaemon d))) @ on_delete h_daemon_remove),
      (v1 [Lit ''daemons'', Par, Lit ''labels''], on_post h_labels),
      (v1 [Lit ''agents''], on_post h_create @ on_get (fixed (Api RqAgents))),
      (v1 [Lit ''agents'', Par, Par], on_post h_action),
      (v1 [Lit ''agents'', Par], on_get (on_param (\<lambda>n. Api (RqAgent n))) @ on_patch h_update),
      (v1 [Lit ''agents'', Par, Lit ''logs''], on_get h_logs),
      (v1 [Lit ''agents'', Par, Lit ''session'', Lit ''history''], on_get h_history),
      (v1 [Lit ''providers''], on_get (fixed (Api RqProviders))),
      (v1 [Lit ''harnesses''], on_get (fixed HarnessCatalog)),
      (v1 [Lit ''agents'', Par, Lit ''session''], on_get (on_param SessionSse)),
      (v1 [Lit ''agents'', Par, Lit ''prompt''], on_post h_prompt),
      (v1 [Lit ''agents'', Par, Lit ''session_state''], on_get (on_param (\<lambda>n. Api (RqSessionState n)))),
      (v1 [Lit ''agents'', Par, Lit ''shell''], on_get (on_param ShellSocket)),
      (v1 [Lit ''secrets''], on_get (fixed (Api RqSecrets))),
      (v1 [Lit ''secrets'', Lit ''reveal''], on_post h_reveal),
      (v1 [Lit ''secrets'', Lit ''providers'', Par],
         on_put (h_value (\<lambda>ps. SetProvider (hd ps))) @ on_delete (on_param (\<lambda>i. Api (RqSecretChange (DeleteProvider i))))),
      (v1 [Lit ''secrets'', Lit ''git-ssh-key''],
         on_put (h_value (\<lambda>_. SetSshKey)) @ on_delete (fixed (Api (RqSecretChange DeleteSshKey)))),
      (v1 [Lit ''secrets'', Lit ''git-deploy-key''],
         on_put (h_value (\<lambda>_. SetSshKey)) @ on_delete (fixed (Api (RqSecretChange DeleteSshKey)))),
      (v1 [Lit ''secrets'', Lit ''extra'', Par],
         on_put (h_value (\<lambda>ps. SetExtra (hd ps))) @ on_delete (on_param (\<lambda>n. Api (RqSecretChange (DeleteExtra n))))),
      (v1 [Lit ''daemons'', Lit ''approve''], on_post (h_approve RqDaemonApprove)),
      (v1 [Lit ''operators''], on_get (fixed (Api RqOperators)) @ on_post (h_approve RqOperatorApprove)),
      (v1 [Lit ''daemons'', Lit ''pending''], on_get (fixed (Api RqPending))),
      (v1 [Lit ''daemons'', Lit ''pending'', Par, Lit ''approve''],
         on_post (on_param (\<lambda>i. Api (RqPendingApprove i)))),
      (v1 [Lit ''daemons'', Lit ''pending'', Par, Lit ''dismiss''],
         on_post (on_param (\<lambda>i. Api (RqPendingDismiss i)))),
      (v1 [Lit ''audit''], on_get h_audit),
      (v1 [Lit ''events''], on_get (fixed FleetEvents)),
      (v1 [Lit ''pi-packages''], on_get h_pi_packages)]"

section \<open>Matching\<close>

text \<open>A parameter matches any segment that is not empty; a literal is preferred to a parameter.\<close>

fun seg_match :: "seg list \<Rightarrow> string list \<Rightarrow> bool" where
  "seg_match [] [] = True"
| "seg_match (Lit l # ps) (s # ss) = (s = l \<and> seg_match ps ss)"
| "seg_match (Par # ps) (s # ss) = (s \<noteq> [] \<and> seg_match ps ss)"
| "seg_match _ _ = False"

fun seg_params :: "seg list \<Rightarrow> string list \<Rightarrow> string list" where
  "seg_params (Par # ps) (s # ss) = url_decode s # seg_params ps ss"
| "seg_params (Lit _ # ps) (s # ss) = seg_params ps ss"
| "seg_params _ _ = []"

fun seg_before :: "seg list \<Rightarrow> seg list \<Rightarrow> bool" where
  "seg_before (Lit _ # ps) (Par # qs) = True"
| "seg_before (Par # ps) (Lit _ # qs) = False"
| "seg_before (_ # ps) (_ # qs) = seg_before ps qs"
| "seg_before _ _ = True"

fun best_route :: "(seg list \<times> 'h) list \<Rightarrow> string list \<Rightarrow> (seg list \<times> 'h) option" where
  "best_route [] segs = None"
| "best_route (r # rs) segs =
     (if seg_match (fst r) segs then
        (case best_route rs segs of
           None \<Rightarrow> Some r
         | Some b \<Rightarrow> if seg_before (fst r) (fst b) then Some r else Some b)
      else best_route rs segs)"

definition path_segs :: "string \<Rightarrow> string list" where
  "path_segs path = tl (split_on (\<lambda>c. c = CHR ''/'') path)"

definition route_request :: "string \<Rightarrow> string \<Rightarrow> json option \<Rightarrow> nat + target" where
  "route_request method t body =
     (case split_target t of
        (path, query) \<Rightarrow>
          (case best_route router (path_segs path) of
             None \<Rightarrow> Inl 404
           | Some (pat, methods) \<Rightarrow>
               (case map_of methods (if method = ''HEAD'' then ''GET'' else method) of
                  None \<Rightarrow> Inl 405
                | Some h \<Rightarrow> h (seg_params pat (path_segs path)) (query_pairs query) body)))"

section \<open>Statuses\<close>

text \<open>A handler that refuses answers with an error status.\<close>

lemmas handler_defs = at_once_def endpoint_info_def overview_def daemons_list_def daemon_details_def
  daemon_remove_def daemon_labels_def agent_create_def body_manifest_def agent_action_def agent_update_def
  secret_change_def op_failure_status_def secret_reveal_def daemon_approve_def operator_approve_def
  pending_approve_def pending_dismiss_def agents_list_def agent_details_def agent_logs_def session_state_def
  session_history_def lookup_agent_row_def pending_daemons_list_def providers_annotated_def secrets_inventory_def
  operators_list_def audit_tail_def ok_json_def resolve_daemon_err_def with_ok_def internal_def err_def

lemmas handler_splits = sum.splits option.splits prod.splits if_splits list.splits secret_op.splits
  daemon_lookup_error.splits

lemma serve_status: "fst (serve E i req s) = Inl (st, v) \<Longrightarrow> 400 \<le> st"
  unfolding serve_def
  by (cases req; simp only: web_request.case handler_defs; auto simp: Let_def split: handler_splits)

end
