(* ===== verification/Client_Api.thy ===== *)
theory Client_Api
  imports Web_Routes Web_Theorems Client_Rest Suzy_App
begin

text \<open>
  The typed methods of the client library (crates/suzerain-client/src/lib.rs) as the requests they
  send, the desktop client's tasks (crates/suzy/src/net.rs) as the calls they make, and the proof
  that each arrives at the handler it is meant for. A name is put into a path as it is, so this
  needs names without the characters that mean something there.
\<close>

section \<open>Calls\<close>

datatype fleet_call =
  CEndpoint
| COverview
| CDaemons
| CPendingDaemons
| CApproveDaemon string
| CApprovePending string
| CDismissPending string
| CRemoveDaemon string
| CSetLabels string labels "string list"
| COperators
| COperatorApprove string
| CAudit nat
| CEvents

datatype agent_call =
  CAgents
| CAgent string
| CCreate string
| CCreateFull string "string option"
| CDestroy string bool
| CSetAutoSuspend string string
| CLogs string nat
| CLogsQuery string string
| CHistory string "nat option"
| CSessionState string
| CPrompt string string prompt_mode
| CSessionStream string

datatype catalog_call =
  CProviders
| CHarnesses
| CPiPackages "string option" nat
| CSecrets
| CSetProvider string string
| CDeleteProvider string
| CSetExtra string string
| CDeleteExtra string
| CSetSshKey string
| CDeleteSshKey
| CReveal string string

datatype client_call = Fleet fleet_call | Agent agent_call | Catalog catalog_call

definition mode_str :: "prompt_mode \<Rightarrow> string" where
  "mode_str m = (case m of
     ModePrompt \<Rightarrow> ''prompt'' | ModeSteer \<Rightarrow> ''steer'' | ModeFollowUp \<Rightarrow> ''follow_up'' | ModeAbort \<Rightarrow> ''abort'')"

definition agent_path :: "string \<Rightarrow> string" where "agent_path name = ''/api/v1/agents/'' @ name"
definition daemon_path :: "string \<Rightarrow> string" where "daemon_path i = ''/api/v1/daemons/'' @ i"
definition pending_path :: "string \<Rightarrow> string" where "pending_path i = ''/api/v1/daemons/pending/'' @ i"
definition provider_path :: "string \<Rightarrow> string" where "provider_path i = ''/api/v1/secrets/providers/'' @ i"
definition extra_path :: "string \<Rightarrow> string" where "extra_path n = ''/api/v1/secrets/extra/'' @ n"

definition value_body :: "string \<Rightarrow> json option" where
  "value_body v = Some (JObj [(''value'', JStr v)])"

text \<open>Method, target and body.\<close>

fun fleet_request :: "fleet_call \<Rightarrow> string \<times> string \<times> json option" where
  "fleet_request CEndpoint = (''GET'', ''/api/v1/endpoint'', None)"
| "fleet_request COverview = (''GET'', ''/api/v1/overview'', None)"
| "fleet_request CDaemons = (''GET'', ''/api/v1/daemons'', None)"
| "fleet_request CPendingDaemons = (''GET'', ''/api/v1/daemons/pending'', None)"
| "fleet_request (CApproveDaemon i) =
     (''POST'', ''/api/v1/daemons/approve'', Some (JObj [(''endpoint_id'', JStr i)]))"
| "fleet_request (CApprovePending i) = (''POST'', pending_path i @ ''/approve'', Some (JObj []))"
| "fleet_request (CDismissPending i) = (''POST'', pending_path i @ ''/dismiss'', Some (JObj []))"
| "fleet_request (CRemoveDaemon i) = (''DELETE'', daemon_path i, None)"
| "fleet_request (CSetLabels i set_labels remove) =
     (''POST'', daemon_path i @ ''/labels'',
      Some (JObj [(''set'', labels_json set_labels), (''remove'', JArr (map JStr remove))]))"
| "fleet_request COperators = (''GET'', ''/api/v1/operators'', None)"
| "fleet_request (COperatorApprove i) =
     (''POST'', ''/api/v1/operators'', Some (JObj [(''endpoint_id'', JStr i)]))"
| "fleet_request (CAudit tail) = (''GET'', ''/api/v1/audit?tail='' @ show_nat tail, None)"
| "fleet_request CEvents = (''GET'', ''/api/v1/events'', None)"

fun agent_request :: "agent_call \<Rightarrow> string \<times> string \<times> json option" where
  "agent_request CAgents = (''GET'', ''/api/v1/agents'', None)"
| "agent_request (CAgent name) = (''GET'', agent_path name, None)"
| "agent_request (CCreate toml) = (''POST'', ''/api/v1/agents'', Some (JObj [(''manifest_toml'', JStr toml)]))"
| "agent_request (CCreateFull toml daemon) =
     (''POST'', ''/api/v1/agents'', Some (JObj [(''manifest_toml'', JStr toml), (''daemon'', json_opt JStr daemon)]))"
| "agent_request (CDestroy name force) =
     (''POST'', agent_path name @ ''/destroy'', Some (JObj [(''force'', JBool force)]))"
| "agent_request (CSetAutoSuspend name v) =
     (''PATCH'', agent_path name, Some (JObj [(''auto_suspend'', JStr v)]))"
| "agent_request (CLogs name tail) = (''GET'', agent_path name @ ''/logs?tail='' @ show_nat tail, None)"
| "agent_request (CLogsQuery name query) = (''GET'', agent_path name @ ''/logs?'' @ query, None)"
| "agent_request (CHistory name tail) =
     (''GET'', agent_path name @ ''/session/history'' @
        (case tail of None \<Rightarrow> [] | Some t \<Rightarrow> ''?tail='' @ show_nat t), None)"
| "agent_request (CSessionState name) = (''GET'', agent_path name @ ''/session_state'', None)"
| "agent_request (CPrompt name message mode) =
     (''POST'', agent_path name @ ''/prompt'',
      Some (JObj [(''message'', JStr message), (''mode'', JStr (mode_str mode))]))"
| "agent_request (CSessionStream name) = (''GET'', agent_path name @ ''/session'', None)"

fun catalog_request :: "catalog_call \<Rightarrow> string \<times> string \<times> json option" where
  "catalog_request CProviders = (''GET'', ''/api/v1/providers'', None)"
| "catalog_request CHarnesses = (''GET'', ''/api/v1/harnesses'', None)"
| "catalog_request (CPiPackages q page) =
     (''GET'', ''/api/v1/pi-packages?page='' @ show_nat page @
        (case q of None \<Rightarrow> [] | Some q \<Rightarrow> ''&q='' @ urlencoding_simple (map of_char q)), None)"
| "catalog_request CSecrets = (''GET'', ''/api/v1/secrets'', None)"
| "catalog_request (CSetProvider i v) = (''PUT'', provider_path i, value_body v)"
| "catalog_request (CDeleteProvider i) = (''DELETE'', provider_path i, None)"
| "catalog_request (CSetExtra n v) = (''PUT'', extra_path n, value_body v)"
| "catalog_request (CDeleteExtra n) = (''DELETE'', extra_path n, None)"
| "catalog_request (CSetSshKey v) = (''PUT'', ''/api/v1/secrets/git-ssh-key'', value_body v)"
| "catalog_request CDeleteSshKey = (''DELETE'', ''/api/v1/secrets/git-ssh-key'', None)"
| "catalog_request (CReveal kind name) =
     (''POST'', ''/api/v1/secrets/reveal'', Some (JObj [(''kind'', JStr kind), (''name'', JStr name)]))"

definition client_request :: "client_call \<Rightarrow> string \<times> string \<times> json option" where
  "client_request c = (case c of Fleet c \<Rightarrow> fleet_request c | Agent c \<Rightarrow> agent_request c | Catalog c \<Rightarrow> catalog_request c)"

section \<open>The handler a call is meant for\<close>

fun fleet_target :: "fleet_call \<Rightarrow> target" where
  "fleet_target CEndpoint = Api RqEndpoint"
| "fleet_target COverview = Api RqOverview"
| "fleet_target CDaemons = Api RqDaemons"
| "fleet_target CPendingDaemons = Api RqPending"
| "fleet_target (CApproveDaemon i) = Api (RqDaemonApprove i)"
| "fleet_target (CApprovePending i) = Api (RqPendingApprove i)"
| "fleet_target (CDismissPending i) = Api (RqPendingDismiss i)"
| "fleet_target (CRemoveDaemon i) = Api (RqDaemonRemove i None)"
| "fleet_target (CSetLabels i ls remove) = Api (RqDaemonLabels i (Some ls) (Some remove))"
| "fleet_target COperators = Api RqOperators"
| "fleet_target (COperatorApprove i) = Api (RqOperatorApprove i)"
| "fleet_target (CAudit tail) = Api (RqAudit (Some tail) None)"
| "fleet_target CEvents = FleetEvents"

fun agent_target :: "agent_call \<Rightarrow> target" where
  "agent_target CAgents = Api RqAgents"
| "agent_target (CAgent name) = Api (RqAgent name)"
| "agent_target (CCreate toml) = Api (RqAgentCreate (Some toml) None None None)"
| "agent_target (CCreateFull toml daemon) = Api (RqAgentCreate (Some toml) None None daemon)"
| "agent_target (CDestroy name force) = Api (RqAgentAction name ''destroy'' (Some force))"
| "agent_target (CSetAutoSuspend name v) = Api (RqAgentUpdate name (Some v))"
| "agent_target (CLogs name tail) = Api (RqAgentLogs name (Some tail) None None)"
| "agent_target (CLogsQuery name query) =
     (case h_logs [name] (query_pairs query) None of Inr t \<Rightarrow> t | Inl _ \<Rightarrow> Asset [])"
| "agent_target (CHistory name tail) = Api (RqSessionHistory name None tail)"
| "agent_target (CSessionState name) = Api (RqSessionState name)"
| "agent_target (CPrompt name message mode) =
     SessionPrompt name (JObj [(''message'', JStr message), (''mode'', JStr (mode_str mode))])"
| "agent_target (CSessionStream name) = SessionSse name"

fun catalog_target :: "catalog_call \<Rightarrow> target" where
  "catalog_target CProviders = Api RqProviders"
| "catalog_target CHarnesses = HarnessCatalog"
| "catalog_target (CPiPackages q page) = PiPackages q None page 50"
| "catalog_target CSecrets = Api RqSecrets"
| "catalog_target (CSetProvider i v) = Api (RqSecretChange (SetProvider i v))"
| "catalog_target (CDeleteProvider i) = Api (RqSecretChange (DeleteProvider i))"
| "catalog_target (CSetExtra n v) = Api (RqSecretChange (SetExtra n v))"
| "catalog_target (CDeleteExtra n) = Api (RqSecretChange (DeleteExtra n))"
| "catalog_target (CSetSshKey v) = Api (RqSecretChange (SetSshKey v))"
| "catalog_target CDeleteSshKey = Api (RqSecretChange DeleteSshKey)"
| "catalog_target (CReveal kind name) = Api (RqSecretReveal kind name)"

definition call_target :: "client_call \<Rightarrow> target" where
  "call_target c = (case c of Fleet c \<Rightarrow> fleet_target c | Agent c \<Rightarrow> agent_target c | Catalog c \<Rightarrow> catalog_target c)"

section \<open>Names in paths\<close>

text \<open>Characters that neither a path nor a query gives a meaning to.\<close>

definition inert :: "string \<Rightarrow> bool" where
  "inert t \<longleftrightarrow> (\<forall>c \<in> set t. url_unreserved (of_char c))"

definition plain_name :: "string \<Rightarrow> bool" where
  "plain_name n \<longleftrightarrow> n \<noteq> [] \<and> n \<noteq> ''.'' \<and> n \<noteq> ''..'' \<and> inert n"

lemma inert_avoids:
  assumes "inert t" "\<not> url_unreserved (of_char c)"
  shows "c \<notin> set t"
  using assms by (auto simp: inert_def)

lemma reserved_chars:
  "\<not> url_unreserved (of_char CHR ''/'')" "\<not> url_unreserved (of_char CHR ''?'')"
  "\<not> url_unreserved (of_char CHR ''#'')" "\<not> url_unreserved (of_char CHR 0x25)"
  "\<not> url_unreserved (of_char CHR ''+'')" "\<not> url_unreserved (of_char CHR ''&'')"
  "\<not> url_unreserved (of_char CHR ''='')"
  by (simp_all add: url_unreserved_def)

lemma inert_show_nat: "inert (show_nat n)"
proof -
  have "url_unreserved (of_char c)" if "c \<in> set (show_nat n)" for c
    using show_nat_char_props(1) [OF that] by (auto simp: is_digit_def url_unreserved_def Let_def)
  then show ?thesis by (simp add: inert_def)
qed

named_theorems paths \<open>splitting and decoding texts around inert ones\<close>

lemma split_on_inert [paths]:
  assumes "inert t" "\<not> url_unreserved (of_char d)"
  shows "split_on (\<lambda>c. c = d) t = [t]" "split_on (\<lambda>c. c = d) (t @ d # s) = t # split_on (\<lambda>c. c = d) s"
  using inert_avoids [OF assms] by (induction t) auto

lemma takeWhile_inert [paths]:
  assumes "inert t" "\<not> url_unreserved (of_char d)"
  shows "takeWhile (\<lambda>c. c \<noteq> d) t = t" "takeWhile (\<lambda>c. c \<noteq> d) (t @ s) = t @ takeWhile (\<lambda>c. c \<noteq> d) s"
  using inert_avoids [OF assms] by (induction t) auto

lemma split_once_inert [paths]:
  assumes "inert t" "\<not> url_unreserved (of_char d)"
  shows "split_once d t = None"
    "split_once d (t @ s) = map_option (\<lambda>(a, b). (t @ a, b)) (split_once d s)"
  using inert_avoids [OF assms] by (induction t) (auto simp: option.map_comp comp_def split_beta map_option_case
      split: option.split)

lemma url_decode_id:
  assumes "CHR 0x25 \<notin> set t"
  shows "url_decode t = t"
  using assms by (induction t rule: url_decode.induct) auto

lemma decode_inert [paths]:
  assumes "inert t"
  shows "url_decode t = t" "form_decode t = t"
proof -
  show d: "url_decode t = t" using inert_avoids [OF assms] reserved_chars by (intro url_decode_id) blast
  have "map (\<lambda>c. if c = CHR ''+'' then CHR '' '' else c) t = t"
    using inert_avoids [OF assms reserved_chars(5)] by (induction t) auto
  then show "form_decode t = t" by (simp add: form_decode_def d)
qed

lemmas plain_inert = plain_name_def [THEN iffD1, THEN conjunct2, THEN conjunct2, THEN conjunct2]

lemma read_usize_show_nat [paths]: "n < 2 ^ 64 \<Longrightarrow> read_usize (show_nat n) = Some n"
  by (simp add: read_usize_def parse_u64_show_nat unat_of_nat take_bit_nat_eq_self)

text \<open>A target is a path of segments and a query.\<close>

definition path_of :: "string list \<Rightarrow> string" where
  "path_of segs = concat (map (\<lambda>s. CHR ''/'' # s) segs)"

lemma path_of_split:
  assumes "\<forall>s \<in> set segs. inert s" "segs \<noteq> []"
  shows "split_on (\<lambda>c. c = CHR ''/'') (path_of segs) = [] # segs"
    and "\<not> url_unreserved (of_char d) \<Longrightarrow> d \<noteq> CHR ''/'' \<Longrightarrow> d \<notin> set (path_of segs)"
proof -
  show "split_on (\<lambda>c. c = CHR ''/'') (path_of segs) = [] # segs"
    using assms
  proof (induction segs)
    case (Cons s segs)
    then show ?case
      by (cases segs) (simp_all add: path_of_def split_on_inert url_unreserved_def)
  qed simp
  show "\<not> url_unreserved (of_char d) \<Longrightarrow> d \<noteq> CHR ''/'' \<Longrightarrow> d \<notin> set (path_of segs)"
    using assms(1) inert_avoids by (auto simp: path_of_def)
qed

definition route_at :: "string \<Rightarrow> string list \<Rightarrow> string \<Rightarrow> json option \<Rightarrow> nat + target" where
  "route_at method segs query body =
     (case best_route router segs of
        None \<Rightarrow> Inl 404
      | Some (pat, methods) \<Rightarrow>
          (case map_of methods method of
             None \<Rightarrow> Inl 405
           | Some h \<Rightarrow> h (seg_params pat segs) (query_pairs query) body))"

lemma route_path:
  assumes "\<forall>s \<in> set segs. inert s" "segs \<noteq> []" "method \<noteq> ''HEAD''"
  shows "route_request method (path_of segs) body = route_at method segs [] body"
    and "CHR ''#'' \<notin> set query \<Longrightarrow>
      route_request method (path_of segs @ CHR ''?'' # query) body = route_at method segs query body"
proof -
  let ?p = "path_of segs"
  have h: "CHR ''#'' \<notin> set ?p" and q: "CHR ''?'' \<notin> set ?p"
    using path_of_split(2) [OF assms(1,2)] reserved_chars by auto
  have segs: "path_segs ?p = segs" using path_of_split(1) [OF assms(1,2)] by (simp add: path_segs_def)
  have take: "takeWhile (\<lambda>c. c \<noteq> CHR ''#'') t = t" if "CHR ''#'' \<notin> set t" for t
    using that by (auto simp: takeWhile_eq_all_conv)
  have "split_target ?p = (?p, [])"
    using h q by (simp add: split_target_def take Let_def split_once_None [THEN iffD2])
  then show "route_request method ?p body = route_at method segs [] body"
    using assms(3) by (simp add: route_request_def route_at_def segs cong: option.case_cong prod.case_cong)
  assume "CHR ''#'' \<notin> set query"
  then have t: "takeWhile (\<lambda>c. c \<noteq> CHR ''#'') (?p @ CHR ''?'' # query) = ?p @ CHR ''?'' # query"
    using h by (intro take) auto
  have "split_once CHR ''?'' (?p @ CHR ''?'' # query) = Some (?p, query)"
    using q by (simp add: split_once_Some)
  then have "split_target (?p @ CHR ''?'' # query) = (?p, query)"
    by (simp add: split_target_def t Let_def)
  then show "route_request method (?p @ CHR ''?'' # query) body = route_at method segs query body"
    using assms(3) by (simp add: route_request_def route_at_def segs cong: option.case_cong prod.case_cong)
qed

lemmas route_eval = route_at_def router_def v1_def on_get_def on_post_def on_put_def on_delete_def
  on_patch_def fixed_def on_param_def

lemma inert_simps: "inert []" "inert (c # t) \<longleftrightarrow> url_unreserved (of_char c) \<and> inert t"
  by (simp_all add: inert_def)

lemma via_path:
  assumes "t = path_of segs" "list_all inert segs" "segs \<noteq> []" "method \<noteq> ''HEAD''" "route_at method segs [] body = r"
  shows "route_request method t body = r"
  using assms route_path(1) by (simp add: list_all_iff)

lemma via_query:
  assumes "t = path_of segs @ CHR ''?'' # query" "CHR ''#'' \<notin> set query" "list_all inert segs" "segs \<noteq> []"
    "method \<noteq> ''HEAD''" "route_at method segs query body = r"
  shows "route_request method t body = r"
  using assms route_path(2) by (simp add: list_all_iff)

lemmas paths_eval = path_of_def agent_path_def daemon_path_def pending_path_def provider_path_def extra_path_def
  inert_simps url_unreserved_def route_eval plain_name_def decode_inert

lemmas bodies_eval = body_fields_def opt_field_def req_field_def as_str_def as_bool_def unwrap_or_def json_opt_def
  value_body_def

section \<open>Every call arrives\<close>

text \<open>A label map is sorted; ids that are path words of their own, and texts cut by a fragment, are
  out.\<close>

fun fleet_ok :: "fleet_call \<Rightarrow> bool" where
  "fleet_ok (CApprovePending i) = plain_name i"
| "fleet_ok (CDismissPending i) = plain_name i"
| "fleet_ok (CRemoveDaemon i) = (plain_name i \<and> i \<noteq> ''approve'' \<and> i \<noteq> ''pending'')"
| "fleet_ok (CSetLabels i ls remove) = (plain_name i \<and> bt_sorted ls)"
| "fleet_ok (CAudit tail) = (tail < 2 ^ 64)"
| "fleet_ok _ = True"

lemma bt_insert_greatest: "\<forall>k' \<in> fst ` set m. k' < k \<Longrightarrow> bt_insert k v m = m @ [(k, v)]"
  by (induction m) (auto dest: order.asym)

lemma bt_extend_sorted: "bt_sorted (m @ xs) \<Longrightarrow> bt_extend m xs = m @ xs"
proof (induction xs arbitrary: m)
  case (Cons x xs)
  obtain k v where x: "x = (k, v)" by (cases x)
  have "bt_insert k v m = m @ [(k, v)]"
    using Cons.prems by (intro bt_insert_greatest) (auto simp: sorted_wrt_append x)
  then show ?case using Cons.IH [of "m @ [x]"] Cons.prems by (simp add: bt_extend_def x)
qed (simp add: bt_extend_def)

lemma read_labels_json: "bt_sorted ls \<Longrightarrow> read_labels (labels_json ls) = Some ls"
  using bt_extend_sorted [of "[]" ls] by (simp add: read_labels_def json_labels_labels_json)

lemma read_strings_json: "read_strings (JArr (map JStr ts)) = Some ts"
  by (simp add: read_strings_def as_str_def list_all_iff unwrap_or_def comp_def)

lemma form_decode_lit: "form_decode ''tail'' = ''tail''"
  by (simp add: form_decode_def)

lemma query_tail:
  "tail < 2 ^ 64 \<Longrightarrow> query_pairs (''tail='' @ show_nat tail) = [(''tail'', show_nat tail)]"
  "CHR ''#'' \<notin> set (''tail='' @ show_nat tail)"
proof -
  have "CHR ''#'' \<notin> set (show_nat tail)" using inert_avoids [OF inert_show_nat] reserved_chars by blast
  then show "CHR ''#'' \<notin> set (''tail='' @ show_nat tail)" by simp
  show "query_pairs (''tail='' @ show_nat tail) = [(''tail'', show_nat tail)]"
    by (simp add: query_pairs_def split_on_inert inert_show_nat url_unreserved_def split_once_inert decode_inert
        form_decode_lit)
qed

lemma fleet_call_arrives:
  assumes "fleet_ok c" "fleet_request c = (m, t, b)"
  shows "route_request m t b = Inr (fleet_target c)"
proof (cases c)
  case CEndpoint
  then show ?thesis using assms
    by (auto intro!: via_path [of _ "[''api'', ''v1'', ''endpoint'']"] simp: paths_eval)
next
  case COverview
  then show ?thesis using assms
    by (auto intro!: via_path [of _ "[''api'', ''v1'', ''overview'']"] simp: paths_eval)
next
  case CDaemons
  then show ?thesis using assms
    by (auto intro!: via_path [of _ "[''api'', ''v1'', ''daemons'']"] simp: paths_eval)
next
  case CPendingDaemons
  then show ?thesis using assms
    by (auto intro!: via_path [of _ "[''api'', ''v1'', ''daemons'', ''pending'']"] simp: paths_eval)
next
  case (CApproveDaemon i)
  then show ?thesis using assms
    by (auto intro!: via_path [of _ "[''api'', ''v1'', ''daemons'', ''approve'']"] simp: paths_eval h_approve_def bodies_eval)
next
  case (CApprovePending i)
  then show ?thesis using assms
    by (auto intro!: via_path [of _ "[''api'', ''v1'', ''daemons'', ''pending'', i, ''approve'']"] simp: paths_eval)
next
  case (CDismissPending i)
  then show ?thesis using assms
    by (auto intro!: via_path [of _ "[''api'', ''v1'', ''daemons'', ''pending'', i, ''dismiss'']"] simp: paths_eval)
next
  case (CRemoveDaemon i)
  then show ?thesis using assms
    by (auto intro!: via_path [of _ "[''api'', ''v1'', ''daemons'', i]"] simp: paths_eval h_daemon_remove_def query_pairs_def query_field_def)
next
  case (CSetLabels i ls remove)
  then have sorted: "bt_sorted ls" using assms by auto
  then have "h_labels [i] [] (Some (JObj [(''set'', labels_json ls), (''remove'', JArr (map JStr remove))])) =
      Inr (Api (RqDaemonLabels i (Some ls) (Some remove)))"
    using read_labels_json [OF sorted] read_strings_json [of remove]
    by (simp add: h_labels_def body_fields_def opt_field_def unwrap_or_def labels_json_def)
  then show ?thesis using assms CSetLabels
    by (auto intro!: via_path [of _ "[''api'', ''v1'', ''daemons'', i, ''labels'']"] simp: paths_eval query_pairs_def)
next
  case COperators
  then show ?thesis using assms
    by (auto intro!: via_path [of _ "[''api'', ''v1'', ''operators'']"] simp: paths_eval)
next
  case (COperatorApprove i)
  then show ?thesis using assms
    by (auto intro!: via_path [of _ "[''api'', ''v1'', ''operators'']"] simp: paths_eval h_approve_def bodies_eval)
next
  case (CAudit tail)
  then show ?thesis using assms query_tail [of tail]
    by (auto intro!: via_query [of _ "[''api'', ''v1'', ''audit'']" "''tail='' @ show_nat tail"]
        simp: paths_eval h_audit_def query_field_def read_usize_show_nat)
next
  case CEvents
  then show ?thesis using assms
    by (auto intro!: via_path [of _ "[''api'', ''v1'', ''events'']"] simp: paths_eval)
qed

fun agent_ok :: "agent_call \<Rightarrow> bool" where
  "agent_ok (CAgent n) = plain_name n"
| "agent_ok (CDestroy n force) = plain_name n"
| "agent_ok (CSetAutoSuspend n v) = plain_name n"
| "agent_ok (CLogs n tail) = (plain_name n \<and> tail < 2 ^ 64)"
| "agent_ok (CLogsQuery n query) =
     (plain_name n \<and> CHR ''#'' \<notin> set query \<and> is_ok (h_logs [n] (query_pairs query) None))"
| "agent_ok (CHistory n tail) = (plain_name n \<and> pred_option (\<lambda>t. t < 2 ^ 64) tail)"
| "agent_ok (CSessionState n) = plain_name n"
| "agent_ok (CPrompt n message mode) = plain_name n"
| "agent_ok (CSessionStream n) = plain_name n"
| "agent_ok _ = True"

lemma agent_call_arrives:
  assumes "agent_ok c" "agent_request c = (m, t, b)"
  shows "route_request m t b = Inr (agent_target c)"
proof (cases c)
  case CAgents
  then show ?thesis using assms
    by (auto intro!: via_path [of _ "[''api'', ''v1'', ''agents'']"] simp: paths_eval)
next
  case (CAgent n)
  then show ?thesis using assms
    by (auto intro!: via_path [of _ "[''api'', ''v1'', ''agents'', n]"] simp: paths_eval)
next
  case (CCreate toml)
  then show ?thesis using assms
    by (auto intro!: via_path [of _ "[''api'', ''v1'', ''agents'']"] simp: paths_eval h_create_def bodies_eval)
next
  case (CCreateFull toml daemon)
  then show ?thesis using assms
    by (auto intro!: via_path [of _ "[''api'', ''v1'', ''agents'']"] simp: paths_eval h_create_def bodies_eval split: option.split)
next
  case (CDestroy n force)
  then show ?thesis using assms
    by (auto intro!: via_path [of _ "[''api'', ''v1'', ''agents'', n, ''destroy'']"] simp: paths_eval h_action_def bodies_eval)
next
  case (CSetAutoSuspend n v)
  then show ?thesis using assms
    by (auto intro!: via_path [of _ "[''api'', ''v1'', ''agents'', n]"] simp: paths_eval h_update_def bodies_eval)
next
  case (CLogs n tail)
  then show ?thesis using assms query_tail [of tail]
    by (auto intro!: via_query [of _ "[''api'', ''v1'', ''agents'', n, ''logs'']" "''tail='' @ show_nat tail"]
        simp: paths_eval h_logs_def query_field_def read_usize_show_nat)
next
  case (CLogsQuery n query)
  then show ?thesis using assms
    by (auto intro!: via_query [of _ "[''api'', ''v1'', ''agents'', n, ''logs'']" query]
        simp: paths_eval is_ok_conv)
next
  case (CHistory n tail)
  show ?thesis
  proof (cases tail)
    case None
    then show ?thesis using assms CHistory
      by (auto intro!: via_path [of _ "[''api'', ''v1'', ''agents'', n, ''session'', ''history'']"]
          simp: paths_eval h_history_def query_pairs_def query_field_def)
  next
    case (Some k)
    then show ?thesis using assms CHistory query_tail [of k]
      by (auto intro!: via_query [of _ "[''api'', ''v1'', ''agents'', n, ''session'', ''history'']" "''tail='' @ show_nat k"]
          simp: paths_eval h_history_def query_field_def read_usize_show_nat)
  qed
next
  case (CSessionState n)
  then show ?thesis using assms
    by (auto intro!: via_path [of _ "[''api'', ''v1'', ''agents'', n, ''session_state'']"] simp: paths_eval)
next
  case (CPrompt n message mode)
  then show ?thesis using assms
    by (auto intro!: via_path [of _ "[''api'', ''v1'', ''agents'', n, ''prompt'']"] simp: paths_eval h_prompt_def)
next
  case (CSessionStream n)
  then show ?thesis using assms
    by (auto intro!: via_path [of _ "[''api'', ''v1'', ''agents'', n, ''session'']"] simp: paths_eval)
qed

lemma percent_url_decode: "percent_decode t = Some bs \<Longrightarrow> url_decode t = map char_of bs"
proof (induction t arbitrary: bs rule: percent_decode.induct)
  case (2 c cs)
  have hex: "hex_val a = Some x \<Longrightarrow> any_hex_val a = Some x" for a x
    by (auto simp: hex_val_def any_hex_val_def Let_def split: if_splits)
  show ?case
  proof (cases "c = CHR ''%''")
    case False
    then have "url_decode (c # cs) = c # url_decode cs"
      by (cases "c # cs" rule: url_decode.cases) auto
    then show ?thesis using 2 False by auto
  next
    case True
    then obtain a b ds x y where cs: "cs = a # b # ds" "hex_val a = Some x" "hex_val b = Some y"
      using 2(3) by (auto split: list.splits option.splits)
    then show ?thesis using 2 True hex by auto
  qed
qed simp

lemma urlencoding_chars:
  assumes "c \<in> set (urlencoding_simple (map of_char s))"
  shows "url_unreserved (of_char c) \<or> c = CHR 0x25"
proof -
  have digit: "url_unreserved (of_char (hex_digit n))" if "n < 16" for n
    using that by (auto simp: hex_digit_def url_unreserved_def)
  obtain k where k: "k < 256" "c \<in> set (if url_unreserved k then [char_of k] else CHR ''%'' # hex_02 k)"
  proof -
    obtain x :: char where x: "x \<in> set s"
      "c \<in> set (if url_unreserved (of_char x) then [char_of (of_char x :: nat)] else CHR ''%'' # hex_02 (of_char x))"
      using assms unfolding urlencoding_simple_def set_concat by fastforce
    then show thesis using that [of "of_char x"] by simp
  qed
  then show ?thesis
    using digit [of "k div 16"] digit [of "k mod 16"] by (auto simp: hex_02_byte split: if_splits)
qed

lemma encoded_query:
  "url_decode (urlencoding_simple (map of_char s)) = s"
  "split_on (\<lambda>c. c = CHR ''&'') (urlencoding_simple (map of_char s)) = [urlencoding_simple (map of_char s)]"
  "form_decode (urlencoding_simple (map of_char s)) = s"
  "CHR ''#'' \<notin> set (urlencoding_simple (map of_char s))"
proof -
  let ?t = "urlencoding_simple (map of_char s)"
  have "percent_decode ?t = Some (map of_char s)" by (intro percent_roundtrip) auto
  from percent_url_decode [OF this] show d: "url_decode ?t = s" by (simp add: comp_def)
  have avoid: "c \<notin> set ?t" if "\<not> url_unreserved (of_char c)" "c \<noteq> CHR 0x25" for c
    using urlencoding_chars that by blast
  have single: "c \<notin> set t \<Longrightarrow> split_on (\<lambda>x. x = c) t = [t]" for c and t :: string
    by (induction t) auto
  show "split_on (\<lambda>c. c = CHR ''&'') ?t = [?t]"
    by (intro single avoid) (simp_all add: url_unreserved_def)
  have "CHR ''+'' \<notin> set ?t" by (intro avoid) (simp_all add: url_unreserved_def)
  then have "map (\<lambda>c. if c = CHR ''+'' then CHR '' '' else c) ?t = ?t"
    by (intro map_idI) auto
  then show "form_decode ?t = s" by (simp add: form_decode_def d)
  show "CHR ''#'' \<notin> set ?t" by (intro avoid) (simp_all add: url_unreserved_def)
qed

lemma query_page:
  assumes "page < 2 ^ 64"
  shows "query_pairs (''page='' @ show_nat page @ (case q of None \<Rightarrow> [] | Some q \<Rightarrow> ''&q='' @ urlencoding_simple (map of_char q))) =
      (''page'', show_nat page) # (case q of None \<Rightarrow> [] | Some q \<Rightarrow> [(''q'', q)])"
    "CHR ''#'' \<notin> set (''page='' @ show_nat page @ (case q of None \<Rightarrow> [] | Some q \<Rightarrow> ''&q='' @ urlencoding_simple (map of_char q)))"
proof -
  have "CHR ''#'' \<notin> set (show_nat page)" using inert_avoids [OF inert_show_nat] reserved_chars by blast
  then show "CHR ''#'' \<notin> set (''page='' @ show_nat page @ (case q of None \<Rightarrow> [] | Some q \<Rightarrow> ''&q='' @ urlencoding_simple (map of_char q)))"
    using encoded_query(4) by (auto split: option.split)
  have lits: "form_decode ''page'' = ''page''" "form_decode ''q'' = ''q''" by (simp_all add: form_decode_def)
  show "query_pairs (''page='' @ show_nat page @ (case q of None \<Rightarrow> [] | Some q \<Rightarrow> ''&q='' @ urlencoding_simple (map of_char q))) =
      (''page'', show_nat page) # (case q of None \<Rightarrow> [] | Some q \<Rightarrow> [(''q'', q)])"
    by (auto simp: query_pairs_def split_on_inert inert_show_nat url_unreserved_def split_once_inert decode_inert
        encoded_query lits split: option.split)
qed

fun catalog_ok :: "catalog_call \<Rightarrow> bool" where
  "catalog_ok (CPiPackages text page) = (page < 2 ^ 64)"
| "catalog_ok (CSetProvider i v) = plain_name i"
| "catalog_ok (CDeleteProvider i) = plain_name i"
| "catalog_ok (CSetExtra n v) = plain_name n"
| "catalog_ok (CDeleteExtra n) = plain_name n"
| "catalog_ok _ = True"

lemma catalog_call_arrives:
  assumes "catalog_ok c" "catalog_request c = (m, t, b)"
  shows "route_request m t b = Inr (catalog_target c)"
proof (cases c)
  case CProviders
  then show ?thesis using assms
    by (auto intro!: via_path [of _ "[''api'', ''v1'', ''providers'']"] simp: paths_eval)
next
  case CHarnesses
  then show ?thesis using assms
    by (auto intro!: via_path [of _ "[''api'', ''v1'', ''harnesses'']"] simp: paths_eval)
next
  case (CPiPackages q page)
  then show ?thesis using assms query_page [of page q]
    by (auto intro!: via_query [of _ "[''api'', ''v1'', ''pi-packages'']" "''page='' @ show_nat page @
          (case q of None \<Rightarrow> [] | Some q \<Rightarrow> ''&q='' @ urlencoding_simple (map of_char q))"]
        simp: paths_eval h_pi_packages_def query_field_def read_usize_show_nat unwrap_or_def split: option.split)
next
  case CSecrets
  then show ?thesis using assms
    by (auto intro!: via_path [of _ "[''api'', ''v1'', ''secrets'']"] simp: paths_eval)
next
  case (CSetProvider i v)
  then show ?thesis using assms
    by (auto intro!: via_path [of _ "[''api'', ''v1'', ''secrets'', ''providers'', i]"] simp: paths_eval h_value_def bodies_eval)
next
  case (CDeleteProvider i)
  then show ?thesis using assms
    by (auto intro!: via_path [of _ "[''api'', ''v1'', ''secrets'', ''providers'', i]"] simp: paths_eval)
next
  case (CSetExtra n v)
  then show ?thesis using assms
    by (auto intro!: via_path [of _ "[''api'', ''v1'', ''secrets'', ''extra'', n]"] simp: paths_eval h_value_def bodies_eval)
next
  case (CDeleteExtra n)
  then show ?thesis using assms
    by (auto intro!: via_path [of _ "[''api'', ''v1'', ''secrets'', ''extra'', n]"] simp: paths_eval)
next
  case (CSetSshKey v)
  then show ?thesis using assms
    by (auto intro!: via_path [of _ "[''api'', ''v1'', ''secrets'', ''git-ssh-key'']"] simp: paths_eval h_value_def bodies_eval)
next
  case CDeleteSshKey
  then show ?thesis using assms
    by (auto intro!: via_path [of _ "[''api'', ''v1'', ''secrets'', ''git-ssh-key'']"] simp: paths_eval)
next
  case (CReveal kind name)
  then show ?thesis using assms
    by (auto intro!: via_path [of _ "[''api'', ''v1'', ''secrets'', ''reveal'']"] simp: paths_eval h_reveal_def bodies_eval)
qed

definition call_ok :: "client_call \<Rightarrow> bool" where
  "call_ok c = (case c of Fleet c \<Rightarrow> fleet_ok c | Agent c \<Rightarrow> agent_ok c | Catalog c \<Rightarrow> catalog_ok c)"

lemma call_arrives:
  assumes "call_ok c" "client_request c = (m, t, b)"
  shows "route_request m t b = Inr (call_target c)"
  using assms fleet_call_arrives agent_call_arrives catalog_call_arrives
  by (cases c) (simp_all add: call_ok_def client_request_def call_target_def)

section \<open>The operator channel\<close>

text \<open>
  One REST request of the channel: what a request line or a method that is no HTTP gives (\<open>bad\<close>),
  the texts of statuses without a body of their own (\<open>reject\<close>), and the targets outside \<open>Web_Api\<close>
  (\<open>other\<close>) are parameters. As in \<open>serve\<close>, the second state is that after spawned tasks.\<close>

definition rest_op ::
    "web_env \<Rightarrow> uuid \<Rightarrow> (string \<Rightarrow> string \<Rightarrow> string option) \<Rightarrow> (nat \<Rightarrow> json) \<Rightarrow>
      (target \<Rightarrow> web_state \<Rightarrow> operator_frame \<times> web_state \<times> web_state) \<Rightarrow>
      string \<Rightarrow> string \<Rightarrow> json option \<Rightarrow> web_state \<Rightarrow> operator_frame \<times> web_state \<times> web_state" where
  "rest_op E i bad reject other method path body s =
     (case bad method path of
        Some e \<Rightarrow> (FrameError (''bad request: '' @ e), s, s)
      | None \<Rightarrow>
          (case route_request method path body of
             Inl status \<Rightarrow> (FrameReply status (reject status), s, s)
           | Inr (Api req) \<Rightarrow>
               (case serve E i req s of
                  (Inr v, s1, s2) \<Rightarrow> (FrameReply 200 v, s1, s2)
                | (Inl (status, v), s1, s2) \<Rightarrow> (FrameReply status v, s1, s2))
           | Inr t \<Rightarrow> other t s))"

text \<open>A connection is looked at once: a peer that is not on the allow list is closed unheard.\<close>

definition operator_accept :: "string \<Rightarrow> web_state \<Rightarrow> bool" where
  "operator_accept remote s \<longleftrightarrow> remote \<in> cp_operator_allow (ws_cp s)"

text \<open>What the client makes of the frame (\<open>frame_result\<close>) is what the handler answered.\<close>

definition api_result :: "api \<Rightarrow> (client_error \<times> bool) + json" where
  "api_result r =
     (case r of Inr v \<Rightarrow> Inr v
      | Inl (status, v) \<Rightarrow> Inl (HttpStatus status (unwrap_or ''request failed'' (as_str (json_get ''error'' v))), True))"

section \<open>The desktop client's tasks\<close>

fun action_call :: "suzy_action \<Rightarrow> client_call" where
  "action_call (ApprovePending i) = Fleet (CApprovePending i)"
| "action_call (DismissPending i) = Fleet (CDismissPending i)"
| "action_call (RemoveDaemon i) = Fleet (CRemoveDaemon i)"
| "action_call (SetLabels i ls remove) = Fleet (CSetLabels i ls remove)"
| "action_call (SetAutoSuspend a v) = Agent (CSetAutoSuspend a v)"
| "action_call (SetSecretProvider i v) = Catalog (CSetProvider i v)"
| "action_call (DeleteSecretProvider i) = Catalog (CDeleteProvider i)"
| "action_call (SetSecretExtra n v) = Catalog (CSetExtra n v)"
| "action_call (DeleteSecretExtra n) = Catalog (CDeleteExtra n)"
| "action_call (SetDeployKey v) = Catalog (CSetSshKey v)"
| "action_call DeleteDeployKey = Catalog CDeleteSshKey"

definition logs_query :: "string option \<Rightarrow> string option \<Rightarrow> nat \<Rightarrow> string" where
  "logs_query kind q tail =
     ''tail='' @ show_nat tail @
     (case kind of None \<Rightarrow> [] | Some k \<Rightarrow> if k = [] then [] else ''&kind='' @ k) @
     (case q of None \<Rightarrow> [] | Some t \<Rightarrow>
        if t = [] then [] else ''&q='' @ concat (map (\<lambda>c. if c = CHR '' '' then ''%20'' else [c]) t))"

text \<open>The calls of a task; the workspace loop repeats its last five.\<close>

fun task_calls :: "net_task \<Rightarrow> client_call list" where
  "task_calls (WorkspaceLoop ws cfg) =
     [Fleet CEndpoint, Catalog CProviders, Catalog CHarnesses, Fleet COverview, Agent CAgents, Fleet CDaemons,
      Fleet CPendingDaemons, Fleet CEvents]"
| "task_calls (SessionStream ws a) = [Agent (CSessionStream a)]"
| "task_calls (ShellTask ws a) = []"
| "task_calls (LogsTask ws a kind q tail) = [Agent (CLogsQuery a (logs_query kind q tail))]"
| "task_calls (DetailsTask ws a) = [Agent (CAgent a)]"
| "task_calls (ActivityTask ws tail) = [Fleet (CAudit tail)]"
| "task_calls (SecretsTask ws) = [Catalog CSecrets]"
| "task_calls (RevealTask ws kind name) = [Catalog (CReveal kind name)]"
| "task_calls (PromptTask ws a message mode) = [Agent (CPrompt a message mode)]"
| "task_calls (ActionTask ws what action) = [action_call action]"
| "task_calls (CreateTask ws toml) = [Agent (CCreate toml)]"
| "task_calls (DestroyTask ws a) = [Agent (CDestroy a False)]"
| "task_calls (AbortTasks n ss sh) = []"

section \<open>From a call to its handler and back\<close>


text \<open>The desktop client's tasks make such calls, whenever the names they carry are plain.\<close>

lemma actions_arrive:
  assumes "call_ok (action_call a)" "client_request (action_call a) = (m, t, b)"
  shows "\<exists>req. route_request m t b = Inr (Api req) \<and> call_target (action_call a) = Api req"
  using call_arrives [OF assms] by (cases a) (auto simp: call_target_def)

text \<open>A search in the logs arrives when its words are plain; spaces are the only thing encoded.\<close>

lemma url_decode_other: "c \<noteq> CHR 0x25 \<Longrightarrow> url_decode (c # t) = c # url_decode t"
  by (cases "c # t" rule: url_decode.cases) auto

lemma url_decode_space: "url_decode (''%20'' @ t) = CHR '' '' # url_decode t"
proof -
  have "any_hex_val (CHR ''2'') = Some 2" "any_hex_val (CHR ''0'') = Some 0" by (simp_all add: any_hex_val_def)
  moreover have "char_of (32 :: nat) = CHR '' ''" by (simp add: char_of_def bit_Suc_0_iff)
  ultimately show ?thesis by simp
qed

lemma spaces_encoded:
  assumes "\<forall>c \<in> set q. url_unreserved (of_char c) \<or> c = CHR '' ''"
  shows "form_decode (concat (map (\<lambda>c. if c = CHR '' '' then ''%20'' else [c]) q)) = q"
    and "\<not> url_unreserved (of_char d) \<Longrightarrow> d \<noteq> CHR 0x25 \<Longrightarrow>
      d \<notin> set (concat (map (\<lambda>c. if c = CHR '' '' then ''%20'' else [c]) q))"
proof -
  let ?e = "\<lambda>q. concat (map (\<lambda>c. if c = CHR '' '' then ''%20'' else [c]) q)"
  have plus: "CHR ''+'' \<notin> set (?e q)" using assms by (auto simp: url_unreserved_def)
  have "map (\<lambda>c. if c = CHR ''+'' then CHR '' '' else c) (?e q) = ?e q"
    using plus by (intro map_idI) auto
  moreover have "url_decode (?e q) = q"
    using assms
  proof (induction q)
    case (Cons c q)
    have "c \<noteq> CHR 0x25" using Cons.prems by (auto simp: url_unreserved_def)
    then show ?case
      using Cons url_decode_space [of "?e q"] url_decode_other [of c "?e q"] by (cases "c = CHR '' ''") simp_all
  qed simp
  ultimately show "form_decode (?e q) = q" by (simp add: form_decode_def)
  show "\<not> url_unreserved (of_char d) \<Longrightarrow> d \<noteq> CHR 0x25 \<Longrightarrow> d \<notin> set (?e q)"
    using assms by (auto simp: url_unreserved_def)
qed

lemma split_on_avoiding:
  assumes "d \<notin> set t"
  shows "split_on (\<lambda>c. c = d) t = [t]" "split_on (\<lambda>c. c = d) (t @ d # s) = t # split_on (\<lambda>c. c = d) s"
  using assms by (induction t) auto

lemma logs_query_pairs:
  assumes "inert k" "k \<noteq> []" "q \<noteq> []" "\<forall>c \<in> set q. url_unreserved (of_char c) \<or> c = CHR '' ''"
  shows "query_pairs (logs_query (Some k) (Some q) tail) = [(''tail'', show_nat tail), (''kind'', k), (''q'', q)]"
    and "CHR ''#'' \<notin> set (logs_query (Some k) (Some q) tail)"
proof -
  let ?e = "concat (map (\<lambda>c. if c = CHR '' '' then ''%20'' else [c]) q)"
  have avoid: "c \<notin> set (show_nat tail)" "c \<notin> set k" "c \<noteq> CHR 0x25 \<Longrightarrow> c \<notin> set ?e"
    if "\<not> url_unreserved (of_char c)" for c
    using inert_avoids [OF inert_show_nat that] inert_avoids [OF assms(1) that] spaces_encoded(2) [OF assms(4) that]
    by auto
  show "CHR ''#'' \<notin> set (logs_query (Some k) (Some q) tail)"
    using avoid [OF reserved_chars(3)] assms(2,3) by (simp add: logs_query_def)
  have t: "logs_query (Some k) (Some q) tail =
      (''tail='' @ show_nat tail) @ CHR ''&'' # (''kind='' @ k) @ CHR ''&'' # (''q='' @ ?e)"
    using assms(2,3) by (simp add: logs_query_def)
  have "split_on (\<lambda>c. c = CHR ''&'') (logs_query (Some k) (Some q) tail) =
      [''tail='' @ show_nat tail, ''kind='' @ k, ''q='' @ ?e]"
    unfolding t using avoid [OF reserved_chars(6)]
    by (subst split_on_avoiding(2), simp, subst split_on_avoiding(2), simp, subst split_on_avoiding(1), simp, simp)
  moreover have "form_decode ''kind'' = ''kind''" "form_decode ''q'' = ''q''" by (simp_all add: form_decode_def)
  ultimately show "query_pairs (logs_query (Some k) (Some q) tail) = [(''tail'', show_nat tail), (''kind'', k), (''q'', q)]"
    using spaces_encoded(1) [OF assms(4)]
    by (simp add: query_pairs_def form_decode_lit decode_inert inert_show_nat assms(1))
qed

lemma logs_task_arrives:
  assumes "plain_name a" "tail < 2 ^ 64" "inert k" "k \<noteq> []" "q \<noteq> []"
    "\<forall>c \<in> set q. url_unreserved (of_char c) \<or> c = CHR '' ''"
    and "client_request (hd (task_calls (LogsTask ws a (Some k) (Some q) tail))) = (m, t, b)"
  shows "route_request m t b = Inr (Api (RqAgentLogs a (Some tail) (Some k) (Some q)))"
proof -
  let ?c = "Agent (CLogsQuery a (logs_query (Some k) (Some q) tail))"
  have h: "h_logs [a] (query_pairs (logs_query (Some k) (Some q) tail)) None =
      Inr (Api (RqAgentLogs a (Some tail) (Some k) (Some q)))"
    using assms(2) by (simp add: logs_query_pairs [OF assms(3-6)] h_logs_def query_field_def read_usize_show_nat)
  have "call_ok ?c"
    using assms(1) logs_query_pairs(2) [OF assms(3-6)] by (simp add: call_ok_def h)
  then show ?thesis
    using call_arrives [of ?c m t b] assms(7) by (simp add: call_target_def h)
qed

section \<open>What goes wrong\<close>

text \<open>A name is put into a path unencoded: a prompt can be a request to destroy.\<close>

lemma prompt_destroys:
  "client_request (Agent (CPrompt ''a/destroy?'' ''hello'' ModePrompt)) = (m, t, b) \<Longrightarrow>
     route_request m t b = Inr (Api (RqAgentAction ''a'' ''destroy'' None))"
  by (auto simp: client_request_def h_action_def bodies_eval
      intro!: via_query [of _ "[''api'', ''v1'', ''agents'', ''a'', ''destroy'']" "''/prompt''"] simp: paths_eval)

text \<open>An ampersand in a log search ends it.\<close>

lemma search_cut_at_ampersand:
  "query_pairs (logs_query None (Some ''a&b'') 200) = [(''tail'', ''200''), (''q'', ''a''), (''b'', [])]"
proof -
  have "show_nat 200 = ''200''" by (simp add: show_nat.simps digit_char_def char_of_def bit_Suc_0_iff)
  then show ?thesis by (simp add: logs_query_def query_pairs_def form_decode_def)
qed

text \<open>A daemon whose host name is a word of the API cannot be named by it.\<close>

lemma daemon_named_pending:
  "client_request (Fleet (CRemoveDaemon ''pending'')) = (m, t, b) \<Longrightarrow> route_request m t b = Inl 405"
  by (auto simp: client_request_def intro!: via_path [of _ "[''api'', ''v1'', ''daemons'', ''pending'']"] simp: paths_eval)


end
