(* ===== verification/Mcp_Server.thy ===== *)
theory Mcp_Server
  imports Client_Api
begin

text \<open>
  The MCP server (crates/suzerain-mcp/src/server.rs): its eighteen tools as the requests they send
  over the client of crates/suzerain-mcp/src/client.rs and the outcomes they make of the answers,
  with the client-side check of a create. The transport behind the client is the parameter
  \<open>mc_rest\<close>, whose state is threaded through; the three catalogs that a create reads at once are read
  one after the other. \<open>suggest\<close> is that of crates/suzerain/src/catalog.rs, which the server repeats.
\<close>

section \<open>The client\<close>

record 'w mcp_env =
  mc_rest :: "string \<Rightarrow> string \<Rightarrow> json option \<Rightarrow> 'w \<Rightarrow> (client_error + json) \<times> 'w"
  mc_show :: "client_error \<Rightarrow> string"
  mc_pretty :: "json \<Rightarrow> string"
  mc_manifest_json :: "agent_manifest \<Rightarrow> string + json"
  mc_manifest_toml :: "agent_manifest \<Rightarrow> string"

definition api_raw :: "'w mcp_env \<Rightarrow> string \<Rightarrow> string \<Rightarrow> json option \<Rightarrow> 'w \<Rightarrow> (string + json) \<times> 'w" where
  "api_raw E method path body w =
     (case mc_rest E method path body w of
        (Inr v, w1) \<Rightarrow> (Inr v, w1)
      | (Inl (HttpStatus status message), w1) \<Rightarrow> (Inl message, w1)
      | (Inl e, w1) \<Rightarrow> (Inl (''reaching the control plane (is `suzerain run` up?): '' @ mc_show E e), w1))"

definition api_get :: "'w mcp_env \<Rightarrow> string \<Rightarrow> 'w \<Rightarrow> (string + json) \<times> 'w" where
  "api_get E path = api_raw E ''GET'' path None"

definition api_get_query :: "'w mcp_env \<Rightarrow> string \<Rightarrow> (string \<times> string) list \<Rightarrow> 'w \<Rightarrow> (string + json) \<times> 'w" where
  "api_get_query E path query = api_raw E ''GET'' (with_query path (map (map_prod id (map of_char)) query)) None"

definition api_post :: "'w mcp_env \<Rightarrow> string \<Rightarrow> json \<Rightarrow> 'w \<Rightarrow> (string + json) \<times> 'w" where
  "api_post E path body = api_raw E ''POST'' path (Some body)"

definition api_delete :: "'w mcp_env \<Rightarrow> string \<Rightarrow> (string \<times> string) list \<Rightarrow> 'w \<Rightarrow> (string + json) \<times> 'w" where
  "api_delete E path query = api_raw E ''DELETE'' (with_query path (map (map_prod id (map of_char)) query)) None"

datatype tool_result = ToolText string | ToolFailed string

definition outcome :: "'w mcp_env \<Rightarrow> string + json \<Rightarrow> tool_result" where
  "outcome E r = (case r of Inr v \<Rightarrow> ToolText (mc_pretty E v) | Inl e \<Rightarrow> ToolFailed e)"

section \<open>Checking a create\<close>

definition object_of :: "json \<Rightarrow> (string \<times> json) list" where
  "object_of j = (case j of JObj kvs \<Rightarrow> kvs | _ \<Rightarrow> [])"

definition array_of :: "json \<Rightarrow> json list" where
  "array_of j = unwrap_or [] (as_array j)"

text \<open>\<open>filter_map\<close> of a text field.\<close>

definition texts_of :: "(json \<Rightarrow> json) \<Rightarrow> json list \<Rightarrow> string list" where
  "texts_of f js = concat (map (\<lambda>j. case as_str (f j) of None \<Rightarrow> [] | Some t \<Rightarrow> [t]) js)"

definition did_you_mean :: "string \<Rightarrow> string option \<Rightarrow> string" where
  "did_you_mean sep hint =
     (case hint of None \<Rightarrow> [] | Some t \<Rightarrow> sep @ ''did you mean '' @ quoted t @ ''?'')"

definition dash_sep :: string where "dash_sep = '' '' @ dash_text @ '' ''"

definition check_provider :: "agent_manifest \<Rightarrow> json \<Rightarrow> string + unit" where
  "check_provider m providers =
     (let catalog = object_of (json_get ''providers'' providers);
          ids = map fst catalog;
          provider = ms_provider (m_model m);
          model = ms_id (m_model m)
      in case map_of catalog provider of
           None \<Rightarrow> Inl (''unknown provider '' @ quoted provider @ did_you_mean dash_sep (suggest provider ids) @
             ''. Known providers: '' @ join '', '' ids)
         | Some entry \<Rightarrow>
             if as_bool (json_get ''key_injectable'' entry) = Some False then
               Inl (''provider '' @ quoted provider @ '' can'' @ [CHR 0x27] @
                 ''t receive an API key inside the agent VM (OAuth-only). Choose a key-based provider from llm_providers.'')
             else if as_bool (json_get ''key_configured'' entry) = Some False then
               Inl (''no API key configured for provider '' @ quoted provider @ dash_sep @
                 ''a human must add it, then retry:'' @ [newline] @ ''  suz secrets set provider '' @ provider @
                 '' --value <API_KEY>'')
             else
               (let models = texts_of (json_get ''id'') (array_of (json_get ''models'' entry))
                in if models \<noteq> [] \<and> model \<notin> set models then
                     Inl (''unknown model '' @ quoted model @ '' for provider '' @ quoted provider @
                       did_you_mean ''; '' (suggest model models))
                   else Inr ()))"

definition check_harness :: "agent_manifest \<Rightarrow> json \<Rightarrow> string + unit" where
  "check_harness m harnesses =
     (let kinds = map fst (object_of (json_get ''harnesses'' harnesses));
          kind = h_kind (m_harness m);
          version = h_version (m_harness m);
          versions = texts_of id (array_of (json_get ''versions'' (json_get kind (json_get ''harnesses'' harnesses))))
      in if kind \<notin> set kinds then
           Inl (''unknown harness '' @ quoted kind @ dash_sep @ ''harness_catalog lists: '' @ join '', '' kinds)
         else if version \<notin> set versions then
           Inl (''harness '' @ quoted kind @ '' version '' @ quoted version @ '' is not provisionable'' @ dash_sep @
             ''harness_catalog lists: '' @ join '', '' versions)
         else Inr ())"

definition pin_matches :: "string \<Rightarrow> json \<Rightarrow> bool" where
  "pin_matches pin d \<longleftrightarrow>
     (case as_str (json_get ''endpoint_id'' d) of None \<Rightarrow> False | Some i \<Rightarrow> starts_with i pin) \<or>
     as_str (json_get ''hostname'' d) = Some pin"

definition check_pin :: "agent_manifest \<Rightarrow> json list \<Rightarrow> string + unit" where
  "check_pin m daemons =
     (case s_daemon (m_schedule m) of
        None \<Rightarrow> Inr ()
      | Some pin \<Rightarrow>
          if \<exists>d \<in> set daemons. pin_matches pin d then Inr ()
          else Inl (''no daemon matches pin '' @ quoted pin @ ''. Known daemons: '' @
            join '', '' (map (\<lambda>d. unwrap_or ''?'' (as_str (json_get ''hostname'' d)) @ '' ('' @
              take 12 (unwrap_or ''?'' (as_str (json_get ''endpoint_id'' d))) @ '')'') daemons) @ dash_sep @
            ''see castellan_list''))"

definition carries_label :: "string \<Rightarrow> string \<Rightarrow> json \<Rightarrow> bool" where
  "carries_label k v d \<longleftrightarrow>
     as_bool (json_get ''online'' d) = Some True \<and>
     as_str (json_get k (JObj (object_of (json_get ''labels'' d)))) = Some v"

definition check_require :: "agent_manifest \<Rightarrow> json list \<Rightarrow> string + unit" where
  "check_require m daemons =
     all_ok (\<lambda>(k, v).
        if \<exists>d \<in> set daemons. carries_label k v d then Inr ()
        else Inl (''no online daemon carries label '' @ quoted (k @ ''='' @ v) @ '' (schedule.require)'' @ dash_sep @
          ''set it with castellan_labels_set or drop the constraint''))
       (s_require (m_schedule m))"

definition validate_create :: "agent_manifest \<Rightarrow> json \<Rightarrow> json \<Rightarrow> json \<Rightarrow> string + unit" where
  "validate_create m providers harnesses daemons =
     res_bind (check_provider m providers) (\<lambda>_.
     res_bind (check_harness m harnesses) (\<lambda>_.
     let daemon_list = array_of (json_get ''daemons'' daemons)
     in res_bind (check_pin m daemon_list) (\<lambda>_. check_require m daemon_list)))"

section \<open>Creating from fields\<close>

record create_params =
  cr_manifest_toml :: "string option"
  cr_name :: "string option"
  cr_provider :: "string option"
  cr_model :: "string option"
  cr_thinking :: "string option"
  cr_harness_version :: "string option"
  cr_vcpu :: "u32 option"
  cr_memory_mib :: "u64 option"
  cr_disk_mib :: "u64 option"
  cr_gpu_count :: "u32 option"
  cr_gpu_vram_mib :: "u64 option"
  cr_repos :: "(string \<times> string option) list option"
  cr_extensions :: "extension list option"
  cr_append_system :: "string option"
  cr_daemon :: "string option"
  cr_require :: "labels option"
  cr_egress_allow :: "string list option"
  cr_otel_endpoint :: "string option"

definition latest_version :: "json \<Rightarrow> string option" where
  "latest_version harnesses =
     (case as_array (json_get ''versions'' (json_get ''pi'' (json_get ''harnesses'' harnesses))) of
        None \<Rightarrow> None
      | Some vs \<Rightarrow> if vs = [] then None else as_str (last vs))"

definition structured_manifest :: "create_params \<Rightarrow> string \<Rightarrow> string \<Rightarrow> string \<Rightarrow> string \<Rightarrow> agent_manifest" where
  "structured_manifest p name provider model version =
     \<lparr>m_name = name, m_harness = \<lparr>h_kind = ''pi'', h_version = version\<rparr>,
      m_model = \<lparr>ms_provider = provider, ms_id = model, ms_thinking = cr_thinking p\<rparr>,
      m_resources = \<lparr>r_vcpu = unwrap_or 2 (cr_vcpu p), r_memory_mib = unwrap_or 2048 (cr_memory_mib p),
        r_disk_mib = unwrap_or 5120 (cr_disk_mib p),
        r_gpu = (case cr_gpu_count p of None \<Rightarrow> None
          | Some n \<Rightarrow> if 0 < n then Some \<lparr>gr_count = n, gr_vram_mib = cr_gpu_vram_mib p\<rparr> else None)\<rparr>,
      m_schedule = \<lparr>s_require = unwrap_or [] (cr_require p), s_daemon = cr_daemon p\<rparr>,
      m_tools = [],
      m_repos = map (\<lambda>(u, r). \<lparr>rp_url = u, rp_ref = unwrap_or ''main'' r\<rparr>) (unwrap_or [] (cr_repos p)),
      m_extensions = map (\<lambda>e. e\<lparr>x_ref := (case x_ref e of Some r \<Rightarrow> Some r
          | None \<Rightarrow> map_option (\<lambda>_. ''main'') (x_url e))\<rparr>) (unwrap_or [] (cr_extensions p)),
      m_append_system = cr_append_system p,
      m_secrets = \<lparr>ss_providers = [provider], ss_extra = []\<rparr>,
      m_egress_allow = unwrap_or [] (cr_egress_allow p),
      m_otel = map_option (\<lambda>e. \<lparr>o_endpoint = e, o_headers = []\<rparr>) (cr_otel_endpoint p),
      m_auto_suspend = None, m_provision = None\<rparr>"

text \<open>The \<open>?\<close> of the source: a failure ends the tool.\<close>

definition try_api :: "(string + 'a) \<times> 'w \<Rightarrow> ('a \<Rightarrow> 'w \<Rightarrow> (string + 'b) \<times> 'w) \<Rightarrow> (string + 'b) \<times> 'w" where
  "try_api r f = (case r of (Inl e, w) \<Rightarrow> (Inl e, w) | (Inr a, w) \<Rightarrow> f a w)"

definition need :: "string \<Rightarrow> 'a option \<Rightarrow> string + 'a" where
  "need what x = (case x of None \<Rightarrow> Inl what | Some a \<Rightarrow> Inr a)"

definition background_note :: string where
  "background_note = ''provisioning runs in the background '' @ dash_text @ '' poll agent_get / agent_logs for progress''"

definition create_from_structured :: "'w mcp_env \<Rightarrow> create_params \<Rightarrow> 'w \<Rightarrow> (string + json) \<times> 'w" where
  "create_from_structured E p w =
     try_api (need ''name is required (structured mode)'' (cr_name p), w) (\<lambda>name w.
     try_api (need ''provider is required (structured mode)'' (cr_provider p), w) (\<lambda>provider w.
     try_api (need ''model is required (structured mode)'' (cr_model p), w) (\<lambda>model w.
     try_api (api_get E ''/api/v1/providers'' w) (\<lambda>providers w.
     try_api (api_get E ''/api/v1/harnesses'' w) (\<lambda>harnesses w.
     try_api (api_get E ''/api/v1/daemons'' w) (\<lambda>daemons w.
     try_api (case cr_harness_version p of Some v \<Rightarrow> Inr v
        | None \<Rightarrow> need ''harness catalog has no pi versions'' (latest_version harnesses), w) (\<lambda>version w.
     let m = structured_manifest p name provider model version
     in try_api (validate_create m providers harnesses daemons, w) (\<lambda>_ w.
        try_api (mc_manifest_json E m, w) (\<lambda>v w.
        try_api (api_post E ''/api/v1/agents'' (JObj [(''manifest'', v)]) w) (\<lambda>resp w.
        (Inr (JObj [(''agent'', resp), (''rendered_manifest_toml'', JStr (mc_manifest_toml E m)),
           (''note'', JStr background_note)]), w)))))))))))"

section \<open>The tools\<close>

datatype tool_call =
  LlmProviders "string option"
| HarnessCatalogTool
| PiPackagesSearch "string option" "string option" "nat option"
| FleetOverview
| AuditTail "nat option"
| CastellanAdd "string option"
| CastellanGet string
| CastellanList "bool option"
| CastellanRemove string string "bool option"
| CastellanLabelsSet string "labels option" "string list option"
| AgentList "string option"
| AgentCreate create_params
| AgentGet string
| AgentDelete string string
| AgentLogsTool string "nat option"
| SessionEvents string "nat option" "string list option"
| SessionSend string string
| SessionAbort string

definition pick_provider :: "string option \<Rightarrow> json \<Rightarrow> string + json" where
  "pick_provider provider v =
     (case provider of
        None \<Rightarrow> Inr v
      | Some i \<Rightarrow>
          (let all = object_of (json_get ''providers'' v)
           in case map_of all i of
                Some entry \<Rightarrow> Inr (JObj [(i, entry)])
              | None \<Rightarrow> Inl (''unknown provider '' @ quoted i @ did_you_mean dash_sep (suggest i (map fst all)) @
                  ''. Available: '' @ join '', '' (map fst all))))"

definition enrollment_instructions :: "json \<Rightarrow> json" where
  "enrollment_instructions v =
     (let eid = unwrap_or ''?'' (as_str (json_get ''endpoint_id'' v))
      in JObj [(''instructions_for_a_human'', JArr (map JStr
           [''On the new machine, install prerequisites (qemu + mise) and the suzerain binaries'',
            ''castellan init --suzerain '' @ eid @ ''   # prints the new daemon'' @ [CHR 0x27] @ ''s EndpointId'',
            ''castellan run                        # registers and takes orders'',
            ''Then approve it here: castellan_add with the printed EndpointId (or approve via castellan_list pending entries)''])),
          (''suzerain_endpoint_id'', JStr eid)])"

definition find_daemon :: "string \<Rightarrow> json \<Rightarrow> string option" where
  "find_daemon i v =
     (case find (pin_matches i) (array_of (json_get ''daemons'' v)) of
        None \<Rightarrow> None
      | Some d \<Rightarrow> as_str (json_get ''endpoint_id'' d))"

definition status_filter :: "string option \<Rightarrow> json \<Rightarrow> json" where
  "status_filter state v =
     (case (state, as_array (json_get ''agents'' v)) of
        (Some s, Some agents) \<Rightarrow>
          set_field ''agents'' (JArr (filter (\<lambda>a. as_str (json_get ''status'' a) = Some s \<or>
            as_str (json_get ''state'' a) = Some s) agents)) v
      | _ \<Rightarrow> v)"

definition confirm_text :: "string \<Rightarrow> string \<Rightarrow> string \<Rightarrow> string \<Rightarrow> string" where
  "confirm_text what i got warning =
     ''confirm must exactly equal the '' @ what @ '' ('' @ quoted i @ '')'' @ dash_sep @ ''got '' @ quoted got @ ''. '' @
     warning @ ''; re-call with confirm set correctly if intended.''"

definition castellan_remove :: "'w mcp_env \<Rightarrow> string \<Rightarrow> string \<Rightarrow> bool option \<Rightarrow> 'w \<Rightarrow> (string + json) \<times> 'w" where
  "castellan_remove E i confirm force w =
     try_api (api_get E ''/api/v1/daemons'' w) (\<lambda>v w.
     case find_daemon i v of
       None \<Rightarrow> (Inl (''no daemon matching '' @ quoted i @ dash_sep @ ''see castellan_list''), w)
     | Some full_id \<Rightarrow>
         if confirm \<noteq> full_id then
           (Inl (confirm_text (''daemon'' @ [CHR 0x27] @ ''s full EndpointId'') full_id confirm
              ''This is a destructive operation''), w)
         else api_delete E (daemon_path full_id) [(''force'', if unwrap_or False force then ''true'' else ''false'')] w)"

definition castellan_list :: "'w mcp_env \<Rightarrow> bool option \<Rightarrow> 'w \<Rightarrow> (string + json) \<times> 'w" where
  "castellan_list E include_pending w =
     (case api_get E ''/api/v1/daemons'' w of
        (daemons, w1) \<Rightarrow>
          if unwrap_or True include_pending then
            (case api_get E ''/api/v1/daemons/pending'' w1 of
               (pend, w2) \<Rightarrow>
                 ((case (daemons, pend) of
                     (Inr d, Inr p) \<Rightarrow> Inr (set_field ''pending'' (json_get ''pending'' p) d)
                   | _ \<Rightarrow> daemons), w2))
          else (daemons, w1))"

text \<open>One definition per tool, in the source's order.\<close>

definition tool_llm_providers :: "'w mcp_env \<Rightarrow> string option \<Rightarrow> 'w \<Rightarrow> (string + json) \<times> 'w" where
  "tool_llm_providers E provider w =
     try_api (api_get E ''/api/v1/providers'' w) (\<lambda>v w. (pick_provider provider v, w))"

definition tool_harness_catalog :: "'w mcp_env \<Rightarrow> 'w \<Rightarrow> (string + json) \<times> 'w" where
  "tool_harness_catalog E w = api_get E ''/api/v1/harnesses'' w"

definition tool_pi_packages_search ::
    "'w mcp_env \<Rightarrow> string option \<Rightarrow> string option \<Rightarrow> nat option \<Rightarrow> 'w \<Rightarrow> (string + json) \<times> 'w" where
  "tool_pi_packages_search E q kind page w =
     api_get_query E ''/api/v1/pi-packages''
       [(''q'', unwrap_or [] q), (''type'', unwrap_or [] kind), (''page'', show_nat (unwrap_or 1 page))] w"

definition tool_fleet_overview :: "'w mcp_env \<Rightarrow> 'w \<Rightarrow> (string + json) \<times> 'w" where
  "tool_fleet_overview E w = api_get E ''/api/v1/overview'' w"

definition tool_audit_tail :: "'w mcp_env \<Rightarrow> nat option \<Rightarrow> 'w \<Rightarrow> (string + json) \<times> 'w" where
  "tool_audit_tail E tail w = api_get_query E ''/api/v1/audit'' [(''tail'', show_nat (unwrap_or 50 tail))] w"

definition tool_castellan_add :: "'w mcp_env \<Rightarrow> string option \<Rightarrow> 'w \<Rightarrow> (string + json) \<times> 'w" where
  "tool_castellan_add E endpoint_id w =
     (case endpoint_id of
        Some i \<Rightarrow> api_post E ''/api/v1/daemons/approve'' (JObj [(''endpoint_id'', JStr i)]) w
      | None \<Rightarrow> try_api (api_get E ''/api/v1/endpoint'' w) (\<lambda>v w. (Inr (enrollment_instructions v), w)))"

definition tool_castellan_get :: "'w mcp_env \<Rightarrow> string \<Rightarrow> 'w \<Rightarrow> (string + json) \<times> 'w" where
  "tool_castellan_get E i w = api_get E (daemon_path i) w"

definition tool_castellan_labels_set ::
    "'w mcp_env \<Rightarrow> string \<Rightarrow> labels option \<Rightarrow> string list option \<Rightarrow> 'w \<Rightarrow> (string + json) \<times> 'w" where
  "tool_castellan_labels_set E i set_labels remove w =
     api_post E (daemon_path i @ ''/labels'')
       (JObj [(''set'', labels_json (unwrap_or [] set_labels)), (''remove'', JArr (map JStr (unwrap_or [] remove)))]) w"

definition tool_agent_list :: "'w mcp_env \<Rightarrow> string option \<Rightarrow> 'w \<Rightarrow> (string + json) \<times> 'w" where
  "tool_agent_list E state w =
     try_api (api_get E ''/api/v1/agents'' w) (\<lambda>v w. (Inr (status_filter state v), w))"

definition tool_agent_create :: "'w mcp_env \<Rightarrow> create_params \<Rightarrow> 'w \<Rightarrow> (string + json) \<times> 'w" where
  "tool_agent_create E p w =
     (case cr_manifest_toml p of
        Some t \<Rightarrow> api_post E ''/api/v1/agents'' (JObj [(''manifest_toml'', JStr t)]) w
      | None \<Rightarrow> create_from_structured E p w)"

definition tool_agent_get :: "'w mcp_env \<Rightarrow> string \<Rightarrow> 'w \<Rightarrow> (string + json) \<times> 'w" where
  "tool_agent_get E name w = api_get E (agent_path name) w"

definition tool_agent_delete :: "'w mcp_env \<Rightarrow> string \<Rightarrow> string \<Rightarrow> 'w \<Rightarrow> (string + json) \<times> 'w" where
  "tool_agent_delete E name confirm w =
     (if confirm \<noteq> name then
        (Inl (confirm_text ''agent name'' name confirm ''This permanently destroys the agent''), w)
      else api_post E (agent_path name @ ''/destroy'') (JObj []) w)"

definition tool_agent_logs :: "'w mcp_env \<Rightarrow> string \<Rightarrow> nat option \<Rightarrow> 'w \<Rightarrow> (string + json) \<times> 'w" where
  "tool_agent_logs E name tail w =
     api_get_query E (agent_path name @ ''/logs'') [(''tail'', show_nat (unwrap_or 50 tail))] w"

definition tool_session_events ::
    "'w mcp_env \<Rightarrow> string \<Rightarrow> nat option \<Rightarrow> string list option \<Rightarrow> 'w \<Rightarrow> (string + json) \<times> 'w" where
  "tool_session_events E name tail roles w =
     api_get_query E (agent_path name @ ''/session/history'')
       [(''tail'', case tail of None \<Rightarrow> [] | Some t \<Rightarrow> show_nat t),
        (''roles'', case roles of None \<Rightarrow> [] | Some rs \<Rightarrow> join '','' rs)] w"

definition tool_session_send :: "'w mcp_env \<Rightarrow> string \<Rightarrow> string \<Rightarrow> 'w \<Rightarrow> (string + json) \<times> 'w" where
  "tool_session_send E name message w =
     api_post E (agent_path name @ ''/prompt'') (JObj [(''message'', JStr message), (''mode'', JStr ''prompt'')]) w"

definition tool_session_abort :: "'w mcp_env \<Rightarrow> string \<Rightarrow> 'w \<Rightarrow> (string + json) \<times> 'w" where
  "tool_session_abort E name w =
     api_post E (agent_path name @ ''/prompt'') (JObj [(''message'', JStr ''abort''), (''mode'', JStr ''abort'')]) w"

fun tool_body :: "'w mcp_env \<Rightarrow> tool_call \<Rightarrow> 'w \<Rightarrow> (string + json) \<times> 'w" where
  "tool_body E (LlmProviders provider) = tool_llm_providers E provider"
| "tool_body E HarnessCatalogTool = tool_harness_catalog E"
| "tool_body E (PiPackagesSearch q kind page) = tool_pi_packages_search E q kind page"
| "tool_body E FleetOverview = tool_fleet_overview E"
| "tool_body E (AuditTail tail) = tool_audit_tail E tail"
| "tool_body E (CastellanAdd i) = tool_castellan_add E i"
| "tool_body E (CastellanGet i) = tool_castellan_get E i"
| "tool_body E (CastellanList include_pending) = castellan_list E include_pending"
| "tool_body E (CastellanRemove i confirm force) = castellan_remove E i confirm force"
| "tool_body E (CastellanLabelsSet i set_labels remove) = tool_castellan_labels_set E i set_labels remove"
| "tool_body E (AgentList state) = tool_agent_list E state"
| "tool_body E (AgentCreate p) = tool_agent_create E p"
| "tool_body E (AgentGet name) = tool_agent_get E name"
| "tool_body E (AgentDelete name confirm) = tool_agent_delete E name confirm"
| "tool_body E (AgentLogsTool name tail) = tool_agent_logs E name tail"
| "tool_body E (SessionEvents name tail roles) = tool_session_events E name tail roles"
| "tool_body E (SessionSend name message) = tool_session_send E name message"
| "tool_body E (SessionAbort name) = tool_session_abort E name"

lemmas tool_defs [simp] = tool_llm_providers_def tool_harness_catalog_def tool_pi_packages_search_def
  tool_fleet_overview_def tool_audit_tail_def tool_castellan_add_def tool_castellan_get_def
  tool_castellan_labels_set_def tool_agent_list_def tool_agent_create_def tool_agent_get_def
  tool_agent_delete_def tool_agent_logs_def tool_session_events_def tool_session_send_def tool_session_abort_def

lemmas tool_eqs = tool_body.simps [THEN fun_cong, unfolded tool_defs]

definition run_tool :: "'w mcp_env \<Rightarrow> tool_call \<Rightarrow> 'w \<Rightarrow> tool_result \<times> 'w" where
  "run_tool E c w = (case tool_body E c w of (r, w1) \<Rightarrow> (outcome E r, w1))"

end
