(* ===== verification/Create_Form.thy ===== *)
theory Create_Form
  imports Mcp_Server
begin

text \<open>
  The dialog of the desktop client that creates an agent (crates/suzy/src/create.rs): a form and an
  editable TOML text kept in step. A frame is \<open>show_create\<close>: the defaults that the catalogs give,
  then one input; inputs that the frame does not draw do nothing. The TOML printer and parser are
  parameters.
\<close>

section \<open>Form and manifest\<close>

record create_form =
  cf_name :: string
  cf_harness :: string
  cf_version :: string
  cf_provider :: string
  cf_model :: string
  cf_provider_filter :: string
  cf_model_filter :: string
  cf_thinking :: string
  cf_vcpu :: string
  cf_memory_mib :: string
  cf_disk_mib :: string
  cf_repos :: "(string \<times> string) list"
  cf_extensions :: "string list"
  cf_append_system :: string
  cf_secret_providers :: "string list"
  cf_require :: "(string \<times> string) list"
  cf_daemon_pin :: string
  cf_auto_suspend :: string
  cf_egress_allow :: string
  cf_otel_endpoint :: string
  cf_toml_text :: string
  cf_toml_edited :: bool
  cf_parse_error :: "string option"
  cf_submit_attempted :: bool

record form_env =
  fe_print :: "agent_manifest \<Rightarrow> string option"
  fe_parse :: "string \<Rightarrow> string + agent_manifest"

definition non_empty :: "string \<Rightarrow> string option" where
  "non_empty s = (let t = trim s in if t = [] then None else Some t)"

definition field_number :: "string \<Rightarrow> u64 \<Rightarrow> string \<Rightarrow> string + u64" where
  "field_number what d s =
     (let t = trim s
      in if t = [] then Inr d
         else case parse_u64 t of
                None \<Rightarrow> Inl (what @ '': '' @ quoted t @ '' is not a number'')
              | Some n \<Rightarrow> Inr n)"

definition form_repos :: "(string \<times> string) list \<Rightarrow> repo list" where
  "form_repos rows =
     map (\<lambda>(u, r). \<lparr>rp_url = trim u, rp_ref = if trim r = [] then ''main'' else trim r\<rparr>)
       (filter (\<lambda>(u, _). trim u \<noteq> []) rows)"

definition form_extensions :: "string list \<Rightarrow> extension list" where
  "form_extensions rows =
     map (\<lambda>s. \<lparr>x_source = Some (trim s), x_url = None, x_ref = None\<rparr>) (filter (\<lambda>s. trim s \<noteq> []) rows)"

definition form_require :: "(string \<times> string) list \<Rightarrow> labels" where
  "form_require rows = bt_extend [] (map (\<lambda>(k, v). (trim k, trim v)) (filter (\<lambda>(k, _). trim k \<noteq> []) rows))"

definition form_egress :: "string \<Rightarrow> string list" where
  "form_egress t = filter (\<lambda>s. s \<noteq> []) (map trim (split_on (\<lambda>c. c = CHR '','') t))"

definition to_manifest :: "create_form \<Rightarrow> string + agent_manifest" where
  "to_manifest f =
     (if trim (cf_name f) = [] then Inl ''name is required''
      else if cf_provider f = [] \<or> cf_model f = [] then Inl ''provider and model are required''
      else
        res_bind (field_number ''vcpu'' 2 (cf_vcpu f)) (\<lambda>vcpu.
        res_bind (field_number ''memory_mib'' 2048 (cf_memory_mib f)) (\<lambda>memory_mib.
        res_bind (field_number ''disk_mib'' 5120 (cf_disk_mib f)) (\<lambda>disk_mib.
        Inr \<lparr>m_name = trim (cf_name f), m_harness = \<lparr>h_kind = cf_harness f, h_version = cf_version f\<rparr>,
          m_model = \<lparr>ms_provider = cf_provider f, ms_id = cf_model f, ms_thinking = non_empty (cf_thinking f)\<rparr>,
          m_resources = \<lparr>r_vcpu = ucast vcpu, r_memory_mib = memory_mib, r_disk_mib = disk_mib, r_gpu = None\<rparr>,
          m_schedule = \<lparr>s_require = form_require (cf_require f), s_daemon = non_empty (cf_daemon_pin f)\<rparr>,
          m_tools = [], m_repos = form_repos (cf_repos f), m_extensions = form_extensions (cf_extensions f),
          m_append_system = non_empty (cf_append_system f),
          m_secrets = \<lparr>ss_providers = cf_secret_providers f, ss_extra = []\<rparr>,
          m_egress_allow = form_egress (cf_egress_allow f),
          m_otel = map_option (\<lambda>e. \<lparr>o_endpoint = e, o_headers = []\<rparr>) (non_empty (cf_otel_endpoint f)),
          m_auto_suspend = non_empty (cf_auto_suspend f), m_provision = None\<rparr>))))"

definition extension_text :: "extension \<Rightarrow> string option" where
  "extension_text e = (case x_source e of Some s \<Rightarrow> Some s | None \<Rightarrow> x_url e)"

definition load_manifest :: "agent_manifest \<Rightarrow> create_form \<Rightarrow> create_form" where
  "load_manifest m f =
     f\<lparr>cf_name := m_name m, cf_harness := h_kind (m_harness m), cf_version := h_version (m_harness m),
       cf_provider := ms_provider (m_model m), cf_model := ms_id (m_model m),
       cf_thinking := unwrap_or [] (ms_thinking (m_model m)),
       cf_vcpu := show_nat (unat (r_vcpu (m_resources m))),
       cf_memory_mib := show_nat (unat (r_memory_mib (m_resources m))),
       cf_disk_mib := show_nat (unat (r_disk_mib (m_resources m))),
       cf_repos := map (\<lambda>r. (rp_url r, rp_ref r)) (m_repos m),
       cf_extensions := List.map_filter extension_text (m_extensions m),
       cf_append_system := unwrap_or [] (m_append_system m),
       cf_secret_providers := ss_providers (m_secrets m),
       cf_require := s_require (m_schedule m),
       cf_daemon_pin := unwrap_or [] (s_daemon (m_schedule m)),
       cf_auto_suspend := unwrap_or [] (m_auto_suspend m),
       cf_egress_allow := join '', '' (m_egress_allow m),
       cf_otel_endpoint := (case m_otel m of None \<Rightarrow> [] | Some e \<Rightarrow> o_endpoint e),
       cf_toml_edited := False, cf_parse_error := None\<rparr>"

definition regenerate_toml :: "form_env \<Rightarrow> create_form \<Rightarrow> create_form" where
  "regenerate_toml E f =
     (if cf_toml_edited f then f
      else case to_manifest f of
             Inr m \<Rightarrow> f\<lparr>cf_toml_text := unwrap_or [] (fe_print E m), cf_parse_error := None\<rparr>
           | Inl e \<Rightarrow> f\<lparr>cf_parse_error := Some e\<rparr>)"

definition invalid_toml :: "string \<Rightarrow> string" where
  "invalid_toml e = ''invalid manifest TOML: '' @ e"

definition apply_toml :: "form_env \<Rightarrow> create_form \<Rightarrow> create_form" where
  "apply_toml E f =
     (case fe_parse E (cf_toml_text f) of
        Inr m \<Rightarrow> load_manifest m (f\<lparr>cf_submit_attempted := True\<rparr>)
      | Inl e \<Rightarrow> f\<lparr>cf_submit_attempted := True, cf_parse_error := Some (invalid_toml e)\<rparr>)"

definition default_form :: "form_env \<Rightarrow> create_form" where
  "default_form E = regenerate_toml E
     \<lparr>cf_name = ''my-agent'', cf_harness = ''pi'', cf_version = [], cf_provider = [], cf_model = [],
      cf_provider_filter = [], cf_model_filter = [], cf_thinking = [], cf_vcpu = ''2'',
      cf_memory_mib = ''2048'', cf_disk_mib = ''5120'', cf_repos = [], cf_extensions = [],
      cf_append_system = [], cf_secret_providers = [], cf_require = [], cf_daemon_pin = [],
      cf_auto_suspend = [], cf_egress_allow = [], cf_otel_endpoint = [], cf_toml_text = [],
      cf_toml_edited = False, cf_parse_error = None, cf_submit_attempted = False\<rparr>"

section \<open>What the catalogs offer\<close>

definition flag :: "string \<Rightarrow> json \<Rightarrow> bool" where
  "flag k j = unwrap_or False (as_bool (json_get k j))"

definition model_rows :: "json \<Rightarrow> (string \<times> string) list" where
  "model_rows entry =
     map (\<lambda>m. (unwrap_or [] (as_str (json_get ''id'' m)), unwrap_or [] (as_str (json_get ''name'' m))))
       (array_of (json_get ''models'' entry))"

definition usable_providers :: "json \<Rightarrow> (string \<times> (string \<times> string) list) list" where
  "usable_providers catalog =
     sort_key fst (map (\<lambda>(i, entry). (i, model_rows entry))
       (filter (\<lambda>(_, entry). flag ''key_configured'' entry \<and> flag ''key_injectable'' entry)
         (object_of (json_get ''providers'' catalog))))"

definition configured_providers :: "json \<Rightarrow> string list" where
  "configured_providers catalog =
     sort (map fst (filter (\<lambda>(_, entry). flag ''key_configured'' entry) (object_of (json_get ''providers'' catalog))))"

definition harness_versions :: "json \<Rightarrow> string \<Rightarrow> string list" where
  "harness_versions harnesses kind =
     texts_of id (array_of (json_get ''versions'' (json_get kind (json_get ''harnesses'' harnesses))))"

record create_ctx =
  cc_providers :: "json option"
  cc_harnesses :: "json option"
  cc_daemon_options :: "(string \<times> string) list"

definition ctx_usable :: "create_ctx \<Rightarrow> (string \<times> (string \<times> string) list) list" where
  "ctx_usable cx = (case cc_providers cx of None \<Rightarrow> [] | Some c \<Rightarrow> usable_providers c)"

definition ctx_configured :: "create_ctx \<Rightarrow> string list" where
  "ctx_configured cx = (case cc_providers cx of None \<Rightarrow> [] | Some c \<Rightarrow> configured_providers c)"

definition ctx_versions :: "create_ctx \<Rightarrow> create_form \<Rightarrow> string list" where
  "ctx_versions cx f = (case cc_harnesses cx of None \<Rightarrow> [] | Some h \<Rightarrow> harness_versions h (cf_harness f))"

definition models_of :: "create_ctx \<Rightarrow> create_form \<Rightarrow> (string \<times> string) list" where
  "models_of cx f = unwrap_or [] (map_of (ctx_usable cx) (cf_provider f))"

text \<open>Defaults, once the catalogs are known.\<close>

definition default_provider :: "create_ctx \<Rightarrow> create_form \<Rightarrow> create_form" where
  "default_provider cx f =
     (if cf_provider f = [] \<and> ctx_usable cx \<noteq> [] then f\<lparr>cf_provider := fst (hd (ctx_usable cx))\<rparr> else f)"

definition default_model :: "create_ctx \<Rightarrow> create_form \<Rightarrow> create_form" where
  "default_model cx f =
     (if cf_model f = [] \<and> models_of cx f \<noteq> [] then f\<lparr>cf_model := fst (hd (models_of cx f))\<rparr> else f)"

definition default_version :: "create_ctx \<Rightarrow> create_form \<Rightarrow> create_form" where
  "default_version cx f =
     (if cf_version f = [] \<and> ctx_versions cx f \<noteq> [] then f\<lparr>cf_version := hd (ctx_versions cx f)\<rparr> else f)"

definition defaults_due :: "create_ctx \<Rightarrow> create_form \<Rightarrow> bool" where
  "defaults_due cx f \<longleftrightarrow>
     cf_provider f = [] \<and> ctx_usable cx \<noteq> [] \<or>
     cf_model f = [] \<and> models_of cx (default_provider cx f) \<noteq> [] \<or>
     cf_version f = [] \<and> ctx_versions cx f \<noteq> []"

definition apply_defaults :: "form_env \<Rightarrow> create_ctx \<Rightarrow> create_form \<Rightarrow> create_form" where
  "apply_defaults E cx f =
     (let f1 = default_version cx (default_model cx (default_provider cx f))
      in if defaults_due cx f then regenerate_toml E f1 else f1)"

section \<open>Widgets\<close>

text \<open>The combo box with a search line: its label, the rows it draws, and its inputs.\<close>

definition combo_label :: "string \<Rightarrow> string \<Rightarrow> string" where
  "combo_label i name = (if name = [] then i else i @ dash_sep @ name)"

definition combo_text :: "string \<Rightarrow> string \<Rightarrow> (string \<times> string) list \<Rightarrow> string" where
  "combo_text selected placeholder items =
     (if selected = [] then placeholder
      else case map_of items selected of None \<Rightarrow> selected | Some name \<Rightarrow> combo_label selected name)"

definition combo_matches :: "string \<Rightarrow> (string \<times> string) list \<Rightarrow> (string \<times> string) list" where
  "combo_matches text_filter items =
     (let q = to_lowercase (trim text_filter)
      in filter (\<lambda>(i, name). q = [] \<or> contains_str (to_lowercase i) q \<or> contains_str (to_lowercase name) q) items)"

datatype combo_input = OpenCombo | TypeFilter string | Choose string

text \<open>Selection, search line, and whether the selection was made.\<close>

fun searchable_combo ::
    "(string \<times> string) list \<Rightarrow> combo_input \<Rightarrow> string \<Rightarrow> string \<Rightarrow> string \<times> string \<times> bool" where
  "searchable_combo items OpenCombo selected flt = (selected, [], False)"
| "searchable_combo items (TypeFilter t) selected flt = (selected, t, False)"
| "searchable_combo items (Choose i) selected flt =
     (if i \<in> fst ` set (combo_matches flt items) then (i, [], True) else (selected, flt, False))"

datatype 'a rows_edit = EditRow nat 'a | RemoveRow nat | AddRow

text \<open>The editor of repeatable rows; \<open>None\<close> is an input to a row that is not there.\<close>

fun edit_rows :: "'a \<Rightarrow> 'a rows_edit \<Rightarrow> 'a list \<Rightarrow> 'a list option" where
  "edit_rows blank (EditRow i x) rows = (if i < length rows then Some (rows[i := x]) else None)"
| "edit_rows blank (RemoveRow i) rows = (if i < length rows then Some (take i rows @ drop (Suc i) rows) else None)"
| "edit_rows blank AddRow rows = Some (rows @ [blank])"

definition rows_editor :: "(string \<times> string) rows_edit \<Rightarrow> (string \<times> string) list \<Rightarrow> (string \<times> string) list option" where
  "rows_editor = edit_rows ([], [])"

definition list_editor :: "string rows_edit \<Rightarrow> string list \<Rightarrow> string list option" where
  "list_editor = edit_rows []"

section \<open>The dialog\<close>

text \<open>The rows below the resources, and the whole left column.\<close>

datatype section_input =
  FormRepos "(string \<times> string) rows_edit"
| FormExtensions "string rows_edit"
| FormSecret string
| FormAppend string
| FormRequire "(string \<times> string) rows_edit"
| FormPin string
| FormAutoSuspend string
| FormEgress string
| FormOtel string

datatype form_input =
  FormName string
| FormHarness string
| FormVersion string
| FormProvider combo_input
| FormModel combo_input
| FormThinking string
| FormVcpu string
| FormMemory string
| FormDisk string
| FormSection section_input

definition thinking_levels :: "string list" where
  "thinking_levels = [[], ''off'', ''minimal'', ''low'', ''medium'', ''high'', ''xhigh'']"

definition toggle :: "string \<Rightarrow> string list \<Rightarrow> string list" where
  "toggle p ps = (if p \<in> set ps then filter (\<lambda>x. x \<noteq> p) ps else ps @ [p])"

text \<open>The form after an input, and whether it changed.\<close>

fun section_edit :: "create_ctx \<Rightarrow> section_input \<Rightarrow> create_form \<Rightarrow> create_form \<times> bool" where
  "section_edit cx (FormRepos e) f =
     (case rows_editor e (cf_repos f) of None \<Rightarrow> (f, False) | Some rows \<Rightarrow> (f\<lparr>cf_repos := rows\<rparr>, True))"
| "section_edit cx (FormExtensions e) f =
     (case list_editor e (cf_extensions f) of None \<Rightarrow> (f, False) | Some rows \<Rightarrow> (f\<lparr>cf_extensions := rows\<rparr>, True))"
| "section_edit cx (FormSecret p) f =
     (if p \<in> set (ctx_configured cx)
      then (f\<lparr>cf_secret_providers := toggle p (cf_secret_providers f)\<rparr>, True) else (f, False))"
| "section_edit cx (FormAppend t) f = (f\<lparr>cf_append_system := t\<rparr>, True)"
| "section_edit cx (FormRequire e) f =
     (case rows_editor e (cf_require f) of None \<Rightarrow> (f, False) | Some rows \<Rightarrow> (f\<lparr>cf_require := rows\<rparr>, True))"
| "section_edit cx (FormPin pin) f =
     (if (pin = [] \<or> pin \<in> snd ` set (cc_daemon_options cx)) \<and> pin \<noteq> cf_daemon_pin f
      then (f\<lparr>cf_daemon_pin := pin\<rparr>, True) else (f, False))"
| "section_edit cx (FormAutoSuspend t) f = (f\<lparr>cf_auto_suspend := t\<rparr>, True)"
| "section_edit cx (FormEgress t) f = (f\<lparr>cf_egress_allow := t\<rparr>, True)"
| "section_edit cx (FormOtel t) f = (f\<lparr>cf_otel_endpoint := t\<rparr>, True)"

fun form_edit :: "create_ctx \<Rightarrow> form_input \<Rightarrow> create_form \<Rightarrow> create_form \<times> bool" where
  "form_edit cx (FormName t) f = (f\<lparr>cf_name := t\<rparr>, True)"
| "form_edit cx (FormHarness kind) f =
     (if (\<exists>h. cc_harnesses cx = Some h \<and> kind \<in> fst ` set (object_of (json_get ''harnesses'' h))) \<and> kind \<noteq> cf_harness f
      then (f\<lparr>cf_harness := kind\<rparr>, True) else (f, False))"
| "form_edit cx (FormVersion v) f =
     (if ctx_versions cx f = [] \<or> v \<in> set (ctx_versions cx f) \<and> v \<noteq> cf_version f
      then (f\<lparr>cf_version := v\<rparr>, True) else (f, False))"
| "form_edit cx (FormProvider c) f =
     (case searchable_combo (map (\<lambda>(i, _). (i, [])) (ctx_usable cx)) c (cf_provider f) (cf_provider_filter f) of
        (i, flt, chosen) \<Rightarrow>
          if chosen then (f\<lparr>cf_provider := i, cf_provider_filter := flt, cf_model := []\<rparr>, True)
          else (f\<lparr>cf_provider := i, cf_provider_filter := flt\<rparr>, False))"
| "form_edit cx (FormModel c) f =
     (case searchable_combo (models_of cx f) c (cf_model f) (cf_model_filter f) of
        (i, flt, chosen) \<Rightarrow> (f\<lparr>cf_model := i, cf_model_filter := flt\<rparr>, chosen))"
| "form_edit cx (FormThinking level) f =
     (if level \<in> set thinking_levels \<and> level \<noteq> cf_thinking f then (f\<lparr>cf_thinking := level\<rparr>, True) else (f, False))"
| "form_edit cx (FormVcpu t) f = (f\<lparr>cf_vcpu := t\<rparr>, True)"
| "form_edit cx (FormMemory t) f = (f\<lparr>cf_memory_mib := t\<rparr>, True)"
| "form_edit cx (FormDisk t) f = (f\<lparr>cf_disk_mib := t\<rparr>, True)"
| "form_edit cx (FormSection e) f = section_edit cx e f"

definition left_column :: "form_env \<Rightarrow> create_ctx \<Rightarrow> form_input \<Rightarrow> create_form \<Rightarrow> create_form" where
  "left_column E cx i f = (case form_edit cx i f of (f1, changed) \<Rightarrow> if changed then regenerate_toml E f1 else f1)"

datatype toml_input = EditToml string | ApplyToml | RegenerateToml | PressCreate

definition press_create :: "form_env \<Rightarrow> create_form \<Rightarrow> create_form \<times> string option" where
  "press_create E f =
     (case fe_parse E (cf_toml_text f) of
        Inr _ \<Rightarrow> (f\<lparr>cf_submit_attempted := True\<rparr>, Some (cf_toml_text f))
      | Inl e \<Rightarrow> (f\<lparr>cf_submit_attempted := True, cf_parse_error := Some (invalid_toml e)\<rparr>, None))"

fun right_column :: "form_env \<Rightarrow> toml_input \<Rightarrow> create_form \<Rightarrow> create_form \<times> string option" where
  "right_column E (EditToml t) f = (f\<lparr>cf_toml_text := t, cf_toml_edited := True\<rparr>, None)"
| "right_column E ApplyToml f = (apply_toml E f, None)"
| "right_column E RegenerateToml f =
     (if cf_toml_edited f then regenerate_toml E (f\<lparr>cf_toml_edited := False\<rparr>) else f, None)"
| "right_column E PressCreate f = press_create E f"

datatype dialog_input = LeftInput form_input | RightInput toml_input | NoInput

definition show_create ::
    "form_env \<Rightarrow> create_ctx \<Rightarrow> dialog_input \<Rightarrow> create_form \<Rightarrow> create_form \<times> string option" where
  "show_create E cx i f =
     (let f1 = apply_defaults E cx f
      in case i of
           LeftInput e \<Rightarrow> (left_column E cx e f1, None)
         | RightInput e \<Rightarrow> right_column E e f1
         | NoInput \<Rightarrow> (f1, None))"

text \<open>The message that is drawn.\<close>

definition shown_error :: "create_form \<Rightarrow> string option" where
  "shown_error f = (if cf_submit_attempted f then cf_parse_error f else None)"

end
