(* ===== verification/Mcp_Theorems.thy ===== *)
theory Mcp_Theorems
  imports Mcp_Server
begin

text \<open>
  What the MCP server lets an assistant do: every request of every tool, whatever the control plane
  answers, is one the tool may make, and a create that passes the server's check passes the control
  plane's. Names are plain (\<open>plain_name\<close>): the last section shows what others do.
\<close>

section \<open>Queries\<close>

lemma join_chars: "c \<in> set (join sep xs) \<Longrightarrow> c \<in> set sep \<or> (\<exists>x \<in> set xs. c \<in> set x)"
  by (induction sep xs rule: join.induct) auto

lemma split_on_join:
  assumes "xs \<noteq> []" "\<forall>x \<in> set xs. d \<notin> set x"
  shows "split_on (\<lambda>c. c = d) (join [d] xs) = xs"
  using assms by (induction "[d]" xs rule: join.induct) (simp_all add: split_on_avoiding)

lemma encoded_pair:
  assumes "inert k"
  shows "CHR ''&'' \<notin> set (k @ ''='' @ urlencoding_simple (map of_char v))"
    "CHR ''#'' \<notin> set (k @ ''='' @ urlencoding_simple (map of_char v))"
    "split_once CHR ''='' (k @ ''='' @ urlencoding_simple (map of_char v)) = Some (k, urlencoding_simple (map of_char v))"
proof -
  have avoid: "c \<notin> set (urlencoding_simple (map of_char v))" if "\<not> url_unreserved (of_char c)" "c \<noteq> CHR 0x25" for c
    using urlencoding_chars that by blast
  show "CHR ''&'' \<notin> set (k @ ''='' @ urlencoding_simple (map of_char v))"
    "CHR ''#'' \<notin> set (k @ ''='' @ urlencoding_simple (map of_char v))"
    using inert_avoids [OF assms reserved_chars(6)] inert_avoids [OF assms reserved_chars(3)]
      avoid [OF reserved_chars(6)] avoid [OF reserved_chars(3)] by auto
  show "split_once CHR ''='' (k @ ''='' @ urlencoding_simple (map of_char v)) = Some (k, urlencoding_simple (map of_char v))"
    using inert_avoids [OF assms reserved_chars(7)] by (simp add: split_once_Some)
qed

text \<open>A query that was written pair by pair is read back, less the empty values.\<close>

lemma via_with_query:
  assumes "path = path_of segs" "list_all inert segs" "segs \<noteq> []" "method \<noteq> ''HEAD''" "\<forall>(k, v) \<in> set kvs. inert k"
    and r: "\<And>q. query_pairs q = filter (\<lambda>(_, v). v \<noteq> []) kvs \<Longrightarrow> route_at method segs q body = r"
  shows "route_request method (with_query path (map (map_prod id (map of_char)) kvs)) body = r"
proof -
  let ?kvs = "filter (\<lambda>(_, v). v \<noteq> []) kvs"
  let ?pair = "\<lambda>(k, v). k @ ''='' @ urlencoding_simple (map of_char v)"
  have w: "with_query path (map (map_prod id (map of_char)) kvs) =
      (if ?kvs = [] then path else path @ ''?'' @ join ''&'' (map ?pair ?kvs))"
    by (simp add: with_query_def filter_map comp_def case_prod_unfold map_prod_def Let_def)
  show ?thesis
  proof (cases "?kvs = []")
    case True
    then have "query_pairs [] = ?kvs" by (simp add: query_pairs_def)
    then show ?thesis using via_path [OF assms(1-4) r] True w by simp
  next
    case False
    let ?q = "join ''&'' (map ?pair ?kvs)"
    have inert: "inert k" if "(k, v) \<in> set ?kvs" for k v using that assms(5) by auto
    have parts: "split_on (\<lambda>c. c = CHR ''&'') ?q = map ?pair ?kvs"
      using False inert encoded_pair(1) by (intro split_on_join) auto
    have kept: "filter (\<lambda>p. p \<noteq> []) (map ?pair ?kvs) = map ?pair ?kvs" by (auto simp: filter_id_conv)
    have one: "split_once CHR ''='' (?pair p) = Some (fst p, urlencoding_simple (map of_char (snd p)))"
      if "p \<in> set ?kvs" for p
      using encoded_pair(3) inert that by (cases p) simp
    have "query_pairs ?q = ?kvs"
      unfolding query_pairs_def parts kept map_map comp_def
      using one inert by (intro map_idI) (auto simp: decode_inert encoded_query(3) simp del: append.simps)
    then have q: "route_at method segs ?q body = r" by (rule r)
    have hash: "CHR ''#'' \<notin> set ?q"
    proof
      assume "CHR ''#'' \<in> set ?q"
      then show False using join_chars [of "CHR ''#''" "''&''"] inert encoded_pair(2) by force
    qed
    have "route_request method (path_of segs @ CHR ''?'' # ?q) body = r"
      by (rule via_query [OF HOL.refl hash assms(2-4) q])
    then show ?thesis using w False by (simp add: assms(1))
  qed
qed

section \<open>The requests of a tool\<close>

text \<open>Requests that read the fleet, and no secret.\<close>

fun reads_fleet :: "target \<Rightarrow> bool" where
  "reads_fleet (Api req) =
     (case req of
        RqEndpoint \<Rightarrow> True | RqOverview \<Rightarrow> True | RqDaemons \<Rightarrow> True | RqDaemon _ \<Rightarrow> True | RqPending \<Rightarrow> True
      | RqAgents \<Rightarrow> True | RqAgent _ \<Rightarrow> True | RqAgentLogs _ _ _ _ \<Rightarrow> True | RqSessionHistory _ _ _ \<Rightarrow> True
      | RqProviders \<Rightarrow> True | RqAudit _ _ \<Rightarrow> True | _ \<Rightarrow> False)"
| "reads_fleet HarnessCatalog = True"
| "reads_fleet (PiPackages _ _ _ _) = True"
| "reads_fleet _ = False"

lemma reads_change_nothing:
  "reads_fleet (Api req) \<Longrightarrow> snd (serve E i req s) = (s, s)"
  by (cases req) (simp_all add: serve_def at_once_def)

text \<open>What a tool may ask for beyond that, with the confirmation a destructive tool needs.\<close>

fun may_ask :: "tool_call \<Rightarrow> target \<Rightarrow> bool" where
  "may_ask (CastellanAdd (Some i)) t = (t = Api (RqDaemonApprove i))"
| "may_ask (CastellanRemove i confirm force) t =
     (reads_fleet t \<or> t = Api (RqDaemonRemove confirm (Some (unwrap_or False force))))"
| "may_ask (CastellanLabelsSet i set_labels remove) t =
     (t = Api (RqDaemonLabels i (Some (unwrap_or [] set_labels)) (Some (unwrap_or [] remove))))"
| "may_ask (AgentCreate p) t = (reads_fleet t \<or> (\<exists>toml m. t = Api (RqAgentCreate toml m None None)))"
| "may_ask (AgentDelete name confirm) t = (confirm = name \<and> t = Api (RqAgentAction name ''destroy'' None))"
| "may_ask (SessionSend name message) t = (\<exists>body. t = SessionPrompt name body)"
| "may_ask (SessionAbort name) t = (\<exists>body. t = SessionPrompt name body)"
| "may_ask _ t = reads_fleet t"

fun tool_plain :: "tool_call \<Rightarrow> bool" where
  "tool_plain (PiPackagesSearch q kind page) = (unwrap_or 1 page < 2 ^ 64)"
| "tool_plain (AuditTail tail) = (unwrap_or 50 tail < 2 ^ 64)"
| "tool_plain (CastellanGet i) = (plain_name i \<and> i \<noteq> ''approve'' \<and> i \<noteq> ''pending'')"
| "tool_plain (CastellanRemove i confirm force) = (plain_name confirm \<and> confirm \<noteq> ''approve'' \<and> confirm \<noteq> ''pending'')"
| "tool_plain (CastellanLabelsSet i set_labels remove) = (plain_name i \<and> bt_sorted (unwrap_or [] set_labels))"
| "tool_plain (AgentGet name) = plain_name name"
| "tool_plain (AgentDelete name confirm) = plain_name name"
| "tool_plain (AgentLogsTool name tail) = (plain_name name \<and> unwrap_or 50 tail < 2 ^ 64)"
| "tool_plain (SessionEvents name tail roles) = (plain_name name \<and> unwrap_or 0 tail < 2 ^ 64)"
| "tool_plain (SessionSend name message) = plain_name name"
| "tool_plain (SessionAbort name) = plain_name name"
| "tool_plain _ = True"

text \<open>\<open>asked\<close> is the list of requests that the client's transport was given.\<close>

definition records :: "'w mcp_env \<Rightarrow> ('w \<Rightarrow> (string \<times> string \<times> json option) list) \<Rightarrow> bool" where
  "records E asked \<longleftrightarrow>
     (\<forall>m p b w out w'. mc_rest E m p b w = (out, w') \<longrightarrow> asked w' = asked w @ [(m, p, b)])"

definition asks_only ::
    "('w \<Rightarrow> (string \<times> string \<times> json option) list) \<Rightarrow> (string \<times> string \<times> json option \<Rightarrow> bool) \<Rightarrow>
      ('w \<Rightarrow> 'a \<times> 'w) \<Rightarrow> bool" where
  "asks_only asked P f \<longleftrightarrow> (\<forall>w r w'. f w = (r, w') \<longrightarrow> (\<exists>reqs. asked w' = asked w @ reqs \<and> list_all P reqs))"

named_theorems asking \<open>what a computation asks for\<close>

lemma asks_return [asking]: "asks_only asked P (\<lambda>w. (x, w))"
  by (auto simp: asks_only_def)

lemma asks_raw:
  assumes "records E asked" "P (m, p, b)"
  shows "asks_only asked P (api_raw E m p b)"
  unfolding asks_only_def
proof (intro allI impI)
  fix w r w'
  assume r: "api_raw E m p b w = (r, w')"
  obtain out w1 where w1: "mc_rest E m p b w = (out, w1)" by fastforce
  then have "w' = w1" using r by (auto simp: api_raw_def split: sum.splits client_error.splits)
  moreover have "asked w1 = asked w @ [(m, p, b)]" using assms(1) w1 by (simp add: records_def)
  ultimately show "\<exists>reqs. asked w' = asked w @ reqs \<and> list_all P reqs"
    using assms(2) by (intro exI [of _ "[(m, p, b)]"]) simp
qed

lemma asks_seq:
  assumes "asks_only asked P f" "\<And>a. asks_only asked P (g a)"
  shows "asks_only asked P (\<lambda>w. case f w of (a, w1) \<Rightarrow> g a w1)"
  unfolding asks_only_def
proof (intro allI impI)
  fix w r w'
  assume r: "(case f w of (a, w1) \<Rightarrow> g a w1) = (r, w')"
  obtain a w1 where w1: "f w = (a, w1)" by fastforce
  then obtain xs where xs: "asked w1 = asked w @ xs" "list_all P xs"
    using assms(1) unfolding asks_only_def by blast
  have "g a w1 = (r, w')" using r w1 by simp
  then obtain ys where "asked w' = asked w1 @ ys" "list_all P ys"
    using assms(2) [of a] unfolding asks_only_def by blast
  then show "\<exists>reqs. asked w' = asked w @ reqs \<and> list_all P reqs"
    using xs by (intro exI [of _ "xs @ ys"]) simp
qed

lemma asks_try:
  assumes "asks_only asked P f" "\<And>a. asks_only asked P (g a)"
  shows "asks_only asked P (\<lambda>w. try_api (f w) g)"
proof -
  define h where "h r w1 = (case r of Inl e \<Rightarrow> (Inl e, w1) | Inr a \<Rightarrow> g a w1)" for r :: "string + 'b" and w1
  have "(\<lambda>w. try_api (f w) g) = (\<lambda>w. case f w of (r, w1) \<Rightarrow> h r w1)"
    by (auto simp: try_api_def h_def fun_eq_iff split: prod.split sum.split)
  moreover have "asks_only asked P (h r)" for r
    using assms(2) asks_return unfolding h_def by (cases r) simp_all
  ultimately show ?thesis using asks_seq [OF assms(1), of h] by simp
qed

lemma asks_weaken: "asks_only asked P f \<Longrightarrow> (\<And>q. P q \<Longrightarrow> Q q) \<Longrightarrow> asks_only asked Q f"
  unfolding asks_only_def by (metis (mono_tags, lifting) list.pred_mono_strong)

section \<open>Bounds\<close>

definition in_bounds :: "tool_call \<Rightarrow> string \<times> string \<times> json option \<Rightarrow> bool" where
  "in_bounds c = (\<lambda>(m, p, b). \<exists>t. route_request m p b = Inr t \<and> may_ask c t)"

lemma in_bounds_at: "route_request m p b = Inr t \<Longrightarrow> may_ask c t \<Longrightarrow> in_bounds c (m, p, b)"
  by (auto simp: in_bounds_def)

text \<open>The catalogs that a create looks at.\<close>

lemma fixed_reads:
  "route_request ''GET'' ''/api/v1/providers'' None = Inr (Api RqProviders)"
  "route_request ''GET'' ''/api/v1/harnesses'' None = Inr HarnessCatalog"
  "route_request ''GET'' ''/api/v1/daemons'' None = Inr (Api RqDaemons)"
  "route_request ''GET'' ''/api/v1/daemons/pending'' None = Inr (Api RqPending)"
  "route_request ''GET'' ''/api/v1/endpoint'' None = Inr (Api RqEndpoint)"
  "route_request ''GET'' ''/api/v1/overview'' None = Inr (Api RqOverview)"
  "route_request ''GET'' ''/api/v1/agents'' None = Inr (Api RqAgents)"
  using catalog_call_arrives [of CProviders] catalog_call_arrives [of CHarnesses] fleet_call_arrives [of CDaemons]
    fleet_call_arrives [of CPendingDaemons] fleet_call_arrives [of CEndpoint] fleet_call_arrives [of COverview]
    agent_call_arrives [of CAgents]
  by simp_all

lemma asks_get:
  assumes "records E asked" "route_request ''GET'' p None = Inr t" "may_ask c t"
  shows "asks_only asked (in_bounds c) (api_get E p)"
  unfolding api_get_def using assms by (intro asks_raw in_bounds_at)

lemma asks_post:
  assumes "records E asked" "route_request ''POST'' p (Some b) = Inr t" "may_ask c t"
  shows "asks_only asked (in_bounds c) (api_post E p b)"
  unfolding api_post_def using assms by (intro asks_raw in_bounds_at)

lemma create_body:
  "route_request ''POST'' ''/api/v1/agents'' (Some (JObj [(''manifest'', v)])) =
     Inr (Api (RqAgentCreate None (if v = JNull then None else Some v) None None))"
  "route_request ''POST'' ''/api/v1/agents'' (Some (JObj [(''manifest_toml'', JStr t)])) =
     Inr (Api (RqAgentCreate (Some t) None None None))"
proof -
  show "route_request ''POST'' ''/api/v1/agents'' (Some (JObj [(''manifest'', v)])) =
     Inr (Api (RqAgentCreate None (if v = JNull then None else Some v) None None))"
    by (auto intro!: via_path [of _ "[''api'', ''v1'', ''agents'']"] simp: paths_eval h_create_def bodies_eval)
  show "route_request ''POST'' ''/api/v1/agents'' (Some (JObj [(''manifest_toml'', JStr t)])) =
     Inr (Api (RqAgentCreate (Some t) None None None))"
    using agent_call_arrives [of "CCreate t"] by simp
qed

lemma asks_create:
  assumes "records E asked"
  shows "asks_only asked (in_bounds (AgentCreate p)) (create_from_structured E p)"
proof -
  have gets: "asks_only asked (in_bounds (AgentCreate p)) (api_get E path)"
    if "path \<in> {''/api/v1/providers'', ''/api/v1/harnesses'', ''/api/v1/daemons''}" for path
    using that fixed_reads asks_get [OF assms, of path _ "AgentCreate p"] by auto
  have post: "asks_only asked (in_bounds (AgentCreate p)) (api_post E ''/api/v1/agents'' (JObj [(''manifest'', v)]))" for v
    using create_body(1) [of v] by (intro asks_post [OF assms]) auto
  show ?thesis
    unfolding create_from_structured_def [abs_def] Let_def
    by (intro asks_try asks_return gets post) auto
qed

lemma asks_query:
  assumes "records E asked" "route_request ''GET'' (with_query path (map (map_prod id (map of_char)) kvs)) None = Inr t"
    "may_ask c t"
  shows "asks_only asked (in_bounds c) (api_get_query E path kvs)"
  unfolding api_get_query_def using assms by (intro asks_raw in_bounds_at)

lemmas query_eval = query_field_def read_usize_show_nat read_bool_def unwrap_or_def

text \<open>Each tool's own request.\<close>

lemma packages_request:
  assumes "n < 2 ^ 64"
  shows "route_request ''GET'' (with_query ''/api/v1/pi-packages'' (map (map_prod id (map of_char))
      [(''q'', q), (''type'', kind), (''page'', show_nat n)])) None =
    Inr (PiPackages (none_if_empty q) (none_if_empty kind) n 50)"
  using assms
  by (intro via_with_query [of _ "[''api'', ''v1'', ''pi-packages'']"])
    (auto simp: paths_eval h_pi_packages_def query_eval none_if_empty_def)

lemma tail_request:
  assumes "n < 2 ^ 64"
  shows "route_request ''GET'' (with_query ''/api/v1/audit'' (map (map_prod id (map of_char)) [(''tail'', show_nat n)])) None =
      Inr (Api (RqAudit (Some n) None))"
    and "plain_name name \<Longrightarrow> route_request ''GET'' (with_query (agent_path name @ ''/logs'')
      (map (map_prod id (map of_char)) [(''tail'', show_nat n)])) None = Inr (Api (RqAgentLogs name (Some n) None None))"
proof -
  show "route_request ''GET'' (with_query ''/api/v1/audit'' (map (map_prod id (map of_char)) [(''tail'', show_nat n)])) None =
      Inr (Api (RqAudit (Some n) None))"
    using assms by (intro via_with_query [of _ "[''api'', ''v1'', ''audit'']"]) (auto simp: paths_eval h_audit_def query_eval)
  assume "plain_name name"
  then show "route_request ''GET'' (with_query (agent_path name @ ''/logs'')
      (map (map_prod id (map of_char)) [(''tail'', show_nat n)])) None = Inr (Api (RqAgentLogs name (Some n) None None))"
    using assms by (intro via_with_query [of _ "[''api'', ''v1'', ''agents'', name, ''logs'']"])
      (auto simp: paths_eval h_logs_def query_eval)
qed

lemma history_request:
  assumes "plain_name name" "pred_option (\<lambda>n. n < 2 ^ 64) tail"
  shows "route_request ''GET'' (with_query (agent_path name @ ''/session/history'') (map (map_prod id (map of_char))
      [(''tail'', case tail of None \<Rightarrow> [] | Some t \<Rightarrow> show_nat t), (''roles'', roles)])) None =
    Inr (Api (RqSessionHistory name (none_if_empty roles) tail))"
  using assms
  by (intro via_with_query [of _ "[''api'', ''v1'', ''agents'', name, ''session'', ''history'']"])
    (cases tail; auto simp: paths_eval h_history_def query_eval none_if_empty_def)+

lemma remove_request:
  assumes "plain_name i" "i \<noteq> ''approve''" "i \<noteq> ''pending''"
  shows "route_request ''DELETE'' (with_query (daemon_path i) (map (map_prod id (map of_char))
      [(''force'', if force then ''true'' else ''false'')])) None = Inr (Api (RqDaemonRemove i (Some force)))"
  using assms
  by (intro via_with_query [of _ "[''api'', ''v1'', ''daemons'', i]"])
    (cases force; auto simp: paths_eval h_daemon_remove_def query_eval)+

lemma named_requests:
  assumes "plain_name i"
  shows "i \<noteq> ''approve'' \<Longrightarrow> i \<noteq> ''pending'' \<Longrightarrow> route_request ''GET'' (daemon_path i) None = Inr (Api (RqDaemon i))"
    and "route_request ''POST'' (agent_path i @ ''/destroy'') (Some (JObj [])) = Inr (Api (RqAgentAction i ''destroy'' None))"
    and "route_request ''POST'' (agent_path i @ ''/prompt'') (Some v) = Inr (SessionPrompt i v)"
    and "route_request ''GET'' (agent_path i) None = Inr (Api (RqAgent i))"
proof -
  show "i \<noteq> ''approve'' \<Longrightarrow> i \<noteq> ''pending'' \<Longrightarrow> route_request ''GET'' (daemon_path i) None = Inr (Api (RqDaemon i))"
    using assms by (intro via_path [of _ "[''api'', ''v1'', ''daemons'', i]"]) (auto simp: paths_eval)
  show "route_request ''POST'' (agent_path i @ ''/destroy'') (Some (JObj [])) = Inr (Api (RqAgentAction i ''destroy'' None))"
    using assms by (intro via_path [of _ "[''api'', ''v1'', ''agents'', i, ''destroy'']"])
      (auto simp: paths_eval h_action_def bodies_eval)
  show "route_request ''POST'' (agent_path i @ ''/prompt'') (Some v) = Inr (SessionPrompt i v)"
    using assms by (intro via_path [of _ "[''api'', ''v1'', ''agents'', i, ''prompt'']"])
      (auto simp: paths_eval h_prompt_def)
  show "route_request ''GET'' (agent_path i) None = Inr (Api (RqAgent i))"
    using agent_call_arrives [of "CAgent i"] assms by simp
qed

lemma asks_remove:
  assumes "records E asked" "tool_plain (CastellanRemove i confirm force)"
  shows "asks_only asked (in_bounds (CastellanRemove i confirm force)) (castellan_remove E i confirm force)"
proof -
  let ?c = "CastellanRemove i confirm force"
  have del: "asks_only asked (in_bounds ?c) (api_delete E (daemon_path confirm)
      [(''force'', if unwrap_or False force then ''true'' else ''false'')])"
    unfolding api_delete_def using assms(2) remove_request [of confirm "unwrap_or False force"]
    by (intro asks_raw [OF assms(1)] in_bounds_at [of _ _ _ "Api (RqDaemonRemove confirm (Some (unwrap_or False force)))"])
      auto
  have "asks_only asked (in_bounds ?c) (\<lambda>w. case find_daemon i v of
       None \<Rightarrow> (Inl (''no daemon matching '' @ quoted i @ dash_sep @ ''see castellan_list''), w)
     | Some full_id \<Rightarrow>
         if confirm \<noteq> full_id then
           (Inl (confirm_text (''daemon'' @ [CHR 0x27] @ ''s full EndpointId'') full_id confirm
              ''This is a destructive operation''), w)
         else api_delete E (daemon_path full_id) [(''force'', if unwrap_or False force then ''true'' else ''false'')] w)" for v
  proof (cases "find_daemon i v")
    case (Some full_id)
    then show ?thesis using del by (cases "confirm = full_id") (simp_all add: asks_return)
  qed (simp add: asks_return)
  then show ?thesis
    unfolding castellan_remove_def [abs_def]
    using fixed_reads by (intro asks_try asks_get [OF assms(1), of _ "Api RqDaemons"]) auto
qed

lemma asks_list:
  assumes "records E asked"
  shows "asks_only asked (in_bounds (CastellanList include_pending)) (castellan_list E include_pending)"
proof -
  let ?P = "in_bounds (CastellanList include_pending)"
  have gets: "asks_only asked ?P (api_get E ''/api/v1/daemons'')" "asks_only asked ?P (api_get E ''/api/v1/daemons/pending'')"
    using asks_get [OF assms fixed_reads(3)] asks_get [OF assms fixed_reads(4)] by auto
  have "asks_only asked ?P (\<lambda>w1. if unwrap_or True include_pending then
            (case api_get E ''/api/v1/daemons/pending'' w1 of
               (pend, w2) \<Rightarrow>
                 ((case (daemons, pend) of
                     (Inr d, Inr p) \<Rightarrow> Inr (set_field ''pending'' (json_get ''pending'' p) d)
                   | _ \<Rightarrow> daemons), w2))
          else (daemons, w1))" for daemons
    by (cases "unwrap_or True include_pending")
      (simp_all add: asks_return asks_seq [OF gets(2) asks_return])
  then show ?thesis
    unfolding castellan_list_def [abs_def] by (intro asks_seq [OF gets(1)])
qed

lemma asks_ext: "(\<And>w. f w = g w) \<Longrightarrow> asks_only asked P g \<Longrightarrow> asks_only asked P f"
  by (simp add: asks_only_def)

lemma tool_asks:
  assumes "records E asked" "tool_plain c"
  shows "asks_only asked (in_bounds c) (tool_body E c)"
proof (cases c)
  case (LlmProviders provider)
  have "asks_only asked (in_bounds c) (\<lambda>w. try_api (api_get E ''/api/v1/providers'' w) (\<lambda>v w. (pick_provider provider v, w)))"
    using LlmProviders by (intro asks_try asks_return asks_get [OF assms(1) fixed_reads(1)]) simp
  then show ?thesis unfolding LlmProviders by (rule asks_ext [rotated]) simp
next
  case HarnessCatalogTool
  then show ?thesis by (intro asks_ext [OF _ asks_get [OF assms(1) fixed_reads(2)]]) simp_all
next
  case (PiPackagesSearch q kind page)
  show ?thesis unfolding PiPackagesSearch
    using packages_request assms(2) [unfolded PiPackagesSearch]
    by (intro asks_ext [OF tool_eqs(3)] asks_query [OF assms(1)]) auto
next
  case FleetOverview
  then show ?thesis by (intro asks_ext [OF _ asks_get [OF assms(1) fixed_reads(6)]]) simp_all
next
  case (AuditTail tail)
  show ?thesis unfolding AuditTail
    using tail_request(1) assms(2) [unfolded AuditTail]
    by (intro asks_ext [OF tool_eqs(5)] asks_query [OF assms(1)]) auto
next
  case (CastellanAdd i)
  show ?thesis
  proof (cases i)
    case None
    have "asks_only asked (in_bounds c) (\<lambda>w. try_api (api_get E ''/api/v1/endpoint'' w) (\<lambda>v w. (Inr (enrollment_instructions v), w)))"
      using CastellanAdd None by (intro asks_try asks_return asks_get [OF assms(1) fixed_reads(5)]) simp
    then show ?thesis unfolding CastellanAdd None by (rule asks_ext [rotated]) simp
  next
    case (Some e)
    have "route_request ''POST'' ''/api/v1/daemons/approve'' (Some (JObj [(''endpoint_id'', JStr e)])) = Inr (Api (RqDaemonApprove e))"
      using fleet_call_arrives [of "CApproveDaemon e"] by simp
    then show ?thesis unfolding CastellanAdd Some
      by (intro asks_ext [OF tool_eqs(6) [of _ "Some e", unfolded option.case]] asks_post [OF assms(1)]) auto
  qed
next
  case (CastellanGet i)
  show ?thesis unfolding CastellanGet
    using named_requests(1) assms(2) [unfolded CastellanGet]
    by (intro asks_ext [OF tool_eqs(7)] asks_get [OF assms(1)]) auto
next
  case (CastellanList include_pending)
  show ?thesis unfolding CastellanList by (rule asks_ext [OF tool_eqs(8) asks_list [OF assms(1)]])
next
  case (CastellanRemove i confirm force)
  show ?thesis using assms(2) unfolding CastellanRemove
    by (intro asks_ext [OF tool_eqs(9)] asks_remove [OF assms(1)])
next
  case (CastellanLabelsSet i set_labels remove)
  have "route_request ''POST'' (daemon_path i @ ''/labels'')
      (Some (JObj [(''set'', labels_json (unwrap_or [] set_labels)), (''remove'', JArr (map JStr (unwrap_or [] remove)))])) =
      Inr (Api (RqDaemonLabels i (Some (unwrap_or [] set_labels)) (Some (unwrap_or [] remove))))"
    using fleet_call_arrives [of "CSetLabels i (unwrap_or [] set_labels) (unwrap_or [] remove)"] assms(2) CastellanLabelsSet
    by simp
  then show ?thesis unfolding CastellanLabelsSet
    by (intro asks_ext [OF tool_eqs(10)] asks_post [OF assms(1)]) auto
next
  case (AgentList state)
  have "asks_only asked (in_bounds c) (\<lambda>w. try_api (api_get E ''/api/v1/agents'' w) (\<lambda>v w. (Inr (status_filter state v), w)))"
    using AgentList by (intro asks_try asks_return asks_get [OF assms(1) fixed_reads(7)]) simp
  then show ?thesis unfolding AgentList by (rule asks_ext [rotated]) simp
next
  case (AgentCreate p)
  show ?thesis
  proof (cases "cr_manifest_toml p")
    case None
    then show ?thesis unfolding AgentCreate by (intro asks_ext [OF _ asks_create [OF assms(1)]]) simp
  next
    case (Some t)
    have "asks_only asked (in_bounds c) (api_post E ''/api/v1/agents'' (JObj [(''manifest_toml'', JStr t)]))"
      using AgentCreate by (intro asks_post [OF assms(1) create_body(2)]) simp
    then show ?thesis unfolding AgentCreate by (rule asks_ext [rotated]) (simp add: Some)
  qed
next
  case (AgentGet name)
  show ?thesis unfolding AgentGet
    using named_requests(4) assms(2) [unfolded AgentGet]
    by (intro asks_ext [OF tool_eqs(13)] asks_get [OF assms(1)]) auto
next
  case (AgentDelete name confirm)
  show ?thesis
  proof (cases "confirm = name")
    case True
    have "asks_only asked (in_bounds c) (api_post E (agent_path name @ ''/destroy'') (JObj []))"
      using named_requests(2) assms(2) AgentDelete True by (intro asks_post [OF assms(1)]) auto
    then show ?thesis unfolding AgentDelete by (rule asks_ext [rotated]) (simp add: True)
  next
    case False
    then show ?thesis unfolding AgentDelete by (intro asks_ext [OF _ asks_return]) simp
  qed
next
  case (AgentLogsTool name tail)
  show ?thesis unfolding AgentLogsTool
    using tail_request(2) assms(2) [unfolded AgentLogsTool]
    by (intro asks_ext [OF tool_eqs(15)] asks_query [OF assms(1)]) auto
next
  case (SessionEvents name tail roles)
  have "pred_option (\<lambda>n. n < 2 ^ 64) tail" "plain_name name"
    using assms(2) SessionEvents by (cases tail; simp add: unwrap_or_def)+
  then show ?thesis unfolding SessionEvents
    using history_request [of name tail]
    by (intro asks_ext [OF tool_eqs(16)] asks_query [OF assms(1)]) auto
next
  case (SessionSend name message)
  show ?thesis unfolding SessionSend
    using named_requests(3) assms(2) [unfolded SessionSend]
    by (intro asks_ext [OF tool_eqs(17)] asks_post [OF assms(1)]) auto
next
  case (SessionAbort name)
  show ?thesis unfolding SessionAbort
    using named_requests(3) assms(2) [unfolded SessionAbort]
    by (intro asks_ext [OF tool_eqs(18)] asks_post [OF assms(1)]) auto
qed


section \<open>The check of a create against the control plane's\<close>

text \<open>The catalog as \<open>validate_model\<close> of crates/suzerain/src/catalog.rs reads it from the document.\<close>

definition catalog_of :: "json \<Rightarrow> model_catalog" where
  "catalog_of j = map (\<lambda>(i, entry). (i, texts_of (json_get ''id'') (array_of (json_get ''models'' entry))))
     (object_of (json_get ''providers'' j))"

lemma map_of_map_entry: "map_of (map (\<lambda>(i, e). (i, f i e)) kvs) k = map_option (f k) (map_of kvs k)"
  by (induction kvs) auto

text \<open>What the annotated catalog says of a provider.\<close>

lemma annotated_entry:
  assumes "json_get ''providers'' (we_providers E) = JObj kvs" "distinct (map fst kvs)"
    and "providers_annotated E s = Inr providers"
  shows "map_of (object_of (json_get ''providers'' providers)) i =
    map_option (\<lambda>entry. JObj [(''models'', json_get ''models'' entry),
      (''key_injectable'', JBool (provider_env_and_host i \<noteq> None)),
      (''key_configured'', JBool ((''provider'', i) \<in> set (inventory (ws_secrets s))))]) (map_of kvs i)"
proof -
  let ?f = "\<lambda>i entry. JObj [(''models'', json_get ''models'' entry),
      (''key_injectable'', JBool (provider_env_and_host i \<noteq> None)),
      (''key_configured'', JBool (i \<in> set (map snd (filter (\<lambda>(kind, _). kind = ''provider'') (inventory (ws_secrets s))))))]"
  have "object_of (json_get ''providers'' providers) = bt_extend [] (map (\<lambda>(i, e). (i, ?f i e)) kvs)"
    using assms(1,3) by (auto simp: providers_annotated_def json_get_def json_map_def object_of_def unwrap_or_def Let_def)
  moreover have "distinct (map fst (map (\<lambda>(i, e). (i, ?f i e)) kvs))"
    using assms(2) by (simp add: comp_def split_beta)
  ultimately have "map_of (object_of (json_get ''providers'' providers)) i = map_option (?f i) (map_of kvs i)"
    using bt_lookup_extend [of "[]" "map (\<lambda>(i, e). (i, ?f i e)) kvs"] map_of_map_entry [of ?f kvs i]
    by (simp add: map_add_def)
  moreover have "i \<in> set (map snd (filter (\<lambda>(kind, _). kind = ''provider'') (inventory (ws_secrets s)))) \<longleftrightarrow>
      (''provider'', i) \<in> set (inventory (ws_secrets s))" by force
  ultimately show ?thesis by simp
qed

lemma provider_check_passes:
  assumes "json_get ''providers'' (we_providers E) = JObj kvs" "distinct (map fst kvs)"
    and "providers_annotated E s = Inr providers" "check_provider m providers = Inr ()"
  shows "validate_model (catalog_of (we_providers E)) (ms_provider (m_model m)) (ms_id (m_model m)) = Inr ()"
    "provider_env_and_host (ms_provider (m_model m)) \<noteq> None"
    "(''provider'', ms_provider (m_model m)) \<in> set (inventory (ws_secrets s))"
proof -
  let ?i = "ms_provider (m_model m)"
  obtain entry where entry: "map_of kvs ?i = Some entry"
    using assms(4) annotated_entry [OF assms(1-3), of ?i]
    by (cases "map_of kvs ?i") (auto simp: check_provider_def Let_def)
  have eval: "json_get ''models'' (JObj [(''models'', a), (''key_injectable'', b), (''key_configured'', c)]) = a"
    "json_get ''key_injectable'' (JObj [(''models'', a), (''key_injectable'', b), (''key_configured'', c)]) = b"
    "json_get ''key_configured'' (JObj [(''models'', a), (''key_injectable'', b), (''key_configured'', c)]) = c" for a b c
    by (simp_all add: json_get_def unwrap_or_def)
  have checks: "provider_env_and_host ?i \<noteq> None" "(''provider'', ?i) \<in> set (inventory (ws_secrets s))"
    "texts_of (json_get ''id'') (array_of (json_get ''models'' entry)) = [] \<or>
     ms_id (m_model m) \<in> set (texts_of (json_get ''id'') (array_of (json_get ''models'' entry)))"
    using assms(4) annotated_entry [OF assms(1-3), of ?i] entry
    by (auto simp: check_provider_def eval as_bool_def Let_def split: if_splits)
  then show "provider_env_and_host ?i \<noteq> None" "(''provider'', ?i) \<in> set (inventory (ws_secrets s))" by simp_all
  have "map_of (catalog_of (we_providers E)) ?i = Some (texts_of (json_get ''id'') (array_of (json_get ''models'' entry)))"
    using map_of_map_entry [of "\<lambda>i e. texts_of (json_get ''id'') (array_of (json_get ''models'' e))" kvs ?i] entry
    by (simp add: catalog_of_def assms(1) object_of_def)
  then show "validate_model (catalog_of (we_providers E)) ?i (ms_id (m_model m)) = Inr ()"
    using checks by (auto simp: validate_model_def)
qed

lemma stored_provider: "(''provider'', i) \<in> set (inventory st) \<Longrightarrow>
    \<exists>store. sec_store st = Some store \<and> map_of (sf_providers store) i \<noteq> None"
  by (force simp: inventory_def map_of_eq_None_iff split: option.splits if_splits)

lemma stored_ssh_key: "(''git'', ''ssh_key'') \<in> set (inventory st) \<Longrightarrow> sec_store st = Some store \<Longrightarrow>
    map_of (sf_git store) ''ssh_key'' \<noteq> None"
  by (auto simp: inventory_def split: if_splits)

text \<open>
  The MCP server's check of a create is sound: when it passes on the catalogs the control plane
  gave, the control plane's own check of provider and model passes, and so does its secrets
  preflight, provided that a git key is stored when the manifest clones over SSH.\<close>

theorem mcp_create_is_accepted:
  assumes "json_get ''providers'' (we_providers E) = JObj kvs" "distinct (map fst kvs)"
    and "ae_catalog (we_act E) = catalog_of (we_providers E)" "providers_annotated E s = Inr providers"
    and "m = structured_manifest p name provider model version"
    and "validate_create m providers harnesses daemons = Inr ()"
    and "needs_git_ssh_key m \<longrightarrow> (''git'', ''ssh_key'') \<in> set (inventory (ws_secrets s))"
  shows "validate_model (ae_catalog (we_act E)) provider model = Inr () \<and> preflight m (ws_secrets s) = Inr ()"
proof -
  have m: "m_secrets m = \<lparr>ss_providers = [provider], ss_extra = []\<rparr>" "ms_provider (m_model m) = provider"
    "ms_id (m_model m) = model"
    using assms(5) by (simp_all add: structured_manifest_def)
  have "check_provider m providers = Inr ()"
    using assms(6) by (auto simp: validate_create_def res_bind_Inr_conv)
  note p = provider_check_passes [OF assms(1,2,4) this, unfolded m]
  obtain store where store: "sec_store (ws_secrets s) = Some store" "map_of (sf_providers store) provider \<noteq> None"
    using stored_provider [OF p(3)] by blast
  have "missing_in_store m store = []"
    using store(2) p(2) m(1) assms(7) stored_ssh_key [OF _ store(1)]
    by (auto simp: missing_in_store_def Let_def)
  then have "preflight m (ws_secrets s) = Inr ()"
    using p(2) m(1) store(1) by (simp add: preflight_def Let_def)
  then show ?thesis using p(1) assms(3) by simp
qed

text \<open>The check is stricter than the control plane's: OpenRouter's live models are refused.\<close>

lemma live_model_refused:
  "check_provider (structured_manifest p name ''openrouter'' ''new-model'' version)
      (JObj [(''providers'', JObj [(''openrouter'', JObj [(''models'', JArr [JObj [(''id'', JStr ''old'')]])])])]) \<noteq> Inr () \<and>
    validate_model [(''openrouter'', [''old''])] ''openrouter'' ''new-model'' = Inr ()"
  by (simp add: check_provider_def structured_manifest_def json_get_def unwrap_or_def object_of_def array_of_def
      as_bool_def as_str_def as_array_def texts_of_def validate_model_def provider_env_and_host_def Let_def)

text \<open>A name that is not plain goes around the confirmation: a message destroys an agent.\<close>

lemma message_destroys:
  "mc_rest E ''POST'' (agent_path ''a/destroy?'' @ ''/prompt'')
      (Some (JObj [(''message'', JStr ''hello''), (''mode'', JStr ''prompt'')])) w = (Inr v, w1) \<Longrightarrow>
    run_tool E (SessionSend ''a/destroy?'' ''hello'') w = (ToolText (mc_pretty E v), w1) \<and>
    route_request ''POST'' (agent_path ''a/destroy?'' @ ''/prompt'')
      (Some (JObj [(''message'', JStr ''hello''), (''mode'', JStr ''prompt'')])) =
        Inr (Api (RqAgentAction ''a'' ''destroy'' None))"
  using prompt_destroys by (simp add: run_tool_def api_post_def api_raw_def outcome_def client_request_def mode_str_def)

section \<open>Witnesses\<close>

definition demo_mcp :: "(string \<times> string \<times> json option) list mcp_env" where
  "demo_mcp =
     \<lparr>mc_rest = (\<lambda>m p b w. (Inr JNull, w @ [(m, p, b)])), mc_show = (\<lambda>_. []), mc_pretty = (\<lambda>_. ''ok''),
      mc_manifest_json = (\<lambda>_. Inr JNull), mc_manifest_toml = (\<lambda>_. [])\<rparr>"


definition mcp_web :: web_env where
  "mcp_web = demo_web\<lparr>
     we_act := demo_action_env\<lparr>ae_catalog := [(''openai'', [''gpt''])]\<rparr>,
     we_providers := JObj [(''providers'', JObj [(''openai'', JObj [(''models'', JArr [JObj [(''id'', JStr ''gpt'')]])])])]\<rparr>"

theorem mcp_create_is_accepted_witness:
  "\<exists>m. validate_model (ae_catalog (we_act mcp_web)) ''openai'' ''gpt'' = Inr () \<and>
    preflight m (ws_secrets (web_demo ''key'')) = Inr () \<and> m_name m = ''a''"
proof -
  define p where "p = \<lparr>cr_manifest_toml = None, cr_name = Some ''a'', cr_provider = Some ''openai'', cr_model = Some ''gpt'',
     cr_thinking = None, cr_harness_version = Some ''1'', cr_vcpu = None, cr_memory_mib = None, cr_disk_mib = None,
     cr_gpu_count = None, cr_gpu_vram_mib = None, cr_repos = None, cr_extensions = None, cr_append_system = None,
     cr_daemon = None, cr_require = None, cr_egress_allow = None, cr_otel_endpoint = None\<rparr>"
  let ?m = "structured_manifest p ''a'' ''openai'' ''gpt'' ''1''"
  let ?kvs = "[(''openai'', JObj [(''models'', JArr [JObj [(''id'', JStr ''gpt'')]])])]"
  have k: "json_get ''providers'' (we_providers mcp_web) = JObj ?kvs" "distinct (map fst ?kvs)"
    by (simp_all add: mcp_web_def json_get_def unwrap_or_def)
  have c: "ae_catalog (we_act mcp_web) = catalog_of (we_providers mcp_web)"
    by (simp add: mcp_web_def catalog_of_def object_of_def json_get_def unwrap_or_def texts_of_def array_of_def
        as_array_def as_str_def)
  obtain ps where ps: "providers_annotated mcp_web (web_demo ''key'') = Inr ps" by (simp add: providers_annotated_def Let_def)
  have "(''provider'', ''openai'') \<in> set (inventory (ws_secrets (web_demo ''key'')))"
    by (simp add: inventory_def web_demo_def)
  then have "check_provider ?m ps = Inr ()"
    using annotated_entry [OF k ps, of "''openai''"]
    by (auto simp: check_provider_def structured_manifest_def as_bool_def as_str_def as_array_def texts_of_def array_of_def
        json_get_def unwrap_or_def provider_env_and_host_def Let_def)
  then have v: "validate_create ?m ps (JObj [(''harnesses'', JObj [(''pi'', JObj [(''versions'', JArr [JStr ''1''])])])])
      (JObj [(''daemons'', JArr [])]) = Inr ()"
    by (simp add: validate_create_def check_harness_def check_pin_def check_require_def structured_manifest_def p_def
        object_of_def array_of_def texts_of_def as_str_def as_array_def json_get_def unwrap_or_def Let_def)
  have "\<not> needs_git_ssh_key ?m"
    by (simp add: needs_git_ssh_key_def structured_manifest_def p_def unwrap_or_def)
  then show ?thesis
    using mcp_create_is_accepted [OF k c ps HOL.refl v]
    by (intro exI [of _ ?m]) (simp add: structured_manifest_def)
qed

end
