(* ===== verification/Create_Theorems.thy ===== *)
theory Create_Theorems
  imports Create_Form Mcp_Theorems
begin

text \<open>
  The create dialog: which manifests its form can show, what it submits, and that what it offers is
  accepted by the control plane.
\<close>

section \<open>Texts without blanks around them\<close>

lemma trim_fixed: "s = [] \<or> \<not> is_ws (hd s) \<and> \<not> is_ws (last s) \<Longrightarrow> trim s = s"
  by (cases "s = []") (simp_all add: trim_def trim_start_id trim_end_id)

lemma dropWhile_last: "dropWhile p s \<noteq> [] \<Longrightarrow> last (dropWhile p s) = last s"
  by (induction s) (auto dest: set_dropWhileD)

lemma trim_ends: "trim s = [] \<or> \<not> is_ws (hd (trim s)) \<and> \<not> is_ws (last (trim s))"
proof (cases "trim s = []")
  case False
  let ?a = "dropWhile is_ws s" let ?b = "dropWhile is_ws (rev ?a)"
  have t: "trim s = rev ?b" by (simp add: trim_def trim_start_def trim_end_def)
  then have b: "?b \<noteq> []" using False by simp
  then have a: "?a \<noteq> []" by (metis dropWhile.simps(1) rev.simps(1))
  have "last (trim s) = hd ?b" using t by (simp add: last_rev)
  moreover have "\<not> is_ws (hd ?b)" using b hd_dropWhile by blast
  moreover have "hd (trim s) = last ?b" using t by (simp add: hd_rev)
  moreover have "last ?b = last (rev ?a)" using b by (rule dropWhile_last)
  moreover have "last (rev ?a) = hd ?a" by (simp add: last_rev)
  moreover have "\<not> is_ws (hd ?a)" using a hd_dropWhile by blast
  ultimately show ?thesis by simp
qed simp

lemma trim_trim [simp]: "trim (trim s) = trim s"
  using trim_fixed trim_ends by blast

lemma trim_Nil [simp]: "trim [] = []"
  by (simp add: trim_fixed)

lemma trim_blank: "trim (CHR '' '' # s) = trim s"
  by (simp add: trim_def trim_start_def is_ws_def Let_def)

definition neat :: "string \<Rightarrow> bool" where
  "neat s \<longleftrightarrow> trim s = s \<and> s \<noteq> []"

lemma neat_trim [simp]: "neat (trim s) \<longleftrightarrow> trim s \<noteq> []"
  by (simp add: neat_def)

lemma non_empty_neat: "pred_option neat (non_empty s)"
  by (simp add: non_empty_def Let_def)

lemma non_empty_back: "pred_option neat x \<Longrightarrow> non_empty (unwrap_or [] x) = x"
  by (cases x) (simp_all add: non_empty_def unwrap_or_def neat_def Let_def)

section \<open>What a form can show\<close>

definition representable :: "agent_manifest \<Rightarrow> bool" where
  "representable m \<longleftrightarrow>
     neat (m_name m) \<and> ms_provider (m_model m) \<noteq> [] \<and> ms_id (m_model m) \<noteq> [] \<and>
     pred_option neat (ms_thinking (m_model m)) \<and> r_gpu (m_resources m) = None \<and>
     bt_sorted (s_require (m_schedule m)) \<and>
     (\<forall>(k, v) \<in> set (s_require (m_schedule m)). neat k \<and> trim v = v) \<and>
     pred_option neat (s_daemon (m_schedule m)) \<and> m_tools m = [] \<and>
     (\<forall>r \<in> set (m_repos m). neat (rp_url r) \<and> neat (rp_ref r)) \<and>
     (\<forall>e \<in> set (m_extensions m). x_url e = None \<and> x_ref e = None \<and> (\<exists>s. x_source e = Some s \<and> neat s)) \<and>
     pred_option neat (m_append_system m) \<and> ss_extra (m_secrets m) = [] \<and>
     (\<forall>h \<in> set (m_egress_allow m). neat h \<and> CHR '','' \<notin> set h) \<and>
     pred_option (\<lambda>e. neat (o_endpoint e) \<and> o_headers e = []) (m_otel m) \<and>
     pred_option neat (m_auto_suspend m) \<and> m_provision m = None"

lemma bt_extend_set: "set (bt_extend m xs) \<subseteq> set m \<union> set xs"
proof -
  have ins: "set (bt_insert k v m) \<subseteq> insert (k, v) (set m)" for k v and m :: "('a::linorder, 'b) btree_map"
    by (induction k v m rule: bt_insert.induct) auto
  show ?thesis
  proof (induction xs arbitrary: m)
    case (Cons x xs)
    obtain k v where x: "x = (k, v)" by (cases x)
    have "set (bt_extend (bt_insert k v m) xs) \<subseteq> set (bt_insert k v m) \<union> set xs" by (rule Cons.IH)
    then show ?case using ins [of k v m] x by (auto simp: bt_extend_def)
  qed (simp add: bt_extend_def)
qed

text \<open>Every column of a form is neat.\<close>

lemma form_columns:
  "\<forall>r \<in> set (form_repos rows). neat (rp_url r) \<and> neat (rp_ref r)"
  "\<forall>e \<in> set (form_extensions xs). x_url e = None \<and> x_ref e = None \<and> (\<exists>s. x_source e = Some s \<and> neat s)"
  "bt_sorted (form_require rows)"
  "\<forall>(k, v) \<in> set (form_require rows). neat k \<and> trim v = v"
proof -
  have "neat ''main''" by (simp add: neat_def trim_id is_ws_def Let_def)
  then show "\<forall>r \<in> set (form_repos rows). neat (rp_url r) \<and> neat (rp_ref r)"
    by (auto simp: form_repos_def)
  show "\<forall>e \<in> set (form_extensions xs). x_url e = None \<and> x_ref e = None \<and> (\<exists>s. x_source e = Some s \<and> neat s)"
    by (auto simp: form_extensions_def)
  show "bt_sorted (form_require rows)" by (simp add: form_require_def bt_sorted_extend)
  have "set (form_require rows) \<subseteq> (\<lambda>(k, v). (trim k, trim v)) ` {kv \<in> set rows. trim (fst kv) \<noteq> []}"
    using bt_extend_set [of "[]"] by (fastforce simp: form_require_def)
  then show "\<forall>(k, v) \<in> set (form_require rows). neat k \<and> trim v = v" by fastforce
qed

lemma form_egress_neat: "\<forall>h \<in> set (form_egress t). neat h \<and> CHR '','' \<notin> set h"
proof
  fix h assume "h \<in> set (form_egress t)"
  then obtain w where w: "w \<in> set (split_on (\<lambda>c. c = CHR '','') t)" "h = trim w" "h \<noteq> []"
    by (auto simp: form_egress_def)
  have "set (trim w) \<subseteq> set w"
    by (auto simp: trim_def trim_start_def trim_end_def dest!: set_dropWhileD)
  then show "neat h \<and> CHR '','' \<notin> set h" using w split_on_pieces by fastforce
qed

text \<open>And a neat column is read back as it is.\<close>

lemma columns_back:
  "\<forall>r \<in> set rs. neat (rp_url r) \<and> neat (rp_ref r) \<Longrightarrow> form_repos (map (\<lambda>r. (rp_url r, rp_ref r)) rs) = rs"
  "\<forall>e \<in> set es. x_url e = None \<and> x_ref e = None \<and> (\<exists>s. x_source e = Some s \<and> neat s) \<Longrightarrow>
     form_extensions (List.map_filter extension_text es) = es"
  "bt_sorted kvs \<Longrightarrow> \<forall>(k, v) \<in> set kvs. neat k \<and> trim v = v \<Longrightarrow> form_require kvs = kvs"
proof -
  show "\<forall>r \<in> set rs. neat (rp_url r) \<and> neat (rp_ref r) \<Longrightarrow> form_repos (map (\<lambda>r. (rp_url r, rp_ref r)) rs) = rs"
    by (induction rs) (auto simp: form_repos_def neat_def)
  show "\<forall>e \<in> set es. x_url e = None \<and> x_ref e = None \<and> (\<exists>s. x_source e = Some s \<and> neat s) \<Longrightarrow>
     form_extensions (List.map_filter extension_text es) = es"
    by (induction es) (auto simp: form_extensions_def extension_text_def neat_def)
  assume kvs: "bt_sorted kvs" "\<forall>(k, v) \<in> set kvs. neat k \<and> trim v = v"
  then have "filter (\<lambda>(k, _). trim k \<noteq> []) kvs = kvs" "map (\<lambda>(k, v). (trim k, trim v)) kvs = kvs"
    by (auto simp: neat_def filter_id_conv intro!: map_idI)
  then show "form_require kvs = kvs" using bt_extend_sorted [of "[]" kvs] kvs(1) by (simp add: form_require_def)
qed

lemma split_comma: "\<forall>h \<in> set (h # hs). CHR '','' \<notin> set h \<Longrightarrow>
    split_on (\<lambda>c. c = CHR '','') (join '', '' (h # hs)) = h # map (Cons CHR '' '') hs"
proof (induction hs arbitrary: h)
  case Nil
  then show ?case using split_on_join [of "[h]" "CHR '',''"] by simp
next
  case (Cons h' hs)
  have cut: "split_on (\<lambda>c. c = CHR '','') (w @ CHR '','' # s) = w # split_on (\<lambda>c. c = CHR '','') s"
    if "CHR '','' \<notin> set w" for w s
    using that by (induction w) auto
  have "split_on (\<lambda>c. c = CHR '','') (CHR '' '' # s) = (CHR '' '' # hd (split_on (\<lambda>c. c = CHR '','') s)) # tl (split_on (\<lambda>c. c = CHR '','') s)" for s
    by (cases "split_on (\<lambda>c. c = CHR '','') s") auto
  then show ?case using Cons cut [of h] by simp
qed

lemma egress_back:
  assumes "\<forall>h \<in> set hs. neat h \<and> CHR '','' \<notin> set h"
  shows "form_egress (join '', '' hs) = hs"
proof (cases hs)
  case Nil
  then show ?thesis by (simp add: form_egress_def)
next
  case (Cons h rest)
  have id: "filter (\<lambda>s. s \<noteq> []) hs = hs" using assms by (auto simp: filter_id_conv neat_def)
  have "map trim (h # map (Cons CHR '' '') rest) = hs"
    using assms Cons by (auto simp: trim_blank neat_def comp_def intro!: map_idI)
  then show ?thesis using split_comma [of h rest] assms Cons id by (simp add: form_egress_def)
qed

lemma number_back: "field_number what d (show_nat (unat (n :: u64))) = Inr n"
proof -
  have "unat n < 2 ^ 64" using unsigned_less [of n, where 'a = nat] by simp
  then show ?thesis by (simp add: field_number_def trim_show_nat parse_u64_show_nat Let_def)
qed

lemma vcpu_back: "field_number what d (show_nat (unat (n :: u32))) = Inr (ucast n)"
proof -
  have "unat n < 2 ^ 64" using unsigned_less [of n, where 'a = nat] by simp
  moreover have "ucast n = (of_nat (unat n) :: u64)" by (simp add: unsigned_of_nat)
  ultimately show ?thesis by (simp add: field_number_def trim_show_nat parse_u64_show_nat Let_def)
qed

lemma to_manifest_representable: "to_manifest f = Inr m \<Longrightarrow> representable m"
  unfolding to_manifest_def
  by (auto simp: representable_def res_bind_Inr_conv form_columns form_egress_neat non_empty_neat
      option.pred_map comp_def split: if_splits
      dest!: form_columns(1,2,4) [THEN bspec] form_egress_neat [THEN bspec])

lemma vcpu_width: "(ucast (ucast (n :: u32) :: u64) :: u32) = n"
  by (rule bit_word_eqI) (simp add: bit_simps)

lemma load_representable:
  assumes "representable m"
  shows "to_manifest (load_manifest m g) = Inr m"
proof -
  obtain thinking daemon append otel auto where opts:
    "ms_thinking (m_model m) = thinking" "s_daemon (m_schedule m) = daemon" "m_append_system m = append"
    "m_otel m = otel" "m_auto_suspend m = auto" by blast
  have o: "map_option (\<lambda>e. \<lparr>o_endpoint = e, o_headers = []\<rparr>)
      (non_empty (case otel of None \<Rightarrow> [] | Some e \<Rightarrow> o_endpoint e)) = otel"
    using assms opts by (cases otel) (auto simp: representable_def non_empty_def neat_def Let_def)
  note r = assms [unfolded representable_def]
  show ?thesis
    using r opts o columns_back(1) [of "m_repos m"] columns_back(2) [of "m_extensions m"]
      columns_back(3) [of "s_require (m_schedule m)"] egress_back [of "m_egress_allow m"]
    by (simp add: to_manifest_def load_manifest_def vcpu_back number_back non_empty_back neat_def vcpu_width)
qed

text \<open>C32
  The form and the manifest are in step: the manifests that some form stands for are exactly those of
  a declarative predicate (no GPU, tool, URL extension, extra secret, header or provision section,
  and no text with blanks around it), and exactly these come back unchanged from a form that was
  filled from them.\<close>

theorem form_shows_exactly:
  "((\<exists>f. to_manifest f = Inr m) \<longleftrightarrow> representable m) \<and>
   (to_manifest (load_manifest m g) = Inr m \<longleftrightarrow> representable m)"
  using to_manifest_representable load_representable by blast

section \<open>What is submitted\<close>

inductive dialog_reach :: "form_env \<Rightarrow> create_form \<Rightarrow> bool" for E where
  opened: "dialog_reach E (default_form E)"
| frame: "dialog_reach E f \<Longrightarrow> dialog_reach E (fst (show_create E cx i f))"

definition toml_works :: "form_env \<Rightarrow> bool" where
  "toml_works E \<longleftrightarrow>
     (\<forall>m t. fe_print E m = Some t \<longrightarrow> fe_parse E t = Inr m) \<and> (\<forall>m. fe_parse E [] \<noteq> Inr m)"

text \<open>What the text is to the form, unless it is being edited or an error is on display.\<close>

definition in_step :: "form_env \<Rightarrow> create_form \<Rightarrow> bool" where
  "in_step E f \<longleftrightarrow> (\<not> cf_toml_edited f \<and> cf_parse_error f = None \<longrightarrow>
     (\<forall>m. fe_parse E (cf_toml_text f) = Inr m \<longrightarrow> to_manifest f = Inr m \<or> load_manifest m f = f))"

lemma unmanifested_fields [simp]:
  "to_manifest (f\<lparr>cf_toml_text := t\<rparr>) = to_manifest f"
  "to_manifest (f\<lparr>cf_parse_error := e\<rparr>) = to_manifest f"
  "to_manifest (f\<lparr>cf_submit_attempted := b\<rparr>) = to_manifest f"
  "to_manifest (f\<lparr>cf_provider_filter := t\<rparr>) = to_manifest f"
  "to_manifest (f\<lparr>cf_model_filter := t\<rparr>) = to_manifest f"
  by (simp_all add: to_manifest_def)

lemma load_again [simp]: "load_manifest m (load_manifest m f) = load_manifest m f"
  by (simp add: load_manifest_def)

lemma load_commutes:
  "load_manifest m f = f \<Longrightarrow> load_manifest m (f\<lparr>cf_submit_attempted := b\<rparr>) = f\<lparr>cf_submit_attempted := b\<rparr>"
  "load_manifest m f = f \<Longrightarrow> load_manifest m (f\<lparr>cf_provider_filter := t\<rparr>) = f\<lparr>cf_provider_filter := t\<rparr>"
  "load_manifest m f = f \<Longrightarrow> load_manifest m (f\<lparr>cf_model_filter := t\<rparr>) = f\<lparr>cf_model_filter := t\<rparr>"
  by (cases f, simp add: load_manifest_def)+

lemma shows_quiet:
  "in_step E f \<Longrightarrow> in_step E (f\<lparr>cf_submit_attempted := b\<rparr>)"
  "in_step E f \<Longrightarrow> in_step E (f\<lparr>cf_provider_filter := t\<rparr>)"
  "in_step E f \<Longrightarrow> in_step E (f\<lparr>cf_model_filter := t\<rparr>)"
  unfolding in_step_def using load_commutes by auto

lemma printed_back: "toml_works E \<Longrightarrow> fe_parse E (unwrap_or [] (fe_print E m)) = Inr m' \<Longrightarrow> m' = m"
  by (cases "fe_print E m") (auto simp: toml_works_def unwrap_or_def)

lemma regenerate_shows: "toml_works E \<Longrightarrow> in_step E (regenerate_toml E f)"
  by (auto simp: in_step_def regenerate_toml_def split: sum.splits dest: printed_back)

lemma defaults_show: "toml_works E \<Longrightarrow> in_step E f \<Longrightarrow> in_step E (apply_defaults E cx f)"
  by (auto simp: apply_defaults_def Let_def regenerate_shows defaults_due_def default_provider_def
      default_model_def default_version_def)

lemma unchosen: "searchable_combo items c selected flt = (i, flt', False) \<Longrightarrow> i = selected"
  by (cases c) (auto split: if_splits)

lemma edit_shows:
  assumes "toml_works E" "in_step E f"
  shows "in_step E (left_column E cx e f)"
proof (cases "form_edit cx e f")
  case (Pair f1 changed)
  have "in_step E f1" if "\<not> changed"
  proof (cases e)
    case (FormProvider c)
    obtain i flt b where c: "searchable_combo (map (\<lambda>(i, _). (i, [])) (ctx_usable cx)) c (cf_provider f)
        (cf_provider_filter f) = (i, flt, b)" by (metis prod_cases3)
    then have "\<not> b" "f1 = f\<lparr>cf_provider_filter := flt\<rparr>"
      using Pair FormProvider that unchosen by (auto split: if_splits)
    then show ?thesis using shows_quiet(2) assms(2) by simp
  next
    case (FormModel c)
    obtain i flt b where c: "searchable_combo (models_of cx f) c (cf_model f) (cf_model_filter f) = (i, flt, b)"
      by (metis prod_cases3)
    then have "\<not> b" "f1 = f\<lparr>cf_model_filter := flt\<rparr>"
      using Pair FormModel that unchosen by auto
    then show ?thesis using shows_quiet(3) assms(2) by simp
  next
    case (FormSection e')
    then show ?thesis using Pair that assms(2) by (cases e') (auto split: if_splits option.splits)
  qed (use Pair that assms(2) in \<open>auto split: if_splits option.splits\<close>)
  then show ?thesis using Pair regenerate_shows [OF assms(1)] by (simp add: left_column_def)
qed

lemma text_shows:
  assumes "toml_works E" "in_step E f"
  shows "in_step E (fst (right_column E e f))"
proof (cases e)
  case (EditToml t)
  then show ?thesis by (simp add: in_step_def)
next
  case ApplyToml
  then show ?thesis
    by (auto simp: apply_toml_def in_step_def split: sum.splits) (simp_all add: load_manifest_def)
next
  case RegenerateToml
  then show ?thesis using regenerate_shows [OF assms(1)] assms(2) by simp
next
  case PressCreate
  then show ?thesis
    using shows_quiet(1) [OF assms(2), of True] by (auto simp: press_create_def in_step_def split: sum.splits)
qed

lemma frame_shows: "toml_works E \<Longrightarrow> in_step E f \<Longrightarrow> in_step E (fst (show_create E cx i f))"
  by (cases i) (simp_all add: show_create_def Let_def edit_shows text_shows defaults_show)

lemma reach_shows: "dialog_reach E f \<Longrightarrow> toml_works E \<Longrightarrow> in_step E f"
  by (induction rule: dialog_reach.induct) (simp_all add: default_form_def regenerate_shows frame_shows)

text \<open>C33
  What the create dialog submits is what it shows: after any inputs, a submitted text is the text on
  display and parses as a manifest; and unless the text was edited by hand or an error is pending,
  that manifest is the one the form stands for, or the one the form was filled from.\<close>

theorem submitted_is_shown:
  assumes "toml_works E" "dialog_reach E f" "show_create E cx i f = (f', Some t)"
  shows "t = cf_toml_text f' \<and> (\<exists>m. fe_parse E t = Inr m \<and>
    (cf_toml_edited f' \<or> cf_parse_error f' \<noteq> None \<or> to_manifest f' = Inr m \<or> load_manifest m f' = f'))"
proof -
  have i: "i = RightInput PressCreate"
    using assms(3)
    by (cases i rule: dialog_input.exhaust; (cases "case i of RightInput e \<Rightarrow> e | _ \<Rightarrow> PressCreate")?)
      (auto simp: show_create_def Let_def split: toml_input.splits)
  have t: "t = cf_toml_text f'" "\<exists>m. fe_parse E t = Inr m"
    using assms(3) i by (auto simp: show_create_def Let_def press_create_def split: sum.splits)
  have "in_step E f'" using frame_shows [OF assms(1) reach_shows [OF assms(2,1)], of cx i] assms(3) by simp
  then show ?thesis using t unfolding in_step_def by auto
qed

section \<open>What is offered\<close>

lemma annotated_object:
  assumes "json_get ''providers'' (we_providers E) = JObj kvs" "distinct (map fst kvs)"
    and "providers_annotated E s = Inr providers"
  shows "(i, entry) \<in> set (object_of (json_get ''providers'' providers)) \<longleftrightarrow>
    (\<exists>e. map_of kvs i = Some e \<and> entry = JObj [(''models'', json_get ''models'' e),
      (''key_injectable'', JBool (provider_env_and_host i \<noteq> None)),
      (''key_configured'', JBool ((''provider'', i) \<in> set (inventory (ws_secrets s))))])"
proof -
  have "distinct (map fst (object_of (json_get ''providers'' providers)))"
    using assms(3) bt_sorted_distinct [OF bt_sorted_extend [of "[]"]]
    by (auto simp: providers_annotated_def json_map_def json_get_def object_of_def unwrap_or_def Let_def)
  then have "(i, entry) \<in> set (object_of (json_get ''providers'' providers)) \<longleftrightarrow>
      map_of (object_of (json_get ''providers'' providers)) i = Some entry" by simp
  then show ?thesis unfolding annotated_entry [OF assms] by (auto split: option.splits)
qed

lemma annotated_flags:
  "flag ''key_injectable'' (JObj [(''models'', a), (''key_injectable'', JBool b), (''key_configured'', JBool c)]) = b"
  "flag ''key_configured'' (JObj [(''models'', a), (''key_injectable'', JBool b), (''key_configured'', JBool c)]) = c"
  "model_rows (JObj [(''models'', json_get ''models'' e), x, y]) = model_rows e"
  by (simp_all add: flag_def model_rows_def json_get_def unwrap_or_def as_bool_def)

lemma usable_iff:
  assumes "json_get ''providers'' (we_providers E) = JObj kvs" "distinct (map fst kvs)"
    and "providers_annotated E s = Inr providers"
  shows "(i, models) \<in> set (usable_providers providers) \<longleftrightarrow>
    (\<exists>e. map_of kvs i = Some e \<and> models = model_rows e) \<and> provider_env_and_host i \<noteq> None \<and>
    (''provider'', i) \<in> set (inventory (ws_secrets s))"
  by (auto simp: usable_providers_def annotated_object [OF assms] annotated_flags image_iff Bex_def)


section \<open>What goes wrong\<close>

text \<open>A key that pi cannot use is offered as a secret, and refused by the preflight.\<close>

lemma offered_secret_refused:
  assumes "json_get ''providers'' (we_providers E) = JObj kvs" "distinct (map fst kvs)"
    and "providers_annotated E s = Inr providers"
    and "map_of kvs p = Some e" "(''provider'', p) \<in> set (inventory (ws_secrets s))" "provider_env_and_host p = None"
  shows "p \<in> set (configured_providers providers)"
    "p \<in> set (ss_providers (m_secrets m)) \<Longrightarrow> preflight m (ws_secrets s) \<noteq> Inr ()"
proof -
  show "p \<in> set (configured_providers providers)"
    using assms(4,5) by (force simp: configured_providers_def annotated_object [OF assms(1-3)] annotated_flags image_iff)
  show "preflight m (ws_secrets s) \<noteq> Inr ()" if "p \<in> set (ss_providers (m_secrets m))"
    using that assms(6) by (auto simp: preflight_def Let_def filter_empty_conv split: option.splits)
qed

text \<open>An error in the form leaves the old text, which is still submitted.\<close>

lemma stale_text_submitted:
  assumes "fe_parse E (cf_toml_text f) = Inr m" "\<not> cf_toml_edited f"
    and "cf_version f \<noteq> [] \<or> ctx_versions cx f = []" "cf_provider f \<noteq> []" "cf_model f \<noteq> []"
  shows "snd (show_create E cx (RightInput PressCreate) (fst (show_create E cx (LeftInput (FormName [])) f))) =
    Some (cf_toml_text f)"
proof -
  have quiet: "apply_defaults E cx g = g" if "cf_version g \<noteq> [] \<or> ctx_versions cx g = []" "cf_provider g \<noteq> []" "cf_model g \<noteq> []" for g
    using that by (auto simp: apply_defaults_def defaults_due_def default_provider_def default_model_def default_version_def)
  have "fst (show_create E cx (LeftInput (FormName [])) f) = f\<lparr>cf_name := [], cf_parse_error := Some ''name is required''\<rparr>"
    using quiet [OF assms(3-5)] assms(2) by (simp add: show_create_def left_column_def regenerate_toml_def to_manifest_def)
  moreover have "apply_defaults E cx (f\<lparr>cf_name := [], cf_parse_error := e\<rparr>) = f\<lparr>cf_name := [], cf_parse_error := e\<rparr>" for e
    using assms(3-5) by (intro quiet) (cases "cc_harnesses cx"; simp add: ctx_versions_def)+
  ultimately show ?thesis using assms(1) by (simp add: show_create_def press_create_def)
qed

text \<open>A section the form has no field for is dropped by the next edit of the form.\<close>

lemma edit_drops_sections:
  assumes "fe_parse E (cf_toml_text f) = Inr m" "m_provision m \<noteq> None"
    and "to_manifest ((apply_toml E f)\<lparr>cf_name := n\<rparr>) = Inr m'"
  shows "cf_toml_text (left_column E cx (FormName n) (apply_toml E f)) = unwrap_or [] (fe_print E m') \<and>
    m_provision m' = None"
proof -
  have "\<not> cf_toml_edited (apply_toml E f)" using assms(1) by (simp add: apply_toml_def load_manifest_def)
  moreover have "m_provision m' = None" using to_manifest_representable [OF assms(3)] by (simp add: representable_def)
  ultimately show ?thesis
    using assms(3) by (simp add: left_column_def regenerate_toml_def)
qed

text \<open>A CPU count is cut to 32 bits.\<close>

lemma vcpu_truncated:
  "to_manifest f = Inr m \<Longrightarrow>
     \<exists>m'. to_manifest (f\<lparr>cf_vcpu := ''4294967298''\<rparr>) = Inr m' \<and> r_vcpu (m_resources m') = 2"
proof -
  have "field_number ''vcpu'' 2 ''4294967298'' = Inr 4294967298"
    by (simp add: field_number_def trim_id is_ws_def parse_u64_def is_digit_def digit_val_def Let_def)
  then show "to_manifest f = Inr m \<Longrightarrow> ?thesis"
    by (auto simp: to_manifest_def res_bind_Inr_conv split: if_splits)
qed

section \<open>Witnesses\<close>

definition demo_toml :: form_env where
  "demo_toml =
     \<lparr>fe_print = (\<lambda>m. if m = minimal_manifest ''a'' ''openai'' ''gpt'' then Some ''x'' else None),
      fe_parse = (\<lambda>t. if t = ''x'' then Inr (minimal_manifest ''a'' ''openai'' ''gpt'') else Inl [])\<rparr>"

definition no_catalogs :: create_ctx where
  "no_catalogs = \<lparr>cc_providers = None, cc_harnesses = None, cc_daemon_options = []\<rparr>"

lemma no_defaults: "apply_defaults E no_catalogs f = f"
  by (simp add: no_catalogs_def apply_defaults_def defaults_due_def default_provider_def default_model_def
      default_version_def models_of_def ctx_usable_def ctx_versions_def unwrap_or_def)

theorem submitted_is_shown_witness:
  "\<exists>f f' m. dialog_reach demo_toml f \<and>
     show_create demo_toml no_catalogs (RightInput PressCreate) f = (f', Some ''x'') \<and>
     \<not> cf_toml_edited f' \<and> cf_parse_error f' = None \<and> fe_parse demo_toml ''x'' = Inr m \<and>
     (to_manifest f' = Inr m \<or> load_manifest m f' = f')"
proof -
  let ?m = "minimal_manifest ''a'' ''openai'' ''gpt''"
  let ?f1 = "(default_form demo_toml)\<lparr>cf_toml_text := ''x'', cf_toml_edited := True\<rparr>"
  let ?f2 = "load_manifest ?m (?f1\<lparr>cf_submit_attempted := True\<rparr>)"
  let ?f3 = "?f2\<lparr>cf_submit_attempted := True\<rparr>"
  have parse: "fe_parse demo_toml ''x'' = Inr ?m" by (simp add: demo_toml_def)
  have works: "toml_works demo_toml" by (simp add: toml_works_def demo_toml_def)
  have "dialog_reach demo_toml ?f1"
    using dialog_reach.frame [OF dialog_reach.opened, of demo_toml no_catalogs "RightInput (EditToml ''x'')"]
    by (simp add: show_create_def no_defaults)
  then have reach: "dialog_reach demo_toml ?f2"
    using dialog_reach.frame [of demo_toml ?f1 no_catalogs "RightInput ApplyToml"] parse
    by (simp add: show_create_def no_defaults apply_toml_def)
  have typed: "cf_toml_text ?f2 = ''x''" by (simp add: load_manifest_def)
  then have press: "show_create demo_toml no_catalogs (RightInput PressCreate) ?f2 = (?f3, Some ''x'')"
    using parse by (simp add: show_create_def no_defaults press_create_def)
  have quiet: "\<not> cf_toml_edited ?f3" "cf_parse_error ?f3 = None" by (simp_all add: load_manifest_def)
  from submitted_is_shown [OF works reach press] quiet show ?thesis using reach press by blast
qed


end
