(* ===== verification/Prompt_Flow.thy ===== *)
theory Prompt_Flow
  imports Wake_Theorems Control_Theorems Host_Control Client_Api
begin

text \<open>
  Prompting an agent (\<open>session_prompt\<close> of crates/suzerain/src/web_session.rs): a sleeping agent's
  prompt is queued and its wake started, an awake one's goes over a short attach stream whose first
  frame is the answer. Parameters: the handshake of that stream, and \<open>gap\<close>, what other tasks do
  between the first look at the agent and the second. The wake that is started or joined is run to
  its end after the answer; the second state of a result is the one after it.
\<close>

section \<open>The handler\<close>

datatype handshake =
    NoStream string
  | NotWritten string
  | Unanswered
  | BrokenOff string
  | Answered attach_message

record live =
  lv_wake :: wake_state
  lv_sent :: "(string \<times> uuid \<times> attach_message) list"

record live_env =
  le_wake :: wake_env
  le_fuel :: nat
  le_show :: "wake_error \<Rightarrow> string"
  le_handshake :: "(string \<times> uuid \<times> attach_message) list \<Rightarrow> string \<Rightarrow> uuid \<Rightarrow> attach_message \<Rightarrow> handshake"

definition refused :: "nat \<Rightarrow> string \<Rightarrow> api" where
  "refused status e = Inl (status, JObj [(''error'', JStr e)])"

definition prompt_ok :: json where "prompt_ok = JObj [(''ok'', JBool True)]"

definition prompt_queued :: json where
  "prompt_queued = JObj [(''ok'', JBool True), (''queued'', JBool True), (''status'', JStr ''waking'')]"

definition body_message :: "json \<Rightarrow> string" where
  "body_message body = unwrap_or [] (as_str (json_get ''message'' body))"

definition body_mode :: "json \<Rightarrow> string" where
  "body_mode body = unwrap_or ''prompt'' (as_str (json_get ''mode'' body))"

definition mode_message :: "string \<Rightarrow> string \<Rightarrow> attach_message option" where
  "mode_message mode message =
     (if mode = ''prompt'' then Some (AttPrompt message)
      else if mode = ''steer'' then Some (AttSteer message)
      else if mode = ''follow_up'' then Some (AttFollowUp message)
      else if mode = ''abort'' then Some AttAbort
      else None)"

definition handshake_answer :: "handshake \<Rightarrow> api" where
  "handshake_answer h =
     (case h of
        NoStream e \<Rightarrow> refused 409 e
      | NotWritten e \<Rightarrow> refused 409 e
      | Answered (AttNotice m) \<Rightarrow>
          if m = ''attached'' then Inr prompt_ok else refused 409 (''agent cannot accept messages: '' @ m)
      | Answered _ \<Rightarrow> Inr prompt_ok
      | BrokenOff e \<Rightarrow>
          refused 409 (''attach stream closed before the agent acknowledged (agent not running?): '' @ e)
      | Unanswered \<Rightarrow>
          refused 409 (''agent did not acknowledge the attach within 10s (wedged or not running '' @ dash_text @
            '' try agent_start with force)''))"

definition reached :: "handshake \<Rightarrow> bool" where
  "reached h \<longleftrightarrow> (case h of NoStream _ \<Rightarrow> False | NotWritten _ \<Rightarrow> False | _ \<Rightarrow> True)"

definition prompt_awake :: "live_env \<Rightarrow> agent_row \<Rightarrow> attach_message \<Rightarrow> live \<Rightarrow> api \<times> live" where
  "prompt_awake E agent msg v =
     (case we_parse_eid (le_wake E) (a_daemon_endpoint_id agent) of
        None \<Rightarrow> (refused 409 (le_show E (WkBadEndpoint (a_daemon_endpoint_id agent))), v)
      | Some daemon \<Rightarrow>
          (let h = le_handshake E (lv_sent v) daemon (a_id agent) msg
           in (handshake_answer h,
               if reached h then v\<lparr>lv_sent := lv_sent v @ [(daemon, a_id agent, msg)]\<rparr> else v)))"

definition on_live :: "(wake_state \<Rightarrow> wake_state) \<Rightarrow> live \<Rightarrow> live" where
  "on_live f v = v\<lparr>lv_wake := f (lv_wake v)\<rparr>"

definition prompt_asleep ::
    "live_env \<Rightarrow> (control_plane \<Rightarrow> control_plane) \<Rightarrow> agent_row \<Rightarrow> string \<Rightarrow> live \<Rightarrow> (api \<times> live \<times> live) option" where
  "prompt_asleep E gap agent message v =
     (let W = le_wake E;
          u1 = on_live (on_cp gap \<circ> on_wk_store (\<lambda>s. fst (enqueue_message (a_id agent) message (we_ts W) s))) v;
          w1 = lv_wake u1
      in if is_awake (we_parse_eid W) (wk_cp w1) agent then
           map_option (\<lambda>(r, w2).
               let u2 = u1\<lparr>lv_wake := w2\<rparr>
               in (case r of Inl e \<Rightarrow> refused 409 (le_show E e) | Inr _ \<Rightarrow> Inr prompt_queued, u2, u2))
             (flush_pending (le_fuel E) (we_parse_eid W) (we_attach W) (we_text_of W) (we_ts W) agent
               (we_arrivals W) w1)
         else
           map_option (\<lambda>(r, w2). (Inr prompt_queued, u1, u1\<lparr>lv_wake := w2\<rparr>)) (wake_agent W (le_fuel E) agent w1))"

definition sleeping_text :: string where
  "sleeping_text = ''agent is sleeping '' @ dash_text @ '' send a prompt to wake it''"

definition session_prompt ::
    "web_env \<Rightarrow> live_env \<Rightarrow> (control_plane \<Rightarrow> control_plane) \<Rightarrow> string \<Rightarrow> json \<Rightarrow> live \<Rightarrow> (api \<times> live \<times> live) option" where
  "session_prompt W E gap name body v =
     (case lookup_agent_row W 409 name \<lparr>ws_cp = wk_cp (lv_wake v), ws_secrets = wk_secrets (lv_wake v),
             ws_config_allow = None\<rparr> of
        Inl e \<Rightarrow> Some (Inl e, v, v)
      | Inr agent \<Rightarrow>
          if body_message body = [] then Some (refused 422 ''message required'', v, v)
          else (case mode_message (body_mode body) (body_message body) of
             None \<Rightarrow> Some (refused 422 (''unknown mode '' @ quoted (body_mode body)), v, v)
           | Some msg \<Rightarrow>
               if is_awake (we_parse_eid (le_wake E)) (wk_cp (lv_wake v)) agent then
                 (case prompt_awake E agent msg v of (r, u1) \<Rightarrow> Some (r, u1, u1))
               else (case msg of
                  AttPrompt message \<Rightarrow> prompt_asleep E gap agent message v
                | _ \<Rightarrow> Some (refused 409 sleeping_text, v, v))))"

end
