(* ===== verification/Prompt_Theorems.thy ===== *)
theory Prompt_Theorems
  imports Prompt_Flow
begin

text \<open>
  What becomes of a prompt: it is refused without a trace, sent once over an attach stream, or put
  last into the agent's queue; and a prompt to a sleeping agent whose daemon answers is delivered by
  the wake it starts.
\<close>

section \<open>From the queue to the agent\<close>

lemma queued_agent_ops [simp]:
  "queued i (update_agent_state j st s) = queued i s"
  "queued i (set_agent_woke_at j ts s) = queued i s"
  "queued i (set_needs_attention j b s) = queued i s"
  by (simp_all add: queued_def pending_messages_def agent_op_defs)

lemma agent_lock_frame [simp]:
  "cp_store (snd (agent_lock i cp)) = cp_store cp" "session d (snd (agent_lock i cp)) = session d cp"
  by (auto simp: agent_lock_def session_def Let_def split: option.splits)

lemma wake_ok_delivers:
  assumes "store_inv (wk_store w)" "lookup_agent (a_id agent) (wk_store w) \<noteq> None"
    and "Suc (length arrivals) < fuel" "parse_eid (a_daemon_endpoint_id agent) = Some d"
    and "\<And>ps m. accepted_reply (attach ps d (a_id agent) m)"
  shows "\<exists>w'. wake_ok fuel parse_eid attach tx ts agent arrivals w = Some (Inr (), w') \<and>
    (\<exists>row. lookup_agent (a_id agent) (wk_store w') = Some row \<and> a_state row = Active) \<and>
    queued (a_id agent) (wk_store w') = [] \<and>
    wk_prompts w' = wk_prompts w @ map (\<lambda>bs. (d, a_id agent, join batch_separator bs))
      (takeWhile (\<lambda>bs. bs \<noteq> []) (map snd (queued (a_id agent) (wk_store w)) # arrivals))"
proof -
  let ?s = "wake_settle agent ts w" and ?a = "agent\<lparr>a_state := Active\<rparr>"
  have inv: "store_inv (wk_store ?s)" using assms(1) by (simp add: wake_settle_def agent_ops_inv)
  have same: "queued (a_id agent) (wk_store ?s) = queued (a_id agent) (wk_store w)" "wk_prompts ?s = wk_prompts w"
    by (simp_all add: wake_settle_def)
  have "flush_rounds (a_id ?a) arrivals ?s < fuel" using assms(3) by (simp add: flush_rounds_def)
  from flush_delivers [where agent = ?a and parse_eid = parse_eid and attach = attach and text_of = tx and ts = ts,
      OF inv this, of d] assms(4,5)
  obtain w2 where w2: "flush_pending fuel parse_eid attach tx ts ?a arrivals ?s = Some (Inr (), w2)"
    "wk_prompts w2 = wk_prompts w @ map (\<lambda>bs. (d, a_id agent, join batch_separator bs))
      (takeWhile (\<lambda>bs. bs \<noteq> []) (map snd (queued (a_id agent) (wk_store w)) # arrivals))"
    by (auto simp: same)
  have "wake_ready (a_id agent) w" using assms(1,2) by (simp add: wake_ready_def)
  from wake_ok_settled [where parse_eid = parse_eid and attach = attach and text_of = tx and ts = ts, OF this assms(3)]
  obtain r w' where w': "wake_ok fuel parse_eid attach tx ts agent arrivals w = Some (r, w')"
    "wake_settled (a_id agent) ts r w'" by blast
  have "r = Inr ()" "wk_prompts w' = wk_prompts w2" using w'(1) w2(1) by (auto simp: wake_ok_def)
  then show ?thesis using w' w2(2) by (auto simp: wake_settled_def)
qed

lemma first_attempt_starts:
  assumes "daemon_online (we_parse_eid W) (wk_cp w) (a_daemon_endpoint_id agent)"
    and "same_daemon_start (we_net W) (we_parse_eid W) (we_ts W) agent
      (wake_emit (a_id agent) ''starting'' (Some (''attempt '' @ show_nat n)) w) = (True, w1)"
  shows "wake_attempts W fuel n (Suc left) agent [] last_err w = wake_ok_in W fuel agent w1"
proof -
  have same: "a_daemon_endpoint_id agent \<notin> set [] \<and> daemon_online (we_parse_eid W) (wk_cp w) (a_daemon_endpoint_id agent)"
    using assms(1) by simp
  show ?thesis
    unfolding wake_attempts.simps(2) Let_def if_P [OF same] assms(2) prod.case if_True by (rule HOL.refl)
qed

lemma wake_agent_delivers:
  assumes "store_inv (wk_store w)" "lookup_agent (a_id agent) (wk_store w) = Some agent"
    and "a_state agent \<notin> {Active, Provisioning, Restoring}"
    and "we_parse_eid W (a_daemon_endpoint_id agent) = Some d" "session d (wk_cp w) \<noteq> None"
    and "\<And>os. \<exists>ack. we_net W os d (StartAgent (a_id agent) False) = Acked ack \<and> ack_success ack"
    and "\<And>ps m. accepted_reply (we_attach W ps d (a_id agent) m)"
    and "Suc (length (we_arrivals W)) < fuel"
  shows "\<exists>w'. wake_agent W fuel agent w = Some (Inr (), w') \<and>
    (\<exists>row. lookup_agent (a_id agent) (wk_store w') = Some row \<and> a_state row = Active) \<and>
    queued (a_id agent) (wk_store w') = [] \<and>
    wk_prompts w' = wk_prompts w @ map (\<lambda>bs. (d, a_id agent, join batch_separator bs))
      (takeWhile (\<lambda>bs. bs \<noteq> []) (map snd (queued (a_id agent) (wk_store w)) # we_arrivals W))"
proof -
  let ?w0 = "on_cp (\<lambda>cp. snd (agent_lock (a_id agent) cp)) w"
  let ?w1 = "wake_emit (a_id agent) ''starting'' (Some (''attempt '' @ show_nat 1)) (wake_emit (a_id agent) ''queued'' None ?w0)"
  have get: "get_agent (a_id agent) (wk_store ?w0) = Inr (Some agent)"
    using assms(2) by (auto simp: lookup_agent_def split: sum.splits)
  have asleep: "\<not> is_awake (we_parse_eid W) cp agent" for cp using assms(3) by (simp add: is_awake_def)
  obtain ses where ses: "session d (wk_cp ?w0) = Some ses" using assms(5) by auto
  obtain ack where ack: "we_net W (cp_orders (wk_cp ?w0)) d (StartAgent (a_id agent) False) = Acked ack" "ack_success ack"
    using assms(6) by blast
  let ?cp2 = "(wk_cp ?w0)\<lparr>cp_orders := cp_orders (wk_cp ?w0) @ [(d, StartAgent (a_id agent) False)]\<rparr>"
  have start: "same_daemon_start (we_net W) (we_parse_eid W) (we_ts W) agent ?w1 = (True, ?w1\<lparr>wk_cp := ?cp2\<rparr>)"
    using ses ack assms(4) by (simp add: same_daemon_start_def order_def)
  have online: "daemon_online (we_parse_eid W) (wk_cp ?w0) (a_daemon_endpoint_id agent)"
    using assms(4) ses by (simp add: daemon_online_def)
  obtain left where left: "unat (max (au_wake_retry_attempts (we_cfg W)) 1) = Suc left"
    by (metis One_nat_def Suc_pred max.cobounded2 not_gr_zero unsigned_1 word_le_nat_alt not_one_le_zero)
  have "wake_agent W fuel agent w = wake_retries W fuel agent ?w0"
    using get asleep assms(3) by (simp add: wake_agent_def Let_def)
  moreover have "daemon_online (we_parse_eid W) (wk_cp (wake_emit (a_id agent) ''queued'' None ?w0)) (a_daemon_endpoint_id agent)"
    using online by simp
  ultimately have "wake_agent W fuel agent w = wake_ok_in W fuel agent (?w1\<lparr>wk_cp := ?cp2\<rparr>)"
    using first_attempt_starts [OF _ start] by (simp only: wake_retries_def left)
  moreover have "store_inv (wk_store (?w1\<lparr>wk_cp := ?cp2\<rparr>))" "wk_store (?w1\<lparr>wk_cp := ?cp2\<rparr>) = wk_store w"
    "wk_prompts (?w1\<lparr>wk_cp := ?cp2\<rparr>) = wk_prompts w"
    using assms(1) by simp_all
  ultimately show ?thesis
    using wake_ok_delivers [where w = "?w1\<lparr>wk_cp := ?cp2\<rparr>" and parse_eid = "we_parse_eid W" and attach = "we_attach W"
        and tx = "we_text_of W" and ts = "we_ts W", OF _ _ assms(8,4,7)] assms(2) by simp
qed


text \<open>Every other answer, with nothing happening in between.\<close>

lemma asleep_stays [simp]: "is_awake parse (wk_cp (on_wk_store f w)) agent = is_awake parse (wk_cp w) agent"
  by (simp add: is_awake_def session_def split: option.split)

lemma prompt_asleep_answer:
  assumes "\<not> is_awake (we_parse_eid (le_wake E)) (wk_cp (lv_wake v)) agent"
    and "prompt_asleep E (\<lambda>cp. cp) agent m v = Some (r, u, u')"
  shows "r = Inr prompt_queued \<and> lv_sent u = lv_sent v \<and>
    lv_wake u = on_wk_store (\<lambda>s. fst (enqueue_message (a_id agent) m (we_ts (le_wake E)) s)) (lv_wake v)"
proof -
  have "on_cp (\<lambda>cp. cp) w = w" for w by (simp add: on_cp_def)
  then show ?thesis using assms by (auto simp: prompt_asleep_def on_live_def Let_def)
qed

lemma prompt_answers:
  assumes "session_prompt W E (\<lambda>cp. cp) name body v = Some (r, u, u')"
  shows "(case r of
      Inl e \<Rightarrow> lv_wake u = lv_wake v \<and> u' = u
    | Inr j \<Rightarrow>
        (\<exists>d (agent :: agent_row) msg. j = prompt_ok \<and> u' = u \<and> lv_wake u = lv_wake v \<and> lv_sent u = lv_sent v @ [(d, a_id agent, msg)] \<and>
           is_awake (we_parse_eid (le_wake E)) (wk_cp (lv_wake v)) agent) \<or>
        (\<exists>agent :: agent_row. j = prompt_queued \<and> lv_sent u = lv_sent v \<and>
           lv_wake u = on_wk_store (\<lambda>s. fst (enqueue_message (a_id agent) (body_message body) (we_ts (le_wake E)) s)) (lv_wake v)))"
proof -
  consider e where "r = Inl e" "u = v" "u' = v"
    | agent msg where "is_awake (we_parse_eid (le_wake E)) (wk_cp (lv_wake v)) agent"
        "prompt_awake E agent msg v = (r, u)" "u' = u"
    | agent where "\<not> is_awake (we_parse_eid (le_wake E)) (wk_cp (lv_wake v)) agent"
        "prompt_asleep E (\<lambda>cp. cp) agent (body_message body) v = Some (r, u, u')"
    using assms
    by (auto simp: session_prompt_def refused_def mode_message_def split: sum.splits if_splits attach_message.splits prod.splits)
  then show ?thesis
  proof cases
    case 2
    then show ?thesis
      by (auto simp: prompt_awake_def Let_def reached_def handshake_answer_def refused_def
          split: option.splits sum.splits handshake.splits attach_message.splits if_splits)
  next
    case 3
    then show ?thesis using prompt_asleep_answer [OF 3] by auto
  qed simp
qed

text \<open>
  The daemon attaches before it looks at the message: a prompt that pi rejects is acknowledged all the
  same, here and in the delivery of the queue, and the rejection is a frame that nobody reads.\<close>

lemma rejected_prompt_is_acknowledged:
  assumes "start_attach P H i h = (Inr (), ms, h1)" "attach_input P H i (AttPrompt m) h1 = (Inr replies, h2)"
    and "host_prompt_agent P H i m h1 = (Inl e, h2)"
  shows "replies = [AttNotice (''prompt rejected: '' @ he_show H e)]"
    "handshake_answer (Answered (hd (ms @ replies))) = Inr prompt_ok"
    "accepted_reply (NoticeFrame ''attached'')" "hd (ms @ replies) = AttNotice ''attached''"
  using assms by (auto simp: start_attach_def attach_input_def handshake_answer_def accepted_reply_def
      split: prod.splits sum.splits)

text \<open>The Abort button of the desktop client, pressed with nothing typed, sends what the server refuses.\<close>

lemma abort_without_text_refused:
  assumes "get_agent_by_name name (wk_store (lv_wake v)) = Inr (Some agent)"
    and "agent_target (CPrompt name [] ModeAbort) = SessionPrompt name body"
  shows "session_prompt W E gap name body v = Some (refused 422 ''message required'', v, v)"
proof -
  have "body_message body = []"
    using assms(2) by (auto simp: body_message_def json_get_def unwrap_or_def as_str_def)
  then show ?thesis using assms(1) by (simp add: session_prompt_def lookup_agent_row_def)
qed

section \<open>A witness\<close>

definition demo_sleeper :: agent_row where
  "demo_sleeper = demo_suspended\<lparr>a_idle_secs := None, a_busy := None, a_activity_reported_at := None\<rparr>"

definition demo_live :: live where
  "demo_live = \<lparr>lv_wake = on_cp (\<lambda>cp. cp\<lparr>cp_sessions := [''d'' \<mapsto> \<lparr>ds_info = demo_info, ds_epoch = 1\<rparr>]\<rparr>) demo_wake, lv_sent = []\<rparr>"

definition demo_live_env :: live_env where
  "demo_live_env = \<lparr>le_wake = demo_env, le_fuel = 2, le_show = (\<lambda>_. []), le_handshake = (\<lambda>_ _ _ _. Unanswered)\<rparr>"


end
