(* ===== verification/Session_Relay.thy ===== *)
theory Session_Relay
  imports Prompt_Flow Client_Stream
begin

text \<open>
  Live sessions and shells on the server: \<open>run_session\<close> and \<open>session_sse\<close> of
  crates/suzerain/src/web_session.rs, \<open>dial_agent_shell\<close> and \<open>shell_relay\<close> of web.rs, and the streams
  of the operator channel (\<open>stream_op\<close> and \<open>shell_op\<close> of operator.rs). What a task waits for is its
  input, with the control plane at that moment; a peer that goes away cuts the output short and is
  left out. Parameters: the answer of \<open>open_stream_retry\<close> and the texts of errors.
\<close>

section \<open>A session\<close>

record relay_env =
  rl_web :: web_env
  rl_parse_eid :: "string \<Rightarrow> string option"
  rl_open :: "control_plane \<Rightarrow> string \<Rightarrow> uuid \<Rightarrow> string option"
  rl_bad_endpoint :: "string \<Rightarrow> string"

datatype relay_out = OutHistory json | OutHistoryEnd | OutEvent json | OutError string

datatype relay_input =
  WakeNews uuid string "string option"
| WakeLagged
| WakeClosed
| WakeTick
| RelayFrame attach_message
| RelayLost

datatype relay_phase = Waiting uuid | Relaying | Ended

definition status_event :: "string \<Rightarrow> string \<Rightarrow> relay_out" where
  "status_event status message =
     OutEvent (JObj [(''type'', JStr ''status''), (''status'', JStr status), (''message'', JStr message)])"

definition notice_event :: "string \<Rightarrow> relay_out" where
  "notice_event message = OutEvent (JObj [(''type'', JStr ''notice''), (''message'', JStr message)])"

text \<open>The error of a lookup ends the session with an \<open>error\<close> event.\<close>

definition find_agent :: "relay_env \<Rightarrow> string \<Rightarrow> control_plane \<Rightarrow> string + agent_row" where
  "find_agent R name cp =
     (case get_agent_by_name name (cp_store cp) of
        Inl e \<Rightarrow> Inl (we_show_store (rl_web R) e)
      | Inr None \<Rightarrow> Inl (''no agent named '' @ quoted name)
      | Inr (Some a) \<Rightarrow> Inr a)"

definition relay_dial :: "relay_env \<Rightarrow> string \<Rightarrow> control_plane \<Rightarrow> relay_out list \<times> relay_phase" where
  "relay_dial R name cp =
     (case find_agent R name cp of
        Inl e \<Rightarrow> ([OutError e], Ended)
      | Inr agent \<Rightarrow>
          (case rl_parse_eid R (a_daemon_endpoint_id agent) of
             None \<Rightarrow> ([OutError (rl_bad_endpoint R (a_daemon_endpoint_id agent))], Ended)
           | Some daemon \<Rightarrow>
               (case rl_open R cp daemon (a_id agent) of
                  Some e \<Rightarrow> ([OutError e], Ended)
                | None \<Rightarrow> ([], Relaying))))"

definition relay_check :: "relay_env \<Rightarrow> string \<Rightarrow> control_plane \<Rightarrow> relay_out list \<times> relay_phase" where
  "relay_check R name cp =
     (case find_agent R name cp of
        Inl e \<Rightarrow> ([OutError e], Ended)
      | Inr agent \<Rightarrow>
          if is_awake (rl_parse_eid R) cp agent then relay_dial R name cp
          else ([status_event (public_status (a_state agent) (a_busy agent = Some True))
                   (''agent is sleeping '' @ dash_text @ '' send a message to wake it'')], Waiting (a_id agent)))"

definition relay_awake :: "relay_env \<Rightarrow> string \<Rightarrow> uuid \<Rightarrow> control_plane \<Rightarrow> relay_out list \<times> relay_phase" where
  "relay_awake R name i cp =
     (case find_agent R name cp of
        Inl e \<Rightarrow> ([OutError e], Ended)
      | Inr cur \<Rightarrow>
          if is_awake (rl_parse_eid R) cp cur then
            (case relay_dial R name cp of
               (out, phase) \<Rightarrow> (status_event ''ready'' ''agent is awake'' # out, phase))
          else ([], Waiting i))"

definition after_output :: "relay_out list \<Rightarrow> relay_out list \<times> relay_phase \<Rightarrow> relay_out list \<times> relay_phase" where
  "after_output out r = (out @ fst r, snd r)"

fun relay_step :: "relay_env \<Rightarrow> string \<Rightarrow> control_plane \<Rightarrow> relay_input \<Rightarrow> relay_phase \<Rightarrow> relay_out list \<times> relay_phase" where
  "relay_step R name cp inp (Waiting i) =
     (case inp of
        WakeNews j status detail \<Rightarrow>
          after_output (if j = i then [status_event status (unwrap_or status detail)] else []) (relay_awake R name i cp)
      | WakeLagged \<Rightarrow> relay_awake R name i cp
      | WakeTick \<Rightarrow> relay_awake R name i cp
      | WakeClosed \<Rightarrow> relay_dial R name cp
      | _ \<Rightarrow> ([], Waiting i))"
| "relay_step R name cp inp Relaying =
     (case inp of
        RelayFrame (AttEvent e) \<Rightarrow> ([OutEvent e], Relaying)
      | RelayFrame (AttNotice m) \<Rightarrow> ([notice_event m], Relaying)
      | RelayLost \<Rightarrow> relay_check R name cp
      | _ \<Rightarrow> ([], Relaying))"
| "relay_step R name cp inp Ended = ([], Ended)"

fun relay_run :: "relay_env \<Rightarrow> string \<Rightarrow> (control_plane \<times> relay_input) list \<Rightarrow> relay_phase \<Rightarrow> relay_out list" where
  "relay_run R name [] phase = []"
| "relay_run R name ((cp, inp) # rest) phase =
     (case relay_step R name cp inp phase of (out, phase') \<Rightarrow> out @ relay_run R name rest phase')"

text \<open>The history of the agent's log first, then the live events.\<close>

definition run_session ::
    "relay_env \<Rightarrow> agent_row \<Rightarrow> control_plane \<Rightarrow> (control_plane \<times> relay_input) list \<Rightarrow> relay_out list" where
  "run_session R agent cp inputs =
     map OutHistory (history_items (we_parse (rl_web R)) (unwrap_or [] (we_log (rl_web R) (a_id agent)))) @ [OutHistoryEnd] @
     (case relay_check R (a_name agent) cp of (out, phase) \<Rightarrow> out @ relay_run R (a_name agent) inputs phase)"

definition session_sse ::
    "relay_env \<Rightarrow> string \<Rightarrow> control_plane \<Rightarrow> (control_plane \<times> relay_input) list \<Rightarrow> (nat \<times> json) + relay_out list" where
  "session_sse R name cp inputs =
     (case find_agent R name cp of
        Inl e \<Rightarrow> Inl (404, JObj [(''error'', JStr e)])
      | Inr agent \<Rightarrow> Inr (run_session R agent cp inputs))"

section \<open>On the wire\<close>

text \<open>An event of the stream: its name and the lines of its data; \<open>None\<close> is a keep-alive comment.\<close>

definition out_event :: "(json \<Rightarrow> string) \<Rightarrow> relay_out \<Rightarrow> string \<times> string" where
  "out_event print r =
     (case r of
        OutHistory j \<Rightarrow> (''history'', print j)
      | OutHistoryEnd \<Rightarrow> (''history_end'', print (JObj []))
      | OutEvent j \<Rightarrow> (''event'', print j)
      | OutError e \<Rightarrow> (''error'', e))"

definition event_text :: "string \<times> string \<Rightarrow> string" where
  "event_text m = sse_text (fst m, split_on (\<lambda>c. c = newline) (snd m))"

definition keep_alive :: string where "keep_alive = [CHR '':'', newline, newline]"

definition wire :: "(string \<times> string) option list \<Rightarrow> string" where
  "wire ms = concat (map (case_option keep_alive event_text) ms)"

text \<open>Fleet events: hints by kind, and a call to refetch everything for a receiver that lagged.\<close>

definition fleet_sse :: "(json \<Rightarrow> string) \<Rightarrow> json option \<Rightarrow> string \<times> string" where
  "fleet_sse print ev =
     (case ev of
        Some v \<Rightarrow> (unwrap_or ''event'' (as_str (json_get ''kind'' v)), print v)
      | None \<Rightarrow> (''resync'', ''{}''))"

text \<open>Bytes and characters of a stream.\<close>

definition to_bytes :: "string \<Rightarrow> u8 list" where "to_bytes = map (\<lambda>c. of_nat (of_char c))"
definition of_bytes :: "u8 list \<Rightarrow> string" where "of_bytes = map (\<lambda>b. char_of (unat b))"

text \<open>A stream over the operator channel: its chunks in base64, then the end.\<close>

definition stream_op :: "string list \<Rightarrow> operator_frame list" where
  "stream_op chunks = map (\<lambda>c. FrameChunk (base64_encode (to_bytes c))) chunks @ [FrameEnd]"

section \<open>Shells\<close>

text \<open>Notices, and the daemon and agent whose shell stream was opened.\<close>

definition dial_agent_shell ::
    "wake_env \<Rightarrow> nat \<Rightarrow> (wake_error \<Rightarrow> string) \<Rightarrow> (control_plane \<Rightarrow> string \<Rightarrow> uuid \<Rightarrow> bool) \<Rightarrow> agent_row \<Rightarrow> wake_state \<Rightarrow>
      (string list \<times> (string \<times> uuid) option \<times> wake_state) option" where
  "dial_agent_shell W fuel text_of_err opens agent w =
     (let waking = ''agent '' @ quoted (a_name agent) @ '' is sleeping '' @ dash_text @ '' waking'' @ ellipsis_text;
          reload = (\<lambda>notices w1.
            case get_agent_by_name (a_name agent) (wk_store w1) of
              Inr (Some a) \<Rightarrow>
                (case we_parse_eid W (a_daemon_endpoint_id a) of
                   None \<Rightarrow> (notices, None, w1)
                 | Some d \<Rightarrow>
                     if opens (wk_cp w1) d (a_id a) then (notices, Some (d, a_id a), w1)
                     else (notices @ [''daemon unreachable''], None, w1))
            | _ \<Rightarrow> (notices @ [''agent disappeared from the registry''], None, w1))
      in if is_awake (we_parse_eid W) (wk_cp w) agent then Some (reload [] w)
         else
           map_option (\<lambda>(r, w1). case r of
               Inl e \<Rightarrow> ([waking, ''wake failed: '' @ text_of_err e], None, w1)
             | Inr _ \<Rightarrow> reload [waking, ''agent is awake''] w1)
             (ensure_awake W fuel agent w))"

definition from_terminal :: "shell_message \<Rightarrow> bool" where
  "from_terminal m \<longleftrightarrow> (case m of ShData _ \<Rightarrow> True | ShResize _ _ \<Rightarrow> True | _ \<Rightarrow> False)"

definition is_exit :: "shell_message \<Rightarrow> bool" where
  "is_exit m \<longleftrightarrow> (case m of ShExit _ \<Rightarrow> True | _ \<Rightarrow> False)"

text \<open>The relays: what goes to the daemon and what to the client, until one of them ends.\<close>

datatype ws_input =
  WsText "shell_message option"
| WsBinary "u8 list"
| WsClosed
| WsOther
| WsFailed
| WsDaemon shell_message
| WsDaemonLost

fun shell_relay :: "ws_input list \<Rightarrow> shell_message list \<times> shell_message list" where
  "shell_relay [] = ([], [])"
| "shell_relay (i # is) =
     (case i of
        WsText (Some m) \<Rightarrow> if from_terminal m then apfst ((#) m) (shell_relay is) else shell_relay is
      | WsText None \<Rightarrow> shell_relay is
      | WsBinary b \<Rightarrow> apfst ((#) (ShData (base64_encode b))) (shell_relay is)
      | WsClosed \<Rightarrow> ([], [])
      | WsFailed \<Rightarrow> ([], [])
      | WsOther \<Rightarrow> shell_relay is
      | WsDaemon m \<Rightarrow> if is_exit m then ([], [m]) else apsnd ((#) m) (shell_relay is)
      | WsDaemonLost \<Rightarrow> ([], []))"

datatype op_input = OpClient shell_message | OpClientGone | OpDaemon shell_message | OpDaemonLost

fun op_relay :: "op_input list \<Rightarrow> shell_message list \<times> shell_message list" where
  "op_relay [] = ([], [])"
| "op_relay (i # is) =
     (case i of
        OpClient m \<Rightarrow> if from_terminal m then apfst ((#) m) (op_relay is) else op_relay is
      | OpClientGone \<Rightarrow> ([], [])
      | OpDaemon m \<Rightarrow> if is_exit m then ([], [m]) else apsnd ((#) m) (op_relay is)
      | OpDaemonLost \<Rightarrow> ([], []))"

text \<open>The shell of the operator channel: notices of the dial first.\<close>

definition shell_op ::
    "wake_env \<Rightarrow> nat \<Rightarrow> (wake_error \<Rightarrow> string) \<Rightarrow> (control_plane \<Rightarrow> string \<Rightarrow> uuid \<Rightarrow> bool) \<Rightarrow> string \<Rightarrow> op_input list \<Rightarrow>
      wake_state \<Rightarrow> (shell_message list \<times> shell_message list \<times> wake_state) option" where
  "shell_op W fuel text_of_err opens name inputs w =
     (case get_agent_by_name name (wk_store w) of
        Inl e \<Rightarrow> Some ([], [], w)
      | Inr None \<Rightarrow> Some ([], [ShNotice (''no agent named '' @ quoted name)], w)
      | Inr (Some agent) \<Rightarrow>
          map_option (\<lambda>(notices, dialed, w1).
              case dialed of
                None \<Rightarrow> ([], map ShNotice notices, w1)
              | Some _ \<Rightarrow> (case op_relay inputs of (out, back) \<Rightarrow> (out, map ShNotice notices @ back, w1)))
            (dial_agent_shell W fuel text_of_err opens agent w))"

text \<open>
  Both relays read the daemon's records inside \<open>select!\<close>. A read that is polled takes the bytes that
  have come, up to a newline; when the other side is served first the read is dropped, and with it
  the part of a line that it holds.
\<close>

datatype select_event = Arrives string | PollRead | OtherServed

fun select_read :: "select_event list \<Rightarrow> string \<Rightarrow> string \<Rightarrow> string list" where
  "select_read [] line buf = []"
| "select_read (ev # evs) line buf =
     (case ev of
        Arrives bs \<Rightarrow> select_read evs line (buf @ bs)
      | OtherServed \<Rightarrow> select_read evs [] buf
      | PollRead \<Rightarrow>
          (case read_line buf of (l, rest) \<Rightarrow>
             if l \<noteq> [] \<and> last l = newline then (line @ l) # select_read evs [] rest
             else select_read evs (line @ l) rest))"

section \<open>The client's side\<close>

text \<open>The byte stream of the operator channel (transport.rs): a frame, or what reading one gives.\<close>

fun stream_bytes :: "(string option + operator_frame) list \<Rightarrow> (string + string) list" where
  "stream_bytes [] = []"
| "stream_bytes (f # fs) =
     (case f of
        Inr (FrameChunk d) \<Rightarrow> Inr (of_bytes (b64_decode d)) # stream_bytes fs
      | Inr FrameEnd \<Rightarrow> [Inr []]
      | Inr (FrameError m) \<Rightarrow> [Inl m]
      | Inr (FrameReply status body) \<Rightarrow> [Inl ''unexpected frame'']
      | Inl None \<Rightarrow> [Inr []]
      | Inl (Some e) \<Rightarrow> [Inl e])"

definition session_item :: "(string \<Rightarrow> string + json) \<Rightarrow> string + sse_message \<Rightarrow> string + session_event" where
  "session_item parse i =
     (case i of
        Inl e \<Rightarrow> Inl e
      | Inr m \<Rightarrow>
          if sse_event m = ''history'' then map_sum (\<lambda>e. e) History (parse (sse_data m))
          else if sse_event m = ''history_end'' then Inr HistoryEnd
          else if sse_event m = ''error'' then Inr (ServerError (sse_data m))
          else map_sum (\<lambda>e. e) Live (parse (sse_data m)))"

datatype term_input = TermData "u8 list" | TermResize u16 u16

definition term_frame :: "term_input \<Rightarrow> shell_message" where
  "term_frame i = (case i of TermData bytes \<Rightarrow> ShData (b64_encode bytes) | TermResize cols rows \<Rightarrow> ShResize cols rows)"

text \<open>The shell task: what is sent for the inputs, and the messages of what is received.\<close>

datatype shell_task_input =
  TypedInput term_input
| InputClosed
| ShellFrame shell_message
| ShellBroken string
| ShellEof

fun shell_task :: "nat \<Rightarrow> string \<Rightarrow> shell_task_input list \<Rightarrow> shell_message list \<times> net_msg list" where
  "shell_task ws agent [] = ([], [])"
| "shell_task ws agent (i # is) =
     (case i of
        TypedInput t \<Rightarrow> apfst ((#) (term_frame t)) (shell_task ws agent is)
      | InputClosed \<Rightarrow> ([], [])
      | ShellFrame (ShData d) \<Rightarrow> apsnd ((#) (ShellData ws agent (of_bytes (b64_decode d)))) (shell_task ws agent is)
      | ShellFrame (ShNotice m) \<Rightarrow> apsnd ((#) (ShellNotice ws agent m)) (shell_task ws agent is)
      | ShellFrame (ShExit code) \<Rightarrow> ([], [ShellClosed ws agent (Some code) None])
      | ShellFrame (ShResize _ _) \<Rightarrow> shell_task ws agent is
      | ShellBroken e \<Rightarrow> ([], [ShellClosed ws agent None (Some e)])
      | ShellEof \<Rightarrow> ([], [ShellClosed ws agent None None]))"

text \<open>The workspace task: each of its fetches is given with the input it follows.\<close>

type_synonym fetched = "(string + json) \<times> (string + fleet_agent list) \<times> (string + json list) \<times> (string + json list)"

definition push_snapshot :: "nat \<Rightarrow> fetched \<Rightarrow> net_msg" where
  "push_snapshot ws r =
     (case r of (ro, ra, rd, rp) \<Rightarrow>
        (case res_bind ro (\<lambda>o1. res_bind ra (\<lambda>a. res_bind rd (\<lambda>d. Inr (o1, a, d)))) of
           Inl e \<Rightarrow> ConnectFailed ws e
         | Inr (o1, a, d) \<Rightarrow> Snapshot ws o1 a d (case rp of Inl _ \<Rightarrow> [] | Inr p \<Rightarrow> p)))"

datatype loop_phase = Subscribing | Subscribed | Polling

datatype loop_input =
  SubscribeOk
| SubscribeFailed string
| FleetHint fetched
| FallbackPoll fetched
| StreamFailedWith string
| StreamOver

fun loop_step :: "nat \<Rightarrow> loop_input \<Rightarrow> loop_phase \<Rightarrow> net_msg list \<times> loop_phase" where
  "loop_step ws i Subscribing =
     (case i of
        SubscribeOk \<Rightarrow> ([], Subscribed)
      | SubscribeFailed e \<Rightarrow> ([ConnectFailed ws (''events endpoint unreachable: '' @ e)], Polling)
      | _ \<Rightarrow> ([], Subscribing))"
| "loop_step ws i Subscribed =
     (case i of
        FleetHint r \<Rightarrow> ([push_snapshot ws r], Subscribed)
      | FallbackPoll r \<Rightarrow> ([push_snapshot ws r], Subscribed)
      | StreamFailedWith e \<Rightarrow> ([ConnectFailed ws (''event stream error: '' @ e)], Subscribing)
      | StreamOver \<Rightarrow> ([], Subscribing)
      | _ \<Rightarrow> ([], Subscribed))"
| "loop_step ws i Polling = (case i of FallbackPoll r \<Rightarrow> ([push_snapshot ws r], Polling) | _ \<Rightarrow> ([], Polling))"

fun loop_run :: "nat \<Rightarrow> loop_input list \<Rightarrow> loop_phase \<Rightarrow> net_msg list" where
  "loop_run ws [] phase = []"
| "loop_run ws (i # is) phase = (case loop_step ws i phase of (out, phase') \<Rightarrow> out @ loop_run ws is phase')"

definition workspace_loop ::
    "nat \<Rightarrow> string + json \<Rightarrow> string + json \<Rightarrow> string + json \<Rightarrow> fetched \<Rightarrow> loop_input list \<Rightarrow> net_msg list" where
  "workspace_loop ws info providers harnesses first inputs =
     (case info of
        Inl e \<Rightarrow> [ConnectFailed ws e]
      | Inr j \<Rightarrow>
          Connected ws j #
          (case (providers, harnesses) of (Inr p, Inr h) \<Rightarrow> [Catalogs ws p h] | _ \<Rightarrow> []) @
          [push_snapshot ws first] @ loop_run ws inputs Subscribing)"

end
