(* ===== verification/Session_Theorems.thy ===== *)
theory Session_Theorems
  imports Session_Relay Prompt_Theorems
begin

text \<open>
  Sessions and shells end to end: what the server says of a session is what the desktop client is
  told, whatever the transport does to the bytes; a shell carries every key and every output once and
  in order.
\<close>

section \<open>The wire\<close>

lemma drain_event:
  assumes "sse_plain m"
  shows "drain_blocks (sse_text m) = ([\<lparr>sse_event = fst m, sse_data = join [newline] (snd m)\<rparr>], [])"
proof -
  have "find_block_end (sse_text m) = Some (length (unlines (sse_lines m)) - 1, length (unlines (sse_lines m)) + 1)"
    using find_block_end_lines [of "sse_lines m" "[]"] assms
    by (auto simp: sse_text_def sse_lines_def sse_plain_def one_line_def list_all_iff)
  then show ?thesis
    using parse_sse_text [OF assms]
    by (simp add: drain_blocks.simps [of "sse_text m"])
      (simp add: sse_text_def butlast_conv_take drain_blocks.simps [of "[]"])
qed

lemma drain_keep_alive: "drain_blocks keep_alive = ([], [])"
  by (simp add: keep_alive_def drain_blocks.simps [of "CHR '':'' # _"] drain_blocks.simps [of "[]"] parse_block_def
      str_lines_def strip_cr_def sse_line_def starts_with_def)

lemma join_split_on: "join [d] (split_on (\<lambda>c. c = d) s) = s"
proof (induction s)
  case (Cons c s)
  obtain w ws where w: "split_on (\<lambda>c. c = d) s = w # ws"
    using split_on_nonempty by (cases "split_on (\<lambda>c. c = d) s") auto
  then show ?case using Cons by (cases ws) auto
qed simp

definition wire_plain :: "string \<times> string \<Rightarrow> bool" where
  "wire_plain m \<longleftrightarrow> one_line (fst m) \<and> trim (fst m) = fst m \<and> carriage_return \<notin> set (snd m)"

lemma split_on_sub: "w \<in> set (split_on p s) \<Longrightarrow> set w \<subseteq> set s"
proof (induction s arbitrary: w)
  case (Cons c s)
  obtain v vs where "split_on p s = v # vs" using split_on_nonempty by (cases "split_on p s") auto
  then show ?case using Cons by (fastforce split: if_splits)
qed simp

lemma event_plain: "wire_plain m \<Longrightarrow> sse_plain (fst m, split_on (\<lambda>c. c = newline) (snd m))"
  using split_on_sub [of _ "\<lambda>c. c = newline" "snd m"] split_on_pieces [of "\<lambda>c. c = newline" "snd m"]
  by (fastforce simp: wire_plain_def sse_plain_def one_line_def list_all_iff)

lemma drain_wire:
  assumes "\<forall>m \<in> set (List.map_filter id ms). wire_plain m"
  shows "drain_blocks (wire ms) = (map (\<lambda>m. \<lparr>sse_event = fst m, sse_data = snd m\<rparr>) (List.map_filter id ms), [])"
  using assms
proof (induction ms)
  case Nil
  then show ?case by (simp add: wire_def List.map_filter_def drain_blocks.simps)
next
  case (Cons x ms)
  show ?case
  proof (cases x)
    case None
    then show ?thesis using Cons drain_blocks_append [OF drain_keep_alive, of "wire ms"]
      by (simp add: wire_def List.map_filter_def)
  next
    case (Some m)
    then have "drain_blocks (event_text m) = ([\<lparr>sse_event = fst m, sse_data = snd m\<rparr>], [])"
      using Cons.prems drain_event [OF event_plain [of m]] by (simp add: event_text_def List.map_filter_def join_split_on)
    from drain_blocks_append [OF this, of "wire ms"] show ?thesis
      using Some Cons by (simp add: wire_def List.map_filter_def)
  qed
qed

lemma bytes_back: "of_bytes (to_bytes s) = s"
proof -
  have "char_of (unat (of_nat (of_char c) :: u8)) = c" for c :: char
    by (simp add: unsigned_of_nat take_bit_eq_mod)
  then show ?thesis by (simp add: of_bytes_def to_bytes_def comp_def map_idI)
qed

lemma stream_back: "stream_bytes (map Inr (stream_op chunks)) = map Inr chunks @ [Inr []]"
proof -
  have "b64_decode (base64_encode bs) = bs" for bs
    using client_base64_roundtrip [of "base64_encode bs" bs] encode_no_ws [of bs]
    by (simp add: b64_encode_eq filter_id_conv list_all_iff)
  then have "stream_bytes (map Inr (map (\<lambda>c. FrameChunk (base64_encode (to_bytes c))) cs @ [FrameEnd])) =
      map Inr cs @ [Inr []]" for cs
    by (induction cs) (simp_all add: bytes_back)
  then show ?thesis by (simp add: stream_op_def)
qed

lemma stream_items:
  assumes "[] \<notin> set chunks" "concat chunks = wire ms" "\<forall>m \<in> set (List.map_filter id ms). wire_plain m"
  shows "sse_items (chunks_to_sse (stream_bytes (map Inr (stream_op chunks)))) =
    map (\<lambda>m. Inr \<lparr>sse_event = fst m, sse_data = snd m\<rparr>) (List.map_filter id ms)"
  using sse_yields_chunks [OF assms(1), of "[Inr []]" "[]"] drain_wire [OF assms(3)] assms(2)
  by (simp add: stream_back sse_items_future sse_future_def chunks_to_sse_def sse_meaning_def comp_def)

section \<open>Sessions\<close>

text \<open>An error is the last thing a session says.\<close>

definition no_error :: "relay_out list \<Rightarrow> bool" where
  "no_error out \<longleftrightarrow> (\<forall>e. OutError e \<notin> set out)"

definition closing :: "relay_out list \<times> relay_phase \<Rightarrow> bool" where
  "closing r \<longleftrightarrow> no_error (fst r) \<or> snd r = Ended \<and> (\<exists>out e. fst r = out @ [OutError e] \<and> no_error out)"

lemma closing_prefix: "no_error pre \<Longrightarrow> closing r \<Longrightarrow> closing (after_output pre r)"
  unfolding closing_def after_output_def by (auto simp: no_error_def)

lemma no_error_simps [simp]:
  "no_error []" "no_error [status_event s m]" "no_error [notice_event m]" "no_error [OutEvent j]"
  "no_error xs \<Longrightarrow> closing (xs, phase)" "closing ([OutError e], Ended)"
  by (auto simp: no_error_def status_event_def notice_event_def closing_def)

lemma closing_steps:
  "closing (relay_dial R name cp)" "closing (relay_check R name cp)" "closing (relay_awake R name i cp)"
proof -
  show d: "closing (relay_dial R name cp)" by (simp add: relay_dial_def split: sum.split option.split)
  then show "closing (relay_check R name cp)" by (simp add: relay_check_def split: sum.split)
  have "closing (status_event s m # fst (relay_dial R name cp), snd (relay_dial R name cp))" for s m
    using closing_prefix [of "[status_event s m]" "relay_dial R name cp"] d by (simp add: after_output_def)
  then show "closing (relay_awake R name i cp)"
    by (simp add: relay_awake_def split: sum.split prod.split) (metis fst_conv snd_conv)
qed

lemma closing_step: "closing (relay_step R name cp i phase)"
proof (cases phase)
  case (Waiting j)
  then show ?thesis using closing_steps closing_prefix by (cases i) simp_all
next
  case Relaying
  then show ?thesis using closing_steps by (cases i) (simp_all split: attach_message.split)
qed simp

lemma run_ended [simp]: "relay_run R name inputs Ended = []"
  by (induction inputs) auto

definition errs_last :: "relay_out list \<Rightarrow> bool" where
  "errs_last outs \<longleftrightarrow> no_error outs \<or> (\<exists>out e. outs = out @ [OutError e] \<and> no_error out)"

lemma closing_then: "closing r \<Longrightarrow> errs_last outs \<Longrightarrow> (snd r = Ended \<Longrightarrow> outs = []) \<Longrightarrow> errs_last (fst r @ outs)"
  unfolding closing_def errs_last_def no_error_def by fastforce

lemma run_errs_last: "errs_last (relay_run R name inputs phase)"
proof (induction inputs arbitrary: phase)
  case (Cons x inputs)
  obtain cp i where x: "x = (cp, i)" by fastforce
  show ?case
    using closing_then [OF closing_step [of R name cp i phase] Cons.IH [of "snd (relay_step R name cp i phase)"]]
    by (auto simp: x split: prod.split)
qed (simp add: errs_last_def no_error_def)

lemma session_errs_last: "errs_last (run_session R agent cp inputs)"
proof -
  obtain out phase where c: "relay_check R (a_name agent) cp = (out, phase)" by fastforce
  have "errs_last (out @ relay_run R (a_name agent) inputs phase)"
    using closing_then [OF closing_steps(2) [of R "a_name agent" cp] run_errs_last, of R "a_name agent" inputs phase] c
    by auto
  moreover have "no_error (map OutHistory hs @ [OutHistoryEnd])" for hs by (auto simp: no_error_def)
  ultimately show ?thesis
    by (auto simp: run_session_def c errs_last_def no_error_def)
qed

text \<open>The message that the client's task makes of what the server says.\<close>

fun out_msg :: "nat \<Rightarrow> string \<Rightarrow> relay_out \<Rightarrow> net_msg" where
  "out_msg k a (OutHistory j) = SessionHistory k a j"
| "out_msg k a OutHistoryEnd = SessionHistoryEnd k a"
| "out_msg k a (OutEvent j) = SessionLive k a j"
| "out_msg k a (OutError e) = SessionClosed k a (Some e)"

lemma event_names:
  "one_line (fst (out_event print r))" "trim (fst (out_event print r)) = fst (out_event print r)"
  by (cases r; simp add: out_event_def one_line_def trim_id is_ws_def Let_def)+

text \<open>The JSON values a session sends, which printing and parsing must give back.\<close>

definition sent_json :: "relay_out list \<Rightarrow> json set" where
  "sent_json outs = {j. OutHistory j \<in> set outs \<or> OutEvent j \<in> set outs}"

lemma out_item:
  assumes "\<forall>j \<in> sent_json [r]. parse (print j) = Inr j"
  shows "session_msg k a (session_item parse (Inr \<lparr>sse_event = fst (out_event print r), sse_data = snd (out_event print r)\<rparr>)) =
    out_msg k a r"
  using assms by (cases r) (simp_all add: session_item_def out_event_def session_msg_def sent_json_def)

lemma msgs_no_error:
  assumes "\<forall>j \<in> sent_json outs. parse (print j) = Inr j" "no_error outs"
  shows "session_stream_msgs k a (map (\<lambda>r. session_item parse (Inr \<lparr>sse_event = fst (out_event print r),
      sse_data = snd (out_event print r)\<rparr>)) outs @ rest) = map (out_msg k a) outs @ session_stream_msgs k a rest"
  using assms
proof (induction outs)
  case (Cons r outs)
  then show ?case using out_item [of r parse print k a] by (cases r) (auto simp: no_error_def sent_json_def)
qed simp

text \<open>C36
  A session reaches the desktop client as the server tells it: however the bytes of the stream are
  cut into chunks and sent as frames of the operator channel, and wherever keep-alives are put, the
  client's task hands on the log's history, its end, then every live event, once and in order, and
  closes with the server's error or, when the stream ends without one, without an error.\<close>

theorem session_arrives:
  assumes "\<forall>j \<in> sent_json outs. parse (print j) = Inr j"
    and "session_sse R name cp inputs = Inr outs"
    and "\<forall>r \<in> set outs. carriage_return \<notin> set (snd (out_event print r))"
    and "List.map_filter id ms = map (out_event print) outs"
    and "[] \<notin> set chunks" "concat chunks = wire ms"
  shows "session_stream_msgs k a (map (session_item parse)
      (sse_items (chunks_to_sse (stream_bytes (map Inr (stream_op chunks)))))) =
    map (out_msg k a) outs @ (if no_error outs then [SessionClosed k a None] else [])"
proof -
  have plain: "\<forall>m \<in> set (List.map_filter id ms). wire_plain m"
    using assms(3,4) event_names by (auto simp: wire_plain_def)
  have items: "map (session_item parse) (sse_items (chunks_to_sse (stream_bytes (map Inr (stream_op chunks))))) =
      map (\<lambda>r. session_item parse (Inr \<lparr>sse_event = fst (out_event print r), sse_data = snd (out_event print r)\<rparr>)) outs"
    by (simp add: stream_items [OF assms(5,6) plain] assms(4) comp_def)
  obtain agent where "outs = run_session R agent cp inputs"
    using assms(2) by (auto simp: session_sse_def split: sum.splits)
  then consider "no_error outs" | out e where "outs = out @ [OutError e]" "no_error out" "\<not> no_error outs"
    using session_errs_last [of R agent cp inputs] by (auto simp: errs_last_def no_error_def)
  then show ?thesis
  proof cases
    case 1
    then show ?thesis
      using msgs_no_error [OF assms(1), of k a "[]"] by (simp add: items)
  next
    case 2
    then show ?thesis
      using msgs_no_error [of out parse print k a "[session_item parse (Inr \<lparr>sse_event = ''error'', sse_data = e\<rparr>)]"]
        assms(1) unfolding sent_json_def
      by (simp add: items out_event_def session_item_def session_msg_def)
  qed
qed

text \<open>A sleeping agent, whose session starts again when the wake service is gone, and is refused.\<close>

definition demo_relay :: relay_env where
  "demo_relay = \<lparr>rl_web = demo_web, rl_parse_eid = Some, rl_open = (\<lambda>_ _ _. Some ''refused''),
     rl_bad_endpoint = (\<lambda>_. [])\<rparr>"

definition demo_status :: json where
  "demo_status = JObj [(''type'', JStr ''status''), (''status'', JStr ''sleeping''),
     (''message'', JStr (''agent is sleeping '' @ dash_text @ '' send a message to wake it''))]"

theorem session_arrives_witness:
  "session_stream_msgs 0 ''n'' (map (session_item (\<lambda>_. Inr demo_status)) (sse_items (chunks_to_sse (stream_bytes (map Inr
      (stream_op [wire [Some (''history_end'', ''x''), None, Some (''event'', ''x''), Some (''error'', ''refused'')]])))))) =
    [SessionHistoryEnd 0 ''n'', SessionLive 0 ''n'' demo_status, SessionClosed 0 ''n'' (Some ''refused'')]"
proof -
  let ?cp = "wk_cp (lv_wake demo_live)" and ?outs = "[OutHistoryEnd, OutEvent demo_status, OutError ''refused'']"
  let ?ms = "[Some (''history_end'', ''x''), None, Some (''event'', ''x''), Some (''error'', ''refused'')]"
  have agent: "get_agent_by_name ''n'' (cp_store ?cp) = Inr (Some demo_sleeper)"
    by (simp add: demo_live_def demo_wake_def initial_cp_def demo_wake_store_def create_agent_def empty_store_def
        demo_sleeper_def demo_suspended_def demo_idle_agent_def enqueue_message_def set_all_daemons_offline_def emit_def
        get_agent_by_name_def row_to_agent_def parse_state_def state_str_def Let_def)
  have s: "session_sse demo_relay ''n'' ?cp [(?cp, WakeClosed)] = Inr ?outs"
    using agent
    by (simp add: session_sse_def find_agent_def run_session_def relay_check_def relay_dial_def is_awake_def
        demo_relay_def demo_sleeper_def demo_suspended_def demo_idle_agent_def demo_web_def unwrap_or_def history_items_def
        parsed_lines_def List.map_filter_def status_event_def demo_status_def public_status_def str_lines_def)
  have "wire ?ms \<noteq> []" by (simp add: wire_def keep_alive_def)
  then have w: "[] \<notin> set [wire ?ms]" "concat [wire ?ms] = wire ?ms" by simp_all
  have j: "\<forall>j \<in> sent_json ?outs. (\<lambda>_. Inr demo_status) ((\<lambda>_. ''x'') j) = (Inr j :: string + json)"
    by (simp add: sent_json_def)
  have p: "\<forall>r \<in> set ?outs. carriage_return \<notin> set (snd (out_event (\<lambda>_. ''x'') r))" by (simp add: out_event_def)
  have m: "List.map_filter id ?ms = map (out_event (\<lambda>_. ''x'')) ?outs" by (simp add: out_event_def List.map_filter_def)
  from session_arrives [OF j s p m w, of 0 "''n''"] show ?thesis by (simp add: no_error_def)
qed

section \<open>Shells\<close>

text \<open>What the guest's end reads, as bytes typed or a new size; what a shell says, and how it arrives.\<close>

definition terminal_reads :: "shell_message \<Rightarrow> term_input option" where
  "terminal_reads m =
     (case m of
        ShData d \<Rightarrow> (case base64_decode d of Inr bytes \<Rightarrow> Some (TermData bytes) | Inl _ \<Rightarrow> None)
      | ShResize c r \<Rightarrow> Some (TermResize c r)
      | _ \<Rightarrow> None)"

definition output_frame :: "u8 list + string \<Rightarrow> shell_message" where
  "output_frame x = (case x of Inl bytes \<Rightarrow> ShData (base64_encode bytes) | Inr m \<Rightarrow> ShNotice m)"

definition output_msg :: "nat \<Rightarrow> string \<Rightarrow> u8 list + string \<Rightarrow> net_msg" where
  "output_msg ws a x = (case x of Inl bytes \<Rightarrow> ShellData ws a (of_bytes bytes) | Inr m \<Rightarrow> ShellNotice ws a m)"

lemma terminal_reads_back: "terminal_reads (term_frame t) = Some t" "from_terminal (term_frame t)"
  by (cases t; simp add: term_frame_def terminal_reads_def from_terminal_def b64_encode_eq base64_roundtrip)+

lemma client_decodes: "b64_decode (base64_encode bs) = bs"
  using client_base64_roundtrip [of "base64_encode bs" bs] encode_no_ws [of bs]
  by (simp add: b64_encode_eq filter_id_conv list_all_iff)

lemma output_no_exit [simp]: "\<not> is_exit (output_frame x)" "\<not> is_exit (ShNotice m)"
  by (simp_all add: is_exit_def output_frame_def split: sum.split)

lemma shuffles_Cons_cases:
  assumes "i # is \<in> shuffles (map f xs) (map g ys)"
  obtains x xs' where "xs = x # xs'" "i = f x" "is \<in> shuffles (map f xs') (map g ys)"
    | y ys' where "ys = y # ys'" "i = g y" "is \<in> shuffles (map f xs) (map g ys')"
  using assms by (cases xs; cases ys) (auto simp: Cons_in_shuffles_iff)

lemma op_relay_shuffle:
  assumes "inputs \<in> shuffles (map OpClient cs) (map OpDaemon ds)"
    and "\<forall>m \<in> set cs. from_terminal m" "\<forall>m \<in> set ds. \<not> is_exit m"
  shows "op_relay (inputs @ OpDaemon (ShExit code) # later) = (cs, ds @ [ShExit code])"
  using assms
proof (induction inputs arbitrary: cs ds)
  case (Cons i inputs)
  from Cons.prems(1) show ?case using Cons by (cases rule: shuffles_Cons_cases) auto
qed (simp add: is_exit_def)

lemma shell_task_shuffle:
  assumes "inputs \<in> shuffles (map TypedInput ts) (map (\<lambda>x. ShellFrame (output_frame x)) outs)"
  shows "shell_task ws a (inputs @ ShellFrame (ShExit code) # later) =
    (map term_frame ts, map (output_msg ws a) outs @ [ShellClosed ws a (Some code) None])"
  using assms
proof (induction inputs arbitrary: ts outs)
  case (Cons i inputs)
  from Cons.prems show ?case
  proof (cases rule: shuffles_Cons_cases)
    case (2 y outs')
    then show ?thesis using Cons.IH [OF 2(3)] by (cases y) (simp_all add: output_frame_def output_msg_def client_decodes)
  qed (use Cons.IH in simp)
qed simp

text \<open>
  A shell carries everything once and in order. The terminal's keys and sizes reach the daemon's side
  of the relay as they were typed, however they interleave with the output; the client is shown the
  notices of the dial, then what the shell printed, byte for byte, then its exit code, and nothing
  after it on either side.\<close>

theorem shell_in_order:
  assumes "get_agent_by_name name (wk_store w) = Inr (Some agent)"
    and "dial_agent_shell W fuel tx opens agent w = Some (notices, Some d, w')"
    and "inputs \<in> shuffles (map OpClient (map term_frame ts)) (map OpDaemon (map output_frame outs))"
    and "seen \<in> shuffles (map TypedInput ts) (map ShellFrame (map ShNotice notices @ map output_frame outs))"
  shows "shell_op W fuel tx opens name (inputs @ OpDaemon (ShExit code) # later) w =
      Some (map term_frame ts, map ShNotice notices @ map output_frame outs @ [ShExit code], w') \<and>
    map terminal_reads (map term_frame ts) = map Some ts \<and>
    shell_task ws a (seen @ ShellFrame (ShExit code) # later') =
      (map term_frame ts, map (ShellNotice ws a) notices @ map (output_msg ws a) outs @
        [ShellClosed ws a (Some code) None])"
proof -
  have r: "op_relay (inputs @ OpDaemon (ShExit code) # later) = (map term_frame ts, map output_frame outs @ [ShExit code])"
    using op_relay_shuffle [OF assms(3)] by (simp add: terminal_reads_back)
  have "map ShellFrame (map ShNotice notices @ map output_frame outs) =
      map (\<lambda>x. ShellFrame (output_frame x)) (map Inr notices @ outs)"
    by (simp add: output_frame_def)
  then have "shell_task ws a (seen @ ShellFrame (ShExit code) # later') =
      (map term_frame ts, map (output_msg ws a) (map Inr notices @ outs) @ [ShellClosed ws a (Some code) None])"
    using shell_task_shuffle assms(4) by metis
  then show ?thesis
    using assms(1,2) r by (simp add: shell_op_def terminal_reads_back output_msg_def)
qed

text \<open>An agent that is awake.\<close>

definition demo_shell :: wake_state where
  "demo_shell = on_wk_store (update_agent_state ''i'' Active) (lv_wake demo_live)"

theorem shell_in_order_witness:
  "\<exists>w'. shell_op demo_env 2 (\<lambda>_. []) (\<lambda>_ _ _. True) ''n''
      [OpDaemon (ShData ''aGk=''), OpClient (ShData ''bA==''), OpDaemon (ShExit 0), OpClient (ShResize 80 24)] demo_shell =
    Some ([ShData ''bA==''], [ShData ''aGk='', ShExit 0], w')"
proof -
  let ?a = "demo_sleeper\<lparr>a_state := Active\<rparr>" and ?t = "[TermData [0x6C]]" and ?o = "[Inl [0x68, 0x69]] :: (u8 list + string) list"
  have agent: "get_agent_by_name ''n'' (wk_store demo_shell) = Inr (Some ?a)"
    by (simp add: demo_shell_def demo_live_def demo_wake_def initial_cp_def demo_wake_store_def create_agent_def empty_store_def
        demo_sleeper_def demo_suspended_def demo_idle_agent_def enqueue_message_def set_all_daemons_offline_def emit_def
        get_agent_by_name_def row_to_agent_def parse_state_def state_str_def Let_def agent_op_defs)
  have "dial_agent_shell demo_env 2 (\<lambda>_. []) (\<lambda>_ _ _. True) ?a demo_shell = Some ([], Some (''d'', ''i''), demo_shell)"
    using agent by (simp add: dial_agent_shell_def is_awake_def demo_env_def demo_sleeper_def demo_suspended_def demo_idle_agent_def
        demo_shell_def demo_live_def session_def)
  note shell_in_order [OF agent this, where ts = ?t and outs = ?o and inputs = "[OpDaemon (output_frame (hd ?o)), OpClient (term_frame (hd ?t))]"
      and seen = "[TypedInput (hd ?t), ShellFrame (output_frame (hd ?o))]" and code = 0 and later = "[OpClient (ShResize 80 24)]"]
  moreover have "b64_encode [0x6C] = ''bA==''" "base64_encode [0x68, 0x69] = ''aGk=''" by code_simp+
  ultimately show ?thesis by (simp add: term_frame_def output_frame_def)
qed

section \<open>Records inside a \<open>select!\<close>\<close>

text \<open>Records that arrive whole are read whole, whatever else is served meanwhile.\<close>

fun arrived :: "select_event list \<Rightarrow> string" where
  "arrived [] = []"
| "arrived (Arrives bs # evs) = bs @ arrived evs"
| "arrived (_ # evs) = arrived evs"

fun polls :: "select_event list \<Rightarrow> nat" where
  "polls [] = 0"
| "polls (PollRead # evs) = Suc (polls evs)"
| "polls (_ # evs) = polls evs"

definition whole :: "string \<Rightarrow> bool" where "whole bs \<longleftrightarrow> bs = [] \<or> last bs = newline"

lemma read_line_end: "read_line s = (l, rest) \<Longrightarrow> newline \<in> set s \<Longrightarrow> l \<noteq> [] \<and> last l = newline"
  by (induction s arbitrary: l) (auto split: if_splits prod.splits)

lemma read_line_whole:
  assumes "read_line s = (l, rest)" "whole s" "s \<noteq> []"
  shows "l \<noteq> [] \<and> last l = newline \<and> whole rest"
proof -
  have "newline \<in> set s" using assms(2,3) last_in_set [of s] by (auto simp: whole_def)
  moreover have "whole rest" using assms(2) read_line_split [OF assms(1)] by (cases "rest = []") (auto simp: whole_def)
  ultimately show ?thesis using read_line_end [OF assms(1)] by blast
qed

lemma select_reads_whole_records:
  assumes "\<forall>bs. Arrives bs \<in> set evs \<longrightarrow> whole bs" "whole buf"
  shows "\<exists>rest. concat (select_read evs [] buf) @ rest = buf @ arrived evs"
  using assms
proof (induction evs arbitrary: buf)
  case (Cons ev evs)
  show ?case
  proof (cases ev)
    case (Arrives bs)
    then have "whole bs" using Cons.prems(1) by simp
    then have "whole (buf @ bs)" using Cons.prems(2) by (cases "bs = []") (simp_all add: whole_def)
    moreover have "\<forall>bs. Arrives bs \<in> set evs \<longrightarrow> whole bs" using Cons.prems(1) by simp
    ultimately show ?thesis using Cons.IH [of "buf @ bs"] Arrives by simp
  next
    case PollRead
    obtain l rest where l: "read_line buf = (l, rest)" by fastforce
    show ?thesis
    proof (cases "buf = []")
      case True
      then show ?thesis using Cons.IH [OF _ Cons.prems(2)] Cons.prems(1) PollRead by simp
    next
      case False
      have w: "l \<noteq> []" "last l = newline" "whole rest" using read_line_whole [OF l Cons.prems(2) False] by simp_all
      have "\<forall>bs. Arrives bs \<in> set evs \<longrightarrow> whole bs" using Cons.prems(1) by simp
      from Cons.IH [OF this w(3)] show ?thesis using PollRead l w(1,2) read_line_split [OF l] by simp
    qed
  qed (use Cons in auto)
qed simp

text \<open>One whose first part is read when the other side is served is cut: what is left of it is read as a record.\<close>

lemma select_cuts_a_record:
  "select_read [Arrives ''{a'', PollRead, OtherServed, Arrives (''b}'' @ [newline]), PollRead] [] [] = [''b}'' @ [newline]]"
  by simp

end
