(* ===== verification/Store_Schema.thy ===== *)
theory Store_Schema
  imports Prelude
begin

text \<open>
  Opening the database (\<open>Store::open_with_url\<close> and its migrations in crates/suzerain/src/store.rs):
  the statements that bring a database of any earlier version to the tables that Store.thy works on,
  and what SQLite and Postgres do with them. A statement that fails changes nothing. Column types
  are left out; a column has the default that rows already there get.
\<close>

section \<open>Databases and statements\<close>

datatype sql_value = SqlNull | SqlText string | SqlInt int

type_synonym sql_column = "string \<times> sql_value"
type_synonym sql_row = "(string \<times> sql_value) list"

record sql_table =
  tb_columns :: "string list"
  tb_rows :: "sql_row list"

record database =
  db_tables :: "(string \<times> sql_table) list"
  db_indexes :: "string list"

datatype statement =
  CreateTable string "string list"
| AddColumn string sql_column
| UniqueOpenIndex string string string string

datatype sql_error = NoSuchTable string | DuplicateColumn string | NotUnique string

datatype backend = Sqlite | Postgres

definition sql_field :: "string \<Rightarrow> sql_row \<Rightarrow> sql_value" where
  "sql_field c r = (case map_of r c of None \<Rightarrow> SqlNull | Some v \<Rightarrow> v)"

text \<open>The keys of the rows that a partial index on \<open>key\<close> where \<open>null_col\<close> is null covers.\<close>

definition open_keys :: "string \<Rightarrow> string \<Rightarrow> sql_row list \<Rightarrow> sql_value list" where
  "open_keys key null_col rows = map (sql_field key) (filter (\<lambda>r. sql_field null_col r = SqlNull) rows)"

definition update_table :: "string \<Rightarrow> (sql_table \<Rightarrow> sql_table) \<Rightarrow> database \<Rightarrow> database" where
  "update_table t f db = db\<lparr>db_tables := map (\<lambda>(n, tb). (n, if n = t then f tb else tb)) (db_tables db)\<rparr>"

definition append_column :: "sql_column \<Rightarrow> sql_table \<Rightarrow> sql_table" where
  "append_column c tb = \<lparr>tb_columns = tb_columns tb @ [fst c], tb_rows = map (\<lambda>r. r @ [c]) (tb_rows tb)\<rparr>"

fun exec :: "statement \<Rightarrow> database \<Rightarrow> sql_error + database" where
  "exec (CreateTable t cols) db =
     (case map_of (db_tables db) t of
        None \<Rightarrow> Inr (db\<lparr>db_tables := db_tables db @ [(t, \<lparr>tb_columns = cols, tb_rows = []\<rparr>)]\<rparr>)
      | Some _ \<Rightarrow> Inr db)"
| "exec (AddColumn t c) db =
     (case map_of (db_tables db) t of
        None \<Rightarrow> Inl (NoSuchTable t)
      | Some tb \<Rightarrow>
          if fst c \<in> set (tb_columns tb) then Inl (DuplicateColumn (fst c))
          else Inr (update_table t (append_column c) db))"
| "exec (UniqueOpenIndex name t key null_col) db =
     (if name \<in> set (db_indexes db) then Inr db
      else case map_of (db_tables db) t of
        None \<Rightarrow> Inl (NoSuchTable t)
      | Some tb \<Rightarrow>
          if distinct (open_keys key null_col (tb_rows tb)) then Inr (db\<lparr>db_indexes := db_indexes db @ [name]\<rparr>)
          else Inl (NotUnique name))"

text \<open>
  Duplicate columns are no error: Postgres is asked with \<open>ADD COLUMN IF NOT EXISTS\<close>, and on SQLite
  the error of that name is passed over.\<close>

definition apply_statement :: "backend \<Rightarrow> statement \<Rightarrow> database \<Rightarrow> sql_error + database" where
  "apply_statement b s db =
     (case b of
        Sqlite \<Rightarrow> (case exec s db of Inl (DuplicateColumn _) \<Rightarrow> Inr db | r \<Rightarrow> r)
      | Postgres \<Rightarrow>
          (case s of
             AddColumn t c \<Rightarrow>
               (case map_of (db_tables db) t of
                  Some tb \<Rightarrow> if fst c \<in> set (tb_columns tb) then Inr db else exec s db
                | None \<Rightarrow> exec s db)
           | _ \<Rightarrow> exec s db))"

fun run_statements :: "backend \<Rightarrow> statement list \<Rightarrow> database \<Rightarrow> sql_error option \<times> database" where
  "run_statements b [] db = (None, db)"
| "run_statements b (s # ss) db =
     (case apply_statement b s db of Inl e \<Rightarrow> (Some e, db) | Inr db1 \<Rightarrow> run_statements b ss db1)"

section \<open>The statements of the program\<close>

definition base_tables :: "statement list" where
  "base_tables =
     [CreateTable ''daemons'' [''endpoint_id'', ''approved'', ''online'', ''hostname'', ''os'', ''arch'', ''labels'',
        ''max_agents'', ''last_seen''],
      CreateTable ''agents'' [''id'', ''name'', ''daemon_endpoint_id'', ''manifest'', ''state'', ''created_at'', ''session_file''],
      CreateTable ''log_index'' [''agent_id'', ''acked_through'', ''updated_at'']]"

definition migrate_v2 :: "statement list" where
  "migrate_v2 = map (\<lambda>c. AddColumn ''daemons'' (c, SqlText ''{}'')) [''label_overrides'', ''capacity_json'', ''usage_json'']"

definition migrate_v3 :: "statement list" where
  "migrate_v3 = [CreateTable ''pending_daemons''
     [''endpoint_id'', ''hostname'', ''os'', ''arch'', ''capacity_json'', ''first_seen'', ''last_seen'']]"

definition migrate_v4 :: "statement list" where
  "migrate_v4 =
     map (AddColumn ''agents'') [(''idle_secs'', SqlNull), (''busy'', SqlNull), (''activity_reported_at'', SqlNull),
       (''needs_attention'', SqlInt 0), (''auto_suspend_override'', SqlNull), (''woke_at'', SqlNull)] @
     [CreateTable ''pending_messages''
        [''id'', ''agent_id'', ''body'', ''status'', ''created_at'', ''delivered_at'', ''last_error'']]"

definition migrate_v5 :: "statement list" where
  "migrate_v5 = [CreateTable ''agent_sessions'' [''id'', ''agent_id'', ''session_file'', ''started_at'', ''ended_at'']]"

definition migrate_v6 :: "statement list" where
  "migrate_v6 = [CreateTable ''chat_events'' [''agent_id'', ''seq'', ''at'', ''kind'', ''payload'']]"

definition migrate_v7 :: "statement list" where
  "migrate_v7 = [UniqueOpenIndex ''agent_sessions_open_idx'' ''agent_sessions'' ''agent_id'' ''ended_at'']"

definition migrations :: "statement list" where
  "migrations = base_tables @ migrate_v2 @ migrate_v3 @ migrate_v4 @ migrate_v5 @ migrate_v6 @ migrate_v7"

definition open_store :: "backend \<Rightarrow> database \<Rightarrow> sql_error option \<times> database" where
  "open_store b db = run_statements b migrations db"

definition empty_database :: database where
  "empty_database = \<lparr>db_tables = [], db_indexes = []\<rparr>"

text \<open>The columns of every table at the current version.\<close>

definition current_schema :: "(string \<times> string list) list" where
  "current_schema =
     [(''daemons'', [''endpoint_id'', ''approved'', ''online'', ''hostname'', ''os'', ''arch'', ''labels'', ''max_agents'',
        ''last_seen'', ''label_overrides'', ''capacity_json'', ''usage_json'']),
      (''agents'', [''id'', ''name'', ''daemon_endpoint_id'', ''manifest'', ''state'', ''created_at'', ''session_file'',
        ''idle_secs'', ''busy'', ''activity_reported_at'', ''needs_attention'', ''auto_suspend_override'', ''woke_at'']),
      (''log_index'', [''agent_id'', ''acked_through'', ''updated_at'']),
      (''pending_daemons'', [''endpoint_id'', ''hostname'', ''os'', ''arch'', ''capacity_json'', ''first_seen'', ''last_seen'']),
      (''pending_messages'', [''id'', ''agent_id'', ''body'', ''status'', ''created_at'', ''delivered_at'', ''last_error'']),
      (''agent_sessions'', [''id'', ''agent_id'', ''session_file'', ''started_at'', ''ended_at'']),
      (''chat_events'', [''agent_id'', ''seq'', ''at'', ''kind'', ''payload''])]"

section \<open>Statements done once stay done\<close>

abbreviation table :: "database \<Rightarrow> string \<Rightarrow> sql_table option" where
  "table db t \<equiv> map_of (db_tables db) t"

lemma table_update [simp]:
  "table (update_table t f db) n = (if n = t then map_option f (table db n) else table db n)"
proof -
  have "map_of (map (\<lambda>(n, tb). (n, if n = t then f tb else tb)) xs) n =
      (if n = t then map_option f (map_of xs n) else map_of xs n)" for xs
    by (induction xs) auto
  then show ?thesis by (simp add: update_table_def)
qed

lemma map_add_single [simp]:
  "([t \<mapsto> v] ++ m) n = (case m n of Some x \<Rightarrow> Some x | None \<Rightarrow> if n = t then Some v else None)"
  by (simp add: map_add_def split: option.split)

lemma update_table_indexes [simp]: "db_indexes (update_table t f db) = db_indexes db"
  by (simp add: update_table_def)

fun applied :: "statement \<Rightarrow> database \<Rightarrow> bool" where
  "applied (CreateTable t cols) db \<longleftrightarrow> table db t \<noteq> None"
| "applied (AddColumn t c) db \<longleftrightarrow> (\<exists>tb. table db t = Some tb \<and> fst c \<in> set (tb_columns tb))"
| "applied (UniqueOpenIndex name t key null_col) db \<longleftrightarrow> name \<in> set (db_indexes db)"

text \<open>The two backends do the same.\<close>

lemma apply_statement_sqlite: "apply_statement b s db = apply_statement Sqlite s db"
  by (cases b; cases s) (auto simp: apply_statement_def split: option.split)

lemma apply_applied: "applied s db \<Longrightarrow> apply_statement b s db = Inr db"
  unfolding apply_statement_sqlite [of b] by (cases s) (auto simp: apply_statement_def)

lemma apply_then_applied: "apply_statement b s db = Inr db' \<Longrightarrow> applied s db'"
  unfolding apply_statement_sqlite [of b]
  by (cases s) (auto simp: apply_statement_def append_column_def split: option.splits if_splits)

lemma applied_stays: "applied s db \<Longrightarrow> apply_statement b t db = Inr db' \<Longrightarrow> applied s db'"
  unfolding apply_statement_sqlite [of b]
  by (cases s; cases t)
    (auto simp: apply_statement_def append_column_def split: option.splits if_splits)

lemma run_applied:
  assumes "run_statements b ss db = (None, db')"
  shows "\<forall>s. s \<in> set ss \<or> applied s db \<longrightarrow> applied s db'"
  using assms
proof (induction ss arbitrary: db)
  case (Cons s ss)
  then obtain db1 where "apply_statement b s db = Inr db1" "run_statements b ss db1 = (None, db')"
    by (auto split: sum.splits)
  then show ?case using Cons.IH [of db1] apply_then_applied applied_stays by (metis set_ConsD)
qed simp

lemma run_nothing: "\<forall>s \<in> set ss. applied s db \<Longrightarrow> run_statements b (ss @ ts) db = run_statements b ts db"
  by (induction ss) (auto simp: apply_applied)

lemma run_append:
  "run_statements b (ss @ ts) db =
     (case run_statements b ss db of (None, db1) \<Rightarrow> run_statements b ts db1 | r \<Rightarrow> r)"
  by (induction ss arbitrary: db) (auto split: sum.split)

text \<open>Stopped anywhere and started again, a run ends as if it had not been stopped.\<close>

lemma run_resumed:
  assumes "run_statements b (take k ss) db = (None, db1)"
  shows "run_statements b ss db1 = run_statements b ss db"
proof -
  have "run_statements b ss db = run_statements b (drop k ss) db1"
    using run_append [of b "take k ss" "drop k ss" db] assms by simp
  moreover have "run_statements b ss db1 = run_statements b (drop k ss) db1"
    using run_nothing [of "take k ss" db1 b "drop k ss"] run_applied [OF assms] by simp
  ultimately show ?thesis by simp
qed

section \<open>Nothing is lost\<close>

definition keeps_table :: "sql_table \<Rightarrow> sql_table \<Rightarrow> bool" where
  "keeps_table tb tb' \<longleftrightarrow> (\<exists>new. tb_columns tb' = tb_columns tb @ map fst new \<and>
     tb_rows tb' = map (\<lambda>r. r @ new) (tb_rows tb) \<and> set (map fst new) \<inter> set (tb_columns tb) = {})"

definition keeps :: "database \<Rightarrow> database \<Rightarrow> bool" where
  "keeps db db' \<longleftrightarrow> (\<forall>t tb. table db t = Some tb \<longrightarrow> (\<exists>tb'. table db' t = Some tb' \<and> keeps_table tb tb')) \<and>
     set (db_indexes db) \<subseteq> set (db_indexes db')"

lemma keeps_table_refl: "keeps_table tb tb"
  by (simp add: keeps_table_def exI [of _ "[]"])

lemma keeps_refl: "keeps db db"
  by (simp add: keeps_def keeps_table_refl)

lemma keeps_table_trans: "keeps_table t1 t2 \<Longrightarrow> keeps_table t2 t3 \<Longrightarrow> keeps_table t1 t3"
  unfolding keeps_table_def
proof (elim exE conjE)
  fix n1 n2
  assume "tb_columns t2 = tb_columns t1 @ map fst n1" "tb_rows t2 = map (\<lambda>r. r @ n1) (tb_rows t1)"
    "set (map fst n1) \<inter> set (tb_columns t1) = {}"
    "tb_columns t3 = tb_columns t2 @ map fst n2" "tb_rows t3 = map (\<lambda>r. r @ n2) (tb_rows t2)"
    "set (map fst n2) \<inter> set (tb_columns t2) = {}"
  then show "\<exists>new. tb_columns t3 = tb_columns t1 @ map fst new \<and> tb_rows t3 = map (\<lambda>r. r @ new) (tb_rows t1) \<and>
      set (map fst new) \<inter> set (tb_columns t1) = {}"
    by (intro exI [of _ "n1 @ n2"]) auto
qed

lemma keeps_trans: "keeps d1 d2 \<Longrightarrow> keeps d2 d3 \<Longrightarrow> keeps d1 d3"
  unfolding keeps_def by (meson keeps_table_trans order_trans)

lemma keeps_append: "fst c \<notin> set (tb_columns tb) \<Longrightarrow> keeps_table tb (append_column c tb)"
  unfolding keeps_table_def append_column_def by (intro exI [of _ "[c]"]) simp

lemma apply_keeps: "apply_statement b s db = Inr db' \<Longrightarrow> keeps db db'"
  unfolding apply_statement_sqlite [of b]
  by (cases s) (auto simp: apply_statement_def keeps_def keeps_table_refl keeps_append split: option.splits if_splits)

lemma run_keeps: "run_statements b ss db = (e, db') \<Longrightarrow> keeps db db'"
proof (induction ss arbitrary: db)
  case (Cons s ss)
  then show ?case using apply_keeps keeps_trans keeps_refl by (fastforce split: sum.splits)
qed (simp add: keeps_refl)

section \<open>Every earlier database opens\<close>

text \<open>Databases of an earlier version: a table that is there has the columns it was created with.\<close>

definition earlier_version :: "database \<Rightarrow> bool" where
  "earlier_version db \<longleftrightarrow> (\<forall>t cols tb. CreateTable t cols \<in> set migrations \<and> table db t = Some tb \<longrightarrow> set cols \<subseteq> set (tb_columns tb))"

text \<open>Two open session eras of one agent, which only the last statement objects to.\<close>

definition two_open :: "database \<Rightarrow> bool" where
  "two_open db \<longleftrightarrow> ''agent_sessions_open_idx'' \<notin> set (db_indexes db) \<and>
     (\<exists>tb. table db ''agent_sessions'' = Some tb \<and> \<not> distinct (open_keys ''agent_id'' ''ended_at'' (tb_rows tb)))"

fun harmless :: "database \<Rightarrow> statement \<Rightarrow> bool" where
  "harmless db (CreateTable t cols) \<longleftrightarrow> True"
| "harmless db (AddColumn t c) \<longleftrightarrow> table db t \<noteq> None \<and> t \<noteq> ''agent_sessions''"
| "harmless db (UniqueOpenIndex _ _ _ _) \<longleftrightarrow> False"

definition made_or_same :: "database \<Rightarrow> database \<Rightarrow> bool" where
  "made_or_same db db' \<longleftrightarrow> db_indexes db' = db_indexes db \<and>
     (case table db ''agent_sessions'' of
        Some tb \<Rightarrow> table db' ''agent_sessions'' = Some tb
      | None \<Rightarrow> (\<forall>tb. table db' ''agent_sessions'' = Some tb \<longrightarrow> tb_rows tb = []))"

lemma apply_harmless:
  "harmless db s \<Longrightarrow> \<exists>db'. apply_statement b s db = Inr db' \<and> made_or_same db db' \<and>
     (\<forall>t. table db t \<noteq> None \<longrightarrow> table db' t \<noteq> None)"
  unfolding apply_statement_sqlite [of b]
  by (cases s) (auto simp: apply_statement_def made_or_same_def split: option.split if_splits)

lemma run_harmless:
  "\<forall>s \<in> set ss. harmless db s \<Longrightarrow> \<exists>db'. run_statements b ss db = (None, db') \<and> made_or_same db db' \<and>
     (\<forall>t. table db t \<noteq> None \<longrightarrow> table db' t \<noteq> None)"
proof (induction ss arbitrary: db)
  case (Cons s ss)
  then obtain db1 where 1: "apply_statement b s db = Inr db1" "made_or_same db db1"
    "\<forall>t. table db t \<noteq> None \<longrightarrow> table db1 t \<noteq> None"
    using apply_harmless [of db s b] by auto
  have "harmless db1 x" if "harmless db x" for x using that 1(3) by (cases x) auto
  then have "\<forall>x \<in> set ss. harmless db1 x" using Cons.prems by simp
  from Cons.IH [OF this] obtain db' where "run_statements b ss db1 = (None, db')" "made_or_same db1 db'"
    "\<forall>t. table db1 t \<noteq> None \<longrightarrow> table db' t \<noteq> None" by blast
  then show ?case using 1 by (auto simp: made_or_same_def split: option.splits)
qed (simp add: made_or_same_def split: option.split)

lemmas migrations_defs = migrations_def base_tables_def migrate_v2_def migrate_v3_def migrate_v4_def migrate_v5_def
  migrate_v6_def migrate_v7_def

lemma open_store_last:
  obtains db1 where "open_store b db = run_statements b migrate_v7 db1" "made_or_same db db1"
    "table db1 ''agent_sessions'' \<noteq> None"
proof -
  let ?mid = "migrate_v2 @ migrate_v3 @ migrate_v4 @ migrate_v5 @ migrate_v6"
  obtain db0 where 0: "run_statements b base_tables db = (None, db0)" "made_or_same db db0"
    using run_harmless [of base_tables db b] by (auto simp: base_tables_def)
  have "applied (CreateTable t cols) db0" if "CreateTable t cols \<in> set base_tables" for t cols
    using run_applied [OF 0(1)] that by blast
  then have "table db0 ''daemons'' \<noteq> None" "table db0 ''agents'' \<noteq> None" by (auto simp: base_tables_def)
  then have "\<forall>s \<in> set ?mid. harmless db0 s"
    by (auto simp: migrate_v2_def migrate_v3_def migrate_v4_def migrate_v5_def migrate_v6_def)
  from run_harmless [OF this, of b] obtain db1 where 1: "run_statements b ?mid db0 = (None, db1)" "made_or_same db0 db1"
    by blast
  have "applied (CreateTable ''agent_sessions'' [''id'', ''agent_id'', ''session_file'', ''started_at'', ''ended_at'']) db1"
    using run_applied [OF 1(1)] by (simp add: migrate_v5_def)
  moreover have "made_or_same db db1" using 0(2) 1(2) by (auto simp: made_or_same_def split: option.splits)
  moreover have "open_store b db = run_statements b migrate_v7 db1"
    using 0(1) 1(1) run_append [of b base_tables "?mid @ migrate_v7" db] run_append [of b ?mid migrate_v7 db0]
    by (simp add: open_store_def migrations_def)
  ultimately show thesis using that by simp
qed

lemma open_store_outcome:
  "fst (open_store b db) = (if two_open db then Some (NotUnique ''agent_sessions_open_idx'') else None)"
proof -
  obtain db1 where o: "open_store b db = run_statements b migrate_v7 db1" "made_or_same db db1"
    "table db1 ''agent_sessions'' \<noteq> None" by (rule open_store_last)
  then show ?thesis
    by (cases b)
      (auto simp: migrate_v7_def apply_statement_def two_open_def made_or_same_def open_keys_def split: option.splits if_splits)
qed

lemma created_once: "CreateTable t cs \<in> set migrations \<Longrightarrow> CreateTable t cs' \<in> set migrations \<Longrightarrow> cs' = cs"
  by (auto simp: migrations_defs)

lemma apply_earlier:
  "earlier_version db \<Longrightarrow> s \<in> set migrations \<Longrightarrow> apply_statement b s db = Inr db' \<Longrightarrow> earlier_version db'"
  unfolding apply_statement_sqlite [of b]
  by (cases s) (fastforce simp: apply_statement_def earlier_version_def append_column_def dest: created_once
      split: option.splits if_splits)+

lemma run_earlier:
  "earlier_version db \<Longrightarrow> set ss \<subseteq> set migrations \<Longrightarrow> run_statements b ss db = (e, db') \<Longrightarrow> earlier_version db'"
proof (induction ss arbitrary: db)
  case (Cons s ss)
  then show ?case using apply_earlier [of db s b] by (auto split: sum.splits)
qed simp

fun creates :: "string \<Rightarrow> string list \<Rightarrow> statement \<Rightarrow> bool" where
  "creates t cols (CreateTable t' cs) \<longleftrightarrow> t' = t \<and>
     list_all (\<lambda>c. c \<in> set cs \<or> list_ex (\<lambda>s. case s of AddColumn n (c', _) \<Rightarrow> n = t \<and> c' = c | _ \<Rightarrow> False) migrations) cols"
| "creates t cols _ \<longleftrightarrow> False"

lemma schema_stated:
  assumes "(t, cols) \<in> set current_schema"
  shows "\<exists>cs. CreateTable t cs \<in> set migrations \<and> (\<forall>c \<in> set cols. c \<in> set cs \<or> (\<exists>v. AddColumn t (c, v) \<in> set migrations))"
proof -
  have "list_all (\<lambda>(t, cols). list_ex (creates t cols) migrations) current_schema" by code_simp
  then obtain s where s: "s \<in> set migrations" "creates t cols s" using assms by (auto simp: list_all_iff list_ex_iff)
  obtain cs where cs: "s = CreateTable t cs" using s(2) by (cases "(t, cols, s)" rule: creates.cases) auto
  have "\<exists>v. AddColumn t (c, v) \<in> set migrations"
    if "list_ex (\<lambda>s. case s of AddColumn n (c', _) \<Rightarrow> n = t \<and> c' = c | _ \<Rightarrow> False) migrations" for c
  proof -
    obtain x where x: "x \<in> set migrations" "case x of AddColumn n (c', _) \<Rightarrow> n = t \<and> c' = c | _ \<Rightarrow> False"
      using \<open>list_ex _ migrations\<close> by (auto simp: list_ex_iff)
    from x(2) obtain v where "x = AddColumn t (c, v)" by (auto split: statement.splits)
    then show ?thesis using x(1) by blast
  qed
  then show ?thesis using s unfolding cs by (intro exI [of _ cs]) (fastforce simp: list_all_iff)
qed

lemma schema_reached:
  assumes "earlier_version db" "open_store b db = (None, db')" "(t, cols) \<in> set current_schema"
  shows "\<exists>tb. table db' t = Some tb \<and> set cols \<subseteq> set (tb_columns tb)"
proof -
  have ap: "applied s db'" if "s \<in> set migrations" for s
    using run_applied [OF assms(2) [unfolded open_store_def]] that by blast
  have e: "earlier_version db'" using run_earlier [OF assms(1) order_refl assms(2) [unfolded open_store_def]] .
  obtain cs where cs: "CreateTable t cs \<in> set migrations"
    "\<forall>c \<in> set cols. c \<in> set cs \<or> (\<exists>v. AddColumn t (c, v) \<in> set migrations)"
    using schema_stated assms(3) by fastforce
  obtain tb where tb: "table db' t = Some tb" using ap [OF cs(1)] by auto
  then have "set cs \<subseteq> set (tb_columns tb)" using e cs(1) by (auto simp: earlier_version_def)
  moreover have "c \<in> set (tb_columns tb)" if "AddColumn t (c, v) \<in> set migrations" for c v
    using ap [OF that] tb by auto
  ultimately have "set cols \<subseteq> set (tb_columns tb)" using cs(2) by blast
  then show ?thesis using tb by blast
qed


text \<open>A database of the first version, with a host and an agent.\<close>

definition first_version :: database where
  "first_version = \<lparr>db_tables =
     [(''daemons'', \<lparr>tb_columns = [''endpoint_id'', ''approved'', ''online'', ''hostname'', ''os'', ''arch'', ''labels'',
         ''max_agents'', ''last_seen''], tb_rows = [[(''endpoint_id'', SqlText ''d'')]]\<rparr>)], db_indexes = []\<rparr>"


text \<open>
  The race that the index is meant to rule out could have left two open eras: such a database is
  refused, at this and at every later start.\<close>

lemma two_open_never_opens:
  assumes "two_open db"
  shows "fst (open_store b db) = Some (NotUnique ''agent_sessions_open_idx'')"
    "fst (open_store b (snd (open_store b db))) = Some (NotUnique ''agent_sessions_open_idx'')"
proof -
  show 1: "fst (open_store b db) = Some (NotUnique ''agent_sessions_open_idx'')"
    using open_store_outcome assms by simp
  obtain db1 where o: "open_store b db = run_statements b migrate_v7 db1" "made_or_same db db1"
    "table db1 ''agent_sessions'' \<noteq> None" by (rule open_store_last)
  then have "snd (open_store b db) = db1" using 1 by (auto simp: migrate_v7_def split: sum.splits)
  moreover have "two_open db1" using assms o(2) by (auto simp: two_open_def made_or_same_def)
  ultimately show "fst (open_store b (snd (open_store b db))) = Some (NotUnique ''agent_sessions_open_idx'')"
    using open_store_outcome by simp
qed

end
