(* ===== verification/Node_Keys.thy ===== *)
theory Node_Keys
  imports Host_Control Secret_Store
begin

text \<open>
  The keys of a node: the identity keys of the control plane (crates/suzerain/src/identity.rs), of a
  host (\<open>identity\<close> of crates/castellan/src/control.rs) and of the desktop client
  (crates/suzy/src/config.rs), and the age keys behind the secrets store with the sealing they give
  it and the migration from SOPS (crates/suzerain/src/secrets.rs). A file that is there but cannot be read
  is \<open>Broken\<close>. The age crate, sops and YAML are the record \<open>'k age_env\<close>.
\<close>

section \<open>Identity keys\<close>

datatype 'a file_state = Content 'a | Broken

datatype key_write = KeyWritten | KeyWriteFailed | KeyModeFailed

datatype key_error = KeyUnreadable | BadKeyLength | KeyNotWritten | KeyModeNotSet

type_synonym key_dir = "(string \<times> u8 list file_state) list"

definition write_key :: "key_write \<Rightarrow> string \<Rightarrow> u8 list \<Rightarrow> key_dir \<Rightarrow> (key_error + u8 list) \<times> key_dir" where
  "write_key wr path key dir =
     (case wr of
        KeyWritten \<Rightarrow> (Inr key, put path (Content key) dir)
      | KeyWriteFailed \<Rightarrow> (Inl KeyNotWritten, dir)
      | KeyModeFailed \<Rightarrow> (Inl KeyModeNotSet, put path (Content key) dir))"

definition read_key :: "u8 list \<Rightarrow> key_error + u8 list" where
  "read_key bytes = (if length bytes = 32 then Inr bytes else Inl BadKeyLength)"

definition migrate_name :: "bool \<Rightarrow> string \<Rightarrow> string \<Rightarrow> (string \<times> 'e) list \<Rightarrow> string \<times> (string \<times> 'e) list" where
  "migrate_name renames legacy current dir = migrated_path_in current legacy renames dir"

definition key_path :: "bool \<Rightarrow> key_dir \<Rightarrow> string \<times> key_dir" where
  "key_path renames = migrate_name renames ''identity.key'' ''suzerain.key''"

text \<open>\<open>fresh\<close> is the key that a first run generates.\<close>

definition load_or_create_at :: "key_write \<Rightarrow> u8 list \<Rightarrow> string \<times> key_dir \<Rightarrow> (key_error + u8 list) \<times> key_dir" where
  "load_or_create_at wr fresh located =
     (case located of (path, dir) \<Rightarrow>
        (case map_of dir path of
           Some (Content bytes) \<Rightarrow> (read_key bytes, dir)
         | Some Broken \<Rightarrow> (Inl KeyUnreadable, dir)
         | None \<Rightarrow> write_key wr path fresh dir))"

definition load_or_create_secret_key :: "bool \<Rightarrow> key_write \<Rightarrow> u8 list \<Rightarrow> key_dir \<Rightarrow> (key_error + u8 list) \<times> key_dir" where
  "load_or_create_secret_key renames wr fresh dir = load_or_create_at wr fresh (key_path renames dir)"

definition identity :: "bool \<Rightarrow> key_write \<Rightarrow> u8 list \<Rightarrow> key_dir \<Rightarrow> (key_error + u8 list) \<times> key_dir" where
  "identity renames wr fresh dir = load_or_create_at wr fresh (identity_path_in renames dir)"

text \<open>The desktop client takes a key it cannot read for one that is not there.\<close>

definition load_or_create_key :: "key_write \<Rightarrow> u8 list \<Rightarrow> key_dir \<Rightarrow> (key_error + u8 list) \<times> key_dir" where
  "load_or_create_key wr fresh dir =
     (case map_of dir ''iroh.key'' of
        Some (Content bytes) \<Rightarrow> (read_key bytes, dir)
      | _ \<Rightarrow> write_key wr ''iroh.key'' fresh dir)"

section \<open>The age keys\<close>

type_synonym text_files = "(string \<times> string file_state) list"

record 'k age_env =
  ag_parse :: "string \<Rightarrow> 'k option"
  ag_text :: "'k \<Rightarrow> string"
  ag_public :: "'k \<Rightarrow> string"
  ag_encrypt :: "string \<Rightarrow> string \<Rightarrow> string option"
  ag_opens :: "string \<Rightarrow> bool"
  ag_decrypt :: "'k list \<Rightarrow> string \<Rightarrow> string option"
  ag_yaml :: "store_file \<Rightarrow> string"
  ag_read_yaml :: "string \<Rightarrow> store_file option"
  ag_sops :: "string file_state \<Rightarrow> string option"

record 'k key_place =
  kp_override :: "string option"
  kp_data :: string
  kp_home :: string
  kp_copies :: bool
  kp_writes :: key_write
  kp_fresh :: 'k

datatype age_error =
  KeysNotWritten | BadIdentity | NoIdentities | StoreUnreadable | StoreUnparsed | StoreUndecryptable
| StoreUndecodable | StoreUnencrypted | StoreNotWritten | LegacyNotMoved | SopsFailed

text \<open>The key file, after the one-time copy of a key from its old default place.\<close>

definition keys_file :: "'k key_place \<Rightarrow> text_files \<Rightarrow> string \<times> text_files" where
  "keys_file K fs =
     (case kp_override K of
        Some p \<Rightarrow> (p, fs)
      | None \<Rightarrow>
          (let new_path = kp_data K @ ''/age-keys.txt''; legacy = kp_home K @ ''/.config/sops/age/keys.txt''
           in case (map_of fs new_path, map_of fs legacy) of
                (None, Some f) \<Rightarrow> if kp_copies K then (new_path, (new_path, f) # fs) else (legacy, fs)
              | _ \<Rightarrow> (new_path, fs)))"

definition identity_lines :: "string \<Rightarrow> string list" where
  "identity_lines text = filter (\<lambda>l. starts_with l ''AGE-SECRET-KEY-'') (map trim (str_lines text))"

definition parse_identities :: "'k age_env \<Rightarrow> string \<Rightarrow> age_error + 'k list" where
  "parse_identities A text =
     (case map_ok (\<lambda>l. case ag_parse A l of None \<Rightarrow> Inl BadIdentity | Some k \<Rightarrow> Inr k) (identity_lines text) of
        Inl e \<Rightarrow> Inl e
      | Inr ks \<Rightarrow> if ks = [] then Inl NoIdentities else Inr ks)"

definition new_key_text :: "'k age_env \<Rightarrow> 'k \<Rightarrow> string" where
  "new_key_text A k = unlines [''# created by suzerain'', ''# public key: '' @ ag_public A k, ag_text A k]"

definition identities :: "'k age_env \<Rightarrow> 'k key_place \<Rightarrow> text_files \<Rightarrow> (age_error + 'k list) \<times> text_files" where
  "identities A K fs =
     (case keys_file K fs of (p, fs1) \<Rightarrow>
        (case map_of fs1 p of
           Some (Content text) \<Rightarrow> (parse_identities A text, fs1)
         | _ \<Rightarrow>
             (let written = put p (Content (new_key_text A (kp_fresh K))) fs1
              in case kp_writes K of
                   KeyWritten \<Rightarrow> (parse_identities A (ag_text A (kp_fresh K)), written)
                 | KeyWriteFailed \<Rightarrow> (Inl KeysNotWritten, fs1)
                 | KeyModeFailed \<Rightarrow> (Inl KeysNotWritten, written))))"

definition recipient :: "'k age_env \<Rightarrow> 'k key_place \<Rightarrow> text_files \<Rightarrow> (age_error + string) \<times> text_files" where
  "recipient A K fs =
     (case identities A K fs of
        (Inl e, fs1) \<Rightarrow> (Inl e, fs1)
      | (Inr ks, fs1) \<Rightarrow> (Inr (ag_public A (hd ks)), fs1))"

section \<open>Sealing\<close>

definition decrypt_file :: "'k age_env \<Rightarrow> 'k key_place \<Rightarrow> string \<Rightarrow> text_files \<Rightarrow> (age_error + store_file) \<times> text_files" where
  "decrypt_file A K path fs =
     (case map_of fs path of
        Some (Content encrypted) \<Rightarrow>
          (if \<not> ag_opens A encrypted then (Inl StoreUnparsed, fs)
           else
            (case identities A K fs of
               (Inl e, fs1) \<Rightarrow> (Inl e, fs1)
             | (Inr ks, fs1) \<Rightarrow>
                 (case ag_decrypt A ks encrypted of
                    None \<Rightarrow> (Inl StoreUndecryptable, fs1)
                  | Some plain \<Rightarrow>
                      (case ag_read_yaml A plain of
                         None \<Rightarrow> (Inl StoreUndecodable, fs1)
                       | Some store \<Rightarrow> (Inr store, fs1)))))
      | _ \<Rightarrow> (Inl StoreUnreadable, fs))"

definition encrypt_payload :: "'k age_env \<Rightarrow> 'k key_place \<Rightarrow> string \<Rightarrow> text_files \<Rightarrow> (age_error + string) \<times> text_files" where
  "encrypt_payload A K plain fs =
     (case recipient A K fs of
        (Inl e, fs1) \<Rightarrow> (Inl e, fs1)
      | (Inr public, fs1) \<Rightarrow>
          (case ag_encrypt A public plain of None \<Rightarrow> (Inl StoreUnencrypted, fs1) | Some c \<Rightarrow> (Inr c, fs1)))"

text \<open>The store file, the legacy one and the name the latter is given when it has been taken over.\<close>

definition migrate_legacy_once ::
    "'k age_env \<Rightarrow> 'k key_place \<Rightarrow> string \<Rightarrow> bool \<Rightarrow> bool \<Rightarrow> text_files \<times> store_file option \<Rightarrow>
      (age_error + unit) \<times> text_files \<times> store_file option" where
  "migrate_legacy_once A K path writes renames st =
     (case st of (fs, loaded) \<Rightarrow>
        let legacy = kp_data K @ ''/secrets.sops.yaml''; moved = kp_data K @ ''/secrets.sops.migrated''
        in (case (map_of fs path, map_of fs legacy) of
             (None, Some f) \<Rightarrow>
               (case ag_sops A f of
                  None \<Rightarrow> (Inl SopsFailed, st)
                | Some plain \<Rightarrow>
                    (case ag_read_yaml A plain of
                       None \<Rightarrow> (Inl StoreUndecodable, st)
                     | Some store \<Rightarrow>
                         (case encrypt_payload A K plain fs of
                            (Inl e, fs1) \<Rightarrow> (Inl e, fs1, loaded)
                          | (Inr encrypted, fs1) \<Rightarrow>
                              (let fs2 = put path (Content encrypted) fs1
                               in if \<not> writes then (Inl StoreNotWritten, fs1, loaded)
                                  else if \<not> renames then (Inl LegacyNotMoved, fs2, loaded)
                                  else (Inr (), put moved f (bt_remove legacy fs2), Some store)))))
           | _ \<Rightarrow> (Inr (), st)))"

section \<open>Keys stay\<close>

text \<open>An identity is made once: whatever later runs would generate, they find the key of the first.\<close>

lemma read_key_idem: "read_key bytes = Inr k \<Longrightarrow> k = bytes"
  by (simp add: read_key_def split: if_splits)

lemma migrated_path_again:
  "migrated_path_in n l r es = (p, es') \<Longrightarrow> map_of fs p \<noteq> None \<Longrightarrow> \<forall>q. q \<noteq> p \<longrightarrow> map_of fs q = map_of es' q \<Longrightarrow>
     migrated_path_in n l r fs = (p, fs)"
  by (auto simp: migrated_path_in_def split: option.splits if_splits)

lemma identity_stays:
  assumes "load_or_create_at wr fresh (migrated_path_in n l r dir) = (Inr key, dir1)" "length fresh = 32"
  shows "load_or_create_at wr' fresh' (migrated_path_in n l r dir1) = (Inr key, dir1)"
proof -
  obtain p dir0 where p: "migrated_path_in n l r dir = (p, dir0)" by fastforce
  have found: "map_of dir1 p = Some (Content key) \<and> length key = 32 \<and> (\<forall>q. q \<noteq> p \<longrightarrow> map_of dir1 q = map_of dir0 q)"
    using assms p by (auto simp: load_or_create_at_def write_key_def read_key_def
        split: option.splits file_state.splits key_write.splits if_splits)
  then have "migrated_path_in n l r dir1 = (p, dir1)" using migrated_path_again [OF p, of dir1] by auto
  then show ?thesis using found by (simp add: load_or_create_at_def read_key_def)
qed

lemma identities_of_nodes_stay:
  assumes "length fresh = 32"
  shows "load_or_create_secret_key r wr fresh dir = (Inr key, dir1) \<Longrightarrow>
      load_or_create_secret_key r wr' fresh' dir1 = (Inr key, dir1)"
    and "identity r wr fresh dir = (Inr key, dir1) \<Longrightarrow> identity r wr' fresh' dir1 = (Inr key, dir1)"
    and "load_or_create_key wr fresh dir = (Inr key, dir1) \<Longrightarrow> load_or_create_key wr' fresh' dir1 = (Inr key, dir1)"
  using assms identity_stays
  by (fastforce simp: load_or_create_secret_key_def key_path_def migrate_name_def,
      fastforce simp: identity_def identity_path_in_def,
      auto simp: load_or_create_key_def write_key_def read_key_def
        split: option.splits file_state.splits key_write.splits if_splits)

text \<open>What the age crate promises about the keys it writes and the data it encrypts.\<close>

definition age_laws :: "'k age_env \<Rightarrow> bool" where
  "age_laws A \<longleftrightarrow>
     (\<forall>k. ag_parse A (ag_text A k) = Some k \<and> starts_with (ag_text A k) ''AGE-SECRET-KEY-'' \<and>
        list_all (\<lambda>c. \<not> is_ws c) (ag_text A k) \<and> list_all (\<lambda>c. \<not> is_ws c) (ag_public A k)) \<and>
     (\<forall>k ks plain c. ag_encrypt A (ag_public A k) plain = Some c \<longrightarrow>
        ag_opens A c \<and> (k \<in> set ks \<longrightarrow> ag_decrypt A ks c = Some plain)) \<and>
     (\<forall>f. ag_read_yaml A (ag_yaml A f) = Some f)"

lemma trim_word: "list_all (\<lambda>c. \<not> is_ws c) w \<Longrightarrow> trim w = w"
  by (simp add: list_all_iff trim_id)

lemma no_newline: "list_all (\<lambda>c. \<not> is_ws c) w \<Longrightarrow> newline \<notin> set w \<and> CHR 0x0D \<notin> set w"
  by (auto simp: list_all_iff is_ws_def)

lemma split_lines_last: "newline \<notin> set w \<Longrightarrow> rev cur @ w \<noteq> [] \<Longrightarrow> split_lines cur w = [rev cur @ w]"
  by (induction w arbitrary: cur) auto

lemma str_lines_one: "newline \<notin> set w \<Longrightarrow> w \<noteq> [] \<Longrightarrow> str_lines w = [w]"
  by (simp add: str_lines_def split_lines_last)

lemma key_text_lines:
  assumes "age_laws A"
  shows "identity_lines (new_key_text A k) = [ag_text A k]" "identity_lines (ag_text A k) = [ag_text A k]"
proof -
  have k: "starts_with (ag_text A k) ''AGE-SECRET-KEY-''" "list_all (\<lambda>c. \<not> is_ws c) (ag_text A k)"
      "list_all (\<lambda>c. \<not> is_ws c) (ag_public A k)"
    using assms by (simp_all add: age_laws_def)
  have "str_lines (new_key_text A k) = [''# created by suzerain'', ''# public key: '' @ ag_public A k, ag_text A k]"
    unfolding new_key_text_def
    using no_newline [OF k(2)] no_newline [OF k(3)] by (intro str_lines_unlines) (auto simp:)
  moreover have "\<not> starts_with (trim (CHR ''#'' # s)) ''AGE-SECRET-KEY-''" for s
  proof -
    have "trim_start (CHR ''#'' # s) = CHR ''#'' # s" by (simp add: trim_start_def is_ws_def)
    moreover have "\<exists>t. trim_end (CHR ''#'' # s) = CHR ''#'' # t"
      by (simp add: trim_end_def dropWhile_append3 is_ws_def)
    ultimately show ?thesis by (auto simp: trim_def starts_with_def)
  qed
  ultimately show "identity_lines (new_key_text A k) = [ag_text A k]"
    using k by (simp add: identity_lines_def trim_word)
  have "ag_text A k \<noteq> []" using k(1) by (auto simp: starts_with_def)
  then have "str_lines (ag_text A k) = [ag_text A k]"
    using no_newline [OF k(2)] by (intro str_lines_one) auto
  then show "identity_lines (ag_text A k) = [ag_text A k]" using k by (simp add: identity_lines_def trim_word)
qed

lemma keys_file_again:
  assumes "keys_file K fs = (p, fs1)" "map_of gs p \<noteq> None" "\<forall>q. q \<noteq> p \<longrightarrow> map_of gs q = map_of fs1 q"
  shows "keys_file K gs = (p, gs)"
  using assms by (auto simp: keys_file_def Let_def split: option.splits if_splits)

lemma parse_generated: "age_laws A \<Longrightarrow> parse_identities A (ag_text A k) = Inr [k] \<and> parse_identities A (new_key_text A k) = Inr [k]"
proof -
  assume a: "age_laws A"
  then have "ag_parse A (ag_text A k) = Some k" unfolding age_laws_def by blast
  then show ?thesis by (simp add: parse_identities_def key_text_lines [OF a])
qed

text \<open>Once there are keys, every later look finds the same ones and changes nothing.\<close>

lemma identities_stay:
  assumes "age_laws A" "identities A K fs = (Inr ks, fs1)" "kp_override K' = kp_override K" "kp_data K' = kp_data K"
    "kp_home K' = kp_home K" "kp_copies K' = kp_copies K"
  shows "identities A K' fs1 = (Inr ks, fs1)"
proof -
  obtain p fs0 where p: "keys_file K fs = (p, fs0)" by fastforce
  have same: "keys_file K' = keys_file K" unfolding keys_file_def assms(3-6) by (rule HOL.refl)
  obtain body where found: "map_of fs1 p = Some (Content body)" "parse_identities A body = Inr ks"
      "\<forall>q. q \<noteq> p \<longrightarrow> map_of fs1 q = map_of fs0 q"
    using assms(1,2) p parse_generated [OF assms(1), of "kp_fresh K"]
    by (auto simp: identities_def Let_def split: option.splits file_state.splits if_splits key_write.splits)
  then have "keys_file K' fs1 = (p, fs1)" using keys_file_again [OF p, of fs1] same by simp
  then show ?thesis using found by (simp add: identities_def)
qed

text \<open>
  What is sealed stays readable: a store written with the keys of a node is decrypted by the same node
  later, whatever key a new run would make, as long as the key file is there. These are the laws that the
  model of the store asks of its parameters.\<close>

definition node_seal :: "'k age_env \<Rightarrow> 'k key_place \<Rightarrow> text_files \<Rightarrow> store_file \<Rightarrow> string option" where
  "node_seal A K fs f = (case encrypt_payload A K (ag_yaml A f) fs of (Inr c, _) \<Rightarrow> Some c | _ \<Rightarrow> None)"

definition node_unseal :: "'k age_env \<Rightarrow> 'k key_place \<Rightarrow> text_files \<Rightarrow> string \<Rightarrow> store_file option" where
  "node_unseal A K fs c =
     (case decrypt_file A K ''secrets.age'' ((''secrets.age'', Content c) # fs) of (Inr f, _) \<Rightarrow> Some f | _ \<Rightarrow> None)"

lemma parse_identities_nonempty: "parse_identities A body = Inr ks \<Longrightarrow> ks \<noteq> []"
  by (auto simp: parse_identities_def split: sum.splits if_splits)

lemma identities_nonempty: "age_laws A \<Longrightarrow> identities A K fs = (Inr ks, fs1) \<Longrightarrow> ks \<noteq> []"
  by (auto simp: identities_def parse_generated Let_def dest: parse_identities_nonempty
      split: prod.splits option.splits file_state.splits if_splits key_write.splits)

lemma sealed_stays_readable:
  assumes laws: "age_laws A" and keys: "identities A K fs = (Inr ks, fs)"
    and other: "kp_override K = Some p" "p \<noteq> ''secrets.age''"
    and sealed: "node_seal A K fs f = Some c"
  shows "node_unseal A K fs c = Some f"
proof -
  have c: "ag_encrypt A (ag_public A (hd ks)) (ag_yaml A f) = Some c"
    using sealed keys by (auto simp: node_seal_def encrypt_payload_def recipient_def split: option.splits)
  have "map_of (snd (identities A K fs)) p = map_of fs p" using keys by simp
  then obtain body where body: "map_of fs p = Some (Content body)"
    using keys other
    by (auto simp: identities_def keys_file_def Let_def
        split: option.splits file_state.splits if_splits key_write.splits
        dest!: arg_cong [where f = "\<lambda>m. map_of m p"])
  then have "identities A K ((''secrets.age'', Content c) # fs) = (Inr ks, (''secrets.age'', Content c) # fs)"
    using keys other by (simp add: identities_def keys_file_def)
  moreover have "hd ks \<in> set ks" using identities_nonempty [OF laws keys] by simp
  with laws c have "ag_opens A c \<and> ag_decrypt A ks c = Some (ag_yaml A f)" unfolding age_laws_def by blast
  moreover have "ag_read_yaml A (ag_yaml A f) = Some f" using laws unfolding age_laws_def by blast
  ultimately show ?thesis by (simp add: node_unseal_def decrypt_file_def)
qed

lemma node_seals:
  assumes "age_laws A" "identities A K fs = (Inr ks, fs)" "kp_override K = Some p" "p \<noteq> ''secrets.age''"
  shows "seals (node_seal A K fs) (node_unseal A K fs)"
  using sealed_stays_readable [OF assms] by (simp add: seals_def)

section \<open>Broken files\<close>

text \<open>
  A key file that is there but cannot be read as text is overwritten with a new key: the secrets store,
  encrypted to the lost one, can then not be decrypted by any later run.\<close>

lemma broken_key_file_is_replaced:
  assumes "age_laws A" "kp_override K = Some p" "map_of fs p = Some Broken" "kp_writes K = KeyWritten"
  shows "identities A K fs = (Inr [kp_fresh K], put p (Content (new_key_text A (kp_fresh K))) fs)"
  using assms by (simp add: identities_def keys_file_def parse_generated)

text \<open>The desktop client replaces its identity in the same situation; the servers report it.\<close>

lemma broken_identity:
  "map_of dir ''iroh.key'' = Some Broken \<Longrightarrow>
     load_or_create_key KeyWritten fresh dir = (Inr fresh, put ''iroh.key'' (Content fresh) dir)"
  "map_of dir ''suzerain.key'' = Some Broken \<Longrightarrow>
     load_or_create_secret_key r KeyWritten fresh dir = (Inl KeyUnreadable, dir)"
  by (simp_all add: load_or_create_key_def write_key_def load_or_create_secret_key_def key_path_def migrate_name_def
      migrated_path_in_def load_or_create_at_def split: option.split)

end
