(* ===== verification/Start_Up.thy ===== *)
theory Start_Up
  imports Node_Keys Lifecycle Retention
begin

text \<open>
  How the processes start (crates/suzerain/src/main.rs, standalone.rs, the configuration file of
  retention.rs, \<open>start\<close> of control.rs; \<open>load_config\<close>, \<open>save_config\<close> of castellan's control.rs, and its
  lib.rs): the two configuration files, the preparation of a host, the start of the control plane
  with its operators and tasks, and of the co-located host of a standalone node. TOML, the parser of
  endpoint ids, the public half of a key and the operating system are the record \<open>start_env\<close>.
\<close>

section \<open>Configuration files\<close>

datatype role_mode = Standalone | ControlOnly | AgentOnly

record web_config =
  we_enabled :: bool
  we_port :: u16

record operator_config =
  op_enabled :: bool
  op_allow :: "string list"

record suzerain_config =
  sc_retention :: retention_config
  sc_web :: web_config
  sc_auto_suspend :: auto_suspend_config
  sc_bundles_dir :: "string option"
  sc_operator :: operator_config
  sc_mode :: role_mode

definition default_web :: web_config where "default_web = \<lparr>we_enabled = True, we_port = 8484\<rparr>"
definition default_operator :: operator_config where "default_operator = \<lparr>op_enabled = True, op_allow = []\<rparr>"

definition default_suzerain_config :: suzerain_config where
  "default_suzerain_config =
     \<lparr>sc_retention = \<lparr>rt_days = 0, rt_bundle_days = 0, rt_audit_days = 0\<rparr>, sc_web = default_web,
      sc_auto_suspend = default_auto_suspend, sc_bundles_dir = None, sc_operator = default_operator,
      sc_mode = Standalone\<rparr>"

datatype start_error =
  ConfigUnreadable | ConfigInvalid | ConfigNotWritten | IdentityFailed key_error | BadEndpointId string
| BadLabel string | SecretsNotLoaded secrets_error | StoreNotOpened string | BadOperatorId string | NotBound
| AlreadyRunning | ReconcileFailed | WorkerNotSpawned

record start_env =
  se_read :: "string \<Rightarrow> suzerain_config option"
  se_print :: "suzerain_config \<Rightarrow> string option"
  se_host_read :: "string \<Rightarrow> castellan_config option"
  se_host_print :: "castellan_config \<Rightarrow> string option"
  se_writes :: bool
  se_renames :: bool
  se_key_write :: key_write
  se_fresh :: "u8 list"
  se_host_fresh :: "u8 list"
  se_public :: "u8 list \<Rightarrow> string"
  se_endpoint_id :: "string \<Rightarrow> string option"
  se_binds :: bool
  se_spawns :: bool

definition read_config :: "(string \<Rightarrow> 'c option) \<Rightarrow> 'c \<Rightarrow> string \<Rightarrow> text_files \<Rightarrow> start_error + 'c" where
  "read_config parse def path dir =
     (case map_of dir path of
        None \<Rightarrow> Inr def
      | Some Broken \<Rightarrow> Inl ConfigUnreadable
      | Some (Content s) \<Rightarrow> (case parse s of None \<Rightarrow> Inl ConfigInvalid | Some c \<Rightarrow> Inr c))"

definition write_config :: "bool \<Rightarrow> ('c \<Rightarrow> string option) \<Rightarrow> string \<Rightarrow> 'c \<Rightarrow> text_files \<Rightarrow> (start_error + unit) \<times> text_files" where
  "write_config writes print path c dir =
     (case print c of
        None \<Rightarrow> (Inl ConfigNotWritten, dir)
      | Some s \<Rightarrow> if writes then (Inr (), put path (Content s) dir) else (Inl ConfigNotWritten, dir))"

definition config_path :: "bool \<Rightarrow> text_files \<Rightarrow> string \<times> text_files" where
  "config_path renames = migrate_name renames ''config.toml'' ''suzerain.toml''"

definition load_config :: "start_env \<Rightarrow> text_files \<Rightarrow> (start_error + suzerain_config) \<times> text_files" where
  "load_config S dir = (case config_path (se_renames S) dir of (p, dir1) \<Rightarrow> (read_config (se_read S) default_suzerain_config p dir1, dir1))"

definition with_operator :: "string \<Rightarrow> suzerain_config \<Rightarrow> suzerain_config" where
  "with_operator i c = c\<lparr>sc_operator := (sc_operator c)\<lparr>op_allow := op_allow (sc_operator c) @ [i]\<rparr>\<rparr>"

definition persist_operator :: "start_env \<Rightarrow> string \<Rightarrow> text_files \<Rightarrow> (start_error + bool) \<times> text_files" where
  "persist_operator S i dir =
     (case config_path (se_renames S) dir of (p, dir1) \<Rightarrow>
        (case read_config (se_read S) default_suzerain_config p dir1 of
           Inl e \<Rightarrow> (Inl e, dir1)
         | Inr c \<Rightarrow>
             if i \<in> set (op_allow (sc_operator c)) then (Inr False, dir1)
             else (case write_config (se_writes S) (se_print S) p (with_operator i c) dir1 of
                     (Inl e, dir2) \<Rightarrow> (Inl e, dir2)
                   | (Inr _, dir2) \<Rightarrow> (Inr True, dir2))))"

definition load_host_config :: "start_env \<Rightarrow> text_files \<Rightarrow> (start_error + castellan_config) \<times> text_files" where
  "load_host_config S dir =
     (case config_path_in (se_renames S) dir of (p, dir1) \<Rightarrow> (read_config (se_host_read S) default_castellan_config p dir1, dir1))"

definition save_host_config :: "start_env \<Rightarrow> castellan_config \<Rightarrow> text_files \<Rightarrow> (start_error + unit) \<times> text_files" where
  "save_host_config S c dir =
     (case config_path_in (se_renames S) dir of (p, dir1) \<Rightarrow> write_config (se_writes S) (se_host_print S) p c dir1)"

section \<open>Preparing a host\<close>

record home =
  hm_texts :: text_files
  hm_keys :: key_dir

datatype start_line = LabelsLine labels | HostedIdLine string | ApproveLine string | OperatorLine string | ControlIdLine string

definition update_host_config ::
    "start_env \<Rightarrow> (castellan_config \<Rightarrow> start_error + castellan_config) \<Rightarrow> home \<Rightarrow> (start_error + castellan_config) \<times> home" where
  "update_host_config S f hm =
     (case load_host_config S (hm_texts hm) of
        (Inl e, dir1) \<Rightarrow> (Inl e, hm\<lparr>hm_texts := dir1\<rparr>)
      | (Inr c, dir1) \<Rightarrow>
          (case f c of
             Inl e \<Rightarrow> (Inl e, hm\<lparr>hm_texts := dir1\<rparr>)
           | Inr c' \<Rightarrow>
               (case save_host_config S c' dir1 of
                  (Inl e, dir2) \<Rightarrow> (Inl e, hm\<lparr>hm_texts := dir2\<rparr>)
                | (Inr _, dir2) \<Rightarrow> (Inr c', hm\<lparr>hm_texts := dir2\<rparr>))))"

fun insert_labels :: "string list \<Rightarrow> castellan_config \<Rightarrow> start_error + castellan_config" where
  "insert_labels [] c = Inr c"
| "insert_labels (kv # kvs) c =
     (case split_once (CHR ''='') kv of
        None \<Rightarrow> Inl (BadLabel kv)
      | Some (k, v) \<Rightarrow> insert_labels kvs (c\<lparr>cf_labels := bt_insert (trim k) (trim v) (cf_labels c)\<rparr>))"

definition host_identity :: "start_env \<Rightarrow> home \<Rightarrow> (start_error + string) \<times> home" where
  "host_identity S hm =
     (case identity (se_renames S) (se_key_write S) (se_host_fresh S) (hm_keys hm) of
        (Inl e, ks) \<Rightarrow> (Inl (IdentityFailed e), hm\<lparr>hm_keys := ks\<rparr>)
      | (Inr key, ks) \<Rightarrow> (Inr (se_public S key), hm\<lparr>hm_keys := ks\<rparr>))"

definition init_endpoint :: "start_env \<Rightarrow> string option \<Rightarrow> home \<Rightarrow> (start_error + unit) \<times> home" where
  "init_endpoint S endpoint hm =
     (case endpoint of
        None \<Rightarrow> (Inr (), hm)
      | Some i \<Rightarrow>
          if se_endpoint_id S i = None then (Inl (BadEndpointId i), hm)
          else (case update_host_config S (\<lambda>c. Inr (c\<lparr>cf_suzerain_endpoint_id := Some i\<rparr>)) hm of
                  (Inl e, hm1) \<Rightarrow> (Inl e, hm1)
                | (Inr _, hm1) \<Rightarrow> (Inr (), hm1)))"

definition init_labels :: "start_env \<Rightarrow> string list \<Rightarrow> home \<Rightarrow> (start_error + start_line list) \<times> home" where
  "init_labels S kvs hm =
     (if kvs = [] then (Inr [], hm)
      else (case update_host_config S (insert_labels kvs) hm of
              (Inl e, hm1) \<Rightarrow> (Inl e, hm1)
            | (Inr c, hm1) \<Rightarrow> (Inr [LabelsLine (cf_labels c)], hm1)))"

definition init_agent_role ::
    "start_env \<Rightarrow> string option \<Rightarrow> string list \<Rightarrow> home \<Rightarrow> (start_error + start_line list) \<times> home" where
  "init_agent_role S endpoint kvs hm =
     (case host_identity S hm of
        (Inl e, hm1) \<Rightarrow> (Inl e, hm1)
      | (Inr i, hm1) \<Rightarrow>
          (case init_endpoint S endpoint hm1 of
             (Inl e, hm2) \<Rightarrow> (Inl e, hm2)
           | (Inr _, hm2) \<Rightarrow>
               (case init_labels S kvs hm2 of
                  (Inl e, hm3) \<Rightarrow> (Inl e, hm3)
                | (Inr ls, hm3) \<Rightarrow> (Inr (ls @ [HostedIdLine i, ApproveLine i]), hm3))))"

section \<open>Starting the control plane\<close>

datatype start_task = RetentionTask | SweepTask | ResumeTask | WebTask u16 | WorkerTask

text \<open>What a start has done so far: files, secrets, the store, tasks spawned and lines printed.\<close>

record booting =
  bo_home :: home
  bo_secrets :: secrets_state
  bo_store :: store
  bo_tasks :: "start_task list"
  bo_lines :: "start_line list"

definition configured_operators :: "start_env \<Rightarrow> suzerain_config \<Rightarrow> string list" where
  "configured_operators S c = List.map_filter (se_endpoint_id S) (op_allow (sc_operator c))"

fun approve_operators ::
    "start_env \<Rightarrow> string list \<Rightarrow> string list \<times> booting \<Rightarrow> (start_error + unit) \<times> string list \<times> booting" where
  "approve_operators S [] st = (Inr (), st)"
| "approve_operators S (raw # raws) (allow, b) =
     (case se_endpoint_id S raw of
        None \<Rightarrow> (Inl (BadOperatorId raw), allow, b)
      | Some i \<Rightarrow>
          (let allow1 = (if i \<in> set allow then allow else allow @ [i])
           in case persist_operator S raw (hm_texts (bo_home b)) of
                (Inl e, dir) \<Rightarrow> (Inl e, allow1, b\<lparr>bo_home := (bo_home b)\<lparr>hm_texts := dir\<rparr>\<rparr>)
              | (Inr _, dir) \<Rightarrow>
                  approve_operators S raws
                    (allow1, b\<lparr>bo_home := (bo_home b)\<lparr>hm_texts := dir\<rparr>, bo_lines := bo_lines b @ [OperatorLine i]\<rparr>)))"

text \<open>The server itself: the key, the endpoint, and the state with no session.\<close>

definition start_server :: "start_env \<Rightarrow> string list \<Rightarrow> booting \<Rightarrow> (start_error + (string \<times> control_plane)) \<times> booting" where
  "start_server S allow b0 =
     (let b = b0\<lparr>bo_store := set_all_daemons_offline (bo_store b0)\<rparr>
      in case load_or_create_secret_key (se_renames S) (se_key_write S) (se_fresh S) (hm_keys (bo_home b)) of
           (Inl e, ks) \<Rightarrow> (Inl (IdentityFailed e), b\<lparr>bo_home := (bo_home b)\<lparr>hm_keys := ks\<rparr>\<rparr>)
         | (Inr key, ks) \<Rightarrow>
             (let b1 = b\<lparr>bo_home := (bo_home b)\<lparr>hm_keys := ks\<rparr>\<rparr>
              in if se_binds S then (Inr (se_public S key, initial_cp (bo_store b0) allow), b1) else (Inl NotBound, b1)))"

definition serve_tasks :: "suzerain_config \<Rightarrow> start_task list" where
  "serve_tasks c = [SweepTask, ResumeTask] @ (if we_enabled (sc_web c) then [WebTask (we_port (sc_web c))] else [])"

definition run_control_plane ::
    "start_env \<Rightarrow> (store_file \<Rightarrow> string option) \<Rightarrow> (string \<Rightarrow> store_file option) \<Rightarrow> string + store \<Rightarrow> string list \<Rightarrow> booting \<Rightarrow>
      (start_error + (string \<times> control_plane)) \<times> booting" where
  "run_control_plane S seal unseal opened operators b =
     (case load seal unseal (bo_secrets b) of
        (Inl e, sec) \<Rightarrow> (Inl (SecretsNotLoaded e), b\<lparr>bo_secrets := sec\<rparr>)
      | (Inr _, sec) \<Rightarrow>
          (case opened of
             Inl e \<Rightarrow> (Inl (StoreNotOpened e), b\<lparr>bo_secrets := sec\<rparr>)
           | Inr s \<Rightarrow>
               (let b1 = b\<lparr>bo_secrets := sec, bo_store := s, bo_tasks := bo_tasks b @ [RetentionTask]\<rparr>
                in case load_config S (hm_texts (bo_home b1)) of
                     (Inl e, dir) \<Rightarrow> (Inl e, b1\<lparr>bo_home := (bo_home b1)\<lparr>hm_texts := dir\<rparr>\<rparr>)
                   | (Inr c, dir) \<Rightarrow>
                       (case approve_operators S operators
                              (configured_operators S c, b1\<lparr>bo_home := (bo_home b1)\<lparr>hm_texts := dir\<rparr>\<rparr>) of
                          (Inl e, _, b2) \<Rightarrow> (Inl e, b2)
                        | (Inr _, allow, b2) \<Rightarrow>
                            (case start_server S allow b2 of
                               (Inl e, b3) \<Rightarrow> (Inl e, b3)
                             | (Inr (i, cp), b3) \<Rightarrow>
                                 (Inr (i, cp),
                                  b3\<lparr>bo_lines := bo_lines b3 @ [ControlIdLine i], bo_tasks := bo_tasks b3 @ serve_tasks c\<rparr>))))))"

section \<open>A standalone node\<close>

definition spawn_agent_worker :: "start_env \<Rightarrow> string \<Rightarrow> control_plane \<Rightarrow> home \<Rightarrow> (start_error + string) \<times> control_plane \<times> home" where
  "spawn_agent_worker S control_id cp hm =
     (case host_identity S hm of
        (Inl e, hm1) \<Rightarrow> (Inl e, cp, hm1)
      | (Inr child, hm1) \<Rightarrow>
          (let cp1 = on_store (approve_daemon child) cp
           in case load_host_config S (hm_texts hm1) of
                (Inl e, dir) \<Rightarrow> (Inl e, cp1, hm1\<lparr>hm_texts := dir\<rparr>)
              | (Inr c, dir) \<Rightarrow>
                  (case (if cf_suzerain_endpoint_id c = Some control_id then (Inr (), dir)
                         else save_host_config S (c\<lparr>cf_suzerain_endpoint_id := Some control_id\<rparr>) dir) of
                     (Inl e, dir1) \<Rightarrow> (Inl e, cp1, hm1\<lparr>hm_texts := dir1\<rparr>)
                   | (Inr _, dir1) \<Rightarrow>
                       (if se_spawns S then Inr child else Inl WorkerNotSpawned, cp1, hm1\<lparr>hm_texts := dir1\<rparr>))))"

definition run_standalone ::
    "start_env \<Rightarrow> (store_file \<Rightarrow> string option) \<Rightarrow> (string \<Rightarrow> store_file option) \<Rightarrow> string + store \<Rightarrow> string list \<Rightarrow> booting \<Rightarrow>
      (start_error + (string \<times> control_plane)) \<times> booting" where
  "run_standalone S seal unseal opened operators b =
     (case run_control_plane S seal unseal opened operators b of
        (Inl e, b1) \<Rightarrow> (Inl e, b1)
      | (Inr (i, cp), b1) \<Rightarrow>
          (case spawn_agent_worker S i cp (bo_home b1) of
             (Inl e, cp1, hm) \<Rightarrow> (Inl e, b1\<lparr>bo_home := hm, bo_store := cp_store cp1\<rparr>)
           | (Inr child, cp1, hm) \<Rightarrow>
               (Inr (i, cp1), b1\<lparr>bo_home := hm, bo_store := cp_store cp1, bo_tasks := bo_tasks b1 @ [WorkerTask]\<rparr>)))"

text \<open>The daemon of a host: one instance for a data directory, records reconciled before it serves.\<close>

definition run_foreground :: "bool \<Rightarrow> 'g host \<Rightarrow> (start_error + unit) \<times> 'g host" where
  "run_foreground lock_held h =
     (if lock_held then (Inl AlreadyRunning, h)
      else (case reconcile_on_start h of (Inl _, h1) \<Rightarrow> (Inl ReconcileFailed, h1) | (Inr _, h1) \<Rightarrow> (Inr (), h1)))"

definition run_mode :: "start_env \<Rightarrow> role_mode option \<Rightarrow> text_files \<Rightarrow> (start_error + role_mode) \<times> text_files" where
  "run_mode S chosen dir =
     (case chosen of
        Some m \<Rightarrow> (Inr m, dir)
      | None \<Rightarrow> (case load_config S dir of (Inl e, dir1) \<Rightarrow> (Inl e, dir1) | (Inr c, dir1) \<Rightarrow> (Inr (sc_mode c), dir1)))"

section \<open>Configuration survives\<close>

text \<open>What TOML promises: a configuration is printed, and read back as it was.\<close>

definition toml_laws :: "start_env \<Rightarrow> bool" where
  "toml_laws S \<longleftrightarrow> (\<forall>c s. se_print S c = Some s \<longrightarrow> se_read S s = Some c) \<and>
     (\<forall>c s. se_host_print S c = Some s \<longrightarrow> se_host_read S s = Some c)"

lemma write_config_read:
  assumes "write_config writes print p c dir = (Inr (), dir')" "\<forall>s. print c = Some s \<longrightarrow> parse s = Some c"
  shows "read_config parse def p dir' = Inr c \<and> map_of dir' p \<noteq> None \<and> (\<forall>q. q \<noteq> p \<longrightarrow> map_of dir' q = map_of dir q)"
  using assms by (auto simp: write_config_def read_config_def split: option.splits if_splits)

lemma migrated_path_stays: "migrated_path_in n l r dir = (p, dir1) \<Longrightarrow> migrated_path_in n l r dir1 = (p, dir1)"
  by (auto simp: migrated_path_in_def bt_lookup_remove split: option.splits if_splits)

lemmas config_paths = config_path_def migrate_name_def config_path_in_def

lemma persist_operator_config:
  assumes laws: "toml_laws S" and c: "fst (load_config S dir) = Inr c" and ok: "persist_operator S i dir = (Inr new, dir')"
  shows "fst (load_config S dir') = Inr (if i \<in> set (op_allow (sc_operator c)) then c else with_operator i c) \<and>
    (new \<longleftrightarrow> i \<notin> set (op_allow (sc_operator c)))"
proof -
  obtain p dir1 where p: "config_path (se_renames S) dir = (p, dir1)" by fastforce
  then have again: "config_path (se_renames S) dir1 = (p, dir1)"
    using migrated_path_stays by (simp add: config_paths)
  have read: "read_config (se_read S) default_suzerain_config p dir1 = Inr c" using c p by (simp add: load_config_def)
  show ?thesis
  proof (cases "i \<in> set (op_allow (sc_operator c))")
    case True
    then show ?thesis using ok p again read by (auto simp: persist_operator_def load_config_def)
  next
    case False
    then have w: "write_config (se_writes S) (se_print S) p (with_operator i c) dir1 = (Inr (), dir')" and "new"
      using ok p read by (auto simp: persist_operator_def split: prod.splits sum.splits)
    have r: "read_config (se_read S) default_suzerain_config p dir' = Inr (with_operator i c)" "map_of dir' p \<noteq> None"
        "\<forall>q. q \<noteq> p \<longrightarrow> map_of dir' q = map_of dir1 q"
      using write_config_read [OF w] laws unfolding toml_laws_def by blast+
    have "config_path (se_renames S) dir' = (p, dir')"
      using migrated_path_again r(2,3) p by (simp add: config_paths)
    then show ?thesis using r(1) False \<open>new\<close> by (simp add: load_config_def)
  qed
qed

text \<open>The operators named at the start are let in now and after a restart; the rest of the file stays.\<close>

definition only_adds :: "string set \<Rightarrow> suzerain_config \<Rightarrow> suzerain_config \<Rightarrow> bool" where
  "only_adds xs c c' \<longleftrightarrow> set (op_allow (sc_operator c')) = set (op_allow (sc_operator c)) \<union> xs \<and>
     c' = c\<lparr>sc_operator := (sc_operator c)\<lparr>op_allow := op_allow (sc_operator c')\<rparr>\<rparr>"

lemma only_adds_trans: "only_adds xs c c1 \<Longrightarrow> only_adds ys c1 c2 \<Longrightarrow> only_adds (xs \<union> ys) c c2"
  by (cases c; cases c1; cases c2; cases "sc_operator c"; cases "sc_operator c1"; cases "sc_operator c2")
    (auto simp: only_adds_def)

lemma approve_operators_persist:
  assumes "toml_laws S" "fst (load_config S (hm_texts (bo_home b))) = Inr c"
    "approve_operators S raws (allow, b) = (Inr (), allow', b')"
  shows "(\<forall>raw \<in> set raws. se_endpoint_id S raw \<noteq> None) \<and>
    set allow' = set allow \<union> set (List.map_filter (se_endpoint_id S) raws) \<and>
    (\<exists>c'. fst (load_config S (hm_texts (bo_home b'))) = Inr c' \<and> only_adds (set raws) c c') \<and>
    bo_store b' = bo_store b \<and> bo_secrets b' = bo_secrets b"
  using assms(2,3)
proof (induction raws arbitrary: allow b c)
  case Nil
  then show ?case by (auto simp: only_adds_def List.map_filter_def)
next
  case (Cons raw raws)
  obtain i new dir where i: "se_endpoint_id S raw = Some i" "persist_operator S raw (hm_texts (bo_home b)) = (Inr new, dir)"
      "approve_operators S raws (if i \<in> set allow then allow else allow @ [i],
        b\<lparr>bo_home := (bo_home b)\<lparr>hm_texts := dir\<rparr>, bo_lines := bo_lines b @ [OperatorLine i]\<rparr>) = (Inr (), allow', b')"
    using Cons.prems(2) by (auto simp: Let_def split: option.splits prod.splits sum.splits)
  define c1 where "c1 = (if raw \<in> set (op_allow (sc_operator c)) then c else with_operator raw c)"
  have c1: "fst (load_config S dir) = Inr c1" "only_adds {raw} c c1"
    using persist_operator_config [OF assms(1) Cons.prems(1) i(2)]
    by (auto simp: c1_def only_adds_def with_operator_def)
  note ih = Cons.IH [OF _ i(3), of c1, simplified, OF c1(1)]
  then obtain c' where c': "fst (load_config S (hm_texts (bo_home b'))) = Inr c'" "only_adds (set raws) c1 c'" by blast
  have "only_adds (set (raw # raws)) c c'" using only_adds_trans [OF c1(2) c'(2)] by simp
  then show ?case using i(1) c'(1) ih by (auto split: if_splits)
qed

lemma operators_of_the_start:
  assumes laws: "toml_laws S" and c: "fst (load_config S (hm_texts (bo_home b))) = Inr c"
    and run: "run_control_plane S seal unseal opened operators b = (Inr (i, cp), b')"
  shows "cp_operator_allow cp = set (configured_operators S c) \<union> set (List.map_filter (se_endpoint_id S) operators) \<and>
    (\<exists>c'. fst (load_config S (hm_texts (bo_home b'))) = Inr c' \<and> only_adds (set operators) c c') \<and>
    cp_sessions cp = Map.empty \<and> (\<forall>d \<in> set (st_daemons (cp_store cp)). \<not> d_online d)"
proof -
  obtain sec s dir allow b2 where steps:
      "load seal unseal (bo_secrets b) = (Inr (), sec)" "opened = Inr s"
      "load_config S (hm_texts (bo_home b)) = (Inr c, dir)"
      "approve_operators S operators (configured_operators S c,
        b\<lparr>bo_secrets := sec, bo_store := s, bo_tasks := bo_tasks b @ [RetentionTask],
          bo_home := (bo_home b)\<lparr>hm_texts := dir\<rparr>\<rparr>) = (Inr (), allow, b2)"
      "\<exists>b3. start_server S allow b2 = (Inr (i, cp), b3) \<and> hm_texts (bo_home b') = hm_texts (bo_home b3)"
    using run c by (auto simp: run_control_plane_def Let_def split: prod.splits sum.splits)
  have again: "fst (load_config S dir) = Inr c"
    using steps(3) migrated_path_stays by (fastforce simp: load_config_def config_paths split: prod.splits)
  have server: "cp = initial_cp (bo_store b2) allow" "hm_texts (bo_home b') = hm_texts (bo_home b2)"
    using steps(5) by (auto simp: start_server_def Let_def split: prod.splits sum.splits if_splits)
  show ?thesis
    using approve_operators_persist [OF laws _ steps(4), of c] again server
    by (auto simp: initial_cp_def set_all_daemons_offline_def)
qed

text \<open>
  The switch \<open>enabled\<close> of the operator section changes nothing: neither the operators that are let in
  nor the tasks that are started depend on it.\<close>

lemma operator_switch_ignored:
  assumes "c' = c\<lparr>sc_operator := (sc_operator c)\<lparr>op_enabled := False\<rparr>\<rparr>"
  shows "configured_operators S c' = configured_operators S c \<and> serve_tasks c' = serve_tasks c"
  using assms by (simp add: configured_operators_def serve_tasks_def)

section \<open>A standalone node finds itself\<close>

lemma approve_daemon_approves: "daemon_approved i (approve_daemon i s)"
  by (auto simp: daemon_approved_def approve_daemon_def Let_def find_upsert_row [where g = d_endpoint_id] blank_daemon_def
      split: option.splits)

text \<open>
  The co-located host is approved under the identity that it will have when it starts, whatever key it
  would generate, and its configuration names this control plane and is otherwise as it was.\<close>

lemma standalone_worker_connects:
  assumes laws: "toml_laws S" and fresh: "length (se_host_fresh S) = 32"
    and run: "spawn_agent_worker S control_id cp hm = (Inr child, cp', hm')"
    and c: "fst (load_host_config S (hm_texts hm)) = Inr c"
  shows "daemon_approved child (cp_store cp') \<and>
    host_identity (S\<lparr>se_host_fresh := other\<rparr>) hm' = (Inr child, hm') \<and>
    fst (load_host_config S (hm_texts hm')) = Inr (c\<lparr>cf_suzerain_endpoint_id := Some control_id\<rparr>)"
proof -
  obtain hm1 where child: "host_identity S hm = (Inr child, hm1)"
    using run by (auto simp: spawn_agent_worker_def Let_def split: prod.splits sum.splits if_splits)
  obtain key ks where key: "identity (se_renames S) (se_key_write S) (se_host_fresh S) (hm_keys hm) = (Inr key, ks)"
      "child = se_public S key" "hm1 = hm\<lparr>hm_keys := ks\<rparr>"
    using child by (auto simp: host_identity_def split: prod.splits sum.splits)
  obtain p dir where p: "config_path_in (se_renames S) (hm_texts hm) = (p, dir)" by fastforce
  then have again: "config_path_in (se_renames S) dir = (p, dir)" using migrated_path_stays by (simp add: config_paths)
  have read: "read_config (se_host_read S) default_castellan_config p dir = Inr c" using c p by (simp add: load_host_config_def)
  have loaded: "load_host_config S (hm_texts hm1) = (Inr c, dir)" using p read key(3) by (simp add: load_host_config_def)
  obtain dir' where saved: "(if cf_suzerain_endpoint_id c = Some control_id then (Inr (), dir)
        else save_host_config S (c\<lparr>cf_suzerain_endpoint_id := Some control_id\<rparr>) dir) = (Inr (), dir')"
      "cp' = on_store (approve_daemon child) cp" "hm' = hm1\<lparr>hm_texts := dir'\<rparr>"
    using run child loaded by (auto simp: spawn_agent_worker_def Let_def split: prod.splits sum.splits if_splits)
  have "fst (load_host_config S dir') = Inr (c\<lparr>cf_suzerain_endpoint_id := Some control_id\<rparr>)"
  proof (cases "cf_suzerain_endpoint_id c = Some control_id")
    case True
    then show ?thesis using saved(1) again read by (simp add: load_host_config_def)
  next
    case False
    then have w: "write_config (se_writes S) (se_host_print S) p (c\<lparr>cf_suzerain_endpoint_id := Some control_id\<rparr>) dir = (Inr (), dir')"
      using saved(1) again by (simp add: save_host_config_def)
    have r: "read_config (se_host_read S) default_castellan_config p dir' = Inr (c\<lparr>cf_suzerain_endpoint_id := Some control_id\<rparr>)"
        "map_of dir' p \<noteq> None" "\<forall>q. q \<noteq> p \<longrightarrow> map_of dir' q = map_of dir q"
      using write_config_read [OF w] laws unfolding toml_laws_def by blast+
    have "config_path_in (se_renames S) dir' = (p, dir')" using migrated_path_again r(2,3) p by (simp add: config_paths)
    then show ?thesis using r(1) by (simp add: load_host_config_def)
  qed
  moreover have "identity (se_renames S) (se_key_write S) other ks = (Inr key, ks)"
    using identities_of_nodes_stay(2) [OF fresh key(1)] .
  ultimately show ?thesis
    using saved(2,3) key by (simp add: approve_daemon_approves host_identity_def)
qed

text \<open>
  A legacy identity file in the shared directory is renamed by whichever role starts first: after a
  host has been prepared where a control plane ran, that control plane comes up under a new identity.\<close>

lemma legacy_identity_taken:
  assumes "map_of dir ''identity.key'' = Some (Content k)" "length k = 32"
    "map_of dir ''castellan.key'' = None" "map_of dir ''suzerain.key'' = None"
    "identity True wr f dir = (r, dir1)"
  shows "r = Inr k \<and> fst (load_or_create_secret_key True KeyWritten fresh dir1) = Inr fresh \<and>
    fst (load_or_create_secret_key True KeyWritten fresh dir) = Inr k"
  using assms by (auto simp: identity_def identity_path_in_def load_or_create_secret_key_def key_path_def migrate_name_def
      migrated_path_in_def load_or_create_at_def read_key_def write_key_def bt_lookup_remove)

end
