(* ===== verification/Host_Probe.thy ===== *)
theory Host_Probe
  imports Messages Lines
begin

text \<open>
  What a host tells of itself (crates/castellan/src/probe.rs) and the message it registers with
  (\<open>connect_and_serve\<close> of crates/castellan/src/control.rs). The record \<open>machine\<close> holds what the
  operating system answers: the texts of files and tools, and the numbers of its calls.
\<close>

section \<open>Reading the tools\<close>

datatype machine_os = LinuxHost | MacHost

record machine =
  mc_os :: machine_os
  mc_arch :: string
  mc_hostname :: "string option"
  mc_parallelism :: "nat option"
  mc_meminfo :: "string option"
  mc_sysctl :: "string \<Rightarrow> string option"
  mc_vm_stat :: "string option"
  mc_load1 :: "string option"
  mc_statvfs :: "(u64 \<times> u64) option"
  mc_nvidia_smi :: "(bool \<times> string) option"

definition os_text :: "machine_os \<Rightarrow> string" where
  "os_text os = (case os of LinuxHost \<Rightarrow> ''linux'' | MacHost \<Rightarrow> ''macos'')"

definition split_whitespace :: "string \<Rightarrow> string list" where
  "split_whitespace s = filter (\<lambda>w. w \<noteq> []) (split_on is_ws s)"

definition parse_u32 :: "string \<Rightarrow> u32 option" where
  "parse_u32 s = (case parse_u64 s of
     None \<Rightarrow> None | Some n \<Rightarrow> if unat n < 2 ^ 32 then Some (ucast n) else None)"

definition parse_kib :: "string \<Rightarrow> u64" where
  "parse_kib s = (case split_whitespace s of [] \<Rightarrow> 0 | w # _ \<Rightarrow> unwrap_or 0 (parse_u64 w))"

definition sysctl_u64 :: "machine \<Rightarrow> string \<Rightarrow> u64" where
  "sysctl_u64 M name = (case mc_sysctl M name of None \<Rightarrow> 0 | Some out \<Rightarrow> unwrap_or 0 (parse_u64 (trim out)))"

text \<open>\<open>/proc/meminfo\<close>: the last line of each kind counts.\<close>

definition meminfo_line :: "string \<Rightarrow> u64 \<times> u64 \<Rightarrow> u64 \<times> u64" where
  "meminfo_line l = (\<lambda>(mem_total, avail).
     case strip_prefix ''MemTotal:'' l of
       Some v \<Rightarrow> (parse_kib v, avail)
     | None \<Rightarrow> (case strip_prefix ''MemAvailable:'' l of Some v \<Rightarrow> (mem_total, parse_kib v) | None \<Rightarrow> (mem_total, avail)))"

definition last_word_number :: "string \<Rightarrow> u64" where
  "last_word_number l =
     (case rev (split_whitespace l) of
        [] \<Rightarrow> 0
      | w # _ \<Rightarrow> unwrap_or 0 (parse_u64 (rev (dropWhile (\<lambda>c. c = CHR ''.'') (rev w)))))"

definition free_pages :: "string \<Rightarrow> u64" where
  "free_pages text = fold (\<lambda>l free.
     if starts_with l ''Pages free'' \<or> starts_with l ''Pages inactive'' then free + last_word_number l else free)
     (str_lines text) 0"

text \<open>Total and free memory in MiB.\<close>

definition memory :: "machine \<Rightarrow> u64 \<times> u64" where
  "memory M =
     (case mc_os M of
        LinuxHost \<Rightarrow>
          (case mc_meminfo M of
             None \<Rightarrow> (0, 0)
           | Some text \<Rightarrow>
               (case fold meminfo_line (str_lines text) (0, 0) of
                  (mem_total, avail) \<Rightarrow> if mem_total > 0 then (mem_total div 1024, avail div 1024) else (0, 0)))
      | MacHost \<Rightarrow>
          (let mem_total = sysctl_u64 M ''hw.memsize'' div (1024 * 1024);
               page = max (sysctl_u64 M ''hw.pagesize'') 4096;
               free = (case mc_vm_stat M of None \<Rightarrow> 0 | Some text \<Rightarrow> free_pages text)
           in (mem_total, free * page div (1024 * 1024))))"

definition load1 :: "machine \<Rightarrow> string" where
  "load1 M = unwrap_or ''0'' (mc_load1 M)"

definition disk :: "machine \<Rightarrow> u64 \<times> u64" where
  "disk M = (case mc_statvfs M of None \<Rightarrow> (0, 0) | Some (t, f) \<Rightarrow> (t div (1024 * 1024), f div (1024 * 1024)))"

definition gpu_line :: "string \<Rightarrow> gpu_info option" where
  "gpu_line l =
     (case map trim (split_on (\<lambda>c. c = CHR '','') l) of
        [index, name, mem_total, free] \<Rightarrow>
          Some \<lparr>g_index = unwrap_or 0 (parse_u32 index), g_kind = Nvidia, g_name = name,
            g_vram_total_mib = parse_u64 mem_total, g_vram_free_mib = parse_u64 free\<rparr>
      | _ \<Rightarrow> None)"

definition nvidia_gpus :: "machine \<Rightarrow> gpu_info list" where
  "nvidia_gpus M =
     (case mc_nvidia_smi M of
        Some (True, text) \<Rightarrow> List.map_filter gpu_line (str_lines text)
      | _ \<Rightarrow> [])"

definition detect_gpus :: "machine \<Rightarrow> u64 \<Rightarrow> gpu_info list" where
  "detect_gpus M memory_mib_total =
     (if nvidia_gpus M \<noteq> [] then nvidia_gpus M
      else if mc_os M = MacHost \<and> mc_arch M = ''aarch64'' then
        [\<lparr>g_index = 0, g_kind = Apple, g_name = ''Apple Unified Memory GPU'',
          g_vram_total_mib = Some memory_mib_total, g_vram_free_mib = Some memory_mib_total\<rparr>]
      else [])"

definition refresh_gpu_free :: "machine \<Rightarrow> gpu_info list \<Rightarrow> u64 \<Rightarrow> gpu_info list" where
  "refresh_gpu_free M gpus memory_mib_free =
     (if list_ex (\<lambda>g. g_kind g = Nvidia) gpus then detect_gpus M 0
      else map (\<lambda>g. if g_kind g = Apple then g\<lparr>g_vram_free_mib := Some memory_mib_free\<rparr> else g) gpus)"

definition host_capacity :: "machine \<Rightarrow> node_capacity" where
  "host_capacity M =
     (let mem_total = fst (memory M)
      in \<lparr>c_vcpu_total = (case mc_parallelism M of None \<Rightarrow> 1 | Some n \<Rightarrow> of_nat n),
          c_memory_mib_total = mem_total, c_disk_mib_total = fst (disk M), c_gpus = detect_gpus M mem_total\<rparr>)"

definition host_usage :: "machine \<Rightarrow> node_capacity \<Rightarrow> node_usage" where
  "host_usage M capacity =
     (let free = snd (memory M)
      in \<lparr>u_memory_mib_free = free, u_cpu_load1 = load1 M, u_disk_mib_free = snd (disk M),
          u_gpus = refresh_gpu_free M (c_gpus capacity) free\<rparr>)"

definition hostname :: "machine \<Rightarrow> string" where
  "hostname M = (case mc_hostname M of
     None \<Rightarrow> ''unknown'' | Some out \<Rightarrow> if trim out = [] then ''unknown'' else trim out)"

section \<open>What is read\<close>

lemma split_on_no: "(\<And>c. c \<in> set s \<Longrightarrow> \<not> p c) \<Longrightarrow> split_on p s = [s]"
  by (induction s) auto

lemma split_on_sep: "(\<And>c. c \<in> set s \<Longrightarrow> \<not> p c) \<Longrightarrow> p d \<Longrightarrow> split_on p (s @ d # t) = s # split_on p t"
  by (induction s) auto

text \<open>A line of \<open>/proc/meminfo\<close> as the kernel writes it.\<close>

definition kib_line :: "string \<Rightarrow> nat \<Rightarrow> nat \<Rightarrow> string" where
  "kib_line key pad n = key @ replicate pad (CHR '' '') @ show_nat n @ '' kB''"

lemma parse_kib_line:
  assumes "n < 2 ^ 64"
  shows "parse_kib (replicate pad (CHR '' '') @ show_nat n @ '' kB'') = of_nat n"
proof -
  have d: "\<not> is_ws c" if "c \<in> set (show_nat n)" for c
    using show_nat_char_props(2) [OF that] .
  have ws: "is_ws (CHR '' '')" by (simp add: is_ws_def)
  have "split_on is_ws (show_nat n @ CHR '' '' # ''kB'') = show_nat n # split_on is_ws ''kB''"
    using d ws by (rule split_on_sep)
  then have "split_whitespace (show_nat n @ '' kB'') = [show_nat n, ''kB'']"
    using show_nat_nonempty [of n] by (simp add: split_whitespace_def is_ws_def)
  moreover have "split_whitespace (replicate k (CHR '' '') @ s) = split_whitespace s" for k s
    using ws by (induction k) (auto simp: split_whitespace_def)
  ultimately show ?thesis
    by (simp only: parse_kib_def) (simp add: parse_u64_show_nat [OF assms] unwrap_or_def)
qed

text \<open>On Linux the memory reported is the one of the two lines, in whole MiB.\<close>

lemma memory_linux:
  assumes "mc_os M = LinuxHost" "0 < mem_total" "mem_total < 2 ^ 64" "avail < 2 ^ 64"
    and "mc_meminfo M = Some (unlines (kib_line ''MemTotal:'' p mem_total # between @
      kib_line ''MemAvailable:'' q avail # after))"
    and "\<forall>l \<in> set (between @ after). newline \<notin> set l \<and> CHR 0x0D \<notin> set l \<and>
      \<not> starts_with l ''MemTotal:'' \<and> \<not> starts_with l ''MemAvailable:''"
  shows "memory M = (of_nat (mem_total div 1024), of_nat (avail div 1024))"
proof -
  let ?lines = "kib_line ''MemTotal:'' p mem_total # between @ kib_line ''MemAvailable:'' q avail # after"
  have kib: "newline \<notin> set (kib_line k r n) \<and> CHR 0x0D \<notin> set (kib_line k r n)"
    if "k \<in> {''MemTotal:'', ''MemAvailable:''}" for k r n
    using that show_nat_char_props(1) [of newline n] show_nat_char_props(1) [of "CHR 0x0D" n]
    by (auto simp: kib_line_def is_digit_def)
  have skip: "fold meminfo_line ls acc = acc"
    if "\<forall>l \<in> set ls. \<not> starts_with l ''MemTotal:'' \<and> \<not> starts_with l ''MemAvailable:''" for ls acc
    using that by (induction ls) (auto simp: meminfo_line_def strip_prefix_def starts_with_def)
  have "str_lines (unlines ?lines) = ?lines" using assms(6) kib by (intro str_lines_unlines) auto
  moreover have "fold meminfo_line ?lines (0, 0) = (of_nat mem_total, of_nat avail)"
    using assms(3,4,6) skip [of between] skip [of after]
    by (simp add: meminfo_line_def kib_line_def strip_prefix_def parse_kib_line)
  moreover have "(of_nat n :: u64) div 1024 = of_nat (n div 1024)" if "n < 2 ^ 64" for n
    using that by (simp add: unat_div word_unat_eq_iff unat_of_nat take_bit_nat_eq_self div_le_dividend
        le_less_trans [OF div_le_dividend])
  moreover have "(0 :: u64) < of_nat mem_total"
    using assms(2,3) by (simp add: word_less_nat_alt unat_of_nat take_bit_nat_eq_self)
  ultimately show ?thesis using assms by (simp add: memory_def)
qed

text \<open>When \<open>nvidia-smi\<close> fails after start-up, the host has capacity for GPUs but reports none in use or free.\<close>

lemma gpus_vanish:
  assumes "c_gpus cap = [g]" "g_kind g = Nvidia" "mc_nvidia_smi M = None" "mc_os M = LinuxHost"
  shows "u_gpus (host_usage M cap) = []"
  using assms by (simp add: host_usage_def Let_def refresh_gpu_free_def detect_gpus_def nvidia_gpus_def)

end
