(* ===== verification/Host_Connection.thy ===== *)
theory Host_Connection
  imports Host_Probe Host_Control Log_Shipping
begin

text \<open>
  The host's end of the control connection (\<open>connect_and_serve\<close>, \<open>handle_inbound_stream\<close>,
  \<open>handle_shell\<close> and \<open>run_state_reporter\<close> of crates/castellan/src/control.rs): registration, the
  streams the control plane opens, and the reports of states, with the loop of
  \<open>handle_state_reports\<close> (crates/suzerain/src/control.rs) that takes them. A stream is the list of
  what its \<open>select!\<close> loop takes in; a list that ends is a loop that was aborted with the connection.
\<close>

section \<open>Registration\<close>

definition register_message :: "machine \<Rightarrow> castellan_config \<Rightarrow> string \<Rightarrow> register_msg" where
  "register_message M cfg eid =
     (let capacity = host_capacity M
      in \<lparr>rg_info =
            \<lparr>i_endpoint_id = eid, i_hostname = hostname M, i_os = os_text (mc_os M), i_arch = mc_arch M,
             i_labels = cf_labels cfg, i_max_agents = cf_max_agents cfg, i_agents = [],
             i_capacity = capacity, i_usage = host_usage M capacity\<rparr>,
          rg_protocol_version = protocol_version\<rparr>)"

text \<open>What the host makes of the answer: an error with the reason, or it serves.\<close>

definition registered :: "register_response \<Rightarrow> (u32 \<times> string) option" where
  "registered r = (if rr_accepted r then None else Some (rr_protocol_version r, unwrap_or [] (rr_message r)))"

section \<open>Streams the control plane opens\<close>

datatype attach_event =
  FromOperator attach_message
| OperatorLeft
| OperatorBroken
| PiSays json
| PiLagged
| PiGone

fun attach_loop ::
    "'g platform \<Rightarrow> host_env \<Rightarrow> uuid \<Rightarrow> attach_event list \<Rightarrow> 'g host \<Rightarrow>
      (host_error + unit) \<times> attach_message list \<times> 'g host" where
  "attach_loop P E i [] h = (Inr (), [], h)"
| "attach_loop P E i (ev # evs) h =
     (case ev of
        FromOperator m \<Rightarrow>
          (case attach_input P E i m h of
             (Inl e, h1) \<Rightarrow> (Inl e, [], h1)
           | (Inr out, h1) \<Rightarrow> (case attach_loop P E i evs h1 of (r, more_out, h2) \<Rightarrow> (r, out @ more_out, h2)))
      | OperatorLeft \<Rightarrow> (Inr (), [], h)
      | OperatorBroken \<Rightarrow> (Inl StreamFailed, [], h)
      | PiSays j \<Rightarrow> (case attach_loop P E i evs h of (r, out, h1) \<Rightarrow> (r, AttEvent j # out, h1))
      | PiLagged \<Rightarrow> attach_loop P E i evs h
      | PiGone \<Rightarrow> (Inr (), [], h))"

definition handle_attach ::
    "'g platform \<Rightarrow> host_env \<Rightarrow> uuid \<Rightarrow> attach_event list \<Rightarrow> 'g host \<Rightarrow>
      (host_error + unit) \<times> attach_message list \<times> 'g host" where
  "handle_attach P E i evs h =
     (case start_attach P E i h of
        (Inl e, out, h1) \<Rightarrow> (Inl e, out, h1)
      | (Inr _, out, h1) \<Rightarrow> (case attach_loop P E i evs h1 of (r, more_out, h2) \<Rightarrow> (r, out @ more_out, h2)))"

datatype shell_loop_event =
  ShellFrom shell_message
| ShellLeft
| ShellStreamBroken
| ShellDriver driver_event
| ShellLagged
| ShellClosedBus

fun shell_loop ::
    "'g platform \<Rightarrow> uuid \<Rightarrow> nat \<Rightarrow> u32 \<Rightarrow> shell_loop_event list \<Rightarrow> 'g host \<Rightarrow>
      (host_error + unit) \<times> shell_message list \<times> 'g host" where
  "shell_loop P i d sid [] h = (Inr (), [], h)"
| "shell_loop P i d sid (ev # evs) h =
     (case ev of
        ShellFrom m \<Rightarrow>
          (case shell_input P i d sid m h of
             (Inl e, h1) \<Rightarrow> (Inl e, [], h1)
           | (Inr _, h1) \<Rightarrow> shell_loop P i d sid evs h1)
      | ShellLeft \<Rightarrow> (Inr (), [], h)
      | ShellStreamBroken \<Rightarrow> (Inl StreamFailed, [], h)
      | ShellDriver e \<Rightarrow>
          (case shell_event sid e of
             (out, True) \<Rightarrow> (case shell_loop P i d sid evs h of (r, more_out, h1) \<Rightarrow> (r, out @ more_out, h1))
           | (out, False) \<Rightarrow> (Inr (), out, h))
      | ShellLagged \<Rightarrow> shell_loop P i d sid evs h
      | ShellClosedBus \<Rightarrow> (Inr (), [], h))"

text \<open>An error leaves the guest's shell open; only the regular ends close it.\<close>

definition handle_shell ::
    "'g platform \<Rightarrow> host_env \<Rightarrow> uuid \<Rightarrow> u32 \<Rightarrow> shell_loop_event list \<Rightarrow> 'g host \<Rightarrow>
      (host_error + unit) \<times> shell_message list \<times> 'g host" where
  "handle_shell P E i sid evs h =
     (case start_shell P E i sid h of
        (Inl e, out, h1) \<Rightarrow> (Inl e, out, h1)
      | (Inr d, out, h1) \<Rightarrow>
          (case shell_loop P i d sid evs h1 of
             (Inl e, more_out, h2) \<Rightarrow> (Inl e, out @ more_out, h2)
           | (Inr _, more_out, h2) \<Rightarrow> (Inr (), out @ more_out, snd (close_shell i d sid h2))))"

datatype inbound =
  OrderStream "order option"
| AttachStream uuid "attach_event list"
| ShellStream uuid u32 "shell_loop_event list"
| RestoreStream uuid "bundle_message list"
| OtherStream stream_hello

datatype answer =
  AckAnswer order_ack
| AttachAnswer "attach_message list"
| ShellAnswer "shell_message list"
| RestoreAnswer bundle_ack
| NoAnswer

definition handle_inbound_stream ::
    "'g platform \<Rightarrow> 'g uplink \<Rightarrow> host_env \<Rightarrow> inbound \<Rightarrow> 'g host \<Rightarrow> answer \<times> 'g host" where
  "handle_inbound_stream P U E s h =
     (case s of
        OrderStream None \<Rightarrow> (NoAnswer, h)
      | OrderStream (Some ord) \<Rightarrow> (case dispatch_order P U E ord h of (ack, h1) \<Rightarrow> (AckAnswer ack, h1))
      | AttachStream i evs \<Rightarrow> (case handle_attach P E i evs h of (_, out, h1) \<Rightarrow> (AttachAnswer out, h1))
      | ShellStream i sid evs \<Rightarrow> (case handle_shell P E i sid evs h of (_, out, h1) \<Rightarrow> (ShellAnswer out, h1))
      | RestoreStream i msgs \<Rightarrow> (case handle_restore P U E i msgs h of (ack, h1) \<Rightarrow> (RestoreAnswer ack, h1))
      | OtherStream _ \<Rightarrow> (NoAnswer, h))"

section \<open>Serving\<close>

text \<open>
  One connection: what its tasks do, in the order they do it, and what happens on the host besides.
  \<open>sv_next\<close> counts the state events the reporter has taken from the supervisor's channel; \<open>ReporterLagged n\<close> is a
  channel that overran. The log task's network is a function of the batch.
\<close>

datatype 'g serving =
  Inbound inbound
| ReportNext
| ReporterLagged nat
| ReportTick
| ShipTick
| PiEvent nat uuid json
| Flusher
| Guest "'g \<Rightarrow> 'g"

record 'g served =
  sv_host :: "'g host"
  sv_reports :: "state_report list"
  sv_next :: nat
  sv_answers :: "answer list"
  sv_ships :: "uuid \<Rightarrow> ship_state"
  sv_pruned :: "uuid \<Rightarrow> u64"

definition report_tick :: "'g platform \<Rightarrow> host_env \<Rightarrow> 'g served \<Rightarrow> 'g served" where
  "report_tick P E v = v\<lparr>sv_reports := sv_reports v @ [full_snapshot P E (sv_host v)]\<rparr>"

definition report_next :: "'g platform \<Rightarrow> host_env \<Rightarrow> 'g served \<Rightarrow> 'g served" where
  "report_next P E v =
     (let h = sv_host v
      in if sv_next v < length (ho_reports h) then
           v\<lparr>sv_reports := sv_reports v @ [transition_report P E h (ho_reports h ! sv_next v)], sv_next := Suc (sv_next v)\<rparr>
         else v)"

text \<open>The files of the agents as the log task finds and leaves them.\<close>

definition log_files :: "'g host \<Rightarrow> uuid \<Rightarrow> agent_files" where
  "log_files h i = (case map_of (ho_agents h) i of
     None \<Rightarrow> \<lparr>af_journal = None, af_shipped = None\<rparr> | Some d \<Rightarrow> ad_log d)"

definition put_log_files :: "(uuid \<Rightarrow> agent_files) \<Rightarrow> 'g host \<Rightarrow> 'g host" where
  "put_log_files files h = h\<lparr>ho_agents := map (\<lambda>(i, d). (i, d\<lparr>ad_log := files i\<rparr>)) (ho_agents h)\<rparr>"

definition shippable :: "'g host \<Rightarrow> (uuid \<times> bool) list" where
  "shippable h = map (\<lambda>r. (rec_id r, \<not> lifecycle_busy (rec_id r) h \<and> rec_state r = Suspended)) (list_records (ho_agents h))"

definition ship_logs ::
    "'g platform \<Rightarrow> host_env \<Rightarrow> (uuid \<Rightarrow> log_batch \<Rightarrow> log_ack option) \<Rightarrow> 'g served \<Rightarrow> 'g served" where
  "ship_logs P E net v =
     (let h = sv_host v
      in case ship_pending_logs (he_parse E) net (shippable h) (sv_pruned v) (log_files h) of
           (_, pruned, files) \<Rightarrow>
             v\<lparr>sv_host := put_log_files files h, sv_pruned := pruned,
               sv_ships := (\<lambda>i. if files i \<noteq> log_files h i
                 then (sv_ships v i)\<lparr>sp_last_activity := Some (pl_mono P (ho_world h))\<rparr> else sv_ships v i)\<rparr>)"

definition ship_tick ::
    "'g platform \<Rightarrow> 'g uplink \<Rightarrow> host_env \<Rightarrow> castellan_config \<Rightarrow> (uuid \<Rightarrow> log_batch \<Rightarrow> log_ack option) \<Rightarrow>
      'g served \<Rightarrow> 'g served" where
  "ship_tick P U E cfg net v =
     (let v1 = ship_logs P E net v; quiet = cf_bundle_quiet_secs cfg; stale = cf_bundle_refresh_secs cfg
      in if refresh_enabled quiet stale then
           (case refresh_bundles P U E quiet stale (sv_ships v1) (sv_host v1) of
              (_, ships, h) \<Rightarrow> v1\<lparr>sv_host := h, sv_ships := ships\<rparr>)
         else v1)"

fun serve_step ::
    "'g platform \<Rightarrow> 'g uplink \<Rightarrow> host_env \<Rightarrow> castellan_config \<Rightarrow> (uuid \<Rightarrow> log_batch \<Rightarrow> log_ack option) \<Rightarrow>
      'g serving \<Rightarrow> 'g served \<Rightarrow> 'g served" where
  "serve_step P U E cfg net (Inbound s) v =
     (case handle_inbound_stream P U E s (sv_host v) of
        (a, h) \<Rightarrow> v\<lparr>sv_host := h, sv_answers := sv_answers v @ [a]\<rparr>)"
| "serve_step P U E cfg net ReportNext v = report_next P E v"
| "serve_step P U E cfg net (ReporterLagged n) v = v\<lparr>sv_next := sv_next v + n\<rparr>"
| "serve_step P U E cfg net ReportTick v = report_tick P E v"
| "serve_step P U E cfg net ShipTick v = ship_tick P U E cfg net v"
| "serve_step P U E cfg net (PiEvent fuel i ev) v = v\<lparr>sv_host := monitor_event fuel P E i ev (sv_host v)\<rparr>"
| "serve_step P U E cfg net Flusher v = v\<lparr>sv_host := flush_activity E (sv_host v)\<rparr>"
| "serve_step P U E cfg net (Guest f) v = v\<lparr>sv_host := (sv_host v)\<lparr>ho_world := f (ho_world (sv_host v))\<rparr>\<rparr>"

text \<open>The reporter starts with a snapshot; the bookkeeping of the log task starts empty.\<close>

definition serve_from :: "'g platform \<Rightarrow> host_env \<Rightarrow> 'g host \<Rightarrow> 'g served" where
  "serve_from P E h = report_tick P E
     \<lparr>sv_host = h, sv_reports = [], sv_next = length (ho_reports h), sv_answers = [],
      sv_ships = (\<lambda>_. \<lparr>sp_last_activity = None, sp_last_upload = None\<rparr>), sv_pruned = (\<lambda>_. 0)\<rparr>"

definition serve_link ::
    "'g platform \<Rightarrow> 'g uplink \<Rightarrow> host_env \<Rightarrow> castellan_config \<Rightarrow> (uuid \<Rightarrow> log_batch \<Rightarrow> log_ack option) \<Rightarrow>
      'g serving list \<Rightarrow> 'g host \<Rightarrow> 'g served" where
  "serve_link P U E cfg net evs h = fold (serve_step P U E cfg net) evs (serve_from P E h)"

definition connect_and_serve ::
    "'g platform \<Rightarrow> 'g uplink \<Rightarrow> host_env \<Rightarrow> castellan_config \<Rightarrow> (uuid \<Rightarrow> log_batch \<Rightarrow> log_ack option) \<Rightarrow>
      register_response \<Rightarrow> 'g serving list \<Rightarrow> 'g host \<Rightarrow> (u32 \<times> string) + 'g served" where
  "connect_and_serve P U E cfg net response evs h =
     (case registered response of Some e \<Rightarrow> Inl e | None \<Rightarrow> Inr (serve_link P U E cfg net evs h))"

section \<open>The receiver of the reports\<close>

text \<open>It stops at the first report that it cannot store; each comes with the time it is taken at.\<close>

fun handle_state_reports ::
    "string \<Rightarrow> (timestamp \<times> state_report) list \<Rightarrow> store \<Rightarrow> (report_error + unit) \<times> store" where
  "handle_state_reports d [] s = (Inr (), s)"
| "handle_state_reports d ((now, r) # rs) s =
     (case handle_state_report d now r s of
        (Inl e, s1) \<Rightarrow> (Inl e, s1)
      | (Inr _, s1) \<Rightarrow> handle_state_reports d rs s1)"

end
