(* ===== verification/Host_Connection_Theorems.thy ===== *)
theory Host_Connection_Theorems
  imports Host_Connection Supervisor_Theorems Host_Control_Theorems Web_Theorems
begin

text \<open>
  A connection between host and control plane: enrolment, the invariant of the host's registry under
  everything that happens while it serves, and the convergence of the control plane's rows to it.
\<close>

section \<open>The host's registry stays well formed\<close>

definition registry_ok :: "'g host \<Rightarrow> bool" where
  "registry_ok h \<longleftrightarrow> wf_agents_dir (ho_agents h)"

lemma registry_dirs: "registry_ok h \<longleftrightarrow> dirs_ok (map fst (ho_agents h)) h"
  by (simp add: registry_ok_def dirs_ok_def)

lemma registry_of_dirs: "dirs_ok ks h \<Longrightarrow> registry_ok h"
  by (simp add: registry_ok_def dirs_ok_def)

lemma keeps_registry: "(\<And>ks. keeps (dirs_ok ks) m) \<Longrightarrow> keeps registry_ok m"
  unfolding keeps_def registry_dirs by (metis registry_dirs registry_of_dirs)

lemma registry_simps [simp]:
  "registry_ok (report_state r h) = registry_ok h"
  "registry_ok (update_running i f h) = registry_ok h"
  "registry_ok (remove_running i h) = registry_ok h"
  "registry_ok (note_activity P i h) = registry_ok h"
  "registry_ok (touch_agent P i h) = registry_ok h"
  "registry_ok (set_busy P i b h) = registry_ok h"
  "registry_ok (h\<lparr>ho_world := w\<rparr>) = registry_ok h"
  "registry_ok (h\<lparr>ho_secrets := s\<rparr>) = registry_ok h"
  "registry_ok (h\<lparr>ho_agents := a\<rparr>) = wf_agents_dir a"
  by (simp_all add: registry_ok_def report_state_def update_running_def remove_running_def note_activity_def
      touch_agent_def set_busy_def Let_def split: option.split)

lemma registry_journal [simp]: "registry_ok h \<Longrightarrow> registry_ok (journal_event P E i k p h)"
  "registry_ok h \<Longrightarrow> registry_ok (journal_session P E r f h)"
  using registry_of_dirs registry_dirs dirs_ok_journal dirs_ok_journal_session by metis+

lemmas registry_keeps [keeping] =
  keeps_registry [OF keeps_on_vm] keeps_registry [OF keeps_save] keeps_registry [OF keeps_provision_and_start]
  keeps_registry [OF keeps_spawn_driver] keeps_registry [OF keeps_launch]

lemma keeps_save_registry: "registry_ok h \<Longrightarrow> registry_ok (snd (save_state r h))"
  by (rule keepsD [OF keeps_registry [OF keeps_save]])

lemma keeps_abort_registry [keeping]: "keeps registry_ok (abort_running P i a)" "keeps registry_ok (prompt_running P i a m)"
  by (auto simp: abort_running_def prompt_running_def intro!: keeping)

lemma keeps_when [keeping]: "keeps I m \<Longrightarrow> keeps I (act_when b m)"
  by (simp add: act_when_def keeping)

lemmas keeps_with [keeping] = keeps_with_running

lemma registry_rotate [simp]: "registry_ok h \<Longrightarrow> registry_ok (rotate_sessions E i h)"
  by (simp add: rotate_sessions_def Let_def registry_ok_def wf_update_agent_dir)

lemma keeps_suspend_registry [keeping]:
  "keeps registry_ok (prepare_suspend P E q)" "keeps registry_ok (rotate P E r)" "keeps registry_ok (finish_suspend P E q b c)"
  "keeps registry_ok (host_stop_agent P E q)" "keeps registry_ok (check_suspendable E q t)"
  by (auto simp: prepare_suspend_def rotate_def finish_suspend_def host_stop_agent_def check_suspendable_def Let_def
      intro!: keeping split: option.split)

lemma keeps_create_registry [keeping]: "keeps registry_ok (host_create_agent P E i m)"
proof (rule keepsI)
  fix h :: "'a host" assume h: "registry_ok h"
  let ?r = "fresh_record i m Provisioning (he_rfc3339 E (pl_wall P (ho_world h))) None"
  let ?h1 = "h\<lparr>ho_agents := create_agent_dir i (ho_agents h)\<rparr>"
  have 1: "registry_ok ?h1" using h by (simp add: registry_ok_def wf_create_agent_dir)
  obtain r2 h2 where 2: "save_state ?r ?h1 = (r2, h2)" by fastforce
  have h2: "registry_ok h2" using keeps_run [OF keeps_registry [OF keeps_save] 2 1] .
  obtain r3 h3 where 3: "provision_and_start P E ?r h2 = (r3, h3)" by fastforce
  have h3: "registry_ok h3" using keeps_run [OF keeps_registry [OF keeps_provision_and_start] 3 h2] .
  have "registry_ok h4" if "save_state q h3 = (r4, h4)" for q r4 h4
    using keeps_run [OF keeps_registry [OF keeps_save] that h3] .
  then show "registry_ok (snd (host_create_agent P E i m h))"
    using h h2 h3 2 3 keeps_save_registry [OF h3]
    by (auto simp: host_create_agent_def Let_def split: sum.split prod.split)
qed

lemma registry_tear_down [simp]: "registry_ok h \<Longrightarrow> registry_ok (tear_down P E i a h)"
  by (simp add: tear_down_def Let_def keepsD [OF registry_keeps(1)] keepsD [OF keeps_abort_registry(1)])

lemma keeps_start_registry [keeping]:
  "keeps registry_ok (host_start_agent P E q f)" "keeps registry_ok (host_restore_agent P E i m sf)"
  by (auto simp: host_start_agent_def host_restore_agent_def intro!: keeping split: option.split)

lemma keeps_destroy_registry [keeping]: "keeps registry_ok (host_destroy_agent P E q)"
proof (rule keepsI)
  fix h :: "'a host" assume h: "registry_ok h"
  have "registry_ok h1" if "host_stop_agent P E n h = (r, h1)" for n r h1
    using keeps_run [OF keeps_suspend_registry(4) that h] .
  moreover have removed: "registry_ok g \<Longrightarrow> wf_agents_dir (remove_agent_dir j (ho_agents g))" for g :: "'a host" and j
    by (simp add: registry_ok_def wf_remove_agent_dir)
  ultimately show "registry_ok (snd (host_destroy_agent P E q h))"
    using h removed by (auto simp: host_destroy_agent_def Let_def split: sum.split prod.split)
qed

lemma keeps_uplink [keeping]:
  "keeps registry_ok (pull_secrets U i)" "keeps registry_ok (put_secrets i b)" "keeps registry_ok (ensure_secrets U i)"
  "keeps registry_ok (upload_bundle U E r)"
proof -
  show p: "keeps registry_ok (pull_secrets U i)" by (auto simp: keeps_def pull_secrets_def split: prod.split)
  show q: "keeps registry_ok (put_secrets i b)" for b by (auto simp: put_secrets_def intro!: keeping)
  show "keeps registry_ok (ensure_secrets U i)" using p q by (auto simp: ensure_secrets_def intro!: keeping)
  show "keeps registry_ok (upload_bundle U E r)" by (auto simp: keeps_def upload_bundle_def Let_def split: prod.split)
qed

lemma keeps_run_order: "keeps registry_ok (run_order P U E ord)"
  by (cases ord) (auto simp: run_order_def intro!: keeping split: sum.split)

section \<open>Streams\<close>

lemma keeps_attach_input: "keeps registry_ok (attach_input P E i m)"
proof (cases m)
  case (AttPrompt t)
  have "keeps registry_ok (host_prompt_agent P E i t)" by (auto simp: host_prompt_agent_def intro!: keeping)
  then show ?thesis using AttPrompt by (auto simp: keeps_def attach_input_def split: prod.split sum.split)
qed (auto simp: keeps_def attach_input_def relay_to_pi_def split: option.split
    intro!: keepsD [of registry_ok, OF _ ] keeping)

lemma keeps_attach_loop: "registry_ok h \<Longrightarrow> registry_ok (snd (snd (attach_loop P E i evs h)))"
proof (induction evs arbitrary: h)
  case (Cons ev evs)
  show ?case
  proof (cases ev)
    case (FromOperator m)
    obtain r h1 where m: "attach_input P E i m h = (r, h1)" by fastforce
    then have "registry_ok h1" using keeps_run [OF keeps_attach_input] Cons.prems by blast
    then show ?thesis using FromOperator m Cons.IH [of h1] by (auto split: sum.split prod.split)
  qed (use Cons.prems Cons.IH [OF Cons.prems] in \<open>auto split: prod.split\<close>)
qed simp

lemma keeps_handle_attach: "registry_ok h \<Longrightarrow> registry_ok (snd (snd (handle_attach P E i evs h)))"
proof -
  assume h: "registry_ok h"
  obtain r out h1 where s: "start_attach P E i h = (r, out, h1)" by (cases "start_attach P E i h")
  have "keeps registry_ok (with_running E i (\<lambda>r a. act_ok ()))" by (intro keeping)
  then have "registry_ok h1"
    using s h keepsD [of registry_ok "with_running E i (\<lambda>r a. act_ok ())" h]
    by (auto simp: start_attach_def split: sum.splits prod.splits)
  then show ?thesis
    using s keeps_attach_loop [of h1 P E i evs] by (auto simp: handle_attach_def split: sum.split prod.split)
qed

lemma keeps_shell_input [keeping]: "keeps registry_ok (shell_input P i d sid m)"
  by (cases m) (auto simp: shell_input_def intro!: keeping)

lemma keeps_shell_loop: "registry_ok h \<Longrightarrow> registry_ok (snd (snd (shell_loop P i d sid evs h)))"
proof (induction evs arbitrary: h)
  case (Cons ev evs)
  show ?case
  proof (cases ev)
    case (ShellFrom m)
    obtain r h1 where m: "shell_input P i d sid m h = (r, h1)" by fastforce
    then have "registry_ok h1" using keeps_run [OF keeps_shell_input] Cons.prems by blast
    then show ?thesis using ShellFrom m Cons.IH [of h1] by (auto split: sum.split prod.split)
  next
    case (ShellDriver e)
    then show ?thesis
      using Cons.prems Cons.IH [OF Cons.prems] by (auto split: prod.split bool.split)
  qed (use Cons.prems Cons.IH [OF Cons.prems] in \<open>auto split: prod.split\<close>)
qed simp

lemma keeps_handle_shell: "registry_ok h \<Longrightarrow> registry_ok (snd (snd (handle_shell P E i sid evs h)))"
proof -
  assume h: "registry_ok h"
  obtain r out h1 where s: "start_shell P E i sid h = (r, out, h1)" by (cases "start_shell P E i sid h")
  have h1: "registry_ok h1"
    using s h keeps_run [OF registry_keeps(1) _ h]
    by (auto simp: start_shell_def split: option.splits sum.splits prod.splits)
  have "registry_ok (snd (close_shell i d sid g))" if "registry_ok g" for d and g :: "'a host"
    using keepsD [OF registry_keeps(1) that] by (simp add: close_shell_def)
  then show ?thesis
    using s h1 keeps_shell_loop [OF h1, of P i _ sid evs]
    by (auto simp: handle_shell_def split: sum.split prod.split) (metis snd_conv)+
qed

lemma keeps_write_restored [keeping]: "registry_ok h \<Longrightarrow> registry_ok (write_restored i p bs h)"
  by (auto simp: write_restored_def registry_ok_def intro!: wf_update_agent_dir wf_create_agent_dir)

lemma keeps_write_bundle: "registry_ok h \<Longrightarrow> registry_ok (snd (write_bundle_files sha E i ms h))"
proof (induction ms arbitrary: h)
  case (Cons m ms)
  then show ?case by (cases m) (auto simp: keeps_write_restored split: sum.split)
qed simp

lemma keeps_handle_restore: "registry_ok h \<Longrightarrow> registry_ok (snd (handle_restore P U E i msgs h))"
proof -
  assume h: "registry_ok h"
  have w: "keeps registry_ok (write_bundle_files sha E i ms)" for sha ms
    by (rule keepsI) (rule keeps_write_bundle)
  have "keeps registry_ok (receive_restore P U E i msgs)"
    using w by (auto simp: receive_restore_def intro!: keeping split: list.split bundle_message.split option.split)
  then have "registry_ok (snd (receive_restore P U E i msgs h))" using h by (rule keepsD)
  then show ?thesis by (auto simp: handle_restore_def split: prod.splits sum.split)
qed

lemma keeps_inbound: "registry_ok h \<Longrightarrow> registry_ok (snd (handle_inbound_stream P U E s h))"
proof (cases s)
  case (OrderStream ord)
  then show "registry_ok h \<Longrightarrow> ?thesis"
    by (cases ord) (auto simp: handle_inbound_stream_def dispatch_order_def split: prod.split
        dest: keeps_run [OF keeps_run_order])
next
  case (AttachStream i evs)
  then show "registry_ok h \<Longrightarrow> ?thesis"
    using keeps_handle_attach [of h P E i evs] by (auto simp: handle_inbound_stream_def split: prod.split)
next
  case (ShellStream i sid evs)
  then show "registry_ok h \<Longrightarrow> ?thesis"
    using keeps_handle_shell [of h P E i sid evs] by (auto simp: handle_inbound_stream_def split: prod.split)
next
  case (RestoreStream i msgs)
  then show "registry_ok h \<Longrightarrow> ?thesis"
    using keeps_handle_restore [of h P U E i msgs] by (auto simp: handle_inbound_stream_def split: prod.split)
qed (simp add: handle_inbound_stream_def)

section \<open>The tasks of the host\<close>

lemma registry_put_log [simp]: "registry_ok (put_log_files files h) = registry_ok h"
proof -
  have keys: "map fst (ho_agents (put_log_files files h)) = map fst (ho_agents h)"
    by (simp add: put_log_files_def comp_def split_beta)
  show ?thesis
    unfolding registry_ok_def wf_agents_dir_def keys by (auto simp: put_log_files_def)
qed

lemma keeps_refresh_list: "registry_ok h \<Longrightarrow> registry_ok (snd (snd (refresh_list P U E q m rs ships h)))"
proof (induction rs arbitrary: ships h)
  case (Cons r rs)
  obtain x h1 where u: "upload_bundle U E (loaded_or r h) h = (x, h1)" by fastforce
  then have "registry_ok h1" using keeps_run [OF keeps_uplink(4)] Cons.prems by blast
  moreover from this have "wf_agents_dir (update_agent_dir (rec_id r) (ad_tree_update f) (ho_agents h1))" for f
    by (intro wf_update_agent_dir) (simp_all add: registry_ok_def)
  ultimately show ?case using Cons u by (auto simp: Let_def split: sum.split)
qed simp

lemma keeps_ship_tick: "registry_ok (sv_host v) \<Longrightarrow> registry_ok (sv_host (ship_tick P U E cfg net v))"
proof -
  assume h: "registry_ok (sv_host v)"
  have s: "registry_ok (sv_host (ship_logs P E net v))"
    using h by (auto simp: ship_logs_def Let_def split: prod.split)
  then show ?thesis
    using keeps_refresh_list [OF s] by (auto simp: ship_tick_def Let_def refresh_bundles_def split: prod.split)
     (metis snd_conv)
qed

lemma keeps_flush: "registry_ok h \<Longrightarrow> registry_ok (flush_activity E h)"
proof -
  have one: "registry_ok g \<Longrightarrow> registry_ok (flush_one E i g)" for g :: "'a host" and i
    by (auto simp: flush_one_def keeps_save_registry split: option.split sum.split)
  have "registry_ok g \<Longrightarrow> registry_ok (fold (flush_one E) is g)" for "is" and g :: "'a host"
    by (induction "is" arbitrary: g) (simp_all add: one)
  then show "registry_ok h \<Longrightarrow> ?thesis" by (simp add: flush_activity_def)
qed

lemma keeps_monitor_note: "registry_ok h \<Longrightarrow> registry_ok (monitor_note P E i ev h)"
  by (simp add: monitor_note_def Let_def)

lemma keeps_crash_loop: "registry_ok h \<Longrightarrow> registry_ok (crash_loop_failed P E i h)"
  by (auto simp: crash_loop_failed_def Let_def keeps_save_registry split: sum.split)

lemma keeps_respawn: "keeps registry_ok (respawn P E i a full)"
  by (auto simp: respawn_def replace_vm_def launch_pi_def Let_def intro!: keeping split: option.split sum.split)

lemma keeps_restart:
  "registry_ok h \<Longrightarrow> registry_ok (snd (restart_with_backoff fuel P E i attempt backoff a h))"
proof (induction fuel arbitrary: attempt backoff a h)
  case (Suc fuel)
  have "registry_ok g" if "respawn P E i b full h1 = (r, g)" "registry_ok h1" for b full h1 r g
    using keeps_run [OF keeps_respawn that] .
  then show ?case
    using Suc by (auto simp: Let_def keeps_crash_loop registry_journal split: option.split prod.split sum.split)
qed simp

lemma keeps_monitor: "registry_ok h \<Longrightarrow> registry_ok (monitor_event fuel P E i ev h)"
proof -
  assume h: "registry_ok h"
  note n = keeps_monitor_note [OF h, of P E i ev]
  have "registry_ok g" if "restart_with_backoff fuel P E i 0 initial_backoff a (monitor_note P E i ev h) = (r, g)"
    for a r g using keeps_restart [OF n] that by (metis snd_conv)
  then show ?thesis
    using n by (auto simp: monitor_event_def Let_def split: option.split prod.split bool.split)
qed

text \<open>The invariant of the loop.\<close>

lemma keeps_serve_step: "registry_ok (sv_host v) \<Longrightarrow> registry_ok (sv_host (serve_step P U E cfg net ev v))"
proof (cases ev)
  case (Inbound s)
  then show "registry_ok (sv_host v) \<Longrightarrow> ?thesis"
    using keeps_inbound [of "sv_host v" P U E s] by (auto split: prod.split)
qed (simp_all add: report_next_def report_tick_def Let_def keeps_ship_tick keeps_monitor keeps_flush)

lemma keeps_serve:
  assumes "registry_ok h"
  shows "registry_ok (sv_host (serve_link P U E cfg net evs h))"
proof -
  have "registry_ok (sv_host v) \<Longrightarrow> registry_ok (sv_host (fold (serve_step P U E cfg net) evs v))" for v
    by (induction evs arbitrary: v) (simp_all add: keeps_serve_step)
  then show ?thesis using assms by (simp add: serve_link_def serve_from_def report_tick_def)
qed

section \<open>What the control plane makes of the reports\<close>

lemma distinct_list_records:
  assumes "wf_agents_dir ds"
  shows "distinct (map rec_id (list_records ds))"
proof -
  have "distinct (map rec_id (List.map_filter (\<lambda>(_, d). ad_record d) ds))"
    using assms
  proof (induction ds)
    case (Cons x ds)
    obtain i d where x: "x = (i, d)" by fastforce
    have wf: "wf_agents_dir ds" using Cons.prems by (simp add: wf_agents_dir_def)
    have "i \<notin> set (map rec_id (List.map_filter (\<lambda>(_, d). ad_record d) ds))"
      using Cons.prems x by (force simp: wf_agents_dir_def map_filter_def)
    then show ?case
      using Cons.prems Cons.IH [OF wf] x
      by (auto simp: wf_agents_dir_def split: option.splits)
  qed simp
  moreover have "mset (map rec_id (list_records ds)) = mset (map rec_id (List.map_filter (\<lambda>(_, d). ad_record d) ds))"
    by (simp add: list_records_def)
  ultimately show ?thesis by (metis mset_eq_imp_distinct_iff)
qed

lemma enrich_keeps [simp]:
  "as_agent_id (enrich_activity P E h e) = as_agent_id e" "as_name (enrich_activity P E h e) = as_name e"
  "as_state (enrich_activity P E h e) = as_state e"
  by (simp_all add: enrich_activity_def Let_def split: sum.split option.split)

lemma distinct_snapshot: "registry_ok h \<Longrightarrow> distinct (map as_agent_id (sr_agents (full_snapshot P E h)))"
  using distinct_list_records [of "ho_agents h"] by (simp add: registry_ok_def full_snapshot_def comp_def)

text \<open>Every report that is sent names each agent once.\<close>

definition reports_ok :: "'g served \<Rightarrow> bool" where
  "reports_ok v \<longleftrightarrow> registry_ok (sv_host v) \<and> (\<forall>r \<in> set (sv_reports v). distinct (map as_agent_id (sr_agents r)))"

lemma reports_ok_step:
  assumes "reports_ok v"
  shows "reports_ok (serve_step P U E cfg net ev v)"
proof -
  have "sv_reports (serve_step P U E cfg net ev v) = sv_reports v \<or>
      (\<exists>r. sv_reports (serve_step P U E cfg net ev v) = sv_reports v @ [r] \<and> distinct (map as_agent_id (sr_agents r)))"
    using distinct_snapshot [of "sv_host v" P E] assms
    by (cases ev) (auto simp: reports_ok_def report_next_def report_tick_def transition_report_def ship_tick_def
        ship_logs_def Let_def split: prod.split)
  then show ?thesis
    using assms keeps_serve_step [of v P U E cfg net ev] by (auto simp: reports_ok_def)
qed

lemma reports_ok_serve:
  assumes "registry_ok h"
  shows "reports_ok (serve_link P U E cfg net evs h)"
proof -
  have "reports_ok v \<Longrightarrow> reports_ok (fold (serve_step P U E cfg net) evs v)" for v
    by (induction evs arbitrary: v) (simp_all add: reports_ok_step)
  moreover have "reports_ok (serve_from P E h)"
    using assms distinct_snapshot [OF assms, of P E] by (simp add: serve_from_def report_tick_def reports_ok_def)
  ultimately show ?thesis by (simp add: serve_link_def)
qed

definition dismissed :: "uuid \<Rightarrow> state_report \<Rightarrow> bool" where
  "dismissed i report \<longleftrightarrow> (\<exists>e \<in> set (sr_agents report). as_agent_id e = i \<and> as_state e = Decommissioned)"

text \<open>What a stream of reports of one daemon may do to the rows.\<close>

definition rows_follow :: "string \<Rightarrow> store \<Rightarrow> store \<Rightarrow> bool" where
  "rows_follow d s s' \<longleftrightarrow>
     (\<forall>i a. lookup_agent i s = Some a \<and> a_daemon_endpoint_id a \<noteq> d \<longrightarrow> lookup_agent i s' = Some a) \<and>
     (\<forall>i a'. lookup_agent i s' = Some a' \<longrightarrow> (\<exists>a. lookup_agent i s = Some a \<and> a_name a' = a_name a \<and>
        a_daemon_endpoint_id a' = a_daemon_endpoint_id a))"

lemma rows_follow_trans: "rows_follow d s s1 \<Longrightarrow> rows_follow d s1 s2 \<Longrightarrow> rows_follow d s s2"
  unfolding rows_follow_def by metis

lemma rows_follow_refl [simp]: "rows_follow d s s"
  by (simp add: rows_follow_def)

lemma report_follows:
  assumes "store_inv s" "distinct (map as_agent_id (sr_agents report))"
  obtains s' where "handle_state_report d now report s = (Inr (), s')" "store_inv s'" "rows_follow d s s'"
    and "\<And>e a. e \<in> set (sr_agents report) \<Longrightarrow> lookup_agent (as_agent_id e) s' = Some a \<Longrightarrow>
      a_daemon_endpoint_id a = d \<Longrightarrow> a_name a = as_name e \<Longrightarrow> a_state a = as_state e \<and> as_state e \<noteq> Decommissioned"
    and "\<And>i a. sr_full report \<Longrightarrow> i \<notin> as_agent_id ` set (sr_agents report) \<Longrightarrow> lookup_agent i s' = Some a \<Longrightarrow>
      a_daemon_endpoint_id a = d \<Longrightarrow> a_state a = Failed \<or> a_state a = Decommissioned"
    and "\<And>i a. lookup_agent i s = Some a \<Longrightarrow> lookup_agent i s' = None \<Longrightarrow> dismissed i report"
proof -
  obtain s' where s': "handle_state_report d now report s = (Inr (), s')" "store_inv s'"
    and none: "\<And>i. lookup_agent i s = None \<Longrightarrow> lookup_agent i s' = None"
    and foreign: "\<And>i a. lookup_agent i s = Some a \<Longrightarrow> a_daemon_endpoint_id a \<noteq> d \<Longrightarrow> lookup_agent i s' = Some a"
    and named: "\<And>i a e. lookup_agent i s = Some a \<Longrightarrow> a_daemon_endpoint_id a = d \<Longrightarrow>
      e \<in> set (sr_agents report) \<Longrightarrow> as_agent_id e = i \<Longrightarrow>
        (if as_name e \<noteq> a_name a then lookup_agent i s' = Some a
         else if as_state e = Decommissioned then lookup_agent i s' = None
         else \<exists>a'. lookup_agent i s' = Some a' \<and> a_state a' = as_state e \<and>
           a_name a' = a_name a \<and> a_daemon_endpoint_id a' = a_daemon_endpoint_id a)"
    and missing: "\<And>i a. lookup_agent i s = Some a \<Longrightarrow> a_daemon_endpoint_id a = d \<Longrightarrow>
      i \<notin> as_agent_id ` set (sr_agents report) \<Longrightarrow> lookup_agent i s' = Some
        (if sr_full report \<and> a_state a \<noteq> Decommissioned \<and> a_state a \<noteq> Failed then a\<lparr>a_state := Failed\<rparr> else a)"
    using report_effect [OF assms, of d now] by blast
  have same: "\<exists>a. lookup_agent i s = Some a \<and> a_name a' = a_name a \<and> a_daemon_endpoint_id a' = a_daemon_endpoint_id a"
    if a': "lookup_agent i s' = Some a'" for i a'
  proof -
    obtain a where a: "lookup_agent i s = Some a" using none a' by (cases "lookup_agent i s") auto
    consider "a_daemon_endpoint_id a \<noteq> d" | e where "a_daemon_endpoint_id a = d" "e \<in> set (sr_agents report)" "as_agent_id e = i"
      | "a_daemon_endpoint_id a = d" "i \<notin> as_agent_id ` set (sr_agents report)" by blast
    then show ?thesis
    proof cases
      case 2
      then show ?thesis using named [OF a 2] a a' by (auto split: if_splits)
    qed (use foreign missing a a' in \<open>auto split: if_splits\<close>)
  qed
  show ?thesis
  proof (rule that [OF s'])
    show "rows_follow d s s'" using foreign same by (auto simp: rows_follow_def)
    show "a_state a = as_state e \<and> as_state e \<noteq> Decommissioned"
      if e: "e \<in> set (sr_agents report)" "lookup_agent (as_agent_id e) s' = Some a"
        "a_daemon_endpoint_id a = d" "a_name a = as_name e" for e a
    proof -
      obtain b where b: "lookup_agent (as_agent_id e) s = Some b" "a_name a = a_name b" "a_daemon_endpoint_id b = d"
        using same [OF e(2)] e(3) by auto
      show ?thesis using named [OF b(1,3) e(1) HOL.refl] b e by (auto split: if_splits)
    qed
    show "a_state a = Failed \<or> a_state a = Decommissioned"
      if m: "sr_full report" "i \<notin> as_agent_id ` set (sr_agents report)" "lookup_agent i s' = Some a"
        "a_daemon_endpoint_id a = d" for i a
    proof -
      obtain b where b: "lookup_agent i s = Some b" "a_daemon_endpoint_id b = d"
        using same [OF m(3)] m(4) by auto
      show ?thesis using missing [OF b m(2)] m by (auto split: if_splits)
    qed
    show "dismissed i report" if l: "lookup_agent i s = Some a" "lookup_agent i s' = None" for i a
    proof -
      have d: "a_daemon_endpoint_id a = d" using foreign [OF l(1)] l(2) by fastforce
      then obtain e where e: "e \<in> set (sr_agents report)" "as_agent_id e = i"
        using missing [OF l(1)] l(2) by fastforce
      show ?thesis using named [OF l(1) d e] l(2) e by (auto simp: dismissed_def split: if_splits)
    qed
  qed
qed

lemma reports_follow:
  assumes "store_inv s" "\<forall>r \<in> set rs. distinct (map as_agent_id (sr_agents (snd r)))"
  shows "\<exists>s'. handle_state_reports d rs s = (Inr (), s') \<and> store_inv s' \<and> rows_follow d s s' \<and>
    (\<forall>i. lookup_agent i s \<noteq> None \<and> lookup_agent i s' = None \<longrightarrow> (\<exists>r \<in> set rs. dismissed i (snd r))) \<and>
    (\<forall>qs q. rs = qs @ [q] \<longrightarrow> (\<exists>s1. store_inv s1 \<and> handle_state_report d (fst q) (snd q) s1 = (Inr (), s')))"
  using assms
proof (induction rs arbitrary: s)
  case (Cons r rs)
  obtain now report where r: "r = (now, report)" by fastforce
  obtain s1 where s1: "handle_state_report d now report s = (Inr (), s1)" "store_inv s1" "rows_follow d s s1"
    "\<And>i a. lookup_agent i s = Some a \<Longrightarrow> lookup_agent i s1 = None \<Longrightarrow> dismissed i report"
    using report_follows [OF Cons.prems(1)] Cons.prems(2) r by (metis list.set_intros(1) snd_conv)
  obtain s' where s': "handle_state_reports d rs s1 = (Inr (), s')" "store_inv s'" "rows_follow d s1 s'"
    and lost: "\<forall>i. lookup_agent i s1 \<noteq> None \<and> lookup_agent i s' = None \<longrightarrow> (\<exists>r \<in> set rs. dismissed i (snd r))"
    and final: "\<forall>qs q. rs = qs @ [q] \<longrightarrow> (\<exists>s1. store_inv s1 \<and> handle_state_report d (fst q) (snd q) s1 = (Inr (), s'))"
    using Cons.IH [OF s1(2)] Cons.prems(2) by auto
  have "\<exists>s2. store_inv s2 \<and> handle_state_report d (fst q) (snd q) s2 = (Inr (), s')" if "r # rs = qs @ [q]" for qs q
  proof (cases qs)
    case Nil
    then have "rs = []" "q = (now, report)" using that r by auto
    then show ?thesis using s1(1) s'(1) Cons.prems(1) by auto
  next
    case (Cons x xs)
    then show ?thesis using that final by auto
  qed
  moreover have "\<exists>q \<in> set (r # rs). dismissed i (snd q)"
    if "lookup_agent i s \<noteq> None" "lookup_agent i s' = None" for i
  proof (cases "lookup_agent i s1")
    case None
    then show ?thesis using s1(4) that(1) r by auto
  qed (use lost that(2) in auto)
  ultimately show ?case
    using s1 s' r rows_follow_trans [OF s1(3) s'(3)] by (intro exI [of _ s']) auto
next
  case Nil
  then show ?case by simp (metis option.exhaust)
qed

text \<open>The state of the host's record of an agent, as its row shows it after a full snapshot.\<close>

definition row_of_host :: "'g host \<Rightarrow> agent_row \<Rightarrow> bool" where
  "row_of_host h a \<longleftrightarrow>
     (case load_record (a_id a) (ho_agents h) of
        Inr r \<Rightarrow> rec_name r = a_name a \<longrightarrow> a_state a = rec_state r \<and> rec_state r \<noteq> Decommissioned
      | Inl _ \<Rightarrow> a_state a = Failed \<or> a_state a = Decommissioned)"

lemma snapshot_converges:
  assumes "registry_ok h" "store_inv s" "handle_state_report d now (full_snapshot P E h) s = (Inr (), s')"
    and a: "lookup_agent i s' = Some a" "a_daemon_endpoint_id a = d"
  shows "row_of_host h a"
proof -
  let ?es = "sr_agents (full_snapshot P E h)"
  have full: "sr_full (full_snapshot P E h)" by (simp add: full_snapshot_def)
  obtain s2 where s2: "handle_state_report d now (full_snapshot P E h) s = (Inr (), s2)"
    "\<And>e a. e \<in> set ?es \<Longrightarrow> lookup_agent (as_agent_id e) s2 = Some a \<Longrightarrow> a_daemon_endpoint_id a = d \<Longrightarrow>
      a_name a = as_name e \<Longrightarrow> a_state a = as_state e \<and> as_state e \<noteq> Decommissioned"
    "\<And>i a. sr_full (full_snapshot P E h) \<Longrightarrow> i \<notin> as_agent_id ` set ?es \<Longrightarrow> lookup_agent i s2 = Some a \<Longrightarrow>
      a_daemon_endpoint_id a = d \<Longrightarrow> a_state a = Failed \<or> a_state a = Decommissioned"
    by (rule report_follows [OF assms(2) distinct_snapshot [OF assms(1)], of d now P E]) blast
  have eq: "s2 = s'" using assms(3) s2(1) by simp
  note state = s2(2) [unfolded eq] and gone = s2(3) [unfolded eq, OF full]
  have ids: "as_agent_id ` set ?es = rec_id ` set (list_records (ho_agents h))"
    by (force simp: full_snapshot_def)
  have records: "r \<in> set (list_records (ho_agents h)) \<longleftrightarrow> load_record (rec_id r) (ho_agents h) = Inr r" for r
    using in_list_records assms(1) by (simp add: registry_ok_def)
  have i: "a_id a = i" using a(1) by (rule lookup_agent_id)
  show ?thesis
  proof (cases "load_record i (ho_agents h)")
    case (Inl e)
    then have "i \<notin> as_agent_id ` set ?es" using records unfolding ids by auto
    then show ?thesis using Inl gone a i by (simp add: row_of_host_def)
  next
    case (Inr r)
    then have r: "rec_id r = i"
      using assms(1) by (auto simp: load_record_def registry_ok_def wf_agents_dir_def dest!: map_of_SomeD
          split: option.splits)
    then have "r \<in> set (list_records (ho_agents h))" using Inr records by simp
    then have "\<exists>e \<in> set ?es. as_agent_id e = i \<and> as_name e = rec_name r \<and> as_state e = rec_state r"
      using r by (force simp: full_snapshot_def)
    then show ?thesis using Inr state a i by (auto simp: row_of_host_def)
  qed
qed

text \<open>C37
  The control plane's registry follows its hosts. Whatever happens on a connection - orders, attach,
  shell and restore streams, crashes and respawns, log shipping, guests that do as they like, and a
  report task that loses events - every report the host sends is accepted; the rows of other
  daemons stay as they are, a row of this daemon is only ever removed after a report that the agent is
  decommissioned, and once the next full snapshot is in, every row of the daemon has the state of the
  host's record of that agent, or is failed or decommissioned when the host has no such record.\<close>

theorem registry_follows_host:
  assumes "registry_ok h" "reachable_store s"
    and "map snd rs = sv_reports (serve_link P U E cfg net (evs @ [ReportTick]) h)"
  shows "\<exists>s'. handle_state_reports d rs s = (Inr (), s') \<and> rows_follow d s s' \<and>
    (\<forall>i. lookup_agent i s \<noteq> None \<and> lookup_agent i s' = None \<longrightarrow> (\<exists>r \<in> set rs. dismissed i (snd r))) \<and>
    (\<forall>i a. lookup_agent i s' = Some a \<and> a_daemon_endpoint_id a = d \<longrightarrow>
      row_of_host (sv_host (serve_link P U E cfg net (evs @ [ReportTick]) h)) a)"
proof -
  define v where "v = serve_link P U E cfg net evs h"
  let ?h = "sv_host v" and ?v = "serve_link P U E cfg net (evs @ [ReportTick]) h"
  have v': "?v = report_tick P E v" by (simp add: v_def serve_link_def)
  then have host: "sv_host ?v = ?h" and last_report: "sv_reports ?v = sv_reports v @ [full_snapshot P E ?h]"
    by (simp_all add: report_tick_def)
  have ok: "registry_ok ?h" using keeps_serve [OF assms(1)] by (simp add: v_def)
  have "\<forall>r \<in> set (map snd rs). distinct (map as_agent_id (sr_agents r))"
    using reports_ok_serve [OF assms(1), of P U E cfg net "evs @ [ReportTick]"] unfolding assms(3) reports_ok_def by blast
  then obtain s' where s': "handle_state_reports d rs s = (Inr (), s')" "rows_follow d s s'"
    and lost: "\<forall>i. lookup_agent i s \<noteq> None \<and> lookup_agent i s' = None \<longrightarrow> (\<exists>r \<in> set rs. dismissed i (snd r))"
    and final: "\<forall>qs q. rs = qs @ [q] \<longrightarrow> (\<exists>s1. store_inv s1 \<and> handle_state_report d (fst q) (snd q) s1 = (Inr (), s'))"
    using reports_follow [OF reachable_store_inv [OF assms(2)], of rs d] by auto
  obtain qs now where q: "rs = qs @ [(now, full_snapshot P E ?h)]"
    using assms(3) unfolding last_report by (cases rs rule: rev_cases) auto
  then obtain s1 where s1: "store_inv s1" "handle_state_report d now (full_snapshot P E ?h) s1 = (Inr (), s')"
    using final by fastforce
  then have "row_of_host ?h a" if "lookup_agent i s' = Some a" "a_daemon_endpoint_id a = d" for i a
    using snapshot_converges [OF ok] that by blast
  then show ?thesis using s' lost unfolding host by blast
qed

theorem registry_follows_host_witness:
  "\<exists>rs s0 s' a. handle_state_reports ''d'' rs s0 = (Inr (), s') \<and> lookup_agent ''i'' s0 \<noteq> None \<and>
     lookup_agent ''i'' s' = Some a \<and> a_state a = Suspended"
proof -
  define s0 where "s0 = (case create_agent (demo_row ''i'' ''a'' ''d'' Active) empty_store of Inr s \<Rightarrow> s | Inl _ \<Rightarrow> empty_store)"
  have created: "create_agent (demo_row ''i'' ''a'' ''d'' Active) empty_store = Inr s0"
    by (simp add: s0_def create_agent_def empty_store_def)
  have reach: "reachable_store s0"
    by (rule reachable_store.step [OF reachable_store.init store_step.create [OF created]])
  have row: "lookup_agent ''i'' s0 = Some (demo_row ''i'' ''a'' ''d'' Active)"
    by (simp add: s0_def create_agent_def empty_store_def lookup_agent_find emit_def row_to_agent_def demo_row_def)
  let ?v = "serve_link broken_platform U broken_env default_castellan_config net ([] @ [ReportTick]) demo_host"
  define rs where "rs = map (\<lambda>r. (''t'', r)) (sv_reports ?v)"
  have records: "list_records (ho_agents demo_host) = [demo_record]"
    by (simp add: demo_host_def list_records_def empty_agent_dir_def)
  have host: "sv_host ?v = demo_host" "sv_reports ?v = replicate 2 (full_snapshot broken_platform broken_env demo_host)"
    by (simp_all add: serve_link_def serve_from_def report_tick_def numeral_2_eq_2)
  have loaded: "load_record ''i'' (ho_agents demo_host) = Inr demo_record"
    by (simp add: demo_host_def load_record_def empty_agent_dir_def)
  have ok: "registry_ok demo_host"
    by (simp add: registry_ok_def demo_host_def wf_agents_dir_def empty_agent_dir_def demo_record_def fresh_record_def)
  have "map snd rs = sv_reports ?v" by (simp add: rs_def comp_def)
  note registry_follows_host [OF ok reach this, of "''d''"]
  then obtain s' where s': "handle_state_reports ''d'' rs s0 = (Inr (), s')" "rows_follow ''d'' s0 s'"
    and lost: "lookup_agent ''i'' s' = None \<Longrightarrow> \<exists>r \<in> set rs. dismissed ''i'' (snd r)"
    and state: "\<And>a. lookup_agent ''i'' s' = Some a \<Longrightarrow> a_daemon_endpoint_id a = ''d'' \<Longrightarrow> row_of_host demo_host a"
    unfolding host using row by auto
  have "\<not> dismissed ''i'' (full_snapshot broken_platform broken_env demo_host)"
    by (simp add: dismissed_def full_snapshot_def records demo_record_def fresh_record_def)
  then have "\<not> (\<exists>r \<in> set rs. dismissed ''i'' (snd r))" unfolding rs_def host(2) by simp
  then obtain a where a: "lookup_agent ''i'' s' = Some a" using lost by fastforce
  have "\<exists>b. lookup_agent ''i'' s0 = Some b \<and> a_name a = a_name b \<and> a_daemon_endpoint_id a = a_daemon_endpoint_id b"
    using s'(2) a unfolding rows_follow_def by blast
  then have "a_name a = ''a''" "a_daemon_endpoint_id a = ''d''" using row by (auto simp: demo_row_def)
  then have "a_state a = Suspended"
    using state [OF a] lookup_agent_id [OF a] loaded
    by (simp add: row_of_host_def demo_record_def fresh_record_def minimal_manifest_def)
  then show ?thesis using s'(1) a row by auto
qed

text \<open>
  A snapshot that is taken while the agent's row exists and its host has not yet made the record
  marks the agent failed: creation writes the row before the order is sent.
\<close>

lemma snapshot_before_record:
  assumes "registry_ok h" "store_inv s" "handle_state_report d now (full_snapshot P E h) s = (Inr (), s')"
    and "load_record i (ho_agents h) = Inl e" "lookup_agent i s' = Some a" "a_daemon_endpoint_id a = d"
  shows "a_state a = Failed \<or> a_state a = Decommissioned"
  using snapshot_converges [OF assms(1-3,5,6)] assms(4) lookup_agent_id [OF assms(5)]
  by (simp add: row_of_host_def)

section \<open>Enrolment\<close>

lemma approved_rows:
  "daemon_approved d (approve_daemon d s)"
  "daemon_approved d s \<Longrightarrow> i_endpoint_id i = d \<Longrightarrow> daemon_approved d (upsert_daemon i b now s)"
  "daemon_approved d (emit ev s) = daemon_approved d s"
  by (auto simp: daemon_approved_def approve_daemon_def upsert_daemon_def Let_def emit_def delete_pending_daemon_def
      blank_daemon_def find_upsert_row [where g = d_endpoint_id] split: option.splits)

text \<open>C38
  Enrolling a host: a host that is not approved is turned away with the reason and serves nothing, but
  is then pending; once the operator has approved the pending host by its id, its next registration
  is accepted, the host serves whatever comes, and the control plane has a session for it under a
  fresh epoch with the probed capacity the host sent.\<close>

theorem enrolment:
  assumes "\<not> daemon_approved d (ws_store s)"
    and "register d (register_message M cfg eid) t1 during1 (ws_cp s) = (out1, cp1)"
    and "pending_approve W d (s\<lparr>ws_cp := cp1\<rparr>) = (reply, s2)"
    and "register d (register_message M cfg eid) t2 during2 (ws_cp s2) = (out2, cp2)"
    and "\<And>cp. daemon_approved d (cp_store (during2 cp)) = daemon_approved d (cp_store cp)"
  shows "out1 = NotApproved \<and> cp_sessions cp1 d = cp_sessions (ws_cp s) d \<and>
    (\<exists>e. connect_and_serve P U E cfg net (register_reply out1) evs h = Inl e) \<and>
    reply = Inr (JObj [(''approved'', JStr d)]) \<and>
    (\<exists>e session. out2 = Registered e \<and> cp_sessions cp2 d = Some session \<and> ds_epoch session = e \<and>
       i_capacity (ds_info session) = host_capacity M \<and> i_endpoint_id (ds_info session) = d) \<and>
    connect_and_serve P U E cfg net (register_reply out2) evs h = Inr (serve_link P U E cfg net evs h)"
proof -
  let ?msg = "register_message M cfg eid"
  have version: "rg_protocol_version ?msg = protocol_version"
    by (simp add: register_message_def Let_def)
  have first: "out1 = NotApproved" "cp1 = on_store (upsert_pending_daemon (register_info d ?msg) t1) (ws_cp s)"
    using assms(1,2) version by (simp_all add: register_def register_check_def)
  have "d \<in> set (map p_endpoint_id (list_pending_daemons (cp_store cp1)))"
  proof -
    have "find (\<lambda>p. p_endpoint_id p = d)
        (st_pending_daemons (upsert_pending_daemon (register_info d ?msg) t1 (cp_store (ws_cp s)))) \<noteq> None"
      by (simp add: upsert_pending_daemon_def Let_def emit_def register_info_def find_upsert_row [where g = p_endpoint_id])
    then show ?thesis
      by (auto simp: first(2) on_store_def list_pending_daemons_def find_None_iff)
  qed
  then have approved: "reply = Inr (JObj [(''approved'', JStr d)])" "daemon_approved d (cp_store (ws_cp s2))"
    using assms(3) by (auto simp: pending_approve_def Let_def on_ws_def audit_def on_store_def approved_rows)
  have second: "\<exists>e. out2 = Registered e \<and> cp_sessions cp2 d = Some \<lparr>ds_info = register_info d ?msg, ds_epoch = e\<rparr>"
    using assms(4,5) approved(2) version
    by (auto simp: register_def register_check_def register_install_def Let_def on_store_def approved_rows
        register_info_def)
  have "i_capacity (register_info d ?msg) = host_capacity M" "i_endpoint_id (register_info d ?msg) = d"
    by (simp_all add: register_info_def register_message_def Let_def)
  then show ?thesis
    using first approved second
    by (auto simp: connect_and_serve_def registered_def register_reply_def)
qed

definition quiet_machine :: machine where
  "quiet_machine = \<lparr>mc_os = LinuxHost, mc_arch = ''x86_64'', mc_hostname = Some ''h'', mc_parallelism = Some 8,
     mc_meminfo = None, mc_sysctl = (\<lambda>_. None), mc_vm_stat = None, mc_load1 = None, mc_statvfs = None,
     mc_nvidia_smi = None\<rparr>"

theorem enrolment_witness:
  "\<forall>sec. let msg = register_message quiet_machine default_castellan_config ''d'';
      s = \<lparr>ws_cp = initial_cp empty_store [], ws_secrets = sec, ws_config_allow = None\<rparr>;
      (out1, cp1) = register ''d'' msg ''t'' (\<lambda>cp. cp) (ws_cp s);
      (reply, s2) = pending_approve demo_web ''d'' (s\<lparr>ws_cp := cp1\<rparr>);
      (out2, cp2) = register ''d'' msg ''u'' (\<lambda>cp. cp) (ws_cp s2)
    in out1 = NotApproved \<and> (\<exists>e. out2 = Registered e) \<and> cp_sessions cp2 ''d'' \<noteq> None"
proof
  fix sec :: secrets_state
  define s where "s = \<lparr>ws_cp = initial_cp empty_store [], ws_secrets = sec, ws_config_allow = None\<rparr>"
  let ?msg = "register_message quiet_machine default_castellan_config ''d''"
  obtain out1 cp1 where 1: "register ''d'' ?msg ''t'' (\<lambda>cp. cp) (ws_cp s) = (out1, cp1)" by fastforce
  obtain reply s2 where 2: "pending_approve demo_web ''d'' (s\<lparr>ws_cp := cp1\<rparr>) = (reply, s2)" by fastforce
  obtain out2 cp2 where 3: "register ''d'' ?msg ''u'' (\<lambda>cp. cp) (ws_cp s2) = (out2, cp2)" by fastforce
  have "\<not> daemon_approved ''d'' (ws_store s)"
    by (simp add: s_def initial_cp_def empty_store_def daemon_approved_def set_all_daemons_offline_def)
  note t = enrolment [OF this 1 2 3 HOL.refl]
  show "let msg = ?msg;
      s = \<lparr>ws_cp = initial_cp empty_store [], ws_secrets = sec, ws_config_allow = None\<rparr>;
      (out1, cp1) = register ''d'' msg ''t'' (\<lambda>cp. cp) (ws_cp s);
      (reply, s2) = pending_approve demo_web ''d'' (s\<lparr>ws_cp := cp1\<rparr>);
      (out2, cp2) = register ''d'' msg ''u'' (\<lambda>cp. cp) (ws_cp s2)
    in out1 = NotApproved \<and> (\<exists>e. out2 = Registered e) \<and> cp_sessions cp2 ''d'' \<noteq> None"
    using t [where P = broken_platform and E = broken_env and h = demo_host and evs = "[]" and U = U and net = net]
    unfolding Let_def s_def [symmetric] 1 2 3 prod.case by auto
qed

end
