(* ===== verification/Cli.thy ===== *)
theory Cli
  imports Client_Api Host_Control
begin

text \<open>
  The operator's command line (crates/suzerain-cli/src/main.rs): each command as the calls it makes
  over the HTTP client, its local checks and what it prints, with the control plane's configuration
  file that \<open>operator approve\<close> falls back to. The record \<open>'w cli_env\<close> holds what is not the tool's
  own: the network, standard input, the files outside the data directory, serde's readers and the
  toml crate.
\<close>

section \<open>Commands\<close>

datatype secrets_command =
  SecretsSet string "string option" "string option"
| SecretsRemove string "string option"

datatype daemon_command =
  DaemonApprove string
| DaemonList
| DaemonLabel string "string list" "string list"

datatype operator_command =
  OperatorApprove string
| OperatorList

datatype agent_command =
  AgentCreate string "string option"
| AgentList
| AgentAsk string "string list" nat
| AgentAttach string
| AgentConfig string string
| AgentDestroy string
| AgentLogs string nat

datatype commands =
  DaemonCmd daemon_command
| OperatorCmd operator_command
| AgentCmd agent_command
| IdCmd
| SecretsCmd "secrets_command option"
| AuditCmd nat

section \<open>The tool's world\<close>

datatype toml =
  TomlStr string
| TomlInt int
| TomlArr "toml list"
| TomlTable "(string \<times> toml) list"
| TomlScalar string

datatype cli_error =
  CallFailed client_error
| Bail string
| TomlFailed
| IoFailed

record daemon_line =
  dl_endpoint_id :: string
  dl_approved :: bool
  dl_online :: bool
  dl_hostname :: string
  dl_os :: string
  dl_arch :: string

record agent_line =
  al_id :: uuid
  al_name :: string
  al_daemon_endpoint_id :: string
  al_status :: string
  al_idle_secs :: "int option"
  al_needs_attention :: bool

record 'w cli_env =
  ce_net :: "'w http_net"
  ce_stdin :: "string option"
  ce_file :: "string \<Rightarrow> string option"
  ce_renames :: bool
  ce_writes :: bool
  ce_toml :: "string \<Rightarrow> toml option"
  ce_pretty :: "toml \<Rightarrow> string"
  ce_manifest :: "string \<Rightarrow> bool"
  ce_endpoint :: "string \<Rightarrow> bool"
  ce_endpoint_info :: "json \<Rightarrow> string option"
  ce_daemons :: "json \<Rightarrow> daemon_line list option"
  ce_agents :: "json \<Rightarrow> agent_line list option"
  ce_json :: "json \<Rightarrow> string"
  ce_show :: "client_error \<Rightarrow> string"
  ce_pause :: "'w \<Rightarrow> 'w"
  ce_now :: "'w \<Rightarrow> nat"

text \<open>The network, the files of the data directory and what was printed.\<close>

record 'w cli =
  cl_world :: 'w
  cl_dir :: "(string \<times> string) list"
  cl_out :: string

type_synonym ('a, 'w) cmd = "'w cli \<Rightarrow> (cli_error + 'a) \<times> 'w cli"

definition cmd_ok :: "'a \<Rightarrow> ('a, 'w) cmd" where "cmd_ok a s = (Inr a, s)"

definition cmd_fail :: "cli_error \<Rightarrow> ('a, 'w) cmd" where "cmd_fail e s = (Inl e, s)"

definition cmd_bind :: "('a, 'w) cmd \<Rightarrow> ('a \<Rightarrow> ('b, 'w) cmd) \<Rightarrow> ('b, 'w) cmd" where
  "cmd_bind m f s = (case m s of (Inl e, s1) \<Rightarrow> (Inl e, s1) | (Inr a, s1) \<Rightarrow> f a s1)"

definition cmd_option :: "cli_error \<Rightarrow> 'a option \<Rightarrow> ('a, 'w) cmd" where
  "cmd_option e x = (case x of None \<Rightarrow> cmd_fail e | Some a \<Rightarrow> cmd_ok a)"

definition say :: "string \<Rightarrow> (unit, 'w) cmd" where
  "say text s = (Inr (), s\<lparr>cl_out := cl_out s @ text\<rparr>)"

definition say_line :: "string \<Rightarrow> (unit, 'w) cmd" where "say_line text = say (text @ [CHR 0x0A])"

fun say_lines :: "string list \<Rightarrow> (unit, 'w) cmd" where
  "say_lines [] = cmd_ok ()"
| "say_lines (l # ls) = cmd_bind (say_line l) (\<lambda>_. say_lines ls)"

definition call :: "'w cli_env \<Rightarrow> string \<Rightarrow> client_call \<Rightarrow> (json, 'w) cmd" where
  "call E base c s =
     (case client_request c of (method, path, body) \<Rightarrow>
        (case http_rest (ce_net E) (http_base base) method path body (cl_world s) of
           (Inl e, w) \<Rightarrow> (Inl (CallFailed e), s\<lparr>cl_world := w\<rparr>)
         | (Inr v, w) \<Rightarrow> (Inr v, s\<lparr>cl_world := w\<rparr>)))"

section \<open>The configuration file\<close>

definition cli_config_path :: "'w cli_env \<Rightarrow> (string, 'w) cmd" where
  "cli_config_path E s =
     (case migrated_path_in ''suzerain.toml'' ''config.toml'' (ce_renames E) (cl_dir s) of
        (p, dir) \<Rightarrow> (Inr p, s\<lparr>cl_dir := dir\<rparr>))"

definition toml_get :: "string \<Rightarrow> toml \<Rightarrow> toml option" where
  "toml_get k t = (case t of TomlTable kvs \<Rightarrow> map_of kvs k | _ \<Rightarrow> None)"

definition toml_port :: "toml \<Rightarrow> nat option" where
  "toml_port doc =
     Option.bind (toml_get ''web'' doc) (\<lambda>web.
     Option.bind (toml_get ''port'' web) (\<lambda>p.
       (case p of TomlInt n \<Rightarrow> if 0 \<le> n \<and> n < 65536 then Some (nat n) else None | _ \<Rightarrow> None)))"

definition api_base_url :: "'w cli_env \<Rightarrow> string option \<Rightarrow> (string, 'w) cmd" where
  "api_base_url E explicit =
     (case explicit of
        Some url \<Rightarrow> cmd_ok url
      | None \<Rightarrow>
          cmd_bind (cli_config_path E) (\<lambda>p s.
            (Inr (''http://127.0.0.1:'' @ show_nat (unwrap_or 8484
                (Option.bind (Option.bind (map_of (cl_dir s) p) (ce_toml E)) toml_port))), s)))"

definition operator_table :: "(string \<times> toml) list \<Rightarrow> cli_error + (string \<times> toml) list" where
  "operator_table rt =
     (case unwrap_or (TomlTable []) (map_of rt ''operator'') of
        TomlTable kvs \<Rightarrow> Inr kvs
      | _ \<Rightarrow> Inl (Bail ''[operator] is not a table''))"

text \<open>The document with the id allowed, or None when it is already.\<close>

definition allow_in_doc :: "string \<Rightarrow> toml \<Rightarrow> cli_error + toml option" where
  "allow_in_doc endpoint_id doc =
     (case doc of
        TomlTable rt \<Rightarrow>
          res_bind (operator_table rt) (\<lambda>op_table.
            (case unwrap_or (TomlArr []) (map_of op_table ''allow'') of
               TomlArr allow \<Rightarrow>
                 if TomlStr endpoint_id \<in> set allow then Inr None
                 else Inr (Some (TomlTable (put ''operator''
                        (TomlTable (put ''allow'' (TomlArr (allow @ [TomlStr endpoint_id])) op_table)) rt)))
             | _ \<Rightarrow> Inl (Bail ''[operator] allow is not an array'')))
      | _ \<Rightarrow> Inl (Bail ''config file: not a table''))"

definition add_operator_allow_to_file :: "'w cli_env \<Rightarrow> string \<Rightarrow> string \<Rightarrow> (bool, 'w) cmd" where
  "add_operator_allow_to_file E path endpoint_id s =
     (case (case map_of (cl_dir s) path of
              None \<Rightarrow> Inr (TomlTable [])
            | Some text \<Rightarrow> (case ce_toml E text of None \<Rightarrow> Inl TomlFailed | Some doc \<Rightarrow> Inr doc)) of
        Inl e \<Rightarrow> (Inl e, s)
      | Inr doc \<Rightarrow>
          (case allow_in_doc endpoint_id doc of
             Inl e \<Rightarrow> (Inl e, s)
           | Inr None \<Rightarrow> (Inr False, s)
           | Inr (Some doc') \<Rightarrow>
               if ce_writes E then (Inr True, s\<lparr>cl_dir := put path (ce_pretty E doc') (cl_dir s)\<rparr>)
               else (Inl IoFailed, s)))"

section \<open>Arguments\<close>

definition secret_kind :: "string \<Rightarrow> cli_error + string" where
  "secret_kind kind =
     (if kind = ''provider'' then Inr ''provider''
      else if kind = ''extra'' then Inr ''extra''
      else if kind \<in> {''ssh-key'', ''ssh_key'', ''ssh'', ''deploy-key'', ''deploy_key'', ''git''} then Inr ''ssh_key''
      else Inl (Bail (''unknown secret kind '' @ [CHR 0x27] @ kind @ [CHR 0x27] @ '' (provider|extra|ssh-key)'')))"

definition read_secret_stdin :: "'w cli_env \<Rightarrow> (string, 'w) cmd" where
  "read_secret_stdin E =
     (case ce_stdin E of
        None \<Rightarrow> cmd_fail IoFailed
      | Some buf \<Rightarrow>
          let value = rev (dropWhile (\<lambda>c. c = CHR 0x0A) (rev buf))
          in if trim value = [] then cmd_fail (Bail ''empty secret value (pipe it via stdin or pass --value)'')
             else cmd_ok value)"

definition parse_label_kv :: "string \<Rightarrow> cli_error + string \<times> string" where
  "parse_label_kv s =
     (case split_once CHR ''='' s of
        None \<Rightarrow> Inl (Bail (''invalid --set value '' @ [CHR 0x27] @ s @ [CHR 0x27] @ '': expected key=value''))
      | Some (k, v) \<Rightarrow> Inr (trim k, trim v))"

section \<open>Output\<close>

definition or_unknown :: "json \<Rightarrow> string" where "or_unknown j = unwrap_or ''?'' (as_str j)"

definition pad_right :: "nat \<Rightarrow> string \<Rightarrow> string" where
  "pad_right n s = s @ replicate (n - length s) CHR '' ''"

definition short :: "string \<Rightarrow> string" where "short i = take 8 i"

text \<open>Escape sequences and the characters outside ASCII, as the bytes that are printed.\<close>

definition dimmed :: "string \<Rightarrow> string" where
  "dimmed s = [CHR 0x1B] @ ''[2m'' @ s @ [CHR 0x1B] @ ''[0m''"

definition in_red :: "string \<Rightarrow> string" where
  "in_red s = [CHR 0x1B] @ ''[31m'' @ s @ [CHR 0x1B] @ ''[0m''"

definition em_dash :: string where "em_dash = [CHR 0xE2, CHR 0x80, CHR 0x94]"
definition ellipsis :: string where "ellipsis = [CHR 0xE2, CHR 0x80, CHR 0xA6]"
definition warning_sign :: string where "warning_sign = [CHR 0xE2, CHR 0x9A, CHR 0xA0]"

definition quoted :: "string \<Rightarrow> string" where "quoted s = [CHR 0x27] @ s @ [CHR 0x27]"

definition json_rows :: "json \<Rightarrow> json list" where "json_rows j = unwrap_or [] (as_array j)"

definition render_history_item :: "json \<Rightarrow> (unit, 'w) cmd" where
  "render_history_item it =
     (let role = or_unknown (json_get ''role'' it);
          text = join '' '' (List.map_filter (\<lambda>p. as_str (json_get ''text'' p)) (json_rows (json_get ''parts'' it)))
      in if trim text \<noteq> [] then say_line (dimmed (''['' @ role @ ''] '' @ text)) else cmd_ok ())"

definition render_live_event :: "json \<Rightarrow> (unit, 'w) cmd" where
  "render_live_event ev =
     (let kind = unwrap_or [] (as_str (json_get ''type'' ev))
      in if kind = ''status'' then
           say_line (dimmed (''[status] '' @ unwrap_or [] (as_str (json_get ''message'' ev))))
         else if kind = ''notice'' then
           say_line (dimmed (''[notice] '' @ unwrap_or [] (as_str (json_get ''message'' ev))))
         else if kind = ''message_update'' then
           (let ame = json_get ''assistantMessageEvent'' ev
            in if json_get ''type'' ame = JStr ''text_delta'' then
                 (case as_str (json_get ''delta'' ame) of None \<Rightarrow> cmd_ok () | Some d \<Rightarrow> say d)
               else cmd_ok ())
         else if kind = ''turn_end'' then say_line []
         else if kind = ''tool_execution_start'' then
           say_line (CHR 0x0A # ''[tool: '' @ or_unknown (json_get ''toolName'' ev) @ '']'')
         else cmd_ok ())"

definition daemon_text :: "daemon_line \<Rightarrow> string" where
  "daemon_text d =
     pad_right 10 (short (dl_endpoint_id d)) @ '' '' @
     pad_right 8 (if dl_approved d then ''approved'' else ''pending'') @ '' '' @
     pad_right 8 (if dl_online d then ''online'' else ''offline'') @ '' '' @
     pad_right 20 (dl_hostname d) @ '' '' @ dl_os d @ ''/'' @ dl_arch d"

definition agent_text :: "agent_line \<Rightarrow> string" where
  "agent_text a =
     (let idle = nat (max 0 (unwrap_or 0 (al_idle_secs a)));
          idle_str = (if al_status a = ''idle'' then '' ('' @ show_nat (idle div 60) @ ''m)'' else [])
      in pad_right 24 (al_name a) @ '' '' @ pad_right 14 (al_status a) @ '' '' @ al_id a @ '' on '' @
         short (al_daemon_endpoint_id a) @ ellipsis @ idle_str @
         (if al_needs_attention a then '' '' @ warning_sign @ '' needs attention'' else []))"

section \<open>Attaching\<close>

text \<open>What the \<open>select!\<close> loop takes in: an item of the stream, its end, a line of input or its end.\<close>

datatype cli_attach_event =
  StreamItem "string + session_event"
| StreamDone
| InputLine string
| InputDone

fun cli_attach_loop :: "'w cli_env \<Rightarrow> string \<Rightarrow> string \<Rightarrow> cli_attach_event list \<Rightarrow> (unit, 'w) cmd" where
  "cli_attach_loop E base name [] = cmd_ok ()"
| "cli_attach_loop E base name (ev # evs) =
     (case ev of
        StreamItem (Inr (History it)) \<Rightarrow>
          cmd_bind (render_history_item it) (\<lambda>_. cli_attach_loop E base name evs)
      | StreamItem (Inr HistoryEnd) \<Rightarrow>
          cmd_bind (say_line (dimmed (em_dash @ em_dash @ '' history above; live below '' @ em_dash @ em_dash)))
            (\<lambda>_. cli_attach_loop E base name evs)
      | StreamItem (Inr (Live v)) \<Rightarrow> cmd_bind (render_live_event v) (\<lambda>_. cli_attach_loop E base name evs)
      | StreamItem (Inr (ServerError msg)) \<Rightarrow>
          cmd_bind (say_line (in_red (''[error] '' @ msg))) (\<lambda>_. cli_attach_loop E base name evs)
      | StreamItem (Inl e) \<Rightarrow> say_line (in_red (''[stream error] '' @ e))
      | StreamDone \<Rightarrow> cmd_ok ()
      | InputDone \<Rightarrow> cmd_ok ()
      | InputLine input \<Rightarrow>
          if trim input = [] then cli_attach_loop E base name evs
          else (\<lambda>s. case call E base (Agent (CPrompt name input ModePrompt)) s of
              (Inl (CallFailed e), s1) \<Rightarrow>
                cmd_bind (say_line (in_red (''[send failed] '' @ ce_show E e))) (\<lambda>_. cli_attach_loop E base name evs) s1
            | (_, s1) \<Rightarrow> cli_attach_loop E base name evs s1))"

definition cli_attach ::
    "'w cli_env \<Rightarrow> string \<Rightarrow> string \<Rightarrow> client_error option \<Rightarrow> cli_attach_event list \<Rightarrow> (unit, 'w) cmd" where
  "cli_attach E base name opened evs =
     (case opened of
        Some e \<Rightarrow> cmd_fail (CallFailed e)
      | None \<Rightarrow>
          cmd_bind (say_line (''attached to '' @ quoted name @ '' '' @ em_dash @
              '' type a prompt and hit enter; ctrl-c detaches'')) (\<lambda>_. cli_attach_loop E base name evs))"

section \<open>Asking\<close>

definition cli_asker :: "'w cli_env \<Rightarrow> string \<Rightarrow> string \<Rightarrow> string \<Rightarrow> 'w asker" where
  "cli_asker E base name message =
     (let rest = (\<lambda>c w. case client_request c of (method, path, body) \<Rightarrow>
            http_rest (ce_net E) (http_base base) method path body w)
      in \<lparr>ak_prompt = rest (Agent (CPrompt name message ModePrompt)), ak_state = rest (Agent (CSessionState name)),
          ak_history = rest (Agent (CHistory name (Some 50))), ak_pause = ce_pause E, ak_now = ce_now E\<rparr>)"

definition cli_ask :: "nat \<Rightarrow> 'w cli_env \<Rightarrow> string \<Rightarrow> string \<Rightarrow> string list \<Rightarrow> nat \<Rightarrow> 'w cli \<Rightarrow>
    ((cli_error + unit) \<times> 'w cli) option" where
  "cli_ask fuel E base name message timeout s =
     (case ask fuel (cli_asker E base name (join '' '' message)) (timeout * 1000) (cl_world s) of
        None \<Rightarrow> None
      | Some (Inl e, w) \<Rightarrow> Some (Inl (CallFailed e), s\<lparr>cl_world := w\<rparr>)
      | Some (Inr reply, w) \<Rightarrow>
          Some (say_line (if reply = [] then ''<none>'' else reply) (s\<lparr>cl_world := w\<rparr>)))"

section \<open>The commands\<close>

definition set_secret :: "'w cli_env \<Rightarrow> string \<Rightarrow> string \<Rightarrow> string option \<Rightarrow> string \<Rightarrow> (unit, 'w) cmd" where
  "set_secret E base kind name value =
     (if kind = ''provider'' then
        cmd_bind (cmd_option (Bail ''provider name required'') name) (\<lambda>name.
        cmd_bind (call E base (Catalog (CSetProvider name value))) (\<lambda>_. say_line (''set provider '' @ name)))
      else if kind = ''extra'' then
        cmd_bind (cmd_option (Bail ''extra secret name required'') name) (\<lambda>name.
        cmd_bind (call E base (Catalog (CSetExtra name value))) (\<lambda>_. say_line (''set extra '' @ name)))
      else cmd_bind (call E base (Catalog (CSetSshKey value))) (\<lambda>_. say_line ''set ssh_key''))"

definition remove_secret :: "'w cli_env \<Rightarrow> string \<Rightarrow> string \<Rightarrow> string option \<Rightarrow> (unit, 'w) cmd" where
  "remove_secret E base kind name =
     (if kind = ''provider'' then
        cmd_bind (cmd_option (Bail ''provider name required'') name) (\<lambda>name.
        cmd_bind (call E base (Catalog (CDeleteProvider name))) (\<lambda>_. say_line (''removed provider '' @ name)))
      else if kind = ''extra'' then
        cmd_bind (cmd_option (Bail ''extra secret name required'') name) (\<lambda>name.
        cmd_bind (call E base (Catalog (CDeleteExtra name))) (\<lambda>_. say_line (''removed extra '' @ name)))
      else cmd_bind (call E base (Catalog CDeleteSshKey)) (\<lambda>_. say_line ''removed ssh_key''))"

definition cli_secrets :: "'w cli_env \<Rightarrow> string \<Rightarrow> secrets_command option \<Rightarrow> (unit, 'w) cmd" where
  "cli_secrets E base command =
     (case command of
        None \<Rightarrow>
          cmd_bind (call E base (Catalog CSecrets)) (\<lambda>r.
            say_lines (map (\<lambda>e. or_unknown (json_get ''kind'' e) @ '':'' @ or_unknown (json_get ''name'' e))
              (json_rows (json_get ''entries'' r))))
      | Some (SecretsSet kind name value) \<Rightarrow>
          (case secret_kind kind of
             Inl e \<Rightarrow> cmd_fail e
           | Inr kind \<Rightarrow>
               cmd_bind (case value of Some v \<Rightarrow> cmd_ok v | None \<Rightarrow> read_secret_stdin E) (set_secret E base kind name))
      | Some (SecretsRemove kind name) \<Rightarrow>
          (case secret_kind kind of Inl e \<Rightarrow> cmd_fail e | Inr kind \<Rightarrow> remove_secret E base kind name))"

definition cli_daemon :: "'w cli_env \<Rightarrow> string \<Rightarrow> daemon_command \<Rightarrow> (unit, 'w) cmd" where
  "cli_daemon E base command =
     (case command of
        DaemonApprove i \<Rightarrow>
          cmd_bind (call E base (Fleet (CApproveDaemon i))) (\<lambda>_. say_line (''approved '' @ i))
      | DaemonLabel daemon kvs remove \<Rightarrow>
          (case map_ok parse_label_kv kvs of
             Inl e \<Rightarrow> cmd_fail e
           | Inr pairs \<Rightarrow>
               cmd_bind (call E base (Fleet (CSetLabels daemon (bt_extend [] pairs) remove)))
                 (\<lambda>_. say_line (''labels updated for '' @ daemon)))
      | DaemonList \<Rightarrow>
          cmd_bind (call E base (Fleet CDaemons)) (\<lambda>v.
          cmd_bind (cmd_option (CallFailed JsonError) (ce_daemons E (json_get ''daemons'' v))) (\<lambda>ds.
            say_lines (map daemon_text ds))))"

text \<open>Any failure of the call is taken for a control plane that is not running.\<close>

definition cli_operator :: "'w cli_env \<Rightarrow> string \<Rightarrow> operator_command \<Rightarrow> (unit, 'w) cmd" where
  "cli_operator E base command =
     (case command of
        OperatorApprove i \<Rightarrow>
          if \<not> ce_endpoint E i then cmd_fail (Bail ''invalid endpoint id'')
          else (\<lambda>s. case call E base (Fleet (COperatorApprove i)) s of
              (Inr _, s1) \<Rightarrow> say_line (''approved '' @ i @ '' (live '' @ em_dash @ '' no restart needed)'') s1
            | (Inl _, s1) \<Rightarrow>
                cmd_bind (cli_config_path E) (\<lambda>path.
                cmd_bind (add_operator_allow_to_file E path i) (\<lambda>added.
                  if added then say_line (''suzerain not running '' @ em_dash @ '' added '' @ i @ '' to '' @ path @
                    '' (applies on next start)'')
                  else say_line (i @ '' already approved in '' @ path))) s1)
      | OperatorList \<Rightarrow>
          cmd_bind (call E base (Fleet COperators)) (\<lambda>v.
          cmd_bind (cmd_option (CallFailed JsonError)
              (case as_array (json_get ''allow'' v) of
                 None \<Rightarrow> None
               | Some vs \<Rightarrow> if \<forall>x \<in> set vs. as_str x \<noteq> None then Some (List.map_filter as_str vs) else None))
            say_lines))"

definition cli_create :: "'w cli_env \<Rightarrow> string \<Rightarrow> string \<Rightarrow> string option \<Rightarrow> (unit, 'w) cmd" where
  "cli_create E base manifest daemon =
     cmd_bind (cmd_option IoFailed (ce_file E manifest)) (\<lambda>text.
       if \<not> ce_manifest E text then cmd_fail TomlFailed
       else cmd_bind (call E base (Agent (CCreateFull text daemon))) (\<lambda>r.
         say_line (''created '' @ or_unknown (json_get ''name'' r) @ '' ('' @ or_unknown (json_get ''id'' r) @
           '') on daemon '' @ short (or_unknown (json_get ''daemon_endpoint_id'' r)) @ ellipsis)))"

definition cli_agents :: "'w cli_env \<Rightarrow> string \<Rightarrow> (unit, 'w) cmd" where
  "cli_agents E base =
     cmd_bind (call E base (Agent CAgents)) (\<lambda>v.
     cmd_bind (cmd_option (CallFailed JsonError) (ce_agents E (json_get ''agents'' v))) (\<lambda>as.
       say_lines (map agent_text as)))"

definition cli_logs :: "'w cli_env \<Rightarrow> string \<Rightarrow> string \<Rightarrow> nat \<Rightarrow> (unit, 'w) cmd" where
  "cli_logs E base name tail =
     cmd_bind (call E base (Agent (CLogs name tail))) (\<lambda>r.
       say_lines (map (\<lambda>ev. or_unknown (json_get ''at'' ev) @ '' #'' @
           ce_json E (json_get ''seq'' ev) @ '' '' @ or_unknown (json_get ''kind'' ev))
         (json_rows (json_get ''events'' r))))"

definition cli_audit :: "'w cli_env \<Rightarrow> string \<Rightarrow> nat \<Rightarrow> (unit, 'w) cmd" where
  "cli_audit E base tail =
     cmd_bind (call E base (Fleet (CAudit tail))) (\<lambda>v.
     cmd_bind (cmd_option (CallFailed JsonError) (as_array (json_get ''entries'' v))) (\<lambda>es.
       say_lines (map (\<lambda>e. or_unknown (json_get ''at'' e) @ '' '' @
         pad_right 16 (or_unknown (json_get ''action'' e)) @ '' '' @ ce_json E (json_get ''detail'' e)) es)))"

definition cli_id :: "'w cli_env \<Rightarrow> string \<Rightarrow> (unit, 'w) cmd" where
  "cli_id E base =
     cmd_bind (call E base (Fleet CEndpoint)) (\<lambda>v.
     cmd_bind (cmd_option (CallFailed JsonError) (ce_endpoint_info E v)) say_line)"

definition cli_config :: "'w cli_env \<Rightarrow> string \<Rightarrow> string \<Rightarrow> string \<Rightarrow> (unit, 'w) cmd" where
  "cli_config E base name auto_suspend =
     cmd_bind (call E base (Agent (CSetAutoSuspend name auto_suspend)))
       (\<lambda>_. say_line (''auto-suspend policy for '' @ name @ '': '' @ auto_suspend))"

definition cli_destroy :: "'w cli_env \<Rightarrow> string \<Rightarrow> string \<Rightarrow> (unit, 'w) cmd" where
  "cli_destroy E base name =
     cmd_bind (call E base (Agent (CDestroy name False))) (\<lambda>_. say_line (''destroyed '' @ name))"

text \<open>
  The whole tool; \<open>opened\<close> and \<open>evs\<close> are the session stream of an attach, and None is an \<open>ask\<close> that
  runs out of fuel.\<close>

definition cli_main ::
    "nat \<Rightarrow> 'w cli_env \<Rightarrow> client_error option \<Rightarrow> cli_attach_event list \<Rightarrow> string option \<Rightarrow> commands \<Rightarrow> 'w cli \<Rightarrow>
      ((cli_error + unit) \<times> 'w cli) option" where
  "cli_main fuel E opened evs api_url command s =
     (case api_base_url E api_url s of
        (Inl e, s1) \<Rightarrow> Some (Inl e, s1)
      | (Inr base, s1) \<Rightarrow>
          (case command of
             IdCmd \<Rightarrow> Some (cli_id E base s1)
           | SecretsCmd c \<Rightarrow> Some (cli_secrets E base c s1)
           | AuditCmd tail \<Rightarrow> Some (cli_audit E base tail s1)
           | DaemonCmd c \<Rightarrow> Some (cli_daemon E base c s1)
           | OperatorCmd c \<Rightarrow> Some (cli_operator E base c s1)
           | AgentCmd (AgentCreate manifest daemon) \<Rightarrow> Some (cli_create E base manifest daemon s1)
           | AgentCmd AgentList \<Rightarrow> Some (cli_agents E base s1)
           | AgentCmd (AgentAsk name message timeout) \<Rightarrow> cli_ask fuel E base name message timeout s1
           | AgentCmd (AgentAttach name) \<Rightarrow> Some (cli_attach E base name opened evs s1)
           | AgentCmd (AgentConfig name v) \<Rightarrow> Some (cli_config E base name v s1)
           | AgentCmd (AgentDestroy name) \<Rightarrow> Some (cli_destroy E base name s1)
           | AgentCmd (AgentLogs name tail) \<Rightarrow> Some (cli_logs E base name tail s1)))"

section \<open>What is checked before anything is sent\<close>

text \<open>A command that only fails with an error of a call, or has not touched the network when it fails otherwise.\<close>

definition local_errors :: "('a, 'w) cmd \<Rightarrow> bool" where
  "local_errors m \<longleftrightarrow> (\<forall>s e s'. m s = (Inl e, s') \<longrightarrow> (\<exists>c. e = CallFailed c) \<or> cl_world s' = cl_world s)"

named_theorems local_cmds "commands whose local errors send nothing"

definition never_fails :: "('a, 'w) cmd \<Rightarrow> bool" where
  "never_fails m \<longleftrightarrow> (\<forall>s. is_ok (fst (m s)))"

lemma local_ok [local_cmds]: "local_errors (cmd_ok a)"
  and local_fail [local_cmds]: "local_errors (cmd_fail e)"
  and local_call [local_cmds]: "local_errors (call E base c)"
  by (auto simp: local_errors_def cmd_ok_def cmd_fail_def call_def split: prod.splits sum.splits)

lemma never_fails_say [local_cmds]: "never_fails (say t)" "never_fails (say_line t)" "never_fails (cmd_ok a)"
  by (simp_all add: never_fails_def say_def say_line_def cmd_ok_def)

lemma never_fails_bind [local_cmds]: "never_fails m \<Longrightarrow> (\<And>a. never_fails (f a)) \<Longrightarrow> never_fails (cmd_bind m f)"
  by (auto simp: never_fails_def cmd_bind_def is_ok_def split: prod.splits sum.splits)
    (metis fst_conv sum.simps(5))+

lemma never_fails_lines [local_cmds]: "never_fails (say_lines ls)"
  by (induction ls) (auto intro: local_cmds)

lemma local_never: "never_fails m \<Longrightarrow> local_errors m"
  unfolding never_fails_def local_errors_def is_ok_def by (metis fst_conv sum.simps(5))

text \<open>After a call only calls may fail; before it anything may.\<close>

lemma local_call_bind [local_cmds]:
  assumes "\<And>v. never_fails (f v)"
  shows "local_errors (cmd_bind (call E base c) f)"
  using assms unfolding local_errors_def never_fails_def cmd_bind_def is_ok_def
  by (auto simp: call_def split: prod.splits sum.splits) (metis fst_conv sum.simps(5))

lemma local_decode_bind:
  assumes "\<And>v. never_fails (f v)"
  shows "local_errors (cmd_bind (call E base c) (\<lambda>v. cmd_bind (cmd_option (CallFailed e) (g v)) f))"
proof -
  have "\<exists>c. x = CallFailed c" if "cmd_bind (cmd_option (CallFailed e) (g v)) f s = (Inl x, s')" for v x s s'
    using that assms unfolding never_fails_def is_ok_def
    by (auto simp: cmd_bind_def cmd_option_def cmd_fail_def cmd_ok_def split: option.splits prod.splits sum.splits)
      (metis fst_conv sum.simps(5))
  then show ?thesis
    by (auto simp: local_errors_def cmd_bind_def [of "call E base c"] call_def split: prod.splits sum.splits)
qed

lemma local_bind:
  assumes "\<And>s r s'. m s = (r, s') \<Longrightarrow> cl_world s' = cl_world s" "\<And>a. local_errors (f a)"
  shows "local_errors (cmd_bind m f)"
proof (unfold local_errors_def, intro allI impI)
  fix s e s' assume "cmd_bind m f s = (Inl e, s')"
  then obtain r s1 where m: "m s = (r, s1)" and rest: "r = Inl e \<and> s1 = s' \<or> (\<exists>a. r = Inr a \<and> f a s1 = (Inl e, s'))"
    by (cases "m s") (auto simp: cmd_bind_def split: sum.splits)
  show "(\<exists>c. e = CallFailed c) \<or> cl_world s' = cl_world s"
    using rest assms(1) [OF m] assms(2) unfolding local_errors_def by metis
qed

lemma quiet_cmds:
  "cmd_option e x s = (r, s') \<Longrightarrow> cl_world s' = cl_world s"
  "read_secret_stdin E s = (r, s') \<Longrightarrow> cl_world s' = cl_world s"
  "cmd_ok a s = (r', s') \<Longrightarrow> cl_world s' = cl_world s"
  by (auto simp: cmd_option_def read_secret_stdin_def cmd_ok_def cmd_fail_def Let_def split: option.splits if_splits)

lemma local_quiet_bind [local_cmds]:
  assumes "\<And>a. local_errors (f a)"
  shows "local_errors (cmd_bind (cmd_option e x) f)" "local_errors (cmd_bind (read_secret_stdin E) f)"
    "local_errors (cmd_bind (cmd_ok b) f)"
  by (rule local_bind [OF quiet_cmds(1) assms] local_bind [OF quiet_cmds(2) assms] local_bind [OF quiet_cmds(3) assms];
      assumption)+

lemma local_secret [local_cmds]:
  "local_errors (set_secret E base kind name value)" "local_errors (remove_secret E base kind name)"
  by (auto simp: set_secret_def remove_secret_def intro!: local_cmds)

lemma attach_never_fails: "never_fails (cli_attach_loop E base name evs)"
proof (induction evs)
  case (Cons ev evs)
  have item: "never_fails (render_history_item it)" "never_fails (render_live_event j)" for it j
    by (auto simp: render_history_item_def render_live_event_def Let_def intro!: local_cmds split: option.split)
  show ?case
  proof (cases ev)
    case (InputLine input)
    have "is_ok (fst (cmd_bind (say_line t) (\<lambda>_. cli_attach_loop E base name evs) s))" for t s
      using never_fails_bind [OF never_fails_say(2) Cons.IH] by (simp add: never_fails_def)
    moreover have "is_ok (fst (cli_attach_loop E base name evs s))" for s
      using Cons.IH by (simp add: never_fails_def)
    ultimately show ?thesis
      by (auto simp: never_fails_def InputLine split: prod.split sum.split cli_error.split)
  next
    case (StreamItem it)
    then show ?thesis
      using Cons.IH item by (cases it) (auto intro!: local_cmds split: session_event.split)
  qed (auto intro: local_cmds)
qed (simp add: local_cmds)

text \<open>
  Bad input never reaches the control plane: whatever the command, except an operator's approval, when
  the tool fails for any other reason than a failed call, then it has sent nothing.\<close>

theorem bad_input_sends_nothing:
  assumes "cli_main fuel E opened evs api_url command s = Some (Inl e, s')" "\<nexists>c. e = CallFailed c"
    and "\<nexists>i. command = OperatorCmd (OperatorApprove i)"
  shows "cl_world s' = cl_world s"
proof -
  have "\<exists>base s1. api_base_url E api_url s = (Inr base, s1)"
    by (cases api_url) (simp_all add: api_base_url_def cmd_ok_def cmd_bind_def cli_config_path_def split: prod.split)
  then obtain base s1 where base: "api_base_url E api_url s = (Inr base, s1)" by blast
  have w: "cl_world s1 = cl_world s"
    using base by (auto simp: api_base_url_def cmd_ok_def cmd_bind_def cli_config_path_def
        split: option.splits prod.splits)
  have secrets: "local_errors (cli_secrets E base c)" for c
    by (auto simp: cli_secrets_def intro!: local_cmds split: option.split secrets_command.split sum.split)
  have daemon: "local_errors (cli_daemon E base c)" for c
    by (auto simp: cli_daemon_def intro!: local_cmds local_decode_bind split: daemon_command.split sum.split)
  have lists: "local_errors (cli_operator E base OperatorList)" "local_errors (cli_agents E base)"
      "local_errors (cli_audit E base tail)" "local_errors (cli_id E base)" for tail
    by (auto simp: cli_operator_def cli_agents_def cli_audit_def cli_id_def intro!: local_cmds local_decode_bind)
  have rest: "local_errors (cli_create E base f d)" "local_errors (cli_logs E base name n)"
      "local_errors (cli_config E base name v)" "local_errors (cli_destroy E base name)" for f d name n v
    by (auto simp: cli_create_def cli_logs_def cli_config_def cli_destroy_def Let_def intro!: local_cmds)
  have attach: "local_errors (cli_attach E base name opened evs)" for name
    by (auto simp: cli_attach_def intro!: local_cmds local_never attach_never_fails split: option.split)
  have unsent: ?thesis if "local_errors m" "m s1 = (Inl e, s')" for m
    using that assms(2) w unfolding local_errors_def by metis
  show ?thesis
  proof (cases command)
    case (OperatorCmd c)
    then have "c = OperatorList" using assms(3) by (cases c) auto
    then show ?thesis using assms(1) base OperatorCmd unsent [OF lists(1)] by (simp add: cli_main_def)
  next
    case (AgentCmd c)
    show ?thesis
      using assms(1,2) base AgentCmd unsent [OF lists(2)] unsent [OF rest(1)] unsent [OF rest(2)] unsent [OF rest(3)]
        unsent [OF rest(4)] unsent [OF attach]
      by (cases c) (auto simp: cli_main_def cli_ask_def say_line_def say_def split: option.splits sum.splits)
  qed (use assms(1) base unsent [OF secrets] unsent [OF daemon] unsent [OF lists(3)] unsent [OF lists(4)] in
      \<open>auto simp: cli_main_def\<close>)
qed

definition doc_allow :: "toml \<Rightarrow> toml list" where
  "doc_allow doc = (case Option.bind (toml_get ''operator'' doc) (toml_get ''allow'') of Some (TomlArr xs) \<Rightarrow> xs | _ \<Rightarrow> [])"

lemma allow_in_doc_allows:
  assumes "allow_in_doc i doc = Inr out"
  shows "TomlStr i \<in> set (doc_allow (unwrap_or doc out)) \<and> set (doc_allow doc) \<subseteq> set (doc_allow (unwrap_or doc out)) \<and>
    (\<forall>k. k \<noteq> ''operator'' \<longrightarrow> toml_get k (unwrap_or doc out) = toml_get k doc)"
  using assms
  by (auto simp: allow_in_doc_def operator_table_def doc_allow_def toml_get_def unwrap_or_def res_bind_Inr_conv
      split: toml.splits option.splits if_splits)

lemma added_to_file:
  assumes "\<forall>d. ce_toml E (ce_pretty E d) = Some d" "add_operator_allow_to_file E p i s = (Inr b, s')"
  shows "\<exists>text doc. map_of (cl_dir s') p = Some text \<and> ce_toml E text = Some doc \<and> TomlStr i \<in> set (doc_allow doc) \<and>
    (\<forall>q. q \<noteq> p \<longrightarrow> map_of (cl_dir s') q = map_of (cl_dir s) q)"
proof -
  obtain doc where doc: "map_of (cl_dir s) p = None \<and> doc = TomlTable [] \<or>
      (\<exists>text. map_of (cl_dir s) p = Some text \<and> ce_toml E text = Some doc)"
    and rest: "case allow_in_doc i doc of
        Inl e \<Rightarrow> False
      | Inr None \<Rightarrow> s' = s
      | Inr (Some doc') \<Rightarrow> s' = s\<lparr>cl_dir := put p (ce_pretty E doc') (cl_dir s)\<rparr>"
    using assms(2) by (auto simp: add_operator_allow_to_file_def split: option.splits sum.splits if_splits)
  have empty: "allow_in_doc i (TomlTable []) \<noteq> Inr None"
    by (simp add: allow_in_doc_def operator_table_def unwrap_or_def)
  obtain out where out: "allow_in_doc i doc = Inr out" using rest by (auto split: sum.splits)
  then show ?thesis
    using rest doc assms(1) allow_in_doc_allows [OF out] empty by (cases out) (auto simp: unwrap_or_def)
qed

text \<open>
  An approval is not lost: when the tool reports success, then the running control plane has accepted
  the approval and no file has changed, or the configuration file the next start finds allows the id.
  That the toml crate reads back what it writes is a hypothesis.\<close>

theorem approval_sticks:
  assumes "\<forall>d. ce_toml E (ce_pretty E d) = Some d" "cli_operator E base (OperatorApprove i) s = (Inr (), s')"
  shows "ce_endpoint E i \<and>
    ((\<exists>v s1. call E base (Fleet (COperatorApprove i)) s = (Inr v, s1) \<and> cl_dir s' = cl_dir s) \<or>
     (\<exists>p text doc. cli_config_path E s' = (Inr p, s') \<and> map_of (cl_dir s') p = Some text \<and>
        ce_toml E text = Some doc \<and> TomlStr i \<in> set (doc_allow doc)))"
proof -
  have valid: "ce_endpoint E i" using assms(2) by (auto simp: cli_operator_def cmd_fail_def split: if_splits)
  obtain r s1 where c: "call E base (Fleet (COperatorApprove i)) s = (r, s1)" by fastforce
  then have dir1: "cl_dir s1 = cl_dir s" by (auto simp: call_def split: prod.splits sum.splits)
  show ?thesis
  proof (cases r)
    case (Inr v)
    then show ?thesis
      using valid assms(2) c dir1 by (auto simp: cli_operator_def say_line_def say_def)
  next
    case (Inl e)
    have "\<exists>p s2. cli_config_path E s1 = (Inr p, s2)" by (simp add: cli_config_path_def split: prod.split)
    then obtain p s2 where p: "cli_config_path E s1 = (Inr p, s2)" by blast
    then obtain b s3 where s3: "add_operator_allow_to_file E p i s2 = (Inr b, s3)" "cl_dir s' = cl_dir s3"
      using assms(2) valid c Inl
      by (auto simp: cli_operator_def cmd_bind_def say_line_def say_def split: prod.splits sum.splits if_splits)
    obtain body doc where t: "map_of (cl_dir s3) p = Some body" "ce_toml E body = Some doc" "TomlStr i \<in> set (doc_allow doc)"
      "\<forall>q. q \<noteq> p \<longrightarrow> map_of (cl_dir s3) q = map_of (cl_dir s2) q"
      using added_to_file [OF assms(1) s3(1)] by blast
    have "cli_config_path E s' = (Inr p, s')"
      using p t(1,4) s3(2)
      by (auto simp: cli_config_path_def migrated_path_in_def split: option.splits if_splits prod.splits)
    then show ?thesis using t s3(2) valid by auto
  qed
qed

text \<open>The fallback is taken for every failure, a refusal by the running control plane included.\<close>

lemma refusal_is_taken_for_absence:
  assumes "call E base (Fleet (COperatorApprove i)) s = (Inl (CallFailed (HttpStatus n msg)), s1)" "ce_endpoint E i"
    and "cl_dir s1 = []" "ce_writes E"
  shows "\<exists>s'. cli_operator E base (OperatorApprove i) s = (Inr (), s') \<and>
    cl_out s' = cl_out s1 @ ''suzerain not running '' @ em_dash @ '' added '' @ i @
      '' to suzerain.toml (applies on next start)'' @ [CHR 0x0A]"
  using assms
  by (simp add: cli_operator_def cli_config_path_def migrated_path_in_def cmd_bind_def add_operator_allow_to_file_def
      allow_in_doc_def operator_table_def unwrap_or_def say_line_def say_def)

end
