(* ===== verification/Package_Catalog.thy ===== *)
theory Package_Catalog
  imports Journal Client_Rest
begin

text \<open>
  The package catalog (crates/suzerain/src/pi_packages.rs) and its handler (\<open>pi_packages\<close> of
  crates/suzerain/src/web.rs): crawling pi.dev, the cache with its age and error backoff, the parser
  of the cards, and the query with its order and pages. The regex crate is the parameter
  \<open>captures\<close> (the first group of every match, in order) and \<open>strip\<close> (the text without tags); the
  code's patterns are the constructors of \<open>pattern\<close>. Times are nanoseconds of the monotonic clock.
\<close>

section \<open>Packages\<close>

record pi_package =
  pk_name :: string
  pk_description :: string
  pk_author :: string
  pk_downloads :: string
  pk_updated :: string
  pk_types :: "string list"
  pk_source :: "string option"
  pk_repo_url :: "string option"

record catalog_page =
  cp_packages :: "pi_package list"
  cp_total :: nat
  cp_page :: nat
  cp_per_page :: nat
  cp_pages :: nat
  cp_cache_age_secs :: nat

datatype pattern =
  ArticlePat | NamePat | DescPat | MetaPat | SpanPat | BadgePat | NpmPat | GithubPat | PageNumberPat

record catalog_env =
  ca_captures :: "pattern \<Rightarrow> string \<Rightarrow> string list"
  ca_strip :: "string \<Rightarrow> string"
  ca_scaled :: "string \<Rightarrow> nat \<Rightarrow> u64"

definition crawl_concurrency :: nat where "crawl_concurrency = 16"
definition cache_ttl :: nat where "cache_ttl = 30 * 60 * 10 ^ 9"
definition error_backoff :: nat where "error_backoff = 60 * 10 ^ 9"

section \<open>The parser of a page\<close>

definition decode_entities :: "string \<Rightarrow> string" where
  "decode_entities s =
     replace_all ''&apos;'' [CHR 0x27] (replace_all ''&#39;'' [CHR 0x27] (replace_all ''&quot;'' [CHR 0x22]
       (replace_all ''&gt;'' ''>'' (replace_all ''&lt;'' ''<'' (replace_all ''&amp;'' ''&'' s)))))"

fun first_of :: "'a list \<Rightarrow> 'a option" where
  "first_of [] = None"
| "first_of (x # xs) = Some x"

text \<open>A card without a name is skipped.\<close>

definition parse_card :: "catalog_env \<Rightarrow> string \<Rightarrow> pi_package option" where
  "parse_card C html =
     (case first_of (ca_captures C NamePat html) of
        None \<Rightarrow> None
      | Some name \<Rightarrow>
          let description = (case first_of (ca_captures C DescPat html) of
                None \<Rightarrow> [] | Some d \<Rightarrow> decode_entities (trim (ca_strip C d)));
              meta_spans = (case first_of (ca_captures C MetaPat html) of
                None \<Rightarrow> []
              | Some m \<Rightarrow> map (\<lambda>sp. decode_entities (trim (ca_strip C sp))) (ca_captures C SpanPat m));
              nth_span = (\<lambda>n. if n < length meta_spans then meta_spans ! n else []);
              repo_url = map_option (\<lambda>c. ''https://github.com/'' @ c) (first_of (ca_captures C GithubPat html))
          in Some \<lparr>pk_name = decode_entities (trim name), pk_description = description, pk_author = nth_span 0,
               pk_downloads = nth_span 1, pk_updated = nth_span 2,
               pk_types = remdups_adj (sort (ca_captures C BadgePat html)),
               pk_source = (case first_of (ca_captures C NpmPat html) of
                 Some c \<Rightarrow> Some (''npm:'' @ c)
               | None \<Rightarrow> map_option (\<lambda>u. ''git:'' @ drop (length ''https://'') u) repo_url),
               pk_repo_url = repo_url\<rparr>)"

definition parse_cards :: "catalog_env \<Rightarrow> string \<Rightarrow> pi_package list" where
  "parse_cards C html = List.map_filter (parse_card C) (ca_captures C ArticlePat html)"

text \<open>The numbers that \<open>usize\<close> holds.\<close>

definition parse_usize :: "string \<Rightarrow> nat option" where
  "parse_usize s =
     (if s = [] \<or> \<not> list_all is_digit s then None
      else let n = foldl (\<lambda>a c. 10 * a + digit_val c) 0 s in if n < 2 ^ 64 then Some n else None)"

definition last_page :: "catalog_env \<Rightarrow> string \<Rightarrow> nat" where
  "last_page C html =
     (case List.map_filter parse_usize (ca_captures C PageNumberPat html) of
        [] \<Rightarrow> 1
      | n # ns \<Rightarrow> Max (set (n # ns)))"

section \<open>The crawl\<close>

text \<open>\<open>fetch\<close> is what each page answers: an error or its text. A batch is fetched whole; the first error in
  page order ends the crawl.\<close>

definition fetch_page :: "catalog_env \<Rightarrow> (nat \<Rightarrow> string + string) \<Rightarrow> nat \<Rightarrow> string + pi_package list \<times> nat" where
  "fetch_page C fetch n =
     (case fetch n of Inl e \<Rightarrow> Inl e | Inr html \<Rightarrow> Inr (parse_cards C html, last_page C html))"

fun chunks :: "nat \<Rightarrow> 'a list \<Rightarrow> 'a list list" where
  "chunks n xs = (if xs = [] \<or> n = 0 then [] else take n xs # chunks n (drop n xs))"

declare chunks.simps [simp del]

definition crawl_batch ::
    "catalog_env \<Rightarrow> (nat \<Rightarrow> string + string) \<Rightarrow> nat list \<Rightarrow> pi_package list \<Rightarrow> string + pi_package list" where
  "crawl_batch C fetch ns packages =
     (case map_ok (\<lambda>n. case fetch_page C fetch n of
          Inl e \<Rightarrow> Inl (''fetching page '' @ show_nat n @ '': '' @ e) | Inr (ps, _) \<Rightarrow> Inr ps) ns of
        Inl e \<Rightarrow> Inl e
      | Inr pss \<Rightarrow> Inr (packages @ concat pss))"

fun crawl_batches ::
    "catalog_env \<Rightarrow> (nat \<Rightarrow> string + string) \<Rightarrow> nat list list \<Rightarrow> pi_package list \<Rightarrow> string + pi_package list" where
  "crawl_batches C fetch [] packages = Inr packages"
| "crawl_batches C fetch (ns # nss) packages =
     res_bind (crawl_batch C fetch ns packages) (crawl_batches C fetch nss)"

definition crawl :: "catalog_env \<Rightarrow> (nat \<Rightarrow> string + string) \<Rightarrow> string + pi_package list" where
  "crawl C fetch =
     (case fetch_page C fetch 1 of
        Inl e \<Rightarrow> Inl e
      | Inr (packages, end_page) \<Rightarrow> crawl_batches C fetch (chunks crawl_concurrency [2..<Suc end_page]) packages)"

section \<open>The cache\<close>

record catalog =
  ct_cache :: "(pi_package list \<times> nat) option"
  ct_last_error :: "(nat \<times> string) option"

text \<open>\<open>done\<close> is the time when the crawl has ended; the third component says whether pi.dev was asked.\<close>

definition ensure_fresh ::
    "catalog_env \<Rightarrow> (nat \<Rightarrow> string + string) \<Rightarrow> nat \<Rightarrow> nat \<Rightarrow> catalog \<Rightarrow> (string + unit) \<times> catalog \<times> bool" where
  "ensure_fresh C fetch now finished ct =
     (case (ct_cache ct, ct_last_error ct) of
        (Some (ps, since), err) \<Rightarrow>
          if now - since < cache_ttl then (Inr (), ct, False)
          else (case crawl C fetch of
                  Inr ps' \<Rightarrow> (Inr (), \<lparr>ct_cache = Some (ps', finished), ct_last_error = None\<rparr>, True)
                | Inl e \<Rightarrow> (Inr (), ct\<lparr>ct_last_error := Some (finished, e)\<rparr>, True))
      | (None, err) \<Rightarrow>
          (case (case err of None \<Rightarrow> None | Some (since, msg) \<Rightarrow> if now - since < error_backoff then Some msg else None) of
             Some msg \<Rightarrow> (Inl (''pi.dev catalog unavailable: '' @ msg), ct, False)
           | None \<Rightarrow>
               (case crawl C fetch of
                  Inr ps' \<Rightarrow> (Inr (), \<lparr>ct_cache = Some (ps', finished), ct_last_error = None\<rparr>, True)
                | Inl e \<Rightarrow> (Inl (''crawling pi.dev package catalog: '' @ e),
                    ct\<lparr>ct_last_error := Some (finished, e)\<rparr>, True))))"

section \<open>Queries\<close>

fun trim_month :: "nat \<Rightarrow> string \<Rightarrow> string" where
  "trim_month 0 s = s"
| "trim_month (Suc n) s =
     (if suffix ''/mo'' s then trim_month n (take (length s - 3) s) else s)"

definition downloads_key :: "catalog_env \<Rightarrow> string \<Rightarrow> u64" where
  "downloads_key C s =
     (let num = trim_month (length s) s
      in if num = [] then ca_scaled C num 1
         else if last num = CHR ''K'' then ca_scaled C (butlast num) (10 ^ 3)
         else if last num = CHR ''M'' then ca_scaled C (butlast num) (10 ^ 6)
         else if last num = CHR ''B'' then ca_scaled C (butlast num) (10 ^ 9)
         else ca_scaled C num 1)"

definition lowercase :: "string \<Rightarrow> string" where "lowercase = map ascii_lower"

definition package_matches :: "string option \<Rightarrow> string option \<Rightarrow> pi_package \<Rightarrow> bool" where
  "package_matches q type_filter p \<longleftrightarrow>
     (case type_filter of None \<Rightarrow> True | Some t \<Rightarrow> t \<in> set (pk_types p)) \<and>
     (case q of None \<Rightarrow> True
      | Some q \<Rightarrow> contains_str (lowercase (pk_name p)) (lowercase q) \<or>
          contains_str (lowercase (pk_description p)) (lowercase q) \<or>
          contains_str (lowercase (pk_author p)) (lowercase q))"

definition catalog_matches :: "catalog_env \<Rightarrow> string option \<Rightarrow> string option \<Rightarrow> pi_package list \<Rightarrow> pi_package list" where
  "catalog_matches C q type_filter ps =
     sort_key (\<lambda>p. - uint (downloads_key C (pk_downloads p))) (filter (package_matches q type_filter) ps)"

definition query_cache ::
    "catalog_env \<Rightarrow> string option \<Rightarrow> string option \<Rightarrow> nat \<Rightarrow> nat \<Rightarrow> nat \<Rightarrow> pi_package list \<times> nat \<Rightarrow> catalog_page" where
  "query_cache C q type_filter page per_page now cache =
     (case cache of (ps, fetched_at) \<Rightarrow>
        let matching = catalog_matches C q type_filter ps;
            found = length matching;
            per_page = min (max per_page 1) 200;
            pages = max ((found + per_page - 1) div per_page) 1;
            page = min (max page 1) pages
        in \<lparr>cp_packages = take per_page (drop ((page - 1) * per_page) matching), cp_total = found,
            cp_page = page, cp_per_page = per_page, cp_pages = pages,
            cp_cache_age_secs = (now - fetched_at) div 10 ^ 9\<rparr>)"

definition catalog_query ::
    "catalog_env \<Rightarrow> (nat \<Rightarrow> string + string) \<Rightarrow> nat \<Rightarrow> nat \<Rightarrow> string option \<Rightarrow> string option \<Rightarrow> nat \<Rightarrow> nat \<Rightarrow>
      catalog \<Rightarrow> (string + catalog_page) \<times> catalog" where
  "catalog_query C fetch now finished q type_filter page per_page ct =
     (case ensure_fresh C fetch now finished ct of
        (Inl e, ct1, _) \<Rightarrow> (Inl e, ct1)
      | (Inr _, ct1, _) \<Rightarrow>
          (case ct_cache ct1 of
             None \<Rightarrow> (Inl ''catalog unavailable'', ct1)
           | Some cache \<Rightarrow> (Inr (query_cache C q type_filter page per_page finished cache), ct1)))"

section \<open>The handler\<close>

definition package_json :: "pi_package \<Rightarrow> json" where
  "package_json p =
     JObj [(''name'', JStr (pk_name p)), (''description'', JStr (pk_description p)), (''author'', JStr (pk_author p)),
       (''downloads'', JStr (pk_downloads p)), (''updated'', JStr (pk_updated p)),
       (''types'', JArr (map JStr (pk_types p))),
       (''source'', case pk_source p of None \<Rightarrow> JNull | Some t \<Rightarrow> JStr t),
       (''repo_url'', case pk_repo_url p of None \<Rightarrow> JNull | Some t \<Rightarrow> JStr t)]"

definition catalog_json :: "catalog_page \<Rightarrow> json" where
  "catalog_json c =
     JObj [(''packages'', JArr (map package_json (cp_packages c))), (''total'', json_num (cp_total c)),
       (''page'', json_num (cp_page c)), (''per_page'', json_num (cp_per_page c)),
       (''pages'', json_num (cp_pages c)), (''cache_age_secs'', json_num (cp_cache_age_secs c))]"

definition pi_packages ::
    "catalog_env \<Rightarrow> (nat \<Rightarrow> string + string) \<Rightarrow> nat \<Rightarrow> nat \<Rightarrow> string option \<Rightarrow> string option \<Rightarrow> nat option \<Rightarrow>
      nat option \<Rightarrow> catalog \<Rightarrow> (nat \<times> json + json) \<times> catalog" where
  "pi_packages C fetch now finished q type_filter page per_page ct =
     (case catalog_query C fetch now finished q type_filter (unwrap_or 1 page) (unwrap_or 50 per_page) ct of
        (Inr c, ct1) \<Rightarrow> (Inr (catalog_json c), ct1)
      | (Inl e, ct1) \<Rightarrow> (Inl (502, JObj [(''error'', JStr (''pi.dev catalog unavailable: '' @ e))]), ct1))"

section \<open>Pages\<close>

lemma chunks_concat: "n \<noteq> 0 \<Longrightarrow> concat (chunks n xs) = xs"
proof (induction n xs rule: chunks.induct)
  case (1 n xs)
  then show ?case by (subst chunks.simps) auto
qed

lemma crawl_batch_pages:
  assumes "\<forall>n \<in> set ns. fetch n = Inr (pages n)"
  shows "crawl_batch C fetch ns ps = Inr (ps @ concat (map (\<lambda>n. parse_cards C (pages n)) ns))"
proof -
  have "map_ok (\<lambda>n. case fetch_page C fetch n of
          Inl e \<Rightarrow> Inl (''fetching page '' @ show_nat n @ '': '' @ e) | Inr (ps, _) \<Rightarrow> Inr ps) ns =
      Inr (map (\<lambda>n. parse_cards C (pages n)) ns)"
    using assms by (intro map_ok_Inr) (simp add: fetch_page_def)
  then show ?thesis by (simp add: crawl_batch_def)
qed

lemma crawl_batches_pages:
  assumes "\<forall>n \<in> set (concat nss). fetch n = Inr (pages n)"
  shows "crawl_batches C fetch nss ps = Inr (ps @ concat (map (\<lambda>n. parse_cards C (pages n)) (concat nss)))"
  using assms
proof (induction nss arbitrary: ps)
  case (Cons ns nss)
  then have "crawl_batch C fetch ns ps = Inr (ps @ concat (map (\<lambda>n. parse_cards C (pages n)) ns))"
    by (intro crawl_batch_pages) simp
  then show ?case using Cons by simp
qed simp

text \<open>A crawl that no page fails has the cards of all pages the first one names, in the order of the pages.\<close>

lemma crawl_complete:
  assumes "\<forall>n. fetch n = Inr (pages n)"
  shows "crawl C fetch =
    Inr (concat (map (\<lambda>n. parse_cards C (pages n)) (1 # [2..<Suc (last_page C (pages 1))])))"
proof -
  have "concat (chunks crawl_concurrency [2..<Suc (last_page C (pages 1))]) = [2..<Suc (last_page C (pages 1))]"
    by (rule chunks_concat) (simp add: crawl_concurrency_def)
  then show ?thesis
    using assms crawl_batches_pages [of "chunks crawl_concurrency [2..<Suc (last_page C (pages 1))]" fetch pages]
    by (simp add: crawl_def fetch_page_def del: upt_Suc)
qed

lemma pages_cover:
  fixes xs :: "'a list"
  assumes "0 < k"
  shows "concat (map (\<lambda>n. take k (drop (n * k) xs)) [0..<(length xs + k - 1) div k]) = xs"
proof -
  have "concat (map (\<lambda>n. take k (drop (n * k) xs)) [0..<m]) = take (m * k) xs" for m
  proof (induction m)
    case (Suc m)
    have "take (Suc m * k) xs = take (m * k + k) xs" by (simp add: add.commute)
    also have "\<dots> = take (m * k) xs @ take k (drop (m * k) xs)" by (rule take_add)
    finally show ?case using Suc by simp
  qed simp
  moreover have "length xs \<le> (length xs + k - 1) div k * k"
  proof -
    have "(length xs + k - 1) mod k < k" using assms by simp
    then show ?thesis using div_mult_mod_eq [of "length xs + k - 1" k] by linarith
  qed
  ultimately show ?thesis by simp
qed

lemma query_cache_eq:
  assumes "k = min (max per_page 1) 200" "xs = catalog_matches C q t ps"
    "n = max ((length xs + k - 1) div k) 1"
  shows "query_cache C q t i per_page now (ps, since) =
    \<lparr>cp_packages = take k (drop ((min (max i 1) n - 1) * k) xs), cp_total = length xs, cp_page = min (max i 1) n,
     cp_per_page = k, cp_pages = n, cp_cache_age_secs = (now - since) div 10 ^ 9\<rparr>"
  unfolding query_cache_def assms Let_def prod.case by (rule HOL.refl)

text \<open>C40
  The pages of a query are its result: against one cache, the pages from the first to the last one it
  reports, put together, are exactly the matching packages, the most downloaded first and otherwise
  in the order of the crawl; each page but the last is full, a page number out of range is clamped,
  and every page reports the same total.\<close>

theorem catalog_pages:
  assumes "cp_pages (query_cache C q t 1 per_page now cache) = n"
  shows "concat (map (\<lambda>i. cp_packages (query_cache C q t i per_page now cache)) [1..<Suc n]) =
      catalog_matches C q t (fst cache) \<and>
    (\<forall>i. 0 < i \<and> i < n \<longrightarrow>
       length (cp_packages (query_cache C q t i per_page now cache)) = min (max per_page 1) 200) \<and>
    (\<forall>i. query_cache C q t i per_page now cache = query_cache C q t (min (max i 1) n) per_page now cache \<and>
       cp_total (query_cache C q t i per_page now cache) = length (catalog_matches C q t (fst cache)))"
proof -
  obtain ps since where c: "cache = (ps, since)" by fastforce
  define xs where "xs = catalog_matches C q t ps"
  define k where "k = min (max per_page 1) 200"
  define m where "m = (length xs + k - 1) div k"
  have k: "0 < k" by (simp add: k_def)
  note eq = query_cache_eq [OF k_def xs_def HOL.refl, folded m_def]
  have n: "n = max m 1" using assms by (simp add: c eq)
  have page: "cp_packages (query_cache C q t i per_page now cache) = take k (drop ((min (max i 1) n - 1) * k) xs)"
    and total: "cp_total (query_cache C q t i per_page now cache) = length xs"
    and clamped: "query_cache C q t i per_page now cache = query_cache C q t (min (max i 1) n) per_page now cache" for i
    by (simp_all add: c eq n)
  have "map (\<lambda>i. cp_packages (query_cache C q t i per_page now cache)) [1..<Suc n] =
      map (\<lambda>i. take k (drop (i * k) xs)) [0..<n]"
    by (rule nth_equalityI) (simp_all add: page min_def del: upt_Suc)
  moreover have "concat (map (\<lambda>i. take k (drop (i * k) xs)) [0..<n]) = xs"
  proof (cases "xs = []")
    case False
    then have "k \<le> length xs + k - 1" by (cases xs) auto
    then have "1 \<le> m" using k unfolding m_def by (metis div_le_mono div_self less_numeral_extra(3))
    then show ?thesis using pages_cover [OF k, of xs] n by (simp add: m_def)
  qed (simp add: concat_eq_Nil_conv)
  ultimately have whole: "concat (map (\<lambda>i. cp_packages (query_cache C q t i per_page now cache)) [1..<Suc n]) = xs"
    by simp
  have full: "length (cp_packages (query_cache C q t i per_page now cache)) = k" if "0 < i" "i < n" for i
  proof -
    have "Suc i \<le> m" using that n by simp
    then have "Suc i * k \<le> m * k" by (rule mult_le_mono1)
    also have "m * k \<le> length xs + k - 1" by (simp add: m_def)
    finally have "i * k < length xs" using k by simp
    moreover have "(i - 1) * k + k = i * k" using that by (cases i) simp_all
    ultimately have "k \<le> length xs - (i - 1) * k" by linarith
    then show ?thesis using that by (simp add: page)
  qed
  have "fst cache = ps" by (simp add: c)
  then show ?thesis
    using whole full clamped total unfolding xs_def k_def by (intro conjI allI impI) auto
qed

definition demo_catalog_env :: catalog_env where
  "demo_catalog_env = \<lparr>ca_captures = (\<lambda>_ _. []), ca_strip = (\<lambda>s. s), ca_scaled = (\<lambda>_ n. of_nat n)\<rparr>"

definition demo_package :: "string \<Rightarrow> string \<Rightarrow> pi_package" where
  "demo_package name downloads = \<lparr>pk_name = name, pk_description = [], pk_author = [], pk_downloads = downloads,
     pk_updated = [], pk_types = [], pk_source = None, pk_repo_url = None\<rparr>"

definition demo_cache :: "pi_package list \<times> nat" where
  "demo_cache = ([demo_package ''a'' ''5K/mo'', demo_package ''b'' ''1M/mo'', demo_package ''c'' ''2''], 0)"

theorem catalog_pages_witness:
  "concat (map (\<lambda>i. cp_packages (query_cache demo_catalog_env None None i 2 0 demo_cache)) [1..<Suc 2]) =
     [demo_package ''b'' ''1M/mo'', demo_package ''a'' ''5K/mo'', demo_package ''c'' ''2'']"
proof -
  have n: "cp_pages (query_cache demo_catalog_env None None 1 2 0 demo_cache) = 2"
    by (simp add: query_cache_def demo_cache_def Let_def catalog_matches_def package_matches_def)
      code_simp
  have "downloads_key demo_catalog_env ''5K/mo'' = 1000" "downloads_key demo_catalog_env ''1M/mo'' = 1000000"
      "downloads_key demo_catalog_env ''2'' = 1"
    by (simp_all add: downloads_key_def demo_catalog_env_def suffix_to_prefix Let_def)
  then have "catalog_matches demo_catalog_env None None (fst demo_cache) =
      [demo_package ''b'' ''1M/mo'', demo_package ''a'' ''5K/mo'', demo_package ''c'' ''2'']"
    by (simp add: catalog_matches_def package_matches_def demo_cache_def demo_package_def)
  then show ?thesis unfolding catalog_pages [OF n, THEN conjunct1] .
qed

section \<open>Two findings\<close>

text \<open>An entity that is itself escaped is decoded twice.\<close>

lemma escaped_entity_decoded_twice: "decode_entities ''&amp;lt;'' = ''<''"
  by code_simp

text \<open>With a stale cache the backoff does not hold: pi.dev is asked again on every query.\<close>

lemma stale_cache_crawls_always:
  assumes "ct_cache ct = Some (ps, since)" "cache_ttl \<le> now - since" "crawl C fetch = Inl e"
  shows "ensure_fresh C fetch now now ct = (Inr (), ct\<lparr>ct_last_error := Some (now, e)\<rparr>, True)"
  using assms by (simp add: ensure_fresh_def)

end
