(* ===== verification/Suzy_Display.thy ===== *)
theory Suzy_Display
  imports Session_Relay Suzy_State
begin

text \<open>
  What the desktop client draws from data: the terminal of an agent (crates/suzy/src/terminal.rs), one
  frame at a time, with its size, its colours, the cells it paints and the input it collects; and the
  rows of the log and audit views (crates/suzy/src/views.rs). The terminal emulator is the record
  \<open>'t emulator\<close>; positions are in cells of the widget, and what is painted is a list of \<open>paint\<close>.
\<close>

section \<open>Colours\<close>

datatype colour = Rgb u8 u8 u8 | Transparent

definition palette :: "colour list" where
  "palette =
     [Rgb 0x1D 0x1F 0x21, Rgb 0xCC 0x66 0x66, Rgb 0xB5 0xBD 0x68, Rgb 0xF0 0xC6 0x74,
      Rgb 0x81 0xA2 0xBE, Rgb 0xB2 0x94 0xBB, Rgb 0x8A 0xBE 0xB7, Rgb 0xC5 0xC8 0xC6,
      Rgb 0x66 0x68 0x6A, Rgb 0xDE 0x93 0x5F, Rgb 0xB5 0xBD 0x68, Rgb 0xF0 0xC6 0x74,
      Rgb 0x81 0xA2 0xBE, Rgb 0xB2 0x94 0xBB, Rgb 0x8A 0xBE 0xB7, Rgb 0xFF 0xFF 0xFF]"

definition fg_default :: colour where "fg_default = Rgb 0xC5 0xC8 0xC6"
definition bg_default :: colour where "bg_default = Transparent"

definition cube :: "u8 \<Rightarrow> u8" where
  "cube v = (if v = 0 then 0 else 55 + v * 40)"

definition indexed_color :: "u8 \<Rightarrow> colour" where
  "indexed_color i =
     (if i \<le> 15 then palette ! unat i
      else if i \<le> 231 then
        (let j = i - 16 in Rgb (cube (j div 36)) (cube (j mod 36 div 6)) (cube (j mod 6)))
      else (let v = 8 + (i - 232) * 10 in Rgb v v v))"

text \<open>A named colour other than the two defaults is the number of its name.\<close>

datatype named_color = NamedForeground | NamedBackground | NamedOther nat
datatype term_color = ColorSpec u8 u8 u8 | ColorIndexed u8 | ColorNamed named_color

definition color_to_egui :: "term_color \<Rightarrow> bool \<Rightarrow> colour" where
  "color_to_egui c is_fg =
     (case c of
        ColorSpec r g b \<Rightarrow> Rgb r g b
      | ColorIndexed i \<Rightarrow> indexed_color i
      | ColorNamed NamedForeground \<Rightarrow> fg_default
      | ColorNamed NamedBackground \<Rightarrow> bg_default
      | ColorNamed (NamedOther n) \<Rightarrow>
          (let p = if n < length palette then palette ! n else fg_default
           in if \<not> is_fg \<and> p = bg_default then Transparent else p))"

section \<open>Keys\<close>

datatype key = KLetter char | KEnter | KBackspace | KTab | KEscape | KUp | KDown | KRight | KLeft
| KHome | KEnd | KPageUp | KPageDown | KDelete | KBackslash | KOther

record modifiers =
  mod_ctrl :: bool
  mod_mac_cmd :: bool
  mod_shift :: bool

definition control_letters :: "(char \<times> u8) list" where
  "control_letters =
     [(CHR ''A'', 0x01), (CHR ''B'', 0x02), (CHR ''C'', 0x03), (CHR ''D'', 0x04), (CHR ''E'', 0x05),
      (CHR ''F'', 0x06), (CHR ''G'', 0x07), (CHR ''H'', 0x08), (CHR ''K'', 0x0B), (CHR ''L'', 0x0C),
      (CHR ''N'', 0x0E), (CHR ''P'', 0x10), (CHR ''Q'', 0x11), (CHR ''R'', 0x12), (CHR ''T'', 0x14),
      (CHR ''U'', 0x15), (CHR ''W'', 0x17), (CHR ''Z'', 0x1A)]"

definition escape_bytes :: "string \<Rightarrow> u8 list" where
  "escape_bytes s = 0x1B # to_bytes s"

definition plain_key :: "key \<Rightarrow> modifiers \<Rightarrow> u8 list" where
  "plain_key k m =
     (case k of
        KEnter \<Rightarrow> [0x0D]
      | KBackspace \<Rightarrow> [0x7F]
      | KTab \<Rightarrow> if mod_shift m then escape_bytes ''[Z'' else [0x09]
      | KEscape \<Rightarrow> [0x1B]
      | KUp \<Rightarrow> escape_bytes ''[A'' | KDown \<Rightarrow> escape_bytes ''[B''
      | KRight \<Rightarrow> escape_bytes ''[C'' | KLeft \<Rightarrow> escape_bytes ''[D''
      | KHome \<Rightarrow> escape_bytes ''[H'' | KEnd \<Rightarrow> escape_bytes ''[F''
      | KPageUp \<Rightarrow> escape_bytes ''[5~'' | KPageDown \<Rightarrow> escape_bytes ''[6~''
      | KDelete \<Rightarrow> escape_bytes ''[3~''
      | KBackslash \<Rightarrow> if mod_ctrl m then [0x1C] else []
      | _ \<Rightarrow> [])"

definition key_to_bytes :: "key \<Rightarrow> modifiers \<Rightarrow> u8 list" where
  "key_to_bytes k m =
     (case (if mod_ctrl m \<or> mod_mac_cmd m then (case k of KLetter c \<Rightarrow> map_of control_letters c | _ \<Rightarrow> None) else None) of
        Some b \<Rightarrow> [b]
      | None \<Rightarrow> plain_key k m)"

section \<open>The terminal\<close>

record term_cell =
  tc_char :: string
  tc_zerowidth :: "string list"
  tc_fg :: term_color
  tc_bg :: term_color
  tc_inverse :: bool
  tc_dim :: bool

text \<open>
  The emulator: bytes fed to it, a new size, a scroll of its display, its cells in the order of
  display with their line and column in the grid, and its cursor when that is shown.\<close>

record 't emulator =
  em_new :: "nat \<Rightarrow> nat \<Rightarrow> nat \<Rightarrow> 't"
  em_advance :: "u8 list \<Rightarrow> 't \<Rightarrow> 't"
  em_resize :: "nat \<Rightarrow> nat \<Rightarrow> nat \<Rightarrow> 't \<Rightarrow> 't"
  em_scroll :: "int \<Rightarrow> 't \<Rightarrow> 't"
  em_cells :: "'t \<Rightarrow> ((int \<times> nat) \<times> term_cell) list"
  em_cursor :: "'t \<Rightarrow> (int \<times> nat) option"

record 't terminal =
  tt_term :: 't
  tt_cols :: nat
  tt_lines :: nat

definition scrollback_rows :: nat where "scrollback_rows = 2000"

definition total_lines :: "nat \<Rightarrow> nat" where "total_lines lines = lines + scrollback_rows"

definition new_terminal :: "'t emulator \<Rightarrow> 't terminal" where
  "new_terminal M = \<lparr>tt_term = em_new M 80 24 (total_lines 24), tt_cols = 80, tt_lines = 24\<rparr>"

definition feed :: "'t emulator \<Rightarrow> u8 list \<Rightarrow> 't terminal \<Rightarrow> 't terminal" where
  "feed M bytes t = t\<lparr>tt_term := em_advance M bytes (tt_term t)\<rparr>"

definition write_system :: "'t emulator \<Rightarrow> string \<Rightarrow> 't terminal \<Rightarrow> 't terminal" where
  "write_system M text_line =
     fold (\<lambda>l. feed M (escape_bytes ''[2m'' @ to_bytes l @ escape_bytes ''[0m'' @ [0x0D, 0x0A]))
       (split_on (\<lambda>c. c = newline) text_line)"

section \<open>Painting\<close>

text \<open>A filled background of so many cells, and a text, each from a line and a column.\<close>

datatype paint = FillCells int nat nat colour | DrawText int nat string colour | DrawCursor int nat

record run_state =
  rs_line :: "int option"
  rs_col :: nat
  rs_run :: string
  rs_fg :: colour
  rs_bg :: colour

definition paint_run :: "int option \<Rightarrow> nat \<Rightarrow> string \<Rightarrow> colour \<Rightarrow> colour \<Rightarrow> paint list" where
  "paint_run line col run fg bg =
     (case line of
        None \<Rightarrow> []
      | Some l \<Rightarrow>
          if run = [] then []
          else (if bg \<noteq> Transparent then [FillCells l col (chars_count run) bg] else []) @ [DrawText l col run fg])"

definition flush_run :: "paint list \<times> run_state \<Rightarrow> paint list \<times> run_state" where
  "flush_run = (\<lambda>(ps, r). (ps @ paint_run (rs_line r) (rs_col r) (rs_run r) (rs_fg r) (rs_bg r), r\<lparr>rs_run := []\<rparr>))"

definition cell_colours :: "(colour \<Rightarrow> colour) \<Rightarrow> term_cell \<Rightarrow> colour \<times> colour" where
  "cell_colours faint c =
     (let fg = color_to_egui (tc_fg c) True; bg = color_to_egui (tc_bg c) False;
          (fg, bg) = if tc_inverse c then (bg, fg) else (fg, bg)
      in (if tc_dim c then faint fg else fg, bg))"

definition cell_text :: "term_cell \<Rightarrow> string" where
  "cell_text c = tc_char c @ concat (tc_zerowidth c)"

definition paint_cell ::
    "(colour \<Rightarrow> colour) \<Rightarrow> (int \<times> nat) \<times> term_cell \<Rightarrow> paint list \<times> run_state \<Rightarrow> paint list \<times> run_state" where
  "paint_cell faint = (\<lambda>((line, col), c) st.
     let st = (if rs_line (snd st) \<noteq> Some line
               then (case flush_run st of (ps, r) \<Rightarrow> (ps, r\<lparr>rs_line := Some line, rs_col := 0\<rparr>)) else st);
         (fg, bg) = cell_colours faint c;
         r = snd st;
         st = (if col \<noteq> rs_col r \<or> fg \<noteq> rs_fg r \<or> bg \<noteq> rs_bg r
               then (case flush_run st of (ps, r) \<Rightarrow> (ps, r\<lparr>rs_fg := fg, rs_bg := bg, rs_col := col\<rparr>)) else st)
     in (case st of (ps, r) \<Rightarrow> (ps, r\<lparr>rs_run := rs_run r @ cell_text c\<rparr>)))"

definition no_run :: run_state where
  "no_run = \<lparr>rs_line = None, rs_col = 0, rs_run = [], rs_fg = Rgb 255 255 255, rs_bg = Transparent\<rparr>"

definition paint_cells :: "(colour \<Rightarrow> colour) \<Rightarrow> ((int \<times> nat) \<times> term_cell) list \<Rightarrow> paint list" where
  "paint_cells faint cells = fst (flush_run (fold (paint_cell faint) cells ([], no_run)))"

datatype ui_event = UiText string | UiPaste string | UiKey key bool modifiers | UiOther

record ui_frame =
  ui_cols :: nat
  ui_lines :: nat
  ui_focused :: bool
  ui_scroll :: "int option"
  ui_events :: "ui_event list"

definition event_input :: "ui_event \<Rightarrow> term_input list" where
  "event_input e =
     (case e of
        UiText s \<Rightarrow> [TermData (to_bytes s)]
      | UiPaste s \<Rightarrow> [TermData (to_bytes (map (\<lambda>c. if c = newline then CHR 0x0D else c) s))]
      | UiKey k pressed m \<Rightarrow>
          (let bytes = key_to_bytes k m in if pressed \<and> bytes \<noteq> [] then [TermData bytes] else [])
      | UiOther \<Rightarrow> [])"

definition fit_size :: "'t emulator \<Rightarrow> ui_frame \<Rightarrow> 't terminal \<Rightarrow> term_input list \<times> 't terminal" where
  "fit_size M u t =
     (let cols = min (max (ui_cols u) 20) 500; lines = min (max (ui_lines u) 4) 200
      in if cols \<noteq> tt_cols t \<or> lines \<noteq> tt_lines t
         then ([TermResize (of_nat cols) (of_nat lines)],
               t\<lparr>tt_term := em_resize M cols lines (total_lines lines) (tt_term t), tt_cols := cols, tt_lines := lines\<rparr>)
         else ([], t))"

definition cursor_paint :: "'t emulator \<Rightarrow> bool \<Rightarrow> 't terminal \<Rightarrow> paint list" where
  "cursor_paint M focused t =
     (case em_cursor M (tt_term t) of
        Some (l, c) \<Rightarrow> if focused \<and> 0 \<le> l \<and> l < int (tt_lines t) then [DrawCursor l c] else []
      | None \<Rightarrow> [])"

definition render :: "'t emulator \<Rightarrow> (colour \<Rightarrow> colour) \<Rightarrow> ui_frame \<Rightarrow> 't terminal \<Rightarrow> term_input list \<times> paint list \<times> 't terminal" where
  "render M faint u t =
     (let (resized, t1) = fit_size M u t;
          t2 = (case ui_scroll u of None \<Rightarrow> t1 | Some n \<Rightarrow> t1\<lparr>tt_term := em_scroll M n (tt_term t1)\<rparr>)
      in (resized @ (if ui_focused u then concat (map event_input (ui_events u)) else []),
          paint_cells faint (em_cells M (tt_term t2)) @ cursor_paint M (ui_focused u) t2,
          t2))"

section \<open>Rows of the log and audit views\<close>

definition truncate_chars :: "string \<Rightarrow> nat \<Rightarrow> string" where
  "truncate_chars s n = (if n < chars_count s then take_chars n s else s)"

definition one_line :: "string \<Rightarrow> string" where
  "one_line = map (\<lambda>c. if c = newline then CHR '' '' else c)"

definition message_text :: "json \<Rightarrow> string" where
  "message_text content =
     (case content of
        JStr s \<Rightarrow> s
      | JArr cs \<Rightarrow> join '' '' (List.map_filter (\<lambda>c. as_str (json_get ''text'' c))
          (filter (\<lambda>c. json_get ''type'' c = JStr ''text'') cs))
      | _ \<Rightarrow> [])"

definition summarize_payload :: "(json \<Rightarrow> string) \<Rightarrow> json \<Rightarrow> string" where
  "summarize_payload print ev =
     (let p = json_get ''payload'' ev; kind = unwrap_or [] (as_str (json_get ''kind'' ev))
      in if kind = ''message_end'' then
           (let msg = json_get ''message'' p
            in unwrap_or ''?'' (as_str (json_get ''role'' msg)) @ '': '' @
               truncate_chars (one_line (message_text (json_get ''content'' msg))) 120)
         else if kind = ''pi_stderr'' then truncate_chars (unwrap_or [] (as_str (json_get ''line'' p))) 140
         else one_line (truncate_chars (print p) 140))"

definition summarize_audit_detail :: "(json \<Rightarrow> string) \<Rightarrow> json \<Rightarrow> string" where
  "summarize_audit_detail print detail =
     (case detail of
        JObj kvs \<Rightarrow>
          join '' '' (map (\<lambda>(k, v). k @ ''='' @ truncate_chars (case v of JStr s \<Rightarrow> s | other \<Rightarrow> print other) 60) kvs)
      | _ \<Rightarrow> truncate_chars (print detail) 140)"

text \<open>\<open>str::get\<close> of a range of bytes: nothing when it is out of range or cuts a character.\<close>

definition byte_range :: "nat \<Rightarrow> nat \<Rightarrow> string \<Rightarrow> string option" where
  "byte_range a b s =
     (if b \<le> length s \<and> \<not> utf8_more (s ! a) \<and> (b = length s \<or> \<not> utf8_more (s ! b))
      then Some (take (b - a) (drop a s)) else None)"

definition kind_color :: "string \<Rightarrow> colour" where
  "kind_color kind =
     (if kind = ''message_end'' then Rgb 0xcd 0xcc 0xd2
      else if kind \<in> {''turn_start'', ''turn_end''} then Rgb 0xd3 0xa0 0x27
      else if kind \<in> {''spawned'', ''session_started''} then Rgb 0x5f 0xae 0x74
      else if kind \<in> {''crashed'', ''pi_exit'', ''driver_died'', ''pi_stderr''} then Rgb 0xc4 0x6a 0x6a
      else if kind = ''order_received'' then Rgb 0x64 0x8C 0xC8
      else Rgb 0xb0 0xaf 0xb6)"

definition action_color :: "string \<Rightarrow> colour" where
  "action_color action =
     (if contains_str action ''destroy'' \<or> contains_str action ''remove'' \<or> contains_str action ''delete''
      then Rgb 0xc4 0x6a 0x6a
      else if contains_str action ''create'' \<or> contains_str action ''approve'' then Rgb 0x5f 0xae 0x74
      else if contains_str action ''secret'' then Rgb 0xC8 0x8C 0xE0
      else Rgb 0xd3 0xa0 0x27)"

definition log_row :: "(json \<Rightarrow> string) \<Rightarrow> json \<Rightarrow> string \<times> string \<times> colour \<times> string" where
  "log_row print ev =
     (let kind = unwrap_or ''?'' (as_str (json_get ''kind'' ev)); at_text = unwrap_or [] (as_str (json_get ''at'' ev))
      in (unwrap_or at_text (byte_range 11 19 at_text), kind, kind_color kind, summarize_payload print ev))"

definition log_rows :: "(json \<Rightarrow> string) \<Rightarrow> logs_state \<Rightarrow> (string \<times> string \<times> colour \<times> string) list" where
  "log_rows print st = map (log_row print) (lo_events st)"

definition activity_shown :: "(json \<Rightarrow> string) \<Rightarrow> string \<Rightarrow> string \<Rightarrow> json \<Rightarrow> bool" where
  "activity_shown print action q entry \<longleftrightarrow>
     (action = [] \<or> contains_str (unwrap_or ''?'' (as_str (json_get ''action'' entry))) action) \<and>
     (q = [] \<or> contains_str (print entry) q)"

definition activity_row :: "(json \<Rightarrow> string) \<Rightarrow> json \<Rightarrow> string \<times> string \<times> colour \<times> string" where
  "activity_row print entry =
     (let action = unwrap_or ''?'' (as_str (json_get ''action'' entry)); at_text = unwrap_or [] (as_str (json_get ''at'' entry))
      in (map (\<lambda>c. if c = CHR ''T'' then CHR '' '' else c) (unwrap_or at_text (byte_range 5 19 at_text)),
          action, action_color action, summarize_audit_detail print (json_get ''detail'' entry)))"

definition activity_rows :: "(json \<Rightarrow> string) \<Rightarrow> activity_state \<Rightarrow> (string \<times> string \<times> colour \<times> string) list" where
  "activity_rows print st =
     map (activity_row print) (filter (activity_shown print (trim (ac_action st)) (trim (ac_q st))) (ac_entries st))"

section \<open>What is painted\<close>

text \<open>Every cell is painted by itself, at its place and in its colours: a run never has two cells.\<close>

definition cell_paint :: "(colour \<Rightarrow> colour) \<Rightarrow> (int \<times> nat) \<times> term_cell \<Rightarrow> paint list" where
  "cell_paint faint = (\<lambda>((line, col), c).
     case cell_colours faint c of (fg, bg) \<Rightarrow> paint_run (Some line) col (cell_text c) fg bg)"

definition run_of :: "(colour \<Rightarrow> colour) \<Rightarrow> (int \<times> nat) \<times> term_cell \<Rightarrow> run_state" where
  "run_of faint = (\<lambda>((line, col), c). case cell_colours faint c of
     (fg, bg) \<Rightarrow> \<lparr>rs_line = Some line, rs_col = col, rs_run = cell_text c, rs_fg = fg, rs_bg = bg\<rparr>)"

lemma flush_run_of: "flush_run (ps, run_of faint x) = (ps @ cell_paint faint x, (run_of faint x)\<lparr>rs_run := []\<rparr>)"
  by (cases x) (auto simp: flush_run_def run_of_def cell_paint_def split: prod.split)

lemma run_of_at: "rs_line (run_of faint x) = Some (fst (fst x))" "rs_col (run_of faint x) = snd (fst x)"
  by (simp_all add: run_of_def split: prod.split)

lemma paint_cell_elsewhere:
  assumes "rs_line r \<noteq> Some (fst (fst x)) \<or> rs_col r \<noteq> snd (fst x)"
  shows "paint_cell faint x (ps, r) = (fst (flush_run (ps, r)), run_of faint x)"
  using assms by (cases x; cases r) (auto simp: paint_cell_def flush_run_def run_of_def paint_run_def Let_def split: prod.split)

lemma fold_paint_cells:
  "distinct (map fst (x # xs)) \<Longrightarrow>
     fst (flush_run (fold (paint_cell faint) xs (ps, run_of faint x))) = ps @ concat (map (cell_paint faint) (x # xs))"
proof (induction xs arbitrary: x ps)
  case (Cons y xs)
  then have "fst x \<noteq> fst y" by auto
  then have "paint_cell faint y (ps, run_of faint x) = (ps @ cell_paint faint x, run_of faint y)"
    by (subst paint_cell_elsewhere) (auto simp: flush_run_of run_of_at prod_eq_iff)
  then show ?case using Cons by simp
qed (simp add: flush_run_of)

lemma cells_painted:
  assumes "distinct (map fst cells)"
  shows "paint_cells faint cells = concat (map (cell_paint faint) cells)"
proof (cases cells)
  case (Cons x xs)
  have "paint_cell faint x ([], no_run) = ([], run_of faint x)"
    by (subst paint_cell_elsewhere) (auto simp: flush_run_def no_run_def paint_run_def)
  then show ?thesis using assms fold_paint_cells [of x xs faint "[]"] by (simp add: Cons paint_cells_def)
qed (simp add: paint_cells_def flush_run_def no_run_def paint_run_def)

text \<open>Reversed text in the default colours is painted with the transparent default background as its ink.\<close>

lemma inverse_default_invisible:
  assumes "tc_fg c = ColorNamed NamedForeground" "tc_bg c = ColorNamed NamedBackground" "tc_inverse c" "\<not> tc_dim c"
    "cell_text c \<noteq> []"
  shows "paint_cells faint [((l, n), c)] = [FillCells l n (chars_count (cell_text c)) fg_default, DrawText l n (cell_text c) Transparent]"
  using assms by (simp add: cells_painted cell_paint_def cell_colours_def color_to_egui_def paint_run_def fg_default_def bg_default_def)

text \<open>
  A display that is scrolled back by some rows shows the lines from minus that number on, which the
  widget takes for its own rows: history is painted above it and as many rows at its foot stay empty.\<close>

definition display_rows :: "nat \<Rightarrow> nat \<Rightarrow> nat \<Rightarrow> (int \<Rightarrow> nat \<Rightarrow> term_cell) \<Rightarrow> ((int \<times> nat) \<times> term_cell) list" where
  "display_rows back lines cols grid =
     concat (map (\<lambda>l. map (\<lambda>c. ((l, c), grid l c)) [0..<cols]) [- int back..int lines - int back - 1])"

definition paint_line :: "paint \<Rightarrow> int" where
  "paint_line p = (case p of FillCells l _ _ _ \<Rightarrow> l | DrawText l _ _ _ \<Rightarrow> l | DrawCursor l _ \<Rightarrow> l)"

lemma display_rows_distinct: "distinct (map fst (display_rows back lines cols grid))"
proof -
  have "distinct (concat (map (\<lambda>l. map (Pair l) [0..<cols]) ls))" if "distinct ls" for ls :: "int list"
    using that by (induction ls) (auto simp: distinct_map inj_on_def)
  then show ?thesis by (simp add: display_rows_def map_concat comp_def)
qed

lemma history_is_painted_outside:
  assumes "p \<in> set (paint_cells faint (display_rows back lines cols grid))"
  shows "- int back \<le> paint_line p \<and> paint_line p < int lines - int back"
  using assms unfolding cells_painted [OF display_rows_distinct]
  by (auto simp: display_rows_def cell_paint_def paint_run_def paint_line_def split: prod.splits if_splits)

section \<open>Bounds\<close>

text \<open>The arithmetic of the colour cube and of the greys stays within a byte.\<close>

definition level :: "nat \<Rightarrow> nat" where
  "level k = (if k = 0 then 0 else 55 + k * 40)"

lemma u8_div: "n < 256 \<Longrightarrow> 0 < m \<Longrightarrow> m < 256 \<Longrightarrow> (of_nat n :: u8) div of_nat m = of_nat (n div m)"
  using le_less_trans [OF div_le_dividend [of n m], of 256] by (simp add: word_unat_eq_iff unat_div unat_of_nat)

lemma u8_mod: "n < 256 \<Longrightarrow> 0 < m \<Longrightarrow> m < 256 \<Longrightarrow> (of_nat n :: u8) mod of_nat m = of_nat (n mod m)"
  using le_less_trans [OF mod_less_eq_dividend [of n m], of 256] by (simp add: word_unat_eq_iff unat_mod unat_of_nat)

lemma cube_level:
  assumes "k < 6"
  shows "cube (of_nat k) = of_nat (level k) \<and> level k < 256"
proof -
  have "k \<in> {0, 1, 2, 3, 4, 5}" using assms by auto
  then show ?thesis by (auto simp: cube_def level_def)
qed

lemma indexed_color_exact:
  "n < 216 \<Longrightarrow> indexed_color (of_nat (16 + n)) =
     Rgb (of_nat (level (n div 36))) (of_nat (level (n mod 36 div 6))) (of_nat (level (n mod 6))) \<and>
     level (n div 36) < 256 \<and> level (n mod 36 div 6) < 256 \<and> level (n mod 6) < 256"
  "n < 24 \<Longrightarrow> indexed_color (of_nat (232 + n)) =
     Rgb (of_nat (8 + n * 10)) (of_nat (8 + n * 10)) (of_nat (8 + n * 10)) \<and> 8 + n * 10 < 256"
proof -
  assume n: "n < 216"
  have k: "n div 36 < 6" "n mod 36 div 6 < 6" "n mod 6 < 6" using n by (simp_all add: less_mult_imp_div_less)
  have "\<not> (of_nat (16 + n) :: u8) \<le> 15" "(of_nat (16 + n) :: u8) \<le> 231"
    using n by (simp_all add: word_le_nat_alt unat_of_nat del: of_nat_add)
  then show "indexed_color (of_nat (16 + n)) =
     Rgb (of_nat (level (n div 36))) (of_nat (level (n mod 36 div 6))) (of_nat (level (n mod 6))) \<and>
     level (n div 36) < 256 \<and> level (n mod 36 div 6) < 256 \<and> level (n mod 6) < 256"
    using n k cube_level [OF k(1)] cube_level [OF k(2)] cube_level [OF k(3)]
      u8_div [of n 36] u8_mod [of n 36] u8_div [of "n mod 36" 6] u8_mod [of n 6]
    by (simp add: indexed_color_def Let_def)
next
  assume n: "n < 24"
  have "\<not> (of_nat (232 + n) :: u8) \<le> 15" "\<not> (of_nat (232 + n) :: u8) \<le> 231"
    using n by (simp_all add: word_le_nat_alt unat_of_nat del: of_nat_add)
  then show "indexed_color (of_nat (232 + n)) =
     Rgb (of_nat (8 + n * 10)) (of_nat (8 + n * 10)) (of_nat (8 + n * 10)) \<and> 8 + n * 10 < 256"
    using n by (simp add: indexed_color_def Let_def)
qed

text \<open>The size sent is the size taken, within its bounds, and is sent once.\<close>

lemma size_is_sent_once:
  assumes "fit_size M u t = (sent, t1)"
  shows "fit_size M u t1 = ([], t1) \<and> 20 \<le> tt_cols t1 \<and> tt_cols t1 \<le> 500 \<and> 4 \<le> tt_lines t1 \<and> tt_lines t1 \<le> 200 \<and>
    (sent = [] \<and> t1 = t \<or>
     (\<exists>c r. sent = [TermResize c r] \<and> unat c = tt_cols t1 \<and> unat r = tt_lines t1))"
proof -
  obtain c r where size: "c = min (max (ui_cols u) 20) 500" "r = min (max (ui_lines u) 4) 200" by blast
  then have bounds: "20 \<le> c" "c \<le> 500" "4 \<le> r" "r \<le> 200" by simp_all
  have "fit_size M u t' = (if c \<noteq> tt_cols t' \<or> r \<noteq> tt_lines t'
      then ([TermResize (of_nat c) (of_nat r)],
        t'\<lparr>tt_term := em_resize M c r (total_lines r) (tt_term t'), tt_cols := c, tt_lines := r\<rparr>)
      else ([], t'))" for t'
    unfolding fit_size_def Let_def size by (rule HOL.refl)
  then show ?thesis using assms bounds by (auto simp: unat_of_nat split: if_splits)
qed

text \<open>A letter with Ctrl is its control byte, apart from eight letters that send nothing.\<close>

lemma control_key:
  assumes "c \<in> set ''ABCDEFGHIJKLMNOPQRSTUVWXYZ''" "mod_ctrl m \<or> mod_mac_cmd m"
  shows "key_to_bytes (KLetter c) m = (if c \<in> set ''IJMOSVXY'' then [] else [of_nat (of_char c - 64)])"
  using assms by (auto simp: key_to_bytes_def control_letters_def plain_key_def)

text \<open>A text is cut after a number of characters and never inside one.\<close>

lemma take_chars_prefix: "\<exists>r. s = take_chars n s @ r \<and> chars_count (take_chars n s) = min n (chars_count s) \<and>
    (r \<noteq> [] \<longrightarrow> \<not> utf8_more (hd r))"
proof (induction n s rule: take_chars.induct)
  case (2 n b s)
  then show ?case by (cases n) (auto simp: chars_count_def)
qed (simp add: chars_count_def)

lemma truncate_chars_cut:
  "\<exists>r. s = truncate_chars s n @ r \<and> chars_count (truncate_chars s n) = min n (chars_count s) \<and>
     (r \<noteq> [] \<longrightarrow> \<not> utf8_more (hd r))"
  using take_chars_prefix [of s n] by (auto simp: truncate_chars_def)

end
