(* ===== verification/Driver_Location.thy ===== *)
theory Driver_Location
  imports Prelude
begin

text \<open>
  Where a host finds the script of its VM driver and the node that runs it (\<open>driver_script\<close> and
  \<open>node_binary\<close> of crates/castellan/src/driver.rs). A path is its components; the environment, the
  directories of the process and what exists are the record \<open>host_paths\<close>.
\<close>

datatype file_path = AbsPath "string list" | RelPath "string list"

record host_paths =
  hp_override :: "file_path option"
  hp_data :: "string list"
  hp_exe :: "string list option"
  hp_cwd :: "string list option"
  hp_exists :: "file_path \<Rightarrow> bool"

definition driver_rel :: "string list" where
  "driver_rel = [''tools'', ''gondolin-driver'', ''src'', ''index.mjs'']"

definition path_parent :: "string list \<Rightarrow> string list option" where
  "path_parent p = (if p = [] then None else Some (butlast p))"

text \<open>The directory and those above it, the nearest first; the components are reversed.\<close>

fun walk_up :: "(file_path \<Rightarrow> bool) \<Rightarrow> string list \<Rightarrow> file_path option" where
  "walk_up ex d =
     (let p = AbsPath (rev d @ driver_rel)
      in if ex p \<and> ex (AbsPath (rev d @ [''Cargo.toml''])) then Some p
         else (case d of [] \<Rightarrow> None | _ # up \<Rightarrow> walk_up ex up))"

declare walk_up.simps [simp del]

text \<open>The first candidates: the override, the installed copy, the repository that the program was built in.\<close>

definition exe_repo :: "host_paths \<Rightarrow> string list option" where
  "exe_repo H = Option.bind (hp_exe H) (\<lambda>e. Option.bind (path_parent e) (\<lambda>p. Option.bind (path_parent p) path_parent))"

definition first_candidates :: "host_paths \<Rightarrow> file_path list" where
  "first_candidates H =
     (case hp_override H of None \<Rightarrow> [] | Some p \<Rightarrow> [p]) @
     [AbsPath (hp_data H @ [''driver'', ''src'', ''index.mjs''])] @
     (case exe_repo H of None \<Rightarrow> [] | Some repo \<Rightarrow> [AbsPath (repo @ driver_rel)])"

text \<open>The error lists the paths that were tried; the directories above the current one are not among them.\<close>

definition driver_script :: "host_paths \<Rightarrow> file_path list + file_path" where
  "driver_script H =
     (case find (hp_exists H) (first_candidates H) of
        Some p \<Rightarrow> Inr p
      | None \<Rightarrow>
          (case Option.bind (hp_cwd H) (\<lambda>d. walk_up (hp_exists H) (rev d)) of
             Some p \<Rightarrow> Inr p
           | None \<Rightarrow>
               if hp_exists H (RelPath driver_rel) then Inr (RelPath driver_rel)
               else Inl (first_candidates H @ [RelPath driver_rel])))"

definition node_binary :: "string option \<Rightarrow> string option \<Rightarrow> string" where
  "node_binary which home =
     (case map_option trim which of
        Some p \<Rightarrow> if p \<noteq> [] then p else unwrap_or [] home @ ''/.local/share/mise/shims/node''
      | None \<Rightarrow> unwrap_or [] home @ ''/.local/share/mise/shims/node'')"

lemma walk_up_found:
  "walk_up ex d = Some p \<Longrightarrow> ex p \<and> (\<exists>us vs. d = us @ vs \<and> p = AbsPath (rev vs @ driver_rel) \<and>
     ex (AbsPath (rev vs @ [''Cargo.toml''])))"
proof (induction ex d rule: walk_up.induct)
  case (1 ex d)
  show ?case
  proof (cases "ex (AbsPath (rev d @ driver_rel)) \<and> ex (AbsPath (rev d @ [''Cargo.toml'']))")
    case True
    then show ?thesis using "1.prems" by (subst (asm) walk_up.simps) (auto simp: Let_def)
  next
    case False
    then obtain c up where d: "d = c # up" "walk_up ex up = Some p"
      using "1.prems" by (subst (asm) walk_up.simps) (auto simp: Let_def split: list.splits)
    then obtain us vs where "up = us @ vs" "ex p" "p = AbsPath (rev vs @ driver_rel)" "ex (AbsPath (rev vs @ [''Cargo.toml'']))"
      using "1.IH" [OF HOL.refl False d(1)] by blast
    then show ?thesis using d(1) by (metis append_Cons)
  qed
qed

text \<open>
  A script that is found exists, and one above the current directory is in a checkout; when none is
  found, none of the paths listed exists. An override that exists is taken.\<close>

lemma driver_script_exists:
  "driver_script H = Inr p \<Longrightarrow> hp_exists H p"
  "driver_script H = Inl tried \<Longrightarrow> \<forall>p \<in> set tried. \<not> hp_exists H p"
  "hp_override H = Some p \<Longrightarrow> hp_exists H p \<Longrightarrow> driver_script H = Inr p"
  by (auto simp: driver_script_def find_Some_iff find_None_iff bind_eq_Some_conv first_candidates_def
      dest: walk_up_found split: option.splits if_splits)

end
