(* ===== verification/Spec2Isabelle.thy ===== *)
theory Spec2Isabelle
  imports Store_Theorems Web_Theorems Messages Secret_Store Base64 Bundle_Store Control_Theorems Lifecycle
    Scheduler_Theorems Wake_Theorems Actions_Theorems Retention Log_Shipping
    Provision_Theorems Supervisor_Theorems Host_Control_Theorems
    Client_Codec Client_Stream Client_Rest Suzy_Theorems Create_Theorems Prompt_Theorems Session_Theorems
    Store_Schema Node_Keys Start_Up Host_Connection_Theorems Cli Package_Catalog Suzy_Display Driver_Location
begin

text \<open>
  Suzerain runs coding agents in virtual machines. A control plane (crates/suzerain) keeps the
  registry of agents and hosts, the secrets and the operators' API; a daemon on every host
  (castellan, crates/castellan) boots the VMs through an external driver process, supervises the pi
  process in each and dials the control plane; crates/protocol is what the two say to each other;
  crates/suzerain-client, crates/suzerain-mcp and crates/suzy are the operators' side.

  How the parts interact. An operator's request reaches a handler of the web API, which reads and
  writes the store and sends orders to a daemon's session. A new agent is placed by the scheduler,
  which may suspend an idle one for it; the wake service delivers messages to sleeping agents and
  restores lost ones from their bundle; the sweeps of auto-suspend and retention run beside them.
  A daemon registers, pulls the secrets of its agents, reports their states, ships their journals
  and uploads their bundles; the host control executes its orders with the supervisor, which calls
  the provisioners, the VM driver and pi. The clients read the API's JSON and its event streams.

  Which theory models what, in the order of their imports.

  \<^item> Prelude: 64-bit words, results (an error is \<open>Inl\<close>), the fragment of \<open>str\<close> the program uses,
    \<open>BTreeMap\<close> as a sorted association list, tables as lists of rows, and the lemma collections
    \<open>rows\<close>, \<open>btree\<close> and \<open>strs\<close>. Lines: text files as lines. Json: reading and building of \<open>Value\<close>s.
  \<^item> Proto_Types, Messages (crates/protocol): lifecycle states, durations, manifest, node facts, log
    events, policies; orders, hellos, reports and bundles, and the JSONL framing of every stream.
    Lemmas: durations modulo \<open>2 ^ 64\<close>; a written stream is read back, the reader is bounded and
    classifies every ending.
  \<^item> Store, Store_Props, Store_Iface, Store_Theorems (crates/suzerain/src/store.rs, registry.rs,
    chat_store.rs): the tables, one definition per operation of \<open>impl Store\<close>. \<open>store_step\<close> is one
    call and \<open>reachable_store\<close> the databases that calls lead to. The locales \<open>agent_registry\<close>,
    \<open>wake_queue\<close> and \<open>chat_log\<close> are the slices of the store's traits its clients use, interpreted on
    the model. Lemmas: keys stay unique, at most one session era is open, delivery rounds lose no
    arrival, at-least-once shipping stores each event once.
  \<^item> Secret_Store (secrets.rs), Base64 and Bundle_Store (bundle.rs and the bundle receiver of
    control.rs): slicing, preflight, mutations with their file; the codec; the bundle directory, the
    upload, the checksum and \<open>load\<close>. The locale \<open>snapshot_store\<close> is the contract of the directory,
    interpreted on it. Lemmas: memory and disk agree, a passed preflight slices, uploads replace.
  \<^item> Control_Plane, Control_Theorems (control.rs, audit.rs): sessions fenced by registration epochs,
    registration, heartbeats, orders, and the receivers of reports, pulls and log batches; \<open>cp_step\<close>
    and \<open>cp_reach\<close> interleave them. Lemmas: a stale session removes nothing newer, reports converge
    the rows of their own daemon, a pull gives the secrets of owned agents only.
  \<^item> Lifecycle (lifecycle.rs), Scheduler and Scheduler_Theorems (scheduler.rs), Wake and
    Wake_Theorems (wake.rs), Actions and Actions_Theorems (actions.rs, catalog.rs), Retention
    (retention.rs). The locale \<open>placement_strategy\<close> is the pluggable strategy with the default as its
    interpretation. Lemmas: no overcommitment, best score, guarded preemption and sweep, exactly-once
    ordered delivery, a wake or a creation always settles the row, destruction is all or nothing,
    pruning keeps exactly the fresh lines.
  \<^item> Journal, Log_Shipping, Shell, Manifest_Rules, Host_Records (crates/castellan: journal.rs,
    secrets.rs, parts of control.rs, provision.rs and state.rs). \<open>ship_step\<close> is the shipping protocol
    between one journal and the receiver of the control plane; Shell has a reference reader of the
    quoting fragment of the POSIX shell grammar. Lemmas: journals hide registered secrets, shipping
    loses nothing, quoted words read back, validation establishes a declarative predicate.
  \<^item> Host_Driver, Provision, Provisioners, Provision_Theorems, Supervisor, Supervisor_Theorems,
    Host_Control, Host_Control_Theorems (driver.rs, rpc.rs, provision.rs, supervisor.rs, control.rs,
    lib.rs): the clients of driver and pi as state machines, the calls to a VM as state-passing
    actions that record every command, the two provisioners, the supervisor with its crash respawn,
    and the execution of orders. Lemmas: a manifest is never shell syntax in the guest, a failed
    provisioning is recorded and reported, crash loops are bounded, a suspend order loses no session
    file, a restore stays in the agent's directory.
  \<^item> Transcript, Web_Api, Web_Theorems, Web_Routes (web.rs, web_session.rs, audit.rs): one definition
    per JSON handler, the conversation as it is rebuilt from an agent's log, and the router with the
    extractors of path, query and body. Lemmas: a bounded read of a
    log gives the newest part of the page, removing a daemon leaves no agent behind, no answer but
    the audited reveal depends on a secret value.
  \<^item> Client_Codec, Client_Stream, Client_Rest (crates/suzerain-client: lib.rs, transport.rs, and
    crates/suzerain-mcp/src/client.rs): encodings, the event-stream reader, one request over either
    transport with its retry rule, and \<open>ask\<close>. Lemmas: chunk borders are irrelevant, a request that
    changes anything is sent at most once, \<open>ask\<close> answers.
  \<^item> Client_Api (crates/suzerain-client/src/lib.rs, crates/suzerain/src/operator.rs, suzy's net.rs):
    every typed call as the request it sends, the REST requests of the operator channel, the tasks of
    the desktop client. Lemma: a call whose names are plain reaches its handler, has its effect only
    and brings its answer back; with other names it can reach another handler.
  \<^item> Mcp_Server, Mcp_Theorems (crates/suzerain-mcp): one definition per tool over a transport that is
    a parameter, and the check of a create. Lemmas: every request of a tool is one it may make,
    whatever it is answered, and a create that passes the check passes the control plane's.
  \<^item> Chat_View, Suzy_State, Suzy_App, Suzy_Theorems (crates/suzy: chat.rs, lib.rs, the state structs of
    views.rs, net.rs): one conversation, and the whole client as a state with an event per input and
    message. Lemmas: live and replayed conversations agree, no index goes out of range, removing a
    workspace keeps the others, a secret shown answers the last reveal asked for.
  \<^item> Create_Form, Create_Theorems (crates/suzy/src/create.rs): the create dialog with its form, its
    catalogs and its TOML text. Lemmas: which manifests the form can show, what is submitted is what
    is shown, and what the form offers the control plane accepts.
  \<^item> Prompt_Flow, Prompt_Theorems (web_session.rs: \<open>session_prompt\<close>): a prompt to an agent that is
    awake or asleep, over the wake service. Lemma: a sleeping agent is woken and given the prompt.
  \<^item> Session_Relay, Session_Theorems (web_session.rs, web.rs, operator.rs, transport.rs, suzy's
    net.rs): the live session with its wake narration, the streams of the operator channel, the shell
    relays, and the session, shell and workspace tasks of the desktop client. Lemmas: a session
    arrives as it was told, a shell keeps everything in order, and what a cancelled read loses.

  \<^item> Store_Schema (store.rs): opening a database of any version on either backend, with its seven
    migrations. Lemma: every database of the program's own is brought to the current schema with its
    rows kept, apart from one that a race has given two open eras, which is never opened again.
  \<^item> Node_Keys (identity.rs, secrets.rs, castellan's \<open>identity\<close>, suzy's config.rs): the identity keys and
    the age keys, generated once and found again, the sealing they give the secrets store, and the
    migration from SOPS. Lemmas: keys stay, what is sealed stays readable, and which broken file
    loses a key.
  \<^item> Start_Up (suzerain's main.rs, standalone.rs, retention.rs, \<open>start\<close> of control.rs; castellan's
    control.rs and lib.rs): the configuration files, the preparation of a host, the start of the control
    plane and of the host beside it. Lemmas: an operator named at the start is let in now and later
    and the rest of the file stays, the host of a standalone node is approved under the identity it
    starts with, and what the start does not look at.
  \<^item> Driver_Location (castellan/src/driver.rs): where the driver script and node are found.
  \<^item> Host_Probe (castellan/src/probe.rs): capacity and usage read from what the operating system
    tells. Host_Connection, Host_Connection_Theorems (castellan/src/control.rs,
    suzerain/src/control.rs): one connection of a host, from its registration through the streams it
    serves, its reporter and its log task, to its end. Lemmas: the rows of the control plane follow the
    registry of the host, enrolment goes through the operator, and a snapshot that overtakes an
    order marks a new agent as failed.
  \<^item> Cli (crates/suzerain-cli): one definition per command, as the calls it makes and the lines it
    prints. Lemmas: input that is refused sends nothing, an approval sticks.
  \<^item> Package_Catalog (pi_packages.rs, web.rs): the crawl of the catalog with its cache, the parser of the
    cards and the query. Lemmas: pages partition the answer, a crawl without an error is complete.

  \<^item> Suzy_Display (suzy's terminal.rs and views.rs): a frame of the terminal with its size, colours, cells
    and input, and the rows of the log and audit views. Lemmas: every cell is painted once, at its
    place; colours and sizes stay in bounds; which keys and which lines are lost.

  Representation. Strings are lists of bytes with the program's ASCII classes; \<open>short_prefix\<close> and
  the percent encoding are where characters beyond ASCII matter and say so. Counters and sizes that
  can wrap are words of their width. Times are seconds or nanoseconds since the epoch; registration
  epochs are natural numbers. A \<open>HashMap\<close> is a function to options, a \<open>BTreeMap\<close> or a table a list.
  Scores are rationals where the code has doubles far below \<open>2 ^ 53\<close>. A handler runs to its end
  between awaits; where it spawns a task, the state at the answer and after the task are both given.

  Parameters. Codecs (JSON, YAML, RFC 3339, UUIDs), sha256, age encryption, the file system beneath a
  directory, the answers of daemons to orders (\<open>net\<close>, which may depend on every order sent before),
  the attach stream, the driver with the guest behind it (\<open>'g platform\<close>), the uplink of a host and
  the texts of errors are arguments. Hypotheses name what is relied on: a codec reads back what it
  wrote; a checksum distinguishes; a quiet platform writes nothing between upload and rotation.
  Each property with hypotheses has a witness on concrete functions.

  Bounds and fuel. \<open>flush_pending\<close> takes more fuel than there are rounds of arrivals, after which the
  queue is empty; \<open>restart_with_backoff\<close> takes six units, since the sixth admission within the window
  of five restarts fails the agent, and is shown to run out of any fuel when every attempt is slower
  than the window allows; \<open>ask\<close> takes one unit for each poll before its deadline; \<open>read_all\<close> takes more
  fuel than its input has bytes. All other loops are structural or have a measure.

  Not modelled, and why. Sockets, QUIC, HTTP and process plumbing, task handles, file and database
  failures other than the error branches shown: I/O with no decision of the program's own. Regular
  expressions, key generation and encryption are library code and so parameters. Static files, the
  gossip presence and, of the desktop client, drawing other than the terminal and the rows of its
  logs, the file dialogs and the terminal emulator are left out. The race of the event monitor
  with an order, and writes of the guest between an upload and the rotation that follows it, are
  outside the models of the supervisor; a provisioning cut off by its timeout is the outcome
  \<open>CutOff\<close>.
\<close>

end
